(* ===== verification/Prelude.thy ===== *)
theory Prelude
  imports Complex_Main "HOL-Library.Word" "HOL-Library.Signed_Division" "HOL-Library.Sublist"
begin

text \<open>
  The fragment of Go and of its standard library that the modelled packages use, and the lemmas
  the components share.

  \<^item> Outcomes: a Go function that returns \<open>(v, err)\<close> and may panic has a result of type
    \<open>('e, 'a) go\<close>; a function that only may panic returns an option (\<open>None\<close> is the panic).
  \<^item> Integers: \<open>int\<close> and \<open>int64\<close> are values of HOL's \<open>int\<close>, with \<open>i64\<close> written wherever an
    operation of the source can leave the 64-bit range.
  \<^item> Strings: a Go string is a list of bytes, which is HOL's \<open>string\<close>; the functions that look at
    code points (\<open>strings.TrimSpace\<close>, \<open>strings.ToLower\<close>, \<open>[]rune(s)\<close>) work on its UTF-8
    chunks.
  \<^item> float64: a rational number together with the rounding function \<open>fl\<close> of the arithmetic.
\<close>

section \<open>Collections of facts\<close>

named_theorems go_eval \<open>unfolding equations of the run-time library\<close>

section \<open>Outcomes\<close>

datatype ('e, 'a) go = Ok 'a | Err 'e | Panic

fun go_bind :: "('e, 'a) go \<Rightarrow> ('a \<Rightarrow> ('e, 'b) go) \<Rightarrow> ('e, 'b) go" where
  "go_bind (Ok x) f = f x"
| "go_bind (Err e) f = Err e"
| "go_bind Panic f = Panic"

fun is_ok :: "('e, 'a) go \<Rightarrow> bool" where
  "is_ok (Ok x) = True"
| "is_ok (Err e) = False"
| "is_ok Panic = False"

lemma go_bind_eq_Ok: "go_bind m f = Ok y \<longleftrightarrow> (\<exists>x. m = Ok x \<and> f x = Ok y)"
  by (cases m) auto

lemma go_bind_eq_Err: "go_bind m f = Err e \<longleftrightarrow> m = Err e \<or> (\<exists>x. m = Ok x \<and> f x = Err e)"
  by (cases m) auto

lemma go_bind_eq_Panic: "go_bind m f = Panic \<longleftrightarrow> m = Panic \<or> (\<exists>x. m = Ok x \<and> f x = Panic)"
  by (cases m) auto

lemmas go_bind_conv = go_bind_eq_Ok go_bind_eq_Err go_bind_eq_Panic

text \<open>Functional options: \<open>for _, opt := range opts { opt(o) }\<close>.\<close>

definition applyOpts :: "('o \<Rightarrow> 'o) list \<Rightarrow> 'o \<Rightarrow> 'o" where
  "applyOpts opts o1 = foldl (\<lambda>x opt. opt x) o1 opts"

lemma applyOpts_Nil [simp]: "applyOpts [] x = x"
  by (simp add: applyOpts_def)

lemma applyOpts_Cons [simp]: "applyOpts (f # fs) x = applyOpts fs (f x)"
  by (simp add: applyOpts_def)

lemma applyOpts_inv:
  "P x \<Longrightarrow> (\<And>f y. f \<in> set fs \<Longrightarrow> P y \<Longrightarrow> P (f y)) \<Longrightarrow> P (applyOpts fs x)"
  by (induction fs arbitrary: x) auto

section \<open>Machine integers\<close>

definition i64 :: "int \<Rightarrow> int" where
  "i64 x = (x + 2 ^ 63) mod 2 ^ 64 - 2 ^ 63"

text \<open>\<open>i64\<close> is the signed reading of the 64-bit word.\<close>

lemma i64_sint: "i64 x = sint (word_of_int x :: 64 word)"
  by (simp add: i64_def sint_sbintrunc' signed_take_bit_eq_take_bit_shift take_bit_eq_mod)

lemma i64_id: "- (2 ^ 63) \<le> x \<Longrightarrow> x < 2 ^ 63 \<Longrightarrow> i64 x = x"
  by (simp add: i64_def)

lemma i64_bounds: "- (2 ^ 63) \<le> i64 x" "i64 x < 2 ^ 63"
proof -
  have "(x + 2 ^ 63) mod 2 ^ 64 < (2 ^ 64 :: int)" by simp
  then show "i64 x < 2 ^ 63" by (simp add: i64_def)
qed (simp add: i64_def)

definition in64 :: "int \<Rightarrow> bool" where
  "in64 x \<longleftrightarrow> - (2 ^ 63) \<le> x \<and> x < 2 ^ 63"

lemma i64_in64 [simp]: "in64 (i64 x)"
  using i64_bounds by (simp add: in64_def)

lemma i64_eq [simp]: "in64 x \<Longrightarrow> i64 x = x"
  by (simp add: in64_def i64_id)

text \<open>Go's integer quotient and remainder truncate towards zero.\<close>

definition quot :: "int \<Rightarrow> int \<Rightarrow> int" where
  "quot a b = sgn a * sgn b * (\<bar>a\<bar> div \<bar>b\<bar>)"

lemma quot_nonneg: "0 \<le> a \<Longrightarrow> 0 < b \<Longrightarrow> quot a b = a div b"
  by (cases "a = 0") (simp_all add: quot_def)

lemma quot_neg_le: "a < 0 \<Longrightarrow> 0 < b \<Longrightarrow> quot a b \<le> 0"
  by (simp add: quot_def pos_imp_zdiv_nonneg_iff)

lemma quot_eq_sdiv: "quot a b = a sdiv b"
  by (simp add: quot_def signed_divide_int_def sgn_mult abs_mult)

section \<open>float64\<close>

text \<open>
  A float64 is the rational number it denotes; every operation of the source rounds its exact
  result with the function \<open>fl\<close>, an argument of the definitions. What the source relies on is what
  IEEE 754 guarantees of every rounding mode: integers of at most 53 bits are exact and rounding is
  monotone. NaN and the infinities are written out where an operation can produce them.
\<close>

definition exact_ints :: "(rat \<Rightarrow> rat) \<Rightarrow> bool" where
  "exact_ints fl \<longleftrightarrow> (\<forall>n::int. \<bar>n\<bar> \<le> 2 ^ 53 \<longrightarrow> fl (of_int n) = of_int n)"

definition float64_rounding :: "(rat \<Rightarrow> rat) \<Rightarrow> bool" where
  "float64_rounding fl \<longleftrightarrow> mono fl \<and> exact_ints fl"

lemma float64_int: "float64_rounding fl \<Longrightarrow> \<bar>n\<bar> \<le> 2 ^ 53 \<Longrightarrow> fl (of_int n) = of_int n"
  by (simp add: float64_rounding_def exact_ints_def)

lemma float64_mono: "float64_rounding fl \<Longrightarrow> x \<le> y \<Longrightarrow> fl x \<le> fl y"
  by (simp add: float64_rounding_def monoD)

lemma float64_0 [simp]: "float64_rounding fl \<Longrightarrow> fl 0 = 0"
  using float64_int [of fl 0] by simp

lemma float64_1 [simp]: "float64_rounding fl \<Longrightarrow> fl 1 = 1"
  using float64_int [of fl 1] by simp

lemma float64_nonneg: "float64_rounding fl \<Longrightarrow> 0 \<le> x \<Longrightarrow> 0 \<le> fl x"
  using float64_mono [of fl 0 x] by simp

lemma float64_le_1: "float64_rounding fl \<Longrightarrow> x \<le> 1 \<Longrightarrow> fl x \<le> 1"
  using float64_mono [of fl x 1] by simp

text \<open>A rounding to a fixed grid, which satisfies both laws.\<close>

definition grid_round :: "rat \<Rightarrow> rat" where
  "grid_round x = of_int \<lfloor>x * 1024\<rfloor> / 1024"

lemma grid_round_rounding: "float64_rounding grid_round"
proof -
  have "mono grid_round"
    by (rule monoI) (simp add: grid_round_def divide_right_mono floor_mono)
  moreover have "grid_round (of_int n) = of_int n" for n
  proof -
    have "\<lfloor>(of_int n :: rat) * 1024\<rfloor> = n * 1024"
      by (metis floor_of_int of_int_mult of_int_numeral)
    then show ?thesis by (simp add: grid_round_def)
  qed
  ultimately show ?thesis by (simp add: float64_rounding_def exact_ints_def)
qed

text \<open>The conversion \<open>int64(f)\<close> truncates towards zero.\<close>

definition truncf :: "rat \<Rightarrow> int" where
  "truncf x = (if 0 \<le> x then \<lfloor>x\<rfloor> else - \<lfloor>- x\<rfloor>)"

lemma truncf_of_int [simp]: "truncf (of_int n) = n"
  by (simp add: truncf_def)

lemma truncf_nonneg: "0 \<le> x \<Longrightarrow> 0 \<le> truncf x"
  by (simp add: truncf_def)

lemma truncf_mono_nonneg: "0 \<le> x \<Longrightarrow> x \<le> y \<Longrightarrow> truncf x \<le> truncf y"
  by (simp add: truncf_def floor_mono)

end
