(* ===== verification/GoStrings.thy ===== *)
theory GoStrings
  imports Prelude
begin

text \<open>
  The functions of Go's packages \<open>strings\<close>, \<open>strconv\<close> and \<open>unicode/utf8\<close> that the modelled code
  calls, on byte strings, with the laws the components use.
\<close>

section \<open>UTF-8\<close>

abbreviation byte :: "char \<Rightarrow> nat" where
  "byte c \<equiv> of_char c"

definition cont :: "nat \<Rightarrow> nat \<Rightarrow> char \<Rightarrow> bool" where
  "cont lo hi c \<longleftrightarrow> lo \<le> byte c \<and> byte c \<le> hi"

text \<open>
  Width in bytes of the first code point as \<open>utf8.DecodeRune\<close> computes it, 0 when the bytes are
  not valid UTF-8 (the decoder then consumes one byte and yields U+FFFD).
\<close>

fun rune_width :: "string \<Rightarrow> nat" where
  "rune_width [] = 0"
| "rune_width (a # s) = (let b = byte a in
     if b < 128 then 1
     else if b < 194 then 0
     else if b < 224 then (case s of c1 # _ \<Rightarrow> if cont 128 191 c1 then 2 else 0 | _ \<Rightarrow> 0)
     else if b < 240 then (case s of c1 # c2 # _ \<Rightarrow>
        if cont (if b = 224 then 160 else 128) (if b = 237 then 159 else 191) c1 \<and> cont 128 191 c2
        then 3 else 0 | _ \<Rightarrow> 0)
     else if b < 245 then (case s of c1 # c2 # c3 # _ \<Rightarrow>
        if cont (if b = 240 then 144 else 128) (if b = 244 then 143 else 191) c1
           \<and> cont 128 191 c2 \<and> cont 128 191 c3 then 4 else 0 | _ \<Rightarrow> 0)
     else 0)"

declare rune_width.simps(2) [simp del]

text \<open>The string cut into the byte sequences the decoder steps over.\<close>

fun utf8_chunks :: "string \<Rightarrow> string list" where
  "utf8_chunks [] = []"
| "utf8_chunks (c # s) =
     (let n = rune_width (c # s) - 1 in (c # take n s) # utf8_chunks (drop n s))"

lemma concat_utf8_chunks [simp]: "concat (utf8_chunks s) = s"
  by (induction s rule: utf8_chunks.induct) (simp_all add: Let_def)

definition ascii :: "string \<Rightarrow> bool" where
  "ascii s \<longleftrightarrow> (\<forall>c \<in> set s. byte c < 128)"

lemma ascii_simps [simp]:
  "ascii []" "ascii (c # s) \<longleftrightarrow> byte c < 128 \<and> ascii s"
  "ascii (s @ t) \<longleftrightarrow> ascii s \<and> ascii t"
  by (auto simp: ascii_def)

lemma utf8_chunks_ascii_Cons: "byte c < 128 \<Longrightarrow> utf8_chunks (c # s) = [c] # utf8_chunks s"
  by (simp add: rune_width.simps(2))

lemma utf8_chunks_ascii: "ascii s \<Longrightarrow> utf8_chunks s = map (\<lambda>c. [c]) s"
  by (induction s) (simp_all add: utf8_chunks_ascii_Cons del: utf8_chunks.simps(2))

text \<open>\<open>string(r)\<close> of a decoded code point: the replacement character for an invalid byte.\<close>

definition rune_str :: "string \<Rightarrow> string" where
  "rune_str ch = (if rune_width ch = 0 then [CHR 0xEF, CHR 0xBF, CHR 0xBD] else ch)"

definition runes :: "string \<Rightarrow> string list" where
  "runes s = map rune_str (utf8_chunks s)"

section \<open>Package strings\<close>

definition hasPrefix :: "string \<Rightarrow> string \<Rightarrow> bool" where
  "hasPrefix s p \<longleftrightarrow> take (length p) s = p"

definition hasSuffix :: "string \<Rightarrow> string \<Rightarrow> bool" where
  "hasSuffix s p \<longleftrightarrow> length p \<le> length s \<and> drop (length s - length p) s = p"

lemma hasPrefix_iff: "hasPrefix s p \<longleftrightarrow> (\<exists>t. s = p @ t)"
  by (auto simp: hasPrefix_def) (metis append_take_drop_id)

lemma hasSuffix_iff: "hasSuffix s p \<longleftrightarrow> (\<exists>t. s = t @ p)"
  by (auto simp: hasSuffix_def) (metis append_take_drop_id)

definition trimSuffix :: "string \<Rightarrow> string \<Rightarrow> string" where
  "trimSuffix s p = (if hasSuffix s p then take (length s - length p) s else s)"

definition containsByte :: "char \<Rightarrow> string \<Rightarrow> bool" where
  "containsByte c s \<longleftrightarrow> c \<in> set s"

text \<open>\<open>strings.Split\<close> with a separator of one byte.\<close>

fun splitOn :: "char \<Rightarrow> string \<Rightarrow> string list" where
  "splitOn c [] = [[]]"
| "splitOn c (x # s) =
     (if x = c then [] # splitOn c s
      else (x # hd (splitOn c s)) # tl (splitOn c s))"

lemma splitOn_ne [simp]: "splitOn c s \<noteq> []"
  by (cases s) auto

lemma splitOn_code [code]:
  "splitOn c [] = [[]]"
  "splitOn c (x # s) =
     (if x = c then [] # splitOn c s
      else (case splitOn c s of w # ws \<Rightarrow> (x # w) # ws | [] \<Rightarrow> [[x]]))"
  by (auto split: list.split dest: arg_cong [where f = hd] simp: splitOn_ne)

fun joinWith :: "string \<Rightarrow> string list \<Rightarrow> string" where
  "joinWith sep [] = []"
| "joinWith sep [w] = w"
| "joinWith sep (w # v # ws) = w @ sep @ joinWith sep (v # ws)"

lemma joinWith_Cons: "ws \<noteq> [] \<Longrightarrow> joinWith sep (w # ws) = w @ sep @ joinWith sep ws"
  by (cases ws) auto

lemma joinWith_splitOn [simp]: "joinWith [c] (splitOn c s) = s"
proof (induction s)
  case (Cons x s)
  obtain w ws where eq: "splitOn c s = w # ws"
    by (cases "splitOn c s") auto
  show ?case
  proof (cases "x = c")
    case True
    with Cons eq show ?thesis by simp
  next
    case False
    with Cons eq show ?thesis by (cases ws) auto
  qed
qed simp

lemma splitOn_no_sep: "w \<in> set (splitOn c s) \<Longrightarrow> c \<notin> set w"
proof (induction s arbitrary: w)
  case (Cons x s)
  obtain v vs where eq: "splitOn c s = v # vs"
    by (cases "splitOn c s") auto
  with Cons show ?case by (auto split: if_splits)
qed simp

lemma splitOn_free: "c \<notin> set w \<Longrightarrow> splitOn c w = [w]"
  by (induction w) auto

lemma splitOn_append_sep: "c \<notin> set w \<Longrightarrow> splitOn c (w @ c # s) = w # splitOn c s"
  by (induction w) auto

lemma splitOn_joinWith:
  "ws \<noteq> [] \<Longrightarrow> (\<And>w. w \<in> set ws \<Longrightarrow> c \<notin> set w) \<Longrightarrow> splitOn c (joinWith [c] ws) = ws"
proof (induction ws)
  case (Cons w ws)
  show ?case
  proof (cases ws)
    case Nil
    with Cons.prems show ?thesis by (simp add: splitOn_free)
  next
    case (Cons v vs)
    with Cons.prems Cons.IH show ?thesis by (simp add: splitOn_append_sep)
  qed
qed simp

text \<open>\<open>strings.ReplaceAll(s, old, new)\<close> with an \<open>old\<close> of one byte.\<close>

definition replaceByte :: "char \<Rightarrow> string \<Rightarrow> string \<Rightarrow> string" where
  "replaceByte c new s = concat (map (\<lambda>x. if x = c then new else [x]) s)"

lemma replaceByte_simps [simp]:
  "replaceByte c new [] = []"
  "replaceByte c new (x # s) = (if x = c then new else [x]) @ replaceByte c new s"
  "replaceByte c new (s @ t) = replaceByte c new s @ replaceByte c new t"
  by (simp_all add: replaceByte_def)

lemma replaceByte_Nil: "replaceByte c [] s = filter (\<lambda>x. x \<noteq> c) s"
  by (induction s) auto

text \<open>\<open>strings.Trim(s, cutset)\<close> with a cutset of one byte, and \<open>strings.TrimSpace\<close>.\<close>

definition trimByte :: "char \<Rightarrow> string \<Rightarrow> string" where
  "trimByte c s = rev (dropWhile (\<lambda>x. x = c) (rev (dropWhile (\<lambda>x. x = c) s)))"

definition space_chunk :: "string \<Rightarrow> bool" where
  "space_chunk ch = (case map byte ch of
      [a] \<Rightarrow> a = 32 \<or> (9 \<le> a \<and> a \<le> 13)
    | [a, b] \<Rightarrow> a = 194 \<and> (b = 133 \<or> b = 160)
    | [a, b, c] \<Rightarrow> (a = 225 \<and> b = 154 \<and> c = 128)
        \<or> (a = 226 \<and> b = 128 \<and> (128 \<le> c \<and> c \<le> 138 \<or> c = 168 \<or> c = 169 \<or> c = 175))
        \<or> (a = 226 \<and> b = 129 \<and> c = 159) \<or> (a = 227 \<and> b = 128 \<and> c = 128)
    | _ \<Rightarrow> False)"

definition trimSpace :: "string \<Rightarrow> string" where
  "trimSpace s =
     concat (rev (dropWhile space_chunk (rev (dropWhile space_chunk (utf8_chunks s)))))"

text \<open>
  \<open>strings.ToLower\<close>: ASCII letters, and the two other code points whose lower case is an ASCII
  letter (U+0130 and U+212A). The case tables of the remaining code points are left out: every
  caller compares the result with ASCII keys only, which those code points cannot reach.
\<close>

definition lower_chunk :: "string \<Rightarrow> string" where
  "lower_chunk ch =
     (if ch = [CHR 0xC4, CHR 0xB0] then ''i''
      else if ch = [CHR 0xE2, CHR 0x84, CHR 0xAA] then ''k''
      else map (\<lambda>c. if 65 \<le> byte c \<and> byte c \<le> 90 then char_of (byte c + 32) else c) (rune_str ch))"

definition toLower :: "string \<Rightarrow> string" where
  "toLower s = concat (map lower_chunk (utf8_chunks s))"

lemma toLower_Nil [simp]: "toLower [] = []"
  by (simp add: toLower_def)

text \<open>
  \<open>strings.ToUpper\<close>, likewise: ASCII letters and the two other code points whose upper case is an
  ASCII letter (U+0131 and U+017F).
\<close>

definition upper_chunk :: "string \<Rightarrow> string" where
  "upper_chunk ch =
     (if ch = [CHR 0xC4, CHR 0xB1] then ''I''
      else if ch = [CHR 0xC5, CHR 0xBF] then ''S''
      else map (\<lambda>c. if 97 \<le> byte c \<and> byte c \<le> 122 then char_of (byte c - 32) else c) (rune_str ch))"

definition toUpper :: "string \<Rightarrow> string" where
  "toUpper s = concat (map upper_chunk (utf8_chunks s))"

text \<open>\<open>strings.Contains\<close>, and \<open>strings.ReplaceAll\<close> with an \<open>old\<close> that is not empty.\<close>

fun strContains :: "string \<Rightarrow> string \<Rightarrow> bool" where
  "strContains [] sub \<longleftrightarrow> sub = []"
| "strContains (c # s) sub \<longleftrightarrow> hasPrefix (c # s) sub \<or> strContains s sub"

fun replaceAll :: "string \<Rightarrow> string \<Rightarrow> string \<Rightarrow> string" where
  "replaceAll old new [] = []"
| "replaceAll old new (c # s) =
     (if old \<noteq> [] \<and> hasPrefix (c # s) old then new @ replaceAll old new (drop (length old - 1) s)
      else c # replaceAll old new s)"

lemma strContains_iff: "strContains s sub \<longleftrightarrow> (\<exists>a b. s = a @ sub @ b)"
proof (induction s)
  case (Cons c s)
  show ?case
  proof
    assume "strContains (c # s) sub"
    then show "\<exists>a b. c # s = a @ sub @ b"
      using Cons by (auto simp: hasPrefix_iff) (metis append_Cons append_Nil)+
  next
    assume "\<exists>a b. c # s = a @ sub @ b"
    then obtain a b where ab: "c # s = a @ sub @ b" by blast
    show "strContains (c # s) sub"
    proof (cases a)
      case Nil
      then have "hasPrefix (c # s) sub" using ab by (simp add: hasPrefix_def)
      then show ?thesis by simp
    next
      case (Cons x a')
      then show ?thesis using ab \<open>strContains s sub = _\<close> by auto
    qed
  qed
qed simp

lemma replaceAll_absent: "\<not> strContains s old \<Longrightarrow> replaceAll old new s = s"
  by (induction s) auto

text \<open>\<open>strings.ReplaceAll\<close> and \<open>strings.Replace(s, old, new, 1)\<close>, also for an empty \<open>old\<close>, which matches before every code point and at the end.\<close>

definition goReplaceAll :: "string \<Rightarrow> string \<Rightarrow> string \<Rightarrow> string" where
  "goReplaceAll s old new = (if old = [] then new @ concat (map (\<lambda>ch. ch @ new) (utf8_chunks s)) else replaceAll old new s)"

fun replaceFirst :: "string \<Rightarrow> string \<Rightarrow> string \<Rightarrow> string" where
  "replaceFirst [] old new = (if old = [] then new else [])"
| "replaceFirst (c # s) old new =
     (if hasPrefix (c # s) old then new @ drop (length old) (c # s) else c # replaceFirst s old new)"

lemma replaceFirst_absent: "\<not> strContains s old \<Longrightarrow> replaceFirst s old new = s"
  by (induction s) auto

lemma replaceFirst_split:
  "strContains s old \<Longrightarrow> \<exists>a b. s = a @ old @ b \<and> replaceFirst s old new = a @ new @ b"
proof (induction s)
  case (Cons c s)
  show ?case
  proof (cases "hasPrefix (c # s) old")
    case True
    then obtain t where t: "c # s = old @ t" by (auto simp: hasPrefix_iff)
    from True have "replaceFirst (c # s) old new = new @ drop (length old) (c # s)" by simp
    then have "replaceFirst (c # s) old new = [] @ new @ t" unfolding t by simp
    with t show ?thesis by (metis append_Nil)
  next
    case False
    with Cons obtain a b where "s = a @ old @ b" "replaceFirst s old new = a @ new @ b" by auto
    with False have "c # s = (c # a) @ old @ b" "replaceFirst (c # s) old new = (c # a) @ new @ b" by simp_all
    then show ?thesis by blast
  qed
qed simp

text \<open>\<open>strings.Count\<close>.\<close>

fun occurrences :: "string \<Rightarrow> nat \<Rightarrow> string \<Rightarrow> nat" where
  "occurrences sub skip [] = 0"
| "occurrences sub (Suc k) (c # s) = occurrences sub k s"
| "occurrences sub 0 (c # s) = (if hasPrefix (c # s) sub then Suc (occurrences sub (length sub - 1) s) else occurrences sub 0 s)"

definition strCount :: "string \<Rightarrow> string \<Rightarrow> nat" where
  "strCount s sub = (if sub = [] then Suc (length (utf8_chunks s)) else occurrences sub 0 s)"

lemma replaceAll_prefix: "old \<noteq> [] \<Longrightarrow> replaceAll old new (old @ t) = new @ replaceAll old new t"
  by (cases old) (auto simp: hasPrefix_def)

lemma strContains_hd: "strContains s sub \<Longrightarrow> sub \<noteq> [] \<Longrightarrow> hd sub \<in> set s"
  by (auto simp: strContains_iff)

text \<open>\<open>strings.Index\<close>: the position of the first occurrence.\<close>

fun strIndex :: "string \<Rightarrow> string \<Rightarrow> nat option" where
  "strIndex [] sub = (if sub = [] then Some 0 else None)"
| "strIndex (c # s) sub = (if hasPrefix (c # s) sub then Some 0 else map_option Suc (strIndex s sub))"

lemma strIndex_le: "hasPrefix (drop j s) q \<Longrightarrow> j \<le> length s \<Longrightarrow> \<exists>i \<le> j. strIndex s q = Some i"
proof (induction s arbitrary: j)
  case (Cons c s)
  show ?case
  proof (cases "hasPrefix (c # s) q")
    case False
    with Cons.prems obtain k where k: "j = Suc k" by (cases j) auto
    with Cons obtain i where "i \<le> k" "strIndex s q = Some i" by auto
    with False k show ?thesis by auto
  qed simp
qed (auto simp: hasPrefix_def)

lemma strIndex_prefix: "strIndex s q = Some i \<Longrightarrow> hasPrefix (drop i s) q \<and> i \<le> length s"
  by (induction s arbitrary: i) (auto simp: hasPrefix_def split: if_splits)

lemma strIndex_None: "strIndex s q = None \<longleftrightarrow> \<not> strContains s q"
  by (induction s) (auto simp: hasPrefix_def)

text \<open>The first occurrence of a text: none starts before it.\<close>

definition startsNone :: "string \<Rightarrow> string \<Rightarrow> bool" where
  "startsNone a q \<longleftrightarrow> \<not> strContains (a @ butlast q) q"

lemma startsNone_Cons:
  assumes "startsNone (c # a) q" "q \<noteq> []"
  shows "startsNone a q \<and> \<not> hasPrefix (c # a @ q @ b) q"
proof
  show "startsNone a q" using assms(1) by (simp add: startsNone_def)
  show "\<not> hasPrefix (c # a @ q @ b) q"
  proof
    assume "hasPrefix (c # a @ q @ b) q"
    then have q: "take (length q) (c # a @ q @ b) = q" by (simp add: hasPrefix_def)
    have "c # a @ q @ b = (c # a @ butlast q) @ last q # b"
      using append_butlast_last_id [OF assms(2)] by (metis append.assoc append_Cons append_Nil)
    moreover have "length q \<le> length (c # a @ butlast q)" using assms(2) by simp
    ultimately have "take (length q) (c # a @ q @ b) = take (length q) (c # a @ butlast q)"
      by (metis append_Nil2 diff_is_0_eq' take0 take_append)
    with q have "hasPrefix (c # a @ butlast q) q" by (simp add: hasPrefix_def)
    with assms(1) show False by (simp add: startsNone_def)
  qed
qed

lemma strIndex_first: "startsNone a q \<Longrightarrow> q \<noteq> [] \<Longrightarrow> strIndex (a @ q @ b) q = Some (length a)"
proof (induction a)
  case Nil
  then show ?case by (cases q) (auto simp: hasPrefix_def)
next
  case (Cons c a)
  from startsNone_Cons [OF Cons.prems] Cons show ?case by simp
qed

lemma replaceFirst_first:
  "startsNone a q \<Longrightarrow> q \<noteq> [] \<Longrightarrow> replaceFirst (a @ q @ t @ b) (q @ t) n = a @ n @ b"
proof (induction a)
  case Nil
  then show ?case by (cases q) (auto simp: hasPrefix_def)
next
  case (Cons c a)
  from startsNone_Cons [OF Cons.prems, of "t @ b"] have "\<not> hasPrefix (c # a @ q @ t @ b) (q @ t)"
    by (auto simp: hasPrefix_iff)
  with startsNone_Cons [OF Cons.prems] Cons show ?case by simp
qed

text \<open>\<open>strings.Split(s, sep)\<close> with a separator that is not empty.\<close>

fun splitAux :: "string \<Rightarrow> nat \<Rightarrow> string \<Rightarrow> string \<Rightarrow> string list" where
  "splitAux sep k cur [] = [rev cur]"
| "splitAux sep (Suc k) cur (c # s) = splitAux sep k cur s"
| "splitAux sep 0 cur (c # s) =
     (if hasPrefix (c # s) sep then rev cur # splitAux sep (length sep - 1) [] s else splitAux sep 0 (c # cur) s)"

definition splitStr :: "string \<Rightarrow> string \<Rightarrow> string list" where
  "splitStr s sep = splitAux sep 0 [] s"

lemma splitAux_skip: "k \<le> length s \<Longrightarrow> splitAux sep k cur s = splitAux sep 0 cur (drop k s)"
  by (induction k arbitrary: s) (auto simp: Suc_le_length_iff)

lemma splitAux_absent: "\<not> strContains s sep \<Longrightarrow> splitAux sep 0 cur s = [rev cur @ s]"
  by (induction s arbitrary: cur) auto

lemma splitAux_sep:
  "sep \<noteq> [] \<Longrightarrow> hd sep \<notin> set p \<Longrightarrow> splitAux sep 0 cur (p @ sep @ q) = (rev cur @ p) # splitAux sep 0 [] q"
proof (induction p arbitrary: cur)
  case Nil
  then obtain c t where s: "sep = c # t" by (cases sep) auto
  have "splitAux sep (length t) [] (t @ q) = splitAux sep 0 [] q" using splitAux_skip [of "length t" "t @ q"] by simp
  with s show ?case by (simp add: hasPrefix_def)
next
  case (Cons c p)
  then have "\<not> hasPrefix ((c # p) @ sep @ q) sep" by (cases sep) (auto simp: hasPrefix_iff)
  with Cons show ?case by simp
qed

lemma splitStr_sep: "sep \<noteq> [] \<Longrightarrow> hd sep \<notin> set p \<Longrightarrow> splitStr (p @ sep @ q) sep = p # splitStr q sep"
  by (simp add: splitStr_def splitAux_sep)

lemma splitStr_absent: "\<not> strContains s sep \<Longrightarrow> splitStr s sep = [s]"
  by (simp add: splitStr_def splitAux_absent)

lemma splitStr_ne [simp]: "splitStr s sep \<noteq> []"
proof -
  have "splitAux sep k cur s \<noteq> []" for k cur s by (induction sep k cur s rule: splitAux.induct) auto
  then show ?thesis by (simp add: splitStr_def)
qed

section \<open>Package strconv\<close>

definition digit :: "char \<Rightarrow> bool" where
  "digit c \<longleftrightarrow> 48 \<le> byte c \<and> byte c \<le> 57"

definition digits_val :: "string \<Rightarrow> nat" where
  "digits_val s = foldl (\<lambda>n c. 10 * n + (byte c - 48)) 0 s"

definition all_digits :: "string \<Rightarrow> bool" where
  "all_digits s \<longleftrightarrow> s \<noteq> [] \<and> list_all digit s"

text \<open>\<open>strconv.Atoi\<close>: an optional sign, decimal digits, a value of 64 bits.\<close>

definition atoi :: "string \<Rightarrow> int option" where
  "atoi s =
     (let neg = (s \<noteq> [] \<and> hd s = CHR ''-'');
          ds = (if s \<noteq> [] \<and> (hd s = CHR ''-'' \<or> hd s = CHR ''+'') then tl s else s);
          v = (if neg then - int (digits_val ds) else int (digits_val ds))
      in if all_digits ds \<and> in64 v then Some v else None)"

lemma atoi_in64: "atoi s = Some v \<Longrightarrow> in64 v"
  by (auto simp: atoi_def Let_def split: if_splits)

text \<open>\<open>strconv.ParseUint(s, 10, 0)\<close> on a 64-bit platform.\<close>

definition parseUint :: "string \<Rightarrow> nat option" where
  "parseUint s = (if all_digits s \<and> digits_val s < 2 ^ 64 then Some (digits_val s) else None)"

lemma parseUint_code [code]:
  "parseUint s = (if all_digits s \<and> int (digits_val s) < 18446744073709551616 then Some (digits_val s) else None)"
  by (simp add: parseUint_def)

definition parseBool :: "string \<Rightarrow> bool option" where
  "parseBool s =
     (if s \<in> set [''1'', ''t'', ''T'', ''TRUE'', ''true'', ''True''] then Some True
      else if s \<in> set [''0'', ''f'', ''F'', ''FALSE'', ''false'', ''False''] then Some False
      else None)"

text \<open>Decimal printing, as \<open>%d\<close> and \<open>strconv.Itoa\<close> of a number that is not negative.\<close>

fun dec :: "nat \<Rightarrow> string" where
  "dec n = (if n < 10 then [char_of (48 + n)] else dec (n div 10) @ [char_of (48 + n mod 10)])"

declare dec.simps [simp del]

lemma byte_char_of [simp]: "n < 256 \<Longrightarrow> byte (char_of n) = n"
  by (simp add: of_char_of)

lemma digits_val_append1 [simp]: "digits_val (s @ [c]) = 10 * digits_val s + (byte c - 48)"
  by (simp add: digits_val_def)

lemma digits_val_dec [simp]: "digits_val (dec n) = n"
proof (induction n rule: dec.induct)
  case (1 n)
  show ?case
  proof (cases "n < 10")
    case True
    then show ?thesis by (subst dec.simps) (simp add: digits_val_def)
  next
    case False
    with 1 show ?thesis by (subst dec.simps) simp
  qed
qed

lemma all_digits_dec [simp]: "all_digits (dec n)"
proof (induction n rule: dec.induct)
  case (1 n)
  show ?case
  proof (cases "n < 10")
    case True
    then show ?thesis by (subst dec.simps) (simp add: all_digits_def digit_def)
  next
    case False
    with 1 show ?thesis by (subst dec.simps) (simp add: all_digits_def digit_def)
  qed
qed

lemma dec_ne [simp]: "dec n \<noteq> []"
  using all_digits_dec [of n] by (simp add: all_digits_def)

lemma parseUint_dec: "n < 2 ^ 64 \<Longrightarrow> parseUint (dec n) = Some n"
  by (simp add: parseUint_def)

lemma dec_inject [simp]: "dec m = dec n \<longleftrightarrow> m = n"
  by (metis digits_val_dec)

text \<open>\<open>%d\<close> of an int.\<close>

definition decInt :: "int \<Rightarrow> string" where
  "decInt i = (if i < 0 then CHR ''-'' # dec (nat (- i)) else dec (nat i))"

lemma dec_all_digit: "c \<in> set (dec n) \<Longrightarrow> digit c"
  using all_digits_dec [of n] by (auto simp: all_digits_def list_all_iff)

lemma decInt_chars: "c \<in> set (decInt i) \<Longrightarrow> digit c \<or> c = CHR ''-''"
  by (auto simp: decInt_def dec_all_digit split: if_splits)

lemma atoi_decInt: "in64 i \<Longrightarrow> atoi (decInt i) = Some i"
proof -
  assume i: "in64 i"
  have ne: "hd (dec n) \<noteq> CHR ''-'' \<and> hd (dec n) \<noteq> CHR ''+''" for n
    using dec_all_digit [of "hd (dec n)" n] hd_in_set [of "dec n"] by (auto simp: digit_def)
  show ?thesis using i ne by (auto simp: atoi_def decInt_def Let_def)
qed

lemmas go_string_eval [go_eval] =
  hasPrefix_def hasSuffix_def trimSuffix_def containsByte_def replaceByte_def trimByte_def
  trimSpace_def space_chunk_def lower_chunk_def toLower_def upper_chunk_def toUpper_def rune_str_def runes_def
  rune_width.simps(2) cont_def digit_def digits_val_def all_digits_def atoi_def parseUint_def
  parseBool_def in64_def Let_def

end
