(* ===== verification/QueryValue.thy ===== *)
theory QueryValue
  imports GoStrings
begin

text \<open>
  The dynamic values (\<open>interface{}\<close>) that a query column carries, for both query packages, and the
  part of the standard library that parses them. \<open>strconv.ParseFloat\<close> and \<open>time.Parse\<close> are the
  two fields of a record of parsers, an argument of the definitions: every result below holds
  whatever they accept. The values they make, and every other dynamic type, are \<open>GOpaque\<close>.
\<close>

datatype 'x gval =
    GNil
  | GStr string
  | GInt int
  | GBool bool
  | GOpaque 'x
  | GOid string
  | GSlice "'x gval list"
  | GMap "(string \<times> 'x gval) list"

record 'x parsers =
  parseFloat :: "string \<Rightarrow> 'x option"
  parseTime :: "string \<Rightarrow> string \<Rightarrow> 'x option"

text \<open>The first layout that parses.\<close>

fun firstTime :: "'x parsers \<Rightarrow> string list \<Rightarrow> string \<Rightarrow> 'x option" where
  "firstTime P [] s = None"
| "firstTime P (l # ls) s =
     (case parseTime P l s of Some t \<Rightarrow> Some t | None \<Rightarrow> firstTime P ls s)"

abbreviation dquote :: char where "dquote \<equiv> CHR 0x22"
abbreviation squote :: char where "squote \<equiv> CHR 0x27"
abbreviation backslash :: char where "backslash \<equiv> CHR 0x5C"

text \<open>Parsers that accept nothing, for evaluation.\<close>

definition no_parsers :: "'x parsers" where
  "no_parsers = \<lparr>parseFloat = (\<lambda>_. None), parseTime = (\<lambda>_ _. None)\<rparr>"

lemma no_parsers_simps [simp]:
  "parseFloat no_parsers s = None" "parseTime no_parsers l s = None"
  by (simp_all add: no_parsers_def)

end
