(* ===== verification/GormQuery.thy ===== *)
theory GormQuery
  imports QueryValue
begin

text \<open>
  Package \<open>pkg/sgorm/query\<close>: a request's columns become the text of a gorm condition with
  placeholders and the list of its arguments, and its page numbers become order, limit and offset.

  \<^item> \<open>query_condition.go\<close>: \<open>column\<close>, \<open>params\<close>, \<open>rulerOptions\<close>, \<open>checkExp\<close>,
    \<open>ConvertToGormConditions\<close>, \<open>convertValue\<close>, \<open>Conditions\<close>;
  \<^item> \<open>page.go\<close>: \<open>Page\<close>, \<open>NewPage\<close>, \<open>getSort\<close>.
  The loop of \<open>ConvertToGormConditions\<close> is \<open>gormLoop\<close>, with one call of \<open>checkColumn\<close> per column.
\<close>

section \<open>Operators\<close>

definition expMap :: "(string \<times> string) list" where
  "expMap =
    [(''eq'', '' = ''), (''neq'', '' <> ''), (''gt'', '' > ''), (''gte'', '' >= ''),
     (''lt'', '' < ''), (''lte'', '' <= ''), (''like'', '' LIKE ''), (''in'', '' IN ''),
     (''notin'', '' NOT IN ''), (''isnull'', '' IS NULL ''), (''isnotnull'', '' IS NOT NULL ''),
     (''='', '' = ''), (''!='', '' <> ''), (''>'', '' > ''), (''>='', '' >= ''),
     (''<'', '' < ''), (''<='', '' <= ''), (''not in'', '' NOT IN ''),
     (''is null'', '' IS NULL ''), (''is not null'', '' IS NOT NULL '')]"

definition logicMap :: "(string \<times> string) list" where
  "logicMap =
    [(''and'', '' AND ''), (''or'', '' OR ''), (''&'', '' AND ''), (''&&'', '' AND ''),
     (''|'', '' OR ''), (''||'', '' OR ''), (''AND'', '' AND ''), (''OR'', '' OR ''),
     (''and:('', '' AND ''), (''and:)'', '' AND ''), (''or:('', '' OR ''), (''or:)'', '' OR '')]"

text \<open>A map read without the second result: the empty string for a missing key.\<close>

definition lookupStr :: "(string \<times> string) list \<Rightarrow> string \<Rightarrow> string" where
  "lookupStr m k = (case map_of m k of Some v \<Rightarrow> v | None \<Rightarrow> [])"

section \<open>Data\<close>

record 'x column =
  cName :: string
  cExp :: string
  cValue :: "'x gval"
  cLogic :: string

record 'x params =
  pPage :: int
  pLimit :: int
  pSort :: string
  pColumns :: "'x column list"
  pSize :: int

datatype 'x query_error =
    NameNotAllowed string
  | ValueNil
  | InvalidValueType "'x gval"
  | UnsupportedExp string
  | UnsupportedLogic string
  | ValidateFailed string
  | ColumnsEmpty

record 'x rulerOptions =
  whitelistNames :: "(string \<Rightarrow> bool) option"
  validateFn :: "('x column list \<Rightarrow> string option) option"

definition WithWhitelistNames ::
    "(string \<Rightarrow> bool) option \<Rightarrow> 'x rulerOptions \<Rightarrow> 'x rulerOptions" where
  "WithWhitelistNames names o1 = o1\<lparr>whitelistNames := names\<rparr>"

definition WithValidateFn ::
    "('x column list \<Rightarrow> string option) option \<Rightarrow> 'x rulerOptions \<Rightarrow> 'x rulerOptions" where
  "WithValidateFn f o1 = o1\<lparr>validateFn := f\<rparr>"

definition noRules :: "'x rulerOptions" where
  "noRules = \<lparr>whitelistNames = None, validateFn = None\<rparr>"

section \<open>Values\<close>

definition timeLayouts :: "string list" where
  "timeLayouts =
    [''2006-01-02T15:04:05Z07:00'', ''2006-01-02T15:04:05Z07:00'', ''2006-01-02T15:04:05Z0700'',
     ''2006-01-02T15:04:05.999999999Z0700'', ''2006-01-02T15:04:05.999999999Z07:00'',
     ''2006-01-02'', ''2006-01-02 15:04:05'', ''2006-01-02 15:04:05.999999999'',
     ''2006-01-02 15:04:05 -07:00'', ''2006-01-02 15:04:05.999999999 -07:00'']"

definition convertValue :: "'x parsers \<Rightarrow> 'x gval \<Rightarrow> 'x gval" where
  "convertValue P v = (case v of
     GStr s0 \<Rightarrow>
       (let s = trimSpace s0 in
        if hasPrefix s [dquote] then
          (let s2 = trimByte dquote s in if atoi s2 \<noteq> None then GStr s2 else GStr s)
        else (case atoi s of Some n \<Rightarrow> GInt n | None \<Rightarrow>
             (case parseBool s of Some b \<Rightarrow> GBool b | None \<Rightarrow>
             (case parseFloat P s of Some f \<Rightarrow> GOpaque f | None \<Rightarrow>
             (case firstTime P timeLayouts s of Some t \<Rightarrow> GOpaque t | None \<Rightarrow> v)))))
   | _ \<Rightarrow> v)"

text \<open>The interior of a LIKE pattern is escaped code point by code point, its ends are not.\<close>

definition escapeLike :: "string \<Rightarrow> string" where
  "escapeLike s =
     replaceByte (CHR ''_'') [backslash, CHR ''_'']
       (replaceByte (CHR ''%'') [backslash, CHR ''%''] s)"

definition likeValue :: "string \<Rightarrow> string" where
  "likeValue s0 =
     (let r = runes s0;
          val = (if length r > 2
                 then hd r @ escapeLike (concat (butlast (tl r))) @ last r else s0)
      in if hasPrefix val ''%'' \<or> hasPrefix val ''_'' \<or> hasSuffix val ''%'' \<or> hasSuffix val ''_''
         then val else ''%'' @ val @ ''%'')"

definition inItem :: "string \<Rightarrow> 'x gval" where
  "inItem s0 =
     (let s = trimSpace s0 in
      if hasPrefix s [dquote] then GStr (trimByte dquote s)
      else if hasPrefix s [squote] then GStr (trimByte squote s)
      else (case atoi s of Some n \<Rightarrow> GInt n | None \<Rightarrow> GStr s))"

definition inValues :: "string \<Rightarrow> 'x gval list" where
  "inValues s = map inItem (splitOn (CHR '','') s)"

section \<open>Columns\<close>

text \<open>\<open>checkExp\<close>: the switch over the operator, then the logic.\<close>

definition expValue :: "'x column \<Rightarrow> ('x query_error, string \<times> 'x column) go" where
  "expValue c =
     (if cExp c = '' LIKE '' then
        (case cValue c of
           GStr s \<Rightarrow> Ok (''?'', c\<lparr>cValue := GStr (likeValue s)\<rparr>)
         | v \<Rightarrow> Err (InvalidValueType v))
      else if cExp c = '' IN '' \<or> cExp c = '' NOT IN '' then
        Ok (''(?)'', (case cValue c of GStr s \<Rightarrow> c\<lparr>cValue := GSlice (inValues s)\<rparr> | _ \<Rightarrow> c))
      else if cExp c = '' IS NULL '' \<or> cExp c = '' IS NOT NULL '' then
        Ok ([], c\<lparr>cValue := GNil\<rparr>)
      else Ok (''?'', c))"

definition checkLogic :: "'x column \<Rightarrow> ('x query_error, 'x column) go" where
  "checkLogic c =
     (if cLogic c = [] then Ok (c\<lparr>cLogic := ''and''\<rparr>)
      else (let logic = toLower (cLogic c) in
        if map_of logicMap logic \<noteq> None then Ok (c\<lparr>cLogic := logic\<rparr>)
        else Err (UnsupportedLogic (cLogic c))))"

definition checkExp :: "'x column \<Rightarrow> ('x query_error, string \<times> 'x column) go" where
  "checkExp c0 =
     (let c = (if cExp c0 = [] then c0\<lparr>cExp := ''eq''\<rparr> else c0) in
      case map_of expMap (toLower (cExp c)) of
        None \<Rightarrow> Err (UnsupportedExp (cExp c))
      | Some v \<Rightarrow>
          go_bind (expValue (c\<lparr>cExp := v\<rparr>)) (\<lambda>(symbol, c1).
          go_bind (checkLogic c1) (\<lambda>c2. Ok (symbol, c2))))"

definition checkColumn ::
    "'x parsers \<Rightarrow> 'x rulerOptions \<Rightarrow> 'x column \<Rightarrow> ('x query_error, string \<times> 'x column) go" where
  "checkColumn P o1 c =
     (if cName c = [] \<or> (case whitelistNames o1 of None \<Rightarrow> False | Some w \<Rightarrow> \<not> w (cName c))
      then Err (NameNotAllowed (cName c))
      else if cValue c = GNil then
        (let v = lookupStr expMap (toLower (cExp c)) in
         if v \<noteq> '' IS NULL '' \<and> v \<noteq> '' IS NOT NULL '' then Err ValueNil else checkExp c)
      else checkExp (c\<lparr>cValue := convertValue P (cValue c)\<rparr>))"

definition columnText :: "bool \<Rightarrow> string \<Rightarrow> 'x column \<Rightarrow> string" where
  "columnText isLast symbol c =
     (let base = cName c @ cExp c @ symbol in
      if isLast then
        (if cLogic c \<in> {''or:)'', ''and:)''} then base @ '' ) '' else base)
      else if cLogic c \<in> {''or:('', ''and:(''} then '' ( '' @ base @ lookupStr logicMap (cLogic c)
      else if cLogic c \<in> {''or:)'', ''and:)''} then base @ '' ) '' @ lookupStr logicMap (cLogic c)
      else base @ lookupStr logicMap (cLogic c))"

fun gormLoop ::
    "'x parsers \<Rightarrow> 'x rulerOptions \<Rightarrow> string \<Rightarrow> 'x column list \<Rightarrow> string \<Rightarrow> 'x gval list \<Rightarrow> bool
     \<Rightarrow> ('x query_error, string \<times> 'x gval list \<times> bool) go" where
  "gormLoop P o1 field [] str args isUseIN = Ok (str, args, isUseIN)"
| "gormLoop P o1 field (c # cs) str args isUseIN =
     go_bind (checkColumn P o1 c) (\<lambda>(symbol, c1).
       gormLoop P o1 field cs
         (str @ columnText (cs = []) symbol c1)
         (if cValue c1 \<noteq> GNil then args @ [cValue c1] else args)
         (isUseIN \<and> field = cName c1 \<and> cExp c1 = lookupStr expMap ''eq''))"

definition ConvertToGormConditions ::
    "'x parsers \<Rightarrow> 'x params \<Rightarrow> ('x rulerOptions \<Rightarrow> 'x rulerOptions) list
     \<Rightarrow> ('x query_error, string \<times> 'x gval list) go" where
  "ConvertToGormConditions P p opts =
     (case pColumns p of
        [] \<Rightarrow> Ok ([], [])
      | c # cs \<Rightarrow>
         (let o1 = applyOpts opts noRules in
          case (case validateFn o1 of Some f \<Rightarrow> f (pColumns p) | None \<Rightarrow> None) of
            Some e \<Rightarrow> Err (ValidateFailed e)
          | None \<Rightarrow>
             go_bind (gormLoop P o1 (cName c) (pColumns p) [] [] (cs \<noteq> []))
               (\<lambda>(str, args, isUseIN).
                  if isUseIN then Ok (cName c @ '' IN (?)'', [GSlice args])
                  else Ok (str, args))))"

section \<open>Conditions\<close>

record 'x conditions =
  condColumns :: "'x column list"

definition ConvertToGorm ::
    "'x parsers \<Rightarrow> 'x conditions \<Rightarrow> ('x rulerOptions \<Rightarrow> 'x rulerOptions) list
     \<Rightarrow> ('x query_error, string \<times> 'x gval list) go" where
  "ConvertToGorm P c opts =
     ConvertToGormConditions P
       \<lparr>pPage = 0, pLimit = 0, pSort = [], pColumns = condColumns c, pSize = 0\<rparr> opts"

definition CheckValid :: "'x conditions \<Rightarrow> 'x query_error option" where
  "CheckValid c = (if condColumns c = [] then Some ColumnsEmpty else None)"

section \<open>Pages\<close>

definition SetMaxSize :: "int \<Rightarrow> int" where
  "SetMaxSize maxValue = (if maxValue < 10 then 10 else maxValue)"

record page =
  pgPage :: int
  pgLimit :: int
  pgSort :: string

definition Offset :: "page \<Rightarrow> int" where
  "Offset p = i64 (pgPage p * pgLimit p)"

definition DefaultPage :: "int \<Rightarrow> page" where
  "DefaultPage pg = \<lparr>pgPage = (if pg < 0 then 0 else pg), pgLimit = 20, pgSort = ''id DESC''\<rparr>"

text \<open>The order clause of one name; \<open>name[0]\<close> of an empty name is an index out of range.\<close>

definition sortItem :: "string \<Rightarrow> string option" where
  "sortItem name =
     (if name = [] then None
      else if hd name = CHR ''-'' \<and> length name > 1 then Some (tl name @ '' DESC'')
      else Some (name @ '' ASC''))"

definition getSort :: "string \<Rightarrow> string option" where
  "getSort names0 =
     (let names = replaceByte (CHR '' '') [] names0 in
      if names = [] then Some ''id DESC''
      else (let items = map sortItem (splitOn (CHR '','') names) in
            if None \<in> set items then None else Some (joinWith '', '' (map the items))))"

text \<open>\<open>defaultMaxSize\<close>, the package variable, is the first argument.\<close>

definition NewPage :: "int \<Rightarrow> int \<Rightarrow> int \<Rightarrow> string \<Rightarrow> page option" where
  "NewPage maxSize pg limit names =
     (case getSort names of
        None \<Rightarrow> None
      | Some s \<Rightarrow>
         Some \<lparr>pgPage = (if pg < 0 then 0 else pg),
               pgLimit = (if limit > maxSize \<or> limit < 1 then maxSize else limit),
               pgSort = s\<rparr>)"

definition ConvertToPage :: "int \<Rightarrow> 'x params \<Rightarrow> (string \<times> int \<times> int) option" where
  "ConvertToPage maxSize p =
     (case NewPage maxSize (pPage p) (pLimit p) (pSort p) of
        None \<Rightarrow> None
      | Some pg \<Rightarrow> Some (pgSort pg, pgLimit pg, i64 (pgPage pg * pgLimit pg)))"

section \<open>What a checked column is\<close>

definition symbolOf :: "string \<Rightarrow> string" where
  "symbolOf v = (if v = '' IN '' \<or> v = '' NOT IN '' then ''(?)''
     else if v = '' IS NULL '' \<or> v = '' IS NOT NULL '' then [] else ''?'')"

definition normExp :: "'x column \<Rightarrow> string" where
  "normExp c = (if cExp c = [] then ''eq'' else cExp c)"

definition normLogic :: "'x column \<Rightarrow> string" where
  "normLogic c = (if cLogic c = [] then ''and'' else toLower (cLogic c))"

lemma convertValue_not_nil [simp]: "v \<noteq> GNil \<Longrightarrow> convertValue P v \<noteq> GNil"
  by (cases v) (auto simp: convertValue_def Let_def split: option.splits)

lemma checkLogic_Ok:
  "checkLogic c = Ok c1 \<longleftrightarrow>
     c1 = c\<lparr>cLogic := normLogic c\<rparr> \<and> map_of logicMap (normLogic c) \<noteq> None"
  by (auto simp: checkLogic_def normLogic_def Let_def logicMap_def split: if_splits)

lemma expValue_Ok:
  "expValue c = Ok (sb, c1) \<Longrightarrow>
     sb = symbolOf (cExp c) \<and> cName c1 = cName c \<and> cExp c1 = cExp c \<and> cLogic c1 = cLogic c \<and>
     (symbolOf (cExp c) = [] \<longrightarrow> cValue c1 = GNil) \<and>
     (cValue c \<noteq> GNil \<longrightarrow> symbolOf (cExp c) \<noteq> [] \<longrightarrow> cValue c1 \<noteq> GNil)"
  by (auto simp: expValue_def symbolOf_def split: if_splits gval.splits)

lemma checkExp_Ok:
  assumes "checkExp c = Ok (sb, c1)"
  shows "\<exists>v. map_of expMap (toLower (normExp c)) = Some v \<and> sb = symbolOf v \<and>
     cName c1 = cName c \<and> cExp c1 = v \<and> cLogic c1 = normLogic c \<and>
     map_of logicMap (normLogic c) \<noteq> None \<and>
     (symbolOf v = [] \<longrightarrow> cValue c1 = GNil) \<and>
     (cValue c \<noteq> GNil \<longrightarrow> symbolOf v \<noteq> [] \<longrightarrow> cValue c1 \<noteq> GNil)"
proof -
  let ?c = "if cExp c = [] then c\<lparr>cExp := ''eq''\<rparr> else c"
  have ne: "cExp ?c = normExp c" by (simp add: normExp_def)
  from assms obtain v where v: "map_of expMap (toLower (normExp c)) = Some v"
    by (auto simp: checkExp_def ne Let_def split: option.splits)
  with assms obtain c2 where e: "expValue (?c\<lparr>cExp := v\<rparr>) = Ok (sb, c2)" and l: "checkLogic c2 = Ok c1"
    by (auto simp: checkExp_def ne Let_def go_bind_eq_Ok split: prod.splits)
  from expValue_Ok [OF e] have lc: "cLogic c2 = cLogic c" by (auto split: if_splits)
  then have "normLogic c2 = normLogic c" by (simp add: normLogic_def)
  with expValue_Ok [OF e] l v lc show ?thesis
    by (auto simp: checkLogic_Ok split: if_splits)
qed

lemma null_exp_symbol:
  assumes "lookupStr expMap (toLower (cExp c)) = '' IS NULL '' \<or> lookupStr expMap (toLower (cExp c)) = '' IS NOT NULL ''"
    and "map_of expMap (toLower (normExp c)) = Some v"
  shows "symbolOf v = []"
proof (cases "cExp c = []")
  case True
  with assms(1) show ?thesis by (simp add: lookupStr_def expMap_def)
next
  case False
  with assms show ?thesis by (auto simp: normExp_def lookupStr_def symbolOf_def)
qed

text \<open>The whole check of one column: its text and its argument are determined by its operator.\<close>

lemma checkColumn_Ok:
  assumes "checkColumn P o1 c = Ok (sb, c1)"
  shows "\<exists>v. map_of expMap (toLower (normExp c)) = Some v \<and> sb = symbolOf v \<and>
     cName c1 = cName c \<and> cExp c1 = v \<and> cLogic c1 = normLogic c \<and>
     map_of logicMap (normLogic c) \<noteq> None \<and> (cValue c1 = GNil \<longleftrightarrow> symbolOf v = [])"
proof (cases "cValue c = GNil")
  case True
  with assms have ck: "checkExp c = Ok (sb, c1)"
    and nu: "lookupStr expMap (toLower (cExp c)) = '' IS NULL '' \<or> lookupStr expMap (toLower (cExp c)) = '' IS NOT NULL ''"
    by (auto simp: checkColumn_def Let_def split: if_splits)
  from checkExp_Ok [OF ck] obtain v where v: "map_of expMap (toLower (normExp c)) = Some v"
    "sb = symbolOf v" "cName c1 = cName c" "cExp c1 = v" "cLogic c1 = normLogic c"
    "map_of logicMap (normLogic c) \<noteq> None" "symbolOf v = [] \<longrightarrow> cValue c1 = GNil" by blast
  from null_exp_symbol [OF nu v(1)] have "symbolOf v = []" .
  with v show ?thesis by blast
next
  case False
  let ?c = "c\<lparr>cValue := convertValue P (cValue c)\<rparr>"
  from False assms have ck: "checkExp ?c = Ok (sb, c1)"
    by (auto simp: checkColumn_def split: if_splits)
  have "normExp ?c = normExp c" "normLogic ?c = normLogic c"
    by (simp_all add: normExp_def normLogic_def)
  with checkExp_Ok [OF ck] False show ?thesis by auto
qed

section \<open>The text of a condition\<close>

definition shape :: "'x column \<Rightarrow> string \<times> string \<times> string" where
  "shape c = (cName c, cExp c, cLogic c)"

definition shapeExp :: "string \<times> string \<times> string \<Rightarrow> string" where
  "shapeExp t = lookupStr expMap (toLower (if fst (snd t) = [] then ''eq'' else fst (snd t)))"

definition shapeCol :: "string \<times> string \<times> string \<Rightarrow> unit column" where
  "shapeCol t = \<lparr>cName = fst t, cExp = shapeExp t, cValue = GNil,
     cLogic = (if snd (snd t) = [] then ''and'' else toLower (snd (snd t)))\<rparr>"

text \<open>The specification of the text: a function of names, operators and logic alone.\<close>

fun condText :: "(string \<times> string \<times> string) list \<Rightarrow> string" where
  "condText [] = []"
| "condText (t # ts) = columnText (ts = []) (symbolOf (shapeExp t)) (shapeCol t) @ condText ts"

definition sqlText :: "(string \<times> string \<times> string) list \<Rightarrow> string" where
  "sqlText ts =
     (if length ts > 1 \<and> (\<forall>t \<in> set ts. fst t = fst (hd ts) \<and> shapeExp t = '' = '')
      then fst (hd ts) @ '' IN (?)'' else condText ts)"

lemma checkColumn_shape:
  assumes "checkColumn P o1 c = Ok (sb, c1)"
  shows "sb = symbolOf (shapeExp (shape c))" "cName c1 = cName c" "cExp c1 = shapeExp (shape c)"
    "columnText l s c1 = columnText l s (shapeCol (shape c))"
  using checkColumn_Ok [OF assms]
  by (auto simp: shape_def shapeExp_def shapeCol_def normExp_def normLogic_def lookupStr_def
      columnText_def Let_def)

lemma gormLoop_text:
  "gormLoop P o1 f cs str args b = Ok (str', args', b') \<Longrightarrow>
     str' = str @ condText (map shape cs) \<and>
     b' = (b \<and> (\<forall>c \<in> set cs. f = cName c \<and> shapeExp (shape c) = '' = ''))"
proof (induction cs arbitrary: str args b)
  case (Cons c cs)
  have eq: "lookupStr expMap ''eq'' = '' = ''" by (simp add: lookupStr_def expMap_def)
  from Cons.prems obtain sb c1 where ck: "checkColumn P o1 c = Ok (sb, c1)"
    by (auto simp: go_bind_eq_Ok)
  note sh = checkColumn_shape [OF ck]
  from Cons.prems ck have "gormLoop P o1 f cs (str @ columnText (cs = []) sb c1)
      (if cValue c1 \<noteq> GNil then args @ [cValue c1] else args)
      (b \<and> f = cName c1 \<and> cExp c1 = '' = '') = Ok (str', args', b')"
    by (simp add: eq)
  from Cons.IH [OF this] show ?case
    by (auto simp: sh)
qed simp

lemma Convert_Ok:
  assumes "ConvertToGormConditions P p opts = Ok (str, args)" and "pColumns p \<noteq> []"
  obtains str1 args1 b where
    "gormLoop P (applyOpts opts noRules) (cName (hd (pColumns p))) (pColumns p) [] []
       (length (pColumns p) > 1) = Ok (str1, args1, b)"
    "(str, args) = (if b then (cName (hd (pColumns p)) @ '' IN (?)'', [GSlice args1]) else (str1, args1))"
  using assms
  by (auto simp: ConvertToGormConditions_def Let_def go_bind_eq_Ok
      split: list.splits option.splits if_splits)

text \<open>
  C1: the SQL text returned is a function of the columns' names, operators and logic only:
  whatever the values are and however they parse, they never reach the text. It is the condition
  text of the columns in order, or the IN form when all of them test one field for equality.
\<close>

theorem gorm_text_is_shape:
  assumes "ConvertToGormConditions P p opts = Ok (str, args)"
  shows "str = sqlText (map shape (pColumns p))"
proof (cases "pColumns p")
  case Nil
  with assms show ?thesis by (simp add: ConvertToGormConditions_def sqlText_def)
next
  case (Cons c cs)
  then have ne: "pColumns p \<noteq> []" by simp
  obtain str1 args1 b where
    l: "gormLoop P (applyOpts opts noRules) (cName (hd (pColumns p))) (pColumns p) [] []
       (length (pColumns p) > 1) = Ok (str1, args1, b)" and
    r: "(str, args) = (if b then (cName (hd (pColumns p)) @ '' IN (?)'', [GSlice args1]) else (str1, args1))"
    by (rule Convert_Ok [OF assms ne])
  from gormLoop_text [OF l] r Cons show ?thesis
    by (auto simp: sqlText_def shape_def split: if_splits)
qed

theorem gorm_text_is_shape_witness:
  "ConvertToGormConditions no_parsers
     \<lparr>pPage = 0, pLimit = 10, pSort = [], pColumns =
       [\<lparr>cName = ''age'', cExp = ''>='', cValue = GStr ''18'', cLogic = ''OR''\<rparr>,
        \<lparr>cName = ''name'', cExp = ''like'', cValue = GStr ''li'', cLogic = []\<rparr>], pSize = 0\<rparr> []
     = Ok (''age >= ? OR name LIKE ?'', [GInt 18, GStr ''%li%'' :: unit gval]) \<and>
   ''age >= ? OR name LIKE ?'' = sqlText [(''age'', ''>='', ''OR''), (''name'', ''like'', [])]"
proof -
  let ?p = "\<lparr>pPage = 0, pLimit = 10, pSort = [], pColumns =
       [\<lparr>cName = ''age'', cExp = ''>='', cValue = GStr ''18'', cLogic = ''OR''\<rparr>,
        \<lparr>cName = ''name'', cExp = ''like'', cValue = GStr ''li'', cLogic = []\<rparr>], pSize = 0\<rparr> :: unit params"
  have r: "ConvertToGormConditions no_parsers ?p [] = Ok (''age >= ? OR name LIKE ?'', [GInt 18, GStr ''%li%''])"
    by code_simp
  from gorm_text_is_shape [OF r] r show ?thesis by (simp add: shape_def)
qed

section \<open>Placeholders and arguments\<close>

abbreviation qmarks :: "string \<Rightarrow> nat" where
  "qmarks s \<equiv> count_list s (CHR ''?'')"

lemma qmarks_exp: "map_of expMap k = Some v \<Longrightarrow> qmarks v = 0"
  by (drule map_of_SomeD) (auto simp: expMap_def)

lemma qmarks_logic [simp]: "qmarks (lookupStr logicMap k) = 0"
  by (auto simp: lookupStr_def logicMap_def split: option.splits if_splits dest!: map_of_SomeD)

lemma qmarks_columnText:
  "qmarks (columnText l sb c) = qmarks (cName c) + qmarks (cExp c) + qmarks sb"
  by (simp add: columnText_def Let_def)

lemma qmarks_symbolOf: "qmarks (symbolOf v) = (if symbolOf v = [] then 0 else 1)"
  by (simp add: symbolOf_def)

lemma gormLoop_qmarks:
  "gormLoop P o1 f cs str args b = Ok (str', args', b') \<Longrightarrow> qmarks str = length args \<Longrightarrow>
   (\<forall>c \<in> set cs. CHR ''?'' \<notin> set (cName c)) \<Longrightarrow> qmarks str' = length args'"
proof (induction cs arbitrary: str args b)
  case (Cons c cs)
  from Cons.prems(1) obtain sb c1 where ck: "checkColumn P o1 c = Ok (sb, c1)"
    by (auto simp: go_bind_eq_Ok)
  from checkColumn_Ok [OF ck] obtain v where v: "map_of expMap (toLower (normExp c)) = Some v"
    "sb = symbolOf v" "cName c1 = cName c" "cExp c1 = v" "cValue c1 = GNil \<longleftrightarrow> symbolOf v = []"
    by blast
  have "qmarks (columnText (cs = []) sb c1) = (if cValue c1 = GNil then 0 else 1)"
    using v Cons.prems(3) qmarks_exp [OF v(1)]
    by (simp add: qmarks_columnText qmarks_symbolOf count_list_0_iff)
  with Cons.prems(2) have inv: "qmarks (str @ columnText (cs = []) sb c1)
      = length (if cValue c1 \<noteq> GNil then args @ [cValue c1] else args)"
    by simp
  from Cons.prems(1) ck have "gormLoop P o1 f cs (str @ columnText (cs = []) sb c1)
      (if cValue c1 \<noteq> GNil then args @ [cValue c1] else args)
      (b \<and> f = cName c1 \<and> cExp c1 = lookupStr expMap ''eq'') = Ok (str', args', b')"
    by simp
  from Cons.IH [OF this inv] Cons.prems(3) show ?case by simp
qed simp



section \<open>Allowed names\<close>

lemma checkColumn_name:
  "checkColumn P o1 c = Ok r \<Longrightarrow>
     cName c \<noteq> [] \<and> (\<forall>w. whitelistNames o1 = Some w \<longrightarrow> w (cName c))"
  by (auto simp: checkColumn_def split: if_splits option.splits)

lemma gormLoop_names:
  "gormLoop P o1 f cs str args b = Ok r \<Longrightarrow> c \<in> set cs \<Longrightarrow>
     cName c \<noteq> [] \<and> (\<forall>w. whitelistNames o1 = Some w \<longrightarrow> w (cName c))"
  by (induction cs arbitrary: str args b)
     (auto simp: go_bind_eq_Ok split: prod.splits dest: checkColumn_name)

lemma convert_names:
  assumes "ConvertToGormConditions P p opts = Ok (str, args)"
    and "whitelistNames (applyOpts opts noRules) = Some w"
    and "c \<in> set (pColumns p)"
  shows "cName c \<noteq> [] \<and> w (cName c)"
proof -
  from assms(3) have ne: "pColumns p \<noteq> []" by auto
  show ?thesis
    by (rule Convert_Ok [OF assms(1) ne]) (use gormLoop_names assms in blast)
qed

text \<open>
  C3: under a whitelist a conversion succeeds only when every column name is on it (and none is
  empty); with the previous property, all that reaches the text from a request is allowed names.
\<close>

theorem gorm_whitelist_enforced:
  assumes "ConvertToGormConditions P p opts = Ok (str, args)"
    and "whitelistNames (applyOpts opts noRules) = Some w"
    and "c \<in> set (pColumns p)"
  shows "cName c \<noteq> [] \<and> w (cName c)"
  using assms by (rule convert_names)

theorem gorm_whitelist_enforced_witness:
  "cName \<lparr>cName = ''id'', cExp = ''gt'', cValue = GInt 7 :: unit gval, cLogic = []\<rparr> \<noteq> [] \<and>
   (\<lambda>n. n \<in> set [''id'', ''name'']) (cName \<lparr>cName = ''id'', cExp = ''gt'', cValue = GInt 7 :: unit gval, cLogic = []\<rparr>)"
proof -
  let ?c = "\<lparr>cName = ''id'', cExp = ''gt'', cValue = GInt 7, cLogic = []\<rparr> :: unit column"
  let ?w = "\<lambda>n. n \<in> set [''id'', ''name'']"
  have r: "ConvertToGormConditions no_parsers
      \<lparr>pPage = 0, pLimit = 10, pSort = [], pColumns = [?c], pSize = 0\<rparr> [WithWhitelistNames (Some ?w)]
      = Ok (''id > ?'', [GInt 7])"
    by code_simp
  show ?thesis
    by (rule gorm_whitelist_enforced [OF r]) (simp_all add: WithWhitelistNames_def)
qed

section \<open>Several equalities on one field\<close>

lemma checkColumn_eq:
  assumes "cName c \<noteq> []" and "cExp c \<in> {[], ''eq'', ''=''}" and "cValue c \<noteq> GNil"
    and "map_of logicMap (normLogic c) \<noteq> None"
  shows "checkColumn P noRules c =
    Ok (''?'', c\<lparr>cExp := '' = '', cValue := convertValue P (cValue c), cLogic := normLogic c\<rparr>)"
proof -
  have l: "toLower ''eq'' = ''eq''" "toLower ''='' = ''=''" by code_simp+
  have m: "map_of expMap ''eq'' = Some '' = ''" "map_of expMap ''='' = Some '' = ''"
    by (simp_all add: expMap_def)
  have ck: "checkLogic d = Ok (d\<lparr>cLogic := normLogic c\<rparr>)" if "cLogic d = cLogic c" for d :: "'a column"
    using assms(4) that by (simp add: checkLogic_Ok normLogic_def split: if_splits)
  from assms(1-3) l m show ?thesis
    by (auto simp: checkColumn_def noRules_def checkExp_def Let_def expValue_def ck)
qed

lemma gormLoop_eq:
  assumes "\<And>c. c \<in> set cs \<Longrightarrow> checkColumn P o1 c =
      Ok (''?'', c\<lparr>cExp := '' = '', cValue := convertValue P (cValue c), cLogic := normLogic c\<rparr>)"
    and "\<And>c. c \<in> set cs \<Longrightarrow> cName c = f \<and> cValue c \<noteq> GNil"
  shows "\<exists>str'. gormLoop P o1 f cs str args True = Ok (str', args @ map (\<lambda>c. convertValue P (cValue c)) cs, True)"
  using assms
proof (induction cs arbitrary: str args)
  case (Cons c cs)
  have eq: "lookupStr expMap ''eq'' = '' = ''" by (simp add: lookupStr_def expMap_def)
  from Cons.IH [of "str @ columnText (cs = []) ''?'' (c\<lparr>cExp := '' = '', cValue := convertValue P (cValue c), cLogic := normLogic c\<rparr>)"
      "args @ [convertValue P (cValue c)]"] Cons.prems
  show ?case by (simp add: eq)
qed simp

text \<open>
  two or more equality columns on one field are returned as one IN over all their values,
  whatever their logic says: a conjunction \<open>f = a AND f = b\<close>, which no row with distinct values
  satisfies, becomes the disjunction \<open>f IN (a, b)\<close>.
\<close>

theorem gorm_in_ignores_logic:
  assumes "pColumns p = cs" and "length cs \<ge> 2" and "f \<noteq> []"
    and "\<forall>c \<in> set cs. cName c = f \<and> cExp c \<in> {[], ''eq'', ''=''} \<and> cValue c \<noteq> GNil
           \<and> map_of logicMap (normLogic c) \<noteq> None"
  shows "ConvertToGormConditions P p [] =
    Ok (f @ '' IN (?)'', [GSlice (map (\<lambda>c. convertValue P (cValue c)) cs)])"
proof -
  from assms(3,4) have "checkColumn P noRules c =
      Ok (''?'', c\<lparr>cExp := '' = '', cValue := convertValue P (cValue c), cLogic := normLogic c\<rparr>)"
    if "c \<in> set cs" for c using that by (intro checkColumn_eq) auto
  then obtain str' where
    l: "gormLoop P noRules f cs [] [] True = Ok (str', map (\<lambda>c. convertValue P (cValue c)) cs, True)"
    using gormLoop_eq [of cs P noRules f "[]" "[]"] assms(4) by auto
  obtain c d ds where cs: "cs = c # d # ds"
    using assms(2) by (cases cs; cases "tl cs") auto
  with assms(4) have f: "cName c = f" by simp
  have nv: "validateFn noRules = None" by (simp add: noRules_def)
  from l assms(1) cs f show ?thesis
    by (simp add: ConvertToGormConditions_def Let_def nv del: gormLoop.simps)
qed

theorem gorm_in_ignores_logic_witness:
  "ConvertToGormConditions no_parsers
    \<lparr>pPage = 0, pLimit = 10, pSort = [], pColumns =
       [\<lparr>cName = ''age'', cExp = ''eq'', cValue = GInt 1, cLogic = ''and''\<rparr>,
        \<lparr>cName = ''age'', cExp = ''eq'', cValue = GInt 2, cLogic = ''and''\<rparr>], pSize = 0\<rparr> []
   = Ok (''age'' @ '' IN (?)'', [GSlice [GInt 1, GInt 2 :: unit gval]])"
proof -
  have l: "toLower ''and'' = ''and''" by code_simp
  let ?cs = "[\<lparr>cName = ''age'', cExp = ''eq'', cValue = GInt 1, cLogic = ''and''\<rparr>,
        \<lparr>cName = ''age'', cExp = ''eq'', cValue = GInt 2, cLogic = ''and''\<rparr>] :: unit column list"
  have "\<forall>c \<in> set ?cs. cName c = ''age'' \<and> cExp c \<in> {[], ''eq'', ''=''} \<and> cValue c \<noteq> GNil
           \<and> map_of logicMap (normLogic c) \<noteq> None"
    by (simp add: normLogic_def l logicMap_def)
  from gorm_in_ignores_logic [OF _ _ _ this, of "\<lparr>pPage = 0, pLimit = 10, pSort = [], pColumns = ?cs, pSize = 0\<rparr>" no_parsers]
  show ?thesis by (simp add: convertValue_def)
qed

section \<open>LIKE patterns\<close>

text \<open>A wildcard of a pattern that the preceding byte does not escape, as SQL reads it.\<close>

fun wildcard :: "string \<Rightarrow> bool" where
  "wildcard [] = False"
| "wildcard (c # s) =
     (if c = backslash then wildcard (tl s) else c = CHR ''%'' \<or> c = CHR ''_'' \<or> wildcard s)"

lemma escapeLike_Cons:
  "escapeLike (c # s) =
     (if c = CHR ''%'' \<or> c = CHR ''_'' then [backslash, c] else [c]) @ escapeLike s"
  by (simp add: escapeLike_def)

lemma escapeLike_Nil [simp]: "escapeLike [] = []"
  by (simp add: escapeLike_def)

lemma escapeLike_no_wildcard: "backslash \<notin> set s \<Longrightarrow> \<not> wildcard (escapeLike s)"
  by (induction s) (auto simp: escapeLike_Cons)

lemma utf8_chunks_bytes: "ch \<in> set (utf8_chunks s) \<Longrightarrow> c \<in> set ch \<Longrightarrow> c \<in> set s"
  using concat_utf8_chunks [of s] by (metis UN_I set_concat)

lemma runes_bytes: "r \<in> set (runes s) \<Longrightarrow> c \<in> set r \<Longrightarrow> c \<in> set s \<or> byte c \<ge> 128"
  by (auto simp: runes_def rune_str_def dest: utf8_chunks_bytes split: if_splits)

lemma runes_no_backslash: "backslash \<notin> set s \<Longrightarrow> backslash \<notin> set (concat (butlast (tl (runes s))))"
proof
  assume a: "backslash \<notin> set s" and "backslash \<in> set (concat (butlast (tl (runes s))))"
  then obtain r where "r \<in> set (butlast (tl (runes s)))" "backslash \<in> set r" by auto
  then have "r \<in> set (tl (runes s))" by (simp add: in_set_butlastD)
  then have "r \<in> set (runes s)" by (cases "runes s") auto
  with runes_bytes [OF this \<open>backslash \<in> set r\<close>] a show False by simp
qed

text \<open>
  in the pattern made from a value of more than two code points and no backslash, every
  wildcard strictly inside the value is escaped; the value's own first and last code points keep
  their meaning, and percent signs are added around it exactly when neither end is a wildcard.
\<close>

theorem gorm_like_interior_escaped:
  assumes "backslash \<notin> set s" and "length (runes s) > 2"
  defines "mid \<equiv> escapeLike (concat (butlast (tl (runes s))))"
  shows "\<not> wildcard mid \<and>
    (\<exists>w \<in> {[], ''%''}. likeValue s = w @ hd (runes s) @ mid @ last (runes s) @ w)"
proof -
  have "\<not> wildcard mid"
    unfolding mid_def by (intro escapeLike_no_wildcard runes_no_backslash assms(1))
  with assms(2) show ?thesis by (auto simp: likeValue_def Let_def mid_def)
qed

theorem gorm_like_interior_escaped_witness:
  "\<not> wildcard (escapeLike (concat (butlast (tl (runes ''a%b'')))))
   \<and> likeValue ''a%b'' = ''%a'' @ [backslash] @ ''%b%''"
proof -
  have r: "runes ''a%b'' = [''a'', ''%'', ''b'']" by code_simp
  have "likeValue ''a%b'' = ''%a'' @ [backslash] @ ''%b%''" by code_simp
  with gorm_like_interior_escaped [of "''a%b''"] r show ?thesis by simp
qed

text \<open>
  a backslash in the value is not escaped, so one placed before a wildcard turns the added
  escape into an escaped backslash and the wildcard stays active.
\<close>

theorem gorm_like_backslash_wildcard:
  "wildcard (escapeLike (backslash # CHR ''%'' # s))"
  by (simp add: escapeLike_Cons)

section \<open>Sorting and pages\<close>

lemma sortItem_None: "sortItem name = None \<longleftrightarrow> name = []"
  by (simp add: sortItem_def)

text \<open>
  the order clause. A list of names panics exactly when, spaces removed, it is not empty and
  one of its comma-separated names is (a trailing or doubled comma of a request is enough);
  otherwise each name gives its column with \<open>DESC\<close> for a leading minus sign and \<open>ASC\<close> without.
\<close>

theorem gorm_getSort_behaviour:
  fixes s
  defines "names \<equiv> splitOn (CHR '','') (filter (\<lambda>c. c \<noteq> CHR '' '') s)"
  shows "getSort s =
    (if filter (\<lambda>c. c \<noteq> CHR '' '') s = [] then Some ''id DESC''
     else if [] \<in> set names then None
     else Some (joinWith '', ''
       (map (\<lambda>n. if hd n = CHR ''-'' \<and> n \<noteq> ''-'' then tl n @ '' DESC'' else n @ '' ASC'') names)))"
proof -
  have "None \<in> set (map sortItem names) \<longleftrightarrow> [] \<in> set names"
    by (metis image_iff list.set_map sortItem_None)
  moreover have "map (the \<circ> sortItem) names =
      map (\<lambda>n. if hd n = CHR ''-'' \<and> n \<noteq> ''-'' then tl n @ '' DESC'' else n @ '' ASC'') names"
    if "[] \<notin> set names"
  proof (rule map_cong [OF refl])
    fix n assume "n \<in> set names"
    with that have "n \<noteq> []" by auto
    then show "(the \<circ> sortItem) n =
        (if hd n = CHR ''-'' \<and> n \<noteq> ''-'' then tl n @ '' DESC'' else n @ '' ASC'')"
      by (cases n; cases "tl n") (auto simp: sortItem_def)
  qed
  moreover have "getSort s = (if filter (\<lambda>c. c \<noteq> CHR '' '') s = [] then Some ''id DESC''
      else if None \<in> set (map sortItem names) then None
      else Some (joinWith '', '' (map (the \<circ> sortItem) names)))"
    by (simp add: getSort_def replaceByte_Nil Let_def names_def)
  ultimately show ?thesis by (cases "[] \<in> set names") (simp_all only: if_True if_False simp_thms)
qed

text \<open>
  C4: bounds of a page. Whatever a request asks for, and whatever maximum was set, the page number
  is not negative, the limit lies between 1 and the maximum, and the offset is their product
  reduced to 64 bits: it is the product itself, and not negative, while the product fits.
\<close>

theorem gorm_page_bounds:
  assumes "NewPage (SetMaxSize k) pg limit names = Some p"
  shows "0 \<le> pgPage p \<and> 1 \<le> pgLimit p \<and> pgLimit p \<le> SetMaxSize k \<and>
    Offset p = i64 (pgPage p * pgLimit p) \<and>
    (pgPage p * pgLimit p < 2 ^ 63 \<longrightarrow> Offset p = pgPage p * pgLimit p \<and> 0 \<le> Offset p)"
proof -
  have m: "10 \<le> SetMaxSize k" by (simp add: SetMaxSize_def)
  with assms have b: "0 \<le> pgPage p" "1 \<le> pgLimit p" "pgLimit p \<le> SetMaxSize k"
    by (auto simp: NewPage_def split: option.splits)
  then have nn: "0 \<le> pgPage p * pgLimit p" by simp
  then have "i64 (pgPage p * pgLimit p) = pgPage p * pgLimit p" if "pgPage p * pgLimit p < 2 ^ 63"
    using that by (intro i64_id) auto
  with b nn show ?thesis by (auto simp: Offset_def)
qed

theorem gorm_page_bounds_witness:
  "NewPage (SetMaxSize 5) 3 500 ''-name'' = Some \<lparr>pgPage = 3, pgLimit = 10, pgSort = ''name DESC''\<rparr> \<and>
   Offset \<lparr>pgPage = 3, pgLimit = 10, pgSort = ''name DESC''\<rparr> = 30"
proof -
  have r: "NewPage (SetMaxSize 5) 3 500 ''-name'' = Some \<lparr>pgPage = 3, pgLimit = 10, pgSort = ''name DESC''\<rparr>"
    by code_simp
  from gorm_page_bounds [OF r] r show ?thesis by simp
qed

text \<open>
  with the default maximum of 1000 rows a large page number makes the 64-bit product wrap, and
  \<open>ConvertToPage\<close> hands a negative offset to the database.
\<close>

theorem gorm_page_offset_wraps:
  "ConvertToPage 1000 \<lparr>pPage = 9223372036854776, pLimit = 1000, pSort = [], pColumns = [], pSize = 0\<rparr>
   = Some (''id DESC'', 1000, - 9223372036854775616)"
  by code_simp

end
