(* ===== verification/MongoQuery.thy ===== *)
theory MongoQuery
  imports QueryValue "HOL-Library.AList"
begin

text \<open>
  Package \<open>pkg/mgo/query\<close>: a request's columns become a MongoDB filter document.

  \<^item> A \<open>bson.M\<close> is an association list with distinct keys (\<open>AList.update\<close> writes a key); a list of
    documents in it is a \<open>GSlice\<close> of \<open>GMap\<close>s.
  \<^item> The methods of \<open>*Column\<close> write to their receiver, also on the way to an error, and some callers
    pass pointers into \<open>Params.Columns\<close>; every such operation here returns the written column next
    to its error, and \<open>ConvertToMongoFilter\<close> returns the columns it leaves behind.
  \<^item> The driver's \<open>primitive.ObjectIDFromHex\<close> and the printing of values other than strings,
    numbers and booleans are fields of the record of parsers.
\<close>

type_synonym 'x bsonM = "(string \<times> 'x gval) list"

record 'x mparsers = "'x parsers" +
  oidFromHex :: "string \<Rightarrow> string option"
  sprintOther :: "'x gval \<Rightarrow> string"

section \<open>Operators\<close>

definition mgExpMap :: "(string \<times> string) list" where
  "mgExpMap =
    [(''eq'', ''=''), (''='', ''=''), (''neq'', ''!=''), (''!='', ''!=''), (''gt'', ''>''), (''>'', ''>''),
     (''gte'', ''>=''), (''>='', ''>=''), (''lt'', ''<''), (''<'', ''<''), (''lte'', ''<=''), (''<='', ''<=''),
     (''like'', ''like''), (''in'', ''in''), (''nin'', ''nin''), (''notin'', ''nin''), (''not in'', ''nin''),
     (''isnull'', ''isnull''), (''isnotnull'', ''isnotnull''), (''is null'', ''isnull''),
     (''is not null'', ''isnotnull'')]"

definition mgLogicMap :: "(string \<times> string) list" where
  "mgLogicMap =
    [(''and'', ''and''), (''AND'', ''and''), (''&'', ''and''), (''&&'', ''and''),
     (''or'', ''or''), (''OR'', ''or''), (''|'', ''or''), (''||'', ''or''),
     (''and:('', ''and''), (''and:)'', ''and''), (''or:('', ''or''), (''or:)'', ''or'')]"

section \<open>Data\<close>

record 'x mcolumn =
  mName :: string
  mExp :: string
  mValue :: "'x gval"
  mLogic :: string

record 'x mparams =
  mpPage :: int
  mpLimit :: int
  mpSort :: string
  mpColumns :: "'x mcolumn list"
  mpSize :: int

datatype mongo_error =
    MNameNotAllowed string
  | MNameEmpty
  | MValueNil
  | MConvertLogic string
  | MCheckLogic string
  | MUnsupportedExp string
  | MConvertValue mongo_error
  | MCondition string mongo_error
  | MMismatched
  | MMismatchedLogic string
  | MUnclosed
  | MValidate string
  | MColumnsEmpty
  | MUnknownExp string
  | MUnknownLogic string

record 'x mrulerOptions =
  mwhitelistNames :: "(string \<Rightarrow> bool) option"
  mvalidateFn :: "('x mcolumn list \<Rightarrow> string option) option"

definition mNoRules :: "'x mrulerOptions" where
  "mNoRules = \<lparr>mwhitelistNames = None, mvalidateFn = None\<rparr>"

definition mWithWhitelistNames :: "(string \<Rightarrow> bool) option \<Rightarrow> 'x mrulerOptions \<Rightarrow> 'x mrulerOptions" where
  "mWithWhitelistNames names o1 = o1\<lparr>mwhitelistNames := names\<rparr>"

definition mWithValidateFn ::
    "('x mcolumn list \<Rightarrow> string option) option \<Rightarrow> 'x mrulerOptions \<Rightarrow> 'x mrulerOptions" where
  "mWithValidateFn f o1 = o1\<lparr>mvalidateFn := f\<rparr>"

section \<open>Checks and conversions of one column\<close>

definition checkName :: "(string \<Rightarrow> bool) option \<Rightarrow> 'x mcolumn \<Rightarrow> mongo_error option" where
  "checkName whitelists c =
     (if mName c = [] \<or> (case whitelists of None \<Rightarrow> False | Some w \<Rightarrow> \<not> w (mName c))
      then Some (MNameNotAllowed (mName c)) else None)"

definition checkValid :: "'x mcolumn \<Rightarrow> mongo_error option" where
  "checkValid c =
     (if mName c = [] then Some MNameEmpty
      else if mValue c = GNil then Some MValueNil else None)"

definition convertLogic :: "'x mcolumn \<Rightarrow> 'x mcolumn \<times> mongo_error option" where
  "convertLogic c0 =
     (let c = (if mLogic c0 = [] then c0\<lparr>mLogic := ''and''\<rparr> else c0) in
      case map_of mgLogicMap (toLower (mLogic c)) of
        Some v \<Rightarrow> (c\<lparr>mLogic := v\<rparr>, None)
      | None \<Rightarrow> (c, Some (MConvertLogic (mLogic c))))"

definition mCheckLogic :: "'x mcolumn \<Rightarrow> 'x mcolumn \<times> mongo_error option" where
  "mCheckLogic c0 =
     (let c = (if mLogic c0 = [] then c0\<lparr>mLogic := ''and''\<rparr> else c0) in
      if map_of mgLogicMap (toLower (mLogic c)) \<noteq> None then (c, None)
      else (c, Some (MCheckLogic (mLogic c))))"

definition isObjectID :: "('x, 'z) mparsers_scheme \<Rightarrow> 'x gval \<Rightarrow> string option" where
  "isObjectID P v = (case v of
     GStr s \<Rightarrow> if length s = 24 then oidFromHex P s else None
   | _ \<Rightarrow> None)"

definition mTimeLayouts :: "string list" where
  "mTimeLayouts =
    [''2006-01-02T15:04:05Z07:00'', ''2006-01-02T15:04:05Z07:00'', ''2006-01-02T15:04:05Z0700'',
     ''2006-01-02T15:04:05.999999999Z0700'', ''2006-01-02T15:04:05.999999999Z07:00'',
     ''2006-01-02'', ''2006-01-02 15:04:05'', ''2006-01-02 15:04:05.999999999'',
     ''2006-01-02 15:04:05 -07:00'', ''2006-01-02 15:04:05.999999999 -07:00'']"

definition mgConvertValue :: "('x, 'z) mparsers_scheme \<Rightarrow> 'x gval \<Rightarrow> 'x gval" where
  "mgConvertValue P v = (case v of
     GStr s0 \<Rightarrow>
       (let s = trimSpace s0 in
        if hasPrefix s [dquote] then
          (let s2 = trimByte dquote s in if atoi s2 \<noteq> None then GStr s2 else GStr s)
        else (case atoi s of Some n \<Rightarrow> GInt n | None \<Rightarrow>
             (case parseBool s of Some b \<Rightarrow> GBool b | None \<Rightarrow>
             (case parseFloat P s of Some f \<Rightarrow> GOpaque f | None \<Rightarrow>
             (case firstTime (parsers.truncate P) mTimeLayouts s of Some t \<Rightarrow> GOpaque t | None \<Rightarrow> v)))))
   | _ \<Rightarrow> v)"

definition sprintV :: "('x, 'z) mparsers_scheme \<Rightarrow> 'x gval \<Rightarrow> string" where
  "sprintV P v = (case v of
     GStr s \<Rightarrow> s
   | GInt n \<Rightarrow> if n < 0 then CHR ''-'' # dec (nat (- n)) else dec (nat n)
   | GBool b \<Rightarrow> if b then ''true'' else ''false''
   | _ \<Rightarrow> sprintOther P v)"

definition quoteMeta :: "string \<Rightarrow> string" where
  "quoteMeta s = concat (map (\<lambda>c. if c \<in> set (backslash # ''.+*?()|[]{}^$'') then [backslash, c] else [c]) s)"

definition mInItem :: "string \<Rightarrow> 'x gval" where
  "mInItem s0 =
     (let s = trimSpace s0 in
      if hasPrefix s [dquote] then GStr (trimByte dquote s)
      else if hasPrefix s [squote] then GStr (trimByte squote s)
      else (case atoi s of Some n \<Rightarrow> GInt n | None \<Rightarrow> GStr s))"

text \<open>The switch over the operator: the value as the filter carries it.\<close>

definition opValue :: "('x, 'z) mparsers_scheme \<Rightarrow> string \<Rightarrow> 'x gval \<Rightarrow> 'x gval" where
  "opValue P e v =
     (if e = ''!='' then GMap [(''$ne'', v)]
      else if e = ''>'' then GMap [(''$gt'', v)]
      else if e = ''>='' then GMap [(''$gte'', v)]
      else if e = ''<'' then GMap [(''$lt'', v)]
      else if e = ''<='' then GMap [(''$lte'', v)]
      else if e = ''isnull'' then GMap [(''$exist'', GBool False)]
      else if e = ''isnotnull'' then GMap [(''$exist'', GBool True)]
      else if e = ''like'' then
        GMap [(''$regex'', GStr (quoteMeta (sprintV P v))), (''$options'', GStr ''i'')]
      else if e = ''in'' \<or> e = ''nin'' then
        (case v of
           GStr s \<Rightarrow> GMap [(CHR ''$'' # e, GSlice (map mInItem (splitOn (CHR '','') s)))]
         | _ \<Rightarrow> GMap [(CHR ''$'' # e, v)])
      else v)"

definition colConvertValue ::
    "('x, 'z) mparsers_scheme \<Rightarrow> 'x mcolumn \<Rightarrow> 'x mcolumn \<times> mongo_error option" where
  "colConvertValue P c = (case checkValid c of
     Some e \<Rightarrow> (c, Some e)
   | None \<Rightarrow>
      (let c1 = (case isObjectID P (mValue c) of
            Some oid \<Rightarrow> c\<lparr>mValue := GOid oid,
              mName := (if mName c = ''id'' then ''_id''
                        else if hasSuffix (mName c) '':oid'' then trimSuffix (mName c) '':oid''
                        else mName c)\<rparr>
          | None \<Rightarrow> c\<lparr>mValue := mgConvertValue P (mValue c)\<rparr>);
           c2 = (if mExp c1 = [] then c1\<lparr>mExp := ''eq''\<rparr> else c1)
       in case map_of mgExpMap (toLower (mExp c2)) of
            None \<Rightarrow> (c2, Some (MUnsupportedExp (mExp c2)))
          | Some v \<Rightarrow> (c2\<lparr>mExp := v, mValue := opValue P v (mValue c2)\<rparr>, None)))"

definition mConvert ::
    "('x, 'z) mparsers_scheme \<Rightarrow> 'x mcolumn \<Rightarrow> 'x mcolumn \<times> mongo_error option" where
  "mConvert P c = (case colConvertValue P c of
     (c1, Some e) \<Rightarrow> (c1, Some e)
   | (c1, None) \<Rightarrow> convertLogic c1)"

definition createSingleCondition ::
    "('x, 'z) mparsers_scheme \<Rightarrow> 'x mcolumn \<Rightarrow> 'x mcolumn \<times> (mongo_error, 'x bsonM) go" where
  "createSingleCondition P c = (case colConvertValue P c of
     (c1, Some e) \<Rightarrow> (c1, Err (MConvertValue e))
   | (c1, None) \<Rightarrow> (c1, Ok [(mName c1, mValue c1)]))"

section \<open>Explicit grouping: a stack of groups\<close>

text \<open>The head of the list is the top of the stack.\<close>

record 'x filterGroup =
  operator :: string
  filters :: "'x bsonM list"

definition mergeFilters :: "'x bsonM list \<Rightarrow> 'x bsonM" where
  "mergeFilters fs = foldl (\<lambda>m f. foldl (\<lambda>m' (k, v). AList.update k v m') m f) [] fs"

definition docs :: "'x bsonM list \<Rightarrow> 'x gval" where
  "docs fs = GSlice (map GMap fs)"

definition pushFilter :: "'x bsonM \<Rightarrow> string \<Rightarrow> 'x filterGroup \<Rightarrow> 'x filterGroup" where
  "pushFilter f op g =
     (let g1 = g\<lparr>filters := filters g @ [f]\<rparr> in
      if op = ''$or'' then g1\<lparr>operator := ''$or''\<rparr> else g1)"

definition combineGroup :: "'x filterGroup \<Rightarrow> 'x bsonM" where
  "combineGroup g =
     (if operator g = ''$and'' then mergeFilters (filters g)
      else [(operator g, docs (filters g))])"

definition stackStep ::
    "('x, 'z) mparsers_scheme \<Rightarrow> 'x filterGroup list \<Rightarrow> 'x mcolumn
     \<Rightarrow> (mongo_error, 'x filterGroup list) go" where
  "stackStep P stack c0 =
     (case mCheckLogic c0 of
        (_, Some e) \<Rightarrow> Err e
      | (c, None) \<Rightarrow>
         (case createSingleCondition P c of
            (c1, Err e) \<Rightarrow> Err (MCondition (mName c1) e)
          | (c1, Panic) \<Rightarrow> Panic
          | (c1, Ok f) \<Rightarrow>
             (let logic0 = toLower (mLogic c1);
                  logic = (if logic0 = [] then ''and'' else logic0);
                  op = (if hasPrefix logic ''or'' then ''$or'' else ''$and'')
              in if hasSuffix logic '':('' then Ok (\<lparr>operator = op, filters = [f]\<rparr> # stack)
                 else if hasSuffix logic '':)'' then
                   (case stack of
                      cur # parent # rest \<Rightarrow>
                        Ok (pushFilter (combineGroup (cur\<lparr>filters := filters cur @ [f]\<rparr>)) op parent # rest)
                    | _ \<Rightarrow> Err (MMismatchedLogic logic))
                 else
                   (case stack of
                      topGroup # rest \<Rightarrow> Ok (pushFilter f op topGroup # rest)
                    | [] \<Rightarrow> Panic))))"

fun stackLoop ::
    "('x, 'z) mparsers_scheme \<Rightarrow> 'x filterGroup list \<Rightarrow> 'x mcolumn list
     \<Rightarrow> (mongo_error, 'x filterGroup list) go" where
  "stackLoop P stack [] = Ok stack"
| "stackLoop P stack (c # cs) = go_bind (stackStep P stack c) (\<lambda>stack'. stackLoop P stack' cs)"

definition buildFilterWithStack ::
    "('x, 'z) mparsers_scheme \<Rightarrow> 'x mcolumn list \<Rightarrow> (mongo_error, 'x bsonM) go" where
  "buildFilterWithStack P columns =
     go_bind (stackLoop P [\<lparr>operator = ''$and'', filters = []\<rparr>] columns) (\<lambda>stack.
       case stack of
         [rootGroup] \<Rightarrow>
           (if length (filters rootGroup) = 1 \<and> operator rootGroup = ''$and''
            then Ok (hd (filters rootGroup))
            else Ok [(operator rootGroup, docs (filters rootGroup))])
       | _ \<Rightarrow> Err MUnclosed)"

section \<open>No grouping: AND before OR\<close>

text \<open>The first loop: the logic of every column is normalised in place, up to the first error.\<close>

fun convLogicAll :: "'x mcolumn list \<Rightarrow> 'x mcolumn list \<times> mongo_error option" where
  "convLogicAll [] = ([], None)"
| "convLogicAll (c # cs) =
     (case convertLogic c of
        (c1, Some e) \<Rightarrow> (c1 # cs, Some e)
      | (c1, None) \<Rightarrow> (case convLogicAll cs of (cs1, r) \<Rightarrow> (c1 # cs1, r)))"

text \<open>Its groups: a column whose logic is or closes the group it ends.\<close>

fun orGroups :: "'x mcolumn list \<Rightarrow> 'x mcolumn list \<Rightarrow> 'x mcolumn list list" where
  "orGroups cur [] = (if cur = [] then [] else [cur])"
| "orGroups cur (c # cs) =
     (if toLower (mLogic c) = ''or'' then (cur @ [c]) # orGroups [] cs else orGroups (cur @ [c]) cs)"

fun andParts ::
    "('x, 'z) mparsers_scheme \<Rightarrow> 'x mcolumn list \<Rightarrow> 'x mcolumn list \<times> (mongo_error, 'x bsonM list) go" where
  "andParts P [] = ([], Ok [])"
| "andParts P (c # cs) =
     (case createSingleCondition P c of
        (c1, Ok m) \<Rightarrow> (case andParts P cs of (cs1, r) \<Rightarrow> (c1 # cs1, go_bind r (\<lambda>ms. Ok (m # ms))))
      | (c1, Err e) \<Rightarrow> (c1 # cs, Err e)
      | (c1, Panic) \<Rightarrow> (c1 # cs, Panic))"

definition andDoc :: "'x bsonM list \<Rightarrow> 'x bsonM list" where
  "andDoc ms = (case ms of [] \<Rightarrow> [] | [m] \<Rightarrow> [m] | _ \<Rightarrow> [[(''$and'', docs ms)]])"

fun orParts ::
    "('x, 'z) mparsers_scheme \<Rightarrow> 'x mcolumn list list \<Rightarrow> 'x mcolumn list \<times> (mongo_error, 'x bsonM list) go" where
  "orParts P [] = ([], Ok [])"
| "orParts P (g # gs) =
     (case andParts P g of
        (g1, Ok ms) \<Rightarrow> (case orParts P gs of (cs1, r) \<Rightarrow> (g1 @ cs1, go_bind r (\<lambda>ps. Ok (andDoc ms @ ps))))
      | (g1, Err e) \<Rightarrow> (g1 @ concat gs, Err e)
      | (g1, Panic) \<Rightarrow> (g1 @ concat gs, Panic))"

definition buildFilterWithPrecedence ::
    "('x, 'z) mparsers_scheme \<Rightarrow> 'x mcolumn list \<Rightarrow> 'x mcolumn list \<times> (mongo_error, 'x bsonM) go" where
  "buildFilterWithPrecedence P columns =
     (case convLogicAll columns of
        (cs, Some e) \<Rightarrow> (cs, Err e)
      | (cs, None) \<Rightarrow>
         (case orParts P (orGroups [] cs) of
            (cs1, r) \<Rightarrow> (cs1, go_bind r (\<lambda>ps. Ok (case ps of
                [] \<Rightarrow> [] | [p] \<Rightarrow> p | _ \<Rightarrow> [(''$or'', docs ps)])))))"

section \<open>Filters\<close>

definition convertMultiColumns ::
    "('x, 'z) mparsers_scheme \<Rightarrow> (string \<Rightarrow> bool) option \<Rightarrow> 'x mcolumn list
     \<Rightarrow> 'x mcolumn list \<times> (mongo_error, 'x bsonM) go" where
  "convertMultiColumns P wl columns =
     (if columns = [] then (columns, Ok [(''filter'', GMap [])])
      else case List.find (\<lambda>c. checkName wl c \<noteq> None) columns of
        Some c \<Rightarrow> (columns, Err (the (checkName wl c)))
      | None \<Rightarrow>
         (let lefts = length (filter (\<lambda>c. containsByte (CHR ''('') (mLogic c)) columns);
              rights = length (filter (\<lambda>c. containsByte (CHR '')'') (mLogic c)) columns)
          in if lefts \<noteq> rights then (columns, Err MMismatched)
             else if 0 < lefts \<or> 0 < rights then (columns, buildFilterWithStack P columns)
             else buildFilterWithPrecedence P columns))"

definition ConvertToMongoFilter ::
    "('x, 'z) mparsers_scheme \<Rightarrow> 'x mparams \<Rightarrow> ('x mrulerOptions \<Rightarrow> 'x mrulerOptions) list
     \<Rightarrow> 'x mparams \<times> (mongo_error, 'x bsonM) go" where
  "ConvertToMongoFilter P p opts =
     (let o1 = applyOpts opts mNoRules; wl = mwhitelistNames o1;
          done = (\<lambda>cs r. (p\<lparr>mpColumns := cs\<rparr>, r)) in
      case (case mvalidateFn o1 of Some f \<Rightarrow> f (mpColumns p) | None \<Rightarrow> None) of
        Some e \<Rightarrow> (p, Err (MValidate e))
      | None \<Rightarrow>
       (case mpColumns p of
          [] \<Rightarrow> (p, Ok [])
        | [c] \<Rightarrow>
            (case checkName wl c of Some e \<Rightarrow> (p, Err e) | None \<Rightarrow>
              (case mConvert P c of
                 (c1, Some e) \<Rightarrow> done [c1] (Err e)
               | (c1, None) \<Rightarrow> done [c1] (Ok [(mName c1, mValue c1)])))
        | [c, d] \<Rightarrow>
            (case checkName wl c of Some e \<Rightarrow> (p, Err e) | None \<Rightarrow>
              (case checkName wl d of Some e \<Rightarrow> (p, Err e) | None \<Rightarrow>
                (case mConvert P c of
                   (c1, Some e) \<Rightarrow> done [c1, d] (Err e)
                 | (c1, None) \<Rightarrow>
                    (case mConvert P d of
                       (d1, Some e) \<Rightarrow> done [c1, d1] (Err e)
                     | (d1, None) \<Rightarrow>
                        done [c1, d1] (Ok [(if mLogic c1 = ''and'' then ''$and'' else ''$or'',
                           docs [[(mName c1, mValue c1)], [(mName d1, mValue d1)]])])))))
        | cs \<Rightarrow> (case convertMultiColumns P wl cs of (cs1, r) \<Rightarrow> done cs1 r)))"

section \<open>Conditions\<close>

record 'x mconditions =
  mcColumns :: "'x mcolumn list"

definition mColumnValid :: "'x mcolumn \<Rightarrow> mongo_error option" where
  "mColumnValid c =
     (case checkValid c of
        Some e \<Rightarrow> Some e
      | None \<Rightarrow>
         if mExp c \<noteq> [] \<and> map_of mgExpMap (mExp c) = None then Some (MUnknownExp (mExp c))
         else if mLogic c \<noteq> [] \<and> map_of mgLogicMap (mLogic c) = None then Some (MUnknownLogic (mLogic c))
         else None)"

definition mCheckValid :: "'x mconditions \<Rightarrow> mongo_error option" where
  "mCheckValid c =
     (if mcColumns c = [] then Some MColumnsEmpty
      else case List.find (\<lambda>d. mColumnValid d \<noteq> None) (mcColumns c) of
        Some d \<Rightarrow> mColumnValid d | None \<Rightarrow> None)"

definition ConvertToMongo ::
    "('x, 'z) mparsers_scheme \<Rightarrow> 'x mconditions \<Rightarrow> ('x mrulerOptions \<Rightarrow> 'x mrulerOptions) list
     \<Rightarrow> 'x mconditions \<times> (mongo_error, 'x bsonM) go" where
  "ConvertToMongo P c opts =
     (case ConvertToMongoFilter P
        \<lparr>mpPage = 0, mpLimit = 0, mpSort = [], mpColumns = mcColumns c, mpSize = 0\<rparr> opts of
        (p, r) \<Rightarrow> (c\<lparr>mcColumns := mpColumns p\<rparr>, r))"

section \<open>Pages\<close>

definition mSetMaxSize :: "int \<Rightarrow> int" where
  "mSetMaxSize maxValue = (if maxValue < 10 then 10 else maxValue)"

type_synonym bsonD = "(string \<times> int) list"

record mpage =
  mpgPage :: int
  mpgLimit :: int
  mpgSort :: bsonD

definition Skip :: "mpage \<Rightarrow> int" where
  "Skip p = i64 (mpgPage p * mpgLimit p)"

definition mDefaultPage :: "int \<Rightarrow> mpage" where
  "mDefaultPage pg = \<lparr>mpgPage = (if pg < 0 then 0 else pg), mpgLimit = 10, mpgSort = [(''_id'', -1)]\<rparr>"

definition mSortItem :: "string \<Rightarrow> (string \<times> int) option" where
  "mSortItem name =
     (if name = [] then None
      else if hd name = CHR ''-'' \<and> length name > 1
      then Some (if tl name = ''id'' then ''_id'' else tl name, -1)
      else Some (if name = ''id'' then ''_id'' else name, 1))"

definition mGetSort :: "string \<Rightarrow> bsonD option" where
  "mGetSort names0 =
     (let names = replaceByte (CHR '' '') [] names0 in
      if names = [] then Some [(''_id'', -1)]
      else (let items = map mSortItem (splitOn (CHR '','') names) in
            if None \<in> set items then None else Some (map the items)))"

definition mNewPage :: "int \<Rightarrow> int \<Rightarrow> int \<Rightarrow> string \<Rightarrow> mpage option" where
  "mNewPage maxSize pg limit names =
     (case mGetSort names of
        None \<Rightarrow> None
      | Some s \<Rightarrow>
         Some \<lparr>mpgPage = (if pg < 0 then 0 else pg),
               mpgLimit = (if limit > maxSize then maxSize else if limit < 1 then 10 else limit),
               mpgSort = s\<rparr>)"

definition mConvertToPage :: "int \<Rightarrow> 'x mparams \<Rightarrow> (bsonD \<times> int \<times> int) option" where
  "mConvertToPage maxSize p =
     (case mNewPage maxSize (mpPage p) (mpLimit p) (mpSort p) of
        None \<Rightarrow> None
      | Some pg \<Rightarrow> Some (mpgSort pg, mpgLimit pg, i64 (mpgPage pg * mpgLimit pg)))"

section \<open>What a filter means\<close>

lemma size_GMap_GSlice:
  "(k, GSlice fs) \<in> set m \<Longrightarrow> f \<in> set fs \<Longrightarrow> size f < size (GMap m)"
proof -
  assume a: "(k, GSlice fs) \<in> set m" and b: "f \<in> set fs"
  have "size f < size (GSlice fs)"
    using b by (simp add: less_Suc_eq_le size_list_estimation')
  also have "size (GSlice fs) \<le> size_prod (\<lambda>_. 0) size (k, GSlice fs)" by simp
  also have "\<dots> \<le> size_list (size_prod (\<lambda>_. 0) size) m"
    by (rule size_list_estimation' [OF a order_refl])
  also have "\<dots> < size (GMap m)" by simp
  finally show ?thesis .
qed

text \<open>
  The meaning of a filter document over a valuation \<open>sat\<close> of single conditions: a document holds
  when all its entries do, \<open>$and\<close> and \<open>$or\<close> quantify over their list.
\<close>

function holds :: "(string \<Rightarrow> 'x gval \<Rightarrow> bool) \<Rightarrow> 'x gval \<Rightarrow> bool" where
  "holds sat (GMap m) = list_all (\<lambda>(k, v).
     if k = ''$and'' then (case v of GSlice fs \<Rightarrow> list_all (holds sat) fs | _ \<Rightarrow> False)
     else if k = ''$or'' then (case v of GSlice fs \<Rightarrow> list_ex (holds sat) fs | _ \<Rightarrow> False)
     else sat k v) m"
| "holds sat GNil = False"
| "holds sat (GStr s) = False"
| "holds sat (GInt n) = False"
| "holds sat (GBool b) = False"
| "holds sat (GOpaque x) = False"
| "holds sat (GOid s) = False"
| "holds sat (GSlice fs) = False"
  by pat_completeness auto

termination
  by (relation "measure (size \<circ> snd)") (auto simp: size_GMap_GSlice simp del: gval.size)

text \<open>
  The reading of a flat list of conditions, each with its truth value and whether an or follows it:
  conjunction binds tighter than disjunction, and what follows the last condition is ignored.
\<close>

fun precSem :: "bool \<Rightarrow> (bool \<times> bool) list \<Rightarrow> bool" where
  "precSem acc [] = acc"
| "precSem acc ((a, isOr) # r) =
     (if isOr then (acc \<and> a) \<or> (r \<noteq> [] \<and> precSem True r) else precSem (acc \<and> a) r)"

section \<open>Filters built with precedence\<close>

definition condOf :: "'x mcolumn \<Rightarrow> 'x bsonM" where
  "condOf c = [(mName c, mValue c)]"

abbreviation converted :: "('x, 'z) mparsers_scheme \<Rightarrow> 'x mcolumn \<Rightarrow> 'x mcolumn" where
  "converted P c \<equiv> fst (createSingleCondition P c)"

lemma createSingleCondition_Ok:
  "createSingleCondition P c = (c1, Ok m) \<Longrightarrow> m = condOf c1"
  by (auto simp: createSingleCondition_def condOf_def split: prod.splits option.splits)

lemma createSingleCondition_logic [simp]: "mLogic (converted P c) = mLogic c"
  by (auto simp: createSingleCondition_def colConvertValue_def Let_def
      split: prod.splits option.splits if_splits)

lemma andParts_Ok:
  "andParts P cs = (cs1, Ok ms) \<Longrightarrow> cs1 = map (converted P) cs \<and> ms = map condOf cs1"
proof (induction cs arbitrary: cs1 ms)
  case (Cons c cs)
  obtain c1 r where c: "createSingleCondition P c = (c1, r)" by force
  with Cons.prems obtain m where r: "r = Ok m" by (cases r) auto
  obtain cs2 r2 where d: "andParts P cs = (cs2, r2)" by force
  from Cons.prems c r d obtain ms2 where "r2 = Ok ms2" "ms = m # ms2" "cs1 = c1 # cs2"
    by (auto simp: go_bind_eq_Ok)
  with Cons.IH [of cs2 ms2] d c r createSingleCondition_Ok [of P c c1 m] show ?case by simp
qed simp

lemma orParts_Ok:
  "orParts P gs = (cs1, Ok ps) \<Longrightarrow>
     cs1 = map (converted P) (concat gs) \<and>
     ps = concat (map (\<lambda>g. andDoc (map (\<lambda>c. condOf (converted P c)) g)) gs)"
proof (induction gs arbitrary: cs1 ps)
  case (Cons g gs)
  obtain g1 r where g: "andParts P g = (g1, r)" by force
  with Cons.prems obtain ms where r: "r = Ok ms" by (cases r) auto
  obtain cs2 r2 where d: "orParts P gs = (cs2, r2)" by force
  from Cons.prems g r d obtain ps2 where "r2 = Ok ps2" "ps = andDoc ms @ ps2" "cs1 = g1 @ cs2"
    by (auto simp: go_bind_eq_Ok)
  with Cons.IH [of cs2 ps2] d g r andParts_Ok [of P g g1 ms] show ?case by (simp add: comp_def)
qed simp

lemma concat_orGroups: "concat (orGroups cur cs) = cur @ cs"
  by (induction cur cs rule: orGroups.induct) auto

lemma orGroups_nonempty: "g \<in> set (orGroups cur cs) \<Longrightarrow> g \<noteq> []"
  by (induction cur cs rule: orGroups.induct) (auto split: if_splits)

lemma orGroups_subset: "g \<in> set (orGroups cur cs) \<Longrightarrow> set g \<subseteq> set cur \<union> set cs"
  using concat_orGroups [of cur cs] by (metis Union_upper image_eqI set_append set_concat)

lemma precSem_orGroups:
  "cur \<noteq> [] \<or> cs \<noteq> [] \<Longrightarrow>
   precSem (\<forall>c \<in> set cur. t c) (map (\<lambda>c. (t c, toLower (mLogic c) = ''or'')) cs) \<longleftrightarrow>
   (\<exists>g \<in> set (orGroups cur cs). \<forall>c \<in> set g. t c)"
proof (induction cur cs rule: orGroups.induct)
  case (2 cur c cs)
  show ?case
  proof (cases "toLower (mLogic c) = ''or''")
    case True
    with "2.IH"(1) show ?thesis by (cases "cs = []") auto
  next
    case False
    with "2.IH"(2) show ?thesis by (auto simp: conj_commute)
  qed
qed simp

lemma holds_condOf:
  "mName c \<notin> {''$and'', ''$or''} \<Longrightarrow> holds sat (GMap (condOf c)) = sat (mName c) (mValue c)"
  by (simp add: condOf_def)

lemma holds_docs:
  "holds sat (GMap [(''$and'', docs fs)]) = (\<forall>f \<in> set fs. holds sat (GMap f))"
  "holds sat (GMap [(''$or'', docs fs)]) = (\<exists>f \<in> set fs. holds sat (GMap f))"
  by (auto simp: docs_def list_all_iff list_ex_iff)

lemma holds_andDoc:
  assumes "g \<noteq> []" and "\<forall>c \<in> set g. mName c \<notin> {''$and'', ''$or''}"
  shows "(\<exists>d \<in> set (andDoc (map condOf g)). holds sat (GMap d)) \<longleftrightarrow>
    (\<forall>c \<in> set g. sat (mName c) (mValue c))"
proof -
  obtain c r where g: "g = c # r" using assms(1) by (cases g) auto
  show ?thesis
  proof (cases r)
    case Nil
    with g assms(2) show ?thesis by (simp add: andDoc_def holds_condOf del: holds.simps)
  next
    case (Cons d ds)
    with g have "andDoc (map condOf g) = [[(''$and'', docs (map condOf g))]]" by (simp add: andDoc_def)
    with assms(2) show ?thesis by (simp add: holds_docs holds_condOf del: holds.simps)
  qed
qed

lemma holds_orDocs:
  "ps \<noteq> [] \<Longrightarrow> holds sat (GMap (case ps of [] \<Rightarrow> [] | [p] \<Rightarrow> p | _ \<Rightarrow> [(''$or'', docs ps)]))
     \<longleftrightarrow> (\<exists>p \<in> set ps. holds sat (GMap p))"
  by (auto simp: holds_docs split: list.splits simp del: holds.simps)

lemma convertLogic_norm: "convertLogic c = (c1, None) \<Longrightarrow> mLogic c1 = ''and'' \<or> mLogic c1 = ''or''"
  by (auto simp: convertLogic_def Let_def mgLogicMap_def split: option.splits if_splits)

lemma convLogicAll_norm:
  "convLogicAll cs = (cs1, None) \<Longrightarrow>
     length cs1 = length cs \<and> (\<forall>c \<in> set cs1. mLogic c = ''and'' \<or> mLogic c = ''or'')"
  by (induction cs arbitrary: cs1)
     (auto split: prod.splits option.splits dest: convertLogic_norm)

lemma toLower_logic [simp]: "toLower ''and'' = ''and''" "toLower ''or'' = ''or''"
  by code_simp+

lemma andDoc_ne: "g \<noteq> [] \<Longrightarrow> andDoc (map h g) \<noteq> []"
  by (auto simp: andDoc_def split: list.splits)

text \<open>
  C5: the filter built from a list of columns without parentheses means what the columns say with
  AND binding tighter than OR: over any valuation of the single conditions, the document holds
  exactly when the flat reading of the converted columns does, the last column's logic ignored.
\<close>

theorem mongo_precedence_semantics:
  assumes "buildFilterWithPrecedence P cs = (cs', Ok f)" and "cs \<noteq> []"
    and "\<forall>c \<in> set cs'. mName c \<notin> {''$and'', ''$or''}"
  shows "holds sat (GMap f) \<longleftrightarrow>
    precSem True (map (\<lambda>c. (sat (mName c) (mValue c), mLogic c = ''or'')) cs')"
proof -
  from assms(1) obtain cs1 ps where l: "convLogicAll cs = (cs1, None)"
    and o1: "orParts P (orGroups [] cs1) = (cs', Ok ps)"
    and f: "f = (case ps of [] \<Rightarrow> [] | [p] \<Rightarrow> p | _ \<Rightarrow> [(''$or'', docs ps)])"
    by (auto simp: buildFilterWithPrecedence_def go_bind_eq_Ok split: prod.splits option.splits)
  from convLogicAll_norm [OF l] assms(2) have ne: "cs1 \<noteq> []"
    and lg: "\<forall>c \<in> set cs1. mLogic c = ''and'' \<or> mLogic c = ''or''" by auto
  let ?t = "\<lambda>c. sat (mName (converted P c)) (mValue (converted P c))"
  let ?gs = "orGroups [] cs1"
  from orParts_Ok [OF o1] have cs': "cs' = map (converted P) cs1"
    and ps: "ps = concat (map (\<lambda>g. andDoc (map condOf (map (converted P) g))) ?gs)"
    by (simp_all add: concat_orGroups comp_def)
  have sub: "g \<noteq> []" "set g \<subseteq> set cs1" if "g \<in> set ?gs" for g
    using that orGroups_nonempty orGroups_subset [of g "[]" cs1] by auto
  have "?gs \<noteq> []" using concat_orGroups [of "[]" cs1] ne by auto
  then have "ps \<noteq> []" using sub(1) andDoc_ne by (cases ?gs) (auto simp: ps)
  then have "holds sat (GMap f) \<longleftrightarrow> (\<exists>p \<in> set ps. holds sat (GMap p))"
    by (simp add: f holds_orDocs del: holds.simps)
  also have "\<dots> \<longleftrightarrow> (\<exists>g \<in> set ?gs. \<exists>d \<in> set (andDoc (map condOf (map (converted P) g))). holds sat (GMap d))"
    by (simp add: ps del: holds.simps)
  also have "\<dots> \<longleftrightarrow> (\<exists>g \<in> set ?gs. \<forall>c \<in> set g. ?t c)"
  proof (rule bex_cong [OF refl])
    fix g assume "g \<in> set ?gs"
    with sub assms(3) cs' have "map (converted P) g \<noteq> []"
      "\<forall>c \<in> set (map (converted P) g). mName c \<notin> {''$and'', ''$or''}" by auto
    from holds_andDoc [OF this] show "(\<exists>d \<in> set (andDoc (map condOf (map (converted P) g))). holds sat (GMap d))
        = (\<forall>c \<in> set g. ?t c)" by simp
  qed
  also have "\<dots> \<longleftrightarrow> precSem True (map (\<lambda>c. (?t c, toLower (mLogic c) = ''or'')) cs1)"
    using precSem_orGroups [of "[]" cs1 ?t] ne by simp
  also have "map (\<lambda>c. (?t c, toLower (mLogic c) = ''or'')) cs1 =
      map (\<lambda>c. (sat (mName c) (mValue c), mLogic c = ''or'')) cs'"
    using lg by (auto simp: cs')
  finally show ?thesis .
qed

text \<open>Parsers that accept nothing, for evaluation.\<close>

definition mNoParsers :: "unit mparsers" where
  "mNoParsers = \<lparr>parseFloat = (\<lambda>_. None), parseTime = (\<lambda>_ _. None),
     oidFromHex = (\<lambda>_. None), sprintOther = (\<lambda>_. [])\<rparr>"

theorem mongo_precedence_semantics_witness:
  "holds (\<lambda>k v. k \<noteq> ''b'')
     (GMap [(''$or'', docs [[(''$and'', docs [[(''a'', GInt 1)], [(''b'', GInt 2)]])], [(''c'', GInt 3 :: unit gval)]])])
   \<longleftrightarrow> precSem True [(True, False), (False, True), (True, False)]"
proof -
  let ?cs = "[\<lparr>mName = ''a'', mExp = [], mValue = GStr ''1'', mLogic = []\<rparr>,
     \<lparr>mName = ''b'', mExp = ''='', mValue = GInt 2, mLogic = ''||''\<rparr>,
     \<lparr>mName = ''c'', mExp = ''eq'', mValue = GInt 3, mLogic = ''and''\<rparr>] :: unit mcolumn list"
  have r: "buildFilterWithPrecedence mNoParsers ?cs =
    ([\<lparr>mName = ''a'', mExp = ''='', mValue = GInt 1, mLogic = ''and''\<rparr>,
      \<lparr>mName = ''b'', mExp = ''='', mValue = GInt 2, mLogic = ''or''\<rparr>,
      \<lparr>mName = ''c'', mExp = ''='', mValue = GInt 3, mLogic = ''and''\<rparr>],
     Ok [(''$or'', docs [[(''$and'', docs [[(''a'', GInt 1)], [(''b'', GInt 2)]])], [(''c'', GInt 3)]])])"
    by code_simp
  from mongo_precedence_semantics [OF r, of "\<lambda>k v. k \<noteq> ''b''"] show ?thesis
    by (simp del: holds.simps)
qed

section \<open>Explicit groups\<close>

text \<open>The nesting depth the parentheses of a list of logics reach, \<open>None\<close> below zero.\<close>

definition opens :: "'x mcolumn \<Rightarrow> bool" where
  "opens c \<longleftrightarrow> hasSuffix (toLower (mLogic c)) '':(''"

definition closes :: "'x mcolumn \<Rightarrow> bool" where
  "closes c \<longleftrightarrow> hasSuffix (toLower (mLogic c)) '':)''"

fun depth :: "nat \<Rightarrow> 'x mcolumn list \<Rightarrow> nat option" where
  "depth d [] = Some d"
| "depth d (c # cs) =
     (if opens c then depth (Suc d) cs
      else if closes c then (if d = 0 then None else depth (d - 1) cs)
      else depth d cs)"

text \<open>A column that passes the checks of one round of the loop.\<close>

definition goodColumn :: "('x, 'z) mparsers_scheme \<Rightarrow> 'x mcolumn \<Rightarrow> bool" where
  "goodColumn P c \<longleftrightarrow> snd (mCheckLogic c) = None \<and> snd (colConvertValue P c) = None"

lemma colConvertValue_logic_upd:
  "colConvertValue P (c\<lparr>mLogic := l\<rparr>) = (case colConvertValue P c of (c1, e) \<Rightarrow> (c1\<lparr>mLogic := l\<rparr>, e))"
  by (auto simp: colConvertValue_def checkValid_def Let_def split: option.splits)

lemma goodColumn_single:
  assumes "goodColumn P c"
  obtains f c1 where "mCheckLogic c = (c\<lparr>mLogic := (if mLogic c = [] then ''and'' else mLogic c)\<rparr>, None)"
    "createSingleCondition P (c\<lparr>mLogic := (if mLogic c = [] then ''and'' else mLogic c)\<rparr>) = (c1, Ok f)"
    "mLogic c1 = (if mLogic c = [] then ''and'' else mLogic c)"
proof -
  from assms have "mCheckLogic c = (c\<lparr>mLogic := (if mLogic c = [] then ''and'' else mLogic c)\<rparr>, None)"
    by (auto simp: goodColumn_def mCheckLogic_def Let_def split: if_splits)
  moreover from assms obtain c2 where "colConvertValue P c = (c2, None)"
    by (cases "colConvertValue P c") (auto simp: goodColumn_def)
  ultimately show ?thesis using that
    by (auto simp: createSingleCondition_def colConvertValue_logic_upd)
qed

lemma logic_suffix_empty: "mLogic c = [] \<Longrightarrow> \<not> opens c \<and> \<not> closes c"
  by (simp add: opens_def closes_def hasSuffix_def)

lemma and_suffix: "\<not> hasSuffix ''and'' '':(''" "\<not> hasSuffix ''and'' '':)''"
  by (simp_all add: hasSuffix_def)

lemma stackStep_good:
  assumes "goodColumn P c" and "stack \<noteq> []"
  shows "opens c \<Longrightarrow> \<exists>s. stackStep P stack c = Ok s \<and> length s = Suc (length stack)"
    and "\<not> opens c \<Longrightarrow> closes c \<Longrightarrow> length stack \<ge> 2 \<Longrightarrow>
      \<exists>s. stackStep P stack c = Ok s \<and> length s = length stack - 1"
    and "\<not> opens c \<Longrightarrow> closes c \<Longrightarrow> length stack < 2 \<Longrightarrow>
      \<exists>l. stackStep P stack c = Err (MMismatchedLogic l)"
    and "\<not> opens c \<Longrightarrow> \<not> closes c \<Longrightarrow> \<exists>s. stackStep P stack c = Ok s \<and> length s = length stack"
proof -
  let ?l = "if mLogic c = [] then ''and'' else mLogic c"
  from goodColumn_single [OF assms(1)] obtain f c1 where
    l: "mCheckLogic c = (c\<lparr>mLogic := ?l\<rparr>, None)" and
    s: "createSingleCondition P (c\<lparr>mLogic := ?l\<rparr>) = (c1, Ok f)" and m: "mLogic c1 = ?l"
    by blast
  obtain g gs where st: "stack = g # gs" using assms(2) by (cases stack) auto
  define L where "L = (if toLower ?l = [] then ''and'' else toLower ?l)"
  define op where "op = (if hasPrefix L ''or'' then ''$or'' else ''$and'')"
  have step: "stackStep P stack c =
      (if hasSuffix L '':('' then Ok (\<lparr>operator = op, filters = [f]\<rparr> # stack)
       else if hasSuffix L '':)'' then
         (case gs of parent # rest \<Rightarrow>
            Ok (pushFilter (combineGroup (g\<lparr>filters := filters g @ [f]\<rparr>)) op parent # rest)
          | [] \<Rightarrow> Err (MMismatchedLogic L))
       else Ok (pushFilter f op g # gs))"
    unfolding stackStep_def l s prod.case option.case go.case Let_def m L_def [symmetric]
      op_def [symmetric] by (simp add: st)
  have sx: "opens c \<longleftrightarrow> hasSuffix L '':(''" "closes c \<longleftrightarrow> hasSuffix L '':)''"
    by (cases "mLogic c = []"; auto simp: opens_def closes_def L_def and_suffix hasSuffix_def)+
  show "opens c \<Longrightarrow> \<exists>s. stackStep P stack c = Ok s \<and> length s = Suc (length stack)"
    by (simp add: step sx)
  show "\<not> opens c \<Longrightarrow> closes c \<Longrightarrow> length stack \<ge> 2 \<Longrightarrow>
      \<exists>s. stackStep P stack c = Ok s \<and> length s = length stack - 1"
    by (cases gs) (simp_all add: step sx, simp_all add: st)
  show "\<not> opens c \<Longrightarrow> closes c \<Longrightarrow> length stack < 2 \<Longrightarrow>
      \<exists>l. stackStep P stack c = Err (MMismatchedLogic l)"
    by (cases gs) (simp_all add: step sx, simp_all add: st)
  show "\<not> opens c \<Longrightarrow> \<not> closes c \<Longrightarrow> \<exists>s. stackStep P stack c = Ok s \<and> length s = length stack"
    by (simp add: step sx) (simp add: st)
qed

lemma stackLoop_depth:
  "stack \<noteq> [] \<Longrightarrow> (\<forall>c \<in> set cs. goodColumn P c) \<Longrightarrow>
   (case depth (length stack - 1) cs of
      None \<Rightarrow> \<exists>l. stackLoop P stack cs = Err (MMismatchedLogic l)
    | Some d \<Rightarrow> \<exists>s. stackLoop P stack cs = Ok s \<and> length s = Suc d)"
proof (induction cs arbitrary: stack)
  case (Cons c cs)
  then have good: "goodColumn P c" and rest: "\<forall>c \<in> set cs. goodColumn P c" by auto
  note st = stackStep_good [OF good Cons.prems(1)]
  have IH: "case depth (length s - 1) cs of
      None \<Rightarrow> \<exists>l. stackLoop P stack (c # cs) = Err (MMismatchedLogic l)
    | Some d \<Rightarrow> \<exists>s. stackLoop P stack (c # cs) = Ok s \<and> length s = Suc d"
    if "stackStep P stack c = Ok s" "s \<noteq> []" for s
    using Cons.IH [OF that(2) rest] that(1) by (cases "depth (length s - 1) cs") simp_all
  have len: "0 < length stack" using Cons.prems(1) by simp
  consider "opens c" | "\<not> opens c" "closes c" "length stack \<ge> 2"
    | "\<not> opens c" "closes c" "length stack < 2" | "\<not> opens c" "\<not> closes c" by linarith
  then show ?case
  proof cases
    case 1
    then obtain s where s: "stackStep P stack c = Ok s" "length s = Suc (length stack)" using st(1) by blast
    then have "length s - 1 = Suc (length stack - 1)" "s \<noteq> []" using len by auto
    with IH [OF s(1)] 1 show ?thesis by (simp del: stackLoop.simps)
  next
    case 2
    then obtain s where s: "stackStep P stack c = Ok s" "length s = length stack - 1" using st(2) by blast
    then have "s \<noteq> []" "length stack - 1 \<noteq> 0" using 2(3) by auto
    with IH [OF s(1)] s 2 show ?thesis by (simp del: stackLoop.simps)
  next
    case 3
    with st(3) len show ?thesis by (auto simp: le_less_Suc_eq)
  next
    case 4
    then obtain s where s: "stackStep P stack c = Ok s" "length s = length stack" using st(4) by blast
    then have "s \<noteq> []" using len by auto
    with IH [OF s(1)] s 4 show ?thesis by (simp del: stackLoop.simps)
  qed
qed simp

text \<open>
  the grouped builder accepts exactly the well-nested lists. When every column converts, it
  returns a filter if no closing logic comes before its opening one and all groups are closed,
  reports the mismatch when one closes too early, and reports unclosed parentheses when groups are
  left; it never indexes an empty stack.
\<close>

theorem mongo_stack_nesting:
  assumes "\<forall>c \<in> set cs. goodColumn P c"
  shows "case depth 0 cs of
      None \<Rightarrow> \<exists>l. buildFilterWithStack P cs = Err (MMismatchedLogic l)
    | Some 0 \<Rightarrow> is_ok (buildFilterWithStack P cs)
    | Some (Suc d) \<Rightarrow> buildFilterWithStack P cs = Err MUnclosed"
proof -
  let ?st = "[\<lparr>operator = ''$and'', filters = []\<rparr>]"
  have m: "case depth 0 cs of
      None \<Rightarrow> \<exists>l. stackLoop P ?st cs = Err (MMismatchedLogic l)
    | Some d \<Rightarrow> \<exists>s. stackLoop P ?st cs = Ok s \<and> length s = Suc d"
    using stackLoop_depth [of ?st cs P] assms by simp
  show ?thesis
  proof (cases "depth 0 cs")
    case None
    with m show ?thesis by (auto simp: buildFilterWithStack_def)
  next
    case (Some d)
    with m obtain s where s: "stackLoop P ?st cs = Ok s" "length s = Suc d" by auto
    show ?thesis
    proof (cases d)
      case 0
      with s obtain g where "s = [g]" by (auto simp: length_Suc_conv)
      with s Some 0 show ?thesis by (simp add: buildFilterWithStack_def)
    next
      case (Suc n)
      with s obtain g h t where "s = g # h # t" by (auto simp: length_Suc_conv)
      with s Some Suc show ?thesis by (simp add: buildFilterWithStack_def)
    qed
  qed
qed

theorem mongo_stack_nesting_witness:
  "buildFilterWithStack mNoParsers
     [\<lparr>mName = ''a'', mExp = [], mValue = GInt 1, mLogic = ''and:)''\<rparr>,
      \<lparr>mName = ''b'', mExp = [], mValue = GInt 2, mLogic = ''or:(''\<rparr>] = Err (MMismatchedLogic ''and:)'')
   \<and> is_ok (buildFilterWithStack mNoParsers
     [\<lparr>mName = ''a'', mExp = [], mValue = GInt 1, mLogic = ''or:(''\<rparr>,
      \<lparr>mName = ''b'', mExp = [], mValue = GInt 2, mLogic = ''or:)''\<rparr>])"
proof -
  let ?ok = "[\<lparr>mName = ''a'', mExp = [], mValue = GInt 1, mLogic = ''or:(''\<rparr>,
      \<lparr>mName = ''b'', mExp = [], mValue = GInt 2, mLogic = ''or:)''\<rparr>] :: unit mcolumn list"
  have g: "\<forall>c \<in> set ?ok. goodColumn mNoParsers c" by code_simp
  have d: "depth 0 ?ok = Some 0" by code_simp
  have "is_ok (buildFilterWithStack mNoParsers ?ok)"
    using mongo_stack_nesting [OF g] by (simp only: d option.case nat.case)
  moreover have "buildFilterWithStack mNoParsers
     [\<lparr>mName = ''a'', mExp = [], mValue = GInt 1, mLogic = ''and:)''\<rparr>,
      \<lparr>mName = ''b'', mExp = [], mValue = GInt 2, mLogic = ''or:(''\<rparr>] = Err (MMismatchedLogic ''and:)'')"
    by code_simp
  ultimately show ?thesis by blast
qed

section \<open>Where groups and conversions lose what was asked\<close>

text \<open>
  an AND group is merged into one document key by key, so of two conditions on the same field
  (a range, say) only the last survives; the same two columns without parentheses are both kept.
\<close>

theorem mongo_and_group_drops_condition:
  "snd (ConvertToMongoFilter mNoParsers
     \<lparr>mpPage = 0, mpLimit = 10, mpSort = [], mpColumns =
        [\<lparr>mName = ''age'', mExp = ''>'', mValue = GInt 18, mLogic = ''and:(''\<rparr>,
         \<lparr>mName = ''age'', mExp = ''<'', mValue = GInt 30, mLogic = ''and:)''\<rparr>,
         \<lparr>mName = ''sex'', mExp = [], mValue = GInt 1, mLogic = []\<rparr>], mpSize = 0\<rparr> [])
   = Ok [(''$and'', docs [[(''age'', GMap [(''$lt'', GInt 30)])], [(''sex'', GInt 1)]])]
   \<and> snd (ConvertToMongoFilter mNoParsers
     \<lparr>mpPage = 0, mpLimit = 10, mpSort = [], mpColumns =
        [\<lparr>mName = ''age'', mExp = ''>'', mValue = GInt 18, mLogic = ''and''\<rparr>,
         \<lparr>mName = ''age'', mExp = ''<'', mValue = GInt 30, mLogic = ''and''\<rparr>,
         \<lparr>mName = ''sex'', mExp = [], mValue = GInt 1, mLogic = []\<rparr>], mpSize = 0\<rparr> [])
   = Ok [(''$and'', docs [[(''age'', GMap [(''$gt'', GInt 18)])], [(''age'', GMap [(''$lt'', GInt 30)])],
        [(''sex'', GInt 1)]])]"
  by (rule conjI; code_simp)

text \<open>
  the symbols for or are accepted as logic everywhere, but once a list has parentheses only the
  word is read as a disjunction: the same columns joined by the symbol give a conjunction.
\<close>

theorem mongo_or_symbol_lost_in_groups:
  "snd (ConvertToMongoFilter mNoParsers
     \<lparr>mpPage = 0, mpLimit = 10, mpSort = [], mpColumns =
        [\<lparr>mName = ''a'', mExp = [], mValue = GInt 1, mLogic = ''||''\<rparr>,
         \<lparr>mName = ''b'', mExp = [], mValue = GInt 2, mLogic = ''and:(''\<rparr>,
         \<lparr>mName = ''c'', mExp = [], mValue = GInt 3, mLogic = ''and:)''\<rparr>], mpSize = 0\<rparr> [])
   = Ok [(''$and'', docs [[(''a'', GInt 1)], [(''b'', GInt 2), (''c'', GInt 3)]])]
   \<and> snd (ConvertToMongoFilter mNoParsers
     \<lparr>mpPage = 0, mpLimit = 10, mpSort = [], mpColumns =
        [\<lparr>mName = ''a'', mExp = [], mValue = GInt 1, mLogic = ''or''\<rparr>,
         \<lparr>mName = ''b'', mExp = [], mValue = GInt 2, mLogic = ''and:(''\<rparr>,
         \<lparr>mName = ''c'', mExp = [], mValue = GInt 3, mLogic = ''and:)''\<rparr>], mpSize = 0\<rparr> [])
   = Ok [(''$or'', docs [[(''a'', GInt 1)], [(''b'', GInt 2), (''c'', GInt 3)]])]"
  by (rule conjI; code_simp)

text \<open>
  converting writes the converted operator and value back into the request's columns, so a
  second conversion of the same parameters wraps the value again and asks for something else.
\<close>

theorem mongo_convert_not_idempotent:
  fixes p :: "unit mparams"
  defines "p \<equiv> \<lparr>mpPage = 0, mpLimit = 10, mpSort = [], mpColumns =
        [\<lparr>mName = ''age'', mExp = ''gt'', mValue = GInt 18, mLogic = []\<rparr>], mpSize = 0\<rparr>"
  shows "snd (ConvertToMongoFilter mNoParsers p []) = Ok [(''age'', GMap [(''$gt'', GInt 18)])] \<and>
    snd (ConvertToMongoFilter mNoParsers (fst (ConvertToMongoFilter mNoParsers p [])) [])
      = Ok [(''age'', GMap [(''$gt'', GMap [(''$gt'', GInt 18)])])]"
  unfolding p_def by (rule conjI; code_simp)

lemma mSortItem_direction: "mSortItem n = Some (f, d) \<Longrightarrow> d = 1 \<or> d = -1"
  by (auto simp: mSortItem_def split: if_splits)

lemma mGetSort_directions:
  assumes "mGetSort s = Some so"
  shows "(f, d) \<in> set so \<Longrightarrow> d = 1 \<or> d = -1"
proof -
  assume fd: "(f, d) \<in> set so"
  show ?thesis
  proof (cases "replaceByte (CHR '' '') [] s = []")
    case True
    with assms fd show ?thesis by (auto simp: mGetSort_def)
  next
    case False
    with assms have so: "so = map (\<lambda>n. the (mSortItem n)) (splitOn (CHR '','') (replaceByte (CHR '' '') [] s))"
      and nn: "None \<notin> set (map mSortItem (splitOn (CHR '','') (replaceByte (CHR '' '') [] s)))"
      by (auto simp: mGetSort_def Let_def comp_def split: if_splits)
    from fd so obtain n where n: "n \<in> set (splitOn (CHR '','') (replaceByte (CHR '' '') [] s))"
      "(f, d) = the (mSortItem n)" by auto
    with nn have "mSortItem n = Some (f, d)" by (cases "mSortItem n") (auto simp: image_iff)
    then show ?thesis by (rule mSortItem_direction)
  qed
qed

text \<open>
  bounds of a page: the page number is not negative, the limit lies between 1 and the maximum,
  and the number of skipped rows is the product while it fits 64 bits. The sort document is not
  empty and every direction in it is 1 or -1.
\<close>

theorem mongo_page_bounds:
  assumes "mNewPage (mSetMaxSize k) pg limit names = Some p"
  shows "0 \<le> mpgPage p \<and> 1 \<le> mpgLimit p \<and> mpgLimit p \<le> mSetMaxSize k \<and>
    (mpgPage p * mpgLimit p < 2 ^ 63 \<longrightarrow> Skip p = mpgPage p * mpgLimit p \<and> 0 \<le> Skip p) \<and>
    mpgSort p \<noteq> [] \<and> (\<forall>(f, d) \<in> set (mpgSort p). d = 1 \<or> d = -1)"
proof -
  have m: "10 \<le> mSetMaxSize k" by (simp add: mSetMaxSize_def)
  with assms have b: "0 \<le> mpgPage p" "1 \<le> mpgLimit p" "mpgLimit p \<le> mSetMaxSize k"
    and s: "mGetSort names = Some (mpgSort p)"
    by (auto simp: mNewPage_def split: option.splits)
  have "Skip p = mpgPage p * mpgLimit p \<and> 0 \<le> Skip p" if "mpgPage p * mpgLimit p < 2 ^ 63"
  proof -
    from b have nn: "0 \<le> mpgPage p * mpgLimit p" by simp
    then have "i64 (mpgPage p * mpgLimit p) = mpgPage p * mpgLimit p"
      using that by (intro i64_id) auto
    with nn show ?thesis by (simp add: Skip_def)
  qed
  moreover have "mpgSort p \<noteq> []" using s by (auto simp: mGetSort_def Let_def split: if_splits)
  moreover have "\<forall>(f, d) \<in> set (mpgSort p). d = 1 \<or> d = -1"
    using mGetSort_directions [OF s] by blast
  ultimately show ?thesis using b by blast
qed

theorem mongo_page_bounds_witness:
  "mNewPage (mSetMaxSize 1000) (-1) 0 ''id,-age'' = Some \<lparr>mpgPage = 0, mpgLimit = 10, mpgSort = [(''_id'', 1), (''age'', -1)]\<rparr>
   \<and> Skip \<lparr>mpgPage = 0, mpgLimit = 10, mpgSort = [(''_id'', 1), (''age'', -1)]\<rparr> = 0"
proof -
  have r: "mNewPage (mSetMaxSize 1000) (-1) 0 ''id,-age'' =
      Some \<lparr>mpgPage = 0, mpgLimit = 10, mpgSort = [(''_id'', 1), (''age'', -1)]\<rparr>" by code_simp
  from mongo_page_bounds [OF r] r show ?thesis by simp
qed

end
