(* ===== verification/RollingWindow.thy ===== *)
theory RollingWindow
  imports Prelude
begin

text \<open>
  Package \<open>pkg/shield/window\<close>: a ring of buckets over time.

  \<^item> \<open>window.go\<close>: \<open>bucket\<close>, \<open>win\<close> and their operations; the pointer \<open>next\<close> of a bucket is the
    offset it points to;
  \<^item> \<open>iterator.go\<close> and \<open>reduce.go\<close>: \<open>iter\<close>, the loop over it (\<open>drain\<close>) and the reductions;
  \<^item> \<open>policy.go\<close> and \<open>counter.go\<close>: \<open>policy\<close>, \<open>rollingCounter\<close>.
  An operation that indexes a slice or divides returns an option, \<open>None\<close> for the panic. The current
  time is an argument. The read-write lock makes the operations of a policy atomic, which is how
  they are modelled. Counters are unbounded integers: a bucket does not see \<open>2 ^ 63\<close> calls.

  The specification is a log of the values added with their times; \<open>rep\<close> relates a policy to its
  log, every operation keeps it, and a reduction reads exactly the buckets of the last \<open>size\<close> bucket
  durations.
\<close>

section \<open>Go arithmetic on offsets and times\<close>

definition grem :: "int \<Rightarrow> int \<Rightarrow> int" where
  "grem a b = sgn a * (\<bar>a\<bar> mod \<bar>b\<bar>)"

lemma grem_nonneg: "0 \<le> a \<Longrightarrow> 0 < b \<Longrightarrow> grem a b = a mod b"
  by (cases "a = 0") (simp_all add: grem_def)

text \<open>\<open>time.Since\<close>: a saturating 64-bit duration.\<close>

definition since :: "int \<Rightarrow> int \<Rightarrow> int" where
  "since now t = max (- (2 ^ 63)) (min (2 ^ 63 - 1) (now - t))"

lemma since_eq: "t \<le> now \<Longrightarrow> now - t < 2 ^ 63 \<Longrightarrow> since now t = now - t"
  by (simp add: since_def)

lemma div_mult_le: "0 < d \<Longrightarrow> a div d * d \<le> a" for d :: int
  using minus_mod_eq_div_mult [of a d] pos_mod_sign [of d a] by linarith

section \<open>Buckets and windows\<close>

record bucket =
  Points :: "rat list"
  Count :: int
  nextOff :: nat

definition bAppend :: "rat \<Rightarrow> bucket \<Rightarrow> bucket" where
  "bAppend val b = b\<lparr>Points := Points b @ [val], Count := Count b + 1\<rparr>"

definition bAdd :: "(rat \<Rightarrow> rat) \<Rightarrow> nat \<Rightarrow> rat \<Rightarrow> bucket \<Rightarrow> bucket option" where
  "bAdd fl offset val b =
     (if offset < length (Points b)
      then Some (b\<lparr>Points := (Points b)[offset := fl (Points b ! offset + val)], Count := Count b + 1\<rparr>)
      else None)"

definition bReset :: "bucket \<Rightarrow> bucket" where
  "bReset b = b\<lparr>Points := [], Count := 0\<rparr>"

record win =
  wBuckets :: "bucket list"
  wSize :: int

definition NewWindow :: "int \<Rightarrow> win option" where
  "NewWindow sz =
     (if sz < 0 then None
      else Some \<lparr>wBuckets = map (\<lambda>i. \<lparr>Points = [], Count = 0,
                    nextOff = (if int i + 1 = sz then 0 else i + 1)\<rparr>) [0..<nat sz],
                 wSize = sz\<rparr>)"

text \<open>\<open>w.buckets[offset mod w.size]\<close>: the index, or a panic.\<close>

definition slot :: "win \<Rightarrow> int \<Rightarrow> nat option" where
  "slot w offset =
     (if wSize w = 0 then None
      else (let i = grem offset (wSize w) in
            if 0 \<le> i \<and> i < int (length (wBuckets w)) then Some (nat i) else None))"

definition updSlot :: "win \<Rightarrow> nat \<Rightarrow> bucket \<Rightarrow> win" where
  "updSlot w i b = w\<lparr>wBuckets := (wBuckets w)[i := b]\<rparr>"

definition ResetBucket :: "win \<Rightarrow> int \<Rightarrow> win option" where
  "ResetBucket w offset =
     (case slot w offset of None \<Rightarrow> None | Some i \<Rightarrow> Some (updSlot w i (bReset (wBuckets w ! i))))"

fun ResetBuckets :: "win \<Rightarrow> int \<Rightarrow> nat \<Rightarrow> win option" where
  "ResetBuckets w offset 0 = Some w"
| "ResetBuckets w offset (Suc n) =
     (case ResetBucket w offset of None \<Rightarrow> None | Some w' \<Rightarrow> ResetBuckets w' (offset + 1) n)"

definition ResetWindow :: "win \<Rightarrow> win option" where
  "ResetWindow w = ResetBuckets w 0 (length (wBuckets w))"

definition wAppend :: "win \<Rightarrow> int \<Rightarrow> rat \<Rightarrow> win option" where
  "wAppend w offset val =
     (case slot w offset of None \<Rightarrow> None | Some i \<Rightarrow> Some (updSlot w i (bAppend val (wBuckets w ! i))))"

definition wAdd :: "(rat \<Rightarrow> rat) \<Rightarrow> win \<Rightarrow> int \<Rightarrow> rat \<Rightarrow> win option" where
  "wAdd fl w offset val =
     (case slot w offset of
        None \<Rightarrow> None
      | Some i \<Rightarrow>
         (let b = wBuckets w ! i in
          if Count b = 0 then Some (updSlot w i (bAppend val b))
          else (case bAdd fl 0 val b of None \<Rightarrow> None | Some b' \<Rightarrow> Some (updSlot w i b'))))"

definition wBucket :: "win \<Rightarrow> int \<Rightarrow> bucket option" where
  "wBucket w offset = map_option (\<lambda>i. wBuckets w ! i) (slot w offset)"

section \<open>Iterators and reductions\<close>

record iter =
  itCount :: int
  itDone :: int
  itCur :: nat
  itRing :: "bucket list"

definition Iterator :: "win \<Rightarrow> int \<Rightarrow> int \<Rightarrow> iter option" where
  "Iterator w offset count =
     map_option (\<lambda>i. \<lparr>itCount = count, itDone = 0, itCur = i, itRing = wBuckets w\<rparr>) (slot w offset)"

definition itNext :: "iter \<Rightarrow> bool" where
  "itNext it \<longleftrightarrow> itCount it \<noteq> itDone it"

definition itBucket :: "iter \<Rightarrow> (bucket \<times> iter) option" where
  "itBucket it =
     (if \<not> itNext it then None
      else (let b = itRing it ! itCur it in
            Some (b, it\<lparr>itDone := itDone it + 1, itCur := nextOff b\<rparr>)))"

text \<open>
  \<open>for iterator.Next() { bucket := iterator.Bucket(); ... }\<close>: the buckets the loop sees. The fuel
  is the iterator's own count; running out of it would be a loop that goes on.
\<close>

fun drainN :: "nat \<Rightarrow> iter \<Rightarrow> bucket list option" where
  "drainN 0 it = (if itNext it then None else Some [])"
| "drainN (Suc n) it =
     (if itNext it then
        (case itBucket it of None \<Rightarrow> None | Some (b, it') \<Rightarrow> map_option (Cons b) (drainN n it'))
      else Some [])"

definition drain :: "iter \<Rightarrow> bucket list option" where
  "drain it = drainN (nat (itCount it)) it"

definition sumBuckets :: "(rat \<Rightarrow> rat) \<Rightarrow> bucket list \<Rightarrow> rat" where
  "sumBuckets fl bs = foldl (\<lambda>r b. foldl (\<lambda>r p. fl (r + p)) r (Points b)) 0 bs"

definition Sum :: "(rat \<Rightarrow> rat) \<Rightarrow> iter \<Rightarrow> rat option" where
  "Sum fl it = map_option (sumBuckets fl) (drain it)"

text \<open>\<open>Avg\<close> divides by zero, which is NaN (the inner \<open>None\<close>), when the window holds no point.\<close>

definition Avg :: "(rat \<Rightarrow> rat) \<Rightarrow> iter \<Rightarrow> rat option option" where
  "Avg fl it = map_option (\<lambda>bs.
     (case foldl (\<lambda>rc b. foldl (\<lambda>(r, c) p. (fl (r + p), fl (c + 1))) rc (Points b)) (0, 0) bs of
        (r, c) \<Rightarrow> if c = 0 then None else Some (fl (r / c)))) (drain it)"

definition minStep :: "rat \<times> bool \<Rightarrow> rat \<Rightarrow> rat \<times> bool" where
  "minStep = (\<lambda>(r, started) p. if \<not> started then (p, True) else if p < r then (p, True) else (r, True))"

definition MinR :: "iter \<Rightarrow> rat option" where
  "MinR it = map_option (\<lambda>bs. fst (foldl (\<lambda>s b. foldl minStep s (Points b)) (0, False) bs)) (drain it)"

definition maxStep :: "rat \<times> bool \<Rightarrow> rat \<Rightarrow> rat \<times> bool" where
  "maxStep = (\<lambda>(r, started) p. if \<not> started then (p, True) else if p > r then (p, True) else (r, True))"

definition MaxR :: "iter \<Rightarrow> rat option" where
  "MaxR it = map_option (\<lambda>bs. fst (foldl (\<lambda>s b. foldl maxStep s (Points b)) (0, False) bs)) (drain it)"

definition CountR :: "(rat \<Rightarrow> rat) \<Rightarrow> iter \<Rightarrow> rat option" where
  "CountR fl it = map_option (\<lambda>bs. fl (of_int (foldl (\<lambda>r b. r + Count b) 0 bs))) (drain it)"

section \<open>Policies and counters\<close>

record policy =
  rSize :: int
  rWindow :: win
  rOffset :: int
  rDur :: int
  rLast :: int

definition NewRollingPolicy :: "int \<Rightarrow> win \<Rightarrow> int \<Rightarrow> policy" where
  "NewRollingPolicy now w bucketDuration =
     \<lparr>rSize = wSize w, rWindow = w, rOffset = 0, rDur = bucketDuration, rLast = now\<rparr>"

definition timespan :: "int \<Rightarrow> policy \<Rightarrow> int option" where
  "timespan now r =
     (if rDur r = 0 then None
      else (let v = quot (since now (rLast r)) (rDur r) in
            Some (if v > -1 then v else rSize r)))"

text \<open>The part of \<open>apply\<close> before \<open>f\<close> is called: the expired buckets are reset.\<close>

definition rollTo :: "int \<Rightarrow> policy \<Rightarrow> policy option" where
  "rollTo now r =
     (case timespan now r of
        None \<Rightarrow> None
      | Some ts \<Rightarrow>
         if ts > 0 then
           (if rSize r = 0 then None
            else (let start = grem (rOffset r + 1) (rSize r);
                      stop = grem (rOffset r + ts) (rSize r)
                  in case ResetBuckets (rWindow r) start (nat (min ts (rSize r))) of
                       None \<Rightarrow> None
                     | Some w \<Rightarrow> Some (r\<lparr>rWindow := w, rOffset := stop,
                                         rLast := rLast r + i64 (ts * rDur r)\<rparr>)))
         else Some r)"

definition applyP :: "int \<Rightarrow> (win \<Rightarrow> int \<Rightarrow> rat \<Rightarrow> win option) \<Rightarrow> rat \<Rightarrow> policy \<Rightarrow> policy option" where
  "applyP now f val r =
     (case rollTo now r of
        None \<Rightarrow> None
      | Some r' \<Rightarrow> map_option (\<lambda>w. r'\<lparr>rWindow := w\<rparr>) (f (rWindow r') (rOffset r') val))"

definition pAppend :: "int \<Rightarrow> rat \<Rightarrow> policy \<Rightarrow> policy option" where
  "pAppend now val r = applyP now wAppend val r"

definition pAdd :: "(rat \<Rightarrow> rat) \<Rightarrow> int \<Rightarrow> rat \<Rightarrow> policy \<Rightarrow> policy option" where
  "pAdd fl now val r = applyP now (wAdd fl) val r"

definition pReduce :: "int \<Rightarrow> (iter \<Rightarrow> 'a option) \<Rightarrow> 'a \<Rightarrow> policy \<Rightarrow> 'a option" where
  "pReduce now f zero r =
     (case timespan now r of
        None \<Rightarrow> None
      | Some ts \<Rightarrow>
         (let count = rSize r - ts in
          if count > 0 then
            (let offset0 = rOffset r + ts + 1;
                 offset = (if offset0 \<ge> rSize r then offset0 - rSize r else offset0)
             in case Iterator (rWindow r) offset count of None \<Rightarrow> None | Some it \<Rightarrow> f it)
          else Some zero))"

record rollingCounter =
  rcPolicy :: policy

definition NewRollingCounter :: "int \<Rightarrow> int \<Rightarrow> int \<Rightarrow> rollingCounter option" where
  "NewRollingCounter now sz bucketDuration =
     map_option (\<lambda>w. \<lparr>rcPolicy = NewRollingPolicy now w bucketDuration\<rparr>) (NewWindow sz)"

definition rcAdd :: "(rat \<Rightarrow> rat) \<Rightarrow> int \<Rightarrow> int \<Rightarrow> rollingCounter \<Rightarrow> rollingCounter option" where
  "rcAdd fl now val c =
     (if val < 0 then None
      else map_option (\<lambda>r. c\<lparr>rcPolicy := r\<rparr>) (pAdd fl now (fl (of_int val)) (rcPolicy c)))"

definition rcReduce :: "int \<Rightarrow> (iter \<Rightarrow> 'a option) \<Rightarrow> 'a \<Rightarrow> rollingCounter \<Rightarrow> 'a option" where
  "rcReduce now f zero c = pReduce now f zero (rcPolicy c)"

definition rcAvg :: "(rat \<Rightarrow> rat) \<Rightarrow> int \<Rightarrow> rollingCounter \<Rightarrow> rat option option" where
  "rcAvg fl now c = rcReduce now (Avg fl) (Some 0) c"

definition rcMin :: "int \<Rightarrow> rollingCounter \<Rightarrow> rat option" where
  "rcMin now c = rcReduce now MinR 0 c"

definition rcMax :: "int \<Rightarrow> rollingCounter \<Rightarrow> rat option" where
  "rcMax now c = rcReduce now MaxR 0 c"

definition rcSum :: "(rat \<Rightarrow> rat) \<Rightarrow> int \<Rightarrow> rollingCounter \<Rightarrow> rat option" where
  "rcSum fl now c = rcReduce now (Sum fl) 0 c"

definition rcValue :: "(rat \<Rightarrow> rat) \<Rightarrow> int \<Rightarrow> rollingCounter \<Rightarrow> int option" where
  "rcValue fl now c = map_option truncf (rcSum fl now c)"

definition rcTimespan :: "int \<Rightarrow> rollingCounter \<Rightarrow> int option" where
  "rcTimespan now c = timespan now (rcPolicy c)"

section \<open>The ring\<close>

definition wfw :: "int \<Rightarrow> win \<Rightarrow> bool" where
  "wfw n w \<longleftrightarrow> 0 < n \<and> wSize w = n \<and> length (wBuckets w) = nat n \<and>
     (\<forall>i < nat n. nextOff (wBuckets w ! i) = (if int i + 1 = n then 0 else i + 1))"

text \<open>What a bucket holds, and the bucket at an absolute position of the unrolled ring.\<close>

definition cell :: "bucket \<Rightarrow> rat list \<times> int" where
  "cell b = (Points b, Count b)"

definition cellAt :: "int \<Rightarrow> win \<Rightarrow> int \<Rightarrow> rat list \<times> int" where
  "cellAt n w k = cell (wBuckets w ! nat (k mod n))"

lemma slot_wfw: "wfw n w \<Longrightarrow> 0 \<le> off \<Longrightarrow> slot w off = Some (nat (off mod n))"
  by (simp add: slot_def wfw_def grem_nonneg)

lemma nat_mod_less: "wfw n w \<Longrightarrow> nat (k mod n) < length (wBuckets w)"
  by (simp add: wfw_def)

lemma nat_mod_eq: "0 < n \<Longrightarrow> nat (a mod n) = nat (b mod n) \<longleftrightarrow> n dvd a - b" for n :: int
  by (simp add: eq_nat_nat_iff mod_eq_dvd_iff)

lemma updSlot_wfw:
  assumes "wfw n w" "nextOff b = nextOff (wBuckets w ! i)"
  shows "wfw n (updSlot w i b)"
proof -
  have "nextOff ((wBuckets w)[i := b] ! j) = nextOff (wBuckets w ! j)" if "j < length (wBuckets w)" for j
    using assms(2) that by (cases "j = i") auto
  then show ?thesis using assms(1) by (simp add: wfw_def updSlot_def)
qed

lemma updSlot_cellAt:
  assumes "wfw n w"
  shows "cellAt n (updSlot w (nat (off mod n)) b) k = (if n dvd k - off then cell b else cellAt n w k)"
proof -
  have "0 < n" using assms by (simp add: wfw_def)
  then show ?thesis
    using nat_mod_less [OF assms, of k] nat_mod_eq [of n k off]
    by (auto simp: cellAt_def updSlot_def nth_list_update)
qed

lemma ResetBucket_effect:
  assumes "wfw n w" "0 \<le> off"
  obtains w' where "ResetBucket w off = Some w'" "wfw n w'"
    "\<And>k. cellAt n w' k = (if n dvd k - off then ([], 0) else cellAt n w k)"
proof
  let ?i = "nat (off mod n)"
  let ?w = "updSlot w ?i (bReset (wBuckets w ! ?i))"
  show "ResetBucket w off = Some ?w" using assms by (simp add: ResetBucket_def slot_wfw)
  show "wfw n ?w" by (rule updSlot_wfw [OF assms(1)]) (simp add: bReset_def)
  show "cellAt n ?w k = (if n dvd k - off then ([], 0) else cellAt n w k)" for k
    by (simp add: updSlot_cellAt [OF assms(1)] cell_def bReset_def)
qed

lemma ResetBuckets_effect:
  assumes "wfw n w" "0 \<le> off"
  shows "\<exists>w'. ResetBuckets w off m = Some w' \<and> wfw n w' \<and>
    (\<forall>k. cellAt n w' k = (if \<exists>j<m. n dvd k - (off + int j) then ([], 0) else cellAt n w k))"
  using assms
proof (induction m arbitrary: w off)
  case (Suc m)
  obtain w1 where w1: "ResetBucket w off = Some w1" "wfw n w1"
    "\<And>k. cellAt n w1 k = (if n dvd k - off then ([], 0) else cellAt n w k)"
    by (rule ResetBucket_effect [OF Suc.prems]) blast
  obtain w2 where w2: "ResetBuckets w1 (off + 1) m = Some w2" "wfw n w2"
    "\<And>k. cellAt n w2 k = (if \<exists>j<m. n dvd k - (off + 1 + int j) then ([], 0) else cellAt n w1 k)"
    using Suc.IH [OF w1(2), of "off + 1"] Suc.prems by auto
  have "(\<exists>j<Suc m. n dvd k - (off + int j)) \<longleftrightarrow>
    n dvd k - off \<or> (\<exists>j<m. n dvd k - (off + 1 + int j))" for k
    by (auto simp: Ex_less_Suc2 algebra_simps)
  then show ?case using w1 w2 by auto
qed simp

lemma mod_suc: "0 < n \<Longrightarrow> (a + 1) mod n = (if a mod n + 1 = n then 0 else a mod n + 1)" for n :: int
proof -
  assume n: "0 < n"
  have e: "(a + 1) mod n = (a mod n + 1) mod n" by (simp add: mod_add_left_eq)
  have "0 \<le> a mod n" "a mod n < n" using n by simp_all
  then have "a mod n + 1 = n \<or> 0 \<le> a mod n + 1 \<and> a mod n + 1 < n" by linarith
  then show ?thesis unfolding e using mod_pos_pos_trivial [of "a mod n + 1" n] by auto
qed

lemma itNext_chain:
  assumes "wfw n w" "itRing it = wBuckets w" "itCur it = nat (off mod n)"
    "itCount it = itDone it + int m"
  shows "drainN m it = Some (map (\<lambda>j. wBuckets w ! nat ((off + int j) mod n)) [0..<m])"
  using assms(2-)
proof (induction m arbitrary: it off)
  case (Suc m)
  let ?b = "wBuckets w ! nat (off mod n)"
  have n: "0 < n" using assms(1) by (simp add: wfw_def)
  have b: "0 \<le> off mod n" "off mod n < n" using n by simp_all
  have nx: "nextOff ?b = nat ((off + 1) mod n)"
  proof -
    have "nextOff ?b = (if off mod n + 1 = n then 0 else nat (off mod n) + 1)"
      using assms(1) b by (simp add: wfw_def)
    also have "\<dots> = nat ((off + 1) mod n)"
      using b by (simp add: mod_suc nat_add_distrib)
    finally show ?thesis .
  qed
  have "drainN m (it\<lparr>itDone := itDone it + 1, itCur := nextOff ?b\<rparr>) =
      Some (map (\<lambda>j. wBuckets w ! nat ((off + 1 + int j) mod n)) [0..<m])"
    by (rule Suc.IH) (use Suc.prems nx in auto)
  then show ?case
    using Suc.prems by (simp add: itNext_def itBucket_def Let_def upt_conv_Cons map_Suc_upt [symmetric]
      comp_def algebra_simps del: upt_Suc)
qed (simp add: itNext_def)

lemma Iterator_drain:
  assumes "wfw n w" "0 \<le> off" "0 \<le> c"
  obtains it where "Iterator w off c = Some it"
    "drain it = Some (map (\<lambda>j. wBuckets w ! nat ((off + int j) mod n)) [0..<nat c])"
proof
  let ?it = "\<lparr>itCount = c, itDone = 0, itCur = nat (off mod n), itRing = wBuckets w\<rparr>"
  show "Iterator w off c = Some ?it" using assms by (simp add: Iterator_def slot_wfw)
  show "drain ?it = Some (map (\<lambda>j. wBuckets w ! nat ((off + int j) mod n)) [0..<nat c])"
    unfolding drain_def using itNext_chain [OF assms(1), of ?it off "nat c"] assms(3) by simp
qed

section \<open>The specification: a log of the values added\<close>

text \<open>
  A log entry is the bucket number an addition falls into, counted from the creation of the policy,
  and the value. A bucket of a counter holds one point, the running sum, and the number of values.
\<close>

type_synonym wlog = "(int \<times> int) list"

definition valsAt :: "int \<Rightarrow> wlog \<Rightarrow> int list" where
  "valsAt k lg = map snd (filter (\<lambda>e. fst e = k) lg)"

fun pointOf :: "(rat \<Rightarrow> rat) \<Rightarrow> int list \<Rightarrow> rat list" where
  "pointOf fl [] = []"
| "pointOf fl (v # vs) = [foldl (\<lambda>s x. fl (s + fl (of_int x))) (fl (of_int v)) vs]"

definition cellOf :: "(rat \<Rightarrow> rat) \<Rightarrow> int list \<Rightarrow> rat list \<times> int" where
  "cellOf fl vs = (pointOf fl vs, int (length vs))"

definition rep :: "(rat \<Rightarrow> rat) \<Rightarrow> int \<Rightarrow> int \<Rightarrow> int \<Rightarrow> int \<Rightarrow> policy \<Rightarrow> wlog \<Rightarrow> bool" where
  "rep fl t0 n d K r lg \<longleftrightarrow>
     wfw n (rWindow r) \<and> rSize r = n \<and> 0 < d \<and> rDur r = d \<and> 0 \<le> K \<and> rOffset r = K mod n \<and>
     rLast r = t0 + K * d \<and> (\<forall>e \<in> set lg. fst e \<le> K) \<and>
     (\<forall>k. K - n < k \<and> k \<le> K \<longrightarrow> cellAt n (rWindow r) k = cellOf fl (valsAt k lg))"

lemma valsAt_append: "valsAt k (lg @ lg') = valsAt k lg @ valsAt k lg'"
  by (simp add: valsAt_def)

lemma valsAt_above: "\<forall>e \<in> set lg. fst e \<le> K \<Longrightarrow> K < k \<Longrightarrow> valsAt k lg = []"
  by (auto simp: valsAt_def filter_empty_conv)

lemma cellOf_Nil [simp]: "cellOf fl [] = ([], 0)"
  by (simp add: cellOf_def)

lemma pointOf_snoc:
  "vs \<noteq> [] \<Longrightarrow> pointOf fl (vs @ [v]) = [fl (hd (pointOf fl vs) + fl (of_int v))]"
  by (cases vs) simp_all

lemma pointOf_single: "vs \<noteq> [] \<Longrightarrow> pointOf fl vs = [hd (pointOf fl vs)]"
  by (cases vs) simp_all

lemma timespan_rep:
  assumes "rep fl t0 n d K r lg" "t0 + K * d \<le> now" "now < t0 + 2 ^ 63"
  shows "timespan now r = Some ((now - t0) div d - K)" "K \<le> (now - t0) div d"
proof -
  have d: "0 < d" "rDur r = d" "rLast r = t0 + K * d" "0 \<le> K" using assms(1) by (auto simp: rep_def)
  have s: "since now (rLast r) = now - t0 - K * d"
  proof -
    have "0 \<le> K * d" using d by simp
    then have "now - (t0 + K * d) < 2 ^ 63" using assms(3) by linarith
    then show ?thesis using since_eq [of "t0 + K * d" now] assms(2) d(3) by simp
  qed
  have e: "(now - t0 - K * d) div d = (now - t0) div d - K"
    using d div_mult_self1 [of d "now - t0" "- K"] by (simp add: algebra_simps)
  have p: "0 \<le> (now - t0 - K * d) div d" using assms(2) d by (simp add: pos_imp_zdiv_nonneg_iff)
  have q: "quot (since now (rLast r)) (rDur r) = (now - t0) div d - K"
    using s e d assms(2) by (simp add: quot_nonneg)
  show "timespan now r = Some ((now - t0) div d - K)"
    unfolding timespan_def using q p e d by simp
  show "K \<le> (now - t0) div d" using p e by simp
qed

lemma roll_cells:
  assumes "wfw n w" "0 < ts" "K + ts - n < k" "k \<le> K + ts" "off mod n = (K + 1) mod n"
  shows "(\<exists>j<nat (min ts n). n dvd k - (off + int j)) \<longleftrightarrow> K < k"
proof -
  have n: "0 < n" using assms(1) by (simp add: wfw_def)
  have off: "n dvd k - (off + int j) \<longleftrightarrow> n dvd k - K - 1 - int j" for j
  proof -
    have "n dvd off - (K + 1)" using assms(5) by (simp add: mod_eq_dvd_iff)
    then have "n dvd (k - (off + int j)) + (off - (K + 1)) \<longleftrightarrow> n dvd k - (off + int j)"
      by (rule dvd_add_left_iff)
    then show ?thesis by (simp add: algebra_simps)
  qed
  show ?thesis
  proof
    assume "K < k"
    let ?j = "(k - K - 1) mod n"
    have "?j < n" "0 \<le> ?j" using n by simp_all
    moreover have "?j \<le> k - K - 1" using \<open>K < k\<close> by (intro zmod_le_nonneg_dividend) simp
    ultimately have "nat ?j < nat (min ts n)" using assms(4) by linarith
    moreover have "n dvd k - K - 1 - int (nat ?j)" using n by (simp add: dvd_minus_mod)
    ultimately show "\<exists>j<nat (min ts n). n dvd k - (off + int j)" using off by blast
  next
    assume "\<exists>j<nat (min ts n). n dvd k - (off + int j)"
    then obtain j where j: "j < nat (min ts n)" "n dvd k - K - 1 - int j" using off by blast
    show "K < k"
    proof (rule ccontr)
      assume "\<not> K < k"
      then have "0 < K + 1 + int j - k" "K + 1 + int j - k < n" using j(1) assms(2-3) by linarith+
      moreover have "n dvd K + 1 + int j - k" using j(2) by (simp add: dvd_diff_commute algebra_simps)
      ultimately show False using zdvd_imp_le by fastforce
    qed
  qed
qed

lemma rollTo_rep:
  assumes R: "rep fl t0 n d K r lg" and t: "t0 + K * d \<le> now" "now < t0 + 2 ^ 63"
  obtains r' where "rollTo now r = Some r'" "rep fl t0 n d ((now - t0) div d) r' lg"
proof -
  let ?N = "(now - t0) div d"
  let ?ts = "?N - K"
  note ts = timespan_rep [OF R t]
  have w: "wfw n (rWindow r)" and n: "rSize r = n" "0 < n" and d: "0 < d" "rDur r = d" and K: "0 \<le> K"
    and o: "rOffset r = K mod n" and l: "rLast r = t0 + K * d"
    and lg: "\<forall>e\<in>set lg. fst e \<le> K"
    and c: "\<And>k. K - n < k \<Longrightarrow> k \<le> K \<Longrightarrow> cellAt n (rWindow r) k = cellOf fl (valsAt k lg)"
    using R by (auto simp: rep_def wfw_def)
  show ?thesis
  proof (cases "?ts > 0")
    case False
    then have "?N = K" using ts by simp
    moreover have "rollTo now r = Some r" using False ts(1) by (simp add: rollTo_def)
    ultimately show ?thesis using R that by simp
  next
    case True
    let ?st = "grem (rOffset r + 1) n"
    have m: "0 \<le> K mod n" using n by simp
    have st: "?st = (K + 1) mod n" and en: "grem (rOffset r + ?ts) n = ?N mod n"
      using m n o True by (simp_all add: grem_nonneg mod_add_left_eq)
    obtain w' where w': "ResetBuckets (rWindow r) ?st (nat (min ?ts n)) = Some w'" "wfw n w'"
      and cw: "\<And>k. cellAt n w' k =
        (if \<exists>j<nat (min ?ts n). n dvd k - (?st + int j) then ([], 0) else cellAt n (rWindow r) k)"
      using ResetBuckets_effect [OF w, of ?st "nat (min ?ts n)"] st n by auto
    have "?ts * d \<le> now - t0 - K * d"
      using div_mult_le [OF d(1), of "now - t0"] by (simp add: left_diff_distrib)
    moreover have "0 \<le> K * d" "0 \<le> ?ts * d" using d K True by simp_all
    ultimately have "?ts * d < 2 ^ 63" "0 \<le> ?ts * d" using t by linarith+
    then have i: "i64 (?ts * d) = ?ts * d" by (simp add: i64_id)
    let ?r = "r\<lparr>rWindow := w', rOffset := ?N mod n, rLast := rLast r + ?ts * d\<rparr>"
    have "rollTo now r = Some ?r"
      unfolding rollTo_def using ts(1) True n d w'(1) en i by simp
    moreover have "cellAt n w' k = cellOf fl (valsAt k lg)" if "?N - n < k" "k \<le> ?N" for k
      using roll_cells [OF w True, of K k ?st] that st cw [of k] c [of k] valsAt_above [OF lg, of k]
        ts(2) by (simp split: if_splits)
    then have "rep fl t0 n d ?N ?r lg"
      using w' d K n l lg ts(2) by (auto simp: rep_def algebra_simps)
    ultimately show ?thesis using that by blast
  qed
qed

lemma wAdd_effect:
  assumes "wfw n w" "0 \<le> K" "cellAt n w K = cellOf fl vs"
  obtains w' where "wAdd fl w (K mod n) (fl (of_int v)) = Some w'" "wfw n w'"
    "\<And>k. cellAt n w' k = (if n dvd k - K then cellOf fl (vs @ [v]) else cellAt n w k)"
proof -
  let ?i = "nat (K mod n)"
  let ?b = "wBuckets w ! ?i"
  have b: "Points ?b = pointOf fl vs" "Count ?b = int (length vs)"
    using assms(3) by (simp_all add: cellAt_def cell_def cellOf_def)
  have n: "0 < n" using assms(1) by (simp add: wfw_def)
  have s: "slot w (K mod n) = Some ?i" using slot_wfw [OF assms(1), of "K mod n"] n by simp
  define b' where "b' = (if vs = [] then bAppend (fl (of_int v)) ?b
    else ?b\<lparr>Points := (Points ?b)[0 := fl (Points ?b ! 0 + fl (of_int v))], Count := Count ?b + 1\<rparr>)"
  have "cell b' = cellOf fl (vs @ [v])"
  proof (cases "vs = []")
    case False
    then show ?thesis using b pointOf_single [OF False, of fl] pointOf_snoc [OF False, of fl v]
      by (cases "pointOf fl vs") (auto simp: b'_def cell_def cellOf_def)
  qed (use b in \<open>simp add: b'_def bAppend_def cell_def cellOf_def\<close>)
  moreover have "wAdd fl w (K mod n) (fl (of_int v)) = Some (updSlot w ?i b')"
    using b s by (cases vs) (simp_all add: wAdd_def bAdd_def b'_def Let_def)
  moreover have "wfw n (updSlot w ?i b')"
    by (rule updSlot_wfw [OF assms(1)]) (simp add: b'_def bAppend_def)
  ultimately show ?thesis using that updSlot_cellAt [OF assms(1), of K b'] by simp
qed

lemma dvd_window_eq: "0 < n \<Longrightarrow> K - n < k \<Longrightarrow> k \<le> K \<Longrightarrow> n dvd k - K \<longleftrightarrow> k = K" for n :: int
  by (metis add.commute diff_add_cancel diff_le_0_iff_le diff_less_eq dvd_0_right dvd_minus_iff
      eq_iff_diff_eq_0 less_le_not_le minus_diff_eq neg_0_less_iff_less order_le_less zdvd_not_zless)

lemma pAdd_rep:
  assumes R: "rep fl t0 n d K r lg" and t: "t0 + K * d \<le> now" "now < t0 + 2 ^ 63"
  shows "\<exists>r'. pAdd fl now (fl (of_int v)) r = Some r' \<and>
    rep fl t0 n d ((now - t0) div d) r' (lg @ [((now - t0) div d, v)])"
proof -
  let ?N = "(now - t0) div d"
  obtain r1 where r1: "rollTo now r = Some r1" and R1: "rep fl t0 n d ?N r1 lg"
    using rollTo_rep [OF R t] by blast
  have w: "wfw n (rWindow r1)" and n: "0 < n" and N: "0 \<le> ?N" and o: "rOffset r1 = ?N mod n"
    and c: "\<And>k. ?N - n < k \<Longrightarrow> k \<le> ?N \<Longrightarrow> cellAt n (rWindow r1) k = cellOf fl (valsAt k lg)"
    using R1 by (auto simp: rep_def wfw_def)
  obtain w2 where w2: "wAdd fl (rWindow r1) (?N mod n) (fl (of_int v)) = Some w2" "wfw n w2"
    and cw: "\<And>k. cellAt n w2 k =
      (if n dvd k - ?N then cellOf fl (valsAt ?N lg @ [v]) else cellAt n (rWindow r1) k)"
    using wAdd_effect [OF w N c [of ?N]] n by auto
  let ?l = "lg @ [(?N, v)]"
  have "cellAt n w2 k = cellOf fl (valsAt k ?l)" if "?N - n < k" "k \<le> ?N" for k
    using dvd_window_eq [OF n that] cw [of k] c [OF that]
    by (cases "k = ?N") (simp_all add: valsAt_append, simp_all add: valsAt_def)
  then have "rep fl t0 n d ?N (r1\<lparr>rWindow := w2\<rparr>) ?l"
    using R1 w2 by (auto simp: rep_def)
  moreover have "pAdd fl now (fl (of_int v)) r = Some (r1\<lparr>rWindow := w2\<rparr>)"
    using r1 w2 o by (simp add: pAdd_def applyP_def)
  ultimately show ?thesis by blast
qed

text \<open>The buckets a reduction at bucket number \<open>N\<close> reads, oldest first.\<close>

definition windowKeys :: "int \<Rightarrow> int \<Rightarrow> int \<Rightarrow> int list" where
  "windowKeys n N K = map (\<lambda>j. N - n + 1 + int j) [0..<nat (n - (N - K))]"

lemma pReduce_rep:
  assumes R: "rep fl t0 n d K r lg" and t: "t0 + K * d \<le> now" "now < t0 + 2 ^ 63"
    and f: "\<And>it bs. drain it = Some bs \<Longrightarrow> f it = Some (g (map cell bs))" and z: "zero = g []"
  shows "pReduce now f zero r =
    Some (g (map (\<lambda>k. cellOf fl (valsAt k lg)) (windowKeys n ((now - t0) div d) K)))"
proof -
  let ?N = "(now - t0) div d"
  let ?ts = "?N - K"
  note ts = timespan_rep [OF R t]
  have w: "wfw n (rWindow r)" and n: "rSize r = n" "0 < n" and o: "rOffset r = K mod n"
    and c: "\<And>k. K - n < k \<Longrightarrow> k \<le> K \<Longrightarrow> cellAt n (rWindow r) k = cellOf fl (valsAt k lg)"
    using R by (auto simp: rep_def wfw_def)
  show ?thesis
  proof (cases "n - ?ts > 0")
    case False
    then show ?thesis using ts(1) n z by (simp add: pReduce_def windowKeys_def)
  next
    case True
    let ?o0 = "K mod n + ?ts + 1"
    define off where "off = (if ?o0 \<ge> n then ?o0 - n else ?o0)"
    have m: "0 \<le> K mod n" "K mod n < n" using n by simp_all
    have off: "0 \<le> off" using m ts(2) by (auto simp: off_def)
    have offm: "(off + int j) mod n = (?N - n + 1 + int j) mod n" for j
    proof -
      have "n dvd (off + int j) - (?N - n + 1 + int j)"
      proof -
        have e: "(off + int j) - (?N - n + 1 + int j) = (if ?o0 \<ge> n then 0 else n) - (K - K mod n)"
          by (simp add: off_def)
        have "n dvd K - K mod n" by (rule dvd_minus_mod)
        then show ?thesis unfolding e by (rule dvd_diff [rotated]) simp
      qed
      then show ?thesis by (simp add: mod_eq_dvd_iff)
    qed
    obtain it where it: "Iterator (rWindow r) off (n - ?ts) = Some it"
      "drain it = Some (map (\<lambda>j. wBuckets (rWindow r) ! nat ((off + int j) mod n)) [0..<nat (n - ?ts)])"
      using Iterator_drain [OF w off, of "n - ?ts"] True by auto
    have "map cell (map (\<lambda>j. wBuckets (rWindow r) ! nat ((off + int j) mod n)) [0..<nat (n - ?ts)]) =
      map (\<lambda>k. cellOf fl (valsAt k lg)) (windowKeys n ?N K)"
      unfolding windowKeys_def map_map comp_def
    proof (rule map_cong [OF refl])
      fix j assume "j \<in> set [0..<nat (n - ?ts)]"
      then show "cell (wBuckets (rWindow r) ! nat ((off + int j) mod n)) =
          cellOf fl (valsAt (?N - n + 1 + int j) lg)"
        using c [of "?N - n + 1 + int j"] ts(2) offm [of j] by (simp add: cellAt_def)
    qed
    moreover have "pReduce now f zero r =
        (case Iterator (rWindow r) off (n - ?ts) of None \<Rightarrow> None | Some it \<Rightarrow> f it)"
      unfolding pReduce_def ts(1) Let_def off_def using n o True by simp
    ultimately show ?thesis using it(1) f [OF it(2)] by simp
  qed
qed

section \<open>What a reduction computes from the log\<close>

lemma windowKeys_upto: "windowKeys n N K = [N - n + 1..K]"
  by (rule nth_equalityI) (auto simp: windowKeys_def)

lemma sum_valsAt:
  fixes g :: "int \<Rightarrow> int"
  shows "(\<Sum>k\<leftarrow>[a..b]. \<Sum>v\<leftarrow>valsAt k lg. g v) = (\<Sum>e\<leftarrow>filter (\<lambda>e. a \<le> fst e \<and> fst e \<le> b) lg. g (snd e))"
proof (induction lg)
  case (Cons e lg)
  have "(\<Sum>k\<leftarrow>[a..b]. \<Sum>v\<leftarrow>valsAt k (e # lg). g v) =
      (\<Sum>k\<leftarrow>[a..b]. (if fst e = k then g (snd e) else 0) + (\<Sum>v\<leftarrow>valsAt k lg. g v))"
    by (rule arg_cong [where f = sum_list], rule map_cong) (simp_all add: valsAt_def)
  also have "\<dots> = (\<Sum>k\<leftarrow>[a..b]. if fst e = k then g (snd e) else 0) + (\<Sum>k\<leftarrow>[a..b]. \<Sum>v\<leftarrow>valsAt k lg. g v)"
    by (rule sum_list_addf)
  also have "(\<Sum>k\<leftarrow>[a..b]. if fst e = k then g (snd e) else 0) = (if a \<le> fst e \<and> fst e \<le> b then g (snd e) else 0)"
    by (simp add: sum_list_distinct_conv_sum_set)
  finally show ?case using Cons.IH by simp
qed (simp add: valsAt_def)

text \<open>The values added in the last \<open>n\<close> buckets.\<close>

definition recent :: "int \<Rightarrow> int \<Rightarrow> wlog \<Rightarrow> int list" where
  "recent n N lg = map snd (filter (\<lambda>e. N - n < fst e) lg)"

lemma sum_window:
  assumes "\<forall>e\<in>set lg. fst e \<le> K"
  shows "(\<Sum>k\<leftarrow>windowKeys n N K. \<Sum>v\<leftarrow>valsAt k lg. g v) = (\<Sum>v\<leftarrow>recent n N lg. g v :: int)"
proof -
  have "filter (\<lambda>e. N - n + 1 \<le> fst e \<and> fst e \<le> K) lg = filter (\<lambda>e. N - n < fst e) lg"
    by (rule filter_cong) (use assms in auto)
  then show ?thesis by (simp add: windowKeys_upto sum_valsAt recent_def comp_def)
qed

lemma fl_run:
  assumes "float64_rounding fl" "\<forall>v\<in>set vs. 0 \<le> v" "0 \<le> s" "s + sum_list vs \<le> 2 ^ 53"
  shows "foldl (\<lambda>s x. fl (s + fl (of_int x))) (of_int s) vs = of_int (s + sum_list vs)"
  using assms(2-)
proof (induction vs arbitrary: s)
  case (Cons v vs)
  have "0 \<le> sum_list vs" using Cons.prems by (intro sum_list_nonneg) auto
  then have "fl (of_int v) = of_int v" "fl (of_int (s + v)) = of_int (s + v)"
    using Cons.prems by (auto intro!: float64_int [OF assms(1)] simp del: of_int_add)
  then show ?case using Cons.IH [of "s + v"] Cons.prems by (simp add: add.assoc)
qed simp

lemma pointOf_exact:
  assumes "float64_rounding fl" "\<forall>v\<in>set vs. 0 \<le> v" "sum_list vs \<le> 2 ^ 53"
  shows "pointOf fl vs = (if vs = [] then [] else [of_int (sum_list vs)])"
proof (cases vs)
  case (Cons v us)
  have "0 \<le> sum_list us" using assms(2) Cons by (intro sum_list_nonneg) auto
  then have "fl (of_int v) = of_int v"
    using assms Cons by (intro float64_int) auto
  then show ?thesis using fl_run [OF assms(1), of us v] assms Cons by simp
qed simp

text \<open>\<open>Sum\<close> and \<open>Count\<close> read through what the buckets hold.\<close>

definition cellSum :: "(rat \<Rightarrow> rat) \<Rightarrow> (rat list \<times> int) list \<Rightarrow> rat" where
  "cellSum fl cs = foldl (\<lambda>r c. foldl (\<lambda>r p. fl (r + p)) r (fst c)) 0 cs"

definition cellCount :: "(rat list \<times> int) list \<Rightarrow> int" where
  "cellCount cs = sum_list (map snd cs)"

lemma Sum_cells: "drain it = Some bs \<Longrightarrow> Sum fl it = Some (cellSum fl (map cell bs))"
  by (simp add: Sum_def cellSum_def sumBuckets_def cell_def foldl_map)

lemma foldl_Count: "foldl (\<lambda>r b. r + Count b) s bs = s + cellCount (map cell bs)"
  by (induction bs arbitrary: s) (simp_all add: cellCount_def cell_def)

lemma CountR_cells: "drain it = Some bs \<Longrightarrow> CountR fl it = Some (fl (of_int (cellCount (map cell bs))))"
  by (simp add: CountR_def foldl_Count)

lemma sum_part_le:
  fixes lg :: wlog
  assumes "\<forall>e\<in>set lg. 0 \<le> snd e"
  shows "sum_list (map snd (filter P lg)) \<le> sum_list (map snd lg)"
  using assms by (induction lg) auto

lemma valsAt_exact:
  assumes "\<forall>e\<in>set lg. 0 \<le> snd e" "sum_list (map snd lg) \<le> 2 ^ 53"
  shows "\<forall>v\<in>set (valsAt k lg). 0 \<le> v" "sum_list (valsAt k lg) \<le> 2 ^ 53"
  using assms sum_part_le [OF assms(1), of "\<lambda>e. fst e = k"] by (auto simp: valsAt_def)

lemma cellSum_exact:
  assumes fl: "float64_rounding fl"
    and "\<forall>e\<in>set lg. 0 \<le> snd e" "sum_list (map snd lg) \<le> 2 ^ 53"
    and "0 \<le> s" "s + (\<Sum>k\<leftarrow>ks. sum_list (valsAt k lg)) \<le> 2 ^ 53"
  shows "foldl (\<lambda>r c. foldl (\<lambda>r p. fl (r + p)) r (fst c)) (of_int s) (map (\<lambda>k. cellOf fl (valsAt k lg)) ks) =
    of_int (s + (\<Sum>k\<leftarrow>ks. sum_list (valsAt k lg)))"
  using assms(4-)
proof (induction ks arbitrary: s)
  case (Cons k ks)
  let ?v = "sum_list (valsAt k lg)"
  note ex = valsAt_exact [OF assms(2,3)]
  have nn: "0 \<le> sum_list (valsAt k lg)" for k using ex(1) by (intro sum_list_nonneg) auto
  then have "0 \<le> (\<Sum>k\<leftarrow>ks. sum_list (valsAt k lg))" by (intro sum_list_nonneg) auto
  then have "fl (of_int (s + ?v)) = of_int (s + ?v)"
    using Cons.prems nn [of k] by (intro float64_int [OF fl]) auto
  then have "foldl (\<lambda>r p. fl (r + p)) (of_int s) (fst (cellOf fl (valsAt k lg))) = of_int (s + ?v)"
    using pointOf_exact [OF fl ex] by (simp add: cellOf_def)
  then show ?case using Cons.IH [of "s + ?v"] Cons.prems nn [of k] by (simp add: add.assoc del: of_int_add)
qed simp

section \<open>The interface \<open>RollingCounter\<close>\<close>

text \<open>
  What the clients of the package rely on. \<open>look\<close> is what the iterator of a reduction shows, \<open>R\<close>
  relates a counter to the log of its additions; \<open>K\<close> is the bucket number of the last addition.
\<close>

definition addAll :: "(int \<Rightarrow> int \<Rightarrow> 'c \<Rightarrow> 'c option) \<Rightarrow> (int \<times> int) list \<Rightarrow> 'c \<Rightarrow> 'c option" where
  "addAll add ops c = foldl (\<lambda>o1 (t, v). Option.bind o1 (add t v)) (Some c) ops"

lemma addAll_Nil [simp]: "addAll add [] c = Some c"
  by (simp add: addAll_def)

lemma foldl_bind_None [simp]: "foldl (\<lambda>o1 (t, v). Option.bind o1 (add t v)) None ops = None"
  by (induction ops) auto

lemma addAll_Cons [simp]: "addAll add ((t, v) # ops) c = Option.bind (add t v c) (addAll add ops)"
  by (cases "add t v c") (simp_all add: addAll_def)

definition logOf :: "int \<Rightarrow> int \<Rightarrow> (int \<times> int) list \<Rightarrow> wlog" where
  "logOf t0 d ops = map (\<lambda>(t, v). ((t - t0) div d, v)) ops"

lemma snd_logOf [simp]: "map snd (logOf t0 d ops) = map snd ops"
  by (simp add: logOf_def case_prod_unfold comp_def)

locale rolling_counter =
  fixes create :: "int \<Rightarrow> int \<Rightarrow> int \<Rightarrow> 'c option"
    and add :: "(rat \<Rightarrow> rat) \<Rightarrow> int \<Rightarrow> int \<Rightarrow> 'c \<Rightarrow> 'c option"
    and look :: "int \<Rightarrow> 'c \<Rightarrow> (rat list \<times> int) list option"
    and R :: "(rat \<Rightarrow> rat) \<Rightarrow> int \<Rightarrow> int \<Rightarrow> int \<Rightarrow> int \<Rightarrow> 'c \<Rightarrow> wlog \<Rightarrow> bool"
  assumes create_R: "0 < n \<Longrightarrow> 0 < d \<Longrightarrow> \<exists>c. create t0 n d = Some c \<and> R fl t0 n d 0 c []"
    and R_pos: "R fl t0 n d K c lg \<Longrightarrow> 0 < d"
    and R_bound: "R fl t0 n d K c lg \<Longrightarrow> \<forall>e\<in>set lg. fst e \<le> K"
    and add_R: "R fl t0 n d K c lg \<Longrightarrow> t0 + K * d \<le> now \<Longrightarrow> now < t0 + 2 ^ 63 \<Longrightarrow> 0 \<le> v \<Longrightarrow>
      \<exists>c'. add fl now v c = Some c' \<and> R fl t0 n d ((now - t0) div d) c' (lg @ [((now - t0) div d, v)])"
    and look_R: "R fl t0 n d K c lg \<Longrightarrow> t0 + K * d \<le> now \<Longrightarrow> now < t0 + 2 ^ 63 \<Longrightarrow>
      look now c = Some (map (\<lambda>k. cellOf fl (valsAt k lg)) (windowKeys n ((now - t0) div d) K))"
begin

lemma addAll_R:
  assumes "R fl t0 n d K c lg" "t0 + K * d \<le> t" "sorted (t # map fst ops @ [now])"
    "now < t0 + 2 ^ 63" "\<forall>e\<in>set ops. 0 \<le> snd e"
  shows "\<exists>c' K'. addAll (add fl) ops c = Some c' \<and> R fl t0 n d K' c' (lg @ logOf t0 d ops) \<and>
    t0 + K' * d \<le> now"
  using assms
proof (induction ops arbitrary: c lg K t)
  case Nil
  then show ?case by (auto simp: logOf_def)
next
  case (Cons e ops)
  obtain s v where e: "e = (s, v)" by (cases e)
  have "t \<le> s" "s \<le> now" "0 \<le> v" using Cons.prems by (auto simp: e)
  then obtain c1 where c1: "add fl s v c = Some c1"
    "R fl t0 n d ((s - t0) div d) c1 (lg @ [((s - t0) div d, v)])"
    using add_R [OF Cons.prems(1), of s v] Cons.prems by auto
  have "t0 + (s - t0) div d * d \<le> s"
    using div_mult_le [OF R_pos [OF c1(2)], of "s - t0"] by simp
  then show ?case
    using Cons.IH [OF c1(2), of s] Cons.prems c1(1) by (auto simp: e logOf_def)
qed

text \<open>A fresh counter after the additions \<open>ops\<close> in time order, read at \<open>now\<close>.\<close>

lemma created_look:
  assumes "0 < n" "0 < d" "sorted (t0 # map fst ops @ [now])" "now < t0 + 2 ^ 63"
    "\<forall>e\<in>set ops. 0 \<le> snd e"
  obtains c0 c K where "create t0 n d = Some c0" "addAll (add fl) ops c0 = Some c"
    "R fl t0 n d K c (logOf t0 d ops)" "t0 + K * d \<le> now"
  using create_R [OF assms(1,2), of t0 fl] addAll_R [of fl t0 n d 0 _ "[]" t0 ops now] assms(3-)
  by force

lemma look_count:
  assumes "R fl t0 n d K c lg" "t0 + K * d \<le> now" "now < t0 + 2 ^ 63"
  shows "map_option cellCount (look now c) = Some (int (length (recent n ((now - t0) div d) lg)))"
proof -
  have "cellCount (map (\<lambda>k. cellOf fl (valsAt k lg)) ks) = (\<Sum>k\<leftarrow>ks. \<Sum>v\<leftarrow>valsAt k lg. 1)" for ks
    by (simp add: cellCount_def cellOf_def comp_def sum_list_triv)
  then show ?thesis
    using look_R [OF assms] sum_window [OF R_bound [OF assms(1)], of "\<lambda>_. 1"] by (simp add: sum_list_triv)
qed

lemma look_sum:
  assumes "float64_rounding fl" "R fl t0 n d K c lg" "t0 + K * d \<le> now" "now < t0 + 2 ^ 63"
    "\<forall>e\<in>set lg. 0 \<le> snd e" "sum_list (map snd lg) \<le> 2 ^ 53"
  shows "map_option (cellSum fl) (look now c) = Some (of_int (sum_list (recent n ((now - t0) div d) lg)))"
proof -
  let ?N = "(now - t0) div d"
  have s: "(\<Sum>k\<leftarrow>windowKeys n ?N K. sum_list (valsAt k lg)) = sum_list (recent n ?N lg)"
    using sum_window [OF R_bound [OF assms(2)], of "\<lambda>v. v"] by simp
  moreover have "sum_list (recent n ?N lg) \<le> 2 ^ 53"
    using sum_part_le [OF assms(5), of "\<lambda>e. ?N - n < fst e"] assms(6) by (simp add: recent_def)
  ultimately show ?thesis
    using look_R [OF assms(2-4)] cellSum_exact [OF assms(1,5,6), of 0 "windowKeys n ?N K"]
    by (simp add: cellSum_def)
qed

end

section \<open>The contract holds of \<open>rollingCounter\<close>\<close>

definition rcLook :: "int \<Rightarrow> rollingCounter \<Rightarrow> (rat list \<times> int) list option" where
  "rcLook now c = rcReduce now (\<lambda>it. map_option (map cell) (drain it)) [] c"

definition rcRep :: "(rat \<Rightarrow> rat) \<Rightarrow> int \<Rightarrow> int \<Rightarrow> int \<Rightarrow> int \<Rightarrow> rollingCounter \<Rightarrow> wlog \<Rightarrow> bool" where
  "rcRep fl t0 n d K c lg \<longleftrightarrow> rep fl t0 n d K (rcPolicy c) lg"

lemma NewWindow_wfw: "0 < n \<Longrightarrow> \<exists>w. NewWindow n = Some w \<and> wfw n w \<and> (\<forall>k. cellAt n w k = ([], 0))"
  by (simp add: NewWindow_def wfw_def cellAt_def cell_def)

interpretation rc: rolling_counter NewRollingCounter rcAdd rcLook rcRep
proof
  show "\<exists>c. NewRollingCounter t0 n d = Some c \<and> rcRep fl t0 n d 0 c []" if "0 < n" "0 < d" for n d t0 fl
    using NewWindow_wfw [OF that(1)] that
    by (auto simp: NewRollingCounter_def NewRollingPolicy_def rcRep_def rep_def wfw_def valsAt_def)
next
  fix fl t0 n d K c lg now v
  assume "rcRep fl t0 n d K c lg" "t0 + K * d \<le> now" "now < t0 + 2 ^ 63" "0 \<le> (v::int)"
  then show "\<exists>c'. rcAdd fl now v c = Some c' \<and>
      rcRep fl t0 n d ((now - t0) div d) c' (lg @ [((now - t0) div d, v)])"
    using pAdd_rep [of fl t0 n d K "rcPolicy c" lg now v] by (auto simp: rcRep_def rcAdd_def)
next
  fix fl t0 n d K c lg now
  assume "rcRep fl t0 n d K c lg" "t0 + K * d \<le> now" "now < t0 + 2 ^ 63"
  then show "rcLook now c = Some (map (\<lambda>k. cellOf fl (valsAt k lg)) (windowKeys n ((now - t0) div d) K))"
    using pReduce_rep [of fl t0 n d K "rcPolicy c" lg now _ "\<lambda>x. x"]
    by (simp add: rcRep_def rcLook_def rcReduce_def)
qed (auto simp: rcRep_def rep_def)

lemma rcReduce_look:
  assumes "rcRep fl t0 n d K c lg" "t0 + K * d \<le> now" "now < t0 + 2 ^ 63"
    "\<And>it bs. drain it = Some bs \<Longrightarrow> f it = Some (g (map cell bs))" "zero = g []"
  shows "rcReduce now f zero c = map_option g (rcLook now c)"
  using pReduce_rep [of fl t0 n d K "rcPolicy c" lg now f g zero] assms rc.look_R [OF assms(1-3)]
  by (simp add: rcReduce_def rcRep_def)

lemma recent_logOf:
  "recent n N (logOf t0 d ops) = [v. (t, v) \<leftarrow> ops, N - n < (t - t0) div d]"
  by (induction ops) (auto simp: recent_def logOf_def)

text \<open>
  C6: A rolling counter of \<open>n\<close> buckets of length \<open>d\<close>, after any additions in time order, reports at
  any later time exactly the values added during the current bucket and the \<open>n - 1\<close> before it: their
  sum (as a float and as an integer) and their number. No operation panics, whatever the gaps
  between the calls, including gaps longer than the whole window.
\<close>
theorem rolling_counter_window:
  assumes "float64_rounding fl" "0 < n" "0 < d" "sorted (t0 # map fst ops @ [now])" "now < t0 + 2 ^ 63"
    and "\<forall>e\<in>set ops. 0 \<le> snd e" "sum_list (map snd ops) \<le> 2 ^ 53"
  shows "\<exists>c0 c. NewRollingCounter t0 n d = Some c0 \<and> addAll (rcAdd fl) ops c0 = Some c \<and>
    (let recentVals = [v. (t, v) \<leftarrow> ops, (now - t0) div d - n < (t - t0) div d] in
     rcSum fl now c = Some (of_int (sum_list recentVals)) \<and>
     rcValue fl now c = Some (sum_list recentVals) \<and>
     rcReduce now (CountR fl) 0 c = Some (fl (of_int (int (length recentVals)))))"
proof -
  let ?lg = "logOf t0 d ops"
  obtain c0 c K where c: "NewRollingCounter t0 n d = Some c0" "addAll (rcAdd fl) ops c0 = Some c"
    and R: "rcRep fl t0 n d K c ?lg" and K: "t0 + K * d \<le> now"
    using rc.created_look [OF assms(2-6)] by blast
  have nn: "\<forall>e\<in>set ?lg. 0 \<le> snd e" using assms(6) by (auto simp: logOf_def)
  have s: "rcSum fl now c = Some (of_int (sum_list (recent n ((now - t0) div d) ?lg)))"
    using rcReduce_look [OF R K assms(5), of "Sum fl" "cellSum fl" 0, OF Sum_cells]
      rc.look_sum [OF assms(1) R K assms(5) nn] assms(7)
    by (simp add: rcSum_def cellSum_def)
  have "rcReduce now (CountR fl) 0 c = map_option (\<lambda>cs. fl (of_int (cellCount cs))) (rcLook now c)"
    using assms(1) by (intro rcReduce_look [OF R K assms(5)] CountR_cells) (simp_all add: cellCount_def)
  also have "\<dots> = map_option (\<lambda>x. fl (of_int x)) (map_option cellCount (rcLook now c))"
    by (simp add: option.map_comp comp_def)
  also have "\<dots> = Some (fl (of_int (int (length (recent n ((now - t0) div d) ?lg)))))"
    by (simp add: rc.look_count [OF R K assms(5)])
  finally show ?thesis using c s by (simp add: recent_logOf [symmetric] rcValue_def Let_def)
qed

theorem rolling_counter_window_witness:
  "\<exists>c0 c. NewRollingCounter 100 3 10 = Some c0 \<and>
    addAll (rcAdd grid_round) [(101, 5), (105, 7), (118, 1), (131, 2)] c0 = Some c \<and>
    rcSum grid_round 135 c = Some 3 \<and> rcValue grid_round 135 c = Some 3 \<and>
    rcReduce 135 (CountR grid_round) 0 c = Some (grid_round 2)"
  using rolling_counter_window [OF grid_round_rounding, of 3 10 100
    "[(101, 5), (105, 7), (118, 1), (131, 2)]" 135] by simp

text \<open>
  The calls that panic. A negative value is refused whatever the state; a counter of negative
  size cannot be created; a counter of size zero or of bucket duration zero can be created, but the
  first addition panics (a division by zero).
\<close>
theorem rolling_counter_panics:
  "(v < 0 \<longrightarrow> rcAdd fl now v c = None) \<and>
   (n < 0 \<longrightarrow> NewRollingCounter t0 n d = None) \<and>
   (NewRollingCounter t0 0 d = Some c0 \<longrightarrow> rcAdd fl now v c0 = None) \<and>
   (NewRollingCounter t0 n 0 = Some c0 \<longrightarrow> rcAdd fl now v c0 = None)"
proof -
  have w: "wAdd fl w off x = None" if "wSize w = 0" for w off x
    using that by (simp add: wAdd_def slot_def)
  have a: "pAdd fl now x r = None" if "rSize r = 0" "wSize (rWindow r) = 0" for r x
    using that by (simp add: pAdd_def applyP_def rollTo_def w Let_def split: option.split)
  have d: "pAdd fl now x r = None" if "rDur r = 0" for r x
    using that by (simp add: pAdd_def applyP_def rollTo_def timespan_def)
  have "rcAdd fl now v c0 = None" if "NewRollingCounter t0 0 d = Some c0"
    using that a [of "rcPolicy c0"] by (auto simp: rcAdd_def NewRollingCounter_def NewRollingPolicy_def NewWindow_def)
  moreover have "rcAdd fl now v c0 = None" if "NewRollingCounter t0 n 0 = Some c0"
    using that d [of "rcPolicy c0"] by (auto simp: rcAdd_def NewRollingCounter_def NewRollingPolicy_def)
  moreover have "v < 0 \<Longrightarrow> rcAdd fl now v c = None" by (simp add: rcAdd_def)
  moreover have "n < 0 \<Longrightarrow> NewRollingCounter t0 n d = None"
    by (simp add: NewRollingCounter_def NewWindow_def)
  ultimately show ?thesis by blast
qed

theorem rolling_counter_panics_witness:
  "rcAdd grid_round 5 (-1) \<lparr>rcPolicy = NewRollingPolicy 0 \<lparr>wBuckets = [], wSize = 0\<rparr> 10\<rparr> = None \<and>
   rcAdd grid_round 5 1 \<lparr>rcPolicy = NewRollingPolicy 0 \<lparr>wBuckets = [], wSize = 0\<rparr> 10\<rparr> = None"
  using rolling_counter_panics [of "-1" grid_round 5 "\<lparr>rcPolicy = NewRollingPolicy 0 \<lparr>wBuckets = [], wSize = 0\<rparr> 10\<rparr>"]
    rolling_counter_panics [of 1 grid_round 5 _ _ 0 10 "\<lparr>rcPolicy = NewRollingPolicy 0 \<lparr>wBuckets = [], wSize = 0\<rparr> 10\<rparr>"]
  by (simp add: NewRollingCounter_def NewWindow_def)

end
