(* ===== verification/Breaker.thy ===== *)
theory Breaker
  imports RollingWindow
begin

text \<open>
  Package \<open>pkg/shield/circuitbreaker\<close> (\<open>sre.go\<close>, \<open>circuitbreaker.go\<close>): the adaptive breaker of the
  Google SRE book on top of a rolling counter.

  The random number of \<open>trueOnProba\<close> and the time are arguments. \<open>k = 1 / success\<close> is an option:
  \<open>None\<close> is the infinity that a success rate of zero gives. The compare-and-swap of the state is the
  assignment it performs when no other goroutine intervenes.

  The lemmas show that the breaker sees exactly the outcomes of its window, what \<open>Allow\<close> decides from
  them, and that the decision is monotone in the accepted requests and in \<open>k\<close>.
\<close>

section \<open>Model\<close>

datatype cbError = ErrNotAllowed

datatype cbState = StateOpen | StateClosed

record boptions =
  success :: rat
  request :: int
  bucketN :: int
  window :: int

definition cbWithSuccess :: "rat \<Rightarrow> boptions \<Rightarrow> boptions" where
  "cbWithSuccess s c = c\<lparr>success := s\<rparr>"

definition cbWithRequest :: "int \<Rightarrow> boptions \<Rightarrow> boptions" where
  "cbWithRequest r c = c\<lparr>request := r\<rparr>"

definition cbWithWindow :: "int \<Rightarrow> boptions \<Rightarrow> boptions" where
  "cbWithWindow d c = c\<lparr>window := d\<rparr>"

definition cbWithBucket :: "int \<Rightarrow> boptions \<Rightarrow> boptions" where
  "cbWithBucket b c = c\<lparr>bucketN := b\<rparr>"

record breaker =
  stat :: rollingCounter
  kF :: "rat option"
  reqMin :: int
  state :: cbState

definition cbDefaults :: "(rat \<Rightarrow> rat) \<Rightarrow> boptions" where
  "cbDefaults fl = \<lparr>success = fl (6 / 10), request = 100, bucketN = 10, window = 3 * 10 ^ 9\<rparr>"

definition NewBreaker :: "(rat \<Rightarrow> rat) \<Rightarrow> int \<Rightarrow> (boptions \<Rightarrow> boptions) list \<Rightarrow> breaker option" where
  "NewBreaker fl now opts =
     (let opt = applyOpts opts (cbDefaults fl) in
      if bucketN opt = 0 then None
      else map_option (\<lambda>c. \<lparr>stat = c,
                            kF = (if success opt = 0 then None else Some (fl (1 / success opt))),
                            reqMin = request opt,
                            state = StateClosed\<rparr>)
             (NewRollingCounter now (bucketN opt) (quot (window opt) (bucketN opt))))"

definition summaryStep :: "int \<times> int \<Rightarrow> bucket \<Rightarrow> int \<times> int" where
  "summaryStep = (\<lambda>(suc, tot) b. (foldl (\<lambda>s p. s + truncf p) suc (Points b), tot + Count b))"

definition summary :: "int \<Rightarrow> breaker \<Rightarrow> (int \<times> int) option" where
  "summary now b =
     rcReduce now (\<lambda>it. map_option (foldl summaryStep (0, 0)) (drain it)) (0, 0) (stat b)"

definition trueOnProba :: "rat \<Rightarrow> rat \<Rightarrow> bool" where
  "trueOnProba rnd proba \<longleftrightarrow> rnd < proba"

text \<open>
  \<open>requests := b.k * float64(accepts)\<close>: infinity times zero is NaN, for which the comparison
  \<open>float64(tot) < requests\<close> is false and \<open>math.Max\<close> returns NaN, so that nothing is dropped.
\<close>

datatype fval = Fin rat | Inf | NaN

definition requestsOf :: "(rat \<Rightarrow> rat) \<Rightarrow> rat option \<Rightarrow> int \<Rightarrow> fval" where
  "requestsOf fl k accepts =
     (case k of Some q \<Rightarrow> Fin (fl (q * fl (of_int accepts)))
      | None \<Rightarrow> if accepts = 0 then NaN else Inf)"

definition lessF :: "rat \<Rightarrow> fval \<Rightarrow> bool" where
  "lessF x y = (case y of Fin q \<Rightarrow> x < q | Inf \<Rightarrow> True | NaN \<Rightarrow> False)"

definition dropRatio :: "(rat \<Rightarrow> rat) \<Rightarrow> int \<Rightarrow> rat \<Rightarrow> rat" where
  "dropRatio fl tot requests =
     max 0 (fl (fl (fl (of_int tot) - requests) / fl (of_int (tot + 1))))"

definition Allow :: "(rat \<Rightarrow> rat) \<Rightarrow> int \<Rightarrow> rat \<Rightarrow> breaker \<Rightarrow> (cbError option \<times> breaker) option" where
  "Allow fl now rnd b =
     (case summary now b of
        None \<Rightarrow> None
      | Some (accepts, tot) \<Rightarrow>
         (let requests = requestsOf fl (kF b) accepts in
          if tot < reqMin b \<or> lessF (fl (of_int tot)) requests
          then Some (None, b\<lparr>state := StateClosed\<rparr>)
          else (let b' = b\<lparr>state := StateOpen\<rparr>;
                    drop = (case requests of Fin q \<Rightarrow> trueOnProba rnd (dropRatio fl tot q) | _ \<Rightarrow> False)
                in Some (if drop then Some ErrNotAllowed else None, b'))))"

definition MarkSuccess :: "(rat \<Rightarrow> rat) \<Rightarrow> int \<Rightarrow> breaker \<Rightarrow> breaker option" where
  "MarkSuccess fl now b = map_option (\<lambda>c. b\<lparr>stat := c\<rparr>) (rcAdd fl now 1 (stat b))"

definition MarkFailed :: "(rat \<Rightarrow> rat) \<Rightarrow> int \<Rightarrow> breaker \<Rightarrow> breaker option" where
  "MarkFailed fl now b = map_option (\<lambda>c. b\<lparr>stat := c\<rparr>) (rcAdd fl now 0 (stat b))"

section \<open>Runs\<close>

text \<open>The calls a client makes: marks and admission checks, each with its time.\<close>

datatype cbOp = OpSuccess | OpFailed | OpAllow rat

fun cbStep :: "(rat \<Rightarrow> rat) \<Rightarrow> int \<times> cbOp \<Rightarrow> breaker \<Rightarrow> breaker option" where
  "cbStep fl (t, OpSuccess) b = MarkSuccess fl t b"
| "cbStep fl (t, OpFailed) b = MarkFailed fl t b"
| "cbStep fl (t, OpAllow rnd) b = map_option snd (Allow fl t rnd b)"

fun cbRun :: "(rat \<Rightarrow> rat) \<Rightarrow> (int \<times> cbOp) list \<Rightarrow> breaker \<Rightarrow> breaker option" where
  "cbRun fl [] b = Some b"
| "cbRun fl (e # es) b = Option.bind (cbStep fl e b) (cbRun fl es)"

definition marks :: "(int \<times> cbOp) list \<Rightarrow> (int \<times> int) list" where
  "marks es = [(t, if x = OpSuccess then 1 else 0). (t, x) \<leftarrow> es, x = OpSuccess \<or> x = OpFailed]"

section \<open>The window as the breaker sees it\<close>

lemma summaryStep_cells:
  "foldl summaryStep (s, n) bs =
     (s + (\<Sum>c\<leftarrow>map cell bs. \<Sum>p\<leftarrow>fst c. truncf p), n + cellCount (map cell bs))"
proof (induction bs arbitrary: s n)
  case (Cons b bs)
  have f: "foldl (\<lambda>s p. s + truncf p) s ps = s + (\<Sum>p\<leftarrow>ps. truncf p)" for s ps
    by (induction ps arbitrary: s) simp_all
  have "summaryStep (s, n) b = (s + (\<Sum>p\<leftarrow>Points b. truncf p), n + Count b)"
    by (simp add: summaryStep_def f)
  then show ?case using Cons.IH by (simp add: cell_def cellCount_def)
qed (simp add: cellCount_def)

lemma summary_rep:
  assumes fl: "float64_rounding fl" and R: "rcRep fl t0 n d K (stat b) lg"
    and t: "t0 + K * d \<le> now" "now < t0 + 2 ^ 63"
    and lg: "\<forall>e\<in>set lg. 0 \<le> snd e" "sum_list (map snd lg) \<le> 2 ^ 53"
  shows "summary now b = Some (sum_list (recent n ((now - t0) div d) lg),
                               int (length (recent n ((now - t0) div d) lg)))"
proof -
  let ?N = "(now - t0) div d"
  let ?g = "\<lambda>cs. (\<Sum>c\<leftarrow>cs. \<Sum>p\<leftarrow>fst c. truncf p, cellCount cs)"
  have "summary now b = map_option ?g (rcLook now (stat b))"
    unfolding summary_def
    by (rule rcReduce_look [OF R t]) (simp_all add: summaryStep_cells cellCount_def)
  moreover have "(\<Sum>c\<leftarrow>map (\<lambda>k. cellOf fl (valsAt k lg)) ks. \<Sum>p\<leftarrow>fst c. truncf p) =
      (\<Sum>k\<leftarrow>ks. sum_list (valsAt k lg))" for ks
  proof -
    have "(\<Sum>p\<leftarrow>fst (cellOf fl (valsAt k lg)). truncf p) = sum_list (valsAt k lg)" for k
      using pointOf_exact [OF fl valsAt_exact [OF lg], of k] by (simp add: cellOf_def)
    then show ?thesis by (simp add: comp_def)
  qed
  ultimately show ?thesis
    using rc.look_R [OF R t] rc.look_count [OF R t] sum_window [OF rc.R_bound [OF R], of "\<lambda>v. v" n ?N]
    by simp
qed

lemma Allow_stat: "Allow fl now rnd b = Some (e, b') \<Longrightarrow> stat b' = stat b \<and> kF b' = kF b \<and> reqMin b' = reqMin b"
  by (auto simp: Allow_def Let_def split: option.splits if_splits)

lemma Allow_total: "summary now b \<noteq> None \<Longrightarrow> \<exists>e b'. Allow fl now rnd b = Some (e, b')"
  by (auto simp: Allow_def Let_def)

lemma marks_nonneg: "\<forall>e\<in>set (marks es). 0 \<le> snd e"
  by (auto simp: marks_def)

lemma marks_sum_le: "sum_list (map snd (marks es)) \<le> int (length es)"
  by (induction es) (auto simp: marks_def)

text \<open>Any run of calls in time order succeeds, and the counter records its marks.\<close>

lemma cbRun_rep:
  assumes fl: "float64_rounding fl"
    and "rcRep fl t0 n d K (stat b) lg" "t0 + K * d \<le> t" "sorted (t # map fst es @ [now])"
    and "now < t0 + 2 ^ 63" "\<forall>e\<in>set lg. 0 \<le> snd e" "sum_list (map snd lg) + int (length es) \<le> 2 ^ 53"
  shows "\<exists>b' K'. cbRun fl es b = Some b' \<and> rcRep fl t0 n d K' (stat b') (lg @ logOf t0 d (marks es)) \<and>
    t0 + K' * d \<le> now \<and> kF b' = kF b \<and> reqMin b' = reqMin b"
  using assms(2-)
proof (induction es arbitrary: b lg K t)
  case Nil
  then show ?case by (auto simp: marks_def logOf_def)
next
  case (Cons e es)
  obtain s x where e: "e = (s, x)" by (cases e)
  have s: "t \<le> s" "s \<le> now" "s < t0 + 2 ^ 63" "t0 + K * d \<le> s" using Cons.prems by (auto simp: e)
  let ?k = "(s - t0) div d"
  have add: ?case
    if x: "x = OpSuccess \<and> v = 1 \<or> x = OpFailed \<and> v = 0" for v :: int
  proof -
    obtain c' where c': "rcAdd fl s v (stat b) = Some c'" "rcRep fl t0 n d ?k c' (lg @ [(?k, v)])"
      using rc.add_R [OF Cons.prems(1) s(4,3), of v] x by auto
    have k: "t0 + ?k * d \<le> s" using div_mult_le [OF rc.R_pos [OF c'(2)], of "s - t0"] by simp
    have st: "cbStep fl e b = Some (b\<lparr>stat := c'\<rparr>)"
      using c'(1) x by (auto simp: e MarkSuccess_def MarkFailed_def)
    have m: "marks (e # es) = (s, v) # marks es" using x by (auto simp: e marks_def)
    show ?thesis
      using Cons.IH [of ?k "b\<lparr>stat := c'\<rparr>" "lg @ [(?k, v)]" s] c'(2) k Cons.prems x st m
      by (auto simp: e logOf_def)
  qed
  show ?case
  proof (cases x)
    case (OpAllow rnd)
    have "summary s b \<noteq> None"
      using summary_rep [OF fl Cons.prems(1) s(4,3) Cons.prems(5)] Cons.prems(6) by simp
    then obtain r b' where b': "Allow fl s rnd b = Some (r, b')" using Allow_total by blast
    have m: "marks (e # es) = marks es" using OpAllow by (simp add: e marks_def)
    show ?thesis
      using Cons.IH [of K b' lg s] Allow_stat [OF b'] b' Cons.prems s OpAllow m by (auto simp: e)
  qed (use add in auto)
qed
section \<open>Properties\<close>

text \<open>The outcomes a breaker of \<open>n\<close> buckets of length \<open>d\<close>, created at \<open>t0\<close>, still counts at \<open>now\<close>.\<close>

definition liveMarks :: "int \<Rightarrow> int \<Rightarrow> int \<Rightarrow> int \<Rightarrow> (int \<times> cbOp) list \<Rightarrow> int list" where
  "liveMarks t0 n d now es = [v. (t, v) \<leftarrow> marks es, (now - t0) div d - n < (t - t0) div d]"

lemma NewBreaker_run:
  assumes fl: "float64_rounding fl" and opt: "opt = applyOpts opts (cbDefaults fl)"
    "0 < bucketN opt" "bucketN opt \<le> window opt" and d: "d = window opt div bucketN opt"
    and es: "sorted (t0 # map fst es @ [now])" "now < t0 + 2 ^ 63" "int (length es) \<le> 2 ^ 53"
  obtains b0 b where "NewBreaker fl t0 opts = Some b0" "cbRun fl es b0 = Some b"
    "summary now b = Some (sum_list (liveMarks t0 (bucketN opt) d now es),
                           int (length (liveMarks t0 (bucketN opt) d now es)))"
    "kF b = (if success opt = 0 then None else Some (fl (1 / success opt)))" "reqMin b = request opt"
proof -
  let ?n = "bucketN opt"
  have "0 < window opt div ?n" using opt(2,3) by (simp add: pos_imp_zdiv_pos_iff)
  then have d0: "0 < d" by (simp add: d)
  obtain c0 where c0: "NewRollingCounter t0 ?n d = Some c0" "rcRep fl t0 ?n d 0 c0 []"
    using rc.create_R [OF opt(2) d0] by blast
  define b0 where "b0 = \<lparr>stat = c0, kF = (if success opt = 0 then None else Some (fl (1 / success opt))),
    reqMin = request opt, state = StateClosed\<rparr>"
  have b0: "NewBreaker fl t0 opts = Some b0"
    using c0(1) opt(2,3) unfolding NewBreaker_def Let_def opt(1) [symmetric]
    by (simp add: quot_nonneg d b0_def)
  obtain b K where b: "cbRun fl es b0 = Some b" "rcRep fl t0 ?n d K (stat b) (logOf t0 d (marks es))"
      "t0 + K * d \<le> now" "kF b = kF b0" "reqMin b = reqMin b0"
    using cbRun_rep [OF fl, of t0 ?n d 0 b0 "[]" t0 es now] c0(2) es by (auto simp: b0_def)
  have "summary now b = Some (sum_list (recent ?n ((now - t0) div d) (logOf t0 d (marks es))),
      int (length (recent ?n ((now - t0) div d) (logOf t0 d (marks es)))))"
    using marks_nonneg [of es] marks_sum_le [of es] es(3)
    by (intro summary_rep [OF fl b(2,3) es(2)]) (auto simp: logOf_def case_prod_unfold comp_def)
  then show ?thesis using that [OF b0 b(1)] b(4,5) by (simp add: recent_logOf liveMarks_def b0_def)
qed

text \<open>
  A breaker with at least one bucket and a window at least as long as its number of buckets
  never panics, and its summary at any moment is the number of successes and the number of outcomes
  marked during the current bucket and the \<open>bucketN - 1\<close> before it, whatever sequence of marks and
  admission checks came before.
\<close>
theorem breaker_sees_window:
  assumes "float64_rounding fl" "opt = applyOpts opts (cbDefaults fl)"
    "0 < bucketN opt" "bucketN opt \<le> window opt" "d = window opt div bucketN opt"
    and "sorted (t0 # map fst es @ [now])" "now < t0 + 2 ^ 63" "int (length es) \<le> 2 ^ 53"
  shows "\<exists>b0 b. NewBreaker fl t0 opts = Some b0 \<and> cbRun fl es b0 = Some b \<and>
    summary now b = Some (sum_list (liveMarks t0 (bucketN opt) d now es),
                          int (length (liveMarks t0 (bucketN opt) d now es)))"
  using NewBreaker_run [OF assms] by metis

theorem breaker_sees_window_witness:
  "\<exists>b0 b. NewBreaker grid_round 0 [] = Some b0 \<and>
     cbRun grid_round [(10, OpSuccess), (400000000, OpFailed), (500000000, OpAllow 0), (3000000001, OpSuccess)] b0
       = Some b \<and>
     summary 3100000000 b = Some (1, 2)"
  using breaker_sees_window [OF grid_round_rounding refl, of "[]" _ 0
    "[(10, OpSuccess), (400000000, OpFailed), (500000000, OpAllow 0), (3000000001, OpSuccess)]" 3100000000]
  by (simp add: cbDefaults_def liveMarks_def marks_def)

lemma dropRatio_bounds:
  assumes "float64_rounding fl" "0 \<le> t" "t < 2 ^ 53" "0 \<le> q"
  shows "0 \<le> dropRatio fl t q" "dropRatio fl t q \<le> 1"
proof -
  have e: "fl (of_int t) = of_int t" "fl (of_int (t + 1)) = of_int (t + 1)"
    using assms(2,3) by (auto intro!: float64_int [OF assms(1)] simp del: of_int_add)
  have "fl (of_int t - q) \<le> fl (of_int t)" using assms(4) by (intro float64_mono [OF assms(1)]) simp
  then have "fl (of_int t - q) / of_int (t + 1) \<le> 1"
    using e assms by (simp add: divide_le_eq)
  then show "dropRatio fl t q \<le> 1"
    unfolding dropRatio_def e using float64_le_1 [OF assms(1)] by simp
qed (simp add: dropRatio_def)

text \<open>
  C7: What \<open>Allow\<close> decides from the \<open>a\<close> accepted of the \<open>t\<close> outcomes in the window: below the
  minimum number of requests, or while \<open>t < k * a\<close>, the request passes and the breaker is closed;
  otherwise the breaker is open and the request is rejected exactly when the random number is below
  the drop ratio, which is a probability. In no case do the counters, \<open>k\<close> or the minimum change.
\<close>
theorem breaker_decision:
  assumes "float64_rounding fl" "summary now b = Some (a, t)" "kF b = Some k" "0 \<le> k" "0 \<le> a" "0 \<le> t" "t < 2 ^ 53"
  shows "let q = fl (k * fl (of_int a)); dr = dropRatio fl t q in
    Allow fl now rnd b =
      (if t < reqMin b \<or> of_int t < q then Some (None, b\<lparr>state := StateClosed\<rparr>)
       else Some (if rnd < dr then Some ErrNotAllowed else None, b\<lparr>state := StateOpen\<rparr>)) \<and>
    0 \<le> dr \<and> dr \<le> 1"
proof -
  have "0 \<le> fl (of_int a)" using assms float64_nonneg [OF assms(1)] by simp
  then have "0 \<le> fl (k * fl (of_int a))" using assms(4) float64_nonneg [OF assms(1)] by simp
  moreover have "fl (of_int t) = of_int t" using assms by (intro float64_int) auto
  ultimately show ?thesis
    unfolding Let_def using dropRatio_bounds [OF assms(1,6,7), of "fl (k * fl (of_int a))"]
    by (simp add: Allow_def assms(2,3) requestsOf_def lessF_def trueOnProba_def)
qed

definition demoBreaker :: "int \<Rightarrow> breaker" where
  "demoBreaker n = \<lparr>stat = \<lparr>rcPolicy = \<lparr>rSize = 1, rWindow = \<lparr>wBuckets = [\<lparr>Points = [of_int n], Count = 9, nextOff = 0\<rparr>],
     wSize = 1\<rparr>, rOffset = 0, rDur = 10, rLast = 100\<rparr>\<rparr>, kF = Some 2, reqMin = 5, state = StateClosed\<rparr>"

theorem breaker_decision_witness:
  "Allow grid_round 103 (1/2) (demoBreaker 1) = Some (Some ErrNotAllowed, (demoBreaker 1)\<lparr>state := StateOpen\<rparr>)"
proof -
  have "summary 103 (demoBreaker 1) = Some (1, 9)" by code_simp
  moreover have "grid_round (2 * grid_round 1) = 2" by code_simp
  moreover have "dropRatio grid_round 9 2 = 716 / 1024" by code_simp
  ultimately show ?thesis
    using breaker_decision [OF grid_round_rounding, of 103 "demoBreaker 1" 1 9 2 "1 / 2"]
    by (simp add: Let_def demoBreaker_def)
qed

text \<open>
  Reducing \<open>k\<close> makes the breaker more aggressive and increasing it less: for the same window,
  time and random number, a request that is rejected with a larger \<open>k\<close> is rejected with every
  smaller one.
\<close>
theorem breaker_k_monotone:
  assumes "float64_rounding fl" "summary now b = Some (a, t)" "0 \<le> a" "0 \<le> t" "t < 2 ^ 53"
    and "0 \<le> k" "k \<le> k'" "Allow fl now rnd (b\<lparr>kF := Some k'\<rparr>) = Some (Some ErrNotAllowed, b1)"
  shows "Allow fl now rnd (b\<lparr>kF := Some k\<rparr>) = Some (Some ErrNotAllowed, b\<lparr>kF := Some k, state := StateOpen\<rparr>)"
proof -
  let ?q = "\<lambda>k. fl (k * fl (of_int a))"
  have e: "fl (of_int t) = of_int t" "fl (of_int (t + 1)) = of_int (t + 1)"
    using assms(4,5) by (auto intro!: float64_int [OF assms(1)] simp del: of_int_add)
  have s: "summary now (b\<lparr>kF := x\<rparr>) = Some (a, t)" for x using assms(2) by (simp add: summary_def)
  have "0 \<le> fl (of_int a)" using assms float64_nonneg [OF assms(1)] by simp
  then have q: "?q k \<le> ?q k'" using assms(7) by (intro float64_mono [OF assms(1)] mult_right_mono)
  have "fl (of_int t - ?q k') \<le> fl (of_int t - ?q k)" using q by (intro float64_mono [OF assms(1)]) simp
  then have "fl (of_int t - ?q k') / of_int (t + 1) \<le> fl (of_int t - ?q k) / of_int (t + 1)"
    using assms(4) by (intro divide_right_mono) simp_all
  then have "fl (fl (of_int t - ?q k') / of_int (t + 1)) \<le> fl (fl (of_int t - ?q k) / of_int (t + 1))"
    by (rule float64_mono [OF assms(1)])
  then have "dropRatio fl t (?q k') \<le> dropRatio fl t (?q k)"
    unfolding dropRatio_def e by (intro max.mono) auto
  then show ?thesis
    using assms(8) q e
    by (auto simp: Allow_def s Let_def requestsOf_def lessF_def trueOnProba_def split: if_splits)
qed

theorem breaker_k_monotone_witness:
  "Allow grid_round 103 (1/2) ((demoBreaker 1)\<lparr>kF := Some 1\<rparr>) =
     Some (Some ErrNotAllowed, (demoBreaker 1)\<lparr>kF := Some 1, state := StateOpen\<rparr>)"
proof -
  have "summary 103 (demoBreaker 1) = Some (1, 9)" by code_simp
  moreover have "Allow grid_round 103 (1/2) ((demoBreaker 1)\<lparr>kF := Some 2\<rparr>) =
      Some (Some ErrNotAllowed, (demoBreaker 1)\<lparr>kF := Some 2, state := StateOpen\<rparr>)" by code_simp
  ultimately show ?thesis
    using breaker_k_monotone [OF grid_round_rounding, of 103 "demoBreaker 1" 1 9 1 2 "1 / 2"] by simp
qed

lemma liveMarks_length: "length (liveMarks t0 n d now es) \<le> length es"
proof -
  have "length [v. (t, v) \<leftarrow> ms, P t] \<le> length ms" for ms :: "(int \<times> int) list" and P
    by (induction ms) auto
  moreover have "length (marks es) \<le> length es" by (induction es) (auto simp: marks_def)
  ultimately show ?thesis unfolding liveMarks_def by (rule order_trans)
qed

lemma sum_list_const: "\<forall>v\<in>set vs. v = x \<Longrightarrow> sum_list vs = x * int (length vs)"
  by (induction vs) (simp_all add: algebra_simps)

text \<open>
  C8: End to end. After any run of calls: while every outcome in the window is a success and \<open>k\<close>
  leaves a margin of one request, \<open>Allow\<close> lets the request through and the breaker is closed; once
  at least \<open>request\<close> (and at least one) outcomes of the window are all failures, the breaker is open
  and rejects whenever the random number is below \<open>t / (t + 1)\<close>.
\<close>
theorem breaker_adapts:
  assumes "float64_rounding fl" "opt = applyOpts opts (cbDefaults fl)"
    "0 < bucketN opt" "bucketN opt \<le> window opt" "d = window opt div bucketN opt"
    and "sorted (t0 # map fst es @ [now])" "now < t0 + 2 ^ 63" "int (length es) < 2 ^ 53"
    and "k = fl (1 / success opt)" "success opt \<noteq> 0"
    and "vs = liveMarks t0 (bucketN opt) d now es"
  shows "\<exists>b0 b. NewBreaker fl t0 opts = Some b0 \<and> cbRun fl es b0 = Some b \<and>
    ((\<forall>v\<in>set vs. v = 1) \<and> 0 \<le> request opt \<and> 1 \<le> (k - 1) * of_int (request opt) \<longrightarrow>
       Allow fl now rnd b = Some (None, b\<lparr>state := StateClosed\<rparr>)) \<and>
    ((\<forall>v\<in>set vs. v = 0) \<and> request opt \<le> int (length vs) \<longrightarrow>
       Allow fl now rnd b =
         Some (if rnd < fl (of_nat (length vs) / of_nat (length vs + 1)) then Some ErrNotAllowed else None,
               b\<lparr>state := StateOpen\<rparr>))"
proof -
  let ?t = "int (length vs)"
  obtain b0 b where b: "NewBreaker fl t0 opts = Some b0" "cbRun fl es b0 = Some b"
    "summary now b = Some (sum_list vs, ?t)" "kF b = Some k" "reqMin b = request opt"
    using NewBreaker_run [OF assms(1-7)] assms(8-11) by auto
  have "length vs \<le> length es" by (simp add: assms(11) liveMarks_length)
  then have t: "?t < 2 ^ 53" using assms(8) by linarith
  have e: "fl (of_nat (length vs)) = of_nat (length vs)" "fl (of_int (?t + 1)) = of_nat (length vs + 1)"
    using t float64_int [OF assms(1), of ?t] float64_int [OF assms(1), of "?t + 1"] by simp_all
  note all = sum_list_const [of vs]
  have "Allow fl now rnd b = Some (None, b\<lparr>state := StateClosed\<rparr>)"
    if h: "\<forall>v\<in>set vs. v = 1" "0 \<le> request opt" "1 \<le> (k - 1) * of_int (request opt)"
  proof (cases "?t < request opt")
    case False
    have "1 \<le> k"
    proof (rule ccontr)
      assume "\<not> 1 \<le> k"
      then have "(k - 1) * of_int (request opt) \<le> 0" using h(2) by (intro mult_nonpos_nonneg) auto
      then show False using h(3) by simp
    qed
    moreover have "of_int (request opt) \<le> (of_nat (length vs) :: rat)"
      using False of_int_le_iff [where 'a = rat, of "request opt" ?t] by simp
    ultimately have "(k - 1) * of_int (request opt) \<le> (k - 1) * of_nat (length vs)"
      by (intro mult_left_mono) simp_all
    then have "of_int (?t + 1) \<le> k * of_nat (length vs)" using h(3) by (simp add: algebra_simps)
    from float64_mono [OF assms(1) this]
    have "of_nat (length vs + 1) \<le> fl (k * of_nat (length vs))" unfolding e(2) .
    then show ?thesis using b all [OF h(1)] e(1) by (simp add: Allow_def requestsOf_def lessF_def)
  qed (use b in \<open>simp add: Allow_def\<close>)
  moreover have "Allow fl now rnd b =
      Some (if rnd < fl (of_nat (length vs) / of_nat (length vs + 1)) then Some ErrNotAllowed else None,
            b\<lparr>state := StateOpen\<rparr>)"
    if h: "\<forall>v\<in>set vs. v = 0" "request opt \<le> ?t"
  proof -
    have "dropRatio fl ?t 0 = fl (of_nat (length vs) / of_nat (length vs + 1))"
      using e float64_nonneg [OF assms(1)] by (simp add: dropRatio_def)
    then show ?thesis
      using b all [OF h(1)] h(2) e(1) float64_0 [OF assms(1)]
      by (simp add: Allow_def requestsOf_def lessF_def trueOnProba_def)
  qed
  ultimately show ?thesis using b by blast
qed

theorem breaker_adapts_witness:
  "\<exists>b0 b. NewBreaker grid_round 0 [cbWithSuccess (1/2), cbWithRequest 2] = Some b0 \<and>
     cbRun grid_round [(10, OpFailed), (20, OpFailed), (30, OpFailed)] b0 = Some b \<and>
     Allow grid_round 40 (1/2) b = Some (Some ErrNotAllowed, b\<lparr>state := StateOpen\<rparr>)"
proof -
  have g: "grid_round 2 = 2" "grid_round (3 / 4) = 768 / 1024" by code_simp+
  show ?thesis
    using breaker_adapts [OF grid_round_rounding refl, of "[cbWithSuccess (1/2), cbWithRequest 2]"
      _ 0 "[(10, OpFailed), (20, OpFailed), (30, OpFailed)]" 40 _ _ "1/2", OF _ _ refl _ _ _ refl _ refl] g
    by (simp add: cbDefaults_def cbWithSuccess_def cbWithRequest_def liveMarks_def marks_def)
qed

end
