(* ===== verification/Bbr.thy ===== *)
theory Bbr
  imports RollingWindow
begin

text \<open>
  Package \<open>pkg/shield/ratelimit\<close> (\<open>bbr.go\<close>, \<open>ratelimit.go\<close>): the adaptive limiter. It admits a request
  unless the CPU is busy and more requests are in flight than the best recent throughput times the
  best recent latency.

  One call reads the clock once (\<open>now\<close>, in nanoseconds); the CPU gauge \<open>gCPU\<close>, the number of CPUs and
  the rounding \<open>fl\<close> are arguments, and so is \<open>f2i\<close>, the conversion of a float64 to int64, because its
  value outside the 64-bit range depends on the processor. The atomic values that hold a pointer are
  options, \<open>None\<close> for nil. The \<open>DoneFunc\<close> that \<open>Allow\<close> returns is the operation \<open>doneFunc\<close> with the
  start time it captured.
\<close>

section \<open>Model\<close>

text \<open>One tick of \<open>cpuproc\<close>: the exponential average of the CPU usage, capped at 1000.\<close>

definition getMin :: "int \<Rightarrow> int \<Rightarrow> int" where
  "getMin l r = (if l < r then l else r)"

definition cpuTick :: "(rat \<Rightarrow> rat) \<Rightarrow> int \<Rightarrow> int \<Rightarrow> int" where
  "cpuTick fl usage prevCPU =
     (let decay = fl (95 / 100) in
      truncf (fl (fl (of_int prevCPU * decay) + fl (of_int (getMin usage 1000) * fl (1 - decay)))))"

record counterCache =
  cVal :: int
  cTime :: int

record loptions =
  Window :: int
  Bucket :: int
  CPUThreshold :: int
  CPUQuota :: rat

definition lWithWindow :: "int \<Rightarrow> loptions \<Rightarrow> loptions" where
  "lWithWindow d o1 = o1\<lparr>Window := d\<rparr>"

definition lWithBucket :: "int \<Rightarrow> loptions \<Rightarrow> loptions" where
  "lWithBucket b o1 = o1\<lparr>Bucket := b\<rparr>"

definition lWithCPUThreshold :: "int \<Rightarrow> loptions \<Rightarrow> loptions" where
  "lWithCPUThreshold t o1 = o1\<lparr>CPUThreshold := t\<rparr>"

definition lWithCPUQuota :: "rat \<Rightarrow> loptions \<Rightarrow> loptions" where
  "lWithCPUQuota q o1 = o1\<lparr>CPUQuota := q\<rparr>"

record bbr =
  passStat :: rollingCounter
  rtStat :: rollingCounter
  inFlight :: int
  bucketPerSecond :: int
  bucketDuration :: int
  prevDropTime :: int
  maxPASSCache :: "counterCache option"
  minRtCache :: "counterCache option"
  lopts :: loptions

definition second :: int where
  "second = 10 ^ 9"

definition lDefaults :: loptions where
  "lDefaults = \<lparr>Window = 10 * second, Bucket = 100, CPUThreshold = 800, CPUQuota = 0\<rparr>"

definition NewLimiter :: "int \<Rightarrow> (loptions \<Rightarrow> loptions) list \<Rightarrow> bbr option" where
  "NewLimiter now opts =
     (let opt = applyOpts opts lDefaults in
      if Bucket opt = 0 then None
      else (let dur = quot (Window opt) (Bucket opt) in
            case (NewRollingCounter now (Bucket opt) dur, NewRollingCounter now (Bucket opt) dur) of
              (Some ps, Some rt) \<Rightarrow>
                if dur = 0 then None
                else Some \<lparr>passStat = ps, rtStat = rt, inFlight = 0,
                           bucketPerSecond = quot second dur, bucketDuration = dur,
                           prevDropTime = 0, maxPASSCache = None, minRtCache = None, lopts = opt\<rparr>
            | _ \<Rightarrow> None))"

definition cpu :: "(rat \<Rightarrow> rat) \<Rightarrow> (rat \<Rightarrow> int) \<Rightarrow> int \<Rightarrow> int \<Rightarrow> bbr \<Rightarrow> int" where
  "cpu fl f2i numCPU gCPU l =
     (if CPUQuota (lopts l) \<noteq> 0
      then f2i (fl (fl (fl (of_int gCPU) * fl (of_int numCPU)) / CPUQuota (lopts l)))
      else gCPU)"

definition lTimespan :: "int \<Rightarrow> int \<Rightarrow> bbr \<Rightarrow> int option" where
  "lTimespan now lastTime l =
     (if bucketDuration l = 0 then None
      else (let v = quot (since now lastTime) (bucketDuration l) in
            Some (if v > -1 then v else Bucket (lopts l))))"

text \<open>
  \<open>for i := 1; iterator.Next() && i < l.opts.Bucket; i++\<close>: the buckets the body sees; the first
  argument is the number of values of \<open>i\<close> left.
\<close>

fun loopBuckets :: "nat \<Rightarrow> iter \<Rightarrow> bucket list option" where
  "loopBuckets 0 it = Some []"
| "loopBuckets (Suc m) it =
     (if itNext it then
        (case itBucket it of None \<Rightarrow> None | Some (b, it') \<Rightarrow> map_option (Cons b) (loopBuckets m it'))
      else Some [])"

definition sumPoints :: "(rat \<Rightarrow> rat) \<Rightarrow> rat list \<Rightarrow> rat" where
  "sumPoints fl ps = foldl (\<lambda>c p. fl (c + p)) 0 ps"

definition passReduce :: "(rat \<Rightarrow> rat) \<Rightarrow> int \<Rightarrow> iter \<Rightarrow> rat option" where
  "passReduce fl bucketNum it =
     map_option (foldl (\<lambda>r b. max r (sumPoints fl (Points b))) 1) (loopBuckets (nat (bucketNum - 1)) it)"

definition cached :: "int \<Rightarrow> counterCache option \<Rightarrow> bbr \<Rightarrow> int option option" where
  "cached now c l =
     (case c of
        None \<Rightarrow> Some None
      | Some cc \<Rightarrow> map_option (\<lambda>ts. if ts < 1 then Some (cVal cc) else None) (lTimespan now (cTime cc) l))"

definition maxPASS :: "(rat \<Rightarrow> rat) \<Rightarrow> (rat \<Rightarrow> int) \<Rightarrow> int \<Rightarrow> bbr \<Rightarrow> (int \<times> bbr) option" where
  "maxPASS fl f2i now l =
     (case cached now (maxPASSCache l) l of
        None \<Rightarrow> None
      | Some (Some v) \<Rightarrow> Some (v, l)
      | Some None \<Rightarrow>
          map_option (\<lambda>r. let rawMaxPass = f2i r in
                          (rawMaxPass, l\<lparr>maxPASSCache := Some \<lparr>cVal = rawMaxPass, cTime = now\<rparr>\<rparr>))
            (rcReduce now (passReduce fl (Bucket (lopts l))) 0 (passStat l)))"

text \<open>A bucket with a point has a count of at least one, so that the average is a number.\<close>

definition maxFloat64 :: rat where
  "maxFloat64 = (2 ^ 53 - 1) * 2 ^ 971"

definition rtReduce :: "(rat \<Rightarrow> rat) \<Rightarrow> int \<Rightarrow> iter \<Rightarrow> rat option" where
  "rtReduce fl bucketNum it =
     map_option (foldl (\<lambda>r b. if Points b = [] then r
                              else min r (fl (sumPoints fl (Points b) / fl (of_int (Count b))))) maxFloat64)
       (loopBuckets (nat (bucketNum - 1)) it)"

definition minRT :: "(rat \<Rightarrow> rat) \<Rightarrow> (rat \<Rightarrow> int) \<Rightarrow> int \<Rightarrow> bbr \<Rightarrow> (int \<times> bbr) option" where
  "minRT fl f2i now l =
     (case cached now (minRtCache l) l of
        None \<Rightarrow> None
      | Some (Some v) \<Rightarrow> Some (v, l)
      | Some None \<Rightarrow>
          map_option (\<lambda>r. let raw = f2i (of_int \<lceil>r\<rceil>); rawMinRT = (if raw \<le> 0 then 1 else raw) in
                          (rawMinRT, l\<lparr>minRtCache := Some \<lparr>cVal = rawMinRT, cTime = now\<rparr>\<rparr>))
            (rcReduce now (rtReduce fl (Bucket (lopts l))) 0 (rtStat l)))"

definition flightLimit :: "(rat \<Rightarrow> rat) \<Rightarrow> (rat \<Rightarrow> int) \<Rightarrow> int \<Rightarrow> int \<Rightarrow> int \<Rightarrow> int" where
  "flightLimit fl f2i mp rt bps =
     f2i (fl (of_int \<lfloor>fl (fl (of_int (i64 (i64 (mp * rt) * bps))) / 1000)\<rfloor> + 1 / 2))"

definition maxInFlight :: "(rat \<Rightarrow> rat) \<Rightarrow> (rat \<Rightarrow> int) \<Rightarrow> int \<Rightarrow> bbr \<Rightarrow> (int \<times> bbr) option" where
  "maxInFlight fl f2i now l =
     (case maxPASS fl f2i now l of
        None \<Rightarrow> None
      | Some (mp, l1) \<Rightarrow>
         map_option (\<lambda>(rt, l2). (flightLimit fl f2i mp rt (bucketPerSecond l2), l2)) (minRT fl f2i now l1))"

text \<open>\<open>inFlight > 1 && inFlight > l.maxInFlight()\<close>: the right operand runs only if the left holds.\<close>

definition overLimit :: "(rat \<Rightarrow> rat) \<Rightarrow> (rat \<Rightarrow> int) \<Rightarrow> int \<Rightarrow> bbr \<Rightarrow> (bool \<times> bbr) option" where
  "overLimit fl f2i now l =
     (if inFlight l > 1 then map_option (\<lambda>(m, l'). (inFlight l > m, l')) (maxInFlight fl f2i now l)
      else Some (False, l))"

definition shouldDrop :: "(rat \<Rightarrow> rat) \<Rightarrow> (rat \<Rightarrow> int) \<Rightarrow> int \<Rightarrow> int \<Rightarrow> int \<Rightarrow> bbr \<Rightarrow> (bool \<times> bbr) option" where
  "shouldDrop fl f2i numCPU gCPU now l =
     (if cpu fl f2i numCPU gCPU l < CPUThreshold (lopts l) then
        (if prevDropTime l = 0 then Some (False, l)
         else if now - prevDropTime l \<le> second then overLimit fl f2i now l
         else Some (False, l\<lparr>prevDropTime := 0\<rparr>))
      else
        map_option (\<lambda>(drop, l').
            if drop \<and> prevDropTime l' = 0 then (drop, l'\<lparr>prevDropTime := now\<rparr>) else (drop, l'))
          (overLimit fl f2i now l))"

record Stat =
  sCPU :: int
  sInFlight :: int
  sMaxInFlight :: int
  sMinRt :: int
  sMaxPass :: int

definition StatOf :: "(rat \<Rightarrow> rat) \<Rightarrow> (rat \<Rightarrow> int) \<Rightarrow> int \<Rightarrow> int \<Rightarrow> int \<Rightarrow> bbr \<Rightarrow> (Stat \<times> bbr) option" where
  "StatOf fl f2i numCPU gCPU now l =
     Option.bind (minRT fl f2i now l) (\<lambda>(rt, l1).
     Option.bind (maxPASS fl f2i now l1) (\<lambda>(mp, l2).
     map_option (\<lambda>(m, l3). (\<lparr>sCPU = cpu fl f2i numCPU gCPU l, sInFlight = inFlight l3, sMaxInFlight = m,
                            sMinRt = rt, sMaxPass = mp\<rparr>, l3)) (maxInFlight fl f2i now l2)))"

datatype limError = ErrLimitExceed

text \<open>\<open>Inr start\<close>: the request is admitted and its \<open>DoneFunc\<close> holds \<open>start\<close>.\<close>

definition lAllow :: "(rat \<Rightarrow> rat) \<Rightarrow> (rat \<Rightarrow> int) \<Rightarrow> int \<Rightarrow> int \<Rightarrow> int \<Rightarrow> bbr \<Rightarrow> ((limError + int) \<times> bbr) option" where
  "lAllow fl f2i numCPU gCPU now l =
     map_option (\<lambda>(drop, l'). if drop then (Inl ErrLimitExceed, l')
                              else (Inr now, l'\<lparr>inFlight := inFlight l' + 1\<rparr>))
       (shouldDrop fl f2i numCPU gCPU now l)"

definition doneFunc :: "(rat \<Rightarrow> rat) \<Rightarrow> int \<Rightarrow> int \<Rightarrow> bbr \<Rightarrow> bbr option" where
  "doneFunc fl now start l =
     (let rt0 = quot (since now start) (10 ^ 6); rt = (if rt0 \<le> 0 then 1 else rt0) in
      case rcAdd fl now rt (rtStat l) of
        None \<Rightarrow> None
      | Some rs \<Rightarrow>
         (let l1 = l\<lparr>rtStat := rs, inFlight := inFlight l - 1\<rparr> in
          map_option (\<lambda>ps. l1\<lparr>passStat := ps\<rparr>) (rcAdd fl now 1 (passStat l1))))"

section \<open>The reductions over the log\<close>

lemma loopBuckets_drainN: "drainN n it = Some bs \<Longrightarrow> loopBuckets m it = Some (take m bs)"
proof (induction n arbitrary: it bs m)
  case (Suc n)
  then show ?case by (cases m) (auto split: if_splits option.splits)
next
  case 0
  then show ?case by (cases m) (auto split: if_splits)
qed

lemma loopBuckets_take: "drain it = Some bs \<Longrightarrow> loopBuckets m it = Some (take m bs)"
  by (simp add: drain_def loopBuckets_drainN)

text \<open>The buckets a reduction sees without the current one, by number.\<close>

lemma take_windowKeys:
  "K \<le> N \<Longrightarrow> take (nat (n - 1)) (windowKeys n N K) = [N - n + 1..min K (N - 1)]"
proof -
  assume "K \<le> N"
  then consider "K < N" | "K = N" "n \<le> 0" | "K = N" "0 < n" by linarith
  then show ?thesis
  proof cases
    case 3
    then have "[N - n + 1..N] = [N - n + 1..N - 1] @ [N]" by (intro upto_rec2) simp
    then show ?thesis using 3 by (simp add: windowKeys_upto)
  qed (auto simp: windowKeys_upto)
qed

lemma passReduce_rep:
  assumes R: "rcRep fl t0 n d K c lg" and t: "t0 + K * d \<le> now" "now < t0 + 2 ^ 63"
  shows "rcReduce now (passReduce fl n) 0 c =
    Some (let N = (now - t0) div d in
          if N - K < n then foldl (\<lambda>r k. max r (sumPoints fl (pointOf fl (valsAt k lg)))) 1 [N - n + 1..min K (N - 1)]
          else 0)"
proof -
  let ?N = "(now - t0) div d"
  let ?g = "\<lambda>cs :: (rat list \<times> int) list. foldl (\<lambda>r c. max r (sumPoints fl (fst c))) 1 (take (nat (n - 1)) cs)"
  have KN: "K \<le> ?N" using timespan_rep(2) R t by (simp add: rcRep_def)
  have n: "rSize (rcPolicy c) = n" using R by (simp add: rcRep_def rep_def)
  have ts: "timespan now (rcPolicy c) = Some (?N - K)" using timespan_rep(1) R t by (simp add: rcRep_def)
  show ?thesis
  proof (cases "?N - K < n")
    case False
    then show ?thesis using n ts by (simp add: rcReduce_def pReduce_def)
  next
    case True
    have "rcReduce now (passReduce fl n) 0 c = rcReduce now (passReduce fl n) (?g []) c"
      using True n ts by (simp add: rcReduce_def pReduce_def)
    also have "\<dots> = map_option ?g (rcLook now c)"
      by (rule rcReduce_look [OF R t])
        (simp_all add: passReduce_def loopBuckets_take cell_def foldl_map take_map)
    finally show ?thesis
      using rc.look_R [OF R t] True KN
      by (simp add: Let_def take_map take_windowKeys foldl_map cellOf_def)
  qed
qed

lemma rtReduce_total:
  assumes R: "rcRep fl t0 n d K c lg" and t: "t0 + K * d \<le> now" "now < t0 + 2 ^ 63"
  shows "\<exists>r. rcReduce now (rtReduce fl n) 0 c = Some r"
proof -
  let ?g = "\<lambda>cs :: (rat list \<times> int) list. foldl (\<lambda>r c. if fst c = [] then r
     else min r (fl (sumPoints fl (fst c) / fl (of_int (snd c))))) maxFloat64 (take (nat (n - 1)) cs)"
  have ts: "timespan now (rcPolicy c) = Some ((now - t0) div d - K)"
    using timespan_rep(1) R t by (simp add: rcRep_def)
  show ?thesis
  proof (cases "rSize (rcPolicy c) - ((now - t0) div d - K) > 0")
    case True
    then have "rcReduce now (rtReduce fl n) 0 c = rcReduce now (rtReduce fl n) (?g []) c"
      using ts by (simp add: rcReduce_def pReduce_def)
    also have "\<dots> = map_option ?g (rcLook now c)"
      by (rule rcReduce_look [OF R t])
        (simp_all add: rtReduce_def loopBuckets_take cell_def foldl_map take_map cong: if_cong)
    finally show ?thesis using rc.look_R [OF R t] by simp
  qed (use ts in \<open>simp add: rcReduce_def pReduce_def\<close>)
qed

section \<open>The invariant of a limiter in use\<close>

text \<open>
  The limiter with the start times of its outstanding requests and the time of the last call. Both
  counters represent the log of the requests that were completed.
\<close>

definition bbrInv :: "(rat \<Rightarrow> rat) \<Rightarrow> int \<Rightarrow> int \<Rightarrow> loptions \<Rightarrow> bbr \<Rightarrow> int list \<Rightarrow> int \<Rightarrow> bool" where
  "bbrInv fl t0 d opt l outs t \<longleftrightarrow>
     0 < bucketDuration l \<and> bucketDuration l = d \<and> lopts l = opt \<and> inFlight l = int (length outs) \<and>
     bucketPerSecond l = quot second (bucketDuration l) \<and>
     (\<exists>K lg. rcRep fl t0 (Bucket (lopts l)) (bucketDuration l) K (passStat l) lg \<and> t0 + K * bucketDuration l \<le> t) \<and>
     (\<exists>K lg. rcRep fl t0 (Bucket (lopts l)) (bucketDuration l) K (rtStat l) lg \<and> t0 + K * bucketDuration l \<le> t)"

text \<open>Only the caches and the drop time change in a query of the limits.\<close>

definition sameCore :: "bbr \<Rightarrow> bbr \<Rightarrow> bool" where
  "sameCore l l' \<longleftrightarrow> passStat l' = passStat l \<and> rtStat l' = rtStat l \<and> inFlight l' = inFlight l \<and>
     bucketPerSecond l' = bucketPerSecond l \<and> bucketDuration l' = bucketDuration l \<and> lopts l' = lopts l"

lemma sameCore_refl [simp]: "sameCore l l"
  by (simp add: sameCore_def)

lemma sameCore_trans: "sameCore l l' \<Longrightarrow> sameCore l' l'' \<Longrightarrow> sameCore l l''"
  by (simp add: sameCore_def)

lemma sameCore_inv: "sameCore l l' \<Longrightarrow> bbrInv fl t0 d opt l outs t \<Longrightarrow> t \<le> t' \<Longrightarrow> bbrInv fl t0 d opt l' outs t'"
  unfolding bbrInv_def sameCore_def by (metis order_trans)

lemma cached_total: "0 < bucketDuration l \<Longrightarrow> \<exists>v. cached now c l = Some v"
  by (auto simp: cached_def lTimespan_def Let_def split: option.split)

lemma maxPASS_frame: "maxPASS fl f2i now l = Some (v, l') \<Longrightarrow> sameCore l l' \<and> prevDropTime l' = prevDropTime l"
  unfolding maxPASS_def
  by (cases "cached now (maxPASSCache l) l"; simp add: sameCore_def Let_def split: option.splits) auto

lemma minRT_frame: "minRT fl f2i now l = Some (v, l') \<Longrightarrow> sameCore l l' \<and> prevDropTime l' = prevDropTime l"
  unfolding minRT_def
  by (cases "cached now (minRtCache l) l"; simp add: sameCore_def Let_def split: option.splits) auto

lemma maxInFlight_frame:
  assumes "maxInFlight fl f2i now l = Some (v, l')"
  shows "sameCore l l' \<and> prevDropTime l' = prevDropTime l \<and>
    (\<exists>mp rt. v = flightLimit fl f2i mp rt (bucketPerSecond l))"
proof -
  obtain mp l1 rt where 1: "maxPASS fl f2i now l = Some (mp, l1)" "minRT fl f2i now l1 = Some (rt, l')"
    "v = flightLimit fl f2i mp rt (bucketPerSecond l')"
    using assms by (auto simp: maxInFlight_def split: option.splits)
  have a: "sameCore l l1" "prevDropTime l1 = prevDropTime l" using maxPASS_frame [OF 1(1)] by auto
  have b: "sameCore l1 l'" "prevDropTime l' = prevDropTime l1" using minRT_frame [OF 1(2)] by auto
  have "sameCore l l'" by (rule sameCore_trans [OF a(1) b(1)])
  then show ?thesis using a b 1(3) by (auto simp: sameCore_def)
qed

lemma overLimit_frame:
  "overLimit fl f2i now l = Some (v, l') \<Longrightarrow> sameCore l l' \<and> prevDropTime l' = prevDropTime l"
  using maxInFlight_frame by (auto simp: overLimit_def split: if_splits)

lemma maxPASS_total:
  assumes "bbrInv fl t0 d opt l outs t" "t \<le> now" "now < t0 + 2 ^ 63"
  shows "\<exists>v l'. maxPASS fl f2i now l = Some (v, l') \<and> sameCore l l' \<and> prevDropTime l' = prevDropTime l"
proof -
  let ?d = "bucketDuration l"
  obtain K lg where R: "rcRep fl t0 (Bucket (lopts l)) ?d K (passStat l) lg" "t0 + K * ?d \<le> now"
    using assms(1,2) unfolding bbrInv_def by (meson order_trans)
  obtain v where v: "cached now (maxPASSCache l) l = Some v"
    using assms(1) cached_total unfolding bbrInv_def by blast
  show ?thesis using passReduce_rep [OF R assms(3)] v
    by (cases v) (simp_all add: maxPASS_def Let_def sameCore_def)
qed

lemma minRT_total:
  assumes "bbrInv fl t0 d opt l outs t" "t \<le> now" "now < t0 + 2 ^ 63"
  shows "\<exists>v l'. minRT fl f2i now l = Some (v, l') \<and> sameCore l l' \<and> prevDropTime l' = prevDropTime l"
proof -
  let ?d = "bucketDuration l"
  obtain K lg where R: "rcRep fl t0 (Bucket (lopts l)) ?d K (rtStat l) lg" "t0 + K * ?d \<le> now"
    using assms(1,2) unfolding bbrInv_def by (meson order_trans)
  obtain v where v: "cached now (minRtCache l) l = Some v"
    using assms(1) cached_total unfolding bbrInv_def by blast
  obtain r where "rcReduce now (rtReduce fl (Bucket (lopts l))) 0 (rtStat l) = Some r"
    using rtReduce_total [OF R assms(3)] by blast
  then show ?thesis using v by (cases v) (simp_all add: minRT_def Let_def sameCore_def)
qed

lemma maxInFlight_total:
  assumes "bbrInv fl t0 d opt l outs t" "t \<le> now" "now < t0 + 2 ^ 63"
  shows "\<exists>v l'. maxInFlight fl f2i now l = Some (v, l') \<and> sameCore l l' \<and> prevDropTime l' = prevDropTime l"
proof -
  obtain v1 l1 where 1: "maxPASS fl f2i now l = Some (v1, l1)" "sameCore l l1" "prevDropTime l1 = prevDropTime l"
    using maxPASS_total [OF assms] by blast
  have "bbrInv fl t0 d opt l1 outs now" using sameCore_inv [OF 1(2) assms(1,2)] .
  then obtain v2 l2 where 2: "minRT fl f2i now l1 = Some (v2, l2)" "sameCore l1 l2" "prevDropTime l2 = prevDropTime l1"
    using minRT_total assms(3) by blast
  show ?thesis using 1 2 sameCore_trans [OF 1(2) 2(2)] by (simp add: maxInFlight_def)
qed

lemma overLimit_total:
  assumes "bbrInv fl t0 d opt l outs t" "t \<le> now" "now < t0 + 2 ^ 63"
  shows "\<exists>v l'. overLimit fl f2i now l = Some (v, l') \<and> sameCore l l' \<and> prevDropTime l' = prevDropTime l"
  using maxInFlight_total [OF assms, of f2i] by (auto simp: overLimit_def)

lemma shouldDrop_total:
  assumes "bbrInv fl t0 d opt l outs t" "t \<le> now" "now < t0 + 2 ^ 63"
  shows "\<exists>v l'. shouldDrop fl f2i numCPU gCPU now l = Some (v, l') \<and> sameCore l l'"
proof -
  obtain v l' where o: "overLimit fl f2i now l = Some (v, l')" "sameCore l l'" "prevDropTime l' = prevDropTime l"
    using overLimit_total [OF assms, of f2i] by blast
  then show ?thesis
    by (cases "cpu fl f2i numCPU gCPU l < CPUThreshold (lopts l)"; cases "v \<and> prevDropTime l = 0")
      (auto simp: shouldDrop_def sameCore_def)
qed

lemma lAllow_total:
  assumes "bbrInv fl t0 d opt l outs t" "t \<le> now" "now < t0 + 2 ^ 63"
  shows "(\<exists>l'. lAllow fl f2i numCPU gCPU now l = Some (Inl ErrLimitExceed, l') \<and> bbrInv fl t0 d opt l' outs now) \<or>
    (\<exists>l'. lAllow fl f2i numCPU gCPU now l = Some (Inr now, l') \<and> bbrInv fl t0 d opt l' (now # outs) now)"
proof -
  obtain v l' where *: "shouldDrop fl f2i numCPU gCPU now l = Some (v, l')" "sameCore l l'"
    using shouldDrop_total [OF assms] by blast
  have "bbrInv fl t0 d opt l' outs now" using sameCore_inv [OF *(2) assms(1,2)] .
  then show ?thesis using *(1) by (cases v) (auto simp: lAllow_def bbrInv_def)
qed

lemma StatOf_total:
  assumes "bbrInv fl t0 d opt l outs t" "t \<le> now" "now < t0 + 2 ^ 63"
  shows "\<exists>s l'. StatOf fl f2i numCPU gCPU now l = Some (s, l') \<and> bbrInv fl t0 d opt l' outs now \<and>
    sInFlight s = int (length outs)"
proof -
  obtain v1 l1 where 1: "minRT fl f2i now l = Some (v1, l1)" "sameCore l l1" using minRT_total [OF assms] by blast
  have i1: "bbrInv fl t0 d opt l1 outs now" using sameCore_inv [OF 1(2) assms(1,2)] .
  obtain v2 l2 where 2: "maxPASS fl f2i now l1 = Some (v2, l2)" "sameCore l1 l2"
    using maxPASS_total [OF i1 order_refl assms(3)] by blast
  have i2: "bbrInv fl t0 d opt l2 outs now" using sameCore_inv [OF 2(2) i1 order_refl] .
  obtain v3 l3 where 3: "maxInFlight fl f2i now l2 = Some (v3, l3)" "sameCore l2 l3"
    using maxInFlight_total [OF i2 order_refl assms(3)] by blast
  have i3: "bbrInv fl t0 d opt l3 outs now" using sameCore_inv [OF 3(2) i2 order_refl] .
  then have "inFlight l3 = int (length outs)" by (simp add: bbrInv_def)
  then show ?thesis using 1 2 3 i3 by (simp add: StatOf_def)
qed

lemma add_rep_now:
  assumes "rcRep fl t0 n d K c lg" "t0 + K * d \<le> now" "now < t0 + 2 ^ 63" "0 \<le> v"
  shows "\<exists>c' K' lg'. rcAdd fl now v c = Some c' \<and> rcRep fl t0 n d K' c' lg' \<and> t0 + K' * d \<le> now"
proof -
  have "t0 + (now - t0) div d * d \<le> now"
    using div_mult_le [OF rc.R_pos [OF assms(1)], of "now - t0"] by simp
  then show ?thesis using rc.add_R [OF assms] by blast
qed

lemma doneFunc_total:
  assumes "bbrInv fl t0 d opt l outs t" "t \<le> now" "now < t0 + 2 ^ 63" "start \<in> set outs"
  shows "\<exists>l'. doneFunc fl now start l = Some l' \<and> bbrInv fl t0 d opt l' (remove1 start outs) now"
proof -
  let ?n = "Bucket (lopts l)" and ?d = "bucketDuration l"
  obtain K1 lg1 K2 lg2 where R: "rcRep fl t0 ?n ?d K1 (passStat l) lg1" "t0 + K1 * ?d \<le> now"
    "rcRep fl t0 ?n ?d K2 (rtStat l) lg2" "t0 + K2 * ?d \<le> now"
    using assms(1,2) unfolding bbrInv_def by (meson order_trans)
  define rt where "rt = (let rt0 = quot (since now start) (10 ^ 6) in if rt0 \<le> 0 then 1 else rt0)"
  have "0 \<le> rt" by (auto simp: rt_def Let_def)
  then obtain rs K2' lg2' where rs: "rcAdd fl now rt (rtStat l) = Some rs"
    "rcRep fl t0 ?n ?d K2' rs lg2'" "t0 + K2' * ?d \<le> now"
    using add_rep_now [OF R(3,4) assms(3)] by blast
  obtain ps K1' lg1' where ps: "rcAdd fl now 1 (passStat l) = Some ps"
    "rcRep fl t0 ?n ?d K1' ps lg1'" "t0 + K1' * ?d \<le> now"
    using add_rep_now [OF R(1,2) assms(3), of 1] by auto
  have "doneFunc fl now start l = Some (l\<lparr>rtStat := rs, inFlight := inFlight l - 1, passStat := ps\<rparr>)"
    using rs ps by (cases "quot (since now start) (10 ^ 6) \<le> 0") (simp_all add: doneFunc_def rt_def Let_def)
  moreover have "length outs \<ge> 1" using assms(4) by (cases outs) auto
  ultimately show ?thesis using rs ps assms(1,4)
    by (auto simp: bbrInv_def length_remove1 of_nat_diff)
qed

section \<open>Runs of a limiter\<close>

text \<open>
  The calls of the clients: a request that is admitted joins the outstanding ones, and its
  \<open>DoneFunc\<close> is called once. The CPU gauge may have any value at any call.
\<close>

inductive bstep :: "(rat \<Rightarrow> rat) \<Rightarrow> (rat \<Rightarrow> int) \<Rightarrow> int \<Rightarrow> int \<Rightarrow> bbr \<times> int list \<times> int \<Rightarrow> bbr \<times> int list \<times> int \<Rightarrow> bool"
  for fl f2i numCPU t0 where
  admit: "t \<le> now \<Longrightarrow> now < t0 + 2 ^ 63 \<Longrightarrow> lAllow fl f2i numCPU gCPU now l = Some (Inr start, l') \<Longrightarrow>
    bstep fl f2i numCPU t0 (l, outs, t) (l', start # outs, now)"
| reject: "t \<le> now \<Longrightarrow> now < t0 + 2 ^ 63 \<Longrightarrow> lAllow fl f2i numCPU gCPU now l = Some (Inl e, l') \<Longrightarrow>
    bstep fl f2i numCPU t0 (l, outs, t) (l', outs, now)"
| finish: "t \<le> now \<Longrightarrow> now < t0 + 2 ^ 63 \<Longrightarrow> start \<in> set outs \<Longrightarrow> doneFunc fl now start l = Some l' \<Longrightarrow>
    bstep fl f2i numCPU t0 (l, outs, t) (l', remove1 start outs, now)"
| stats: "t \<le> now \<Longrightarrow> now < t0 + 2 ^ 63 \<Longrightarrow> StatOf fl f2i numCPU gCPU now l = Some (s, l') \<Longrightarrow>
    bstep fl f2i numCPU t0 (l, outs, t) (l', outs, now)"

inductive_cases bstepE: "bstep fl f2i numCPU t0 (l, outs, t) (l', outs', t')"

lemma bstep_inv:
  assumes "bstep fl f2i numCPU t0 (l, outs, t) (l', outs', t')" "bbrInv fl t0 d opt l outs t"
  shows "bbrInv fl t0 d opt l' outs' t'"
proof (rule bstepE [OF assms(1)])
  fix gCPU start
  assume "outs' = start # outs" "t \<le> t'" "t' < t0 + 9223372036854775808" "lAllow fl f2i numCPU gCPU t' l = Some (Inr start, l')"
  then show ?thesis using lAllow_total [OF assms(2), of t' f2i numCPU gCPU] by auto
next
  fix gCPU e
  assume "outs' = outs" "t \<le> t'" "t' < t0 + 9223372036854775808" "lAllow fl f2i numCPU gCPU t' l = Some (Inl e, l')"
  then show ?thesis using lAllow_total [OF assms(2), of t' f2i numCPU gCPU] by auto
next
  fix start
  assume "outs' = remove1 start outs" "t \<le> t'" "t' < t0 + 9223372036854775808" "start \<in> set outs" "doneFunc fl t' start l = Some l'"
  then show ?thesis using doneFunc_total [OF assms(2), of t' start] by auto
next
  fix gCPU s
  assume "outs' = outs" "t \<le> t'" "t' < t0 + 9223372036854775808" "StatOf fl f2i numCPU gCPU t' l = Some (s, l')"
  then show ?thesis using StatOf_total [OF assms(2), of t' f2i numCPU gCPU] by auto
qed

lemma NewLimiter_inv:
  assumes "opt = applyOpts opts lDefaults" "0 < Bucket opt" "Bucket opt \<le> Window opt"
  shows "\<exists>l. NewLimiter t0 opts = Some l \<and> bbrInv fl t0 (Window opt div Bucket opt) opt l [] t0"
proof -
  let ?d = "Window opt div Bucket opt"
  have d: "0 < ?d" using assms(2,3) by (simp add: pos_imp_zdiv_pos_iff)
  obtain c where c: "NewRollingCounter t0 (Bucket opt) ?d = Some c" "rcRep fl t0 (Bucket opt) ?d 0 c []"
    using rc.create_R [OF assms(2) d] by blast
  have q: "quot (Window opt) (Bucket opt) = ?d" using assms(2,3) by (simp add: quot_nonneg)
  show ?thesis
    unfolding NewLimiter_def Let_def assms(1) [symmetric] q using c d assms(2) by (auto simp: bbrInv_def)
qed

lemma run_inv:
  assumes "(bstep fl f2i numCPU t0)\<^sup>*\<^sup>* (l0, [], t0) (l, outs, t)"
    and "bbrInv fl t0 d opt l0 [] t0"
  shows "bbrInv fl t0 d opt l outs t"
proof -
  have "(bstep fl f2i numCPU t0)\<^sup>*\<^sup>* x y \<Longrightarrow> x = (l0, [], t0) \<Longrightarrow>
    bbrInv fl t0 d opt (fst y) (fst (snd y)) (snd (snd y))" for x y
  proof (induction rule: rtranclp_induct)
    case (step y z)
    then show ?case using bstep_inv by (cases y; cases z) auto
  qed (use assms(2) in simp)
  from this [OF assms(1) refl] show ?thesis by simp
qed

section \<open>Properties\<close>

text \<open>
  C9: A limiter with at least one bucket and a window at least as long as its number of buckets can
  be used forever: after any interleaving of admissions, completions and statistics in time order,
  \<open>inFlight\<close> is the number of admitted requests whose \<open>DoneFunc\<close> was not called yet, and the next
  admission check, completion or statistics query does not panic.
\<close>
theorem bbr_run_safe:
  assumes "opt = applyOpts opts lDefaults" "0 < Bucket opt" "Bucket opt \<le> Window opt"
    and "NewLimiter t0 opts = Some l0" "(bstep fl f2i numCPU t0)\<^sup>*\<^sup>* (l0, [], t0) (l, outs, t)"
    and "t \<le> now" "now < t0 + 2 ^ 63"
  shows "inFlight l = int (length outs) \<and> lAllow fl f2i numCPU gCPU now l \<noteq> None \<and>
    (\<forall>start\<in>set outs. doneFunc fl now start l \<noteq> None) \<and>
    (\<exists>s l'. StatOf fl f2i numCPU gCPU now l = Some (s, l') \<and> sInFlight s = int (length outs))"
proof -
  let ?d = "Window opt div Bucket opt"
  have "bbrInv fl t0 ?d opt l0 [] t0" using NewLimiter_inv [OF assms(1-3), of t0 fl] assms(4) by auto
  then have I: "bbrInv fl t0 ?d opt l outs t" by (rule run_inv [OF assms(5)])
  have "doneFunc fl now start l \<noteq> None" if "start \<in> set outs" for start
    using doneFunc_total [OF I assms(6,7) that] by auto
  moreover have "lAllow fl f2i numCPU gCPU now l \<noteq> None" using lAllow_total [OF I assms(6,7)] by force
  moreover have "inFlight l = int (length outs)" using I by (simp add: bbrInv_def)
  ultimately show ?thesis using StatOf_total [OF I assms(6,7)] by blast
qed

definition demoLimiter :: "int \<Rightarrow> bbr" where
  "demoLimiter d = (let w = \<lparr>wBuckets = [\<lparr>Points = [], Count = 0, nextOff = 1\<rparr>, \<lparr>Points = [], Count = 0, nextOff = 0\<rparr>],
       wSize = 2\<rparr>; c = \<lparr>rcPolicy = \<lparr>rSize = 2, rWindow = w, rOffset = 0, rDur = d, rLast = 0\<rparr>\<rparr> in
     \<lparr>passStat = c, rtStat = c, inFlight = 0, bucketPerSecond = quot second d, bucketDuration = d, prevDropTime = 0,
      maxPASSCache = None, minRtCache = None,
      lopts = \<lparr>Window = 2 * d, Bucket = 2, CPUThreshold = 800, CPUQuota = 0\<rparr>\<rparr>)"

lemma demo_created: "NewLimiter 0 [lWithBucket 2, lWithWindow 20] = Some (demoLimiter 10)"
  by code_simp

lemma demo_admit: "bstep grid_round truncf 1 0 (demoLimiter d, [], 0) ((demoLimiter d)\<lparr>inFlight := 1\<rparr>, [5], 5)"
  by (rule bstep.admit [where gCPU = 0]) (simp_all add: lAllow_def shouldDrop_def cpu_def demoLimiter_def Let_def)

theorem bbr_run_safe_witness:
  "doneFunc grid_round 7 5 ((demoLimiter 10)\<lparr>inFlight := 1\<rparr>) \<noteq> None"
  using bbr_run_safe [OF refl _ _ demo_created r_into_rtranclp [of "bstep grid_round truncf 1 0", OF demo_admit], of 7]
  by (simp add: lDefaults_def lWithBucket_def lWithWindow_def)

text \<open>
  C10: A request is dropped only when the system is overloaded: at least two requests are in flight,
  more than the limit computed now, and the CPU is at or above its threshold or a drop period began
  at most one second ago. A drop leaves the limiter inside a drop period.
\<close>
theorem bbr_drop_only_overloaded:
  assumes "shouldDrop fl f2i numCPU gCPU now l = Some (True, l')"
  shows "1 < inFlight l \<and> (case maxInFlight fl f2i now l of None \<Rightarrow> False | Some (m, _) \<Rightarrow> m < inFlight l) \<and>
    (CPUThreshold (lopts l) \<le> cpu fl f2i numCPU gCPU l \<or>
     prevDropTime l \<noteq> 0 \<and> now - prevDropTime l \<le> second) \<and>
    (now \<noteq> 0 \<longrightarrow> prevDropTime l' \<noteq> 0)"
proof -
  have keep: "prevDropTime l1 = prevDropTime l" if "overLimit fl f2i now l = Some (v, l1)" for v l1
    using overLimit_frame [OF that] by simp
  have over: "1 < inFlight l \<and> (case maxInFlight fl f2i now l of None \<Rightarrow> False | Some (m, _) \<Rightarrow> m < inFlight l)"
    if "overLimit fl f2i now l = Some (True, l1)" for l1
    using that by (auto simp: overLimit_def split: if_splits)
  show ?thesis
  proof (cases "cpu fl f2i numCPU gCPU l < CPUThreshold (lopts l)")
    case True
    then have "overLimit fl f2i now l = Some (True, l')" "prevDropTime l \<noteq> 0" "now - prevDropTime l \<le> second"
      using assms by (auto simp: shouldDrop_def split: if_splits)
    then show ?thesis using over keep by simp
  next
    case False
    then obtain v l1 where o: "overLimit fl f2i now l = Some (v, l1)"
      "(if v \<and> prevDropTime l1 = 0 then (v, l1\<lparr>prevDropTime := now\<rparr>) else (v, l1)) = (True, l')"
      using assms by (auto simp: shouldDrop_def)
    then have "v" "now \<noteq> 0 \<longrightarrow> prevDropTime l' \<noteq> 0" by (auto split: if_splits)
    then show ?thesis using over [of l1] o(1) False by auto
  qed
qed

definition busyLimiter :: bbr where
  "busyLimiter = (demoLimiter second)\<lparr>inFlight := 3, maxPASSCache := Some \<lparr>cVal = 2, cTime = 40\<rparr>,
     minRtCache := Some \<lparr>cVal = 500, cTime = 40\<rparr>\<rparr>"

theorem bbr_drop_only_overloaded_witness:
  "case shouldDrop grid_round truncf 1 900 50 busyLimiter of
     Some (v, l') \<Rightarrow> v \<and> prevDropTime l' \<noteq> 0 | None \<Rightarrow> False"
proof -
  have "map_option fst (shouldDrop grid_round truncf 1 900 50 busyLimiter) = Some True"
    by (simp add: shouldDrop_def cpu_def busyLimiter_def demoLimiter_def overLimit_def maxInFlight_def maxPASS_def
      minRT_def cached_def lTimespan_def since_def quot_def second_def flightLimit_def grid_round_def i64_def
      truncf_def Let_def)
  then obtain l' where l': "shouldDrop grid_round truncf 1 900 50 busyLimiter = Some (True, l')" by auto
  show ?thesis using bbr_drop_only_overloaded [OF l'] l' by simp
qed

text \<open>
  Buckets longer than a second switch the limiter into refusing everything under load:
  \<open>bucketPerSecond = time.Second / bucketDuration\<close> is an integer quotient and becomes 0, the limit with
  it, and whatever throughput was measured, a busy CPU rejects every request while two are in
  flight.
\<close>
theorem bbr_slow_buckets_reject:
  assumes "float64_rounding fl" "\<forall>x. 0 \<le> x \<and> x \<le> 1 \<longrightarrow> f2i x = truncf x"
    and "opt = applyOpts opts lDefaults" "0 < Bucket opt" "second < Window opt div Bucket opt"
    and "NewLimiter t0 opts = Some l0" "(bstep fl f2i numCPU t0)\<^sup>*\<^sup>* (l0, [], t0) (l, outs, t)"
    and "t \<le> now" "now < t0 + 2 ^ 63"
    and "2 \<le> length outs" "CPUThreshold opt \<le> cpu fl f2i numCPU gCPU l"
  shows "map_option fst (lAllow fl f2i numCPU gCPU now l) = Some (Inl ErrLimitExceed)"
proof -
  let ?d = "Window opt div Bucket opt"
  have s: "0 < second" by (simp add: second_def)
  have w: "Bucket opt \<le> Window opt" using assms(4,5) s by (metis dual_order.trans less_le_not_le
      linorder_not_less pos_imp_zdiv_pos_iff)
  have "bbrInv fl t0 ?d opt l0 [] t0" using NewLimiter_inv [OF assms(3,4) w, of t0 fl] assms(6) by auto
  then have I: "bbrInv fl t0 ?d opt l outs t" by (rule run_inv [OF assms(7)])
  then have c: "inFlight l = int (length outs)" "lopts l = opt" "bucketPerSecond l = quot second ?d"
    by (auto simp: bbrInv_def)
  have bps: "bucketPerSecond l = 0" using c(3) assms(5) s by (simp add: quot_nonneg)
  have lim: "flightLimit fl f2i mp rt 0 \<le> 1" for mp rt
  proof -
    have h: "0 \<le> fl (1 / 2)" "fl (1 / 2) \<le> 1"
      using float64_nonneg [OF assms(1)] float64_le_1 [OF assms(1)] by simp_all
    have "truncf (fl (1 / 2)) \<le> truncf 1" using h by (rule truncf_mono_nonneg)
    moreover have "truncf 1 = 1" using truncf_of_int [of 1] by simp
    ultimately have "f2i (fl (1 / 2)) \<le> 1" using h assms(2) by simp
    then show ?thesis using assms(1) by (simp add: flightLimit_def i64_def)
  qed
  obtain v l1 where v: "maxInFlight fl f2i now l = Some (v, l1)" "sameCore l l1"
    using maxInFlight_total [OF I assms(8,9)] by blast
  then have "v \<le> 1" using lim bps maxInFlight_frame [OF v(1)] by auto
  then have "overLimit fl f2i now l = Some (True, l1)" using v(1) c(1) assms(10) by (simp add: overLimit_def)
  then show ?thesis using assms(11) c(2) by (simp add: lAllow_def shouldDrop_def)
qed

lemma slow_admit: "bstep grid_round truncf 1 0 ((demoLimiter d)\<lparr>inFlight := 1\<rparr>, [5], 5)
    ((demoLimiter d)\<lparr>inFlight := 2\<rparr>, [6, 5], 6)"
  by (rule bstep.admit [where gCPU = 0]) (simp_all add: lAllow_def shouldDrop_def cpu_def demoLimiter_def Let_def)

lemma slow_created: "NewLimiter 0 [lWithBucket 2, lWithWindow (4 * second)] = Some (demoLimiter (2 * second))"
  by (simp add: NewLimiter_def lDefaults_def lWithBucket_def lWithWindow_def NewRollingCounter_def NewWindow_def
    NewRollingPolicy_def demoLimiter_def second_def quot_def Let_def upt_conv_Cons numeral_2_eq_2)

lemma slow_run: "(bstep grid_round truncf 1 0)\<^sup>*\<^sup>* (demoLimiter d, [], 0) ((demoLimiter d)\<lparr>inFlight := 2\<rparr>, [6, 5], 6)"
  using r_into_rtranclp [of "bstep grid_round truncf 1 0", OF demo_admit]
    rtranclp.rtrancl_into_rtrancl [of "bstep grid_round truncf 1 0", OF _ slow_admit] by blast

theorem bbr_slow_buckets_reject_witness:
  "map_option fst (lAllow grid_round truncf 1 900 7 ((demoLimiter (2 * second))\<lparr>inFlight := 2\<rparr>)) =
     Some (Inl ErrLimitExceed)"
  using bbr_slow_buckets_reject [OF grid_round_rounding _ refl _ _ slow_created slow_run, of 7 900]
  by (simp add: lDefaults_def lWithBucket_def lWithWindow_def second_def cpu_def demoLimiter_def Let_def)

lemma foldl_max_of_int:
  "foldl (\<lambda>r k. max r (of_int (h k))) (of_int s) ks = (of_int (Max (insert s (h ` set ks))) :: rat)"
proof (induction ks arbitrary: s)
  case (Cons k ks)
  have "Max (insert s (h ` set (k # ks))) = Max (insert (max s (h k)) (h ` set ks))"
    by (cases "h ` set ks = {}") (simp_all add: max.assoc insert_commute)
  then show ?case using Cons.IH [of "max s (h k)"] by (simp add: of_int_max del: Max_insert)
qed simp

text \<open>Buckets after the last addition are empty and do not change the maximum.\<close>

lemma Max_window:
  fixes h :: "int \<Rightarrow> int"
  assumes "\<And>k. K < k \<Longrightarrow> h k = 0"
  shows "Max (insert 1 (h ` set [a + 1..min K (N - 1)])) = Max (insert 1 (h ` {a<..<N}))" (is "Max ?S = Max ?T")
proof (rule antisym)
  show "Max ?S \<le> Max ?T" by (rule Max_mono) auto
  have one: "1 \<le> Max ?S" by (rule Max_ge) auto
  have "h k \<le> Max ?S" if "a < k" "k < N" for k
  proof (cases "k \<le> K")
    case True
    then show ?thesis using that by (intro Max_ge) auto
  next
    case False
    then have "h k = 0" using assms by simp
    then show ?thesis using one by linarith
  qed
  then have "x \<le> Max ?S" if "x \<in> ?T" for x using that one by auto
  then show "Max ?T \<le> Max ?S" by (intro Max.boundedI) auto
qed

text \<open>
  The throughput the limiter works with, when the cached value is older than a bucket. With \<open>N\<close> the
  number of the current bucket and \<open>K\<close> that of the last completion, it is the largest number of
  requests completed in one of the buckets before the current one that are still in the window, and
  at least 1; but if nothing was completed for a whole window it is 0, and so is the limit on the
  requests in flight.
\<close>
theorem bbr_maxPASS_window:
  assumes "float64_rounding fl" "\<forall>x. 0 \<le> x \<and> x \<le> 2 ^ 53 \<longrightarrow> f2i x = truncf x"
    and "rcRep fl t0 (Bucket (lopts l)) d K (passStat l) lg" "t0 + K * d \<le> now" "now < t0 + 2 ^ 63"
    and "\<forall>e\<in>set lg. 0 \<le> snd e" "sum_list (map snd lg) \<le> 2 ^ 53"
    and "cached now (maxPASSCache l) l = Some None" "N = (now - t0) div d"
  shows "map_option fst (maxPASS fl f2i now l) =
    Some (if N - K < Bucket (lopts l)
          then Max (insert 1 ((\<lambda>k. sum_list (valsAt k lg)) ` {N - Bucket (lopts l)<..<N})) else 0)"
proof -
  let ?n = "Bucket (lopts l)" and ?h = "\<lambda>k. sum_list (valsAt k lg)"
  note ex = valsAt_exact [OF assms(6,7)]
  have h: "0 \<le> ?h k" "?h k \<le> 2 ^ 53" for k
    using ex [where k = k] by (auto intro: sum_list_nonneg)
  have sp: "sumPoints fl (pointOf fl (valsAt k lg)) = of_int (?h k)" for k
    using pointOf_exact [OF assms(1) ex, of k] float64_int [OF assms(1), of "?h k"] h [of k]
    by (simp add: sumPoints_def)
  have KN: "K \<le> N" using timespan_rep(2) assms(3-5,9) by (simp add: rcRep_def)
  let ?S = "insert 1 (?h ` set [N - ?n + 1..min K (N - 1)])"
  have "?h k = 0" if "K < k" for k using valsAt_above [OF rc.R_bound [OF assms(3)] that] by simp
  then have "Max ?S = Max (insert 1 (?h ` {N - ?n<..<N}))" by (rule Max_window)
  moreover have "f2i (of_int (Max ?S)) = Max ?S"
  proof -
    have "Max ?S \<in> ?S" by (rule Max_in) auto
    then have "0 \<le> Max ?S" "Max ?S \<le> 2 ^ 53" using h by auto
    then have "0 \<le> (of_int (Max ?S) :: rat)" "(of_int (Max ?S) :: rat) \<le> of_int (2 ^ 53)"
      by (simp_all only: of_int_0_le_iff of_int_le_iff)
    then show ?thesis using assms(2) truncf_of_int [of "Max ?S"] by (simp del: Max_insert)
  qed
  moreover have "f2i 0 = 0" using assms(2) truncf_of_int [of 0] by simp
  ultimately show ?thesis
    using passReduce_rep [OF assms(3-5)] foldl_max_of_int [of ?h 1] assms(8)
    by (simp add: maxPASS_def sp Let_def assms(9) [symmetric] del: Max_insert)
qed

theorem bbr_maxPASS_window_witness:
  "\<exists>c. map_option fst (maxPASS grid_round truncf 15 ((demoLimiter 10)\<lparr>passStat := c\<rparr>)) = Some 2"
proof -
  obtain c0 where c0: "rcRep grid_round 0 2 10 0 c0 []" using rc.create_R [of 2 10 0 grid_round] by auto
  obtain c1 where c1: "rcRep grid_round 0 2 10 0 c1 [(0, 1)]" using rc.add_R [OF c0, of 5 1] by auto
  obtain c2 where c2: "rcRep grid_round 0 2 10 0 c2 [(0, 1), (0, 1)]" using rc.add_R [OF c1, of 7 1] by auto
  let ?l = "(demoLimiter 10)\<lparr>passStat := c2\<rparr>"
  have l: "Bucket (lopts ?l) = 2" "passStat ?l = c2" "maxPASSCache ?l = None" by (simp_all add: demoLimiter_def Let_def)
  have "{-1<..<1} = {0 :: int}" by auto
  then have "map_option fst (maxPASS grid_round truncf 15 ?l) = Some 2"
    using bbr_maxPASS_window [OF grid_round_rounding, of truncf 0 ?l 10 0 "[(0, 1), (0, 1)]" 15 1] c2 l
    by (simp add: cached_def valsAt_def)
  then show ?thesis by blast
qed

end
