(* ===== verification/TokenStore.thy ===== *)
theory TokenStore
  imports Prelude "HOL-Library.AList"
begin

text \<open>
  The refresh-token stores: \<open>pkg/jwt/core/core.go\<close> (the interface \<open>TokenStore\<close> and its data),
  \<open>pkg/jwt/store/memory.go\<close> and \<open>pkg/jwt/store/store.go\<close>.

  The interface is the record \<open>tokenStore\<close> of operations over a state; the clock (\<open>time.Now\<close>) is an
  argument of every operation. The in-memory store is an association list with distinct keys, its
  lock makes each operation atomic. The locale \<open>token_store\<close> states what the middleware relies on,
  and the in-memory store interprets it.
\<close>

section \<open>Model\<close>

datatype storeError = RefreshTokenNotFound | RefreshTokenExpired | TokenEmpty | StoreFailure string

record 'u tokenData =
  UserData :: 'u
  Expiry :: int
  Created :: int

definition IsExpired :: "int \<Rightarrow> 'u tokenData \<Rightarrow> bool" where
  "IsExpired now r \<longleftrightarrow> now > Expiry r"

record ('s, 'u) tokenStore =
  tsSet :: "int \<Rightarrow> string \<Rightarrow> 'u \<Rightarrow> int \<Rightarrow> 's \<Rightarrow> 's \<times> storeError option"
  tsGet :: "int \<Rightarrow> string \<Rightarrow> 's \<Rightarrow> 's \<times> (storeError + 'u)"
  tsDelete :: "int \<Rightarrow> string \<Rightarrow> 's \<Rightarrow> 's \<times> storeError option"
  tsCleanup :: "int \<Rightarrow> 's \<Rightarrow> 's \<times> (storeError + nat)"
  tsCount :: "int \<Rightarrow> 's \<Rightarrow> storeError + nat"

type_synonym 'u memStore = "(string \<times> 'u tokenData) list"

definition NewInMemoryRefreshTokenStore :: "'u memStore" where
  "NewInMemoryRefreshTokenStore = []"

definition memSet :: "int \<Rightarrow> string \<Rightarrow> 'u \<Rightarrow> int \<Rightarrow> 'u memStore \<Rightarrow> 'u memStore \<times> storeError option" where
  "memSet now token userData expiry s =
     (if token = [] then (s, Some TokenEmpty)
      else (AList.update token \<lparr>UserData = userData, Expiry = expiry, Created = now\<rparr> s, None))"

definition memGet :: "int \<Rightarrow> string \<Rightarrow> 'u memStore \<Rightarrow> 'u memStore \<times> (storeError + 'u)" where
  "memGet now token s =
     (if token = [] then (s, Inl RefreshTokenNotFound)
      else (case map_of s token of
              None \<Rightarrow> (s, Inl RefreshTokenNotFound)
            | Some d \<Rightarrow> if IsExpired now d then (AList.delete token s, Inl RefreshTokenExpired)
                        else (s, Inr (UserData d))))"

definition memDelete :: "int \<Rightarrow> string \<Rightarrow> 'u memStore \<Rightarrow> 'u memStore \<times> storeError option" where
  "memDelete now token s = (if token = [] then (s, None) else (AList.delete token s, None))"

definition memCleanup :: "int \<Rightarrow> 'u memStore \<Rightarrow> 'u memStore \<times> (storeError + nat)" where
  "memCleanup now s =
     foldl (\<lambda>(t, r) (k, d). if now > Expiry d then (AList.delete k t, map_sum id Suc r) else (t, r))
       (s, Inr 0) s"

definition memCount :: "int \<Rightarrow> 'u memStore \<Rightarrow> storeError + nat" where
  "memCount now s = Inr (length s)"

definition memGetAll :: "int \<Rightarrow> 'u memStore \<Rightarrow> 'u memStore" where
  "memGetAll now s = filter (\<lambda>(k, d). \<not> IsExpired now d) s"

definition memClear :: "'u memStore \<Rightarrow> 'u memStore" where
  "memClear s = []"

definition memOps :: "('u memStore, 'u) tokenStore" where
  "memOps = \<lparr>tsSet = memSet, tsGet = memGet, tsDelete = memDelete, tsCleanup = memCleanup, tsCount = memCount\<rparr>"

section \<open>The contract of a token store\<close>

locale token_store =
  fixes ops :: "('s, 'u) tokenStore"
    and live :: "'s \<Rightarrow> string \<Rightarrow> ('u \<times> int) option"
    and inv :: "'s \<Rightarrow> bool"
  assumes set_ok: "inv s \<Longrightarrow> tok \<noteq> [] \<Longrightarrow>
      \<exists>s'. tsSet ops now tok u e s = (s', None) \<and> inv s' \<and> live s' = (live s)(tok \<mapsto> (u, e))"
    and get_live: "inv s \<Longrightarrow> tok \<noteq> [] \<Longrightarrow> live s tok = Some (u, e) \<Longrightarrow> now \<le> e \<Longrightarrow> tsGet ops now tok s = (s, Inr u)"
    and get_dead: "inv s \<Longrightarrow> tok = [] \<or> live s tok = None \<or> (\<exists>u e. live s tok = Some (u, e) \<and> e < now) \<Longrightarrow>
      \<exists>s' er. tsGet ops now tok s = (s', Inl er) \<and> inv s' \<and> live s' = (live s)(tok := None)"
    and delete_ok: "inv s \<Longrightarrow> \<exists>s'. tsDelete ops now tok s = (s', None) \<and> inv s' \<and> live s' = (live s)(tok := None)"
    and cleanup_ok: "inv s \<Longrightarrow> \<exists>s' n. tsCleanup ops now s = (s', Inr n) \<and> inv s' \<and>
      live s' = (\<lambda>k. case live s k of Some (u, e) \<Rightarrow> if e < now then None else Some (u, e) | None \<Rightarrow> None)"
begin

text \<open>The answer of \<open>Get\<close>, without the state.\<close>

lemma get_iff:
  assumes "inv s"
  shows "(\<exists>s'. tsGet ops now tok s = (s', Inr u)) \<longleftrightarrow> tok \<noteq> [] \<and> (\<exists>e. live s tok = Some (u, e) \<and> now \<le> e)"
proof
  assume *: "\<exists>s'. tsGet ops now tok s = (s', Inr u)"
  show "tok \<noteq> [] \<and> (\<exists>e. live s tok = Some (u, e) \<and> now \<le> e)"
  proof (cases "tok = [] \<or> live s tok = None \<or> (\<exists>u e. live s tok = Some (u, e) \<and> e < now)")
    case True
    then show ?thesis using get_dead [OF assms True] * by auto
  next
    case False
    then obtain u' e where "live s tok = Some (u', e)" "now \<le> e" "tok \<noteq> []" by (auto simp: not_less)
    then show ?thesis using get_live [OF assms] * by auto
  qed
qed (use assms get_live in blast)

lemma get_inv: "inv s \<Longrightarrow> tsGet ops now tok s = (s', r) \<Longrightarrow> inv s'"
  using get_live get_dead by (metis linorder_not_le option.exhaust prod.exhaust prod.inject)

lemma get_keeps:
  assumes "inv s" "tsGet ops now tok s = (s', r)" "k \<noteq> tok"
  shows "live s' k = live s k"
proof (cases "tok = [] \<or> live s tok = None \<or> (\<exists>u e. live s tok = Some (u, e) \<and> e < now)")
  case True
  then show ?thesis using get_dead [OF assms(1) True] assms(2,3) by auto
next
  case False
  then obtain u e where "live s tok = Some (u, e)" "now \<le> e" "tok \<noteq> []" by (auto simp: not_less)
  then show ?thesis using get_live [OF assms(1)] assms(2) by auto
qed

lemma get_after_delete:
  assumes "inv s" "tsDelete ops t1 tok s = (s', r)"
  shows "\<nexists>s'' u. tsGet ops now tok s' = (s'', Inr u)"
  using delete_ok [OF assms(1), of t1 tok] assms(2) get_iff [of s' now tok] by auto

lemma get_after_set:
  assumes "inv s" "tok \<noteq> []" "tsSet ops t1 tok u e s = (s', r)" "now \<le> e"
  shows "tsGet ops now tok s' = (s', Inr u)"
  using set_ok [OF assms(1,2), of t1 u e] assms get_live [of s' tok u e now] by auto

text \<open>Cleaning up never changes what a later \<open>Get\<close> answers.\<close>

lemma cleanup_invisible:
  assumes "inv s" "tsCleanup ops t1 s = (s', r)" "t1 \<le> now"
  shows "(\<exists>s''. tsGet ops now tok s' = (s'', Inr u)) \<longleftrightarrow> (\<exists>s''. tsGet ops now tok s = (s'', Inr u))"
proof -
  obtain n where "inv s'"
    "live s' = (\<lambda>k. case live s k of Some (u, e) \<Rightarrow> if e < t1 then None else Some (u, e) | None \<Rightarrow> None)"
    using cleanup_ok [OF assms(1), of t1] assms(2) by auto
  then show ?thesis using assms(1,3) by (auto simp: get_iff split: option.splits)
qed

end

section \<open>The in-memory store keeps the contract\<close>

definition memInv :: "'u memStore \<Rightarrow> bool" where
  "memInv s \<longleftrightarrow> distinct (map fst s) \<and> [] \<notin> fst ` set s"

definition memLive :: "'u memStore \<Rightarrow> string \<Rightarrow> ('u \<times> int) option" where
  "memLive s k = map_option (\<lambda>d. (UserData d, Expiry d)) (map_of s k)"

lemma memInv_Nil [simp]: "memInv []"
  by (simp add: memInv_def)

lemma memInv_update: "memInv s \<Longrightarrow> tok \<noteq> [] \<Longrightarrow> memInv (AList.update tok d s)"
  by (simp add: memInv_def distinct_update dom_update)

lemma memInv_delete: "memInv s \<Longrightarrow> memInv (AList.delete tok s)"
  by (auto simp: memInv_def AList.delete_eq distinct_map_filter)

lemma memLive_update: "memLive (AList.update tok d s) = (memLive s)(tok \<mapsto> (UserData d, Expiry d))"
  by (auto simp: memLive_def update_conv' fun_eq_iff)

lemma memLive_delete: "memLive (AList.delete tok s) = (memLive s)(tok := None)"
  by (auto simp: memLive_def delete_conv' fun_eq_iff)

lemma memInv_empty_key: "memInv s \<Longrightarrow> memLive s [] = None"
  by (simp add: memInv_def memLive_def map_of_eq_None_iff)

text \<open>The loop of \<open>Cleanup\<close>, whatever order the map is visited in.\<close>

lemma memCleanup_loop:
  "foldl (\<lambda>(t, r) (k, d). if now > Expiry d then (AList.delete k t, map_sum id Suc r) else (t, r))
      (t, (Inr n :: storeError + nat)) xs =
    (filter (\<lambda>e. fst e \<notin> fst ` set (filter (\<lambda>(k, d). now > Expiry d) xs)) t,
     Inr (n + length (filter (\<lambda>(k, d). now > Expiry d) xs)))"
proof (induction xs arbitrary: t n)
  case (Cons x xs)
  obtain k d where x: "x = (k, d)" by (cases x)
  have "filter (\<lambda>e. fst e \<notin> A) (AList.delete k t) = filter (\<lambda>e. fst e \<notin> insert k A) t" for A
    by (auto simp: AList.delete_eq intro!: filter_cong)
  then show ?case using Cons.IH by (simp add: x)
qed simp

lemma memCleanup_eq:
  assumes "memInv s"
  shows "memCleanup now s = (filter (\<lambda>(k, d). \<not> now > Expiry d) s,
    Inr (length (filter (\<lambda>(k, d). now > Expiry d) s)))"
proof -
  have "fst e \<notin> fst ` set (filter (\<lambda>(k, d). now > Expiry d) s) \<longleftrightarrow> \<not> now > Expiry (snd e)" if "e \<in> set s" for e
  proof -
    have "d = snd e" if "(fst e, d) \<in> set s" for d
      using assms that \<open>e \<in> set s\<close> eq_key_imp_eq_value [of s "fst e" d "snd e"] by (simp add: memInv_def)
    moreover have "fst e \<in> fst ` set (filter (\<lambda>(k, d). now > Expiry d) s) \<longleftrightarrow>
        (\<exists>d. (fst e, d) \<in> set s \<and> now > Expiry d)"
      by (simp add: image_iff Bex_def split_paired_Ex)
    moreover have "(fst e, snd e) \<in> set s" using that by simp
    ultimately show ?thesis by metis
  qed
  then have "filter (\<lambda>e. fst e \<notin> fst ` set (filter (\<lambda>(k, d). now > Expiry d) s)) s =
      filter (\<lambda>(k, d). \<not> now > Expiry d) s"
    by (intro filter_cong) auto
  then show ?thesis by (simp add: memCleanup_def memCleanup_loop)
qed

lemma memInv_filter: "memInv s \<Longrightarrow> memInv (filter P s)"
  by (auto simp: memInv_def distinct_map_filter)

lemma memLive_filter:
  assumes "memInv s"
  shows "memLive (filter (\<lambda>(k, d). \<not> now > Expiry d) s) =
    (\<lambda>k. case memLive s k of Some (u, e) \<Rightarrow> if e < now then None else Some (u, e) | None \<Rightarrow> None)"
proof
  fix k
  have "map_of (filter (\<lambda>(k, d). \<not> now > Expiry d) s) k =
      (case map_of s k of Some d \<Rightarrow> if now > Expiry d then None else Some d | None \<Rightarrow> None)"
    using assms unfolding memInv_def
  proof (induction s)
    case (Cons e s)
    then show ?case by (cases e) (auto simp: map_of_eq_None_iff split: option.split)
  qed simp
  then show "memLive (filter (\<lambda>(k, d). \<not> now > Expiry d) s) k =
      (case memLive s k of Some (u, e) \<Rightarrow> if e < now then None else Some (u, e) | None \<Rightarrow> None)"
    by (auto simp: memLive_def split: option.split)
qed

interpretation mem: token_store memOps memLive memInv
proof
  fix s :: "'u memStore" and tok now and u :: 'u and e
  assume s: "memInv s"
  show "\<exists>s'. tsSet memOps now tok u e s = (s', None) \<and> memInv s' \<and> memLive s' = (memLive s)(tok \<mapsto> (u, e))"
    if "tok \<noteq> []"
    using that s by (simp add: memOps_def memSet_def memInv_update memLive_update)
  show "tsGet memOps now tok s = (s, Inr u)" if "tok \<noteq> []" "memLive s tok = Some (u, e)" "now \<le> e"
    using that by (auto simp: memOps_def memGet_def memLive_def IsExpired_def)
  show "\<exists>s' er. tsGet memOps now tok s = (s', Inl er) \<and> memInv s' \<and> memLive s' = (memLive s)(tok := None)"
    if h: "tok = [] \<or> memLive s tok = None \<or> (\<exists>u e. memLive s tok = Some (u, e) \<and> e < now)"
  proof (cases "memLive s tok = None")
    case True
    then have "(memLive s)(tok := None) = memLive s" "map_of s tok = None"
      by (auto simp: memLive_def fun_upd_idem_iff)
    then show ?thesis using s by (simp add: memOps_def memGet_def)
  next
    case False
    then obtain d where "map_of s tok = Some d" "now > Expiry d" "tok \<noteq> []"
      using h memInv_empty_key [OF s] by (cases "tok = []") (auto simp: memLive_def)
    then show ?thesis
      using s by (simp add: memOps_def memGet_def IsExpired_def memInv_delete memLive_delete)
  qed
  show "\<exists>s'. tsDelete memOps now tok s = (s', None) \<and> memInv s' \<and> memLive s' = (memLive s)(tok := None)"
    using s memInv_empty_key [OF s]
    by (cases "tok = []") (auto simp: memOps_def memDelete_def memInv_delete memLive_delete fun_upd_idem_iff)
  show "\<exists>s' n. tsCleanup memOps now s = (s', Inr n) \<and> memInv s' \<and>
      memLive s' = (\<lambda>k. case memLive s k of Some (u, e) \<Rightarrow> if e < now then None else Some (u, e) | None \<Rightarrow> None)"
    using s by (simp add: memOps_def memCleanup_eq memInv_filter memLive_filter)
qed

section \<open>Refinement of a map with expiry times\<close>

datatype 'u storeOp = OSet string 'u int | OGet string | ODelete string | OCleanup | OCount

datatype 'u storeRes = RDone | RErr storeError | RVal 'u | RNum nat

fun resOf :: "storeError + 'u \<Rightarrow> 'u storeRes" where
  "resOf (Inl e) = RErr e"
| "resOf (Inr u) = RVal u"

fun memStep :: "int \<Rightarrow> 'u storeOp \<Rightarrow> 'u memStore \<Rightarrow> 'u memStore \<times> 'u storeRes" where
  "memStep now (OSet k u e) s = (case memSet now k u e s of (s', er) \<Rightarrow> (s', case er of None \<Rightarrow> RDone | Some x \<Rightarrow> RErr x))"
| "memStep now (OGet k) s = (case memGet now k s of (s', r) \<Rightarrow> (s', resOf r))"
| "memStep now (ODelete k) s = (case memDelete now k s of (s', er) \<Rightarrow> (s', case er of None \<Rightarrow> RDone | Some x \<Rightarrow> RErr x))"
| "memStep now OCleanup s = (case memCleanup now s of (s', r) \<Rightarrow> (s', case r of Inl e \<Rightarrow> RErr e | Inr n \<Rightarrow> RNum n))"
| "memStep now OCount s = (s, case memCount now s of Inl e \<Rightarrow> RErr e | Inr n \<Rightarrow> RNum n)"

text \<open>
  The specification: tokens with their data and expiry. An expired token is reported once as expired
  and is gone afterwards.
\<close>

fun specStep :: "int \<Rightarrow> 'u storeOp \<Rightarrow> (string \<Rightarrow> ('u \<times> int) option) \<Rightarrow> (string \<Rightarrow> ('u \<times> int) option) \<times> 'u storeRes" where
  "specStep now (OSet k u e) m = (if k = [] then (m, RErr TokenEmpty) else (m(k \<mapsto> (u, e)), RDone))"
| "specStep now (OGet k) m =
     (case m k of
        None \<Rightarrow> (m, RErr RefreshTokenNotFound)
      | Some (u, e) \<Rightarrow> if e < now then (m(k := None), RErr RefreshTokenExpired) else (m, RVal u))"
| "specStep now (ODelete k) m = (m(k := None), RDone)"
| "specStep now OCleanup m =
     ((\<lambda>k. case m k of Some (u, e) \<Rightarrow> if e < now then None else Some (u, e) | None \<Rightarrow> None),
      RNum (card {k. case m k of Some (u, e) \<Rightarrow> e < now | None \<Rightarrow> False}))"
| "specStep now OCount m = (m, RNum (card (dom m)))"

fun runStore :: "(int \<Rightarrow> 'u storeOp \<Rightarrow> 's \<Rightarrow> 's \<times> 'u storeRes) \<Rightarrow> (int \<times> 'u storeOp) list \<Rightarrow> 's \<Rightarrow> 'u storeRes list" where
  "runStore step [] s = []"
| "runStore step ((now, x) # xs) s = (case step now x s of (s', r) \<Rightarrow> r # runStore step xs s')"

lemma card_memLive: "memInv s \<Longrightarrow> card (dom (memLive s)) = length s"
proof -
  assume "memInv s"
  moreover have "dom (memLive s) = fst ` set s"
    by (auto simp: memLive_def dom_def map_of_eq_None_iff image_iff)
  ultimately show ?thesis using distinct_card [of "map fst s"] by (simp add: memInv_def)
qed

lemma card_expired:
  assumes "memInv s"
  shows "card {k. case memLive s k of Some (u, e) \<Rightarrow> e < now | None \<Rightarrow> False} =
    length (filter (\<lambda>(k, d). now > Expiry d) s)"
proof -
  let ?f = "filter (\<lambda>(k, d). now > Expiry d) s"
  have "{k. case memLive s k of Some (u, e) \<Rightarrow> e < now | None \<Rightarrow> False} = fst ` set ?f"
  proof (intro set_eqI iffI)
    fix k
    assume "k \<in> {k. case memLive s k of Some (u, e) \<Rightarrow> e < now | None \<Rightarrow> False}"
    then obtain d where "map_of s k = Some d" "Expiry d < now" by (auto simp: memLive_def split: option.splits)
    then have "(k, d) \<in> set ?f" by (auto dest: map_of_SomeD)
    then show "k \<in> fst ` set ?f" by force
  next
    fix k
    assume "k \<in> fst ` set ?f"
    then obtain d where "(k, d) \<in> set s" "Expiry d < now" by auto
    then have "map_of s k = Some d" using assms by (simp add: memInv_def map_of_is_SomeI)
    then show "k \<in> {k. case memLive s k of Some (u, e) \<Rightarrow> e < now | None \<Rightarrow> False}"
      using \<open>Expiry d < now\<close> by (simp add: memLive_def)
  qed
  also have "card \<dots> = length ?f"
    using assms distinct_map_filter [of fst s] distinct_card [of "map fst ?f"] by (simp add: memInv_def)
  finally show ?thesis .
qed

lemma memStep_refines:
  assumes "memInv s"
  shows "memInv (fst (memStep now x s)) \<and> memLive (fst (memStep now x s)) = fst (specStep now x (memLive s)) \<and>
    snd (memStep now x s) = snd (specStep now x (memLive s))"
proof (cases x)
  case (OSet k u e)
  then show ?thesis using assms by (simp add: memSet_def memInv_update memLive_update)
next
  case (OGet k)
  then show ?thesis using assms memInv_empty_key [OF assms]
    by (auto simp: memGet_def memLive_def IsExpired_def memInv_delete memLive_delete split: option.splits)
next
  case (ODelete k)
  then show ?thesis using assms memInv_empty_key [OF assms]
    by (auto simp: memDelete_def memInv_delete memLive_delete fun_upd_idem_iff)
next
  case OCleanup
  then show ?thesis using assms
    by (simp add: memCleanup_eq memInv_filter memLive_filter [simplified] card_expired)
next
  case OCount
  then show ?thesis using assms by (simp add: memCount_def card_memLive)
qed

text \<open>
  C11: The in-memory token store is a map from tokens to data with expiry times: whatever operations
  are performed at whatever times, each one answers what the specification answers (data, done, a
  count, or the precise error, where an expired token is reported once as expired and then as not
  found).
\<close>
theorem memory_store_refines_map:
  "runStore memStep xs NewInMemoryRefreshTokenStore = runStore specStep xs Map.empty"
proof -
  have "memInv s \<Longrightarrow> runStore memStep xs s = runStore specStep xs (memLive s)" for s :: "'a memStore"
  proof (induction xs arbitrary: s)
    case (Cons x xs)
    obtain now c where x: "x = (now, c)" by (cases x)
    obtain s' r where st: "memStep now c s = (s', r)" by (cases "memStep now c s")
    then have "memInv s'" "specStep now c (memLive s) = (memLive s', r)"
      using memStep_refines [OF Cons.prems, of now c] by (auto simp: prod_eq_iff)
    then show ?case using Cons.IH by (simp add: x st)
  qed simp
  from this [of "[]"] show ?thesis by (simp add: NewInMemoryRefreshTokenStore_def memLive_def [abs_def])
qed

end
