(* ===== verification/Jwt.thy ===== *)
theory Jwt
  imports GoStrings TokenStore "HOL-Library.Monad_Syntax"
begin

text \<open>
  Package \<open>pkg/jwt\<close> (\<open>jwt.go\<close>, and \<open>initializeRedisStore\<close> of \<open>jwt_redis.go\<close>): the gin middleware that issues,
  checks, refreshes and revokes tokens.

  \<^item> The middleware is the record \<open>mw\<close>, its callbacks are functions (an option where nil has a meaning).
    \<open>TimeFunc\<close> maps the reading of \<open>time.Now\<close> to the time it returns; times are in nanoseconds.
  \<^item> A gin context is the record \<open>gctx\<close>: what the request carries, the keys set, and what is sent.
  \<^item> Code outside the repository is a parameter: \<open>parse\<close> is \<open>jwt.Parse\<close> (its result tells which
    token, if any, the key function was asked about), \<open>sign\<close> is \<open>SignedString\<close>, \<open>registered\<close> the set of
    names \<open>jwt.GetSigningMethod\<close> knows, \<open>env\<close> the file system, the key parsers and Redis.
  \<^item> The store is a record of operations over a state (\<open>TokenStore\<close>). \<open>rnd\<close> holds the random bytes,
    or is \<open>None\<close> when the source of randomness fails.
  A handler returns \<open>None\<close> when it panics.
\<close>

section \<open>Data\<close>

datatype 'u any = ANil | AStr string | AInt int | AFloat rat | AOther 'u

type_synonym 'u claims = "string \<Rightarrow> 'u any option"

record perr =
  peExpired :: bool
  peInvalidType :: bool
  peRequired :: bool
  peText :: string

datatype jwtError =
    ErrMissingSecretKey | ErrForbidden | ErrMissingAuthenticatorFunc | ErrMissingLoginValues
  | ErrFailedAuthentication | ErrFailedTokenCreation | ErrExpiredToken | ErrEmptyAuthHeader
  | ErrMissingExpField | ErrWrongFormatOfExp | ErrInvalidAuthHeader | ErrEmptyQueryToken
  | ErrEmptyCookieToken | ErrEmptyParamToken | ErrInvalidSigningAlgorithm | ErrNoPrivKeyFile
  | ErrNoPubKeyFile | ErrInvalidPrivKey | ErrInvalidPubKey | ErrInvalidRefreshToken
  | ErrStore storeError | ErrLib perr | ErrText string

fun errText :: "jwtError \<Rightarrow> string" where
  "errText ErrMissingSecretKey = ''secret key is required''"
| "errText ErrForbidden = ''you don't have permission to access this resource''"
| "errText ErrMissingAuthenticatorFunc = ''ginJWTMiddleware.Authenticator func is undefined''"
| "errText ErrMissingLoginValues = ''missing Username or Password''"
| "errText ErrFailedAuthentication = ''incorrect Username or Password''"
| "errText ErrFailedTokenCreation = ''failed to create JWT Token''"
| "errText ErrExpiredToken = ''token is expired''"
| "errText ErrEmptyAuthHeader = ''auth header is empty''"
| "errText ErrMissingExpField = ''missing exp field''"
| "errText ErrWrongFormatOfExp = ''exp must be float64 format''"
| "errText ErrInvalidAuthHeader = ''auth header is invalid''"
| "errText ErrEmptyQueryToken = ''query token is empty''"
| "errText ErrEmptyCookieToken = ''cookie token is empty''"
| "errText ErrEmptyParamToken = ''parameter token is empty''"
| "errText ErrInvalidSigningAlgorithm = ''invalid signing algorithm''"
| "errText ErrNoPrivKeyFile = ''private key file unreadable''"
| "errText ErrNoPubKeyFile = ''public key file unreadable''"
| "errText ErrInvalidPrivKey = ''private key invalid''"
| "errText ErrInvalidPubKey = ''public key invalid''"
| "errText ErrInvalidRefreshToken = ''invalid or expired refresh token''"
| "errText (ErrStore RefreshTokenNotFound) = ''refresh token not found''"
| "errText (ErrStore RefreshTokenExpired) = ''refresh token expired''"
| "errText (ErrStore TokenEmpty) = ''token cannot be empty''"
| "errText (ErrStore (StoreFailure s)) = s"
| "errText (ErrLib p) = peText p"
| "errText (ErrText s) = s"

text \<open>A key given to the library: the secret, or an RSA key (a number stands for the key, \<open>None\<close> for nil).\<close>

datatype jkey = KBytes "string option" | KPriv "nat option" | KPub "nat option"

record token =
  AccessToken :: string
  TokenType :: string
  RefreshToken :: string
  ExpiresAt :: int
  CreatedAt :: int

definition nanos :: int where
  "nanos = 10 ^ 9"

definition unix :: "int \<Rightarrow> int" where
  "unix t = t div nanos"

definition ExpiresIn :: "int \<Rightarrow> token \<Rightarrow> int" where
  "ExpiresIn now t = ExpiresAt t - unix now"

datatype 'u cval = CClaims "'u claims" | CString string | CAny "'u any"

datatype 'u reply =
    MessageReply int string
  | TokenReply "(string \<times> string + string \<times> int) list"
  | CodeReply int
  | Proceed

record 'u gctx =
  reqHeader :: "string \<Rightarrow> string"
  reqQuery :: "string \<Rightarrow> string"
  reqCookie :: "string \<Rightarrow> string"
  reqParam :: "string \<Rightarrow> string"
  reqForm :: "string \<Rightarrow> string"
  reqJson :: "string option"
  ctxKeys :: "string \<Rightarrow> 'u cval option"
  headers :: "(string \<times> string) list"
  aborted :: bool
  replies :: "'u reply list"
  sameSite :: int
  cookies :: "(string \<times> string \<times> int \<times> string \<times> string \<times> bool \<times> bool) list"

definition ctxSet :: "string \<Rightarrow> 'u cval \<Rightarrow> 'u gctx \<Rightarrow> 'u gctx" where
  "ctxSet k v c = c\<lparr>ctxKeys := (ctxKeys c)(k \<mapsto> v)\<rparr>"

definition ctxHeader :: "string \<Rightarrow> string \<Rightarrow> 'u gctx \<Rightarrow> 'u gctx" where
  "ctxHeader k v c = c\<lparr>headers := headers c @ [(k, v)]\<rparr>"

definition ctxReply :: "'u reply \<Rightarrow> 'u gctx \<Rightarrow> 'u gctx" where
  "ctxReply r c = c\<lparr>replies := replies c @ [r]\<rparr>"

record 'u jtoken =
  tMethod :: "string option"
  tClaims :: "'u claims option"

record 'u presult =
  prAsked :: "'u jtoken option"
  prToken :: "'u jtoken option"
  prErr :: "perr option"

datatype popt = WithTimeFunc "int \<Rightarrow> int" | OtherOption string

type_synonym 'u jwtParse = "int \<Rightarrow> popt list \<Rightarrow> string \<Rightarrow> ('u jtoken \<Rightarrow> jwtError + jkey) \<Rightarrow> 'u presult"

type_synonym 'u jwtSign = "string \<Rightarrow> jkey \<Rightarrow> 'u claims \<Rightarrow> perr + string"

datatype storeSel = CustomStore | RedisStore | MemoryStore

record 'u mw =
  Realm :: string
  SigningAlgorithm :: string
  Key :: "string option"
  KeyFunc :: "('u jtoken \<Rightarrow> jwtError + jkey) option"
  Timeout :: int
  TimeoutFunc :: "('u any \<Rightarrow> int) option"
  MaxRefresh :: int
  Authenticator :: "('u gctx \<Rightarrow> jwtError + 'u any) option"
  Authorizer :: "('u gctx \<Rightarrow> 'u any \<Rightarrow> bool) option"
  PayloadFunc :: "('u any \<Rightarrow> 'u claims) option"
  UnauthorizedH :: "('u gctx \<Rightarrow> int \<Rightarrow> string \<Rightarrow> 'u gctx) option"
  LoginResponse :: "('u gctx \<Rightarrow> int \<Rightarrow> token \<Rightarrow> 'u gctx) option"
  LogoutResponse :: "('u gctx \<Rightarrow> 'u gctx) option"
  RefreshResponse :: "('u gctx \<Rightarrow> int \<Rightarrow> token \<Rightarrow> 'u gctx) option"
  IdentityHandler :: "('u gctx \<Rightarrow> 'u any) option"
  IdentityKey :: string
  TokenLookup :: string
  TokenHeadName :: string
  TimeFunc :: "(int \<Rightarrow> int) option"
  HTTPStatusMessageFunc :: "('u gctx \<Rightarrow> jwtError \<Rightarrow> string) option"
  PrivKeyFile :: string
  PrivKeyBytes :: string
  PubKeyFile :: string
  PrivateKeyPassphrase :: string
  PubKeyBytes :: string
  privKey :: "nat option"
  pubKey :: "nat option"
  SendCookie :: bool
  CookieMaxAge :: int
  SecureCookie :: bool
  CookieHTTPOnly :: bool
  CookieDomain :: string
  SendAuthorization :: bool
  DisabledAbort :: bool
  CookieName :: string
  CookieSameSite :: int
  ParseOptions :: "popt list"
  ExpField :: string
  RefreshTokenTimeout :: int
  RefreshTokenStore :: "storeSel option"
  RefreshTokenLength :: int
  UseRedisStore :: bool
  inMemoryStore :: bool

section \<open>Initialisation\<close>

record env =
  readFile :: "string \<Rightarrow> string option"
  parsePKCS8 :: "string \<Rightarrow> string \<Rightarrow> nat option"
  parsePrivPEM :: "string \<Rightarrow> nat option"
  parsePubPEM :: "string \<Rightarrow> nat option"
  redisReachable :: bool

definition ExtractClaims :: "'u gctx \<Rightarrow> 'u claims" where
  "ExtractClaims c =
     (case ctxKeys c ''JWT_PAYLOAD'' of Some (CClaims m) \<Rightarrow> m | _ \<Rightarrow> Map.empty)"

definition anyAt :: "'u claims \<Rightarrow> string \<Rightarrow> 'u any" where
  "anyAt m k = (case m k of Some v \<Rightarrow> v | None \<Rightarrow> ANil)"

definition generateTokenResponse :: "int \<Rightarrow> token \<Rightarrow> (string \<times> string + string \<times> int) list" where
  "generateTokenResponse now t =
     [Inl (''access_token'', AccessToken t), Inl (''token_type'', TokenType t), Inr (''expires_in'', ExpiresIn now t)] @
     (if RefreshToken t \<noteq> [] then [Inl (''refresh_token'', RefreshToken t)] else [])"

definition usingPublicKeyAlgo :: "'u mw \<Rightarrow> bool" where
  "usingPublicKeyAlgo m \<longleftrightarrow> SigningAlgorithm m \<in> {''RS256'', ''RS512'', ''RS384''}"

definition initializeRedisStore :: "env \<Rightarrow> 'u mw \<Rightarrow> 'u mw" where
  "initializeRedisStore ev m =
     (if UseRedisStore m
      then m\<lparr>RefreshTokenStore := Some (if redisReachable ev then RedisStore else MemoryStore)\<rparr>
      else m)"

definition privateKeyOf :: "env \<Rightarrow> 'u mw \<Rightarrow> 'u mw \<times> jwtError option" where
  "privateKeyOf ev m =
     (case (if PrivKeyFile m = [] then Some (PrivKeyBytes m) else readFile ev (PrivKeyFile m)) of
        None \<Rightarrow> (m, Some ErrNoPrivKeyFile)
      | Some keyData \<Rightarrow>
         (case (if PrivateKeyPassphrase m \<noteq> [] then parsePKCS8 ev keyData (PrivateKeyPassphrase m)
                else parsePrivPEM ev keyData) of
            None \<Rightarrow> (m, Some ErrInvalidPrivKey)
          | Some k \<Rightarrow> (m\<lparr>privKey := Some k\<rparr>, None)))"

definition publicKeyOf :: "env \<Rightarrow> 'u mw \<Rightarrow> 'u mw \<times> jwtError option" where
  "publicKeyOf ev m =
     (case (if PubKeyFile m = [] then Some (PubKeyBytes m) else readFile ev (PubKeyFile m)) of
        None \<Rightarrow> (m, Some ErrNoPubKeyFile)
      | Some keyData \<Rightarrow>
         (case parsePubPEM ev keyData of
            None \<Rightarrow> (m, Some ErrInvalidPubKey)
          | Some k \<Rightarrow> (m\<lparr>pubKey := Some k\<rparr>, None)))"

definition readKeys :: "env \<Rightarrow> 'u mw \<Rightarrow> 'u mw \<times> jwtError option" where
  "readKeys ev m =
     (case privateKeyOf ev m of
        (m1, Some e) \<Rightarrow> (m1, Some e)
      | (m1, None) \<Rightarrow> publicKeyOf ev m1)"

definition orElse :: "'a option \<Rightarrow> 'a \<Rightarrow> 'a option" where
  "orElse x d = Some (case x of Some v \<Rightarrow> v | None \<Rightarrow> d)"

definition orStr :: "string \<Rightarrow> string \<Rightarrow> string" where
  "orStr x d = (if x = [] then d else x)"

definition orInt :: "int \<Rightarrow> int \<Rightarrow> int" where
  "orInt x d = (if x = 0 then d else x)"

text \<open>The defaults, in the order of the source; a later default reads the earlier ones.\<close>

definition initDefaults :: "'u mw \<Rightarrow> 'u mw" where
  "initDefaults m0 =
     (let m1 = m0\<lparr>TokenLookup := orStr (TokenLookup m0) ''header:Authorization'',
                  SigningAlgorithm := orStr (SigningAlgorithm m0) ''HS256'',
                  Timeout := orInt (Timeout m0) (3600 * nanos)\<rparr>;
          m2 = m1\<lparr>TimeoutFunc := orElse (TimeoutFunc m1) (\<lambda>_. Timeout m1),
                  TimeFunc := orElse (TimeFunc m1) id,
                  TokenHeadName := orStr (trimSpace (TokenHeadName m1)) ''Bearer'',
                  Authorizer := orElse (Authorizer m1) (\<lambda>_ _. True),
                  UnauthorizedH := orElse (UnauthorizedH m1) (\<lambda>c code msg. ctxReply (MessageReply code msg) c),
                  LoginResponse := orElse (LoginResponse m1)
                    (\<lambda>c now t. ctxReply (TokenReply (generateTokenResponse now t)) c),
                  LogoutResponse := orElse (LogoutResponse m1) (ctxReply (CodeReply 200)),
                  RefreshResponse := orElse (RefreshResponse m1)
                    (\<lambda>c now t. ctxReply (TokenReply (generateTokenResponse now t)) c),
                  IdentityKey := orStr (IdentityKey m1) ''identity''\<rparr>
      in m2\<lparr>IdentityHandler := orElse (IdentityHandler m2) (\<lambda>c. anyAt (ExtractClaims c) (IdentityKey m2)),
            HTTPStatusMessageFunc := orElse (HTTPStatusMessageFunc m2) (\<lambda>_ e. errText e),
            Realm := orStr (Realm m2) ''milady jwt'',
            CookieMaxAge := orInt (CookieMaxAge m2) (Timeout m2),
            CookieName := orStr (CookieName m2) ''jwt'',
            ExpField := orStr (ExpField m2) ''exp'',
            RefreshTokenTimeout := orInt (RefreshTokenTimeout m2) (30 * 24 * 3600 * nanos),
            RefreshTokenLength := orInt (RefreshTokenLength m2) 32\<rparr>)"

definition initStore :: "env \<Rightarrow> 'u mw \<Rightarrow> 'u mw" where
  "initStore ev m =
     (case RefreshTokenStore m of
        Some _ \<Rightarrow> m
      | None \<Rightarrow>
         (let m1 = initializeRedisStore ev (m\<lparr>inMemoryStore := True\<rparr>) in
          case RefreshTokenStore m1 of Some _ \<Rightarrow> m1 | None \<Rightarrow> m1\<lparr>RefreshTokenStore := Some MemoryStore\<rparr>))"

definition timeFuncOf :: "'u mw \<Rightarrow> int \<Rightarrow> int" where
  "timeFuncOf m = (case TimeFunc m of Some f \<Rightarrow> f | None \<Rightarrow> id)"

definition MiddlewareInit :: "env \<Rightarrow> 'u mw \<Rightarrow> 'u mw \<times> jwtError option" where
  "MiddlewareInit ev m0 =
     (let m = initStore ev (initDefaults m0) in
      if KeyFunc m \<noteq> None then (m, None)
      else if usingPublicKeyAlgo m then readKeys ev m
      else if Key m = None then (m, Some ErrMissingSecretKey)
      else (m\<lparr>ParseOptions := ParseOptions m @ [WithTimeFunc (timeFuncOf m)]\<rparr>, None))"

definition NewMiddleware :: "env \<Rightarrow> 'u mw \<Rightarrow> jwtError + 'u mw" where
  "NewMiddleware ev m = (case MiddlewareInit ev m of (m', Some e) \<Rightarrow> Inl e | (m', None) \<Rightarrow> Inr m')"

section \<open>Extracting and parsing tokens\<close>

definition splitN2 :: "char \<Rightarrow> string \<Rightarrow> string list" where
  "splitN2 ch s =
     (if ch \<in> set s then [takeWhile (\<lambda>x. x \<noteq> ch) s, tl (dropWhile (\<lambda>x. x \<noteq> ch) s)] else [s])"

definition jwtFromHeader :: "'u mw \<Rightarrow> 'u gctx \<Rightarrow> string \<Rightarrow> string \<times> jwtError option" where
  "jwtFromHeader m c key =
     (let authHeader = reqHeader c key in
      if authHeader = [] then ([], Some ErrEmptyAuthHeader)
      else (case splitN2 CHR '' '' authHeader of
              [h, t] \<Rightarrow> if h \<noteq> TokenHeadName m then ([], Some ErrInvalidAuthHeader) else (t, None)
            | _ \<Rightarrow> ([], Some ErrInvalidAuthHeader)))"

definition jwtFromQuery :: "'u gctx \<Rightarrow> string \<Rightarrow> string \<times> jwtError option" where
  "jwtFromQuery c key = (if reqQuery c key = [] then ([], Some ErrEmptyQueryToken) else (reqQuery c key, None))"

definition jwtFromCookie :: "'u gctx \<Rightarrow> string \<Rightarrow> string \<times> jwtError option" where
  "jwtFromCookie c key = (if reqCookie c key = [] then ([], Some ErrEmptyCookieToken) else (reqCookie c key, None))"

definition jwtFromParam :: "'u gctx \<Rightarrow> string \<Rightarrow> string \<times> jwtError option" where
  "jwtFromParam c key = (if reqParam c key = [] then ([], Some ErrEmptyParamToken) else (reqParam c key, None))"

definition jwtFromForm :: "'u gctx \<Rightarrow> string \<Rightarrow> string \<times> jwtError option" where
  "jwtFromForm c key = (if reqForm c key = [] then ([], Some ErrEmptyParamToken) else (reqForm c key, None))"

text \<open>One round of the loop over the lookup methods; \<open>None\<close> is the panic of \<open>parts[1]\<close>.\<close>

definition lookupOne :: "'u mw \<Rightarrow> 'u gctx \<Rightarrow> string \<Rightarrow> string \<times> jwtError option \<Rightarrow> (string \<times> jwtError option) option" where
  "lookupOne m c methd cur =
     (case splitOn CHR '':'' (trimSpace methd) of
        p0 # p1 # _ \<Rightarrow>
          (let k = trimSpace p0; v = trimSpace p1 in
           Some (if k = ''header'' then jwtFromHeader m c v
                 else if k = ''query'' then jwtFromQuery c v
                 else if k = ''cookie'' then jwtFromCookie c v
                 else if k = ''param'' then jwtFromParam c v
                 else if k = ''form'' then jwtFromForm c v
                 else cur))
      | _ \<Rightarrow> None)"

fun lookupLoop :: "'u mw \<Rightarrow> 'u gctx \<Rightarrow> string list \<Rightarrow> string \<times> jwtError option \<Rightarrow> (string \<times> jwtError option) option" where
  "lookupLoop m c [] cur = Some cur"
| "lookupLoop m c (x # xs) cur =
     (if fst cur \<noteq> [] then Some cur
      else (case lookupOne m c x cur of None \<Rightarrow> None | Some cur' \<Rightarrow> lookupLoop m c xs cur'))"

definition lookupToken :: "'u mw \<Rightarrow> 'u gctx \<Rightarrow> (string \<times> jwtError option) option" where
  "lookupToken m c = lookupLoop m c (splitOn CHR '','' (TokenLookup m)) ([], None)"

text \<open>The key function the middleware gives to the parser.\<close>

definition signingMethod :: "(string \<Rightarrow> bool) \<Rightarrow> string \<Rightarrow> string option" where
  "signingMethod registered alg = (if registered alg then Some alg else None)"

definition keyFor :: "(string \<Rightarrow> bool) \<Rightarrow> 'u mw \<Rightarrow> 'u jtoken \<Rightarrow> jwtError + jkey" where
  "keyFor registered m t =
     (if signingMethod registered (SigningAlgorithm m) \<noteq> tMethod t then Inl ErrInvalidSigningAlgorithm
      else if usingPublicKeyAlgo m then Inr (KPub (pubKey m))
      else Inr (KBytes (Key m)))"

definition ParseTokenString :: "(string \<Rightarrow> bool) \<Rightarrow> 'u jwtParse \<Rightarrow> int \<Rightarrow> 'u mw \<Rightarrow> string \<Rightarrow> 'u presult" where
  "ParseTokenString registered parse now m tok =
     (case KeyFunc m of
        Some kf \<Rightarrow> parse now (ParseOptions m) tok kf
      | None \<Rightarrow> parse now (ParseOptions m) tok (keyFor registered m))"

text \<open>The key function also saves the token string, when it hands out the secret.\<close>

definition savesToken :: "(string \<Rightarrow> bool) \<Rightarrow> 'u mw \<Rightarrow> 'u presult \<Rightarrow> bool" where
  "savesToken registered m r \<longleftrightarrow> KeyFunc m = None \<and>
     (case prAsked r of
        None \<Rightarrow> False
      | Some t \<Rightarrow> signingMethod registered (SigningAlgorithm m) = tMethod t \<and> \<not> usingPublicKeyAlgo m)"

definition ParseToken :: "(string \<Rightarrow> bool) \<Rightarrow> 'u jwtParse \<Rightarrow> int \<Rightarrow> 'u mw \<Rightarrow> 'u gctx \<Rightarrow>
    ('u gctx \<times> (jwtError + 'u presult)) option" where
  "ParseToken registered parse now m c =
     (case lookupToken m c of
        None \<Rightarrow> None
      | Some (tok, Some e) \<Rightarrow> Some (c, Inl e)
      | Some (tok, None) \<Rightarrow>
         (let r = ParseTokenString registered parse now m tok in
          Some (if savesToken registered m r then ctxSet ''JWT_TOKEN'' (CString tok) c else c, Inr r)))"

definition GetClaimsFromJWT :: "(string \<Rightarrow> bool) \<Rightarrow> 'u jwtParse \<Rightarrow> int \<Rightarrow> 'u mw \<Rightarrow> 'u gctx \<Rightarrow>
    ('u gctx \<times> (jwtError + 'u claims)) option" where
  "GetClaimsFromJWT registered parse now m c =
     (case ParseToken registered parse now m c of
        None \<Rightarrow> None
      | Some (c1, Inl e) \<Rightarrow> Some (c1, Inl e)
      | Some (c1, Inr r) \<Rightarrow>
         (case prErr r of
            Some e \<Rightarrow> Some (c1, Inl (ErrLib e))
          | None \<Rightarrow>
             (let c2 = (if SendAuthorization m then
                          (case ctxKeys c1 ''JWT_TOKEN'' of
                             Some (CString s) \<Rightarrow> ctxHeader ''Authorization'' (TokenHeadName m @ '' '' @ s) c1
                           | _ \<Rightarrow> c1)
                        else c1)
              in case prToken r of
                   None \<Rightarrow> None
                 | Some t \<Rightarrow>
                    (case tClaims t of
                       None \<Rightarrow> Some (c2, Inl (ErrText ''invalid token claims type''))
                     | Some cl \<Rightarrow> Some (c2, Inr cl)))))"

section \<open>Failures\<close>

definition unauthorized :: "'u mw \<Rightarrow> 'u gctx \<Rightarrow> int \<Rightarrow> string \<Rightarrow> 'u gctx option" where
  "unauthorized m c code msg =
     (let c1 = ctxHeader ''WWW-Authenticate'' (''JWT realm='' @ [CHR 0x22] @ Realm m @ [CHR 0x22]) c;
          c2 = (if \<not> DisabledAbort m then c1\<lparr>aborted := True\<rparr> else c1)
      in map_option (\<lambda>h. h c2 code msg) (UnauthorizedH m))"

definition failWith :: "'u mw \<Rightarrow> 'u gctx \<Rightarrow> int \<Rightarrow> jwtError \<Rightarrow> 'u gctx option" where
  "failWith m c code e = do { f \<leftarrow> HTTPStatusMessageFunc m; unauthorized m c code (f c e) }"

definition isExpiredErr :: "jwtError \<Rightarrow> bool" where
  "isExpiredErr e = (case e of ErrLib p \<Rightarrow> peExpired p | _ \<Rightarrow> False)"

definition handleTokenError :: "'u mw \<Rightarrow> 'u gctx \<Rightarrow> jwtError \<Rightarrow> 'u gctx option" where
  "handleTokenError m c e =
     (let lib = (case e of ErrLib p \<Rightarrow> Some p | _ \<Rightarrow> None) in
      if isExpiredErr e then failWith m c 401 ErrExpiredToken
      else if (case lib of Some p \<Rightarrow> peInvalidType p | None \<Rightarrow> False) \<and> sublist ''exp is invalid'' (errText e)
        then failWith m c 400 ErrWrongFormatOfExp
      else if (case lib of Some p \<Rightarrow> peRequired p | None \<Rightarrow> False) \<and> sublist ''exp claim is required'' (errText e)
        then failWith m c 400 ErrMissingExpField
      else failWith m c 401 e)"

section \<open>The middleware\<close>

text \<open>\<open>c.Set(mw.IdentityKey, identity)\<close> unless the identity is nil.\<close>

definition setIdentity :: "'u mw \<Rightarrow> 'u any \<Rightarrow> 'u gctx \<Rightarrow> 'u gctx" where
  "setIdentity m idt c = (case idt of ANil \<Rightarrow> c | _ \<Rightarrow> ctxSet (IdentityKey m) (CAny idt) c)"

definition middlewareImpl :: "(string \<Rightarrow> bool) \<Rightarrow> 'u jwtParse \<Rightarrow> int \<Rightarrow> 'u mw \<Rightarrow> 'u gctx \<Rightarrow> 'u gctx option" where
  "middlewareImpl registered parse now m c =
     (case GetClaimsFromJWT registered parse now m c of
        None \<Rightarrow> None
      | Some (c1, Inl e) \<Rightarrow> handleTokenError m c1 e
      | Some (c1, Inr claims) \<Rightarrow>
         (case anyAt claims ''exp'' of
            ANil \<Rightarrow> failWith m c1 400 ErrMissingExpField
          | _ \<Rightarrow>
             (let c2 = ctxSet ''JWT_PAYLOAD'' (CClaims claims) c1 in
              do {
                ih \<leftarrow> IdentityHandler m;
                az \<leftarrow> Authorizer m;
                (let idt = ih c2; c3 = setIdentity m idt c2 in
                 if \<not> az c3 idt then failWith m c3 403 ErrForbidden else Some (ctxReply Proceed c3))
              })))"

section \<open>Issuing tokens\<close>

definition reservedClaims :: "string set" where
  "reservedClaims = {''exp'', ''iat'', ''nbf'', ''iss'', ''aud'', ''sub'', ''jti'', ''orig_iat''}"

definition accessClaims :: "'u mw \<Rightarrow> 'u any \<Rightarrow> int \<Rightarrow> int \<Rightarrow> 'u claims" where
  "accessClaims m data expire now =
     (let payload = (case PayloadFunc m of Some f \<Rightarrow> f data | None \<Rightarrow> Map.empty);
          custom = (\<lambda>k. if k \<in> reservedClaims then None else payload k)
      in custom(ExpField m \<mapsto> AInt (unix expire), ''orig_iat'' \<mapsto> AInt (unix now)))"

definition signedString :: "'u jwtSign \<Rightarrow> 'u mw \<Rightarrow> string \<Rightarrow> 'u claims \<Rightarrow> perr + string" where
  "signedString sign m alg cl =
     (if usingPublicKeyAlgo m then sign alg (KPriv (privKey m)) cl else sign alg (KBytes (Key m)) cl)"

definition generateAccessToken :: "(string \<Rightarrow> bool) \<Rightarrow> 'u jwtSign \<Rightarrow> int \<Rightarrow> 'u mw \<Rightarrow> 'u any \<Rightarrow>
    (jwtError + string \<times> int) option" where
  "generateAccessToken registered sign now m data =
     (case signingMethod registered (SigningAlgorithm m) of
        None \<Rightarrow> Some (Inl ErrInvalidSigningAlgorithm)
      | Some alg \<Rightarrow> do {
          tf \<leftarrow> TimeFunc m;
          to \<leftarrow> TimeoutFunc m;
          (let expire = tf now + to data in
           case signedString sign m alg (accessClaims m data expire (tf now)) of
             Inl e \<Rightarrow> Some (Inl (ErrLib e))
           | Inr s \<Rightarrow> Some (Inr (s, expire)))
        })"

definition b64char :: "nat \<Rightarrow> char" where
  "b64char n = (''ABCDEFGHIJKLMNOPQRSTUVWXYZabcdefghijklmnopqrstuvwxyz0123456789-_'' ! (n mod 64))"

fun b64url :: "string \<Rightarrow> string" where
  "b64url [] = []"
| "b64url [a] = [b64char (byte a div 4), b64char (byte a * 16), CHR ''='', CHR ''='']"
| "b64url [a, b] = [b64char (byte a div 4), b64char (byte a * 16 + byte b div 16), b64char (byte b * 4), CHR ''='']"
| "b64url (a # b # c # s) =
     [b64char (byte a div 4), b64char (byte a * 16 + byte b div 16), b64char (byte b * 4 + byte c div 64),
      b64char (byte c)] @ b64url s"

definition generateRefreshToken :: "(nat \<Rightarrow> string option) \<Rightarrow> 'u mw \<Rightarrow> (jwtError + string) option" where
  "generateRefreshToken rnd m =
     (if RefreshTokenLength m < 0 then None
      else Some (case rnd (nat (RefreshTokenLength m)) of
                   None \<Rightarrow> Inl (ErrText ''random source failed'')
                 | Some bs \<Rightarrow> Inr (b64url bs)))"

definition storeErr :: "storeError option \<Rightarrow> jwtError option" where
  "storeErr = map_option ErrStore"

definition storeRefreshToken :: "('s, 'u any) tokenStore \<Rightarrow> int \<Rightarrow> 'u mw \<Rightarrow> string \<Rightarrow> 'u any \<Rightarrow> 's \<Rightarrow>
    ('s \<times> jwtError option) option" where
  "storeRefreshToken st now m tok data s = do {
     tf \<leftarrow> TimeFunc m;
     Some (map_prod id storeErr (tsSet st now tok data (tf now + RefreshTokenTimeout m) s))
   }"

definition TokenGenerator :: "(string \<Rightarrow> bool) \<Rightarrow> 'u jwtSign \<Rightarrow> (nat \<Rightarrow> string option) \<Rightarrow> ('s, 'u any) tokenStore \<Rightarrow>
    int \<Rightarrow> 'u mw \<Rightarrow> 'u any \<Rightarrow> 's \<Rightarrow> ('s \<times> (jwtError + token)) option" where
  "TokenGenerator registered sign rnd st now m data s =
     (case generateAccessToken registered sign now m data of
        None \<Rightarrow> None
      | Some (Inl e) \<Rightarrow> Some (s, Inl e)
      | Some (Inr (acc, expire)) \<Rightarrow>
         (case generateRefreshToken rnd m of
            None \<Rightarrow> None
          | Some (Inl e) \<Rightarrow> Some (s, Inl e)
          | Some (Inr rt) \<Rightarrow>
             (case storeRefreshToken st now m rt data s of
                None \<Rightarrow> None
              | Some (s1, Some e) \<Rightarrow> Some (s1, Inl e)
              | Some (s1, None) \<Rightarrow>
                  map_option (\<lambda>tf. (s1, Inr \<lparr>AccessToken = acc, TokenType = ''Bearer'', RefreshToken = rt,
                                            ExpiresAt = unix expire, CreatedAt = unix (tf now)\<rparr>)) (TimeFunc m))))"

definition SetCookie :: "int \<Rightarrow> 'u mw \<Rightarrow> 'u gctx \<Rightarrow> string \<Rightarrow> 'u gctx option" where
  "SetCookie now m c tok =
     (if SendCookie m then
        map_option (\<lambda>tf.
          let maxage = unix (tf now + CookieMaxAge m) - unix (tf now);
              c1 = (if CookieSameSite m \<noteq> 0 then c\<lparr>sameSite := CookieSameSite m\<rparr> else c)
          in c1\<lparr>cookies := cookies c1 @ [(CookieName m, tok, maxage, ''/'', CookieDomain m, SecureCookie m, CookieHTTPOnly m)]\<rparr>)
          (TimeFunc m)
      else Some c)"

definition LoginHandler :: "(string \<Rightarrow> bool) \<Rightarrow> 'u jwtSign \<Rightarrow> (nat \<Rightarrow> string option) \<Rightarrow> ('s, 'u any) tokenStore \<Rightarrow>
    int \<Rightarrow> 'u mw \<Rightarrow> 'u gctx \<Rightarrow> 's \<Rightarrow> ('u gctx \<times> 's) option" where
  "LoginHandler registered sign rnd st now m c s =
     (case Authenticator m of
        None \<Rightarrow> map_option (\<lambda>c'. (c', s)) (failWith m c 500 ErrMissingAuthenticatorFunc)
      | Some auth \<Rightarrow>
         (case auth c of
            Inl e \<Rightarrow> map_option (\<lambda>c'. (c', s)) (failWith m c 401 e)
          | Inr data \<Rightarrow>
             (case TokenGenerator registered sign rnd st now m data s of
                None \<Rightarrow> None
              | Some (s1, Inl e) \<Rightarrow> map_option (\<lambda>c'. (c', s1)) (failWith m c 500 ErrFailedTokenCreation)
              | Some (s1, Inr t) \<Rightarrow> do {
                  c1 \<leftarrow> SetCookie now m c (AccessToken t);
                  h \<leftarrow> LoginResponse m;
                  Some (h c1 now t, s1)
                })))"

section \<open>Refreshing and revoking\<close>

definition extractRefreshToken :: "'u gctx \<Rightarrow> string" where
  "extractRefreshToken c =
     (let t1 = reqForm c ''refresh_token'';
          t2 = (if t1 = [] then reqQuery c ''refresh_token'' else t1)
      in if t2 = [] then (case reqJson c of Some s \<Rightarrow> s | None \<Rightarrow> t2) else t2)"

definition revokeRefreshToken :: "('s, 'u any) tokenStore \<Rightarrow> int \<Rightarrow> string \<Rightarrow> 's \<Rightarrow> 's \<times> jwtError option" where
  "revokeRefreshToken st now tok s = map_prod id storeErr (tsDelete st now tok s)"

definition validateRefreshToken :: "('s, 'u any) tokenStore \<Rightarrow> int \<Rightarrow> string \<Rightarrow> 's \<Rightarrow> 's \<times> (jwtError + 'u any)" where
  "validateRefreshToken st now tok s =
     (case tsGet st now tok s of
        (s1, Inr u) \<Rightarrow> (s1, Inr u)
      | (s1, Inl e) \<Rightarrow> (s1, Inl (if e = RefreshTokenNotFound then ErrInvalidRefreshToken else ErrStore e)))"

definition TokenGeneratorWithRevocation :: "(string \<Rightarrow> bool) \<Rightarrow> 'u jwtSign \<Rightarrow> (nat \<Rightarrow> string option) \<Rightarrow>
    ('s, 'u any) tokenStore \<Rightarrow> int \<Rightarrow> 'u mw \<Rightarrow> 'u any \<Rightarrow> string \<Rightarrow> 's \<Rightarrow> ('s \<times> (jwtError + token)) option" where
  "TokenGeneratorWithRevocation registered sign rnd st now m data old s =
     (case TokenGenerator registered sign rnd st now m data s of
        None \<Rightarrow> None
      | Some (s1, Inl e) \<Rightarrow> Some (s1, Inl e)
      | Some (s1, Inr t) \<Rightarrow>
         (case revokeRefreshToken st now old s1 of
            (s2, Some e) \<Rightarrow> Some (s2, if e = ErrStore RefreshTokenNotFound then Inr t else Inl e)
          | (s2, None) \<Rightarrow> Some (s2, Inr t)))"

text \<open>
  \<open>RefreshHandler\<close> in the two parts that another request can come between: up to the validation of
  the refresh token, and from there on. The first part ends in a response or in the user data.
\<close>

definition refreshValidate :: "('s, 'u any) tokenStore \<Rightarrow> int \<Rightarrow> 'u mw \<Rightarrow> 'u gctx \<Rightarrow> 's \<Rightarrow>
    ('s \<times> ('u gctx + 'u any)) option" where
  "refreshValidate st now m c s =
     (let tok = extractRefreshToken c in
      if tok = [] then map_option (\<lambda>c'. (s, Inl c')) (unauthorized m c 400 ''missing refresh_token parameter'')
      else (case validateRefreshToken st now tok s of
              (s1, Inl e) \<Rightarrow> map_option (\<lambda>c'. (s1, Inl c')) (failWith m c 401 e)
            | (s1, Inr data) \<Rightarrow> Some (s1, Inr data)))"

definition refreshIssue :: "(string \<Rightarrow> bool) \<Rightarrow> 'u jwtSign \<Rightarrow> (nat \<Rightarrow> string option) \<Rightarrow> ('s, 'u any) tokenStore \<Rightarrow>
    int \<Rightarrow> 'u mw \<Rightarrow> 'u gctx \<Rightarrow> 'u any \<Rightarrow> 's \<Rightarrow> ('u gctx \<times> 's) option" where
  "refreshIssue registered sign rnd st now m c data s =
     (case TokenGeneratorWithRevocation registered sign rnd st now m data (extractRefreshToken c) s of
        None \<Rightarrow> None
      | Some (s1, Inl e) \<Rightarrow> map_option (\<lambda>c'. (c', s1)) (failWith m c 500 e)
      | Some (s1, Inr t) \<Rightarrow> do {
          c1 \<leftarrow> SetCookie now m c (AccessToken t);
          h \<leftarrow> RefreshResponse m;
          Some (h c1 now t, s1)
        })"

definition RefreshHandler :: "(string \<Rightarrow> bool) \<Rightarrow> 'u jwtSign \<Rightarrow> (nat \<Rightarrow> string option) \<Rightarrow> ('s, 'u any) tokenStore \<Rightarrow>
    int \<Rightarrow> 'u mw \<Rightarrow> 'u gctx \<Rightarrow> 's \<Rightarrow> ('u gctx \<times> 's) option" where
  "RefreshHandler registered sign rnd st now m c s =
     (case refreshValidate st now m c s of
        None \<Rightarrow> None
      | Some (s1, Inl c') \<Rightarrow> Some (c', s1)
      | Some (s1, Inr data) \<Rightarrow> refreshIssue registered sign rnd st now m c data s1)"

definition LogoutHandler :: "(string \<Rightarrow> bool) \<Rightarrow> 'u jwtParse \<Rightarrow> ('s, 'u any) tokenStore \<Rightarrow> int \<Rightarrow> 'u mw \<Rightarrow> 'u gctx \<Rightarrow> 's \<Rightarrow>
    ('u gctx \<times> 's) option" where
  "LogoutHandler registered parse st now m c s = do {
     (c1, r) \<leftarrow> GetClaimsFromJWT registered parse now m c;
     c2 \<leftarrow> (case r of
              Inl e \<Rightarrow> Some c1
            | Inr claims \<Rightarrow>
               (let c' = ctxSet ''JWT_PAYLOAD'' (CClaims claims) c1 in
                map_option (\<lambda>ih. setIdentity m (ih c') c') (IdentityHandler m)));
     (let tok = extractRefreshToken c2;
          s1 = (if tok \<noteq> [] then fst (revokeRefreshToken st now tok s) else s);
          c3 = (if SendCookie m then
                  (let c' = (if CookieSameSite m \<noteq> 0 then c2\<lparr>sameSite := CookieSameSite m\<rparr> else c2) in
                   c'\<lparr>cookies := cookies c' @ [(CookieName m, [], -1, ''/'', CookieDomain m, SecureCookie m, CookieHTTPOnly m)]\<rparr>)
                else c2)
      in map_option (\<lambda>h. (h c3, s1)) (LogoutResponse m))
   }"

definition CheckIfTokenExpire :: "(string \<Rightarrow> bool) \<Rightarrow> 'u jwtParse \<Rightarrow> int \<Rightarrow> 'u mw \<Rightarrow> 'u gctx \<Rightarrow>
    ('u gctx \<times> (jwtError + 'u claims)) option" where
  "CheckIfTokenExpire registered parse now m c =
     (case ParseToken registered parse now m c of
        None \<Rightarrow> None
      | Some (c1, Inl e) \<Rightarrow> Some (c1, Inl e)
      | Some (c1, Inr r) \<Rightarrow>
         (if (case prErr r of Some p \<Rightarrow> \<not> peExpired p | None \<Rightarrow> False)
          then Some (c1, Inl (ErrLib (the (prErr r))))
          else (case prToken r of
                  None \<Rightarrow> None
                | Some t \<Rightarrow>
                   (case tClaims t of
                      None \<Rightarrow> Some (c1, Inl (ErrText ''invalid token claims type''))
                    | Some cl \<Rightarrow>
                       (case cl ''orig_iat'' of
                          None \<Rightarrow> Some (c1, Inl (ErrText ''missing orig_iat claim''))
                        | Some (AFloat f) \<Rightarrow>
                            map_option (\<lambda>tf. if truncf f < unix (tf now - MaxRefresh m) then (c1, Inl ErrExpiredToken)
                                             else (c1, Inr cl)) (TimeFunc m)
                        | Some _ \<Rightarrow> Some (c1, Inl (ErrText ''invalid orig_iat format'')))))))"

definition ExtractClaimsFromToken :: "'u jtoken option \<Rightarrow> 'u claims" where
  "ExtractClaimsFromToken t =
     (case t of None \<Rightarrow> Map.empty | Some x \<Rightarrow> (case tClaims x of None \<Rightarrow> Map.empty | Some cl \<Rightarrow> cl))"

definition GetToken :: "'u gctx \<Rightarrow> string" where
  "GetToken c = (case ctxKeys c ''JWT_TOKEN'' of Some (CString s) \<Rightarrow> s | _ \<Rightarrow> [])"

definition ClearSensitiveData :: "'u mw \<Rightarrow> 'v memStore \<Rightarrow> 'u mw \<times> 'v memStore" where
  "ClearSensitiveData m s =
     (m\<lparr>Key := None, PrivKeyBytes := [], PubKeyBytes := [], PrivateKeyPassphrase := [], privKey := None, pubKey := None\<rparr>,
      if inMemoryStore m then memClear s else s)"

section \<open>The middleware admits only verified tokens\<close>

lemma failWith_aborts:
  assumes "failWith m c code e = Some c'" "\<not> DisabledAbort m"
    and "\<And>h x y z. UnauthorizedH m = Some h \<Longrightarrow> aborted (h x y z) = aborted x"
  shows "aborted c'"
proof -
  obtain f h where "HTTPStatusMessageFunc m = Some f" "UnauthorizedH m = Some h"
    "c' = h ((ctxHeader ''WWW-Authenticate'' (''JWT realm='' @ [CHR 0x22] @ Realm m @ [CHR 0x22]) c)\<lparr>aborted := True\<rparr>) code (f c e)"
    using assms(1,2) by (auto simp: failWith_def unauthorized_def Let_def bind_eq_Some_conv)
  then show ?thesis using assms(3) by simp
qed

lemma handleTokenError_failWith: "handleTokenError m c e = Some c' \<Longrightarrow> \<exists>code e'. failWith m c code e' = Some c'"
  unfolding handleTokenError_def Let_def by (metis (no_types))

lemma aborted_ctx [simp]:
  "aborted (ctxSet k v c) = aborted c" "aborted (ctxReply r c) = aborted c" "aborted (ctxHeader k w c) = aborted c"
  "aborted (setIdentity m i c) = aborted c"
  by (simp_all add: ctxSet_def ctxReply_def ctxHeader_def setIdentity_def split: any.split)

text \<open>What \<open>jwt.Parse\<close> documents: without an error the returned token is the one it asked the
  key for, and a token has a signing method.\<close>

definition parse_sound :: "'u jwtParse \<Rightarrow> bool" where
  "parse_sound parse \<longleftrightarrow> (\<forall>now opts tok kf. prErr (parse now opts tok kf) = None \<longrightarrow>
     (\<exists>t k. prAsked (parse now opts tok kf) = Some t \<and> kf t = Inr k \<and> tMethod t \<noteq> None \<and>
        prToken (parse now opts tok kf) = Some t))"

lemma GetClaims_Inr:
  assumes "GetClaimsFromJWT registered parse now m c = Some (c1, Inr claims)"
  shows "\<exists>tok t. lookupToken m c = Some (tok, None) \<and>
    prErr (ParseTokenString registered parse now m tok) = None \<and>
    prToken (ParseTokenString registered parse now m tok) = Some t \<and> tClaims t = Some claims \<and> aborted c1 = aborted c"
proof -
  obtain c0 r where p: "ParseToken registered parse now m c = Some (c0, Inr r)"
    using assms by (auto simp: GetClaimsFromJWT_def split: option.splits sum.splits)
  then have e: "prErr r = None"
    using assms by (auto simp: GetClaimsFromJWT_def split: option.splits)
  obtain t where t: "prToken r = Some t" "tClaims t = Some claims" "aborted c1 = aborted c0"
    using assms p e by (auto simp: GetClaimsFromJWT_def Let_def split: option.splits if_splits cval.splits)
  obtain tok where "lookupToken m c = Some (tok, None)" "r = ParseTokenString registered parse now m tok" "aborted c0 = aborted c"
    using p by (auto simp: ParseToken_def Let_def split: option.splits if_splits)
  then show ?thesis using e t by auto
qed


text \<open>The zero value of the middleware, and a library that accepts one token.\<close>

definition zeroMw :: "'u mw" where
  "zeroMw = \<lparr>Realm = [], SigningAlgorithm = [], Key = None, KeyFunc = None, Timeout = 0, TimeoutFunc = None,
     MaxRefresh = 0, Authenticator = None, Authorizer = None, PayloadFunc = None, UnauthorizedH = None,
     LoginResponse = None, LogoutResponse = None, RefreshResponse = None, IdentityHandler = None, IdentityKey = [],
     TokenLookup = [], TokenHeadName = [], TimeFunc = None, HTTPStatusMessageFunc = None, PrivKeyFile = [],
     PrivKeyBytes = [], PubKeyFile = [], PrivateKeyPassphrase = [], PubKeyBytes = [], privKey = None, pubKey = None,
     SendCookie = False, CookieMaxAge = 0, SecureCookie = False, CookieHTTPOnly = False, CookieDomain = [],
     SendAuthorization = False, DisabledAbort = False, CookieName = [], CookieSameSite = 0, ParseOptions = [],
     ExpField = [], RefreshTokenTimeout = 0, RefreshTokenStore = None, RefreshTokenLength = 0, UseRedisStore = False,
     inMemoryStore = False\<rparr>"

definition demoCtx :: "unit gctx" where
  "demoCtx = \<lparr>reqHeader = (\<lambda>k. if k = ''Authorization'' then ''Bearer good'' else []), reqQuery = (\<lambda>_. []),
     reqCookie = (\<lambda>_. []), reqParam = (\<lambda>_. []), reqForm = (\<lambda>k. if k = ''refresh_token'' then ''rt'' else []), reqJson = None,
     ctxKeys = Map.empty, headers = [], aborted = False, replies = [], sameSite = 0, cookies = []\<rparr>"

definition demoEnv :: env where
  "demoEnv = \<lparr>readFile = (\<lambda>_. None), parsePKCS8 = (\<lambda>_ _. None), parsePrivPEM = (\<lambda>_. None), parsePubPEM = (\<lambda>_. None),
     redisReachable = False\<rparr>"

definition demoToken :: "unit jtoken" where
  "demoToken = \<lparr>tMethod = Some ''HS256'', tClaims = Some [''exp'' \<mapsto> AFloat 9, ''orig_iat'' \<mapsto> AFloat 5]\<rparr>"

definition demoParse :: "unit jwtParse" where
  "demoParse now opts tok kf =
     (case kf demoToken of
        Inr k \<Rightarrow> if tok = ''good'' then \<lparr>prAsked = Some demoToken, prToken = Some demoToken, prErr = None\<rparr>
                else \<lparr>prAsked = None, prToken = None,
                      prErr = Some \<lparr>peExpired = False, peInvalidType = False, peRequired = False, peText = ''malformed''\<rparr>\<rparr>
      | Inl e \<Rightarrow> \<lparr>prAsked = Some demoToken, prToken = Some demoToken,
                  prErr = Some \<lparr>peExpired = False, peInvalidType = False, peRequired = False, peText = errText e\<rparr>\<rparr>)"

lemma demoParse_sound: "parse_sound demoParse"
  by (auto simp: parse_sound_def demoParse_def demoToken_def split: sum.splits)

definition demoMw :: "unit mw" where
  "demoMw = fst (MiddlewareInit demoEnv (zeroMw\<lparr>Key := Some ''secret''\<rparr>))"

lemma demoMw_hooks:
  "UnauthorizedH demoMw = Some (\<lambda>c code msg. ctxReply (MessageReply code msg) c)"
  "HTTPStatusMessageFunc demoMw = Some (\<lambda>_ e. errText e)"
  "TimeFunc demoMw = Some id" "TimeoutFunc demoMw = Some (\<lambda>_. 3600 * nanos)"
  "RefreshResponse demoMw = Some (\<lambda>c now t. ctxReply (TokenReply (generateTokenResponse now t)) c)"
  "SendCookie demoMw = False" "DisabledAbort demoMw = False" "KeyFunc demoMw = None" "RefreshTokenLength demoMw = 32"
  "SigningAlgorithm demoMw = ''HS256''" "RefreshTokenTimeout demoMw = 30 * 24 * 3600 * nanos"
  "Key demoMw = Some ''secret''" "ParseOptions demoMw = [WithTimeFunc id]" "SendAuthorization demoMw = False"
  "TokenLookup demoMw = ''header:Authorization''" "TokenHeadName demoMw = ''Bearer''"
  "IdentityHandler demoMw = Some (\<lambda>c. anyAt (ExtractClaims c) ''identity'')"
  "Authorizer demoMw = Some (\<lambda>_ _. True)" "ExpField demoMw = ''exp''" "PayloadFunc demoMw = None"
  by (simp_all add: demoMw_def MiddlewareInit_def initStore_def initDefaults_def initializeRedisStore_def zeroMw_def
    orElse_def orStr_def orInt_def usingPublicKeyAlgo_def timeFuncOf_def trimSpace_def Let_def)

lemma demo_lookup: "lookupToken demoMw demoCtx = Some (''good'', None)"
proof -
  have "splitOn CHR '','' ''header:Authorization'' = [''header:Authorization'']"
    "splitOn CHR '':'' (trimSpace ''header:Authorization'') = [''header'', ''Authorization'']"
    "trimSpace ''header'' = ''header''" "trimSpace ''Authorization'' = ''Authorization''"
    "splitN2 CHR '' '' ''Bearer good'' = [''Bearer'', ''good'']" by code_simp+
  then show ?thesis
    by (simp add: lookupToken_def demoMw_hooks lookupOne_def jwtFromHeader_def demoCtx_def del: splitOn.simps)
qed

definition HS :: "string \<Rightarrow> bool" where
  "HS a \<longleftrightarrow> a = ''HS256''"

lemma demo_claims:
  "GetClaimsFromJWT HS demoParse now demoMw demoCtx =
     Some (ctxSet ''JWT_TOKEN'' (CString ''good'') demoCtx, Inr [''exp'' \<mapsto> AFloat 9, ''orig_iat'' \<mapsto> AFloat 5])"
proof -
  let ?r = "\<lparr>prAsked = Some demoToken, prToken = Some demoToken, prErr = None\<rparr>"
  have r: "ParseTokenString HS demoParse now demoMw ''good'' = ?r"
    by (simp add: ParseTokenString_def demoMw_hooks demoParse_def keyFor_def signingMethod_def usingPublicKeyAlgo_def HS_def)
      (simp add: demoToken_def)
  have "ParseToken HS demoParse now demoMw demoCtx = Some (ctxSet ''JWT_TOKEN'' (CString ''good'') demoCtx, Inr ?r)"
    by (simp add: ParseToken_def demo_lookup r Let_def savesToken_def demoMw_hooks signingMethod_def usingPublicKeyAlgo_def
      HS_def) (simp add: demoToken_def)
  then show ?thesis by (simp add: GetClaimsFromJWT_def demoMw_hooks) (simp add: demoToken_def)
qed


section \<open>Initialisation and issued claims\<close>

lemma initDefaults_fields:
  "KeyFunc (initDefaults m) = KeyFunc m" "ParseOptions (initDefaults m) = ParseOptions m"
  "Key (initDefaults m) = Key m" "TimeFunc (initDefaults m) \<noteq> None" "TimeoutFunc (initDefaults m) \<noteq> None"
  "Authorizer (initDefaults m) \<noteq> None" "UnauthorizedH (initDefaults m) \<noteq> None"
  "LoginResponse (initDefaults m) \<noteq> None" "LogoutResponse (initDefaults m) \<noteq> None"
  "RefreshResponse (initDefaults m) \<noteq> None" "IdentityHandler (initDefaults m) \<noteq> None"
  "HTTPStatusMessageFunc (initDefaults m) \<noteq> None"
  by (simp_all add: initDefaults_def Let_def orElse_def)

definition hooksSet :: "'u mw \<Rightarrow> bool" where
  "hooksSet m \<longleftrightarrow> TimeFunc m \<noteq> None \<and> TimeoutFunc m \<noteq> None \<and> Authorizer m \<noteq> None \<and> UnauthorizedH m \<noteq> None \<and>
     LoginResponse m \<noteq> None \<and> LogoutResponse m \<noteq> None \<and> RefreshResponse m \<noteq> None \<and> IdentityHandler m \<noteq> None \<and>
     HTTPStatusMessageFunc m \<noteq> None"

lemma initStore_fields:
  "KeyFunc (initStore ev m) = KeyFunc m" "ParseOptions (initStore ev m) = ParseOptions m"
  "Key (initStore ev m) = Key m" "SigningAlgorithm (initStore ev m) = SigningAlgorithm m"
  "hooksSet (initStore ev m) = hooksSet m" "RefreshTokenStore (initStore ev m) \<noteq> None"
  by (simp_all add: initStore_def initializeRedisStore_def hooksSet_def Let_def split: option.split)

lemma readKeys_fields:
  assumes "readKeys ev m = (m', None)"
  shows "ParseOptions m' = ParseOptions m \<and> hooksSet m' = hooksSet m \<and> RefreshTokenStore m' = RefreshTokenStore m \<and>
    SigningAlgorithm m' = SigningAlgorithm m \<and> Key m' = Key m \<and> privKey m' \<noteq> None \<and> pubKey m' \<noteq> None \<and> KeyFunc m' = KeyFunc m"
  using assms
  by (auto simp: readKeys_def privateKeyOf_def publicKeyOf_def hooksSet_def split: option.splits if_splits prod.splits)

text \<open>
  What a successful initialisation guarantees, and what it does not. Every callback the handlers
  call is set and a store is chosen; a symmetric algorithm has a secret, an RSA algorithm both keys.
  But the time function reaches the parser only for symmetric algorithms without a key function: with
  an RSA algorithm or a key function the parser options are left as they were.
\<close>
theorem jwt_init_ready:
  assumes "MiddlewareInit ev m0 = (m, None)"
  shows "hooksSet m \<and> RefreshTokenStore m \<noteq> None \<and>
    (KeyFunc m0 = None \<and> usingPublicKeyAlgo m \<longrightarrow> privKey m \<noteq> None \<and> pubKey m \<noteq> None) \<and>
    (KeyFunc m0 = None \<and> \<not> usingPublicKeyAlgo m \<longrightarrow>
       Key m \<noteq> None \<and> ParseOptions m = ParseOptions m0 @ [WithTimeFunc (timeFuncOf m)]) \<and>
    (KeyFunc m0 \<noteq> None \<or> usingPublicKeyAlgo m \<longrightarrow> ParseOptions m = ParseOptions m0)"
proof -
  let ?m = "initStore ev (initDefaults m0)"
  have h: "hooksSet ?m" by (simp add: initStore_fields) (simp add: hooksSet_def initDefaults_fields)
  note f = initStore_fields [of ev "initDefaults m0"] initDefaults_fields [of m0]
  consider "KeyFunc m0 \<noteq> None" | "KeyFunc m0 = None" "usingPublicKeyAlgo ?m"
    | "KeyFunc m0 = None" "\<not> usingPublicKeyAlgo ?m" by blast
  then show ?thesis
  proof cases
    case 1
    then have "m = ?m" using assms f by (simp add: MiddlewareInit_def)
    then show ?thesis using h f 1 by auto
  next
    case 2
    then have r: "readKeys ev ?m = (m, None)" using assms f by (simp add: MiddlewareInit_def)
    then show ?thesis using readKeys_fields [OF r] h f 2 by (simp add: usingPublicKeyAlgo_def)
  next
    case 3
    then have k: "Key ?m \<noteq> None" and m: "m = ?m\<lparr>ParseOptions := ParseOptions ?m @ [WithTimeFunc (timeFuncOf ?m)]\<rparr>"
      using assms f by (auto simp: MiddlewareInit_def Let_def split: if_splits)
    show ?thesis unfolding m using k h f 3
      by (simp add: hooksSet_def usingPublicKeyAlgo_def timeFuncOf_def)
  qed
qed

theorem jwt_init_ready_witness:
  "ParseOptions (demoMw :: unit mw) = [WithTimeFunc (timeFuncOf demoMw)] \<and> hooksSet demoMw"
proof -
  have z: "snd (MiddlewareInit demoEnv ((zeroMw :: unit mw)\<lparr>Key := Some ''secret''\<rparr>)) = None"
    by (simp add: MiddlewareInit_def initStore_def initDefaults_def initializeRedisStore_def zeroMw_def
      orElse_def orStr_def orInt_def usingPublicKeyAlgo_def Let_def)
  then have "MiddlewareInit demoEnv ((zeroMw :: unit mw)\<lparr>Key := Some ''secret''\<rparr>) = (demoMw, None)"
    by (simp add: demoMw_def prod_eq_iff)
  from jwt_init_ready [OF this] show ?thesis
    by (simp add: zeroMw_def usingPublicKeyAlgo_def demoMw_hooks)
qed

text \<open>
  The claims of an issued access token. The expiry is the current time plus the timeout of the
  user; whatever \<open>PayloadFunc\<close> returns, it cannot set a reserved claim, and every other claim is
  exactly what it returned.
\<close>
theorem jwt_issued_claims:
  assumes "generateAccessToken registered sign now m data = Some (Inr (s, expire))"
    and "TimeFunc m = Some tf" "TimeoutFunc m = Some to" "ExpField m = ''exp''"
  shows "registered (SigningAlgorithm m) \<and> expire = tf now + to data \<and>
    signedString sign m (SigningAlgorithm m) (accessClaims m data expire (tf now)) = Inr s \<and>
    (let cl = accessClaims m data expire (tf now) in
     cl ''exp'' = Some (AInt (unix (tf now + to data))) \<and> cl ''orig_iat'' = Some (AInt (unix (tf now))) \<and>
     (\<forall>k\<in>reservedClaims - {''exp'', ''orig_iat''}. cl k = None) \<and>
     (\<forall>k. k \<notin> reservedClaims \<longrightarrow> cl k = (case PayloadFunc m of Some f \<Rightarrow> f data k | None \<Rightarrow> None)))"
proof -
  have "registered (SigningAlgorithm m)" "expire = tf now + to data"
    "signedString sign m (SigningAlgorithm m) (accessClaims m data expire (tf now)) = Inr s"
    using assms(1-3) by (auto simp: generateAccessToken_def signingMethod_def Let_def split: if_splits sum.splits)
  then show ?thesis
    using assms(4) by (auto simp: accessClaims_def reservedClaims_def Let_def split: option.split)
qed

definition demoSign :: "unit jwtSign" where
  "demoSign alg k cl = Inr ''good''"

theorem jwt_issued_claims_witness:
  "case generateAccessToken HS demoSign 7000000000 demoMw ANil of
     Some (Inr (s, e)) \<Rightarrow> e = 3607000000000 \<and> accessClaims demoMw ANil e 7000000000 ''orig_iat'' = Some (AInt 7)
   | _ \<Rightarrow> False"
proof -
  have g: "generateAccessToken HS demoSign 7000000000 demoMw ANil = Some (Inr (''good'', 3607000000000))"
    by (simp add: generateAccessToken_def signingMethod_def HS_def demoMw_hooks signedString_def demoSign_def nanos_def)
  have "accessClaims demoMw ANil 3607000000000 7000000000 ''orig_iat'' = Some (AInt (unix 7000000000))"
    using jwt_issued_claims [OF g demoMw_hooks(3,4)] by (simp add: demoMw_hooks Let_def nanos_def)
  then show ?thesis using g by (simp add: unix_def nanos_def)
qed

text \<open>
  With an \<open>ExpField\<close> other than \<open>exp\<close> the middleware refuses its own tokens: the issued claims have
  no \<open>exp\<close>, so that a token which the parser accepts (with the claims that were signed) is answered
  with 400 and never reaches the next handlers.
\<close>
theorem jwt_custom_exp_refused:
  assumes "ExpField m \<noteq> ''exp''"
    and "GetClaimsFromJWT registered parse now m c = Some (c1, Inr claims)"
    and "dom claims = dom (accessClaims m data expire t)"
  shows "middlewareImpl registered parse now m c = failWith m c1 400 ErrMissingExpField"
proof -
  have "accessClaims m data expire t ''exp'' = None"
    using assms(1) by (simp add: accessClaims_def reservedClaims_def Let_def)
  then have "claims ''exp'' = None" using assms(3) by (metis domIff)
  then show ?thesis using assms(2) by (simp add: middlewareImpl_def anyAt_def)
qed

lemma lookupLoop_cong:
  "TokenHeadName m' = TokenHeadName m \<Longrightarrow> lookupLoop m' c xs cur = lookupLoop m c xs cur"
proof -
  assume h: "TokenHeadName m' = TokenHeadName m"
  have j: "jwtFromHeader m' c v = jwtFromHeader m c v" for v unfolding jwtFromHeader_def h ..
  have "lookupOne m' c x cur = lookupOne m c x cur" for x cur unfolding lookupOne_def j ..
  then show ?thesis by (induction xs arbitrary: cur) (simp_all split: option.split)
qed

definition noExpToken :: "unit jtoken" where
  "noExpToken = \<lparr>tMethod = Some ''HS256'', tClaims = Some [''expires'' \<mapsto> AFloat 9, ''orig_iat'' \<mapsto> AFloat 5]\<rparr>"

definition noExpParse :: "unit jwtParse" where
  "noExpParse now opts tok kf = \<lparr>prAsked = Some noExpToken, prToken = Some noExpToken, prErr = None\<rparr>"

theorem jwt_custom_exp_refused_witness:
  "\<exists>c'. middlewareImpl HS noExpParse 5 (demoMw\<lparr>ExpField := ''expires''\<rparr>) demoCtx = Some c' \<and> aborted c' \<and>
     replies c' = [MessageReply 400 ''missing exp field'']"
proof -
  let ?m = "demoMw\<lparr>ExpField := ''expires''\<rparr>"
  have l: "lookupToken ?m demoCtx = Some (''good'', None)"
    using demo_lookup lookupLoop_cong [of ?m demoMw] by (simp add: lookupToken_def del: lookupLoop.simps splitOn.simps)
  have "GetClaimsFromJWT HS noExpParse 5 ?m demoCtx =
      Some (ctxSet ''JWT_TOKEN'' (CString ''good'') demoCtx, Inr [''expires'' \<mapsto> AFloat 9, ''orig_iat'' \<mapsto> AFloat 5])"
    by (simp add: GetClaimsFromJWT_def ParseToken_def l ParseTokenString_def noExpParse_def noExpToken_def savesToken_def
      signingMethod_def usingPublicKeyAlgo_def HS_def demoMw_hooks Let_def)
  moreover have "dom [''expires'' \<mapsto> AFloat 9, ''orig_iat'' \<mapsto> AFloat 5 :: unit any] = dom (accessClaims ?m ANil 9 5)"
    by (auto simp: accessClaims_def demoMw_hooks Let_def)
  ultimately have "middlewareImpl HS noExpParse 5 ?m demoCtx =
      failWith ?m (ctxSet ''JWT_TOKEN'' (CString ''good'') demoCtx) 400 ErrMissingExpField"
    using jwt_custom_exp_refused [of ?m HS noExpParse 5 demoCtx] by simp
  then show ?thesis
    by (simp add: failWith_def unauthorized_def demoMw_hooks Let_def ctxReply_def ctxHeader_def ctxSet_def demoCtx_def)
qed

section \<open>Rotation of refresh tokens\<close>

text \<open>The lemmas of the handlers over any store that keeps the contract.\<close>

locale refresh_store = token_store ops live inv
  for ops :: "('s, 'u any) tokenStore" and live and inv
begin

lemma validate_live:
  assumes "inv s" "tok \<noteq> []" "live s tok = Some (u, e)" "now \<le> e"
  shows "validateRefreshToken ops now tok s = (s, Inr u)"
  using get_live [OF assms] by (simp add: validateRefreshToken_def)

lemma validate_dead:
  assumes "inv s" "live s tok = None"
  shows "\<exists>s' e. validateRefreshToken ops now tok s = (s', Inl e) \<and> inv s' \<and> live s' = live s"
proof -
  obtain s' er where "tsGet ops now tok s = (s', Inl er)" "inv s'" "live s' = (live s)(tok := None)"
    using get_dead [OF assms(1)] assms(2) by blast
  moreover have "(live s)(tok := None) = live s" using assms(2) by (simp add: fun_upd_idem_iff)
  ultimately show ?thesis by (simp add: validateRefreshToken_def)
qed

lemma issue_tokens:
  assumes "inv s" "generateAccessToken registered sign now m data = Some (Inr (acc, ex))"
    and "0 \<le> RefreshTokenLength m" "rnd (nat (RefreshTokenLength m)) = Some bs" "bs \<noteq> []" "TimeFunc m = Some tf"
  obtains s' t where "TokenGenerator registered sign rnd ops now m data s = Some (s', Inr t)"
    "RefreshToken t = b64url bs" "AccessToken t = acc" "inv s'"
    "live s' = (live s)(b64url bs \<mapsto> (data, tf now + RefreshTokenTimeout m))"
proof -
  have b: "b64url bs \<noteq> []" using assms(5) by (cases bs rule: b64url.cases) auto
  obtain s' where s': "tsSet ops now (b64url bs) data (tf now + RefreshTokenTimeout m) s = (s', None)" "inv s'"
    "live s' = (live s)(b64url bs \<mapsto> (data, tf now + RefreshTokenTimeout m))"
    using set_ok [OF assms(1) b] by blast
  show ?thesis
  proof (rule that)
    show "TokenGenerator registered sign rnd ops now m data s = Some (s', Inr \<lparr>AccessToken = acc, TokenType = ''Bearer'',
        RefreshToken = b64url bs, ExpiresAt = unix ex, CreatedAt = unix (tf now)\<rparr>)"
      using assms(2,3,4,6) s'(1)
      by (simp add: TokenGenerator_def generateRefreshToken_def storeRefreshToken_def storeErr_def)
  qed (use s' in simp_all)
qed

lemma rotate_tokens:
  assumes "inv s" "generateAccessToken registered sign now m data = Some (Inr (acc, ex))"
    and "0 \<le> RefreshTokenLength m" "rnd (nat (RefreshTokenLength m)) = Some bs" "bs \<noteq> []" "TimeFunc m = Some tf"
  obtains s' t where "TokenGeneratorWithRevocation registered sign rnd ops now m data old s = Some (s', Inr t)"
    "RefreshToken t = b64url bs" "AccessToken t = acc" "inv s'"
    "live s' = (live s)(b64url bs \<mapsto> (data, tf now + RefreshTokenTimeout m), old := None)"
proof -
  obtain s1 t where 1: "TokenGenerator registered sign rnd ops now m data s = Some (s1, Inr t)"
    "RefreshToken t = b64url bs" "AccessToken t = acc" "inv s1"
    "live s1 = (live s)(b64url bs \<mapsto> (data, tf now + RefreshTokenTimeout m))"
    using issue_tokens [of s registered sign now m data acc ex rnd bs tf, OF assms] by blast
  obtain s2 where "tsDelete ops now old s1 = (s2, None)" "inv s2" "live s2 = (live s1)(old := None)"
    using delete_ok [OF 1(4)] by blast
  then show ?thesis using that 1
    by (simp add: TokenGeneratorWithRevocation_def revokeRefreshToken_def storeErr_def)
qed

lemma refreshIssue_ok:
  assumes "inv s" "generateAccessToken registered sign now m data = Some (Inr (acc, ex))"
    and "0 \<le> RefreshTokenLength m" "rnd (nat (RefreshTokenLength m)) = Some bs" "bs \<noteq> []" "TimeFunc m = Some tf"
    and "RefreshResponse m = Some hr"
  shows "\<exists>c1 t s'. refreshIssue registered sign rnd ops now m c data s = Some (hr c1 now t, s') \<and>
    RefreshToken t = b64url bs \<and> AccessToken t = acc \<and> inv s' \<and>
    live s' = (live s)(b64url bs \<mapsto> (data, tf now + RefreshTokenTimeout m), extractRefreshToken c := None)"
proof -
  obtain s' t where 1: "TokenGeneratorWithRevocation registered sign rnd ops now m data (extractRefreshToken c) s = Some (s', Inr t)"
    "RefreshToken t = b64url bs" "AccessToken t = acc" "inv s'"
    "live s' = (live s)(b64url bs \<mapsto> (data, tf now + RefreshTokenTimeout m), extractRefreshToken c := None)"
    using rotate_tokens [of s registered sign now m data acc ex rnd bs tf "extractRefreshToken c", OF assms(1-6)] by blast
  have "\<exists>c1. SetCookie now m c (AccessToken t) = Some c1" using assms(6) by (simp add: SetCookie_def)
  then obtain c1 where "SetCookie now m c (AccessToken t) = Some c1" by blast
  then have "refreshIssue registered sign rnd ops now m c data s = Some (hr c1 now t, s')"
    using 1(1) assms(7) by (simp add: refreshIssue_def)
  then show ?thesis using 1 by blast
qed

lemma refreshValidate_live:
  assumes "inv s" "extractRefreshToken c \<noteq> []" "live s (extractRefreshToken c) = Some (u, e)" "now \<le> e"
  shows "refreshValidate ops now m c s = Some (s, Inr u)"
  using validate_live [OF assms] assms(2) by (simp add: refreshValidate_def)

lemma RefreshHandler_dead:
  assumes "inv s" "extractRefreshToken c \<noteq> []" "live s (extractRefreshToken c) = None"
    and "HTTPStatusMessageFunc m = Some hm" "UnauthorizedH m = Some hu"
  shows "\<exists>c1 e s'. RefreshHandler registered sign rnd ops now m c s = Some (hu c1 401 (hm c e), s') \<and> inv s' \<and> live s' = live s"
proof -
  obtain s' e where "validateRefreshToken ops now (extractRefreshToken c) s = (s', Inl e)" "inv s'" "live s' = live s"
    using validate_dead [OF assms(1,3)] by blast
  then show ?thesis using assms(2,4,5)
    by (auto simp: RefreshHandler_def refreshValidate_def failWith_def unauthorized_def Let_def)
qed

end

interpretation memr: refresh_store memOps memLive memInv ..

text \<open>
  C13: A refresh token works once when requests come one after the other. A refresh with a live token
  answers with a new pair for the same user and keeps every other token; from then on a refresh with
  the old token is answered with 401, at any time and without touching the store, while the new
  token is live until its own expiry.
\<close>
theorem jwt_refresh_single_use:
  assumes s: "memInv s" "memLive s old = Some (data, e)" "now \<le> e"
    and c: "extractRefreshToken c = old" "extractRefreshToken c2 = old" "old \<noteq> []"
    and gen: "generateAccessToken registered sign now m data = Some (Inr (acc, ex))"
    and rnd: "0 \<le> RefreshTokenLength m" "rnd (nat (RefreshTokenLength m)) = Some bs" "bs \<noteq> []" "b64url bs \<noteq> old"
    and hooks: "TimeFunc m = Some tf" "RefreshResponse m = Some hr" "HTTPStatusMessageFunc m = Some hm" "UnauthorizedH m = Some hu"
  shows "\<exists>c1 t s1. RefreshHandler registered sign rnd memOps now m c s = Some (hr c1 now t, s1) \<and>
    AccessToken t = acc \<and> RefreshToken t = b64url bs \<and> memInv s1 \<and>
    memLive s1 = (memLive s)(b64url bs \<mapsto> (data, tf now + RefreshTokenTimeout m), old := None) \<and>
    (\<forall>now'. \<exists>c3 er s2. RefreshHandler registered sign rnd memOps now' m c2 s1 = Some (hu c3 401 (hm c2 er), s2) \<and>
       memLive s2 = memLive s1)"
proof -
  have v: "refreshValidate memOps now m c s = Some (s, Inr data)"
    using memr.refreshValidate_live [OF s(1), of c data e now] s c by simp
  obtain c1 t s1 where 1: "refreshIssue registered sign rnd memOps now m c data s = Some (hr c1 now t, s1)"
    "RefreshToken t = b64url bs" "AccessToken t = acc" "memInv s1"
    "memLive s1 = (memLive s)(b64url bs \<mapsto> (data, tf now + RefreshTokenTimeout m), old := None)"
    using memr.refreshIssue_ok [of s registered sign now m data acc ex rnd bs tf hr c, OF s(1) gen rnd(1-3) hooks(1,2)] c(1)
    by blast
  have "memLive s1 (extractRefreshToken c2) = None" "extractRefreshToken c2 \<noteq> []" using 1(5) c(2,3) by simp_all
  then have "\<exists>c3 er s2. RefreshHandler registered sign rnd memOps now' m c2 s1 = Some (hu c3 401 (hm c2 er), s2) \<and>
      memLive s2 = memLive s1" for now'
    using memr.RefreshHandler_dead [OF 1(4), of c2 m hm hu registered sign rnd now'] hooks(3,4) by blast
  then show ?thesis using 1 v by (auto simp: RefreshHandler_def)
qed

text \<open>
  Two requests that overlap can both spend the same refresh token: the handler looks the token up,
  and only later deletes it, and a token that is already gone is not an error. Whenever the second
  request validates the token before the first one has issued its pair, both are answered with a new
  pair and both new refresh tokens are live.
\<close>
theorem jwt_refresh_race:
  assumes s: "memInv s" "memLive s old = Some (data, e)" "now1 \<le> e" "now2 \<le> e"
    and c: "extractRefreshToken ca = old" "extractRefreshToken cb = old" "old \<noteq> []"
    and gen: "generateAccessToken registered sign now1 m data = Some (Inr (acc1, ex1))"
      "generateAccessToken registered sign now2 m data = Some (Inr (acc2, ex2))"
    and rnd: "0 \<le> RefreshTokenLength m" "rnd1 (nat (RefreshTokenLength m)) = Some bs1" "bs1 \<noteq> []"
      "rnd2 (nat (RefreshTokenLength m)) = Some bs2" "bs2 \<noteq> []"
      "b64url bs1 \<noteq> b64url bs2" "b64url bs1 \<noteq> old" "b64url bs2 \<noteq> old"
    and hooks: "TimeFunc m = Some tf" "RefreshResponse m = Some hr"
  shows "refreshValidate memOps now1 m ca s = Some (s, Inr data) \<and> refreshValidate memOps now2 m cb s = Some (s, Inr data) \<and>
    (\<exists>c1 t1 s1 c2 t2 s2.
       refreshIssue registered sign rnd1 memOps now1 m ca data s = Some (hr c1 now1 t1, s1) \<and>
       refreshIssue registered sign rnd2 memOps now2 m cb data s1 = Some (hr c2 now2 t2, s2) \<and>
       memLive s2 (RefreshToken t1) = Some (data, tf now1 + RefreshTokenTimeout m) \<and>
       memLive s2 (RefreshToken t2) = Some (data, tf now2 + RefreshTokenTimeout m) \<and> RefreshToken t1 \<noteq> RefreshToken t2)"
proof -
  have v: "refreshValidate memOps now1 m ca s = Some (s, Inr data)" "refreshValidate memOps now2 m cb s = Some (s, Inr data)"
    using memr.refreshValidate_live [OF s(1), of ca data e now1] memr.refreshValidate_live [OF s(1), of cb data e now2] s c
    by simp_all
  obtain c1 t1 s1 where 1: "refreshIssue registered sign rnd1 memOps now1 m ca data s = Some (hr c1 now1 t1, s1)"
    "RefreshToken t1 = b64url bs1" "memInv s1"
    "memLive s1 = (memLive s)(b64url bs1 \<mapsto> (data, tf now1 + RefreshTokenTimeout m), old := None)"
    using memr.refreshIssue_ok [of s registered sign now1 m data acc1 ex1 rnd1 bs1 tf hr ca, OF s(1) gen(1) rnd(1-3) hooks] c(1)
    by blast
  obtain c2 t2 s2 where 2: "refreshIssue registered sign rnd2 memOps now2 m cb data s1 = Some (hr c2 now2 t2, s2)"
    "RefreshToken t2 = b64url bs2" "memInv s2"
    "memLive s2 = (memLive s1)(b64url bs2 \<mapsto> (data, tf now2 + RefreshTokenTimeout m), old := None)"
    using memr.refreshIssue_ok [of s1 registered sign now2 m data acc2 ex2 rnd2 bs2 tf hr cb, OF 1(3) gen(2) rnd(1,4,5) hooks] c(2)
    by blast
  have "memLive s2 (RefreshToken t1) = Some (data, tf now1 + RefreshTokenTimeout m)"
    "memLive s2 (RefreshToken t2) = Some (data, tf now2 + RefreshTokenTimeout m)" "RefreshToken t1 \<noteq> RefreshToken t2"
    using 1 2 rnd by simp_all
  then show ?thesis using v 1(1) 2(1) by blast
qed

definition demoStore :: "unit any memStore" where
  "demoStore = [(''rt'', \<lparr>UserData = AStr ''ann'', Expiry = 100, Created = 0\<rparr>)]"

definition demoRnd :: "char \<Rightarrow> nat \<Rightarrow> string option" where
  "demoRnd ch n = Some (replicate n ch)"

lemma demoStore_inv: "memInv demoStore" "memLive demoStore ''rt'' = Some (AStr ''ann'', 100)"
  by (simp_all add: demoStore_def memInv_def memLive_def)

lemma demo_extract: "extractRefreshToken demoCtx = ''rt''"
  by (simp add: extractRefreshToken_def demoCtx_def)

lemma demo_gen: "generateAccessToken HS demoSign now demoMw data = Some (Inr (''good'', now + 3600 * nanos))"
  by (simp add: generateAccessToken_def signingMethod_def HS_def demoMw_hooks signedString_def demoSign_def Let_def)

lemma b64url_length: "length s \<le> length (b64url s)"
  by (induction s rule: b64url.induct) simp_all

lemma hd_b64url: "s \<noteq> [] \<Longrightarrow> hd (b64url s) = b64char (byte (hd s) div 4)"
  by (cases s rule: b64url.cases) simp_all

lemma demo_b64: "b64url (replicate 32 ch) \<noteq> ''rt''"
  using b64url_length [of "replicate 32 ch"] by auto

theorem jwt_refresh_single_use_witness:
  "\<exists>c1 s1. RefreshHandler HS demoSign (demoRnd CHR ''x'') memOps 7 demoMw demoCtx demoStore = Some (c1, s1) \<and>
     memLive s1 ''rt'' = None"
proof -
  show ?thesis
    using jwt_refresh_single_use [OF demoStore_inv _ demo_extract demo_extract _ demo_gen _ _ _ demo_b64
      demoMw_hooks(3,5,2,1), where rnd = "demoRnd CHR ''x''" and now = 7]
    by (auto simp: demoMw_hooks demoRnd_def)
qed

theorem jwt_refresh_race_witness:
  "\<exists>c1 t1 s1 c2 t2 s2.
     refreshIssue HS demoSign (demoRnd CHR ''x'') memOps 7 demoMw demoCtx (AStr ''ann'') demoStore = Some (c1, s1) \<and>
     refreshIssue HS demoSign (demoRnd CHR ''A'') memOps 8 demoMw demoCtx (AStr ''ann'') s1 = Some (c2, s2) \<and>
     memLive s2 t1 \<noteq> None \<and> memLive s2 t2 \<noteq> None \<and> t1 \<noteq> t2"
proof -
  have "b64char (byte CHR ''x'' div 4) \<noteq> b64char (byte CHR ''A'' div 4)" by code_simp
  then have n: "b64url (replicate 32 CHR ''x'') \<noteq> b64url (replicate 32 CHR ''A'')"
    using hd_b64url [of "replicate 32 CHR ''x''"] hd_b64url [of "replicate 32 CHR ''A''"] by (metis hd_replicate
      replicate_empty zero_neq_numeral)
  obtain c1 t1 s1 c2 t2 s2 where
    "refreshIssue HS demoSign (demoRnd CHR ''x'') memOps 7 demoMw demoCtx (AStr ''ann'') demoStore =
       Some (ctxReply (TokenReply (generateTokenResponse 7 t1)) c1, s1)"
    "refreshIssue HS demoSign (demoRnd CHR ''A'') memOps 8 demoMw demoCtx (AStr ''ann'') s1 =
       Some (ctxReply (TokenReply (generateTokenResponse 8 t2)) c2, s2)"
    "memLive s2 (RefreshToken t1) = Some (AStr ''ann'', 7 + 2592000 * nanos)"
    "memLive s2 (RefreshToken t2) = Some (AStr ''ann'', 8 + 2592000 * nanos)" "RefreshToken t1 \<noteq> RefreshToken t2"
    using jwt_refresh_race [OF demoStore_inv _ _ demo_extract demo_extract _ demo_gen demo_gen _ _ _ _ _ n demo_b64 demo_b64
      demoMw_hooks(3,5), where ?rnd1.0 = "demoRnd CHR ''x''" and ?rnd2.0 = "demoRnd CHR ''A''" and ?now1.0 = 7 and ?now2.0 = 8]
    by (auto simp: demoMw_hooks demoRnd_def)
  then show ?thesis by (metis option.distinct(1))
qed

end
