(* ===== verification/SseHub.thy ===== *)
theory SseHub
  imports Prelude "HOL-Library.AList"
begin

text \<open>
  Package \<open>pkg/sse\<close>, server side: \<open>hub.go\<close>, \<open>server.go\<close> (\<open>Serve\<close> and the client connections), \<open>safemap.go\<close>,
  \<open>event.go\<close>, \<open>task.go\<close>.

  The hub is a state machine. Its state \<open>hub\<close> holds the registered clients, the broadcast channel, the
  tasks of the pool and the client connections, each with its own bounded channel; a connection is
  named by its position in the list. The goroutines of the source are the step relation \<open>hstep\<close>:
  \<^item> \<open>run\<close> takes one message at a time; a send to a full client channel is the state \<open>pend\<close>, during which
    nothing else is taken, with its three attempts of five seconds;
  \<^item> a push puts the event into the broadcast channel or, when it is full, into a task;
  \<^item> a connection registers, reads its channel, and unregisters when it leaves.
  A send on a closed channel and a second close are the outcome \<open>Crash\<close>; an operation that cannot go on
  is \<open>Blocked\<close>. The store and the identifiers generated are arguments. Counters do not wrap.
\<close>

section \<open>Events and statistics\<close>

record 'd event =
  evID :: string
  evType :: string
  evData :: "'d option"

datatype sseError = InvalidEvent | InvalidData | EventsEmpty | CheckFailed sseError | SaveFailed string

definition evCheckValid :: "'d event \<Rightarrow> sseError option" where
  "evCheckValid e = (if evType e = [] then Some InvalidEvent else if evData e = None then Some InvalidData else None)"

definition CloseEvent :: "(string \<Rightarrow> 'd) \<Rightarrow> 'd event" where
  "CloseEvent str = \<lparr>evID = [], evType = ''close'', evData = Some (str ''server closed connection, do not retry'')\<rparr>"

record 'd userEvent =
  ueUID :: string
  ueEvent :: "'d event"

record pushStats =
  psTotal :: nat
  psSuccess :: nat
  psFailed :: nat
  psTimeout :: nat

definition IncTotal :: "pushStats \<Rightarrow> pushStats" where
  "IncTotal s = s\<lparr>psTotal := psTotal s + 1\<rparr>"

definition IncSuccess :: "pushStats \<Rightarrow> pushStats" where
  "IncSuccess s = s\<lparr>psSuccess := psSuccess s + 1\<rparr>"

definition IncFailed :: "pushStats \<Rightarrow> pushStats" where
  "IncFailed s = s\<lparr>psFailed := psFailed s + 1\<rparr>"

definition IncTimeout :: "pushStats \<Rightarrow> pushStats" where
  "IncTimeout s = s\<lparr>psTimeout := psTimeout s + 1\<rparr>"

definition Snapshot :: "pushStats \<Rightarrow> nat \<times> nat \<times> nat \<times> nat" where
  "Snapshot s = (psTotal s, psSuccess s, psFailed s, psTimeout s)"

section \<open>The map of clients\<close>

type_synonym safeMap = "(string \<times> nat) list"

definition smSet :: "string \<Rightarrow> nat \<Rightarrow> safeMap \<Rightarrow> safeMap" where
  "smSet uid c m = AList.update uid c m"

definition smGet :: "string \<Rightarrow> safeMap \<Rightarrow> nat option" where
  "smGet uid m = map_of m uid"

definition smDelete :: "string \<Rightarrow> safeMap \<Rightarrow> safeMap" where
  "smDelete uid m = AList.delete uid m"

definition smHas :: "string \<Rightarrow> safeMap \<Rightarrow> bool" where
  "smHas uid m \<longleftrightarrow> map_of m uid \<noteq> None"

definition smKeys :: "safeMap \<Rightarrow> string list" where
  "smKeys m = map fst m"

definition smValues :: "safeMap \<Rightarrow> nat list" where
  "smValues m = map snd m"

definition smLen :: "safeMap \<Rightarrow> nat" where
  "smLen m = length m"

definition smClear :: "safeMap \<Rightarrow> safeMap" where
  "smClear m = []"

section \<open>The hub\<close>

text \<open>Where the goroutine of a connection is.\<close>

datatype phase = Arriving | Streaming | Leaving | Gone

record 'd conn =
  cUID :: string
  cBuf :: "'d event list"
  cClosed :: bool
  cSentClose :: bool
  cPhase :: phase
  cOut :: "'d event list"

record 'd hub =
  clients :: safeMap
  broadcast :: "'d userEvent list"
  taskPool :: "('d userEvent \<times> nat) list"
  pend :: "(nat \<times> 'd userEvent \<times> nat) option"
  PushStats :: pushStats
  conns :: "'d conn list"
  stopped :: bool
  saved :: "'d event list"
  failures :: "(string \<times> 'd event) list"
  pushBufferSize :: nat
  hasStore :: bool
  hasFailedFn :: bool

datatype 'h eff = Done 'h | Blocked | Crash

definition maxRetry :: nat where
  "maxRetry = 3"

record hubOptions =
  oStore :: bool
  oResend :: bool
  oBuffer :: int
  oFailedFn :: bool
  oWorkers :: int

definition defaultHubOptions :: hubOptions where
  "defaultHubOptions = \<lparr>oStore = False, oResend = False, oBuffer = 1000, oFailedFn = False, oWorkers = 10\<rparr>"

definition WithStore :: "bool \<Rightarrow> hubOptions \<Rightarrow> hubOptions" where
  "WithStore st h = h\<lparr>oStore := st\<rparr>"

definition WithEnableResendEvents :: "hubOptions \<Rightarrow> hubOptions" where
  "WithEnableResendEvents h = h\<lparr>oResend := True\<rparr>"

definition WithPushBufferSize :: "int \<Rightarrow> hubOptions \<Rightarrow> hubOptions" where
  "WithPushBufferSize n h = (if n \<le> 0 then h else h\<lparr>oBuffer := n\<rparr>)"

definition WithPushFailedHandleFn :: "bool \<Rightarrow> hubOptions \<Rightarrow> hubOptions" where
  "WithPushFailedHandleFn fn h = h\<lparr>oFailedFn := fn\<rparr>"

definition WithWorkerNum :: "int \<Rightarrow> hubOptions \<Rightarrow> hubOptions" where
  "WithWorkerNum n h = (if n \<le> 0 then h else h\<lparr>oWorkers := n\<rparr>)"

definition NewHub :: "(hubOptions \<Rightarrow> hubOptions) list \<Rightarrow> 'd hub" where
  "NewHub opts =
     (let o1 = applyOpts opts defaultHubOptions in
      \<lparr>clients = [], broadcast = [], taskPool = [], pend = None,
       PushStats = \<lparr>psTotal = 0, psSuccess = 0, psFailed = 0, psTimeout = 0\<rparr>,
       conns = [], stopped = False, saved = [], failures = [], pushBufferSize = nat (oBuffer o1),
       hasStore = oStore o1, hasFailedFn = oFailedFn o1\<rparr>)"

definition updConn :: "nat \<Rightarrow> ('d conn \<Rightarrow> 'd conn) \<Rightarrow> 'd hub \<Rightarrow> 'd hub" where
  "updConn c f h = h\<lparr>conns := (conns h)[c := f (conns h ! c)]\<rparr>"

text \<open>\<open>run\<close> can take a message when it was not stopped and is not inside \<open>trySendWithTimeout\<close>.\<close>

definition runReady :: "'d hub \<Rightarrow> bool" where
  "runReady h \<longleftrightarrow> \<not> stopped h \<and> pend h = None"

definition runRegister :: "nat \<Rightarrow> 'd hub \<Rightarrow> 'd hub eff" where
  "runRegister c h =
     (if \<not> runReady h then Blocked
      else Done (h\<lparr>clients := smSet (cUID (conns h ! c)) c (clients h)\<rparr>))"

definition runUnregister :: "nat \<Rightarrow> 'd hub \<Rightarrow> 'd hub eff" where
  "runUnregister c h =
     (if \<not> runReady h then Blocked
      else (let uid = cUID (conns h ! c) in
            if smHas uid (clients h) then
              (let h1 = h\<lparr>clients := smDelete uid (clients h)\<rparr> in
               if cClosed (conns h1 ! c) then Crash else Done (updConn c (cClosed_update (\<lambda>_. True)) h1))
            else Done h))"

text \<open>\<open>cli.Send <- e\<close> when it can go on at once.\<close>

definition chanSend :: "nat \<Rightarrow> 'd event \<Rightarrow> 'd hub \<Rightarrow> 'd hub eff" where
  "chanSend c e h =
     (if cClosed (conns h ! c) then Crash
      else if length (cBuf (conns h ! c)) < pushBufferSize h
      then Done (updConn c (cBuf_update (\<lambda>b. b @ [e])) h)
      else Blocked)"

definition runBroadcast :: "'d hub \<Rightarrow> 'd hub eff" where
  "runBroadcast h =
     (if \<not> runReady h then Blocked
      else (case broadcast h of
              [] \<Rightarrow> Blocked
            | ue # rest \<Rightarrow>
               (let h1 = h\<lparr>broadcast := rest\<rparr> in
                case smGet (ueUID ue) (clients h1) of
                  None \<Rightarrow> Done h1
                | Some c \<Rightarrow>
                   (case chanSend c (ueEvent ue) h1 of
                      Blocked \<Rightarrow> Done (h1\<lparr>pend := Some (c, ue, 0)\<rparr>)
                    | r \<Rightarrow> r))))"

text \<open>The failure branch that both retry loops end in.\<close>

definition giveUp :: "'d userEvent \<Rightarrow> 'd hub \<Rightarrow> 'd hub" where
  "giveUp ue h =
     (let h1 = h\<lparr>PushStats := IncFailed (PushStats h)\<rparr> in
      if hasFailedFn h1 then h1\<lparr>failures := failures h1 @ [(ueUID ue, ueEvent ue)]\<rparr> else h1)"

definition addTimeout :: "'d hub \<Rightarrow> 'd hub" where
  "addTimeout h = h\<lparr>PushStats := IncTimeout (PushStats h)\<rparr>"

text \<open>\<open>trySendWithTimeout\<close>: the send succeeds, or the timer of the current attempt fires.\<close>

definition trySend :: "'d hub \<Rightarrow> 'd hub eff" where
  "trySend h =
     (case pend h of
        None \<Rightarrow> Blocked
      | Some (c, ue, i) \<Rightarrow>
         (case chanSend c (ueEvent ue) h of Done h1 \<Rightarrow> Done (h1\<lparr>pend := None\<rparr>) | r \<Rightarrow> r))"

definition trySendTimeout :: "'d hub \<Rightarrow> 'd hub eff" where
  "trySendTimeout h =
     (case pend h of
        None \<Rightarrow> Blocked
      | Some (c, ue, i) \<Rightarrow>
         (let h1 = addTimeout h in
          Done (if i + 1 < maxRetry then h1\<lparr>pend := Some (c, ue, i + 1)\<rparr> else (giveUp ue h1)\<lparr>pend := None\<rparr>)))"

text \<open>\<open>tryPushWithTimeout\<close> of the task at position \<open>k\<close> of the pool.\<close>

definition dropAt :: "nat \<Rightarrow> 'a list \<Rightarrow> 'a list" where
  "dropAt k xs = take k xs @ drop (Suc k) xs"

definition tryPush :: "nat \<Rightarrow> 'd hub \<Rightarrow> 'd hub eff" where
  "tryPush k h =
     (if k < length (taskPool h) \<and> length (broadcast h) < pushBufferSize h
      then Done (h\<lparr>broadcast := broadcast h @ [fst (taskPool h ! k)], taskPool := dropAt k (taskPool h)\<rparr>)
      else Blocked)"

definition tryPushTimeout :: "nat \<Rightarrow> 'd hub \<Rightarrow> 'd hub eff" where
  "tryPushTimeout k h =
     (if k < length (taskPool h) then
        (let (ue, i) = taskPool h ! k; h1 = addTimeout h in
         Done (if i + 1 < maxRetry then h1\<lparr>taskPool := (taskPool h1)[k := (ue, i + 1)]\<rparr>
               else (giveUp ue h1)\<lparr>taskPool := dropAt k (taskPool h1)\<rparr>))
      else Blocked)"

section \<open>Pushing\<close>

definition pushOne :: "'d userEvent \<Rightarrow> 'd hub \<Rightarrow> 'd hub" where
  "pushOne ue h =
     (let h1 = h\<lparr>PushStats := IncTotal (PushStats h)\<rparr> in
      if length (broadcast h1) < pushBufferSize h1 then h1\<lparr>broadcast := broadcast h1 @ [ue]\<rparr>
      else h1\<lparr>taskPool := taskPool h1 @ [(ue, 0)]\<rparr>)"

definition pushTo :: "'d event \<Rightarrow> string list \<Rightarrow> 'd hub \<Rightarrow> 'd hub" where
  "pushTo e uids h =
     foldl (\<lambda>h uid. if \<not> smHas uid (clients h) then h else pushOne \<lparr>ueUID = uid, ueEvent = e\<rparr> h) h uids"

definition pushAll :: "'d event \<Rightarrow> 'd hub \<Rightarrow> 'd hub" where
  "pushAll e h = foldl (\<lambda>h uid. pushOne \<lparr>ueUID = uid, ueEvent = e\<rparr> h) h (smKeys (clients h))"

text \<open>\<open>newID\<close> gives the identifier of the n-th event without one, \<open>save\<close> the answer of the store.\<close>

fun pushEvents :: "(nat \<Rightarrow> string) \<Rightarrow> ('d event \<Rightarrow> string option) \<Rightarrow> string list \<Rightarrow> nat \<Rightarrow> 'd event list \<Rightarrow> 'd hub \<Rightarrow>
    'd hub \<times> sseError option" where
  "pushEvents newID save uids n [] h = (h, None)"
| "pushEvents newID save uids n (e0 # es) h =
     (case evCheckValid e0 of
        Some er \<Rightarrow> (h, Some (CheckFailed er))
      | None \<Rightarrow>
         (let e = (if evID e0 = [] then e0\<lparr>evID := newID n\<rparr> else e0) in
          case (if hasStore h then save e else None) of
            Some er \<Rightarrow> (h, Some (SaveFailed er))
          | None \<Rightarrow>
             (let h1 = (if hasStore h then h\<lparr>saved := saved h @ [e]\<rparr> else h);
                  h2 = (if uids \<noteq> [] then pushTo e uids h1 else pushAll e h1)
              in pushEvents newID save uids (Suc n) es h2)))"

definition Push :: "(nat \<Rightarrow> string) \<Rightarrow> ('d event \<Rightarrow> string option) \<Rightarrow> string list \<Rightarrow> 'd event list \<Rightarrow> 'd hub \<Rightarrow>
    'd hub \<times> sseError option" where
  "Push newID save uids events h =
     (if events = [] then (h, Some EventsEmpty) else pushEvents newID save uids 0 events h)"

definition PushHeartBeat :: "string \<Rightarrow> 'd hub \<Rightarrow> 'd hub" where
  "PushHeartBeat uid h = pushOne \<lparr>ueUID = uid, ueEvent = \<lparr>evID = [], evType = ''heartbeat'', evData = None\<rparr>\<rparr> h"

definition OnlineClientsNum :: "'d hub \<Rightarrow> nat" where
  "OnlineClientsNum h = smLen (clients h)"

section \<open>Connections\<close>

text \<open>\<open>Serve\<close> creates the connection; it waits until \<open>run\<close> takes its registration.\<close>

definition serveOpen :: "string \<Rightarrow> 'd hub \<Rightarrow> 'd hub" where
  "serveOpen uid h = h\<lparr>conns := conns h @ [\<lparr>cUID = uid, cBuf = [], cClosed = False, cSentClose = False,
     cPhase = Arriving, cOut = []\<rparr>]\<rparr>"

definition serveRegister :: "nat \<Rightarrow> 'd hub \<Rightarrow> 'd hub eff" where
  "serveRegister c h =
     (case runRegister c h of Done h1 \<Rightarrow> Done (updConn c (cPhase_update (\<lambda>_. Streaming)) h1) | r \<Rightarrow> r)"

text \<open>
  One turn of the stream function: an event is received, encoded and written, or the channel is found
  closed and empty, or the client is gone. The outcome of \<open>sendEvent\<close> is an argument: the close event is
  noted after the encoding and before the write.
\<close>

datatype sendRes = Sent | WriteFailed | MarshalFailed

definition sendEventTo :: "nat \<Rightarrow> 'd event \<Rightarrow> sendRes \<Rightarrow> 'd hub \<Rightarrow> 'd hub" where
  "sendEventTo c e r h =
     updConn c (\<lambda>x. if r = MarshalFailed then x
                    else (let x1 = (if evType e = ''close'' then x\<lparr>cSentClose := True\<rparr> else x) in
                          if r = Sent then x1\<lparr>cOut := cOut x1 @ [e]\<rparr> else x1)) h"

definition serveReceive :: "nat \<Rightarrow> sendRes \<Rightarrow> 'd hub \<Rightarrow> 'd hub eff" where
  "serveReceive c r h =
     (case cBuf (conns h ! c) of
        e # rest \<Rightarrow>
          (let h1 = sendEventTo c e r (updConn c (cBuf_update (\<lambda>_. rest)) h) in
           Done (if r = Sent then h1\<lparr>PushStats := IncSuccess (PushStats h1)\<rparr>
                 else updConn c (cPhase_update (\<lambda>_. Leaving)) (h1\<lparr>PushStats := IncFailed (PushStats h1)\<rparr>)))
      | [] \<Rightarrow> if cClosed (conns h ! c) then Done (updConn c (cPhase_update (\<lambda>_. Leaving)) h) else Blocked)"

definition serveLeave :: "nat \<Rightarrow> 'd hub \<Rightarrow> 'd hub" where
  "serveLeave c h = updConn c (cPhase_update (\<lambda>_. Leaving)) h"

definition serveUnregister :: "nat \<Rightarrow> 'd hub \<Rightarrow> 'd hub eff" where
  "serveUnregister c h =
     (case runUnregister c h of Done h1 \<Rightarrow> Done (updConn c (cPhase_update (\<lambda>_. Gone)) h1) | r \<Rightarrow> r)"

text \<open>
  \<open>resendEvents\<close>: \<open>listBy eventType lastID\<close> is the answer of the store, a page with the next identifier
  or an error; \<open>res\<close> is the outcome of each \<open>sendEvent\<close>. The loop ends with an empty page, an error or an empty next
  identifier; a store that never ends runs out of \<open>fuel\<close>.
\<close>

definition resendOne :: "('d event \<Rightarrow> sendRes) \<Rightarrow> nat \<Rightarrow> 'd hub \<Rightarrow> 'd event \<Rightarrow> 'd hub" where
  "resendOne res c h e =
     (let h' = sendEventTo c e (res e) h in
      if res e \<noteq> Sent \<and> hasFailedFn h' then h'\<lparr>failures := failures h' @ [(cUID (conns h' ! c), e)]\<rparr> else h')"

fun resendLoop :: "(string \<Rightarrow> ('d event list \<times> string) option) \<Rightarrow> ('d event \<Rightarrow> sendRes) \<Rightarrow> nat \<Rightarrow> nat \<Rightarrow> string \<Rightarrow> 'd hub \<Rightarrow>
    'd hub option" where
  "resendLoop listBy res 0 c lastID h = None"
| "resendLoop listBy res (Suc fuel) c lastID h =
     (case listBy lastID of
        None \<Rightarrow> Some h
      | Some ([], nextID) \<Rightarrow> Some h
      | Some (events, nextID) \<Rightarrow>
         (let h1 = foldl (resendOne res c) h events
          in if nextID = [] then Some h1 else resendLoop listBy res fuel c nextID h1))"

definition resendEvents :: "(string \<Rightarrow> string \<Rightarrow> ('d event list \<times> string) option) \<Rightarrow> ('d event \<Rightarrow> sendRes) \<Rightarrow> nat \<Rightarrow>
    nat \<Rightarrow> string \<Rightarrow> string \<Rightarrow> 'd hub \<Rightarrow> 'd hub option" where
  "resendEvents listBy res fuel c eventType lastID h =
     (if \<not> hasStore h then Some h else resendLoop (listBy eventType) res fuel c lastID h)"

text \<open>
  \<open>Close\<close>: the sweep over the clients that were sent the close event, and the end of \<open>run\<close>.
\<close>

fun closeSweep :: "(string \<times> nat) list \<Rightarrow> 'd hub \<Rightarrow> 'd hub eff" where
  "closeSweep [] h = Done h"
| "closeSweep ((uid, c) # xs) h =
     (if cSentClose (conns h ! c) \<and> smHas (cUID (conns h ! c)) (clients h) then
        (if cClosed (conns h ! c) then Crash
         else closeSweep xs (updConn c (cClosed_update (\<lambda>_. True))
                               (h\<lparr>clients := smDelete (cUID (conns h ! c)) (clients h)\<rparr>)))
      else closeSweep xs h)"

definition hubSweep :: "'d hub \<Rightarrow> 'd hub eff" where
  "hubSweep h = closeSweep (clients h) h"

definition hubStop :: "'d hub \<Rightarrow> 'd hub" where
  "hubStop h = h\<lparr>stopped := True\<rparr>"

section \<open>Steps and reachable states\<close>

inductive hstep :: "'d hub \<Rightarrow> 'd hub eff \<Rightarrow> bool" where
  connect: "uid \<noteq> [] \<Longrightarrow> hstep h (Done (serveOpen uid h))"
| register: "c < length (conns h) \<Longrightarrow> cPhase (conns h ! c) = Arriving \<Longrightarrow> hstep h (serveRegister c h)"
| deliver: "hstep h (runBroadcast h)"
| send: "hstep h (trySend h)"
| sendTimeout: "hstep h (trySendTimeout h)"
| task: "hstep h (tryPush k h)"
| taskTimeout: "hstep h (tryPushTimeout k h)"
| push: "hstep h (Done (fst (Push newID save uids events h)))"
| beat: "hstep h (Done (PushHeartBeat uid h))"
| receive: "c < length (conns h) \<Longrightarrow> cPhase (conns h ! c) = Streaming \<Longrightarrow> hstep h (serveReceive c r h)"
| resend: "c < length (conns h) \<Longrightarrow> cPhase (conns h ! c) = Streaming \<Longrightarrow>
    resendEvents listBy res fuel c eventType lastID h = Some h' \<Longrightarrow> hstep h (Done h')"
| leave: "c < length (conns h) \<Longrightarrow> cPhase (conns h ! c) = Streaming \<Longrightarrow> hstep h (Done (serveLeave c h))"
| unregister: "c < length (conns h) \<Longrightarrow> cPhase (conns h ! c) = Leaving \<Longrightarrow> hstep h (serveUnregister c h)"
| stop: "hstep h (Done (hubStop h))"

inductive reach :: "(hubOptions \<Rightarrow> hubOptions) list \<Rightarrow> 'd hub \<Rightarrow> bool" for opts where
  start: "reach opts (NewHub opts)"
| step: "reach opts h \<Longrightarrow> hstep h (Done h') \<Longrightarrow> reach opts h'"

text \<open>The events that were pushed and are still on their way.\<close>

definition inFlightEvents :: "'d hub \<Rightarrow> nat" where
  "inFlightEvents h = length (broadcast h) + length (taskPool h) + (case pend h of None \<Rightarrow> 0 | Some _ \<Rightarrow> 1) +
     sum_list (map (\<lambda>x. length (cBuf x)) (conns h))"

definition connsOK :: "nat \<Rightarrow> 'd conn list \<Rightarrow> bool" where
  "connsOK cap cs \<longleftrightarrow> (\<forall>x\<in>set cs. (cClosed x \<longrightarrow> cPhase x = Gone) \<and> length (cBuf x) \<le> cap)"

definition alive :: "'d conn \<Rightarrow> bool" where
  "alive x \<longleftrightarrow> cPhase x = Streaming \<or> cPhase x = Leaving"

definition clientsOK :: "safeMap \<Rightarrow> 'd conn list \<Rightarrow> bool" where
  "clientsOK m cs \<longleftrightarrow> distinct (map fst m) \<and>
     (\<forall>uid c. (uid, c) \<in> set m \<longrightarrow> c < length cs \<and> cUID (cs ! c) = uid \<and> alive (cs ! c))"

definition pendOK :: "(nat \<times> 'd userEvent \<times> nat) option \<Rightarrow> 'd conn list \<Rightarrow> bool" where
  "pendOK p cs \<longleftrightarrow> (case p of None \<Rightarrow> True
     | Some (c, ue, i) \<Rightarrow> c < length cs \<and> alive (cs ! c) \<and> i < maxRetry)"

definition counted :: "'d hub \<Rightarrow> bool" where
  "counted h \<longleftrightarrow> psSuccess (PushStats h) + psFailed (PushStats h) + inFlightEvents h \<le> psTotal (PushStats h)"

definition hubInv :: "'d hub \<Rightarrow> bool" where
  "hubInv h \<longleftrightarrow> connsOK (pushBufferSize h) (conns h) \<and> clientsOK (clients h) (conns h) \<and> pendOK (pend h) (conns h) \<and>
     length (broadcast h) \<le> pushBufferSize h \<and> (\<forall>t\<in>set (taskPool h). snd t < maxRetry) \<and> counted h"

lemmas hub_defs = connsOK_def clientsOK_def pendOK_def counted_def inFlightEvents_def

lemma hubInv_NewHub: "hubInv (NewHub opts)"
  by (simp add: hubInv_def NewHub_def hub_defs Let_def)

subsection \<open>Updates of a connection\<close>

lemma connsOK_upd:
  assumes "connsOK cap cs" "c < length cs" "cClosed x \<longrightarrow> cPhase x = Gone" "length (cBuf x) \<le> cap"
  shows "connsOK cap (cs[c := x])"
  using assms set_update_subset_insert [of cs c x] unfolding connsOK_def by blast

lemma alive_upd: "alive x \<or> k \<noteq> c \<Longrightarrow> k < length cs \<Longrightarrow> alive (cs ! k) \<Longrightarrow> alive (cs[c := x] ! k)"
  by (cases "k = c") simp_all

lemma clientsOK_upd:
  assumes "clientsOK m cs" "cUID x = cUID (cs ! c)" "alive x \<or> (\<forall>uid. (uid, c) \<notin> set m)"
  shows "clientsOK m (cs[c := x])"
  unfolding clientsOK_def
proof (intro conjI allI impI)
  show "distinct (map fst m)" using assms(1) by (simp add: clientsOK_def)
next
  fix uid k
  assume k: "(uid, k) \<in> set m"
  then have *: "k < length cs" "cUID (cs ! k) = uid" "alive (cs ! k)" using assms(1) by (simp_all add: clientsOK_def)
  show "k < length (cs[c := x])" using *(1) by simp
  show "cUID (cs[c := x] ! k) = uid" using * assms(2) by (cases "k = c") simp_all
  show "alive (cs[c := x] ! k)" using * k assms(3) by (cases "k = c") auto
qed

lemma pendOK_upd:
  assumes "pendOK p cs" "alive x \<or> p = None"
  shows "pendOK p (cs[c := x])"
  using assms alive_upd [of x _ c cs] by (auto simp: pendOK_def split: option.splits)

lemma buf_sum_upd:
  assumes "c < length cs"
  shows "sum_list (map (\<lambda>x. length (cBuf x)) (cs[c := x])) + length (cBuf (cs ! c)) =
    sum_list (map (\<lambda>x. length (cBuf x)) cs) + length (cBuf x)"
proof -
  have "map (\<lambda>x. length (cBuf x)) (cs[c := x]) = (map (\<lambda>x. length (cBuf x)) cs)[c := length (cBuf x)]"
    by (rule map_update)
  moreover have "length (cBuf (cs ! c)) \<le> sum_list (map (\<lambda>x. length (cBuf x)) cs)"
    using elem_le_sum_list [of c "map (\<lambda>x. length (cBuf x)) cs"] assms by simp
  ultimately show ?thesis using assms by (simp add: sum_list_update)
qed

lemma conn_alive: "clientsOK m cs \<Longrightarrow> connsOK cap cs \<Longrightarrow> map_of m uid = Some c \<Longrightarrow>
    c < length cs \<and> \<not> cClosed (cs ! c) \<and> cUID (cs ! c) = uid \<and> alive (cs ! c)"
  unfolding clientsOK_def connsOK_def alive_def by (metis map_of_SomeD nth_mem phase.distinct(9,11))

lemma clientsOK_insert:
  assumes "clientsOK m cs" "c < length cs" "cUID (cs ! c) = uid" "alive (cs ! c)"
  shows "clientsOK (AList.update uid c m) cs"
  unfolding clientsOK_def
proof (intro conjI allI impI)
  show d: "distinct (map fst (AList.update uid c m))" using assms(1) by (simp add: clientsOK_def distinct_update)
  fix u k
  assume "(u, k) \<in> set (AList.update uid c m)"
  then have "map_of (AList.update uid c m) u = Some k" using d by (rule map_of_is_SomeI [rotated])
  then have "u = uid \<and> k = c \<or> map_of m u = Some k" by (auto simp: update_conv' split: if_splits)
  then show "k < length cs" "cUID (cs ! k) = u" "alive (cs ! k)"
    using assms by (auto simp: clientsOK_def dest: map_of_SomeD)
qed

lemma clientsOK_remove: "clientsOK m cs \<Longrightarrow> clientsOK (AList.delete uid m) cs"
  by (auto simp: clientsOK_def AList.delete_eq distinct_map_filter)

subsection \<open>Every operation keeps the invariant\<close>

lemma clientsOK_append: "clientsOK m cs \<Longrightarrow> clientsOK m (cs @ [x])"
  by (fastforce simp: clientsOK_def nth_append less_Suc_eq)

lemma pendOK_append: "pendOK p cs \<Longrightarrow> pendOK p (cs @ [x])"
  by (auto simp: pendOK_def nth_append split: option.splits)

lemma inv_open: "hubInv h \<Longrightarrow> hubInv (serveOpen uid h)"
  by (simp add: hubInv_def serveOpen_def clientsOK_append pendOK_append)
    (simp add: connsOK_def counted_def inFlightEvents_def)

lemma inv_register:
  assumes "hubInv h" "c < length (conns h)" "cPhase (conns h ! c) = Arriving"
  shows "serveRegister c h \<noteq> Crash \<and> (\<forall>h'. serveRegister c h = Done h' \<longrightarrow> hubInv h')"
proof (cases "runReady h")
  case True
  let ?x = "(conns h ! c)\<lparr>cPhase := Streaming\<rparr>"
  let ?cs = "(conns h)[c := ?x]"
  have i: "connsOK (pushBufferSize h) (conns h)" "clientsOK (clients h) (conns h)" "pendOK (pend h) (conns h)"
    using assms(1) by (simp_all add: hubInv_def)
  have ph: "cPhase ?x = Streaming" by simp
  have "\<not> cClosed (conns h ! c)" "length (cBuf (conns h ! c)) \<le> pushBufferSize h"
    using i(1) assms(2,3) by (auto simp: connsOK_def dest: nth_mem)
  then have 1: "connsOK (pushBufferSize h) ?cs" by (intro connsOK_upd [OF i(1) assms(2)]) simp_all
  have 2: "clientsOK (clients h) ?cs" "pendOK (pend h) ?cs"
    by (intro clientsOK_upd [OF i(2)] pendOK_upd [OF i(3)]; simp add: alive_def)+
  then have 3: "clientsOK (AList.update (cUID (conns h ! c)) c (clients h)) ?cs"
    using assms(2) by (intro clientsOK_insert) (simp_all add: alive_def)
  have "sum_list (map (\<lambda>x. length (cBuf x)) ?cs) = sum_list (map (\<lambda>x. length (cBuf x)) (conns h))"
    using buf_sum_upd [OF assms(2), of ?x] by simp
  then show ?thesis
    using True assms(1) 1 2 3
    by (simp add: serveRegister_def runRegister_def updConn_def smSet_def hubInv_def counted_def inFlightEvents_def)
qed (simp add: serveRegister_def runRegister_def)

lemma hubInv_parts:
  assumes "hubInv h"
  shows "connsOK (pushBufferSize h) (conns h)" "clientsOK (clients h) (conns h)" "pendOK (pend h) (conns h)"
    "length (broadcast h) \<le> pushBufferSize h" "\<forall>t\<in>set (taskPool h). snd t < maxRetry" "counted h"
  using assms by (simp_all add: hubInv_def)

lemma conn_facts:
  assumes "hubInv h" "c < length (conns h)"
  shows "cClosed (conns h ! c) \<Longrightarrow> cPhase (conns h ! c) = Gone" "length (cBuf (conns h ! c)) \<le> pushBufferSize h"
  using hubInv_parts(1) [OF assms(1)] assms(2) by (auto simp: connsOK_def dest: nth_mem)

text \<open>An update of one connection, together with the parts of the hub a step may change with it.\<close>

lemma hubInv_update:
  assumes "hubInv h" "c < length (conns h)" "cUID x = cUID (conns h ! c)" "cClosed x \<longrightarrow> cPhase x = Gone"
    and "length (cBuf x) \<le> pushBufferSize h" "alive x \<or> (\<forall>uid. (uid, c) \<notin> set m) \<and> p = None"
    and "clientsOK m (conns h)" "pendOK p (conns h)" "length b \<le> pushBufferSize h"
    and "psSuccess st + psFailed st + length b + length (taskPool h) + (case p of None \<Rightarrow> 0 | Some _ \<Rightarrow> 1) +
      sum_list (map (\<lambda>x. length (cBuf x)) (conns h)) + length (cBuf x) \<le> psTotal st + length (cBuf (conns h ! c))"
  shows "hubInv (h\<lparr>clients := m, broadcast := b, pend := p, PushStats := st, conns := (conns h)[c := x]\<rparr>)"
proof -
  have "connsOK (pushBufferSize h) ((conns h)[c := x])"
    using connsOK_upd [OF hubInv_parts(1) [OF assms(1)] assms(2)] assms(4,5) by blast
  moreover have "clientsOK m ((conns h)[c := x])" using clientsOK_upd [OF assms(7)] assms(3,6) by blast
  moreover have "pendOK p ((conns h)[c := x])" using pendOK_upd [OF assms(8)] assms(6) by blast
  ultimately show ?thesis
    using assms(9,10) hubInv_parts(5) [OF assms(1)] buf_sum_upd [OF assms(2), of x]
    by (simp add: hubInv_def counted_def inFlightEvents_def)
qed

lemma counted_le:
  assumes "hubInv h"
  shows "psSuccess (PushStats h) + psFailed (PushStats h) + length (broadcast h) + length (taskPool h) +
    (case pend h of None \<Rightarrow> 0 | Some _ \<Rightarrow> 1) + sum_list (map (\<lambda>x. length (cBuf x)) (conns h)) \<le> psTotal (PushStats h)"
  using hubInv_parts(6) [OF assms] by (simp add: counted_def inFlightEvents_def)

lemma inv_chanSend:
  assumes "hubInv h" "c < length (conns h)" "\<not> cClosed (conns h ! c)"
  shows "chanSend c e h = Blocked \<or> chanSend c e h =
    Done (h\<lparr>conns := (conns h)[c := cBuf_update (\<lambda>b. b @ [e]) (conns h ! c)]\<rparr>) \<and>
    length (cBuf (conns h ! c)) < pushBufferSize h"
  using assms(3) by (simp add: chanSend_def updConn_def)

lemma inv_deliver:
  assumes "hubInv h"
  shows "runBroadcast h \<noteq> Crash \<and> (\<forall>h'. runBroadcast h = Done h' \<longrightarrow> hubInv h')"
proof (cases "runReady h \<and> broadcast h \<noteq> []")
  case True
  then obtain ue rest where b: "broadcast h = ue # rest" by (cases "broadcast h") auto
  have p: "pend h = None" using True by (simp add: runReady_def)
  let ?h1 = "h\<lparr>broadcast := rest\<rparr>"
  have i1: "hubInv ?h1" using assms b by (simp add: hubInv_def counted_def inFlightEvents_def)
  show ?thesis
  proof (cases "map_of (clients h) (ueUID ue)")
    case None
    then show ?thesis using True b i1 by (simp add: runBroadcast_def smGet_def)
  next
    case (Some c)
    have c: "c < length (conns h)" "\<not> cClosed (conns h ! c)" "alive (conns h ! c)"
      using conn_alive [OF hubInv_parts(2,1) [OF assms] Some] by auto
    let ?x = "cBuf_update (\<lambda>b. b @ [ueEvent ue]) (conns h ! c)"
    from inv_chanSend [OF i1, of c "ueEvent ue"] c
    consider "chanSend c (ueEvent ue) ?h1 = Blocked"
      | "chanSend c (ueEvent ue) ?h1 = Done (?h1\<lparr>conns := (conns h)[c := ?x]\<rparr>)" "length (cBuf (conns h ! c)) < pushBufferSize h"
      by auto
    then show ?thesis
    proof cases
      case 1
      have "hubInv (?h1\<lparr>pend := Some (c, ue, 0)\<rparr>)"
        using assms b p c by (simp add: hubInv_def counted_def inFlightEvents_def pendOK_def maxRetry_def)
      then show ?thesis using True b Some 1 by (simp add: runBroadcast_def smGet_def)
    next
      case 2
      have "hubInv (h\<lparr>clients := clients h, broadcast := rest, pend := pend h, PushStats := PushStats h, conns := (conns h)[c := ?x]\<rparr>)"
      proof (rule hubInv_update [OF assms c(1)])
        show "alive ?x \<or> (\<forall>uid. (uid, c) \<notin> set (clients h)) \<and> pend h = None" using c(3) by (simp add: alive_def)
      qed (use conn_facts [OF assms c(1)] 2(2) counted_le [OF assms] hubInv_parts [OF assms] b p
          in \<open>simp_all add: pendOK_def c\<close>)
      then show ?thesis using True b Some 2(1) by (simp add: runBroadcast_def smGet_def)
    qed
  qed
qed (auto simp: runBroadcast_def split: list.splits)

lemma pend_conns_commute: "h\<lparr>conns := cs, pend := p\<rparr> = h\<lparr>pend := p, conns := cs\<rparr>"
  by simp

lemma inv_send:
  assumes "hubInv h"
  shows "trySend h \<noteq> Crash \<and> (\<forall>h'. trySend h = Done h' \<longrightarrow> hubInv h')"
proof (cases "pend h")
  case (Some q)
  obtain c ue i where q: "q = (c, ue, i)" by (cases q)
  have c: "c < length (conns h)" "alive (conns h ! c)"
    using hubInv_parts(3) [OF assms] Some q by (auto simp: pendOK_def)
  have nc: "\<not> cClosed (conns h ! c)" using conn_facts(1) [OF assms c(1)] c(2) by (auto simp: alive_def)
  let ?x = "cBuf_update (\<lambda>b. b @ [ueEvent ue]) (conns h ! c)"
  from inv_chanSend [OF assms c(1) nc, of "ueEvent ue"] show ?thesis
  proof
    assume "chanSend c (ueEvent ue) h = Blocked"
    then show ?thesis using Some q by (simp add: trySend_def)
  next
    assume d: "chanSend c (ueEvent ue) h = Done (h\<lparr>conns := (conns h)[c := ?x]\<rparr>) \<and> length (cBuf (conns h ! c)) < pushBufferSize h"
    have "hubInv (h\<lparr>clients := clients h, broadcast := broadcast h, pend := None, PushStats := PushStats h, conns := (conns h)[c := ?x]\<rparr>)"
    proof (rule hubInv_update [OF assms c(1)])
      show "alive ?x \<or> (\<forall>uid. (uid, c) \<notin> set (clients h)) \<and> None = None" using c(2) by (simp add: alive_def)
    qed (use d counted_le [OF assms] hubInv_parts [OF assms] Some nc in \<open>simp_all add: pendOK_def\<close>)
    then show ?thesis using d Some q by (simp add: trySend_def pend_conns_commute)
  qed
qed (simp add: trySend_def)

lemma inv_giveUp:
  assumes "hubInv h" "pend h = Some q"
  shows "hubInv ((giveUp ue (addTimeout h))\<lparr>pend := None\<rparr>)"
  using assms by (simp add: hubInv_def giveUp_def addTimeout_def IncFailed_def IncTimeout_def counted_def
    inFlightEvents_def pendOK_def Let_def)

lemma inv_sendTimeout:
  assumes "hubInv h"
  shows "trySendTimeout h \<noteq> Crash \<and> (\<forall>h'. trySendTimeout h = Done h' \<longrightarrow> hubInv h')"
proof (cases "pend h")
  case (Some q)
  obtain c ue i where q: "q = (c, ue, i)" by (cases q)
  have "hubInv ((addTimeout h)\<lparr>pend := Some (c, ue, i + 1)\<rparr>)" if "i + 1 < maxRetry"
    using assms that Some q
    by (simp add: hubInv_def addTimeout_def IncTimeout_def counted_def inFlightEvents_def pendOK_def)
  then show ?thesis using inv_giveUp [OF assms Some] Some q by (simp add: trySendTimeout_def Let_def)
qed (simp add: trySendTimeout_def)

lemma length_dropAt: "k < length xs \<Longrightarrow> Suc (length (dropAt k xs)) = length xs"
  by (simp add: dropAt_def)

lemma set_dropAt: "set (dropAt k xs) \<subseteq> set xs"
  using set_take_subset set_drop_subset by (fastforce simp: dropAt_def)

lemma inv_tasks:
  assumes "hubInv h"
  shows "tryPush k h \<noteq> Crash \<and> (\<forall>h'. tryPush k h = Done h' \<longrightarrow> hubInv h')"
    "tryPushTimeout k h \<noteq> Crash \<and> (\<forall>h'. tryPushTimeout k h = Done h' \<longrightarrow> hubInv h')"
proof -
  have ts: "\<forall>t\<in>set (dropAt k (taskPool h)). snd t < maxRetry"
    using hubInv_parts(5) [OF assms] set_dropAt [of k "taskPool h"] by blast
  show "tryPush k h \<noteq> Crash \<and> (\<forall>h'. tryPush k h = Done h' \<longrightarrow> hubInv h')"
    using assms ts length_dropAt [of k "taskPool h"] by (auto simp: tryPush_def hubInv_def counted_def inFlightEvents_def)
  obtain ue i where t: "taskPool h ! k = (ue, i)" by (cases "taskPool h ! k")
  have "hubInv ((addTimeout h)\<lparr>taskPool := (taskPool h)[k := (ue, i + 1)]\<rparr>)" if "i + 1 < maxRetry"
    using assms that set_update_subset_insert [of "taskPool h" k "(ue, i + 1)"]
    by (auto simp: hubInv_def addTimeout_def IncTimeout_def counted_def inFlightEvents_def)
  moreover have "hubInv ((giveUp ue (addTimeout h))\<lparr>taskPool := dropAt k (taskPool h)\<rparr>)" if "k < length (taskPool h)"
    using assms that ts length_dropAt [OF that] by (auto simp: hubInv_def giveUp_def addTimeout_def IncFailed_def
      IncTimeout_def counted_def inFlightEvents_def Let_def)
  ultimately show "tryPushTimeout k h \<noteq> Crash \<and> (\<forall>h'. tryPushTimeout k h = Done h' \<longrightarrow> hubInv h')"
    by (simp add: tryPushTimeout_def t Let_def) (simp add: addTimeout_def)
qed

lemma inv_pushOne: "hubInv h \<Longrightarrow> hubInv (pushOne ue h)"
  by (simp add: hubInv_def pushOne_def IncTotal_def counted_def inFlightEvents_def maxRetry_def Let_def)

lemma inv_pushTo: "hubInv h \<Longrightarrow> hubInv (pushTo e uids h)"
  unfolding pushTo_def by (induction uids arbitrary: h) (simp_all add: inv_pushOne)

lemma inv_pushAll: "hubInv h \<Longrightarrow> hubInv (pushAll e h)"
proof -
  have "hubInv h \<Longrightarrow> hubInv (foldl (\<lambda>h uid. pushOne \<lparr>ueUID = uid, ueEvent = e\<rparr> h) h us)" for us
    by (induction us arbitrary: h) (simp_all add: inv_pushOne)
  then show "hubInv h \<Longrightarrow> hubInv (pushAll e h)" by (simp add: pushAll_def)
qed

lemma inv_saved: "hubInv h \<Longrightarrow> hubInv (h\<lparr>saved := es\<rparr>)"
  by (simp add: hubInv_def counted_def inFlightEvents_def)

lemma inv_Push: "hubInv h \<Longrightarrow> hubInv (fst (Push newID save uids events h))"
proof -
  have "hubInv h \<Longrightarrow> hubInv (fst (pushEvents newID save uids n events h))" for n
  proof (induction events arbitrary: n h)
    case (Cons e es)
    then show ?case by (simp add: Let_def inv_pushTo inv_pushAll inv_saved split: option.split)
  qed simp
  then show "hubInv h \<Longrightarrow> hubInv (fst (Push newID save uids events h))" by (simp add: Push_def)
qed

lemma inv_phase:
  assumes "hubInv h" "c < length (conns h)" "alive (conns h ! c)"
  shows "hubInv (updConn c (cPhase_update (\<lambda>_. Leaving)) h)"
proof -
  let ?x = "cPhase_update (\<lambda>_. Leaving) (conns h ! c)"
  have nc: "\<not> cClosed (conns h ! c)" using conn_facts(1) [OF assms(1,2)] assms(3) by (auto simp: alive_def)
  have "hubInv (h\<lparr>clients := clients h, broadcast := broadcast h, pend := pend h, PushStats := PushStats h, conns := (conns h)[c := ?x]\<rparr>)"
  proof (rule hubInv_update [OF assms(1,2)])
    show "alive ?x \<or> (\<forall>uid. (uid, c) \<notin> set (clients h)) \<and> pend h = None" by (simp add: alive_def)
  qed (use nc conn_facts(2) [OF assms(1,2)] counted_le [OF assms(1)] hubInv_parts [OF assms(1)] in simp_all)
  then show ?thesis by (simp add: updConn_def)
qed

lemma updConn_updConn: "c < length (conns h) \<Longrightarrow> updConn c f (updConn c g h) = updConn c (f \<circ> g) h"
  by (simp add: updConn_def)

lemma updConn_stats: "updConn c f (h\<lparr>PushStats := st\<rparr>) = (updConn c f h)\<lparr>PushStats := st\<rparr>"
  by (simp add: updConn_def)

lemma inv_conn_stats:
  assumes "hubInv h" "c < length (conns h)" "alive (conns h ! c)" "alive (f (conns h ! c))" "cUID (f (conns h ! c)) = cUID (conns h ! c)"
    and "cClosed (f (conns h ! c)) = cClosed (conns h ! c)" "length (cBuf (f (conns h ! c))) \<le> length (cBuf (conns h ! c))"
    and "psSuccess st + psFailed st + psTotal (PushStats h) + length (cBuf (f (conns h ! c))) \<le>
      psSuccess (PushStats h) + psFailed (PushStats h) + psTotal st + length (cBuf (conns h ! c))"
  shows "hubInv ((updConn c f h)\<lparr>PushStats := st\<rparr>)"
proof -
  let ?x = "f (conns h ! c)"
  have nc: "\<not> cClosed (conns h ! c)" using conn_facts(1) [OF assms(1,2)] assms(3) by (auto simp: alive_def)
  have "hubInv (h\<lparr>clients := clients h, broadcast := broadcast h, pend := pend h, PushStats := st, conns := (conns h)[c := ?x]\<rparr>)"
    by (rule hubInv_update [OF assms(1,2)])
      (use nc assms(3-) conn_facts(2) [OF assms(1,2)] counted_le [OF assms(1)] hubInv_parts [OF assms(1)] in simp_all)
  moreover have "(updConn c f h)\<lparr>PushStats := st\<rparr> =
      h\<lparr>clients := clients h, broadcast := broadcast h, pend := pend h, PushStats := st, conns := (conns h)[c := ?x]\<rparr>"
    by (simp add: updConn_def)
  ultimately show ?thesis by simp
qed

definition writeTo :: "'d event \<Rightarrow> sendRes \<Rightarrow> 'd conn \<Rightarrow> 'd conn" where
  "writeTo e r x = (if r = MarshalFailed then x
     else (let x1 = (if evType e = ''close'' then x\<lparr>cSentClose := True\<rparr> else x) in
           if r = Sent then x1\<lparr>cOut := cOut x1 @ [e]\<rparr> else x1))"

lemma writeTo_fields [simp]:
  "cUID (writeTo e r x) = cUID x" "cBuf (writeTo e r x) = cBuf x" "cClosed (writeTo e r x) = cClosed x"
  "cPhase (writeTo e r x) = cPhase x" "alive (writeTo e r x) = alive x"
  by (simp_all add: writeTo_def alive_def Let_def)

lemma sendEventTo_writeTo: "sendEventTo c e r h = updConn c (writeTo e r) h"
  by (simp add: sendEventTo_def writeTo_def [abs_def])

lemma inv_receive:
  assumes "hubInv h" "c < length (conns h)" "cPhase (conns h ! c) = Streaming"
  shows "serveReceive c r h \<noteq> Crash \<and> (\<forall>h'. serveReceive c r h = Done h' \<longrightarrow> hubInv h')"
proof -
  have al: "alive (conns h ! c)" using assms(3) by (simp add: alive_def)
  show ?thesis
  proof (cases "cBuf (conns h ! c)")
    case Nil
    then show ?thesis using inv_phase [OF assms(1,2) al] by (simp add: serveReceive_def)
  next
    case (Cons e rest)
    let ?f = "writeTo e r \<circ> cBuf_update (\<lambda>_. rest)"
    have "hubInv ((updConn c ?f h)\<lparr>PushStats := IncSuccess (PushStats h)\<rparr>)"
      by (rule inv_conn_stats [OF assms(1,2) al]) (use al Cons in \<open>simp_all add: alive_def IncSuccess_def\<close>)
    moreover have "hubInv ((updConn c (cPhase_update (\<lambda>_. Leaving) \<circ> ?f) h)\<lparr>PushStats := IncFailed (PushStats h)\<rparr>)"
      by (rule inv_conn_stats [OF assms(1,2) al]) (use al Cons in \<open>simp_all add: alive_def IncFailed_def\<close>)
    ultimately show ?thesis using Cons assms(2)
      by (cases "r = Sent") (simp_all add: serveReceive_def sendEventTo_writeTo updConn_updConn updConn_stats Let_def comp_assoc,
        simp_all add: updConn_def)
  qed
qed

lemma inv_resend:
  assumes "hubInv h" "c < length (conns h)" "cPhase (conns h ! c) = Streaming" "resendLoop listBy res fuel c lastID h = Some h'"
  shows "hubInv h'"
proof -
  let ?step = "resendOne res c"
  define good where "good = (\<lambda>h :: 'a hub. hubInv h \<and> c < length (conns h) \<and> cPhase (conns h ! c) = Streaming)"
  have fail: "good h \<Longrightarrow> good (h\<lparr>failures := fs\<rparr>)" for h :: "'a hub" and fs
    by (simp add: good_def hubInv_def counted_def inFlightEvents_def)
  have one: "good (?step h e)" if "good h" for h e
  proof -
    have "hubInv ((updConn c (writeTo e (res e)) h)\<lparr>PushStats := PushStats h\<rparr>)"
      using that by (intro inv_conn_stats) (simp_all add: good_def alive_def)
    moreover have "(updConn c (writeTo e (res e)) h)\<lparr>PushStats := PushStats h\<rparr> = updConn c (writeTo e (res e)) h"
      by (simp add: updConn_def)
    ultimately have "good (updConn c (writeTo e (res e)) h)" using that by (simp add: good_def) (simp add: updConn_def)
    then show ?thesis unfolding resendOne_def sendEventTo_writeTo Let_def by (auto intro: fail)
  qed
  have all: "good h \<Longrightarrow> good (foldl ?step h es)" for h es by (induction es arbitrary: h) (simp_all add: one)
  have "good h \<Longrightarrow> resendLoop listBy res fuel c lastID h = Some h' \<Longrightarrow> good h'" for h
  proof (induction fuel arbitrary: h lastID)
    case (Suc fuel)
    have g: "good (foldl ?step h es)" for es using all Suc.prems(1) .
    show ?case
    proof (cases "listBy lastID")
      case (Some q)
      obtain es b where q: "q = (es, b)" by (cases q)
      show ?thesis
      proof (cases "es = [] \<or> b = []")
        case True
        then have "h' = h \<or> h' = foldl ?step h es"
          using Suc.prems(2) Some q by (cases es) (auto simp del: foldl_Cons)
        then show ?thesis using g Suc.prems(1) by auto
      next
        case False
        then have "resendLoop listBy res fuel c b (foldl ?step h es) = Some h'"
          using Suc.prems(2) Some q by (cases es) (simp_all del: foldl_Cons)
        then show ?thesis by (rule Suc.IH [OF g])
      qed
    qed (use Suc.prems in simp)
  qed simp
  then show ?thesis using assms by (simp add: good_def)
qed

lemma inv_unregister:
  assumes "hubInv h" "c < length (conns h)" "cPhase (conns h ! c) = Leaving"
  shows "serveUnregister c h \<noteq> Crash \<and> (\<forall>h'. serveUnregister c h = Done h' \<longrightarrow> hubInv h')"
proof (cases "runReady h")
  case True
  then have p: "pend h = None" by (simp add: runReady_def)
  let ?uid = "cUID (conns h ! c)"
  have nc: "\<not> cClosed (conns h ! c)" using conn_facts(1) [OF assms(1,2)] assms(3) by auto
  have cl: "clientsOK (clients h) (conns h)" using hubInv_parts(2) [OF assms(1)] .
  have upd: "hubInv (h\<lparr>clients := m, broadcast := broadcast h, pend := pend h, PushStats := PushStats h, conns := (conns h)[c := x]\<rparr>)"
    if "cUID x = ?uid" "cPhase x = Gone" "cBuf x = cBuf (conns h ! c)" "clientsOK m (conns h)" "\<forall>uid. (uid, c) \<notin> set m" for m x
    by (rule hubInv_update [OF assms(1,2)])
      (use that p conn_facts(2) [OF assms(1,2)] counted_le [OF assms(1)] hubInv_parts [OF assms(1)] in simp_all)
  show ?thesis
  proof (cases "map_of (clients h) ?uid")
    case None
    have no: "\<forall>uid. (uid, c) \<notin> set (clients h)"
      using None cl unfolding clientsOK_def by (metis map_of_is_SomeI option.distinct(1))
    have "hubInv (h\<lparr>conns := (conns h)[c := cPhase_update (\<lambda>_. Gone) (conns h ! c)]\<rparr>)"
      using upd [of "cPhase_update (\<lambda>_. Gone) (conns h ! c)" "clients h"] cl no by simp
    then show ?thesis using True None by (simp add: serveUnregister_def runUnregister_def smHas_def updConn_def)
  next
    case (Some k)
    let ?x = "cPhase_update (\<lambda>_. Gone) (cClosed_update (\<lambda>_. True) (conns h ! c))"
    have no: "\<forall>uid. (uid, c) \<notin> set (AList.delete ?uid (clients h))"
      using cl by (auto simp: clientsOK_def AList.delete_eq)
    have "hubInv (h\<lparr>clients := AList.delete ?uid (clients h), conns := (conns h)[c := ?x]\<rparr>)"
      using upd [of ?x "AList.delete ?uid (clients h)"] clientsOK_remove [OF cl] no by simp
    then show ?thesis using True Some nc assms(2)
      by (simp add: serveUnregister_def runUnregister_def smHas_def smDelete_def updConn_def Let_def)
  qed
qed (simp add: serveUnregister_def runUnregister_def)

lemma inv_stop: "hubInv h \<Longrightarrow> hubInv (hubStop h)"
  by (simp add: hubInv_def hubStop_def counted_def inFlightEvents_def)

lemma hstep_inv: "hstep h r \<Longrightarrow> hubInv h \<Longrightarrow> r \<noteq> Crash \<and> (\<forall>h'. r = Done h' \<longrightarrow> hubInv h')"
proof (induction rule: hstep.induct)
  case (leave c h)
  then show ?case using inv_phase [of h c] by (simp add: serveLeave_def alive_def)
next
  case (connect uid h)
  then show ?case using inv_open by blast
next
  case (register c h)
  then show ?case using inv_register by blast
next
  case (push h newID save uids events)
  then show ?case using inv_Push by blast
next
  case (beat h uid)
  then show ?case unfolding PushHeartBeat_def using inv_pushOne by blast
next
  case (receive c h r)
  then show ?case using inv_receive by blast
next
  case (resend c h listBy res fuel eventType lastID h')
  then show ?case using inv_resend [of h c "listBy eventType"] by (auto simp: resendEvents_def split: if_splits)
next
  case (unregister c h)
  then show ?case using inv_unregister by blast
next
  case (stop h)
  then show ?case using inv_stop by blast
next
  case (deliver h)
  then show ?case using inv_deliver [of h] by blast
next
  case (send h)
  then show ?case using inv_send [of h] by blast
next
  case (sendTimeout h)
  then show ?case using inv_sendTimeout [of h] by blast
next
  case (task h k)
  then show ?case using inv_tasks(1) [of h k] by blast
next
  case (taskTimeout h k)
  then show ?case using inv_tasks(2) [of h k] by blast
qed

lemma reach_inv: "reach opts h \<Longrightarrow> hubInv h"
  by (induction rule: reach.induct) (use hubInv_NewHub hstep_inv in blast)+

section \<open>Properties\<close>



text \<open>
  A user who reconnects before the old connection is gone becomes unreachable. When the old
  connection unregisters, \<open>run\<close> finds the user in the map, where the new connection is by now, deletes
  that entry and closes the old channel: the new connection stays open and streaming, but no push
  reaches it any more, and its own channel is never closed.
\<close>
theorem hub_reconnect_evicts:
  assumes "hubInv h" "runReady h" "old < length (conns h)" "new < length (conns h)" "old \<noteq> new"
    and "cUID (conns h ! old) = uid" "cUID (conns h ! new) = uid"
    and "cPhase (conns h ! old) = Leaving" "cPhase (conns h ! new) = Streaming" "smGet uid (clients h) = Some new"
  shows "\<exists>h'. serveUnregister old h = Done h' \<and> smGet uid (clients h') = None \<and>
    cPhase (conns h' ! new) = Streaming \<and> \<not> cClosed (conns h' ! new) \<and>
    pushTo e [uid] h' = h' \<and>
    (\<forall>h''. serveUnregister new (serveLeave new h') = Done h'' \<longrightarrow> \<not> cClosed (conns h'' ! new))"
proof -
  have nc: "\<not> cClosed (conns h ! old)" "\<not> cClosed (conns h ! new)"
    using conn_facts(1) [OF assms(1)] assms(3,4,8,9) by auto
  let ?h = "h\<lparr>clients := smDelete uid (clients h),
    conns := (conns h)[old := cPhase_update (\<lambda>_. Gone) (cClosed_update (\<lambda>_. True) (conns h ! old))]\<rparr>"
  have d: "map_of (AList.delete uid (clients h)) uid = None" by (simp add: delete_conv')
  have "serveUnregister old h = Done ?h"
    using assms nc by (simp add: serveUnregister_def runUnregister_def smHas_def smGet_def updConn_def Let_def)
  moreover have "pushTo e [uid] ?h = ?h" using d by (simp add: pushTo_def smHas_def smDelete_def)
  moreover have "\<not> cClosed (conns h'' ! new)" if "serveUnregister new (serveLeave new ?h) = Done h''" for h''
  proof -
    have "runUnregister new (serveLeave new ?h) = Done (serveLeave new ?h)"
      using assms(2,4,5,7) d
      by (simp add: runUnregister_def runReady_def serveLeave_def updConn_def smHas_def smDelete_def Let_def)
    then have "h'' = updConn new (cPhase_update (\<lambda>_. Gone)) (serveLeave new ?h)" using that by (simp add: serveUnregister_def)
    then show ?thesis using assms(4,5) nc(2) by (simp add: serveLeave_def updConn_def)
  qed
  ultimately show ?thesis using assms nc d by (simp add: smGet_def smDelete_def)
qed

definition demoHub :: "unit hub" where
  "demoHub = (NewHub [])\<lparr>clients := [(''ann'', 1)],
     conns := [\<lparr>cUID = ''ann'', cBuf = [], cClosed = False, cSentClose = False, cPhase = Leaving, cOut = []\<rparr>,
               \<lparr>cUID = ''ann'', cBuf = [], cClosed = False, cSentClose = False, cPhase = Streaming, cOut = []\<rparr>]\<rparr>"

lemma demoHub_inv: "hubInv demoHub"
  by (simp add: hubInv_def demoHub_def NewHub_def defaultHubOptions_def hub_defs alive_def Let_def)

theorem hub_reconnect_evicts_witness:
  "\<exists>h'. serveUnregister 0 demoHub = Done h' \<and> smGet ''ann'' (clients h') = None \<and>
     cPhase (conns h' ! 1) = Streaming"
  using hub_reconnect_evicts [OF demoHub_inv, of 0 1 "''ann''"]
  by (auto simp: runReady_def demoHub_def NewHub_def smGet_def Let_def)

text \<open>A connection that waits for \<open>run\<close> to take its unregistration, after the hub was stopped.\<close>

definition stranded :: "nat \<Rightarrow> 'd hub \<Rightarrow> bool" where
  "stranded c h \<longleftrightarrow> stopped h \<and> c < length (conns h) \<and> cPhase (conns h ! c) = Leaving"

lemma stranded_updConn:
  "stranded c h \<Longrightarrow> k \<noteq> c \<or> cPhase (f (conns h ! k)) = Leaving \<Longrightarrow> stranded c (updConn k f h)"
  by (cases "k = c") (auto simp: stranded_def updConn_def)

lemma stranded_same: "stranded c h \<Longrightarrow> stopped h' = stopped h \<Longrightarrow> conns h' = conns h \<Longrightarrow> stranded c h'"
  by (simp add: stranded_def)

lemma pushOne_frame: "stopped (pushOne ue h) = stopped h" "conns (pushOne ue h) = conns h"
  by (simp_all add: pushOne_def Let_def)

lemma pushTo_frame: "stopped (pushTo e us h) = stopped h" "conns (pushTo e us h) = conns h"
  unfolding pushTo_def by (induction us arbitrary: h) (simp_all add: pushOne_frame)

lemma pushAll_fold_frame:
  "stopped (foldl (\<lambda>h uid. pushOne (ue uid) h) h us) = stopped h"
  "conns (foldl (\<lambda>h uid. pushOne (ue uid) h) h us) = conns h"
  by (induction us arbitrary: h) (simp_all add: pushOne_frame)

lemma pushEvents_frame:
  "stopped (fst (pushEvents newID save uids n events h)) = stopped h \<and>
   conns (fst (pushEvents newID save uids n events h)) = conns h"
proof (induction newID save uids n events h rule: pushEvents.induct)
  case (2 newID save uids n e es h)
  have 1: "stopped (pushAll e h) = stopped h" "conns (pushAll e h) = conns h" for e and h :: "'a hub"
    by (simp_all add: pushAll_def pushAll_fold_frame)
  let ?e = "if evID e = [] then e\<lparr>evID := newID n\<rparr> else e"
  let ?h1 = "if hasStore h then h\<lparr>saved := saved h @ [?e]\<rparr> else h"
  let ?h2 = "if uids \<noteq> [] then pushTo ?e uids ?h1 else pushAll ?e ?h1"
  have 3: "stopped ?h2 = stopped h" "conns ?h2 = conns h" by (simp_all add: 1 pushTo_frame)
  show ?case
  proof (cases "evCheckValid e = None \<and> (if hasStore h then save ?e else None) = None")
    case True
    then have "pushEvents newID save uids n (e # es) h = pushEvents newID save uids (Suc n) es ?h2"
      by (simp only: pushEvents.simps Let_def option.case)
    then show ?thesis using 2 [of ?e ?h1 ?h2] True 3 by simp
  next
    case False
    then show ?thesis by (auto simp: Let_def split: option.split)
  qed
qed simp

lemma stranded_pushes:
  "stranded c h \<Longrightarrow> stranded c (pushOne ue h)" "stranded c h \<Longrightarrow> stranded c (fst (Push newID save uids events h))"
  by (simp_all add: stranded_def pushOne_frame Push_def pushEvents_frame)

lemma stranded_resend:
  assumes "stranded c h" "k \<noteq> c" "resendLoop listBy res fuel k lastID h = Some h'"
  shows "stranded c h'"
proof -
  have one: "stranded c h \<Longrightarrow> stranded c (resendOne res k h e)" for e and h :: "'a hub"
    using assms(2) by (auto simp: resendOne_def sendEventTo_def stranded_def updConn_def Let_def)
  have fold: "stranded c h \<Longrightarrow> stranded c (foldl (resendOne res k) h es)" for es and h :: "'a hub"
    by (induction es arbitrary: h) (simp_all add: one)
  show ?thesis using assms(1,3)
  proof (induction fuel arbitrary: h lastID)
    case (Suc fuel)
    show ?case
    proof (cases "listBy lastID")
      case (Some q)
      obtain es b where q: "q = (es, b)" by (cases q)
      show ?thesis
      proof (cases "es = [] \<or> b = []")
        case True
        then have "h' = h \<or> h' = foldl (resendOne res k) h es"
          using Suc.prems(2) Some q by (cases es) (auto simp del: foldl_Cons)
        then show ?thesis using fold Suc.prems(1) by auto
      next
        case False
        then have "resendLoop listBy res fuel k b (foldl (resendOne res k) h es) = Some h'"
          using Suc.prems(2) Some q by (cases es) (simp_all del: foldl_Cons)
        then show ?thesis by (rule Suc.IH [OF fold [OF Suc.prems(1)]])
      qed
    qed (use Suc.prems in simp)
  qed simp
qed

lemma stranded_step: "hstep h r \<Longrightarrow> r = Done h' \<Longrightarrow> stranded c h \<Longrightarrow> stranded c h'"
proof (induction rule: hstep.induct)
  case (connect uid h)
  then show ?case by (auto simp: serveOpen_def stranded_def nth_append)
next
  case (register k h)
  then show ?case by (auto simp: serveRegister_def runRegister_def runReady_def stranded_def)
next
  case (deliver h)
  then show ?case by (auto simp: runBroadcast_def runReady_def stranded_def)
next
  case (send h)
  then obtain k ue i h1 where "pend h = Some (k, ue, i)" "chanSend k (ueEvent ue) h = Done h1" "h' = h1\<lparr>pend := None\<rparr>"
    by (auto simp: trySend_def split: option.splits eff.splits)
  then show ?case using send.prems(2) by (cases "k = c") (auto simp: chanSend_def stranded_def updConn_def split: if_splits)
next
  case (sendTimeout h)
  then show ?case
    by (auto simp: trySendTimeout_def stranded_def giveUp_def addTimeout_def Let_def split: option.splits if_splits)
next
  case (task h k)
  then show ?case by (auto simp: tryPush_def stranded_def split: if_splits)
next
  case (taskTimeout h k)
  then show ?case
    by (auto simp: tryPushTimeout_def stranded_def giveUp_def addTimeout_def Let_def split: prod.splits if_splits)
next
  case (push h newID save uids events)
  then show ?case using stranded_pushes(2) by auto
next
  case (beat h uid)
  then show ?case using stranded_pushes(1) by (auto simp: PushHeartBeat_def)
next
  case (receive k h r)
  then have "k \<noteq> c" by (auto simp: stranded_def)
  then show ?case using receive.prems
    by (auto simp: serveReceive_def sendEventTo_def updConn_def stranded_def Let_def split: list.splits if_splits)
next
  case (resend k h listBy res fuel eventType lastID h1)
  then have "k \<noteq> c" by (auto simp: stranded_def)
  then show ?case using resend stranded_resend [of c h k "listBy eventType"]
    by (auto simp: resendEvents_def split: if_splits)
next
  case (leave k h)
  then show ?case using stranded_updConn [of c h k] by (auto simp: serveLeave_def)
next
  case (unregister k h)
  then show ?case by (auto simp: serveUnregister_def runUnregister_def runReady_def stranded_def)
next
  case (stop h)
  then show ?case by (auto simp: hubStop_def stranded_def)
qed

text \<open>
  Stopping the hub strands the connections. \<open>run\<close> returns when the context is done, and nobody
  receives from \<open>unregister\<close> any more: a connection that is leaving when, or after, the hub was stopped
  waits there forever, whatever happens next.
\<close>
theorem hub_stop_strands:
  assumes "stopped h" "c < length (conns h)" "cPhase (conns h ! c) = Leaving"
    and "(\<lambda>x y. hstep x (Done y))\<^sup>*\<^sup>* h h'"
  shows "serveUnregister c h' = Blocked \<and> cPhase (conns h' ! c) = Leaving"
proof -
  have "stranded c h'"
    using assms(4)
  proof (induction rule: rtranclp_induct)
    case (step y z)
    then show ?case using stranded_step by blast
  qed (use assms in \<open>simp add: stranded_def\<close>)
  then show ?thesis by (simp add: stranded_def serveUnregister_def runUnregister_def runReady_def)
qed

theorem hub_stop_strands_witness:
  "serveUnregister 0 (hubStop demoHub) = Blocked"
  using hub_stop_strands [of "hubStop demoHub" 0 "hubStop demoHub"] by (simp add: hubStop_def demoHub_def)

end
