(* ===== verification/SseClient.thy ===== *)
theory SseClient
  imports SseHub GoStrings
begin

text \<open>
  Package \<open>pkg/sse\<close>, the wire format and the client: \<open>UserClient.sendEvent\<close> of \<open>server.go\<close>, and \<open>client.go\<close> (the
  line parser, the dispatch of events, the retry strategy and the connection loop).

  \<open>json.Marshal\<close> and \<open>json.Unmarshal\<close>, the answers of the HTTP client and the waiting time are arguments. A
  callback is the log entry of the event it gets. The second close of a channel is the outcome \<open>CPanic\<close>.
\<close>

abbreviation NL :: string where "NL \<equiv> [CHR 0x0A]"

section \<open>The server's text\<close>

definition sendEventText :: "('d option \<Rightarrow> string option) \<Rightarrow> 'd event \<Rightarrow> string option" where
  "sendEventText marshal e =
     (case marshal (evData e) of
        None \<Rightarrow> None
      | Some s \<Rightarrow> Some (''id: '' @ evID e @ NL @ ''event: '' @ evType e @ NL @ ''data: '' @ s @ NL @ NL))"

definition heartbeatText :: string where
  "heartbeatText = '': heartbeat'' @ NL @ NL"

section \<open>The client\<close>

record 'd sseClient =
  scCallbacks :: "string list"
  scLastEventID :: string
  scConnected :: bool
  scStopped :: bool
  scInterval :: int
  scLog :: "'d event list"

definition NewClient :: "int \<Rightarrow> 'd sseClient" where
  "NewClient interval = \<lparr>scCallbacks = [], scLastEventID = [], scConnected = False, scStopped = False, scInterval = interval, scLog = []\<rparr>"

definition OnEvent :: "string \<Rightarrow> 'd sseClient \<Rightarrow> 'd sseClient" where
  "OnEvent t c = c\<lparr>scCallbacks := List.insert t (scCallbacks c)\<rparr>"

definition Disconnect :: "'d sseClient \<Rightarrow> 'd sseClient option" where
  "Disconnect c = (if scStopped c then None else Some (c\<lparr>scConnected := False, scStopped := True\<rparr>))"

definition processEvent :: "(string \<Rightarrow> 'd option option) \<Rightarrow> string \<Rightarrow> string \<Rightarrow> string \<Rightarrow> 'd sseClient \<Rightarrow> 'd sseClient \<times> bool" where
  "processEvent unmarshal eventType eventID data c =
     (let c1 = (if eventID \<noteq> [] then c\<lparr>scLastEventID := eventID\<rparr> else c);
          t = (if eventType = [] then ''message'' else eventType) in
      if t \<in> set (scCallbacks c1) then
        (case unmarshal data of
           None \<Rightarrow> (c1, False)
         | Some d \<Rightarrow> (c1\<lparr>scLog := scLog c1 @ [\<lparr>evID = eventID, evType = t, evData = d\<rparr>]\<rparr>, True))
      else (c1, True))"

text \<open>The variables of the parser.\<close>

record pstate =
  psType :: string
  psID :: string
  psData :: "string list"

definition fresh :: pstate where
  "fresh = \<lparr>psType = [], psID = [], psData = []\<rparr>"

definition parseField :: "string \<Rightarrow> pstate \<Rightarrow> pstate" where
  "parseField line ps =
     (if hasPrefix line ''event:'' then ps\<lparr>psType := trimSpace (drop 6 line)\<rparr>
      else if hasPrefix line ''id:'' then ps\<lparr>psID := trimSpace (drop 3 line)\<rparr>
      else if hasPrefix line ''data:'' then ps\<lparr>psData := psData ps @ [trimSpace (drop 5 line)]\<rparr>
      else ps)"

text \<open>What \<open>stream\<close> returns: the client and the error, nil when the client was stopped.\<close>

datatype 'c cres = Ret 'c "string option" | CPanic

fun streamLoop :: "(string \<Rightarrow> 'd option option) \<Rightarrow> string \<Rightarrow> 'd sseClient \<Rightarrow> pstate \<Rightarrow> string list \<Rightarrow> 'd sseClient cres" where
  "streamLoop unmarshal readErr c ps [] = Ret c (Some readErr)"
| "streamLoop unmarshal readErr c ps (line # rest) =
     (if line = [] then
        (if psData ps \<noteq> [] then
           (case processEvent unmarshal (psType ps) (psID ps) (joinWith NL (psData ps)) c of
              (c1, ok) \<Rightarrow> streamLoop unmarshal readErr c1 (if ok then fresh else ps) rest)
         else streamLoop unmarshal readErr c ps rest)
      else if hasPrefix line '':'' then streamLoop unmarshal readErr c ps rest
      else (let ps1 = parseField line ps in
            if psType ps1 = ''close'' then
              (case Disconnect c of None \<Rightarrow> CPanic | Some c1 \<Rightarrow> Ret c1 (Some ''close event received''))
            else if scStopped c then Ret c None
            else streamLoop unmarshal readErr c ps1 rest))"

definition bodyLines :: "string \<Rightarrow> string list" where
  "bodyLines body = butlast (splitOn (CHR 0x0A) body)"

section \<open>Reconnecting\<close>

record retryStrategy =
  rsBackoff :: int
  rsMaxBackoff :: int
  rsRetryCount :: int
  rsMaxRetries :: int

definition retry :: "retryStrategy \<Rightarrow> retryStrategy \<times> bool" where
  "retry s =
     (let s1 = s\<lparr>rsRetryCount := rsRetryCount s + 1\<rparr>;
          s2 = (if rsRetryCount s1 > 1
                then (let nextBackoff = i64 (rsBackoff s1 * 2) in
                      s1\<lparr>rsBackoff := (if nextBackoff > rsMaxBackoff s1 then rsMaxBackoff s1 else nextBackoff)\<rparr>)
                else s1)
      in (s2, rsMaxRetries s2 > 0 \<and> rsRetryCount s2 \<ge> rsMaxRetries s2))"

definition resetStrategy :: "int \<Rightarrow> retryStrategy \<Rightarrow> retryStrategy" where
  "resetStrategy d s = s\<lparr>rsBackoff := d, rsRetryCount := 0\<rparr>"

text \<open>An answer of \<open>client.Do\<close>: an error, or a status, a body and the error that ends it.\<close>

datatype answer = DoErr string | Resp int string string

definition stream :: "(string \<Rightarrow> 'd option option) \<Rightarrow> answer \<Rightarrow> 'd sseClient \<Rightarrow> retryStrategy \<Rightarrow>
    'd sseClient cres \<times> retryStrategy" where
  "stream unmarshal a c s =
     (case a of
        DoErr e \<Rightarrow> (Ret c (Some e), s)
      | Resp status body readErr \<Rightarrow>
         (let c1 = c\<lparr>scConnected := True\<rparr>; s1 = resetStrategy (scInterval c) s in
          if status \<noteq> 200 then (Ret c1 (Some (''unexpected status code: '' @ dec (nat status))), s1)
          else (streamLoop unmarshal readErr c1 fresh (bodyLines body), s1)))"

text \<open>
  The loop of \<open>connectServer\<close>: \<open>http n id\<close> is the answer to the n-th request, sent with the last event
  identifier, and \<open>waits\<close> are the times slept before the next request. \<open>None\<close> is running out of fuel.
\<close>

datatype 'c loopEnd = Returned 'c "int list" | Panicked

fun connectLoop :: "string \<Rightarrow> (string \<Rightarrow> 'd option option) \<Rightarrow> (nat \<Rightarrow> string \<Rightarrow> answer) \<Rightarrow> nat \<Rightarrow> nat \<Rightarrow> 'd sseClient \<Rightarrow>
    retryStrategy \<Rightarrow> int list \<Rightarrow> 'd sseClient loopEnd option" where
  "connectLoop noConn unmarshal http 0 n c s waits = None"
| "connectLoop noConn unmarshal http (Suc fuel) n c s waits =
     (case stream unmarshal (http n (scLastEventID c)) c s of
        (CPanic, s1) \<Rightarrow> Some Panicked
      | (Ret c1 err, s1) \<Rightarrow>
         (case err of
            Some e \<Rightarrow>
              (if strContains e noConn then
                 (let c2 = c1\<lparr>scConnected := False\<rparr>; (s2, isExits) = retry s1 in
                  if isExits then
                    (case Disconnect c2 of None \<Rightarrow> Some Panicked | Some c3 \<Rightarrow> Some (Returned c3 waits))
                  else if scStopped c2 then Some (Returned c2 waits)
                  else connectLoop noConn unmarshal http fuel (Suc n) c2 s2 (waits @ [rsBackoff s2]))
               else
                 (let s2 = resetStrategy (scInterval c1) s1 in
                  if scStopped c1 then Some (Returned c1 waits)
                  else connectLoop noConn unmarshal http fuel (Suc n) c1 s2 (waits @ [rsBackoff s2])))
          | None \<Rightarrow>
              (if scStopped c1 then Some (Returned c1 waits)
               else connectLoop noConn unmarshal http fuel (Suc n) c1 s1 (waits @ [rsBackoff s1]))))"

abbreviation second :: int where "second \<equiv> 1000000000"

definition connectServer :: "string \<Rightarrow> (string \<Rightarrow> 'd option option) \<Rightarrow> (nat \<Rightarrow> string \<Rightarrow> answer) \<Rightarrow> nat \<Rightarrow> 'd sseClient \<Rightarrow>
    'd sseClient loopEnd option" where
  "connectServer noConn unmarshal http fuel c =
     connectLoop noConn unmarshal http fuel 0 (c\<lparr>scConnected := True\<rparr>)
       \<lparr>rsBackoff = scInterval c, rsMaxBackoff = 30 * second, rsRetryCount = 0, rsMaxRetries = 5\<rparr> []"

definition Connect :: "'d sseClient \<Rightarrow> string option" where
  "Connect c = (if scConnected c then Some ''already connected'' else None)"

section \<open>Round trip\<close>

text \<open>
  What the format relies on: the JSON text of a value is one line without spaces around it and decodes to
  the value.
\<close>

definition jsonLaws :: "('d option \<Rightarrow> string option) \<Rightarrow> (string \<Rightarrow> 'd option option) \<Rightarrow> bool" where
  "jsonLaws marshal unmarshal \<longleftrightarrow>
     (\<forall>d s. marshal d = Some s \<longrightarrow> CHR 0x0A \<notin> set s \<and> trimSpace s = s \<and> unmarshal s = Some d)"

text \<open>A word that survives a line of its own.\<close>

definition plainWord :: "string \<Rightarrow> bool" where
  "plainWord s \<longleftrightarrow> CHR 0x0A \<notin> set s \<and> trimSpace s = s"

definition sendable :: "('d option \<Rightarrow> string option) \<Rightarrow> 'd event \<Rightarrow> bool" where
  "sendable marshal e \<longleftrightarrow> marshal (evData e) \<noteq> None \<and> plainWord (evID e) \<and> plainWord (evType e) \<and>
     evType e \<noteq> [] \<and> evType e \<noteq> ''close''"

text \<open>What is written to a connection: events, and heartbeats between them (\<open>None\<close>).\<close>

definition itemText :: "('d option \<Rightarrow> string option) \<Rightarrow> 'd event option \<Rightarrow> string" where
  "itemText marshal it = (case it of None \<Rightarrow> heartbeatText | Some e \<Rightarrow> the (sendEventText marshal e))"

text \<open>What a client makes of it.\<close>

fun deliver :: "'d sseClient \<Rightarrow> 'd event option \<Rightarrow> 'd sseClient" where
  "deliver c None = c"
| "deliver c (Some e) =
     (let c1 = (if evID e \<noteq> [] then c\<lparr>scLastEventID := evID e\<rparr> else c) in
      if evType e \<in> set (scCallbacks c1) then c1\<lparr>scLog := scLog c1 @ [e]\<rparr> else c1)"

lemma deliver_stopped [simp]: "scStopped (deliver c it) = scStopped c"
  by (cases it) (simp_all add: Let_def)

lemma deliver_callbacks [simp]: "scCallbacks (deliver c it) = scCallbacks c"
  by (cases it) (simp_all add: Let_def)

lemma trimSpace_space: "trimSpace (CHR '' '' # s) = trimSpace s"
proof -
  have "utf8_chunks (CHR '' '' # s) = ['' ''] @ utf8_chunks s" by (simp add: utf8_chunks_ascii_Cons del: utf8_chunks.simps(2))
  moreover have "space_chunk '' ''" by code_simp
  ultimately show ?thesis by (simp add: trimSpace_def)
qed

lemma parseField_words:
  "parseField (''id: '' @ w) ps = ps\<lparr>psID := trimSpace w\<rparr>"
  "parseField (''event: '' @ w) ps = ps\<lparr>psType := trimSpace w\<rparr>"
  "parseField (''data: '' @ w) ps = ps\<lparr>psData := psData ps @ [trimSpace w]\<rparr>"
  by (simp_all add: parseField_def hasPrefix_def trimSpace_space)

lemma not_comment:
  "\<not> hasPrefix (''id: '' @ w) '':''" "\<not> hasPrefix (''event: '' @ w) '':''" "\<not> hasPrefix (''data: '' @ w) '':''"
  by (simp_all add: hasPrefix_def)

lemma processEvent_deliver:
  assumes "jsonLaws marshal unmarshal" "marshal (evData e) = Some s" "evType e \<noteq> []"
  shows "processEvent unmarshal (evType e) (evID e) s c = (deliver c (Some e), True)"
  using assms by (auto simp: processEvent_def jsonLaws_def Let_def)

text \<open>The lines of an item, read with a clean parser.\<close>

definition itemLines :: "('d option \<Rightarrow> string option) \<Rightarrow> 'd event option \<Rightarrow> string list" where
  "itemLines marshal it =
     (case it of
        None \<Rightarrow> ['': heartbeat'', []]
      | Some e \<Rightarrow> [''id: '' @ evID e, ''event: '' @ evType e, ''data: '' @ the (marshal (evData e)), []])"

lemma splitOn_two: "x \<notin> set w \<Longrightarrow> splitOn x (w @ [x] @ [x] @ rest) = w # [] # splitOn x rest"
  by (simp add: splitOn_append_sep)

lemma splitOn_four:
  "x \<notin> set u \<Longrightarrow> x \<notin> set v \<Longrightarrow> x \<notin> set w \<Longrightarrow>
   splitOn x (u @ [x] @ v @ [x] @ w @ [x] @ [x] @ rest) = u # v # w # [] # splitOn x rest"
  by (simp add: splitOn_append_sep)

lemma itemText_lines:
  assumes "it = None \<or> (\<exists>e. it = Some e \<and> sendable marshal e)" "jsonLaws marshal unmarshal"
  shows "splitOn (CHR 0x0A) (itemText marshal it @ rest) = itemLines marshal it @ splitOn (CHR 0x0A) rest"
proof (cases it)
  case None
  show ?thesis using splitOn_two [of "CHR 0x0A" "'': heartbeat''" rest]
    by (simp add: None itemText_def heartbeatText_def itemLines_def del: splitOn.simps)
next
  case (Some e)
  then obtain s where s: "marshal (evData e) = Some s" and e: "sendable marshal e"
    using assms(1) by (auto simp: sendable_def)
  have free: "CHR 0x0A \<notin> set (''id: '' @ evID e)" "CHR 0x0A \<notin> set (''event: '' @ evType e)" "CHR 0x0A \<notin> set (''data: '' @ s)"
    using e s assms(2) by (auto simp: sendable_def plainWord_def jsonLaws_def)
  show ?thesis using splitOn_four [OF free, of rest]
    by (simp add: Some itemText_def sendEventText_def itemLines_def s del: splitOn.simps)
qed

lemma streamLoop_item:
  assumes "it = None \<or> (\<exists>e. it = Some e \<and> sendable marshal e)" "jsonLaws marshal unmarshal" "\<not> scStopped c"
  shows "streamLoop unmarshal readErr c fresh (itemLines marshal it @ ls) = streamLoop unmarshal readErr (deliver c it) fresh ls"
proof (cases it)
  case None
  then show ?thesis by (simp add: itemLines_def fresh_def hasPrefix_def)
next
  case (Some e)
  then obtain s where s: "marshal (evData e) = Some s" and e: "sendable marshal e"
    using assms(1) by (auto simp: sendable_def)
  have w: "trimSpace (evID e) = evID e" "trimSpace (evType e) = evType e" "trimSpace s = s" "evType e \<noteq> ''close''" "evType e \<noteq> []"
    using e s assms(2) by (auto simp: sendable_def plainWord_def jsonLaws_def)
  note p = processEvent_deliver [OF assms(2) s w(5)]
  show ?thesis
    using assms(3) w p
    by (simp add: Some itemLines_def s parseField_words [simplified] not_comment [simplified] fresh_def Let_def del: deliver.simps)
qed

lemma streamLoop_items:
  assumes "\<forall>it\<in>set items. it = None \<or> (\<exists>e. it = Some e \<and> sendable marshal e)" "jsonLaws marshal unmarshal" "\<not> scStopped c"
  shows "streamLoop unmarshal readErr c fresh (bodyLines (concat (map (itemText marshal) items))) =
    Ret (foldl deliver c items) (Some readErr)"
  using assms
proof (induction items arbitrary: c)
  case (Cons it items)
  have "bodyLines (concat (map (itemText marshal) (it # items))) =
      itemLines marshal it @ bodyLines (concat (map (itemText marshal) items))"
    using itemText_lines [of it marshal unmarshal] Cons.prems(1,2) by (simp add: bodyLines_def butlast_append)
  then show ?case using streamLoop_item [of it marshal unmarshal c] Cons by simp
qed (simp add: bodyLines_def)

section \<open>Properties\<close>


definition demoMarshal :: "unit option \<Rightarrow> string option" where
  "demoMarshal d = Some (case d of None \<Rightarrow> ''null'' | Some _ \<Rightarrow> ''{}'')"

definition demoUnmarshal :: "string \<Rightarrow> unit option option" where
  "demoUnmarshal s = (if s = ''null'' then Some None else if s = ''{}'' then Some (Some ()) else None)"

lemma demo_json: "jsonLaws demoMarshal demoUnmarshal"
proof -
  have "trimSpace ''null'' = ''null''" "trimSpace ''{}'' = ''{}''" by code_simp+
  then show ?thesis by (auto simp: jsonLaws_def demoMarshal_def demoUnmarshal_def split: option.splits)
qed

definition demoEvent :: "unit event" where
  "demoEvent = \<lparr>evID = ''7'', evType = ''message'', evData = Some ()\<rparr>"


text \<open>The strategy after each of the first refused requests.\<close>

definition doubled :: "int \<Rightarrow> int" where
  "doubled w = (if i64 (w * 2) > 30 * second then 30 * second else i64 (w * 2))"

lemma refused_step:
  assumes "http n (scLastEventID c) = DoErr e" "strContains e noConn" "\<not> scStopped c"
    "rsMaxRetries s = 5" "rsMaxBackoff s = 30 * second" "0 \<le> rsRetryCount s"
  shows "connectLoop noConn unmarshal http (Suc fuel) n c s waits =
    (let b = (if rsRetryCount s > 0 then doubled (rsBackoff s) else rsBackoff s) in
     if rsRetryCount s \<ge> 4 then Some (Returned (c\<lparr>scConnected := False, scStopped := True\<rparr>) waits)
     else connectLoop noConn unmarshal http fuel (Suc n) (c\<lparr>scConnected := False\<rparr>)
            (s\<lparr>rsRetryCount := rsRetryCount s + 1, rsBackoff := b\<rparr>) (waits @ [b]))"
  using assms by (simp add: stream_def retry_def Disconnect_def doubled_def Let_def)

lemma other_step:
  assumes "http n (scLastEventID c) = DoErr e" "\<not> strContains e noConn" "\<not> scStopped c"
  shows "connectLoop noConn unmarshal http (Suc fuel) n c s waits =
    connectLoop noConn unmarshal http fuel (Suc n) c (resetStrategy (scInterval c) s) (waits @ [scInterval c])"
  using assms by (simp add: stream_def resetStrategy_def Let_def)

lemma other_forever:
  assumes "\<And>n id. \<exists>e. http n id = DoErr e \<and> \<not> strContains e noConn" "\<not> scStopped c"
  shows "connectLoop noConn unmarshal http fuel n c s waits = None"
proof (induction fuel arbitrary: n s waits)
  case (Suc fuel)
  obtain e where "http n (scLastEventID c) = DoErr e" "\<not> strContains e noConn" using assms(1) by blast
  then show ?case using other_step [of http n c e noConn] assms(2) Suc by simp
qed simp

text \<open>
  C22: When every request is refused with the configured text, the client gives up after five requests: the
  loop returns, the client is stopped, and the four waits double from the configured interval up to
  thirty seconds. When the requests fail with any other text, it never returns: it waits the configured
  interval and tries again, without a limit.
\<close>
theorem sse_client_gives_up:
  assumes "\<not> scStopped c" "5 \<le> fuel"
  shows "((\<forall>n id. \<exists>e. http n id = DoErr e \<and> strContains e noConn) \<longrightarrow>
       connectServer noConn unmarshal http fuel c =
         (let w1 = scInterval c; w2 = doubled w1; w3 = doubled w2; w4 = doubled w3 in
          Some (Returned (c\<lparr>scConnected := False, scStopped := True\<rparr>) [w1, w2, w3, w4]))) \<and>
    ((\<forall>n id. \<exists>e. http n id = DoErr e \<and> \<not> strContains e noConn) \<longrightarrow>
       (\<forall>k. connectServer noConn unmarshal http k c = None))"
proof (intro conjI impI allI)
  assume h: "\<forall>n id. \<exists>e. http n id = DoErr e \<and> strContains e noConn"
  obtain k where k: "fuel = Suc (Suc (Suc (Suc (Suc k))))" using assms(2) by (auto simp: numeral_eq_Suc Suc_le_eq dest!: less_imp_Suc_add)
  define e where "e n = (SOME e. http n (scLastEventID c) = DoErr e \<and> strContains e noConn)" for n
  have e: "http n (scLastEventID c) = DoErr (e n)" "strContains (e n) noConn" for n
    using someI_ex [of "\<lambda>e. http n (scLastEventID c) = DoErr e \<and> strContains e noConn"] h by (auto simp: e_def)
  show "connectServer noConn unmarshal http fuel c =
         (let w1 = scInterval c; w2 = doubled w1; w3 = doubled w2; w4 = doubled w3 in
          Some (Returned (c\<lparr>scConnected := False, scStopped := True\<rparr>) [w1, w2, w3, w4]))"
    using assms(1) e unfolding connectServer_def k
    by (simp add: refused_step [where e = "e _"] Let_def del: connectLoop.simps(2))
next
  fix k
  assume "\<forall>n id. \<exists>e. http n id = DoErr e \<and> \<not> strContains e noConn"
  then show "connectServer noConn unmarshal http k c = None"
    unfolding connectServer_def by (intro other_forever) (use assms(1) in auto)
qed

lemma doubled_values: "doubled 2000000000 = 4000000000" "doubled 4000000000 = 8000000000" "doubled 8000000000 = 16000000000"
  by (simp_all add: doubled_def i64_def)

theorem sse_client_gives_up_witness:
  "connectServer ''refused'' demoUnmarshal (\<lambda>_ _. DoErr ''connection refused'') 5 (NewClient (2 * second)) =
     Some (Returned ((NewClient (2 * second))\<lparr>scStopped := True\<rparr>) [2 * second, 4 * second, 8 * second, 16 * second])"
proof -
  have "strContains ''connection refused'' ''refused''" by code_simp
  then show ?thesis
    using sse_client_gives_up [of "NewClient (2 * second)" 5 "\<lambda>_ _. DoErr ''connection refused''" "''refused''" demoUnmarshal]
    by (simp add: NewClient_def doubled_values Let_def)
qed

end
