(* ===== verification/SqlNames.thy ===== *)
theory SqlNames
  imports GoStrings "HOL-Library.Multiset"
begin

text \<open>
  Package \<open>pkg/sql2code/parser\<close>, \<open>nameFormat.go\<close> and the name functions of \<open>commonParser.go\<close>: how table and
  column names become identifiers and JSON names.

  \<open>peculiarNouns\<close> is a map of the source, and Go visits a map in an order that changes from run to run:
  every function that ranges over it takes that order as an argument, a permutation of the entries.
  \<open>xstrings.ToPascalCase\<close> and \<open>xstrings.ToSnakeCase\<close> are arguments too.
\<close>

definition peculiarNouns :: "(string \<times> string) list" where
  "peculiarNouns =
    [(''ID'', ''Id''), (''UID'', ''Uid''), (''UUID'', ''Uuid''), (''GUID'', ''Guid''), (''URI'', ''Uri''), (''URL'', ''Url''),
     (''IP'', ''Ip''), (''QPS'', ''Qps''), (''API'', ''Api''), (''ASCII'', ''Ascii''), (''CPU'', ''Cpu''), (''CSS'', ''Css''),
     (''DNS'', ''Dns''), (''EOF'', ''Eof''), (''HTML'', ''Html''), (''HTTP'', ''Http''), (''HTTPS'', ''Https''),
     (''JSON'', ''Json''), (''LHS'', ''Lhs''), (''RAM'', ''Ram''), (''RHS'', ''Rhs''), (''RPC'', ''Rpc''), (''SLA'', ''Sla''),
     (''SMTP'', ''Smtp''), (''SSH'', ''Ssh''), (''TLS'', ''Tls''), (''TTL'', ''Ttl''), (''UI'', ''Ui''), (''UTF8'', ''Utf8''),
     (''VM'', ''Vm''), (''XML'', ''Xml''), (''XSRF'', ''Xsrf''), (''XSS'', ''Xss'')]"

definition isPeculiar :: "string \<Rightarrow> bool" where
  "isPeculiar s \<longleftrightarrow> map_of peculiarNouns s \<noteq> None"

definition mapOrder :: "(string \<times> string) list \<Rightarrow> bool" where
  "mapOrder ord \<longleftrightarrow> mset ord = mset peculiarNouns"

text \<open>\<open>str[l-nl:] == v\<close>, guarded by \<open>l > nl\<close>, and the cut \<open>str[:l-nl]\<close>.\<close>

definition endsWith :: "string \<Rightarrow> string \<Rightarrow> bool" where
  "endsWith s v \<longleftrightarrow> length v < length s \<and> drop (length s - length v) s = v"

definition cutEnd :: "string \<Rightarrow> string \<Rightarrow> string" where
  "cutEnd s v = take (length s - length v) s"

fun camelSuffix :: "(string \<times> string) list \<Rightarrow> string \<Rightarrow> string" where
  "camelSuffix [] str = str"
| "camelSuffix ((k, v) # ord) str = (if endsWith str v then cutEnd str v @ k else camelSuffix ord str)"

definition toCamel :: "(string \<times> string) list \<Rightarrow> (string \<Rightarrow> string) \<Rightarrow> string \<Rightarrow> string" where
  "toCamel ord pascal s =
     (let str = pascal s; name = toUpper str in
      if isPeculiar name then name
      else (let str1 = camelSuffix ord str in if str1 = ''_ID'' then ''ID'' else str1))"

definition isLetter :: "char \<Rightarrow> bool" where
  "isLetter c \<longleftrightarrow> 65 \<le> byte c \<and> byte c \<le> 90 \<or> 97 \<le> byte c \<and> byte c \<le> 122"

fun firstLetterToLower :: "string \<Rightarrow> string" where
  "firstLetterToLower [] = []"
| "firstLetterToLower (c # s) = (if isLetter c then toLower [c] @ s else c # s)"

fun firstLetterToUpper :: "string \<Rightarrow> string" where
  "firstLetterToUpper [] = []"
| "firstLetterToUpper (c # s) = (if isLetter c then toUpper [c] @ s else c # s)"

definition customToCamel :: "(string \<times> string) list \<Rightarrow> (string \<Rightarrow> string) \<Rightarrow> string \<Rightarrow> string" where
  "customToCamel ord pascal s =
     (let str = toCamel ord pascal s in if isPeculiar str then toLower str else firstLetterToLower str)"

fun snakeSuffix :: "(string \<times> string) list \<Rightarrow> string \<Rightarrow> string" where
  "snakeSuffix [] str = str"
| "snakeSuffix ((k, v) # ord) str =
     (if str = k then toLower str
      else if endsWith str k then cutEnd str k @ ''_'' @ toLower k
      else snakeSuffix ord str)"

text \<open>The two ranges over the map, \<open>ord\<close> in \<open>toCamel\<close> and \<open>ord'\<close> here, have orders of their own.\<close>

definition customToSnake :: "(string \<times> string) list \<Rightarrow> (string \<times> string) list \<Rightarrow> (string \<Rightarrow> string) \<Rightarrow> (string \<Rightarrow> string) \<Rightarrow>
    string \<Rightarrow> string" where
  "customToSnake ord ord' pascal snake s =
     (let str = snake (snakeSuffix ord' (toCamel ord pascal s)) in
      if hasPrefix str ''__'' then drop 1 str else str)"

definition customFirstLetterToLower :: "string \<Rightarrow> string" where
  "customFirstLetterToLower s =
     (let str = firstLetterToLower s in
      if str = ''iD'' then ''id'' else if str = ''iP'' then ''ip''
      else if str = ''iDs'' then ''ids'' else if str = ''iPs'' then ''ips'' else str)"

definition customEndOfLetterToLower :: "string \<Rightarrow> string \<Rightarrow> string" where
  "customEndOfLetterToLower srcStr str =
     (let l = int (length str) - int (length srcStr) in
      if l = 1 \<and> str ! (length str - 1) = CHR ''S'' then take (length str - 1) str @ ''s''
      else if l = 2 \<and> drop (length str - 2) str = ''ES'' then take (length str - 2) str @ ''es''
      else str)"

section \<open>Determinism\<close>

lemma endsWith_iff: "endsWith s v \<longleftrightarrow> (\<exists>p. p \<noteq> [] \<and> s = p @ v)"
proof
  assume "endsWith s v"
  then show "\<exists>p. p \<noteq> [] \<and> s = p @ v"
    by (intro exI [of _ "take (length s - length v) s"]) (auto simp: endsWith_def, metis append_take_drop_id)
qed (auto simp: endsWith_def)

lemma cutEnd_append [simp]: "cutEnd (p @ v) v = p"
  by (simp add: cutEnd_def)

text \<open>No Pascal spelling of the table is a proper suffix of another one, and no two are equal.\<close>

lemma pascal_spellings_suffix_free:
  "\<forall>e\<in>set peculiarNouns. \<forall>e'\<in>set peculiarNouns. suffix (snd e) (snd e') \<longrightarrow> e = e'"
  by code_simp

lemma mapOrder_set: "mapOrder ord \<Longrightarrow> set ord = set peculiarNouns"
  by (metis mapOrder_def set_mset_mset)

lemma camel_match_unique:
  assumes "(k, v) \<in> set peculiarNouns" "(k', v') \<in> set peculiarNouns" "endsWith s v" "endsWith s v'"
  shows "(k, v) = (k', v')"
proof -
  have "suffix v s" "suffix v' s" using assms(3,4) unfolding endsWith_iff suffix_def by blast+
  then have "suffix v v' \<or> suffix v' v" by (rule suffix_same_cases)
  then show ?thesis
    using bspec [OF bspec [OF pascal_spellings_suffix_free assms(1)] assms(2)]
      bspec [OF bspec [OF pascal_spellings_suffix_free assms(2)] assms(1)] by auto
qed

lemma camelSuffix_absent: "(\<And>k v. (k, v) \<in> set ord \<Longrightarrow> \<not> endsWith s v) \<Longrightarrow> camelSuffix ord s = s"
  by (induction ord) force+

lemma camelSuffix_match:
  assumes "set ord \<subseteq> set peculiarNouns" "(k, v) \<in> set ord" "endsWith s v"
  shows "camelSuffix ord s = cutEnd s v @ k"
  using assms
proof (induction ord)
  case (Cons e ord)
  obtain k' v' where e: "e = (k', v')" by (cases e)
  show ?case
  proof (cases "endsWith s v'")
    case True
    then have "(k, v) = (k', v')" using camel_match_unique [of k v k' v' s] Cons.prems e by auto
    then show ?thesis using True e by simp
  next
    case False
    then show ?thesis using Cons e by auto
  qed
qed simp

lemma camelSuffix_order: "mapOrder o1 \<Longrightarrow> mapOrder o2 \<Longrightarrow> camelSuffix o1 s = camelSuffix o2 s"
proof (cases "\<exists>k v. (k, v) \<in> set peculiarNouns \<and> endsWith s v")
  case True
  then obtain k v where kv: "(k, v) \<in> set peculiarNouns" "endsWith s v" by blast
  assume "mapOrder o1" "mapOrder o2"
  then show ?thesis using camelSuffix_match kv mapOrder_set by (metis order_refl)
next
  case False
  assume "mapOrder o1" "mapOrder o2"
  then show ?thesis using camelSuffix_absent False mapOrder_set by metis
qed

lemma toCamel_order: "mapOrder o1 \<Longrightarrow> mapOrder o2 \<Longrightarrow> toCamel o1 pascal s = toCamel o2 pascal s"
  by (simp add: toCamel_def camelSuffix_order [of o1 o2] Let_def)

text \<open>The keys that are a suffix of another key all end in \<open>UID\<close>.\<close>

lemma keys_suffix:
  "\<forall>e\<in>set peculiarNouns. \<forall>e'\<in>set peculiarNouns. suffix (fst e) (fst e') \<longrightarrow> fst e = fst e' \<or> suffix ''UID'' (fst e')"
  by code_simp

definition snakeMatch :: "string \<Rightarrow> string \<Rightarrow> bool" where
  "snakeMatch s k \<longleftrightarrow> s = k \<or> endsWith s k"

definition snakeCut :: "string \<Rightarrow> string \<Rightarrow> string" where
  "snakeCut s k = (if s = k then toLower s else cutEnd s k @ ''_'' @ toLower k)"

lemma snakeMatch_suffix: "snakeMatch s k \<Longrightarrow> suffix k s"
  by (auto simp: snakeMatch_def endsWith_iff suffix_def)

lemma snakeSuffix_cases:
  "snakeSuffix ((k, v) # ord) s = (if snakeMatch s k then snakeCut s k else snakeSuffix ord s)"
  by (simp add: snakeMatch_def snakeCut_def)

lemma snakeSuffix_absent: "(\<And>k v. (k, v) \<in> set ord \<Longrightarrow> \<not> snakeMatch s k) \<Longrightarrow> snakeSuffix ord s = s"
proof (induction ord)
  case (Cons e ord)
  obtain k v where e: "e = (k, v)" by (cases e)
  have "\<not> snakeMatch s k" using Cons.prems e by auto
  moreover have "snakeSuffix ord s = s" using Cons by auto
  ultimately show ?case using e by (simp add: snakeSuffix_cases del: snakeSuffix.simps(2))
qed simp

lemma snakeSuffix_match:
  assumes "set ord \<subseteq> set peculiarNouns" "(k, v) \<in> set ord" "snakeMatch s k" "\<not> hasSuffix s ''UID''"
  shows "snakeSuffix ord s = snakeCut s k"
  using assms(1,2)
proof (induction ord)
  case (Cons e ord)
  obtain k' v' where e: "e = (k', v')" by (cases e)
  have uid: "\<not> suffix ''UID'' x" if "snakeMatch s x" for x
    using assms(4) suffix_order.trans [OF _ snakeMatch_suffix [OF that]] by (auto simp: hasSuffix_iff suffix_def)
  show ?case
  proof (cases "snakeMatch s k'")
    case True
    then have "suffix k k' \<or> suffix k' k"
      using assms(3) snakeMatch_suffix suffix_same_cases by blast
    moreover have m: "(k, v) \<in> set peculiarNouns" "(k', v') \<in> set peculiarNouns" using Cons.prems e by auto
    ultimately have "k = k'"
      using bspec [OF bspec [OF keys_suffix m(1)] m(2)] bspec [OF bspec [OF keys_suffix m(2)] m(1)]
        uid [OF True] uid [OF assms(3)] by auto
    then show ?thesis using True e by (simp add: snakeSuffix_cases del: snakeSuffix.simps(2))
  next
    case False
    then show ?thesis using Cons e assms(3) by (auto simp: snakeSuffix_cases simp del: snakeSuffix.simps(2))
  qed
qed simp

lemma snakeSuffix_order:
  assumes "mapOrder o1" "mapOrder o2" "\<not> hasSuffix s ''UID''"
  shows "snakeSuffix o1 s = snakeSuffix o2 s"
proof (cases "\<exists>k v. (k, v) \<in> set peculiarNouns \<and> snakeMatch s k")
  case True
  then show ?thesis using snakeSuffix_match assms mapOrder_set by (metis order_refl)
next
  case False
  then show ?thesis using snakeSuffix_absent assms mapOrder_set by metis
qed

text \<open>The orders that visit one of the two shortest of these keys first.\<close>

definition idFirst :: "(string \<times> string) list" where
  "idFirst = peculiarNouns"

definition uidFirst :: "(string \<times> string) list" where
  "uidFirst = (''UID'', ''Uid'') # (''ID'', ''Id'') # drop 2 peculiarNouns"

lemma orders: "mapOrder idFirst" "mapOrder uidFirst"
  by (simp_all add: mapOrder_def idFirst_def uidFirst_def peculiarNouns_def)

lemma snakeSuffix_uid:
  assumes "hasSuffix s ''UID''"
  shows "snakeSuffix idFirst s \<noteq> snakeSuffix uidFirst s"
proof -
  obtain p where s: "s = p @ ''UID''" using assms by (auto simp: hasSuffix_iff)
  have l: "toLower ''ID'' = ''id''" "toLower ''UID'' = ''uid''" by code_simp+
  have c: "cutEnd (p @ ''UID'') ''ID'' = p @ ''U''" by (simp add: cutEnd_def)
  have "snakeSuffix idFirst s = p @ ''U_id''"
    by (simp add: s idFirst_def peculiarNouns_def endsWith_def c l)
  moreover have "snakeSuffix uidFirst s = (if p = [] then ''uid'' else p @ ''_uid'')"
    by (simp add: s uidFirst_def endsWith_def l)
  ultimately show ?thesis by (cases "p = []") simp_all
qed

section \<open>Properties\<close>



end
