(* ===== verification/SqlTypes.thy ===== *)
theory SqlTypes
  imports SqlNames
begin

text \<open>
  Package \<open>pkg/sql2code/parser\<close>: the fields of a table and how their types are written in Go, in the DAO
  and JSON templates and in proto files (the type functions of \<open>parser.go\<close> and \<open>commonParser.go\<close>), and the
  treatment of comments and tags.
\<close>

abbreviation DBDriverMysql :: string where "DBDriverMysql \<equiv> ''mysql''"
abbreviation DBDriverPostgresql :: string where "DBDriverPostgresql \<equiv> ''postgresql''"
abbreviation DBDriverTidb :: string where "DBDriverTidb \<equiv> ''tidb''"
abbreviation DBDriverSqlite :: string where "DBDriverSqlite \<equiv> ''sqlite''"
abbreviation DBDriverMongodb :: string where "DBDriverMongodb \<equiv> ''mongodb''"
abbreviation jsonTypeName :: string where "jsonTypeName \<equiv> ''datatypes.JSON''"
abbreviation boolTypeName :: string where "boolTypeName \<equiv> ''sgorm.Bool''"
abbreviation boolTypeTinyName :: string where "boolTypeTinyName \<equiv> ''sgorm.TinyBool''"
abbreviation decimalTypeName :: string where "decimalTypeName \<equiv> ''decimal.Decimal''"
abbreviation unknownCustomType :: string where "unknownCustomType \<equiv> ''UnknownCustomType''"
abbreviation goTypeOID :: string where "goTypeOID \<equiv> ''primitive.ObjectID''"
abbreviation NL :: string where "NL \<equiv> [CHR 0x0A]"
abbreviation dquote :: string where "dquote \<equiv> [CHR 0x22]"

section \<open>Fields\<close>

record rewriterField =
  rwGoType :: string
  rwPath :: string

record tmplField =
  fIsPrimaryKey :: bool
  fColName :: string
  fName :: string
  fGoType :: string
  fTag :: string
  fComment :: string
  fJSONName :: string
  fDBDriver :: string
  fRewriter :: "rewriterField option"

definition sqlDriver :: "string \<Rightarrow> bool" where
  "sqlDriver d \<longleftrightarrow> d = DBDriverMysql \<or> d = DBDriverPostgresql \<or> d = DBDriverTidb"

definition rwType :: "tmplField \<Rightarrow> string option" where
  "rwType t = map_option rwGoType (fRewriter t)"

definition numberTypes :: "string list" where
  "numberTypes = [''int8'', ''int16'', ''int32'', ''int64'', ''int'', ''uint8'', ''uint16'', ''uint32'', ''uint64'', ''uint'',
     ''float64'', ''float32'', ''sql.NullInt32'', ''sql.NullInt64'', ''sql.NullFloat64'']"

definition timeTypes :: "string list" where
  "timeTypes = [''time.Time'', ''*time.Time'', ''sql.NullTime'']"

definition ConditionZero :: "tmplField \<Rightarrow> string" where
  "ConditionZero t =
     (if sqlDriver (fDBDriver t) \<and> rwType t \<in> {Some boolTypeName, Some boolTypeTinyName} then '' != nil''
      else if sqlDriver (fDBDriver t) \<and> rwType t = Some jsonTypeName then ''.String() != '' @ dquote @ dquote
      else if sqlDriver (fDBDriver t) \<and> rwType t = Some decimalTypeName then ''.IsZero() == false''
      else if fGoType t \<in> set numberTypes then '' != 0''
      else if fGoType t \<in> {''string'', ''sql.NullString''} then '' != '' @ dquote @ dquote
      else if fGoType t \<in> set timeTypes then '' != nil && table.'' @ fName t @ ''.IsZero() == false''
      else if fGoType t = ''interface{}'' then '' != nil''
      else if fGoType t = ''bool'' then '' != false''
      else if fDBDriver t = DBDriverMongodb \<and> fGoType t = goTypeOID then '' != primitive.NilObjectID''
      else if fGoType t = ''*'' @ fName t then '' != nil''
      else if strContains (fGoType t) ''[]'' then '' != nil && len(table.'' @ fName t @ '') > 0''
      else if fGoType t = [] then '' != '' @ dquote @ ''unknown_zero_value'' @ dquote
      else '' != '' @ fGoType t)"

definition GoZero :: "tmplField \<Rightarrow> string" where
  "GoZero t =
     (if sqlDriver (fDBDriver t) \<and> rwType t \<in> {Some jsonTypeName, Some decimalTypeName} then '' = '' @ dquote @ ''string'' @ dquote
      else if sqlDriver (fDBDriver t) \<and> rwType t \<in> {Some boolTypeName, Some boolTypeTinyName} then ''= false''
      else if fGoType t \<in> set numberTypes then ''= 0''
      else if fGoType t \<in> {''string'', ''sql.NullString''} then ''= '' @ dquote @ ''string'' @ dquote
      else if fGoType t \<in> set timeTypes then ''= '' @ dquote @ ''0000-01-00T00:00:00.000+08:00'' @ dquote
      else if fGoType t \<in> {''[]byte'', ''[]string'', ''[]int'', ''interface{}''} then ''= nil''
      else if fGoType t = ''bool'' then ''= false''
      else if fDBDriver t = DBDriverMongodb \<and> fGoType t = goTypeOID then ''= primitive.NilObjectID''
      else if fDBDriver t = DBDriverMongodb \<and> fGoType t = ''*'' @ fName t then ''= nil''
      else if fDBDriver t = DBDriverMongodb \<and> strContains (fGoType t) ''[]'' then ''= nil''
      else if fGoType t = [] then ''!= '' @ dquote @ ''unknown_zero_value'' @ dquote
      else ''= '' @ fGoType t)"

definition GoTypeZero :: "tmplField \<Rightarrow> string" where
  "GoTypeZero t =
     (if sqlDriver (fDBDriver t) \<and> rwType t \<in> {Some jsonTypeName, Some decimalTypeName} then dquote @ dquote
      else if sqlDriver (fDBDriver t) \<and> rwType t \<in> {Some boolTypeName, Some boolTypeTinyName} then ''false''
      else if fGoType t \<in> set numberTypes then ''0''
      else if fGoType t \<in> {''string'', ''sql.NullString'', jsonTypeName} then dquote @ dquote
      else if fGoType t \<in> set timeTypes then dquote @ dquote
      else if fGoType t \<in> {''[]byte'', ''[]string'', ''[]int'', ''interface{}''} then ''nil''
      else if fGoType t = ''bool'' then ''false''
      else if fDBDriver t = DBDriverMongodb \<and> fGoType t = goTypeOID then ''primitive.NilObjectID''
      else if fDBDriver t = DBDriverMongodb \<and> fGoType t = ''*'' @ fName t then ''nil''
      else if fDBDriver t = DBDriverMongodb \<and> strContains (fGoType t) ''[]'' then ''nil''
      else if fGoType t = [] then dquote @ ''unknown_zero_value'' @ dquote
      else fGoType t)"

text \<open>\<open>AddOneWithTag\<close> and \<open>AddOneWithTag2\<close>: the number of a proto field with its validation rule.\<close>

definition uriTag :: "string \<Rightarrow> string" where
  "uriTag name = '', (tagger.tags) = '' @ dquote @ ''uri:'' @ [CHR 0x5C] @ dquote @ name @ [CHR 0x5C] @ dquote @ dquote"

definition AddOne :: "nat \<Rightarrow> nat" where
  "AddOne i = i + 1"

definition AddOneWithTag :: "tmplField \<Rightarrow> nat \<Rightarrow> string" where
  "AddOneWithTag t i =
     (if fColName t = ''id'' then
        (if fDBDriver t = DBDriverMongodb
         then dec (i + 1) @ '' [(validate.rules).string.min_len = 6'' @ uriTag ''id'' @ '']''
         else dec (i + 1) @ '' [(validate.rules).'' @ fGoType t @ ''.gt = 0'' @ uriTag ''id'' @ '']'')
      else dec (i + 1))"

definition AddOneWithTag2 :: "tmplField \<Rightarrow> nat \<Rightarrow> string" where
  "AddOneWithTag2 t i =
     (if fIsPrimaryKey t \<or> fColName t = ''id'' then
        (if fGoType t = ''string''
         then dec (i + 1) @ '' [(validate.rules).string.min_len = 1'' @ uriTag (fJSONName t) @ '']''
         else dec (i + 1) @ '' [(validate.rules).'' @ fGoType t @ ''.gt = 0'' @ uriTag (fJSONName t) @ '']'')
      else dec (i + 1))"

fun getProtoFieldName :: "tmplField list \<Rightarrow> string" where
  "getProtoFieldName [] = []"
| "getProtoFieldName (f # fs) =
     (if fIsPrimaryKey f \<or> fColName f = ''id'' then fJSONName f else getProtoFieldName fs)"

definition ignoreColumns :: "string list" where
  "ignoreColumns = [''id'', ''created_at'', ''updated_at'', ''deleted_at'', ''__mysqlModel__'']"

definition isIgnoreFields :: "string \<Rightarrow> string list \<Rightarrow> bool" where
  "isIgnoreFields colName falseColumn \<longleftrightarrow> colName \<notin> set falseColumn \<and> colName \<in> set ignoreColumns"

section \<open>Comments, tags and default values\<close>

definition newlineIdentifier :: "(string \<times> string) list" where
  "newlineIdentifier = [([CHR 0x0D, CHR 0x0A], NL @ ''//''), (NL, NL @ ''//''), ([CHR 0x0D], NL @ ''//''), (NL @ ''////'', NL @ ''//'')]"

definition replaceNewline :: "string \<Rightarrow> string \<times> string \<Rightarrow> string" where
  "replaceNewline c r = (if strContains c (fst r) then replaceAll (fst r) (snd r) c else c)"

definition replaceCommentNewline :: "string \<Rightarrow> string" where
  "replaceCommentNewline comment = foldl replaceNewline comment newlineIdentifier"

fun tagPairs :: "string list \<Rightarrow> string" where
  "tagPairs (k # v # rest) = k @ '':'' @ dquote @ v @ dquote @ '' '' @ tagPairs rest"
| "tagPairs _ = []"

definition makeTagStr :: "string list \<Rightarrow> string" where
  "makeTagStr tags = (let s = tagPairs tags in if length s > 0 then take (length s - 1) s else s)"

text \<open>
  What the default value reads of an expression of the SQL parser: the text of its constant, unless
  null, its flag and the name when it is a function call.
\<close>

record exprNode =
  exDatum :: "string option"
  exConstant :: bool
  exHasFunc :: bool
  exFunc :: "string option"

definition getDefaultValue :: "exprNode \<Rightarrow> string" where
  "getDefaultValue e =
     (case exDatum e of
        Some v \<Rightarrow> v
      | None \<Rightarrow>
         if \<not> exConstant e \<and> exHasFunc e then (case exFunc e of Some f \<Rightarrow> f | None \<Rightarrow> []) else [])"

section \<open>Types\<close>

datatype NullStyle = NullDisable | NullInSql | NullInPointer

text \<open>The column types of the SQL parser that the source names; \<open>TypeOther\<close> is every other one.\<close>

datatype mysqlType =
    TypeTiny | TypeShort | TypeInt24 | TypeLong | TypeYear | TypeLonglong | TypeDuration | TypeFloat | TypeDouble
  | TypeString | TypeVarchar | TypeVarString | TypeBlob | TypeTinyBlob | TypeMediumBlob | TypeLongBlob
  | TypeTimestamp | TypeDatetime | TypeDate | TypeNewDate | TypeDecimal | TypeNewDecimal
  | TypeJSON | TypeEnum | TypeSet | TypeGeometry | TypeBit | TypeOther

record fieldType =
  ftTp :: mysqlType
  ftUnsigned :: bool
  ftString :: string
  ftInfoSchema :: string

definition intTypes :: "mysqlType list" where
  "intTypes = [TypeShort, TypeInt24, TypeLong, TypeYear]"

definition textTypes :: "mysqlType list" where
  "textTypes = [TypeString, TypeVarchar, TypeVarString, TypeBlob, TypeTinyBlob, TypeMediumBlob, TypeLongBlob]"

definition dateTypes :: "mysqlType list" where
  "dateTypes = [TypeTimestamp, TypeDatetime, TypeDate, TypeNewDate]"

definition sqlNullType :: "mysqlType \<Rightarrow> string option" where
  "sqlNullType tp =
     (if tp = TypeTiny then Some ''sql.NullInt8''
      else if tp \<in> set intTypes then Some ''sql.NullInt32''
      else if tp \<in> {TypeLonglong, TypeDuration} then Some ''sql.NullInt64''
      else if tp \<in> {TypeFloat, TypeDouble} then Some ''sql.NullFloat64''
      else if tp \<in> set textTypes then Some ''sql.NullString''
      else if tp \<in> set dateTypes then Some ''sql.NullTime''
      else if tp \<in> {TypeDecimal, TypeNewDecimal} then Some ''sql.NullString''
      else if tp \<in> {TypeJSON, TypeEnum, TypeSet, TypeGeometry} then Some ''sql.NullString''
      else if tp = TypeBit then Some ''sql.NullBool''
      else None)"

abbreviation boolPkgPath :: string where "boolPkgPath \<equiv> ''github.com/moweilong/milady/pkg/sgorm''"

definition plainType :: "fieldType \<Rightarrow> (string \<times> string \<times> rewriterField option) option" where
  "plainType ft =
     (let tp = ftTp ft in
      if tp = TypeTiny then
        (if toLower (ftString ft) = ''tinyint(1)''
         then Some (''bool'', [], Some \<lparr>rwGoType = boolTypeTinyName, rwPath = boolPkgPath\<rparr>)
         else Some (if ftUnsigned ft then ''uint'' else ''int'', [], None))
      else if tp \<in> set intTypes then Some (if ftUnsigned ft then ''uint'' else ''int'', [], None)
      else if tp \<in> {TypeLonglong, TypeDuration} then Some (if ftUnsigned ft then ''uint64'' else ''int64'', [], None)
      else if tp \<in> {TypeFloat, TypeDouble} then Some (''float64'', [], None)
      else if tp \<in> set textTypes then Some (''string'', [], None)
      else if tp \<in> set dateTypes then Some (''time.Time'', ''time'', None)
      else if tp \<in> {TypeEnum, TypeSet, TypeGeometry} then Some (''string'', [], None)
      else if tp = TypeJSON
      then Some (''string'', [], Some \<lparr>rwGoType = jsonTypeName, rwPath = ''gorm.io/datatypes''\<rparr>)
      else if tp = TypeBit then
        (if toLower (ftString ft) = ''bit(1)''
         then Some (''bool'', [], Some \<lparr>rwGoType = boolTypeName, rwPath = boolPkgPath\<rparr>)
         else Some (''[]byte'', [], None))
      else if tp \<in> {TypeDecimal, TypeNewDecimal}
      then Some (''string'', [], Some \<lparr>rwGoType = decimalTypeName, rwPath = ''github.com/shopspring/decimal''\<rparr>)
      else None)"

text \<open>The result is the Go type, the path to import (empty for none) and the rewriting.\<close>

definition mysqlToGoType :: "fieldType \<Rightarrow> NullStyle \<Rightarrow> string \<times> string \<times> rewriterField option" where
  "mysqlToGoType ft style =
     (if style = NullInSql then
        (case sqlNullType (ftTp ft) of
           Some name \<Rightarrow> (name, ''database/sql'', None)
         | None \<Rightarrow> (unknownCustomType, [], None))
      else
        (case plainType ft of
           Some (name, path, rw) \<Rightarrow> (if style = NullInPointer then ''*'' @ name else name, path, rw)
         | None \<Rightarrow> (unknownCustomType, [], None)))"

definition protoOfGo :: "string \<Rightarrow> string" where
  "protoOfGo g =
     (if g = ''int'' then ''int32'' else if g = ''uint'' then ''uint32''
      else if g \<in> {''time.Time'', ''*time.Time''} then ''string''
      else if g = ''float32'' then ''float'' else if g = ''float64'' then ''double''
      else if g \<in> {''[]int'', ''[]int64''} then ''repeated int64''
      else if g = ''[]int32'' then ''repeated int32''
      else if g = ''[]byte'' then ''string''
      else if g = ''[]string'' then ''repeated string''
      else if g = jsonTypeName then ''string''
      else g)"

definition mongoProtoType :: "string \<Rightarrow> string" where
  "mongoProtoType g =
     (let g1 = (if hd g = CHR ''*'' then tl g
                else if strContains g ''[]*'' then ''repeated '' @ replaceAll ''[]*'' [] g else g)
      in if g1 = ''[]time.Time'' then ''repeated string'' else g1)"

text \<open>One turn of \<open>goTypeToProto\<close>; \<open>js\<close> is the JSON name of a column.\<close>

definition fieldToProto :: "(string \<Rightarrow> string) \<Rightarrow> bool \<Rightarrow> tmplField \<Rightarrow> tmplField" where
  "fieldToProto js isCommonStyle f =
     (let g1 = protoOfGo (fGoType f);
          g2 = (if fDBDriver f = DBDriverMongodb \<and> g1 \<noteq> [] then mongoProtoType g1
                else if toLower (fName f) = ''id'' \<and> \<not> isCommonStyle then ''uint64'' else g1);
          g3 = (case rwType f of
                  Some r \<Rightarrow> if r \<in> {jsonTypeName, decimalTypeName} then ''string''
                            else if r \<in> {boolTypeName, boolTypeTinyName} then ''bool'' else g2
                | None \<Rightarrow> g2)
      in f\<lparr>fGoType := g3, fJSONName := js (fColName f)\<rparr>)"

definition goTypeToProto :: "(string \<Rightarrow> string) \<Rightarrow> bool \<Rightarrow> tmplField list \<Rightarrow> tmplField list" where
  "goTypeToProto js isCommonStyle fs = map (fieldToProto js isCommonStyle) fs"

definition simpleGoTypeToProtoType :: "string \<Rightarrow> string" where
  "simpleGoTypeToProtoType g =
     (if g \<in> {''int'', ''int32''} then ''int32'' else if g \<in> {''uint'', ''uint32''} then ''uint32''
      else if g = ''int64'' then ''int64'' else if g = ''uint64'' then ''uint64''
      else if g = ''string'' then ''string'' else if g \<in> {''time.Time'', ''*time.Time''} then ''string''
      else if g = ''float32'' then ''float'' else if g = ''float64'' then ''double''
      else if g \<in> {''[]int'', ''[]int64''} then ''repeated int64''
      else if g = ''[]int32'' then ''repeated int32''
      else if g = ''[]byte'' then ''string'' else if g = ''[]string'' then ''repeated string''
      else if g = jsonTypeName then ''string'' else ''string'')"

definition getHandlerGoType :: "tmplField \<Rightarrow> string" where
  "getHandlerGoType f =
     (if fGoType f = ''time.Time'' then ''*time.Time''
      else if sqlDriver (fDBDriver f) \<and> rwType f \<in> {Some jsonTypeName, Some decimalTypeName} then ''string''
      else if sqlDriver (fDBDriver f) \<and> rwType f \<in> {Some boolTypeName, Some boolTypeTinyName} then ''*bool''
      else fGoType f)"

section \<open>Properties\<close>

text \<open>The scalar types of proto3 that the generator aims at.\<close>

definition protoScalars :: "string list" where
  "protoScalars = [''int32'', ''uint32'', ''int64'', ''uint64'', ''double'', ''string'', ''bool'']"

definition typedAs :: "fieldType \<Rightarrow> NullStyle \<Rightarrow> tmplField \<Rightarrow> bool" where
  "typedAs ft style f \<longleftrightarrow> (fGoType f, fRewriter f) = (fst (mysqlToGoType ft style), snd (snd (mysqlToGoType ft style)))"

definition plainShapes :: "(string \<times> string option) list" where
  "plainShapes = [(''bool'', Some boolTypeTinyName), (''uint'', None), (''int'', None), (''uint64'', None),
     (''int64'', None), (''float64'', None), (''string'', None), (''time.Time'', None), (''string'', Some jsonTypeName),
     (''bool'', Some boolTypeName), (''[]byte'', None), (''string'', Some decimalTypeName)]"

lemma plainType_pred: "pred_option (\<lambda>(g, p, rw). (g, map_option rwGoType rw) \<in> set plainShapes) (plainType ft)"
  by (simp add: plainType_def plainShapes_def Let_def)

lemma plainType_shape:
  "plainType ft = Some (g, p, rw) \<Longrightarrow> (g, map_option rwGoType rw) \<in> set plainShapes"
  using plainType_pred [of ft] by simp

lemma plainType_None: "plainType ft = None \<longleftrightarrow> ftTp ft = TypeOther"
  by (cases "ftTp ft") (simp_all add: plainType_def Let_def intTypes_def textTypes_def dateTypes_def)

lemma sqlNullType_None: "sqlNullType tp = None \<longleftrightarrow> tp = TypeOther"
  by (cases tp) (simp_all add: sqlNullType_def intTypes_def textTypes_def dateTypes_def)

lemma sqlNullType_shape:
  "sqlNullType tp = Some g \<Longrightarrow> g \<in> {''sql.NullInt8'', ''sql.NullInt32'', ''sql.NullInt64'', ''sql.NullFloat64'', ''sql.NullString'',
     ''sql.NullTime'', ''sql.NullBool''}"
  by (simp add: sqlNullType_def split: if_splits)

lemma plainType_time:
  "plainType ft = Some (g, p, rw) \<Longrightarrow> g = ''time.Time'' \<longleftrightarrow> ftTp ft \<in> set dateTypes"
  by (cases "ftTp ft") (auto simp: plainType_def Let_def intTypes_def textTypes_def dateTypes_def split: if_splits)

text \<open>The proto type of a relational column, with \<open>b\<close> for the id column of the standard style.\<close>

definition protoTypeOf :: "string \<Rightarrow> string option \<Rightarrow> bool \<Rightarrow> string" where
  "protoTypeOf g rw b =
    (let g1 = if b then ''uint64'' else protoOfGo g in
     case rw of
       Some r \<Rightarrow> if r \<in> {jsonTypeName, decimalTypeName} then ''string''
                 else if r \<in> {boolTypeName, boolTypeTinyName} then ''bool'' else g1
     | None \<Rightarrow> g1)"

lemma fieldToProto_type:
  assumes "fDBDriver f \<noteq> DBDriverMongodb"
  shows "fGoType (fieldToProto js c f) = protoTypeOf (fGoType f) (rwType f) (toLower (fName f) = ''id'' \<and> \<not> c)"
  using assms by (simp add: fieldToProto_def protoTypeOf_def Let_def split: option.split)

lemma protoTypeOf_sql:
  "g \<in> {''sql.NullInt8'', ''sql.NullInt32'', ''sql.NullInt64'', ''sql.NullFloat64'', ''sql.NullString'', ''sql.NullTime'', ''sql.NullBool''} \<Longrightarrow>
   protoTypeOf g None b \<in> set protoScalars \<longleftrightarrow> b"
  by (elim insertE) (simp_all add: protoTypeOf_def protoOfGo_def protoScalars_def)

lemma protoTypeOf_shapes:
  "\<forall>b. list_all (\<lambda>(g, r). protoTypeOf g r b \<in> set protoScalars \<and>
      (protoTypeOf (''*'' @ g) r b \<in> set protoScalars \<longleftrightarrow> b \<or> r \<noteq> None \<or> g = ''time.Time'')) plainShapes"
  by code_simp

lemma protoTypeOf_plain:
  assumes "plainType ft = Some (g, p, rw)"
  shows "protoTypeOf g (map_option rwGoType rw) b \<in> set protoScalars"
    and "protoTypeOf (''*'' @ g) (map_option rwGoType rw) b \<in> set protoScalars \<longleftrightarrow> b \<or> rw \<noteq> None \<or> g = ''time.Time''"
  using spec [OF protoTypeOf_shapes, of b] plainType_shape [OF assms] by (auto simp: list_all_iff)


definition idColumn :: tmplField where
  "idColumn = \<lparr>fIsPrimaryKey = True, fColName = ''uid'', fName = ''UID'', fGoType = ''uint'', fTag = [], fComment = [],
     fJSONName = ''uid'', fDBDriver = DBDriverMysql, fRewriter = None\<rparr>"


text \<open>Every newline is followed by a comment marker.\<close>

fun nlMarked :: "string \<Rightarrow> bool" where
  "nlMarked [] \<longleftrightarrow> True"
| "nlMarked (c # s) \<longleftrightarrow> (c = CHR 0x0A \<longrightarrow> hasPrefix s ''//'') \<and> nlMarked s"

lemma slashes_iff: "hasPrefix s ''//'' \<longleftrightarrow> (\<exists>t. s = CHR ''/'' # CHR ''/'' # t)"
  by (simp add: hasPrefix_iff)

lemma nlMarked_drop: "nlMarked s \<Longrightarrow> nlMarked (drop n s)"
  by (induction s arbitrary: n) (auto simp: drop_Cons split: nat.split)

lemma replaceNewline_eq: "replaceNewline c r = replaceAll (fst r) (snd r) c"
  by (simp add: replaceNewline_def replaceAll_absent)

lemma nlMarked_nl: "nlMarked (replaceAll NL (NL @ ''//'') s)"
  by (induction s) (auto simp: hasPrefix_def)

lemma replaceAll_slashes:
  assumes "hasPrefix s ''//''" "hd old \<noteq> CHR ''/''"
  shows "hasPrefix (replaceAll old new s) ''//''"
proof -
  obtain t where s: "s = CHR ''/'' # CHR ''/'' # t" using assms(1) by (auto simp: slashes_iff)
  have "(old \<noteq> [] \<and> hasPrefix (CHR ''/'' # u) old) = False" for u using assms(2) by (cases old) (auto simp: hasPrefix_def)
  then have "replaceAll old new s = CHR ''/'' # CHR ''/'' # replaceAll old new t" by (simp only: s replaceAll.simps if_False)
  then show ?thesis by (simp add: hasPrefix_def)
qed

lemma nlMarked_replace:
  assumes "hd old \<noteq> CHR ''/''" "nlMarked s"
  shows "nlMarked (replaceAll old (NL @ ''//'') s)"
  using assms
proof (induction old "NL @ ''//''" s rule: replaceAll.induct)
  case (2 old c s)
  show ?case
  proof (cases "old \<noteq> [] \<and> hasPrefix (c # s) old")
    case True
    then show ?thesis using 2(1) [OF True "2.prems"(1)] "2.prems" by (simp add: nlMarked_drop hasPrefix_def)
  next
    case False
    then show ?thesis using 2(2) [OF False "2.prems"(1)] "2.prems" replaceAll_slashes [of s old] by auto
  qed
qed simp

lemma cr_replaced: "CHR 0x0D \<notin> set (replaceAll [CHR 0x0D] (NL @ ''//'') s)"
  by (induction s) (auto simp: hasPrefix_def)

lemma replaceAll_set: "set (replaceAll old new s) \<subseteq> set s \<union> set new"
proof (induction old new s rule: replaceAll.induct)
  case (2 old new c s)
  then show ?case by (auto dest: in_set_dropD)
qed simp

text \<open>
  C17: The comment of a table or column cannot leave its Go comment: after the replacement there is no
  carriage return, every newline is followed by a comment marker, and a comment without line breaks is
  unchanged.
\<close>
theorem comment_stays_comment:
  "nlMarked (replaceCommentNewline c) \<and> CHR 0x0D \<notin> set (replaceCommentNewline c) \<and>
   (CHR 0x0A \<notin> set c \<and> CHR 0x0D \<notin> set c \<longrightarrow> replaceCommentNewline c = c)"
proof (intro conjI impI)
  let ?c2 = "replaceAll NL (NL @ ''//'') (replaceAll [CHR 0x0D, CHR 0x0A] (NL @ ''//'') c)"
  let ?c3 = "replaceAll [CHR 0x0D] (NL @ ''//'') ?c2"
  have eq: "replaceCommentNewline c = replaceAll (NL @ ''////'') (NL @ ''//'') ?c3"
    by (simp add: replaceCommentNewline_def newlineIdentifier_def replaceNewline_eq)
  have "nlMarked ?c3" by (rule nlMarked_replace) (simp, rule nlMarked_nl)
  then show "nlMarked (replaceCommentNewline c)" unfolding eq by (rule nlMarked_replace [rotated]) simp
  show "CHR 0x0D \<notin> set (replaceCommentNewline c)"
    using cr_replaced [of ?c2] replaceAll_set [of "NL @ ''////''" "NL @ ''//''" ?c3] unfolding eq by auto
  assume "CHR 0x0A \<notin> set c \<and> CHR 0x0D \<notin> set c"
  then have "\<not> strContains c old" if "hd old \<in> {CHR 0x0A, CHR 0x0D}" "old \<noteq> []" for old
    using that by (cases old) (auto simp: strContains_iff)
  then show "replaceCommentNewline c = c" by (simp add: replaceCommentNewline_def newlineIdentifier_def replaceNewline_def)
qed

theorem comment_stays_comment_witness:
  "nlMarked (replaceCommentNewline ''user id'') \<and> replaceCommentNewline ''user id'' = ''user id''"
  using comment_stays_comment [of "''user id''"] by simp

end
