(* ===== verification/Sql2Code.thy ===== *)
theory Sql2Code
  imports SqlTypes "HOL-Library.List_Lexorder" "HOL-Library.Char_ord"
begin

text \<open>
  Packages \<open>pkg/sql2code\<close> and \<open>pkg/sql2code/parser\<close>: from the arguments of the command and the parsed
  \<open>CREATE TABLE\<close> statements to the code of each kind (\<open>sql2code.go\<close>, \<open>parser.go\<close>, \<open>commonParser.go\<close>,
  \<open>tableInfo.go\<close>, \<open>option.go\<close>).

  What the generator calls and does not own is a field of the record \<open>genv\<close>: the executed templates, by
  name and data, \<open>go/format\<close>, \<open>encoding/json\<close>, \<open>inflection.Plural\<close>, \<open>xstrings\<close>, the SQL parser, and the order in
  which each range over the map of peculiar nouns visits it, for every place of the source that asks for
  a snake-case name.
\<close>

section \<open>Primary keys: CrudInfo\<close>

record crudInfo =
  cTableNameCamel :: string
  cTableNameCamelFCL :: string
  cTableNamePluralCamel :: string
  cTableNamePluralCamelFCL :: string
  cColumnName :: string
  cColumnNameCamel :: string
  cColumnNameCamelFCL :: string
  cColumnNamePluralCamel :: string
  cColumnNamePluralCamelFCL :: string
  cGoType :: string
  cGoTypeFCU :: string
  cProtoType :: string
  cIsStringType :: bool
  cPrimaryKeyColumnName :: string
  cIsCommonType :: bool
  cIsStandardPrimaryKey :: bool

record tmplData =
  dTableNamePrefix :: string
  dRawTableName :: string
  dTableName :: string
  dTName :: string
  dNameFunc :: bool
  dFields :: "tmplField list"
  dComment :: string
  dSubStructs :: string
  dProtoSubStructs :: string
  dDBDriver :: string
  dCrudInfo :: "crudInfo option"

definition isDesiredGoType :: "string \<Rightarrow> bool" where
  "isDesiredGoType t \<longleftrightarrow> t \<in> {''string'', ''uint64'', ''int64'', ''uint'', ''int'', ''uint32'', ''int32''}"

definition setCrudInfo :: "(string \<Rightarrow> string) \<Rightarrow> tmplField \<Rightarrow> crudInfo" where
  "setCrudInfo plural f =
     (let pluralName = customEndOfLetterToLower (fName f) (plural (fName f));
          fcl = customFirstLetterToLower (fName f);
          pluralFCL = customFirstLetterToLower pluralName
      in \<lparr>cTableNameCamel = [], cTableNameCamelFCL = [], cTableNamePluralCamel = [], cTableNamePluralCamelFCL = [],
          cColumnName = fColName f, cColumnNameCamel = fName f, cColumnNameCamelFCL = fcl,
          cColumnNamePluralCamel = (if fName f = pluralName then pluralName @ ''s'' else pluralName),
          cColumnNamePluralCamelFCL = (if fcl = pluralFCL then pluralFCL @ ''s'' else pluralFCL),
          cGoType = fGoType f, cGoTypeFCU = firstLetterToUpper (fGoType f),
          cProtoType = simpleGoTypeToProtoType (fGoType f), cIsStringType = (fGoType f = ''string''),
          cPrimaryKeyColumnName = (if fIsPrimaryKey f then fColName f else []),
          cIsCommonType = False, cIsStandardPrimaryKey = (fColName f = ''id'')\<rparr>)"

text \<open>The column that \<open>newCrudInfo\<close> works with: the four searches, each only when the previous found none.\<close>

definition crudField :: "tmplField list \<Rightarrow> tmplField" where
  "crudField fs =
     (case find fIsPrimaryKey fs of
        Some f \<Rightarrow> f
      | None \<Rightarrow>
         (case find (\<lambda>f. hasSuffix (fColName f) ''_id'' \<and> isDesiredGoType (fGoType f)) fs of
            Some f \<Rightarrow> f
          | None \<Rightarrow> (case find (\<lambda>f. isDesiredGoType (fGoType f)) fs of Some f \<Rightarrow> f | None \<Rightarrow> hd fs)))"

definition newCrudInfo :: "(string \<Rightarrow> string) \<Rightarrow> tmplData \<Rightarrow> crudInfo option" where
  "newCrudInfo plural data =
     (if dFields data = [] then None
      else (let info = setCrudInfo plural (crudField (dFields data));
                pluralName = customEndOfLetterToLower (dTableName data) (plural (dTableName data))
            in Some (info\<lparr>cTableNameCamel := dTableName data, cTableNameCamelFCL := dTName data,
                 cTableNamePluralCamel := pluralName,
                 cTableNamePluralCamelFCL := customFirstLetterToLower pluralName\<rparr>)))"

definition CheckCommonType :: "crudInfo option \<Rightarrow> bool" where
  "CheckCommonType info = (case info of None \<Rightarrow> False | Some i \<Rightarrow> cIsCommonType i)"

definition isIDPrimaryKey :: "crudInfo option \<Rightarrow> bool" where
  "isIDPrimaryKey info =
     (case info of
        None \<Rightarrow> False
      | Some i \<Rightarrow> cColumnName i = ''id'' \<and> cGoType i \<in> {''uint64'', ''int64'', ''uint'', ''int'', ''uint32'', ''int32''})"

definition GetGRPCProtoValidation :: "crudInfo option \<Rightarrow> string" where
  "GetGRPCProtoValidation info =
     (case info of
        None \<Rightarrow> []
      | Some i \<Rightarrow> if cProtoType i = ''string'' then ''[(validate.rules).string.min_len = 1]''
                  else ''[(validate.rules).'' @ cProtoType i @ ''.gt = 0]'')"

definition GetWebProtoValidation :: "crudInfo option \<Rightarrow> string" where
  "GetWebProtoValidation info =
     (case info of
        None \<Rightarrow> []
      | Some i \<Rightarrow>
         if cProtoType i = ''string''
         then ''[(validate.rules).string.min_len = 1'' @ uriTag (cColumnNameCamelFCL i) @ '']''
         else ''[(validate.rules).'' @ cProtoType i @ ''.gt = 0'' @ uriTag (cColumnNameCamelFCL i) @ '']'')"

definition isCommonStyle :: "tmplData \<Rightarrow> bool \<Rightarrow> bool" where
  "isCommonStyle data isEmbed \<longleftrightarrow> dDBDriver data \<noteq> DBDriverMongodb \<and> \<not> isEmbed \<and> \<not> isIDPrimaryKey (dCrudInfo data)"

section \<open>Table information\<close>

record tableField =
  tColumnName :: string
  tColumnNameCamel :: string
  tColumnNameCamelFCL :: string
  tColumnComment :: string
  tIsPrimaryKey :: bool
  tGoType :: string
  tTag :: string

record PrimaryKey =
  pkName :: string
  pkNameCamel :: string
  pkNameCamelFCL :: string
  pkNamePluralCamel :: string
  pkNamePluralCamelFCL :: string
  pkGoType :: string
  pkGoTypeFCU :: string
  pkIsStringType :: bool

record TableInfo =
  tiTableNamePrefix :: string
  tiTableName :: string
  tiTableNameCamel :: string
  tiTableNameCamelFCL :: string
  tiTableNamePluralCamel :: string
  tiTableNamePluralCamelFCL :: string
  tiTableNameSnake :: string
  tiTableComment :: string
  tiColumns :: "tableField list"
  tiPrimaryKey :: "PrimaryKey option"
  tiDBDriver :: string
  tiColumnSubStructure :: string
  tiColumnSubMessage :: string

abbreviation bsonColumn :: string where "bsonColumn \<equiv> ''bson:'' @ dquote @ ''column:''"
abbreviation bsonIdTag :: "string \<Rightarrow> string" where
  "bsonIdTag n \<equiv> ''bson:'' @ dquote @ n @ dquote @ '' json:'' @ dquote @ ''id'' @ dquote"

definition mongoTags :: "string \<Rightarrow> string" where
  "mongoTags tag =
     replaceAll (bsonIdTag ''id'') (bsonIdTag ''_id'')
       (replaceAll '';type:;primary_key'' []
         (replaceAll ('';type:'' @ dquote) dquote (replaceAll bsonColumn (''bson:'' @ dquote) tag)))"

definition handleTag :: "string \<Rightarrow> string \<Rightarrow> string" where
  "handleTag dbDriver tag = (if dbDriver = DBDriverMongodb then mongoTags tag else tag)"

definition getColumns :: "string \<Rightarrow> tmplField list \<Rightarrow> tableField list" where
  "getColumns dbDriver fs =
     map (\<lambda>f. \<lparr>tColumnName = fColName f, tColumnNameCamel = fName f, tColumnNameCamelFCL = customFirstLetterToLower (fName f),
              tColumnComment = fComment f, tIsPrimaryKey = fIsPrimaryKey f, tGoType = fGoType f,
              tTag = handleTag dbDriver (fTag f)\<rparr>) fs"

definition getPrimaryKeyInfo :: "crudInfo option \<Rightarrow> PrimaryKey option" where
  "getPrimaryKeyInfo info =
     map_option (\<lambda>i. \<lparr>pkName = cColumnName i, pkNameCamel = cColumnNameCamel i, pkNameCamelFCL = cColumnNameCamelFCL i,
        pkNamePluralCamel = cColumnNamePluralCamel i, pkNamePluralCamelFCL = cColumnNamePluralCamelFCL i,
        pkGoType = cGoType i, pkGoTypeFCU = cGoTypeFCU i, pkIsStringType = cIsStringType i\<rparr>) info"

definition newTableInfo :: "(string \<Rightarrow> string) \<Rightarrow> (string \<Rightarrow> string) \<Rightarrow> tmplData \<Rightarrow> TableInfo" where
  "newTableInfo plural snake data =
     (let pluralName = customEndOfLetterToLower (dTableName data) (plural (dTableName data)) in
      \<lparr>tiTableNamePrefix = dTableNamePrefix data, tiTableName = dRawTableName data, tiTableNameCamel = dTableName data,
       tiTableNameCamelFCL = dTName data, tiTableNamePluralCamel = pluralName,
       tiTableNamePluralCamelFCL = customFirstLetterToLower pluralName, tiTableNameSnake = snake (dTName data),
       tiTableComment = dComment data, tiColumns = getColumns (dDBDriver data) (dFields data),
       tiPrimaryKey = getPrimaryKeyInfo (dCrudInfo data), tiDBDriver = dDBDriver data,
       tiColumnSubStructure = dSubStructs data, tiColumnSubMessage = dProtoSubStructs data\<rparr>)"

section \<open>Options and the environment\<close>

record parserOptions =
  oDBDriver :: string
  oFieldTypes :: "string \<Rightarrow> string option"
  oCharset :: string
  oCollation :: string
  oJSONTag :: bool
  oJSONNamedType :: int
  oTablePrefix :: string
  oColumnPrefix :: string
  oNoNullType :: bool
  oNullStyle :: NullStyle
  oPackage :: string
  oGormType :: bool
  oForceTableName :: bool
  oIsEmbed :: bool
  oIsWebProto :: bool
  oIsExtendedAPI :: bool
  oIsCustomTemplate :: bool

definition defaultOptions :: parserOptions where
  "defaultOptions = \<lparr>oDBDriver = ''mysql'', oFieldTypes = (\<lambda>_. None), oCharset = [], oCollation = [], oJSONTag = False,
     oJSONNamedType = 0, oTablePrefix = [], oColumnPrefix = [], oNoNullType = False, oNullStyle = NullInSql,
     oPackage = ''model'', oGormType = False, oForceTableName = False, oIsEmbed = False, oIsWebProto = False,
     oIsExtendedAPI = False, oIsCustomTemplate = False\<rparr>"

definition WithDBDriver :: "string \<Rightarrow> parserOptions \<Rightarrow> parserOptions" where
  "WithDBDriver driver o1 = (if driver \<noteq> [] then o1\<lparr>oDBDriver := driver\<rparr> else o1)"

definition WithFieldTypes :: "(string \<Rightarrow> string option) option \<Rightarrow> parserOptions \<Rightarrow> parserOptions" where
  "WithFieldTypes ft o1 = (case ft of None \<Rightarrow> o1 | Some m \<Rightarrow> o1\<lparr>oFieldTypes := m\<rparr>)"

definition WithCharset :: "string \<Rightarrow> parserOptions \<Rightarrow> parserOptions" where
  "WithCharset c o1 = o1\<lparr>oCharset := c\<rparr>"

definition WithCollation :: "string \<Rightarrow> parserOptions \<Rightarrow> parserOptions" where
  "WithCollation c o1 = o1\<lparr>oCollation := c\<rparr>"

definition WithTablePrefix :: "string \<Rightarrow> parserOptions \<Rightarrow> parserOptions" where
  "WithTablePrefix p o1 = o1\<lparr>oTablePrefix := p\<rparr>"

definition WithColumnPrefix :: "string \<Rightarrow> parserOptions \<Rightarrow> parserOptions" where
  "WithColumnPrefix p o1 = o1\<lparr>oColumnPrefix := p\<rparr>"

definition WithJSONTag :: "int \<Rightarrow> parserOptions \<Rightarrow> parserOptions" where
  "WithJSONTag n o1 = o1\<lparr>oJSONTag := True, oJSONNamedType := n\<rparr>"

definition WithNoNullType :: "parserOptions \<Rightarrow> parserOptions" where
  "WithNoNullType o1 = o1\<lparr>oNoNullType := True\<rparr>"

definition WithNullStyle :: "NullStyle \<Rightarrow> parserOptions \<Rightarrow> parserOptions" where
  "WithNullStyle s o1 = o1\<lparr>oNullStyle := s\<rparr>"

definition WithPackage :: "string \<Rightarrow> parserOptions \<Rightarrow> parserOptions" where
  "WithPackage p o1 = o1\<lparr>oPackage := p\<rparr>"

definition WithGormType :: "parserOptions \<Rightarrow> parserOptions" where
  "WithGormType o1 = o1\<lparr>oGormType := True\<rparr>"

definition WithForceTableName :: "parserOptions \<Rightarrow> parserOptions" where
  "WithForceTableName o1 = o1\<lparr>oForceTableName := True\<rparr>"

definition WithEmbed :: "parserOptions \<Rightarrow> parserOptions" where
  "WithEmbed o1 = o1\<lparr>oIsEmbed := True\<rparr>"

definition WithWebProto :: "parserOptions \<Rightarrow> parserOptions" where
  "WithWebProto o1 = o1\<lparr>oIsWebProto := True\<rparr>"

definition WithExtendedAPI :: "parserOptions \<Rightarrow> parserOptions" where
  "WithExtendedAPI o1 = o1\<lparr>oIsExtendedAPI := True\<rparr>"

definition WithCustomTemplate :: "parserOptions \<Rightarrow> parserOptions" where
  "WithCustomTemplate o1 = o1\<lparr>oIsCustomTemplate := True\<rparr>"

definition parseOption :: "(parserOptions \<Rightarrow> parserOptions) list \<Rightarrow> parserOptions" where
  "parseOption opts =
     (let o1 = applyOpts opts defaultOptions in if oNoNullType o1 then o1\<lparr>oNullStyle := NullDisable\<rparr> else o1)"

text \<open>The parts of the source that compute a JSON name.\<close>

datatype site = AtModel | AtHandler | AtProto

type_synonym nounOrder = "(string \<times> string) list"

record genv =
  gPascal :: "string \<Rightarrow> string"
  gSnake :: "string \<Rightarrow> string"
  gPlural :: "string \<Rightarrow> string"
  gCamelOrd :: "string \<Rightarrow> nounOrder"
  gSnakeOrd :: "site \<Rightarrow> string \<Rightarrow> nounOrder"
  gMarkOrd :: "(string \<times> string) list \<Rightarrow> (string \<times> string) list"
  gTemplate :: "string \<Rightarrow> tmplData \<Rightarrow> string + string"
  gModelTemplate :: "string \<Rightarrow> string list \<Rightarrow> string list \<Rightarrow> string + string"
  gFormat :: "string \<Rightarrow> string + string"
  gJSONCrud :: "crudInfo \<Rightarrow> string"
  gJSONTable :: "TableInfo \<Rightarrow> string"

definition camel :: "genv \<Rightarrow> string \<Rightarrow> string" where
  "camel g s = toCamel (gCamelOrd g s) (gPascal g) s"

definition jsonNameOf :: "genv \<Rightarrow> site \<Rightarrow> int \<Rightarrow> string \<Rightarrow> string" where
  "jsonNameOf g w namedType col =
     (if namedType = 0 then customToSnake (gCamelOrd g col) (gSnakeOrd g w col) (gPascal g) (gSnake g) col
      else customToCamel (gCamelOrd g col) (gPascal g) col)"

section \<open>Statements\<close>

datatype columnOption =
    OptPrimaryKey | OptNotNull | OptAutoIncrement | OptDefaultValue exprNode | OptUniqKey | OptNull
  | OptOnUpdate | OptFulltext | OptComment string | OptOther

record columnDef =
  cdName :: string
  cdTp :: fieldType
  cdOptions :: "columnOption list"

datatype constraint = ConstraintPrimaryKey "string list" | ConstraintOther

datatype tableOption = TableOptionComment string | TableOptionOther

record createTable =
  ctName :: string
  ctOptions :: "tableOption list"
  ctConstraints :: "constraint list"
  ctCols :: "columnDef list"

datatype stmt = CreateTableStmt createTable | OtherStmt

fun tableComment :: "tableOption list \<Rightarrow> string" where
  "tableComment [] = []"
| "tableComment (TableOptionComment c # os) = replaceCommentNewline c"
| "tableComment (TableOptionOther # os) = tableComment os"

text \<open>The first column of every primary-key constraint; \<open>con.Keys[0]\<close> panics on a constraint without columns.\<close>

fun primaryKeys :: "constraint list \<Rightarrow> string list option" where
  "primaryKeys [] = Some []"
| "primaryKeys (ConstraintPrimaryKey ks # cs) =
     (case (ks, primaryKeys cs) of (k # _, Some pk) \<Rightarrow> Some (k # pk) | _ \<Rightarrow> None)"
| "primaryKeys (ConstraintOther # cs) = primaryKeys cs"

text \<open>The loop over the options of a column: tag, primary keys seen, not null, nullable, comment.\<close>

record colState =
  csTag :: string
  csPK :: "string list"
  csNotNull :: bool
  csCanNull :: bool
  csComment :: string

fun colOption :: "string \<Rightarrow> colState \<Rightarrow> columnOption \<Rightarrow> colState" where
  "colOption col st OptPrimaryKey =
     (if col \<in> set (csPK st) then st else st\<lparr>csTag := csTag st @ '';primary_key'', csPK := col # csPK st\<rparr>)"
| "colOption col st OptNotNull = st\<lparr>csNotNull := True\<rparr>"
| "colOption col st OptAutoIncrement = st\<lparr>csTag := csTag st @ '';AUTO_INCREMENT''\<rparr>"
| "colOption col st (OptDefaultValue e) =
     (let v = getDefaultValue e in if v \<noteq> [] then st\<lparr>csTag := csTag st @ '';default:'' @ v\<rparr> else st)"
| "colOption col st OptUniqKey = st\<lparr>csTag := csTag st @ '';unique''\<rparr>"
| "colOption col st OptNull = st\<lparr>csCanNull := True\<rparr>"
| "colOption col st OptOnUpdate = st"
| "colOption col st OptFulltext = st"
| "colOption col st (OptComment c) = st\<lparr>csComment := replaceCommentNewline c\<rparr>"
| "colOption col st OptOther = st"

definition fieldTypeOf :: "parserOptions \<Rightarrow> string \<Rightarrow> string" where
  "fieldTypeOf opt col = (case oFieldTypes opt col of Some t \<Rightarrow> t | None \<Rightarrow> [])"

definition gormTagStart :: "parserOptions \<Rightarrow> columnDef \<Rightarrow> bool \<Rightarrow> string" where
  "gormTagStart opt col isPK =
     ''column:'' @ cdName col @
     (if oGormType opt then '';type:'' @
        (if oDBDriver opt \<in> {DBDriverMysql, DBDriverTidb, DBDriverSqlite} then ftInfoSchema (cdTp col)
         else if oDBDriver opt = DBDriverPostgresql then fieldTypeOf opt (cdName col) else [])
      else []) @
     (if isPK then '';primary_key'' else [])"

text \<open>One turn of the column loop: the field, the import paths and the primary keys seen so far.\<close>

definition makeField :: "genv \<Rightarrow> parserOptions \<Rightarrow> string list \<Rightarrow> columnDef \<Rightarrow> tmplField \<times> string list \<times> string list" where
  "makeField g opt pk col =
     (let colName = cdName col;
          goFieldName = (if oColumnPrefix opt \<noteq> [] \<and> hasPrefix colName (oColumnPrefix opt)
                         then drop (length (oColumnPrefix opt)) colName else colName);
          jsonName = jsonNameOf g AtModel (oJSONNamedType opt) colName;
          isPK = (colName \<in> set pk);
          st = foldl (colOption colName) \<lparr>csTag = gormTagStart opt col isPK, csPK = pk, csNotNull = False, csCanNull = False,
                 csComment = []\<rparr> (cdOptions col);
          field = \<lparr>fIsPrimaryKey = isPK, fColName = colName, fName = camel g goFieldName, fGoType = [], fTag = [],
                   fComment = csComment st, fJSONName = jsonName, fDBDriver = oDBDriver opt, fRewriter = None\<rparr>
      in if oDBDriver opt = DBDriverMongodb then
           (let jsonName1 = (if toLower jsonName = ''_id'' then ''id'' else jsonName);
                tags = [''bson'', csTag st] @ (if oJSONTag opt then [''json'', jsonName1] else []);
                goType = fieldTypeOf opt colName
            in (field\<lparr>fJSONName := (if oJSONTag opt then jsonName1 else jsonName), fTag := makeTagStr tags, fGoType := goType\<rparr>,
                if goType = ''time.Time'' then [''time''] else [], csPK st))
         else
           (let gormTag = csTag st @ (if colName \<notin> set (csPK st) \<and> csNotNull st then '';not null'' else []);
                tags = [''gorm'', gormTag] @ (if oJSONTag opt then [''json'', jsonName] else []);
                (goType, pkg, rrField) = mysqlToGoType (cdTp col) (if csCanNull st then oNullStyle opt else NullDisable);
                goType1 = (if oDBDriver opt = DBDriverPostgresql \<and> fieldTypeOf opt colName = ''bool'' then ''bool'' else goType)
            in (field\<lparr>fTag := makeTagStr tags, fGoType := goType1, fRewriter := rrField\<rparr>,
                if pkg \<noteq> [] then [pkg] else [], csPK st)))"

fun makeFields :: "genv \<Rightarrow> parserOptions \<Rightarrow> string list \<Rightarrow> columnDef list \<Rightarrow> tmplField list \<times> string list" where
  "makeFields g opt pk [] = ([], [])"
| "makeFields g opt pk (col # cols) =
     (let (f, imports, pk1) = makeField g opt pk col; (fs, imports1) = makeFields g opt pk1 cols
      in (f # fs, imports @ imports1))"

section \<open>Template data\<close>

definition makeTableName :: "genv \<Rightarrow> parserOptions \<Rightarrow> string \<Rightarrow> string \<times> bool" where
  "makeTableName g opt raw =
     (if oTablePrefix opt \<noteq> [] \<and> hasPrefix raw (oTablePrefix opt)
      then (camel g (drop (length (oTablePrefix opt)) raw), True)
      else (camel g raw, oForceTableName opt \<or> raw \<noteq> gPlural g raw))"

definition subStruct :: "parserOptions \<Rightarrow> string \<Rightarrow> string" where
  "subStruct opt key = (case oFieldTypes opt key of Some v \<Rightarrow> v | None \<Rightarrow> [])"

text \<open>
  The first half of \<open>makeCode\<close>: the data of the templates and the import paths of its fields. It
  panics on a primary key without columns and fails on a table without columns.
\<close>

definition makeData :: "genv \<Rightarrow> createTable \<Rightarrow> parserOptions \<Rightarrow> (string, tmplData \<times> string list) go" where
  "makeData g ct opt =
     (let (tableName, nameFunc) = makeTableName g opt (ctName ct) in
      case primaryKeys (ctConstraints ct) of
        None \<Rightarrow> Panic
      | Some pk \<Rightarrow>
         (let (fs, imports) = makeFields g opt pk (ctCols ct);
              data = \<lparr>dTableNamePrefix = oTablePrefix opt, dRawTableName = ctName ct, dTableName = tableName,
                      dTName = firstLetterToLower tableName, dNameFunc = nameFunc, dFields = fs,
                      dComment = tableComment (ctOptions ct), dSubStructs = subStruct opt ''_sub_struct_'',
                      dProtoSubStructs = subStruct opt ''_proto_sub_struct_'', dDBDriver = oDBDriver opt, dCrudInfo = None\<rparr>
          in if fs = [] then Err (''no columns found in table '' @ tableName)
             else (let d1 = data\<lparr>dCrudInfo := newCrudInfo (gPlural g) data\<rparr>
                   in Ok (d1\<lparr>dCrudInfo := map_option (\<lambda>i. i\<lparr>cIsCommonType := isCommonStyle d1 (oIsEmbed opt)\<rparr>) (dCrudInfo d1)\<rparr>,
                          imports))))"

section \<open>Model code\<close>

definition rewritten :: "tmplField \<Rightarrow> bool" where
  "rewritten f \<longleftrightarrow> rwType f \<in> {Some jsonTypeName, Some decimalTypeName, Some boolTypeName, Some boolTypeTinyName}"

text \<open>The pointer type of a rewritten field and the import it needs.\<close>

definition rewriteField :: "tmplField \<Rightarrow> tmplField \<times> string list" where
  "rewriteField f =
     (case fRewriter f of
        Some r \<Rightarrow> if rewritten f then (f\<lparr>fGoType := ''*'' @ rwGoType r\<rparr>, [rwPath r]) else (f, [])
      | None \<Rightarrow> (f, []))"

definition timePointer :: "tmplField \<Rightarrow> tmplField" where
  "timePointer f = (if strContains (fGoType f) ''time.Time'' then f\<lparr>fGoType := ''*time.Time''\<rparr> else f)"

definition embedField :: "tmplField \<Rightarrow> tmplField \<times> string list" where
  "embedField f = (if sqlDriver (fDBDriver f) then rewriteField (timePointer f) else (f, []))"

definition plainField :: "tmplData \<Rightarrow> bool \<Rightarrow> tmplField \<Rightarrow> tmplField \<times> string list" where
  "plainField data isEmbed f0 =
     (let f = timePointer f0 in
      if fDBDriver f = DBDriverMongodb then
        (if fName f = ''ID'' then (f\<lparr>fGoType := goTypeOID\<rparr>, [''go.mongodb.org/mongo-driver/bson/primitive'']) else (f, []))
      else
        (let f1 = (if fName f = ''ID''
                   then f\<lparr>fGoType := (if isCommonStyle data isEmbed
                                       then (case dCrudInfo data of Some i \<Rightarrow> cGoType i | None \<Rightarrow> []) else ''uint64'')\<rparr>
                   else f)
         in if sqlDriver (fDBDriver f1) then rewriteField f1 else (f1, [])))"

definition mysqlModelField :: tmplField where
  "mysqlModelField = \<lparr>fIsPrimaryKey = False, fColName = ''__mysqlModel__'', fName = ''__mysqlModel__'', fGoType = ''__type__'',
     fTag = ''gorm:'' @ dquote @ ''embedded'' @ dquote, fComment = ''embed id and time'' @ NL, fJSONName = [], fDBDriver = [],
     fRewriter = None\<rparr>"

definition modelFields :: "tmplData \<Rightarrow> string list \<Rightarrow> bool \<Rightarrow> tmplField list \<times> string list" where
  "modelFields data importPaths isEmbed =
     (if isEmbed then
        (let fs = map embedField (filter (\<lambda>f. \<not> isIgnoreFields (fColName f) []) (dFields data));
             imports = importPaths @ concat (map snd fs);
             hasTime = list_ex (\<lambda>(f, _). strContains (fGoType f) ''time.Time'') fs
         in (mysqlModelField # map fst fs,
             (if hasTime then imports else filter (\<lambda>p. p \<noteq> ''time'') imports) @ [''github.com/moweilong/milady/pkg/sgorm'']))
      else
        (let fs = map (plainField data isEmbed) (dFields data)
         in (map fst fs, importPaths @ concat (map snd fs))))"

fun go_of :: "string \<Rightarrow> string + 'a \<Rightarrow> (string, 'a) go" where
  "go_of pre (Inl e) = Err (pre @ e)"
| "go_of pre (Inr x) = Ok x"

definition columnOnly :: "string \<Rightarrow> tmplField" where
  "columnOnly c = \<lparr>fIsPrimaryKey = False, fColName = c, fName = [], fGoType = [], fTag = [], fComment = [], fJSONName = [],
     fDBDriver = [], fRewriter = None\<rparr>"

text \<open>The fields of the white list of column names that the generated code checks queries against.\<close>

definition tableColumns :: "tmplData \<Rightarrow> bool \<Rightarrow> tmplField list" where
  "tableColumns data isEmbed =
     (let fs = dFields data @
            (if dDBDriver data = DBDriverMongodb
             then (case find (\<lambda>f. fName f = ''ID'') (dFields data) of Some f \<Rightarrow> [f\<lparr>fColName := ''_id''\<rparr>] | None \<Rightarrow> [])
             else [])
      in if isEmbed
         then map columnOnly [''id'', ''created_at'', ''updated_at'', ''deleted_at''] @ filter (\<lambda>f. fName f \<noteq> ''__mysqlModel__'') fs
         else fs)"

definition getTableColumnsCode :: "genv \<Rightarrow> tmplData \<Rightarrow> bool \<Rightarrow> (string, string) go" where
  "getTableColumnsCode g data isEmbed =
     go_bind (go_of ''tableColumnsTmpl.Execute error: '' (gTemplate g ''tableColumnsTmpl'' (data\<lparr>dFields := tableColumns data isEmbed\<rparr>)))
       (\<lambda>s. go_of ''tableColumnsTmpl format.Source error: '' (gFormat g s))"

definition getModelStructCode :: "genv \<Rightarrow> tmplData \<Rightarrow> string list \<Rightarrow> bool \<Rightarrow> int \<Rightarrow> (string, string \<times> string list) go" where
  "getModelStructCode g data importPaths isEmbed jsonNamedType =
     (let (fs, newImportPaths) = modelFields data importPaths isEmbed; d1 = data\<lparr>dFields := fs\<rparr> in
      go_bind (go_of ''modelStructTmpl.Execute error: '' (gTemplate g ''modelStructTmpl'' d1)) (\<lambda>s.
      go_bind (go_of ''modelStructTmpl format.Source error: '' (gFormat g s)) (\<lambda>code.
      let c1 = (if isEmbed then replaceAll ''__type__'' [] (replaceAll ''__mysqlModel__''
                  (''sgorm.Model'' @ (if jsonNamedType = 0 then ''2'' else [])) code) else code);
          c2 = c1 @ dSubStructs d1;
          c3 = (if dDBDriver d1 = DBDriverMongodb then mongoTags c2 else c2)
      in go_bind (getTableColumnsCode g d1 isEmbed) (\<lambda>cols. Ok (c3 @ cols, newImportPaths)))))"

definition getModelCode :: "genv \<Rightarrow> string \<Rightarrow> string list \<Rightarrow> string list \<Rightarrow> (string, string) go" where
  "getModelCode g package importPath structCode =
     go_bind (go_of [] (gModelTemplate g package importPath structCode))
       (\<lambda>s. go_of ''getModelCode format.Source error: '' (gFormat g s))"

definition updateFields :: "tmplField list \<Rightarrow> tmplField list" where
  "updateFields fs =
     map (\<lambda>f. if sqlDriver (fDBDriver f) \<and> rwType f = Some jsonTypeName then f\<lparr>fGoType := ''[]byte''\<rparr> else f)
       (filter (\<lambda>f. \<not> (isIgnoreFields (fColName f) [] \<or> fColName f = ''id'' \<or> fColName f = ''_id'')) fs)"

definition getUpdateFieldsCode :: "genv \<Rightarrow> tmplData \<Rightarrow> (string, string) go" where
  "getUpdateFieldsCode g data = go_of [] (gTemplate g ''updateFieldTmpl'' (data\<lparr>dFields := updateFields (dFields data)\<rparr>))"

section \<open>Handler, service and proto code\<close>

definition handlerField :: "genv \<Rightarrow> int \<Rightarrow> tmplField \<Rightarrow> tmplField" where
  "handlerField g jsonNamedType f =
     (let f1 = f\<lparr>fJSONName := jsonNameOf g AtHandler jsonNamedType (fColName f)\<rparr> in f1\<lparr>fGoType := getHandlerGoType f1\<rparr>)"

definition mongoHandlerField :: "tmplField \<Rightarrow> tmplField" where
  "mongoHandlerField f =
     (if fDBDriver f = DBDriverMongodb then
        (let t0 = (if fName f = ''ID'' then ''string'' else fGoType f);
             t1 = (if ''*'' @ fName f = t0 then ''*model.'' @ fName f else t0);
             t2 = (if strContains t1 ''[]*'' then ''[]*model.'' @ replaceAll ''[]*'' [] t1 else t1)
         in f\<lparr>fGoType := t2\<rparr>)
      else f)"

definition filterFields :: "bool \<Rightarrow> string list \<Rightarrow> tmplField list \<Rightarrow> tmplField list" where
  "filterFields mongo reserved fs =
     map (\<lambda>f. if mongo \<and> fDBDriver f = DBDriverMongodb \<and> toLower (fName f) = ''id'' then f\<lparr>fGoType := ''string''\<rparr> else f)
       (filter (\<lambda>f. \<not> isIgnoreFields (fColName f) reserved) fs)"

definition tmplExecuteWithFilter :: "genv \<Rightarrow> tmplData \<Rightarrow> string \<Rightarrow> string list \<Rightarrow> (string, string) go" where
  "tmplExecuteWithFilter g data tmpl reserved =
     go_of ''tmpl.Execute error: '' (gTemplate g tmpl (data\<lparr>dFields := filterFields True reserved (dFields data)\<rparr>))"

definition tmplExecuteWithFilter2 :: "genv \<Rightarrow> tmplData \<Rightarrow> string \<Rightarrow> string list \<Rightarrow> (string, string) go" where
  "tmplExecuteWithFilter2 g data tmpl reserved =
     go_of ''tmpl.Execute error: '' (gTemplate g tmpl (data\<lparr>dFields := filterFields False reserved (dFields data)\<rparr>))"

fun prefixErr :: "string \<Rightarrow> (string, 'a) go \<Rightarrow> (string, 'a) go" where
  "prefixErr pre (Err e) = Err (pre @ e)"
| "prefixErr pre r = r"

definition detailColumns :: "string list" where
  "detailColumns = [''id'', ''created_at'', ''updated_at'']"

definition structCodes :: "genv \<Rightarrow> tmplData \<Rightarrow> string \<Rightarrow> string \<Rightarrow> string \<Rightarrow> (string, string) go" where
  "structCodes g data create update detail =
     go_bind (prefixErr ''handlerCreateStructTmpl error: '' (tmplExecuteWithFilter g data create [])) (\<lambda>post.
     go_bind (prefixErr ''handlerUpdateStructTmpl error: '' (tmplExecuteWithFilter g data update [''id''])) (\<lambda>put.
     go_bind (prefixErr ''handlerDetailStructTmpl error: '' (tmplExecuteWithFilter g data detail detailColumns)) (\<lambda>get.
     Ok (post @ put @ get))))"

definition getHandlerStructCodes :: "genv \<Rightarrow> tmplData \<Rightarrow> int \<Rightarrow> (string, string) go" where
  "getHandlerStructCodes g data jsonNamedType =
     structCodes g (data\<lparr>dFields := map (handlerField g jsonNamedType \<circ> mongoHandlerField) (dFields data)\<rparr>)
       ''handlerCreateStructTmpl'' ''handlerUpdateStructTmpl'' ''handlerDetailStructTmpl''"

definition getCommonHandlerStructCodes :: "genv \<Rightarrow> tmplData \<Rightarrow> int \<Rightarrow> (string, string) go" where
  "getCommonHandlerStructCodes g data jsonNamedType =
     structCodes g (data\<lparr>dFields := map (handlerField g jsonNamedType) (dFields data)\<rparr>)
       ''handlerCreateStructCommonTmpl'' ''handlerUpdateStructCommonTmpl'' ''handlerDetailStructCommonTmpl''"

definition serviceCode :: "genv \<Rightarrow> tmplData \<Rightarrow> string \<Rightarrow> string \<Rightarrow> string \<Rightarrow> (string, string) go" where
  "serviceCode g data service create update =
     go_bind (go_of [] (gTemplate g service data)) (\<lambda>code.
     go_bind (prefixErr ''handle serviceCreateStructTmpl error: '' (tmplExecuteWithFilter g data create [])) (\<lambda>c.
     go_bind (prefixErr ''handle serviceUpdateStructTmpl error: '' (tmplExecuteWithFilter g data update [''id''])) (\<lambda>u.
     Ok (replaceAll ''// serviceUpdateStructCode'' (replaceAll ''ID:'' ''Id:'' u)
           (replaceAll ''// serviceCreateStructCode'' (replaceAll ''ID:'' ''Id:'' c) code)))))"

definition getServiceStructCode :: "genv \<Rightarrow> tmplData \<Rightarrow> (string, string) go" where
  "getServiceStructCode g data = serviceCode g data ''serviceStructTmpl'' ''serviceCreateStructTmpl'' ''serviceUpdateStructTmpl''"

definition getCommonServiceStructCode :: "genv \<Rightarrow> tmplData \<Rightarrow> (string, string) go" where
  "getCommonServiceStructCode g data =
     serviceCode g data ''serviceStructCommonTmpl'' ''serviceCreateStructCommonTmpl'' ''serviceUpdateStructCommonTmpl''"

text \<open>The marks of the proto templates and their replacements, for an identifier of type \<open>t\<close>.\<close>

definition idRule :: "string \<Rightarrow> string" where
  "idRule t = (if t = ''string'' then ''[(validate.rules).string.min_len = 6'' else ''[(validate.rules).'' @ t @ ''.gt = 0'')"

definition grpcFieldCodes :: "string \<Rightarrow> (string \<times> string) list" where
  "grpcFieldCodes t =
    [(''// createTableReplyFieldCode'', t @ '' id = 1;''),
     (''// deleteTableByIDRequestFieldCode'', t @ '' id = 1 '' @ idRule t @ ''];''),
     (''// deleteTableByIDsRequestFieldCode'', ''repeated '' @ t @ '' ids = 1 [(validate.rules).repeated.min_items = 1];''),
     (''// getTableByIDRequestFieldCode'', t @ '' id = 1 '' @ idRule t @ ''];''),
     (''// getTableByIDsRequestFieldCode'', ''repeated '' @ t @ '' ids = 1 [(validate.rules).repeated.min_items = 1];''),
     (''// listTableByLastIDRequestFieldCode'', t @ '' lastID = 1; // last id'')]"

definition webFieldCodes :: "string \<Rightarrow> (string \<times> string) list" where
  "webFieldCodes t =
    [(''// createTableReplyFieldCode'', t @ '' id = 1;''),
     (''// deleteTableByIDRequestFieldCode'', t @ '' id =1 '' @ idRule t @ uriTag ''id'' @ ''];''),
     (''// deleteTableByIDsRequestFieldCode'', ''repeated '' @ t @ '' ids = 1 [(validate.rules).repeated.min_items = 1];''),
     (''// getTableByIDRequestFieldCode'', t @ '' id =1 '' @ idRule t @ uriTag ''id'' @ '' ];''),
     (''// getTableByIDsRequestFieldCode'', ''repeated '' @ t @ '' ids = 1 [(validate.rules).repeated.min_items = 1];''),
     (''// listTableByLastIDRequestFieldCode'', t @ '' lastID = 1 [(tagger.tags) = '' @ dquote @ ''form:'' @ [CHR 0x5C] @ dquote @
        ''lastID'' @ [CHR 0x5C] @ dquote @ dquote @ '']; // last id'')]"

definition replaceProtoMessageFieldCode :: "genv \<Rightarrow> string \<Rightarrow> (string \<times> string) list \<Rightarrow> string" where
  "replaceProtoMessageFieldCode g code marks = foldl (\<lambda>c (k, v). replaceAll k v c) code (gMarkOrd g marks)"

definition withSubStructs :: "tmplData \<Rightarrow> string \<Rightarrow> string" where
  "withSubStructs data code = (if dProtoSubStructs data \<noteq> [] then code @ NL @ dProtoSubStructs data else code)"

definition adaptedDbType :: "genv \<Rightarrow> tmplData \<Rightarrow> bool \<Rightarrow> string \<Rightarrow> string" where
  "adaptedDbType g data isWebProto code =
     (let t = (if dDBDriver data = DBDriverMongodb then ''string'' else ''uint64'') in
      withSubStructs data (replaceProtoMessageFieldCode g code (if isWebProto then webFieldCodes t else grpcFieldCodes t)))"

definition adaptedDbType2 :: "genv \<Rightarrow> tmplData \<Rightarrow> bool \<Rightarrow> string \<Rightarrow> string" where
  "adaptedDbType2 g data isWebProto code =
     withSubStructs data
       (replaceProtoMessageFieldCode g code (if isWebProto then webFieldCodes ''uint64'' else grpcFieldCodes ''uint64''))"

definition fillMessages :: "string \<Rightarrow> string \<Rightarrow> string \<Rightarrow> string \<Rightarrow> string" where
  "fillMessages code create update detail =
     replaceAll ''time.Time'' ''int64'' (replaceAll ''*time.Time'' ''int64''
       (replaceAll ''// protoMessageDetailCode'' detail (replaceAll ''// protoMessageUpdateCode'' update
          (replaceAll ''// protoMessageCreateCode'' create code))))"

definition getProtoFileCode :: "genv \<Rightarrow> tmplData \<Rightarrow> int \<Rightarrow> bool \<Rightarrow> bool \<Rightarrow> (string, string) go" where
  "getProtoFileCode g data0 jsonNamedType isWebProto isExtendedAPI =
     (let data = data0\<lparr>dFields := goTypeToProto (jsonNameOf g AtProto jsonNamedType) False (dFields data0)\<rparr>;
          file = (if isWebProto then (if isExtendedAPI then ''protoFileForWebTmpl'' else ''protoFileForSimpleWebTmpl'')
                  else (if isExtendedAPI then ''protoFileTmpl'' else ''protoFileSimpleTmpl'')) in
      go_bind (go_of [] (gTemplate g file data)) (\<lambda>code.
      go_bind (prefixErr ''handle protoMessageCreateTmpl error: '' (tmplExecuteWithFilter g data ''protoMessageCreateTmpl'' [])) (\<lambda>c.
      go_bind (prefixErr ''handle protoMessageUpdateTmpl error: '' (tmplExecuteWithFilter g data ''protoMessageUpdateTmpl'' [''id''])) (\<lambda>u0.
      let u = (if isWebProto then u0 else replaceAll (uriTag ''id'') [] u0) in
      go_bind (prefixErr ''handle protoMessageDetailTmpl error: '' (tmplExecuteWithFilter g data ''protoMessageDetailTmpl'' detailColumns)) (\<lambda>d.
      Ok (adaptedDbType g data isWebProto (fillMessages code c u d)))))))"

definition getCommonProtoFileCode :: "genv \<Rightarrow> tmplData \<Rightarrow> int \<Rightarrow> bool \<Rightarrow> bool \<Rightarrow> (string, string) go" where
  "getCommonProtoFileCode g data0 jsonNamedType isWebProto isExtendedAPI =
     (let data = data0\<lparr>dFields := goTypeToProto (jsonNameOf g AtProto jsonNamedType) True (dFields data0)\<rparr>;
          file = (if isWebProto then (if isExtendedAPI then ''protoFileForWebCommonTmpl'' else ''protoFileForSimpleWebCommonTmpl'')
                  else (if isExtendedAPI then ''protoFileCommonTmpl'' else ''protoFileSimpleCommonTmpl'')) in
      go_bind (go_of [] (gTemplate g file data)) (\<lambda>code.
      go_bind (prefixErr ''handle protoMessageCreateCommonTmpl error: '' (tmplExecuteWithFilter2 g data ''protoMessageCreateCommonTmpl'' [])) (\<lambda>c.
      go_bind (prefixErr ''handle protoMessageUpdateCommonTmpl error: '' (tmplExecuteWithFilter2 g data ''protoMessageUpdateCommonTmpl'' [''id''])) (\<lambda>u0.
      let u = (if isWebProto then u0 else replaceAll (uriTag (getProtoFieldName (dFields data))) [] u0) in
      go_bind (prefixErr ''handle protoMessageDetailCommonTmpl error: '' (tmplExecuteWithFilter2 g data ''protoMessageDetailCommonTmpl'' detailColumns)) (\<lambda>d.
      Ok (adaptedDbType2 g data isWebProto
            (replaceAll ''right_curly_bracket'' ''}'' (replaceAll ''left_curly_bracket'' ''{'' (fillMessages code c u d)))))))))"

section \<open>JSON code\<close>

text \<open>The lines of \<open>bufio.Reader.ReadString\<close>: what follows the last newline is lost.\<close>

definition readLines :: "string \<Rightarrow> string list" where
  "readLines s = map (\<lambda>l. l @ NL) (butlast (splitOn (CHR 0x0A) s))"

fun commaLines :: "int \<Rightarrow> string list \<Rightarrow> string" where
  "commaLines n [] = []"
| "commaLines n (l # ls) =
     (if length l < 5 \<and> (CHR ''{'' \<in> set l \<or> CHR ''}'' \<in> set l) then l @ commaLines n ls
      else if n - 1 = 0 then l @ commaLines (n - 1) ls
      else butlast l @ '','' @ NL @ commaLines (n - 1) ls)"

definition addCommaToJSON :: "string \<Rightarrow> string" where
  "addCommaToJSON s = (let ls = readLines s in commaLines (int (length (filter (\<lambda>l. length l > 5) ls))) ls)"

definition getModelJSONCode :: "genv \<Rightarrow> tmplData \<Rightarrow> (string, string) go" where
  "getModelJSONCode g data =
     go_bind (go_of [] (gTemplate g ''modelJSONTmpl'' data)) (\<lambda>s.
     go_bind (go_of ''getModelJSONCode format.Source error: '' (gFormat g s)) (\<lambda>code.
     Ok (addCommaToJSON (replaceAll '' ='' '':'' code))))"

section \<open>The code of a table, and of a file\<close>

record codeText =
  importPaths :: "string list"
  modelStruct :: string
  modelJSON :: string
  updateFieldsText :: string
  handlerStruct :: string
  protoFile :: string
  serviceStruct :: string
  crudInfoText :: string
  tableInfoText :: string

definition crudCode :: "genv \<Rightarrow> crudInfo option \<Rightarrow> string" where
  "crudCode g info = (case info of None \<Rightarrow> [] | Some i \<Rightarrow> gJSONCrud g i)"

definition makeCode :: "genv \<Rightarrow> createTable \<Rightarrow> parserOptions \<Rightarrow> (string, codeText) go" where
  "makeCode g ct opt =
     go_bind (makeData g ct opt) (\<lambda>(data, imports).
     if oIsCustomTemplate opt then
       Ok \<lparr>importPaths = [], modelStruct = [], modelJSON = [], updateFieldsText = [], handlerStruct = [], protoFile = [],
           serviceStruct = [], crudInfoText = [], tableInfoText = gJSONTable g (newTableInfo (gPlural g) (gSnake g) data)\<rparr>
     else
       go_bind (getModelStructCode g data imports (oIsEmbed opt) (oJSONNamedType opt)) (\<lambda>(model, paths).
       go_bind (getUpdateFieldsCode g data) (\<lambda>upd.
       go_bind (getModelJSONCode g data) (\<lambda>js.
       let common = isCommonStyle data (oIsEmbed opt) in
       go_bind (if common then getCommonHandlerStructCodes g data (oJSONNamedType opt)
                else getHandlerStructCodes g data (oJSONNamedType opt)) (\<lambda>hs.
       go_bind (if common then getCommonServiceStructCode g data else getServiceStructCode g data) (\<lambda>ss.
       go_bind (if common then getCommonProtoFileCode g data (oJSONNamedType opt) (oIsWebProto opt) (oIsExtendedAPI opt)
                else getProtoFileCode g data (oJSONNamedType opt) (oIsWebProto opt) (oIsExtendedAPI opt)) (\<lambda>ps.
       Ok \<lparr>importPaths = paths, modelStruct = model, modelJSON = js, updateFieldsText = upd, handlerStruct = hs,
           protoFile = ps, serviceStruct = ss, crudInfoText = crudCode g (dCrudInfo data), tableInfoText = []\<rparr>)))))))"

fun makeCodes :: "genv \<Rightarrow> parserOptions \<Rightarrow> stmt list \<Rightarrow> (string, (string \<times> codeText) list) go" where
  "makeCodes g opt [] = Ok []"
| "makeCodes g opt (CreateTableStmt ct # ss) =
     go_bind (makeCode g ct opt) (\<lambda>code.
     go_bind (makeCodes g opt ss) (\<lambda>rest. Ok ((camel g (ctName ct), code) # rest)))"
| "makeCodes g opt (OtherStmt # ss) = makeCodes g opt ss"

definition ParseSQL :: "genv \<Rightarrow> (string \<Rightarrow> string \<Rightarrow> string \<Rightarrow> string + stmt list) \<Rightarrow> string \<Rightarrow>
    (parserOptions \<Rightarrow> parserOptions) list \<Rightarrow> (string, (string \<times> string) list) go" where
  "ParseSQL g parse sql opts =
     (let opt = parseOption opts in
      go_bind (go_of [] (parse sql (oCharset opt) (oCollation opt))) (\<lambda>stmts.
      go_bind (makeCodes g opt stmts) (\<lambda>codes.
      let cs = map snd codes;
          joined = (\<lambda>sel sep. joinWith sep (map sel cs));
          paths = sort (remdups (concat (map importPaths cs))) in
      go_bind (getModelCode g (oPackage opt) paths (map modelStruct cs)) (\<lambda>model.
      Ok [(''model'', model), (''json'', joined modelJSON (NL @ NL)), (''dao'', joined updateFieldsText (NL @ NL)),
          (''handler'', joined handlerStruct (NL @ NL)), (''proto'', joined protoFile (NL @ NL)),
          (''service'', joined serviceStruct (NL @ NL)), (''__table_name__'', joinWith '', '' (map fst codes)),
          (''crud_info'', joined crudInfoText '' |||| ''), (''table_info'', joined tableInfoText '' |||| '')]))))"

section \<open>The command: sql2code.go\<close>

record genArgs =
  aSQL :: string
  aDDLFile :: string
  aDBDriver :: string
  aDBDsn :: string
  aDBTable :: string
  aFieldTypes :: "(string \<Rightarrow> string option) option"
  aPackage :: string
  aGormType :: bool
  aJSONTag :: bool
  aJSONNamedType :: int
  aIsEmbed :: bool
  aIsWebProto :: bool
  aCodeType :: string
  aForceTableName :: bool
  aCharset :: string
  aCollation :: string
  aTablePrefix :: string
  aColumnPrefix :: string
  aNoNullType :: bool
  aNullStyle :: string
  aIsExtendedAPI :: bool
  aIsCustomTemplate :: bool

definition testTable :: "string \<Rightarrow> string option" where
  "testTable tables = find (\<lambda>n. hasSuffix n ''_test'') (splitOn (CHR '','') tables)"

definition testTableMsg :: "string \<Rightarrow> string" where
  "testTableMsg name = ''the table name ('' @ name @ '') suffix '' @ dquote @ ''_test'' @ dquote @
     '' is not supported for code generation, please delete suffix '' @ dquote @ ''_test'' @ dquote @
     '' or change it to another name. ''"

definition argsCheckValid :: "(string \<Rightarrow> bool) \<Rightarrow> genArgs \<Rightarrow> string + genArgs" where
  "argsCheckValid isExists a =
     (if aSQL a = [] \<and> aDDLFile a = [] \<and> aDBDsn a = [] \<and> aDBTable a = [] then Inl ''you must specify sql or ddl file''
      else if aDBTable a \<noteq> [] \<and> testTable (aDBTable a) \<noteq> None then Inl (testTableMsg (the (testTable (aDBTable a))))
      else if aDBDriver a = DBDriverSqlite \<and> \<not> isExists (aDBDsn a)
      then Inl (''sqlite db file '' @ aDBDsn a @ '' not found in local host'')
      else Inr (a\<lparr>aDBDriver := (if aDBDriver a = [] then DBDriverMysql else aDBDriver a),
                  aFieldTypes := (if aFieldTypes a = None then Some (\<lambda>_. None) else aFieldTypes a)\<rparr>))"

text \<open>
  The sources of SQL text: \<open>readFile\<close>, and \<open>tableInfo driver dsn table\<close>, which reads a table of a database
  as a \<open>CREATE TABLE\<close> statement with the types of its fields.
\<close>

definition getSQL :: "(string \<Rightarrow> string + string) \<Rightarrow> (string \<Rightarrow> string \<Rightarrow> string \<Rightarrow> string + (string \<times> (string \<Rightarrow> string option) option)) \<Rightarrow>
    genArgs \<Rightarrow> string + (string \<times> (string \<Rightarrow> string option) option)" where
  "getSQL readFile tableInfo a =
     (let driver = toLower (aDBDriver a) in
      if aSQL a \<noteq> [] then Inr (aSQL a, None)
      else if aDDLFile a \<noteq> [] then
        (if driver \<noteq> DBDriverMysql then Inl (''not support driver '' @ aDBDriver a @ '' for parsing the sql file, only mysql is supported'')
         else (case readFile (aDDLFile a) of Inl e \<Rightarrow> Inl (''read '' @ aDDLFile a @ '' failed, '' @ e) | Inr b \<Rightarrow> Inr (b, None)))
      else if aDBDsn a \<noteq> [] then
        (if aDBTable a = [] then Inl ''miss database table''
         else if driver \<in> {DBDriverMysql, DBDriverTidb, DBDriverPostgresql, DBDriverSqlite, DBDriverMongodb}
         then tableInfo driver (aDBDsn a) (aDBTable a)
         else Inl (''get sql error, unsupported database driver: '' @ driver))
      else Inl ''no SQL input(-sql|-f|-db-dsn)'')"

definition setOptions :: "genArgs \<Rightarrow> (parserOptions \<Rightarrow> parserOptions) list" where
  "setOptions a =
     (if aNullStyle a \<notin> {[], ''sql'', ''ptr''} then []
      else (if aDBDriver a \<noteq> [] then [WithDBDriver (aDBDriver a)] else []) @
           (if aFieldTypes a \<noteq> None then [WithFieldTypes (aFieldTypes a)] else []) @
           (if aCharset a \<noteq> [] then [WithCharset (aCharset a)] else []) @
           (if aCollation a \<noteq> [] then [WithCollation (aCollation a)] else []) @
           (if aJSONTag a then [WithJSONTag (aJSONNamedType a)] else []) @
           (if aTablePrefix a \<noteq> [] then [WithTablePrefix (aTablePrefix a)] else []) @
           (if aColumnPrefix a \<noteq> [] then [WithColumnPrefix (aColumnPrefix a)] else []) @
           (if aNoNullType a then [WithNoNullType] else []) @
           (if aIsEmbed a then [WithEmbed] else []) @
           (if aIsWebProto a then [WithWebProto] else []) @
           [WithNullStyle (if aNullStyle a = ''sql'' then NullInSql else if aNullStyle a = ''ptr'' then NullInPointer else NullDisable)] @
           (if aPackage a \<noteq> [] then [WithPackage (aPackage a)] else []) @
           (if aGormType a then [WithGormType] else []) @
           (if aForceTableName a then [WithForceTableName] else []) @
           (if aIsExtendedAPI a then [WithExtendedAPI] else []) @
           (if aIsCustomTemplate a then [WithCustomTemplate] else []))"

record world =
  wIsExists :: "string \<Rightarrow> bool"
  wReadFile :: "string \<Rightarrow> string + string"
  wTableInfo :: "string \<Rightarrow> string \<Rightarrow> string \<Rightarrow> string + (string \<times> (string \<Rightarrow> string option) option)"
  wParse :: "string \<Rightarrow> string \<Rightarrow> string \<Rightarrow> string + stmt list"

definition Generate :: "genv \<Rightarrow> world \<Rightarrow> genArgs \<Rightarrow> (string, (string \<times> string) list) go" where
  "Generate g w a0 =
     go_bind (go_of [] (argsCheckValid (wIsExists w) a0)) (\<lambda>a1.
     go_bind (go_of [] (getSQL (wReadFile w) (wTableInfo w) a1)) (\<lambda>(sql, fieldTypes).
     let a = (if fieldTypes \<noteq> None then a1\<lparr>aFieldTypes := fieldTypes\<rparr> else a1) in
     if sql = [] then Err (''get sql from '' @ aDBDriver a @ '' error, maybe the table '' @ aDBTable a @ '' doesn't exist'')
     else ParseSQL g (wParse w) sql (setOptions a)))"

definition GenerateOne :: "genv \<Rightarrow> world \<Rightarrow> genArgs \<Rightarrow> (string, string) go" where
  "GenerateOne g w a =
     go_bind (Generate g w a) (\<lambda>codes.
     let t = (if aCodeType a = [] then ''model'' else aCodeType a) in
     case map_of codes t of Some out \<Rightarrow> Ok out | None \<Rightarrow> Err (''unknown code type '' @ t))"

section \<open>Fields and columns\<close>

lemma makeField_simps [simp]:
  "fColName (fst (makeField g opt pk col)) = cdName col"
  "fIsPrimaryKey (fst (makeField g opt pk col)) = (cdName col \<in> set pk)"
  "fName (fst (makeField g opt pk col)) = camel g (if oColumnPrefix opt \<noteq> [] \<and> hasPrefix (cdName col) (oColumnPrefix opt)
                         then drop (length (oColumnPrefix opt)) (cdName col) else cdName col)"
  "fDBDriver (fst (makeField g opt pk col)) = oDBDriver opt"
  by (simp_all add: makeField_def Let_def split_beta)

lemma makeField_json:
  "oDBDriver opt \<noteq> DBDriverMongodb \<Longrightarrow>
   fJSONName (fst (makeField g opt pk col)) = jsonNameOf g AtModel (oJSONNamedType opt) (cdName col)"
  by (simp add: makeField_def Let_def split_beta)

lemma colOption_pk: "set (csPK (colOption col st opt)) \<subseteq> insert col (set (csPK st))"
  by (cases "(col, st, opt)" rule: colOption.cases) (auto simp: Let_def)

lemma colOptions_pk: "set (csPK (foldl (colOption col) st opts)) \<subseteq> insert col (set (csPK st))"
proof (induction opts arbitrary: st)
  case (Cons opt opts)
  then show ?case using colOption_pk [of col st opt] by fastforce
qed auto

lemma makeField_pk: "set (snd (snd (makeField g opt pk col))) \<subseteq> insert (cdName col) (set pk)"
  using colOptions_pk [of "cdName col" "\<lparr>csTag = gormTagStart opt col (cdName col \<in> set pk), csPK = pk, csNotNull = False,
      csCanNull = False, csComment = []\<rparr>" "cdOptions col"]
  by (simp add: makeField_def Let_def split_beta)

lemma colOptions_pk_mono: "set (csPK st) \<subseteq> set (csPK (foldl (colOption col) st opts))"
proof (induction opts arbitrary: st)
  case (Cons opt opts)
  have "set (csPK st) \<subseteq> set (csPK (colOption col st opt))"
    by (cases "(col, st, opt)" rule: colOption.cases) (auto simp: Let_def)
  then show ?case using Cons [of "colOption col st opt"] by simp
qed simp

lemma makeField_pk_mono: "set pk \<subseteq> set (snd (snd (makeField g opt pk col)))"
  using colOptions_pk_mono [of "\<lparr>csTag = gormTagStart opt col (cdName col \<in> set pk), csPK = pk, csNotNull = False,
      csCanNull = False, csComment = []\<rparr>" "cdName col" "cdOptions col"]
  by (simp add: makeField_def Let_def split_beta)

lemma makeFields_Cons:
  "fst (makeFields g opt pk (col # cols)) =
     fst (makeField g opt pk col) # fst (makeFields g opt (snd (snd (makeField g opt pk col))) cols)"
  by (simp add: Let_def split_beta)

lemma makeFields_names: "map fColName (fst (makeFields g opt pk cols)) = map cdName cols"
  by (induction cols arbitrary: pk) (simp_all add: makeFields_Cons del: makeFields.simps(2))

lemma makeFields_drivers: "f \<in> set (fst (makeFields g opt pk cols)) \<Longrightarrow> fDBDriver f = oDBDriver opt"
  by (induction cols arbitrary: pk) (auto simp: makeFields_Cons simp del: makeFields.simps(2))

lemma makeFields_json:
  "oDBDriver opt \<noteq> DBDriverMongodb \<Longrightarrow> f \<in> set (fst (makeFields g opt pk cols)) \<Longrightarrow>
   fJSONName f = jsonNameOf g AtModel (oJSONNamedType opt) (fColName f)"
  by (induction cols arbitrary: pk) (auto simp: makeFields_Cons makeField_json simp del: makeFields.simps(2))

text \<open>With distinct names, the primary keys of the fields are those of the constraints.\<close>

lemma makeFields_pk:
  assumes "distinct (map cdName cols)" "set pk \<inter> set (map cdName cols) = K" "f \<in> set (fst (makeFields g opt pk cols))"
  shows "fIsPrimaryKey f \<longleftrightarrow> fColName f \<in> K"
  using assms
proof (induction cols arbitrary: pk K)
  case (Cons col cols)
  let ?pk = "snd (snd (makeField g opt pk col))"
  consider "f = fst (makeField g opt pk col)" | "f \<in> set (fst (makeFields g opt ?pk cols))"
    using Cons.prems(3) by (auto simp: makeFields_Cons simp del: makeFields.simps(2))
  then show ?case
  proof cases
    case 1
    then show ?thesis using Cons.prems(2) by auto
  next
    case 2
    have "fColName f \<in> set (map fColName (fst (makeFields g opt ?pk cols)))" using 2 by (simp only: set_map) blast
    then have m: "fColName f \<in> set (map cdName cols)" by (simp only: makeFields_names)
    have "fIsPrimaryKey f \<longleftrightarrow> fColName f \<in> set ?pk \<inter> set (map cdName cols)"
      using Cons.IH [OF _ refl 2] Cons.prems(1) by simp
    moreover have "x \<in> set pk" if "x \<in> set ?pk \<inter> set (map cdName cols)" for x
    proof -
      have "x \<in> insert (cdName col) (set pk)" using subsetD [OF makeField_pk] that by blast
      moreover have "x \<noteq> cdName col" using that Cons.prems(1) by (metis IntD2 distinct.simps(2) list.simps(9))
      ultimately show ?thesis by blast
    qed
    moreover have "set pk \<subseteq> set ?pk" by (rule makeField_pk_mono)
    ultimately show ?thesis using m Cons.prems(2) by (metis IntD2 IntI in_mono insert_iff list.simps(15) list.simps(9) Int_iff)
  qed
qed simp

lemma makeData_Ok:
  assumes "makeData g ct opt = Ok (d, imps)"
  obtains pk i where "primaryKeys (ctConstraints ct) = Some pk" "dFields d = fst (makeFields g opt pk (ctCols ct))"
    "ctCols ct \<noteq> []" "dCrudInfo d = Some i" "cColumnName i = fColName (crudField (dFields d))"
    "cGoType i = fGoType (crudField (dFields d))" "dDBDriver d = oDBDriver opt"
proof -
  obtain pk where pk: "primaryKeys (ctConstraints ct) = Some pk"
    using assms by (cases "primaryKeys (ctConstraints ct)") (auto simp: makeData_def split_beta)
  let ?fs = "fst (makeFields g opt pk (ctCols ct))"
  have "?fs \<noteq> []" using assms pk by (auto simp: makeData_def Let_def split_beta split: if_splits)
  moreover have "length ?fs = length (ctCols ct)" using makeFields_names by (metis length_map)
  ultimately have ne: "?fs \<noteq> []" "ctCols ct \<noteq> []" by auto
  have d: "dFields d = ?fs" "dDBDriver d = oDBDriver opt"
    using assms pk ne by (auto simp: makeData_def Let_def split_beta)
  have "\<exists>i. dCrudInfo d = Some i \<and> cColumnName i = fColName (crudField ?fs) \<and> cGoType i = fGoType (crudField ?fs)"
    using assms pk ne by (auto simp: makeData_def newCrudInfo_def setCrudInfo_def Let_def split_beta)
  then show ?thesis using that pk d ne by auto
qed

lemma makeData_outcome:
  "makeData g ct opt = Panic \<longleftrightarrow> primaryKeys (ctConstraints ct) = None"
  "(\<exists>e. makeData g ct opt = Err e) \<longleftrightarrow> primaryKeys (ctConstraints ct) \<noteq> None \<and> ctCols ct = []"
proof -
  have "fst (makeFields g opt pk (ctCols ct)) = [] \<longleftrightarrow> ctCols ct = []" for pk
    using makeFields_names by (metis map_is_Nil_conv)
  then show "makeData g ct opt = Panic \<longleftrightarrow> primaryKeys (ctConstraints ct) = None"
    and "(\<exists>e. makeData g ct opt = Err e) \<longleftrightarrow> primaryKeys (ctConstraints ct) \<noteq> None \<and> ctCols ct = []"
    by (auto simp: makeData_def Let_def split_beta split: option.splits)
qed

lemma crudField_in: "fs \<noteq> [] \<Longrightarrow> crudField fs \<in> set fs"
  by (auto simp: crudField_def find_Some_iff split: option.splits)

lemma find_map_key:
  assumes "map a xs = map b ys" "\<And>x. x \<in> set xs \<Longrightarrow> P x \<longleftrightarrow> a x \<in> K" "find (\<lambda>y. b y \<in> K) ys = Some y"
  shows "\<exists>x. find P xs = Some x \<and> a x = b y"
  using assms
proof (induction xs arbitrary: ys)
  case (Cons x xs)
  then obtain y0 ys0 where ys: "ys = y0 # ys0" "a x = b y0" "map a xs = map b ys0" by (cases ys) auto
  show ?case
  proof (cases "a x \<in> K")
    case True
    then show ?thesis using Cons.prems(2,3) ys by (auto split: if_splits)
  next
    case False
    then show ?thesis using Cons.IH [OF ys(3)] Cons.prems(2,3) ys by auto
  qed
qed simp

lemma find_key:
  assumes "map fColName fs = map cdName cols" "\<And>f. f \<in> set fs \<Longrightarrow> fIsPrimaryKey f \<longleftrightarrow> fColName f \<in> K"
    "find (\<lambda>c. cdName c \<in> K) cols = Some c"
  shows "fColName (crudField fs) = cdName c"
  using find_map_key [OF assms] by (auto simp: crudField_def)

section \<open>Properties\<close>


text \<open>A statement \<open>CREATE TABLE orders (id bigint PRIMARY KEY, user_id bigint)\<close>, its environment and options.\<close>

definition bigint :: fieldType where
  "bigint = \<lparr>ftTp = TypeLonglong, ftUnsigned = False, ftString = ''bigint'', ftInfoSchema = ''bigint''\<rparr>"

definition ordersTable :: createTable where
  "ordersTable = \<lparr>ctName = ''orders'', ctOptions = [], ctConstraints = [],
     ctCols = [\<lparr>cdName = ''id'', cdTp = bigint, cdOptions = [OptPrimaryKey]\<rparr>,
               \<lparr>cdName = ''user_id'', cdTp = bigint, cdOptions = [OptNotNull]\<rparr>]\<rparr>"

definition demoGenv :: genv where
  "demoGenv = \<lparr>gPascal = (\<lambda>s. if s = ''id'' then ''Id'' else if s = ''user_id'' then ''UserId'' else ''Orders''),
     gSnake = id, gPlural = id, gCamelOrd = (\<lambda>_. idFirst), gSnakeOrd = (\<lambda>_ _. idFirst), gMarkOrd = id,
     gTemplate = (\<lambda>_ _. Inr []), gModelTemplate = (\<lambda>_ _ _. Inr []), gFormat = Inr,
     gJSONCrud = (\<lambda>_. []), gJSONTable = (\<lambda>_. [])\<rparr>"

definition demoFields :: "tmplField list" where
  "demoFields = fst (makeFields demoGenv defaultOptions [] (ctCols ordersTable))"


text \<open>
  A primary key declared at its column, not at the table, is not seen: no field is a primary key, and
  when some column whose name ends in \<open>_id\<close> has an integer or string type, the first such column becomes
  the key of the generated interface, whatever the declared key is.
\<close>
theorem inline_primary_key_missed:
  assumes "makeData g ct opt = Ok (d, imps)" "primaryKeys (ctConstraints ct) = Some []" "distinct (map cdName (ctCols ct))"
  shows "(\<forall>f\<in>set (dFields d). \<not> fIsPrimaryKey f) \<and>
    (\<forall>f. find (\<lambda>f. hasSuffix (fColName f) ''_id'' \<and> isDesiredGoType (fGoType f)) (dFields d) = Some f \<longrightarrow>
       map_option cColumnName (dCrudInfo d) = Some (fColName f) \<and> \<not> isIDPrimaryKey (dCrudInfo d))"
proof -
  obtain pk i where o: "primaryKeys (ctConstraints ct) = Some pk" "dFields d = fst (makeFields g opt pk (ctCols ct))"
    "dCrudInfo d = Some i" "cColumnName i = fColName (crudField (dFields d))"
    using makeData_Ok [OF assms(1)] by metis
  have pk: "\<not> fIsPrimaryKey f" if "f \<in> set (dFields d)" for f
    using makeFields_pk [OF assms(3), where pk = "[]" and K = "{}" and g = g and opt = opt and f = f] that o(1,2) assms(2) by simp
  have "cColumnName i = fColName f \<and> \<not> isIDPrimaryKey (Some i)"
    if "find (\<lambda>f. hasSuffix (fColName f) ''_id'' \<and> isDesiredGoType (fGoType f)) (dFields d) = Some f" for f
  proof -
    have "find fIsPrimaryKey (dFields d) = None" using pk by (simp add: find_None_iff)
    then have eq: "cColumnName i = fColName f" using that o(4) by (simp add: crudField_def)
    have "hasSuffix (fColName f) ''_id''" using that by (auto simp: find_Some_iff)
    then have "fColName f \<noteq> ''id''" by (auto simp: hasSuffix_def)
    then show ?thesis using eq by (simp add: isIDPrimaryKey_def)
  qed
  then show ?thesis using pk o(3) by simp
qed

theorem inline_primary_key_missed_witness:
  "\<exists>d imps. makeData demoGenv ordersTable defaultOptions = Ok (d, imps) \<and>
     map_option cColumnName (dCrudInfo d) = Some ''user_id''"
proof -
  obtain d imps where d: "makeData demoGenv ordersTable defaultOptions = Ok (d, imps)"
    using makeData_outcome [of demoGenv ordersTable defaultOptions]
    by (cases "makeData demoGenv ordersTable defaultOptions") (auto simp: ordersTable_def)
  obtain pk i where o: "dFields d = fst (makeFields demoGenv defaultOptions pk (ctCols ordersTable))"
    "primaryKeys (ctConstraints ordersTable) = Some pk" using makeData_Ok [OF d] by metis
  then have f: "dFields d = demoFields" by (simp add: demoFields_def ordersTable_def)
  have u: "find (\<lambda>f. hasSuffix (fColName f) ''_id'' \<and> isDesiredGoType (fGoType f)) demoFields = Some (demoFields ! 1)"
    "fColName (demoFields ! 1) = ''user_id''"
    by code_simp+
  have "distinct (map cdName (ctCols ordersTable))" by (simp add: ordersTable_def)
  then show ?thesis
    using inline_primary_key_missed [OF d, unfolded f] u d by (auto simp: ordersTable_def)
qed

text \<open>The orders in which Go visits the map of peculiar nouns.\<close>

definition goodOrders :: "genv \<Rightarrow> bool" where
  "goodOrders g \<longleftrightarrow> (\<forall>s. mapOrder (gCamelOrd g s)) \<and> (\<forall>w s. mapOrder (gSnakeOrd g w s))"

lemma jsonNameOf_site:
  assumes "goodOrders g" "n \<noteq> 0 \<or> \<not> hasSuffix (camel g col) ''UID''"
  shows "jsonNameOf g w n col = jsonNameOf g w' n col"
  using assms snakeSuffix_order [of "gSnakeOrd g w col" "gSnakeOrd g w' col" "camel g col"]
  by (auto simp: jsonNameOf_def goodOrders_def customToSnake_def camel_def)

text \<open>
  C19: For a relational table the JSON name of a column is the same in the tag of the model, in the
  handler's structs and in the proto file, for every order in which the map of peculiar nouns is visited,
  when names are in camel case or the identifier does not end in UID.
\<close>
theorem json_names_agree:
  assumes "goodOrders g" "makeData g ct opt = Ok (d, imps)" "oDBDriver opt \<noteq> DBDriverMongodb" "f \<in> set (dFields d)"
    and "oJSONNamedType opt \<noteq> 0 \<or> \<not> hasSuffix (camel g (fColName f)) ''UID''"
  shows "fJSONName (handlerField g (oJSONNamedType opt) f) = fJSONName f \<and>
    fJSONName (fieldToProto (jsonNameOf g AtProto (oJSONNamedType opt)) c f) = fJSONName f"
proof -
  obtain pk where "dFields d = fst (makeFields g opt pk (ctCols ct))" using makeData_Ok [OF assms(2)] by metis
  then have "fJSONName f = jsonNameOf g AtModel (oJSONNamedType opt) (fColName f)"
    using makeFields_json assms(3,4) by simp
  then show ?thesis
    using jsonNameOf_site [OF assms(1,5), of AtModel AtHandler] jsonNameOf_site [OF assms(1,5), of AtModel AtProto]
    by (simp add: handlerField_def fieldToProto_def Let_def)
qed

lemma demo_fields: "makeData demoGenv ordersTable defaultOptions = Ok (d, imps) \<Longrightarrow> dFields d = demoFields"
  using makeData_Ok [of demoGenv ordersTable defaultOptions d imps] by (force simp: demoFields_def ordersTable_def)

theorem json_names_agree_witness:
  "fJSONName (handlerField demoGenv 0 (demoFields ! 0)) = fJSONName (demoFields ! 0)"
proof -
  obtain d imps where d: "makeData demoGenv ordersTable defaultOptions = Ok (d, imps)"
    using makeData_outcome [of demoGenv ordersTable defaultOptions]
    by (cases "makeData demoGenv ordersTable defaultOptions") (auto simp: ordersTable_def)
  have "goodOrders demoGenv" using orders by (simp add: goodOrders_def demoGenv_def)
  moreover have "demoFields ! 0 \<in> set (dFields d)" unfolding demo_fields [OF d] by code_simp
  moreover have "\<not> hasSuffix (camel demoGenv (fColName (demoFields ! 0))) ''UID''" by code_simp
  ultimately show ?thesis
    using json_names_agree [of demoGenv ordersTable defaultOptions d imps "demoFields ! 0"] d by (simp add: defaultOptions_def)
qed

section \<open>The white list of column names\<close>

lemma rewriteField_names: "fColName (fst (rewriteField f)) = fColName f" "fName (fst (rewriteField f)) = fName f"
  by (simp_all add: rewriteField_def split: option.split)

lemma timePointer_names: "fColName (timePointer f) = fColName f" "fName (timePointer f) = fName f"
  "fDBDriver (timePointer f) = fDBDriver f"
  by (simp_all add: timePointer_def)

lemma embedField_names: "fColName (fst (embedField f)) = fColName f" "fName (fst (embedField f)) = fName f"
  by (simp_all add: embedField_def rewriteField_names timePointer_names)

lemma plainField_names: "fColName (fst (plainField d e f)) = fColName f"
  by (simp add: plainField_def Let_def rewriteField_names timePointer_names)

definition whitelist :: "tmplData \<Rightarrow> string list \<Rightarrow> bool \<Rightarrow> string list" where
  "whitelist d imps isEmbed = map fColName (tableColumns (d\<lparr>dFields := fst (modelFields d imps isEmbed)\<rparr>) isEmbed)"

lemma whitelist_columns:
  assumes "makeData g ct opt = Ok (d, imps)" "oDBDriver opt \<noteq> DBDriverMongodb"
    and "\<forall>f\<in>set (dFields d). fName f \<noteq> ''__mysqlModel__'' \<and> fColName f \<noteq> ''__mysqlModel__''"
  shows "set (whitelist d imps False) = cdName ` set (ctCols ct) \<and>
    set (whitelist d imps True) = cdName ` set (ctCols ct) \<union> {''id'', ''created_at'', ''updated_at'', ''deleted_at''}"
proof -
  obtain pk where o: "dFields d = fst (makeFields g opt pk (ctCols ct))" "dDBDriver d = oDBDriver opt"
    using makeData_Ok [OF assms(1)] by metis
  have names: "fColName ` set (dFields d) = cdName ` set (ctCols ct)"
    unfolding o(1) using makeFields_names by (metis list.set_map)
  have nd: "dDBDriver d \<noteq> DBDriverMongodb" using o(2) assms(2) by simp
  have "set (whitelist d imps False) = fColName ` set (dFields d)"
    using nd by (simp add: whitelist_def tableColumns_def modelFields_def Let_def image_image plainField_names)
  moreover have "set (whitelist d imps True) =
      {''id'', ''created_at'', ''updated_at'', ''deleted_at''} \<union> {c \<in> fColName ` set (dFields d). \<not> isIgnoreFields c []}"
    using nd assms(3)
    by (auto simp: whitelist_def tableColumns_def modelFields_def Let_def columnOnly_def mysqlModelField_def embedField_names
        image_iff)
  moreover have "{c \<in> fColName ` set (dFields d). isIgnoreFields c []} \<subseteq> {''id'', ''created_at'', ''updated_at'', ''deleted_at''}"
    using assms(3) by (auto simp: isIgnoreFields_def ignoreColumns_def)
  ultimately show ?thesis using names by auto
qed

end
