(* ===== verification/DbSchema.thy ===== *)
theory DbSchema
  imports SqlTypes
begin

text \<open>
  Package \<open>pkg/sql2code/parser\<close>: from the columns of an existing SQLite or PostgreSQL table, or the last
  document of a MongoDB collection, to a MySQL \<open>CREATE TABLE\<close> statement (\<open>sqlite.go\<close>, \<open>postgresql.go\<close>,
  \<open>mongodb.go\<close>). Reading the database is not modelled: its answer is the argument. \<open>xstrings\<close> is an argument.
\<close>

abbreviation bq :: string where "bq \<equiv> [CHR 0x60]"
abbreviation squote :: string where "squote \<equiv> [CHR 0x27]"

definition columnLine :: "string \<Rightarrow> string \<Rightarrow> bool \<Rightarrow> string \<Rightarrow> string" where
  "columnLine name tp notnull comment =
     ''    '' @ bq @ name @ bq @ '' '' @ tp @ '' '' @ (if notnull then ''not null'' else ''null'') @ '' comment '' @
     squote @ comment @ squote @ '','' @ NL"

definition tableText :: "string \<Rightarrow> string \<Rightarrow> string" where
  "tableText tableName fieldStr = ''CREATE TABLE '' @ bq @ tableName @ bq @ '' ('' @ NL @ fieldStr @ NL @ '');''"

definition withPrimary :: "string option \<Rightarrow> string \<Rightarrow> string" where
  "withPrimary primary fieldStr =
     (case primary of
        Some name \<Rightarrow> fieldStr @ ''    PRIMARY KEY ('' @ bq @ name @ bq @ '')'' @ NL
      | None \<Rightarrow> trimSuffix fieldStr ('','' @ NL))"

section \<open>SQLite\<close>

record SqliteField =
  sqName :: string
  sqType :: string
  sqNotnull :: int
  sqPk :: int

definition sqliteToMysqlType :: "string \<Rightarrow> string option" where
  "sqliteToMysqlType = map_of [(''integer'', ''INT''), (''text'', ''TEXT''), (''real'', ''FLOAT''), (''datetime'', ''DATETIME''),
     (''blob'', ''BLOB''), (''boolean'', ''TINYINT''), (''numeric'', '' VARCHAR(255)''), (''autoincrement'', ''auto_increment'')]"

definition sqGetMysqlType :: "SqliteField \<Rightarrow> string" where
  "sqGetMysqlType f =
     (let t = toLower (sqType f) in
      case sqliteToMysqlType t of
        Some m \<Rightarrow> if sqName f = ''id'' \<and> t = ''text'' then ''VARCHAR(50)'' else m
      | None \<Rightarrow> ''VARCHAR(100)'')"

definition sqGetPrimaryField :: "SqliteField list \<Rightarrow> SqliteField option" where
  "sqGetPrimaryField fs = find (\<lambda>f. sqPk f = 1 \<or> sqName f = ''id'') fs"

definition convertToSQLBySqliteFields :: "string \<Rightarrow> SqliteField list \<Rightarrow> string" where
  "convertToSQLBySqliteFields tableName fs =
     (if fs = [] then []
      else tableText tableName (withPrimary (map_option sqName (sqGetPrimaryField fs))
             (concat (map (\<lambda>f. columnLine (sqName f) (sqGetMysqlType f) (sqNotnull f \<noteq> 0) []) fs))))"

section \<open>PostgreSQL\<close>

record PGField =
  pgName :: string
  pgType :: string
  pgComment :: string
  pgLengthvar :: int
  pgNotnull :: bool
  pgIsPrimaryKey :: bool

definition pgCharType :: "string \<Rightarrow> bool" where
  "pgCharType t \<longleftrightarrow> t \<in> {''character'', ''character varying'', ''varchar'', ''char'', ''bpchar''}"

definition varcharOf :: "int \<Rightarrow> string" where
  "varcharOf n = ''varchar('' @ dec (nat (n - 4)) @ '')''"

definition pgGetMysqlType :: "PGField \<Rightarrow> string" where
  "pgGetMysqlType f =
     (let t = pgType f in
      if t \<in> {''smallint'', ''integer'', ''smallserial'', ''serial'', ''int2'', ''int4''} then ''int''
      else if t \<in> {''bigint'', ''bigserial'', ''int8''} then ''bigint''
      else if t \<in> {''real'', ''float4''} then ''float''
      else if t \<in> {''double precision'', ''float8''} then ''double''
      else if t \<in> {''decimal'', ''numeric'', ''money''} then ''decimal(10, 2)''
      else if pgCharType t then (if pgLengthvar f > 4 then varcharOf (pgLengthvar f) else ''varchar(100)'')
      else if t = ''text'' then ''text''
      else if t = ''timestamp'' then ''timestamp''
      else if t = ''date'' then ''date''
      else if t = ''time'' then ''time''
      else if t = ''interval'' then ''year''
      else if t \<in> {''json'', ''jsonb''} then ''json''
      else if t \<in> {''boolean'', ''bool''} then ''bit(1)''
      else if t = ''bit'' then ''bit''
      else ''varchar(100)'')"

definition pgGetType :: "PGField \<Rightarrow> string" where
  "pgGetType f = (if pgCharType (pgType f) \<and> pgLengthvar f > 4 then varcharOf (pgLengthvar f) else pgType f)"

definition pgGetPrimaryField :: "PGField list \<Rightarrow> PGField option" where
  "pgGetPrimaryField fs = find (\<lambda>f. pgIsPrimaryKey f \<or> pgName f = ''id'') fs"

definition ConvertToSQLByPgFields :: "string \<Rightarrow> PGField list \<Rightarrow> string \<times> (string \<Rightarrow> string option)" where
  "ConvertToSQLByPgFields tableName fs =
     (if fs = [] then ([], (\<lambda>_. None))
      else (tableText tableName (withPrimary (map_option pgName (pgGetPrimaryField fs))
              (concat (map (\<lambda>f. columnLine (pgName f) (pgGetMysqlType f) (pgNotnull f)
                                  (replaceByte (CHR 0x27) [CHR 0x5C, CHR 0x27] (pgComment f))) fs))),
            foldl (\<lambda>m f. m(pgName f \<mapsto> pgGetType f)) (\<lambda>_. None) fs))"

section \<open>MongoDB\<close>

text \<open>
  A value of a document: a document, an array, or a scalar with the Go type that \<open>mgoTypeToGo\<close> gives its
  BSON type (\<open>None\<close> when the map has no entry). \<open>Corrupt\<close> is a document or array whose elements cannot be
  read.
\<close>

datatype bsonType =
    BObjectID | BInt32 | BInt64 | BDouble | BString | BTimestamp | BDateTime | BBoolean | BNull | BBinary | BUndefined
  | BCodeWithScope | BSymbol | BRegex | BDecimal128 | BDBPointer | BMinKey | BMaxKey | BJavaScript | BOther

datatype bson = Doc "(string \<times> bson) list" | Arr "(string \<times> bson) list" | Scalar bsonType | Corrupt

fun mgoTypeToGo :: "bsonType \<Rightarrow> string option" where
  "mgoTypeToGo BObjectID = Some goTypeOID"
| "mgoTypeToGo BInt32 = Some ''int''"
| "mgoTypeToGo BInt64 = Some ''int64''"
| "mgoTypeToGo BDouble = Some ''float64''"
| "mgoTypeToGo BString = Some ''string''"
| "mgoTypeToGo BTimestamp = Some ''time.Time''"
| "mgoTypeToGo BDateTime = Some ''time.Time''"
| "mgoTypeToGo BBoolean = Some ''bool''"
| "mgoTypeToGo BNull = Some ''nil''"
| "mgoTypeToGo BBinary = Some ''[]byte''"
| "mgoTypeToGo BUndefined = Some ''interface{}''"
| "mgoTypeToGo BCodeWithScope = Some ''string''"
| "mgoTypeToGo BSymbol = Some ''string''"
| "mgoTypeToGo BRegex = Some ''string''"
| "mgoTypeToGo BDecimal128 = Some ''interface{}''"
| "mgoTypeToGo BDBPointer = Some ''interface{}''"
| "mgoTypeToGo BMinKey = Some ''int''"
| "mgoTypeToGo BMaxKey = Some ''int''"
| "mgoTypeToGo BJavaScript = Some ''string''"
| "mgoTypeToGo BOther = None"

record mgoEnv =
  meCamel :: "string \<Rightarrow> string"
  meSnake :: "string \<Rightarrow> string"
  meJsonTagFormat :: int

definition SetJSONTagSnakeCase :: "int \<Rightarrow> int" where
  "SetJSONTagSnakeCase f = f + - f"

definition SetJSONTagCamelCase :: "int \<Rightarrow> int" where
  "SetJSONTagCamelCase f = (f + 1 + 2 ^ 31) mod 2 ^ 32 - 2 ^ 31"

fun toLowerFirst :: "string \<Rightarrow> string" where
  "toLowerFirst [] = []"
| "toLowerFirst (c # s) = toLower [c] @ s"

text \<open>\<open>strings.TrimLeft\<close> with the cutset of the two brackets.\<close>

definition trimBrackets :: "string \<Rightarrow> string" where
  "trimBrackets s = dropWhile (\<lambda>c. c = CHR ''['' \<or> c = CHR '']'') s"

definition convertToProtoFieldType :: "string \<Rightarrow> string \<Rightarrow> string" where
  "convertToProtoFieldType name g =
     (if g = ''int'' then ''int32'' else if g = ''uint'' then ''uint32'' else if g = ''time.Time'' then ''int64''
      else if g = ''float32'' then ''float'' else if g = ''float64'' then ''double''
      else if g \<in> {''[]int'', ''[]int64''} then ''repeated int64'' else if g = ''[]int32'' then ''repeated int32''
      else if g = ''[]byte'' then ''bytes'' else if g = ''[]string'' then ''repeated string''
      else if strContains g ''[]'' \<and> strContains name (trimBrackets g) then ''repeated '' @ trimBrackets g
      else g)"

definition toSingular :: "string \<Rightarrow> string" where
  "toSingular w =
     (if hasSuffix w ''es'' then (if length w > 2 then take (length w - 2) w else w)
      else if hasSuffix w ''s'' then (if length w > 1 then take (length w - 1) w else w)
      else w)"

definition nameToSingular :: "string \<Rightarrow> string \<Rightarrow> string \<Rightarrow> string" where
  "nameToSingular goType target mark =
     (let p = mark @ '' '' @ replaceAll ''[]*'' [] goType; l = length p in
      if length target \<le> l then target
      else if take l target = p then toSingular p @ '' '' @ drop l target else target)"

definition convertToSingular :: "string \<times> string \<times> string \<Rightarrow> string \<times> string \<times> string" where
  "convertToSingular = (\<lambda>(t, ob, p).
     if \<not> strContains t ''[]*'' \<or> ob = [] then (t, ob, p)
     else (toSingular t, nameToSingular t ob ''type'', nameToSingular t p ''message''))"

definition parseArray :: "string \<times> string \<times> string \<Rightarrow> string \<times> string \<times> string" where
  "parseArray = (\<lambda>(t, ob, p). if ob \<noteq> [] then (''[]'' @ t, ob, p) else (''[]'' @ t, [], []))"

definition objectFields :: "mgoEnv \<Rightarrow> string \<Rightarrow> (string \<times> string) list \<Rightarrow> string" where
  "objectFields e name kts =
     concat (map (\<lambda>(k, t). ''    '' @ meCamel e k @ '' '' @ t @ '' '' @ bq @ ''bson:'' @ dquote @ k @ dquote @ '' json:'' @ dquote @
       (if meJsonTagFormat e = 0 then meSnake e k else toLowerFirst (meCamel e k)) @ dquote @ bq @ NL) kts)"

fun protoFields :: "string \<Rightarrow> nat \<Rightarrow> (string \<times> string) list \<Rightarrow> string" where
  "protoFields name n [] = []"
| "protoFields name n ((k, t) # kts) =
     ''  '' @ convertToProtoFieldType name t @ '' '' @ k @ '' = '' @ dec (Suc n) @ '';'' @ NL @ protoFields name (Suc n) kts"

definition parseObject :: "mgoEnv \<Rightarrow> string \<Rightarrow> (string \<times> string) list \<Rightarrow> string \<times> string \<times> string" where
  "parseObject e name kts =
     (''*'' @ meCamel e name,
      ''type '' @ meCamel e name @ '' struct {'' @ NL @ objectFields e name kts @ ''}'' @ NL,
      ''message '' @ meCamel e name @ '' {'' @ NL @ protoFields name 0 kts @ ''}'' @ NL)"

fun getTypeFromMgo :: "mgoEnv \<Rightarrow> string \<Rightarrow> bson \<Rightarrow> string \<times> string \<times> string" where
  "getTypeFromMgo e name (Doc es) = parseObject e name (map (\<lambda>(k, v). (k, fst (getTypeFromMgo e name v))) es)"
| "getTypeFromMgo e name (Arr []) = (''interface{}'', [], [])"
| "getTypeFromMgo e name (Arr ((k, v) # es)) = convertToSingular (parseArray (getTypeFromMgo e name v))"
| "getTypeFromMgo e name (Scalar b) = (case mgoTypeToGo b of Some t \<Rightarrow> (t, [], []) | None \<Rightarrow> (''interface{}'', [], []))"
| "getTypeFromMgo e name Corrupt = (''interface{}'', [], [])"

record MgoField =
  mfName :: string
  mfType :: string
  mfObjectStr :: string
  mfProtoObjectStr :: string

definition embedTimeField :: "string list \<Rightarrow> MgoField list \<Rightarrow> MgoField list" where
  "embedTimeField names fs =
     fs @ (if ''created_at'' \<in> set names \<or> ''createdAt'' \<in> set names then []
           else [\<lparr>mfName = ''created_at'', mfType = ''time.Time'', mfObjectStr = [], mfProtoObjectStr = []\<rparr>])
        @ (if ''updated_at'' \<in> set names \<or> ''updatedAt'' \<in> set names then []
           else [\<lparr>mfName = ''updated_at'', mfType = ''time.Time'', mfObjectStr = [], mfProtoObjectStr = []\<rparr>])"

definition getMongodbTableFields :: "mgoEnv \<Rightarrow> (string \<times> bson) list \<Rightarrow> MgoField list" where
  "getMongodbTableFields e elements =
     (let es = filter (\<lambda>(k, v). k \<noteq> ''deleted_at'') elements in
      embedTimeField (map fst es)
        (map (\<lambda>(k, v). let (t, ob, p) = getTypeFromMgo e k v in \<lparr>mfName = k, mfType = t, mfObjectStr = ob, mfProtoObjectStr = p\<rparr>) es))"

definition convertMongoToMysqlType :: "string \<Rightarrow> string" where
  "convertMongoToMysqlType g =
     (if g = ''int'' then ''int'' else if g = ''int64'' then ''bigint'' else if g = ''float64'' then ''double''
      else if g = ''string'' then ''varchar(255)'' else if g = ''time.Time'' then ''timestamp'' else if g = ''bool'' then ''bit(1)''
      else ''json'')"

definition opaqueType :: "string \<Rightarrow> bool" where
  "opaqueType t \<longleftrightarrow> t \<in> {''interface{}'', ''[]interface{}''}"

definition mgoTypeMap :: "mgoEnv \<Rightarrow> (string \<Rightarrow> string option) \<Rightarrow> MgoField \<Rightarrow> (string \<Rightarrow> string option)" where
  "mgoTypeMap e m f =
     (let m1 = m(mfName f \<mapsto> (if opaqueType (mfType f) then meCamel e (mfName f) else mfType f)) in
      if mfName f = ''_id'' then m1(''id'' \<mapsto> mfType f) else m1)"

definition ConvertToSQLByMgoFields :: "mgoEnv \<Rightarrow> string \<Rightarrow> MgoField list \<Rightarrow> string \<times> (string \<Rightarrow> string option)" where
  "ConvertToSQLByMgoFields e tableName fs =
     (let cols = filter (\<lambda>f. mfName f \<noteq> ''_id'') fs;
          isHaveID = list_ex (\<lambda>f. mfName f = ''_id'') fs;
          fieldStr = trimSuffix (concat (map (\<lambda>f. ''    '' @ bq @ mfName f @ bq @ '' '' @ convertMongoToMysqlType (mfType f) @ '','' @ NL) cols)) ('','' @ NL);
          text1 = (if isHaveID then ''    '' @ bq @ ''id'' @ bq @ '' varchar(24),'' @ NL @ fieldStr @ '','' @ NL @ ''    PRIMARY KEY (id)'' else fieldStr);
          objs = filter (\<lambda>f. mfObjectStr f \<noteq> []) cols;
          m = foldl (mgoTypeMap e) (\<lambda>_. None) fs;
          m1 = (if objs \<noteq> [] then m(''_sub_struct_'' \<mapsto> joinWith NL (map mfObjectStr objs) @ NL,
                                     ''_proto_sub_struct_'' \<mapsto> joinWith NL (map mfProtoObjectStr objs) @ NL) else m)
      in (tableText tableName text1, m1))"

definition MgoFieldToGoStruct :: "mgoEnv \<Rightarrow> string \<Rightarrow> MgoField list \<Rightarrow> string" where
  "MgoFieldToGoStruct e name fs =
     (let line = (\<lambda>f. if mfName f = ''_id''
            then ''    ID primitive.ObjectID '' @ bq @ ''bson:'' @ dquote @ ''_id'' @ dquote @ '' json:'' @ dquote @ ''id'' @ dquote @ bq @ NL
            else ''    '' @ meCamel e (mfName f) @ '' '' @ (if opaqueType (mfType f) then meCamel e (mfName f) else mfType f) @ '' '' @ bq @
                 ''bson:'' @ dquote @ mfName f @ dquote @ '' json:'' @ dquote @ mfName f @ dquote @ bq @ NL);
          objs = concat (map (\<lambda>f. mfObjectStr f @ NL) (filter (\<lambda>f. mfName f \<noteq> ''_id'' \<and> mfObjectStr f \<noteq> []) fs))
      in ''type '' @ meCamel e name @ '' struct {'' @ NL @ concat (map line fs) @ ''}'' @ NL @ NL @ objs @ NL)"

section \<open>Properties\<close>

lemma concat_sep: "concat (map (\<lambda>x. x @ sep) (xs @ [y])) = joinWith sep (xs @ [y]) @ sep"
  by (induction xs) (auto simp: joinWith_Cons)

lemma joinWith_snoc: "joinWith sep (xs @ [y]) = concat (map (\<lambda>x. x @ sep) xs) @ y"
  by (induction xs) (auto simp: joinWith_Cons)

lemma joinWith_app: "xs \<noteq> [] \<Longrightarrow> joinWith sep (xs @ [y]) = joinWith sep xs @ sep @ y"
proof (induction xs)
  case (Cons x xs)
  then show ?case by (cases "xs = []") (simp_all add: joinWith_Cons)
qed simp

lemma trim_concat_sep:
  assumes "xs \<noteq> []"
  shows "trimSuffix (concat (map (\<lambda>x. x @ sep) xs)) sep = joinWith sep xs"
proof -
  obtain ys y where "xs = ys @ [y]" using assms rev_exhaust by blast
  then show ?thesis using concat_sep [of sep ys y] by (simp add: trimSuffix_def hasSuffix_iff)
qed

definition columnPart :: "string \<Rightarrow> string \<Rightarrow> bool \<Rightarrow> string \<Rightarrow> string" where
  "columnPart name tp notnull comment =
     ''    '' @ bq @ name @ bq @ '' '' @ tp @ '' '' @ (if notnull then ''not null'' else ''null'') @ '' comment '' @
     squote @ comment @ squote"

lemma columnLines:
  "concat (map (\<lambda>f. columnLine (n f) (t f) (b f) (c f)) fs) =
   concat (map (\<lambda>x. x @ '','' @ NL) (map (\<lambda>f. columnPart (n f) (t f) (b f) (c f)) fs))"
  by (induction fs) (simp_all add: columnLine_def columnPart_def)

text \<open>The parts between the parentheses, separated by commas.\<close>

definition ddl :: "string \<Rightarrow> string list \<Rightarrow> string \<Rightarrow> string" where
  "ddl tableName parts ending = tableText tableName (joinWith ('','' @ NL) parts @ ending)"

definition keyPart :: "string \<Rightarrow> string" where
  "keyPart name = ''    PRIMARY KEY ('' @ bq @ name @ bq @ '')''"

lemma withPrimary_lines:
  assumes "lines \<noteq> []"
  shows "withPrimary p (concat (map (\<lambda>x. x @ '','' @ NL) lines)) =
    (case p of Some k \<Rightarrow> joinWith ('','' @ NL) (lines @ [keyPart k]) @ NL | None \<Rightarrow> joinWith ('','' @ NL) lines)"
  using trim_concat_sep [OF assms, of "'','' @ NL"] joinWith_snoc [of "'','' @ NL" lines]
  by (simp add: withPrimary_def keyPart_def split: option.split)

definition mongoPart :: "MgoField \<Rightarrow> string" where
  "mongoPart f = ''    '' @ bq @ mfName f @ bq @ '' '' @ convertMongoToMysqlType (mfType f)"

lemma mongo_cols_ne:
  "filter (\<lambda>f. mfName f \<noteq> ''_id'') (getMongodbTableFields e es) = [] \<Longrightarrow> False"
proof -
  let ?es = "filter (\<lambda>(k, v). k \<noteq> ''deleted_at'') es"
  let ?f = "\<lambda>(k, v). let (t, ob, p) = getTypeFromMgo e k v in \<lparr>mfName = k, mfType = t, mfObjectStr = ob, mfProtoObjectStr = p\<rparr>"
  assume empty: "filter (\<lambda>f. mfName f \<noteq> ''_id'') (getMongodbTableFields e es) = []"
  have names: "mfName (?f x) = fst x" for x by (simp add: split_beta Let_def)
  have "k = ''_id''" if "k \<in> set (map fst ?es)" for k
  proof -
    from that obtain x where "x \<in> set ?es" "fst x = k" by auto
    then have "?f x \<in> set (getMongodbTableFields e es)"
      by (simp add: getMongodbTableFields_def embedTimeField_def Let_def)
    then show ?thesis using empty names [of x] \<open>fst x = k\<close> by (auto simp: filter_empty_conv)
  qed
  from this [of "''created_at''"] this [of "''createdAt''"]
  have "''created_at'' \<notin> set (map fst ?es)" "''createdAt'' \<notin> set (map fst ?es)" by auto
  then show False using empty
    by (simp add: getMongodbTableFields_def embedTimeField_def Let_def filter_empty_conv)
qed

text \<open>
  The statement made from the columns of a table or from a document lists its parts separated by
  commas, with none missing and none left over: every column in order and the primary key last. For
  SQLite and PostgreSQL the key is the first column that is a primary key or is called \<open>id\<close>; for MongoDB it
  is \<open>id\<close>, put first in place of \<open>_id\<close>.
\<close>
theorem ddl_parts:
  "(sfs \<noteq> [] \<longrightarrow> convertToSQLBySqliteFields t sfs =
      (let cols = map (\<lambda>f. columnPart (sqName f) (sqGetMysqlType f) (sqNotnull f \<noteq> 0) []) sfs in
       case sqGetPrimaryField sfs of Some k \<Rightarrow> ddl t (cols @ [keyPart (sqName k)]) NL | None \<Rightarrow> ddl t cols [])) \<and>
   (pfs \<noteq> [] \<longrightarrow> fst (ConvertToSQLByPgFields t pfs) =
      (let cols = map (\<lambda>f. columnPart (pgName f) (pgGetMysqlType f) (pgNotnull f)
                             (replaceByte (CHR 0x27) [CHR 0x5C, CHR 0x27] (pgComment f))) pfs in
       case pgGetPrimaryField pfs of Some k \<Rightarrow> ddl t (cols @ [keyPart (pgName k)]) NL | None \<Rightarrow> ddl t cols [])) \<and>
   (let fs = getMongodbTableFields e es; cols = map mongoPart (filter (\<lambda>f. mfName f \<noteq> ''_id'') fs) in
    fst (ConvertToSQLByMgoFields e t fs) =
      (if list_ex (\<lambda>f. mfName f = ''_id'') fs
       then ddl t ((''    '' @ bq @ ''id'' @ bq @ '' varchar(24)'') # cols @ [''    PRIMARY KEY (id)'']) [] else ddl t cols []))"
proof (intro conjI impI)
  assume "sfs \<noteq> []"
  then show "convertToSQLBySqliteFields t sfs =
      (let cols = map (\<lambda>f. columnPart (sqName f) (sqGetMysqlType f) (sqNotnull f \<noteq> 0) []) sfs in
       case sqGetPrimaryField sfs of Some k \<Rightarrow> ddl t (cols @ [keyPart (sqName k)]) NL | None \<Rightarrow> ddl t cols [])"
    unfolding convertToSQLBySqliteFields_def columnLines
    by (subst withPrimary_lines) (simp_all add: ddl_def Let_def split: option.split)
next
  assume "pfs \<noteq> []"
  then show "fst (ConvertToSQLByPgFields t pfs) =
      (let cols = map (\<lambda>f. columnPart (pgName f) (pgGetMysqlType f) (pgNotnull f)
                             (replaceByte (CHR 0x27) [CHR 0x5C, CHR 0x27] (pgComment f))) pfs in
       case pgGetPrimaryField pfs of Some k \<Rightarrow> ddl t (cols @ [keyPart (pgName k)]) NL | None \<Rightarrow> ddl t cols [])"
    unfolding ConvertToSQLByPgFields_def columnLines
    by (subst withPrimary_lines) (simp_all add: ddl_def Let_def split: option.split)
next
  let ?fs = "getMongodbTableFields e es"
  let ?cols = "map mongoPart (filter (\<lambda>f. mfName f \<noteq> ''_id'') ?fs)"
  have "?cols \<noteq> []" using mongo_cols_ne [of e es] by auto
  then have trim: "trimSuffix (concat (map (\<lambda>x. x @ '','' @ NL) ?cols)) ('','' @ NL) = joinWith ('','' @ NL) ?cols"
    by (rule trim_concat_sep)
  have "concat (map (\<lambda>f. ''    '' @ bq @ mfName f @ bq @ '' '' @ convertMongoToMysqlType (mfType f) @ '','' @ NL) fs) =
      concat (map (\<lambda>x. x @ '','' @ NL) (map mongoPart fs))" for fs
    by (induction fs) (simp_all add: mongoPart_def)
  then have tx: "fst (ConvertToSQLByMgoFields e t ?fs) = tableText t
      (if list_ex (\<lambda>f. mfName f = ''_id'') ?fs
       then ''    '' @ bq @ ''id'' @ bq @ '' varchar(24),'' @ NL @ joinWith ('','' @ NL) ?cols @ '','' @ NL @ ''    PRIMARY KEY (id)''
       else joinWith ('','' @ NL) ?cols)"
    unfolding ConvertToSQLByMgoFields_def Let_def fst_conv using trim by (simp only:)
  show "let fs = ?fs; cols = map mongoPart (filter (\<lambda>f. mfName f \<noteq> ''_id'') fs) in
    fst (ConvertToSQLByMgoFields e t fs) =
      (if list_ex (\<lambda>f. mfName f = ''_id'') fs
       then ddl t ((''    '' @ bq @ ''id'' @ bq @ '' varchar(24)'') # cols @ [''    PRIMARY KEY (id)'']) [] else ddl t cols [])"
    unfolding Let_def tx using \<open>?cols \<noteq> []\<close> by (simp add: ddl_def joinWith_Cons joinWith_app)
qed

definition demoSqlite :: "SqliteField list" where
  "demoSqlite = [\<lparr>sqName = ''id'', sqType = ''INTEGER'', sqNotnull = 1, sqPk = 1\<rparr>, \<lparr>sqName = ''name'', sqType = ''TEXT'', sqNotnull = 0, sqPk = 0\<rparr>]"

theorem ddl_parts_witness:
  "convertToSQLBySqliteFields ''t'' demoSqlite =
     ddl ''t'' [columnPart ''id'' ''INT'' True [], columnPart ''name'' ''TEXT'' False [], keyPart ''id''] NL"
proof -
  have t: "sqGetMysqlType (demoSqlite ! 0) = ''INT''" "sqGetMysqlType (demoSqlite ! 1) = ''TEXT''" by code_simp+
  show ?thesis
    using ddl_parts [of demoSqlite "''t''"] t by (simp add: demoSqlite_def sqGetPrimaryField_def Let_def)
qed

end
