(* ===== verification/Versions.thy ===== *)
theory Versions
  imports GoStrings
begin

text \<open>
  Version numbers (\<open>pkg/utils/version/version.go\<close>): parsing of semantic and of generic versions,
  printing, comparison and the choice of the highest supported version. The regular expressions of
  the source are written out as scanners. The locale \<open>three_way\<close> states what a client of a
  comparison relies on; it is interpreted on \<open>compareInternal\<close> for generic versions and for the
  semantic versions on which the code follows the precedence of the specification.
\<close>

section \<open>Data\<close>

record Version =
  components :: "64 word list"
  semver :: bool
  preRelease :: string
  buildMetadata :: string

datatype version_error =
    CouldNotParse string
  | IllegalVersion string
  | ZeroPrefixed string string
  | NonNumeric string string
  | BadExtra string string
  | EmptyVersions
  | NoHighest "string list" "version_error option"
  | NotV1 string

section \<open>Parsing\<close>

text \<open>
  The class \<open>\s\<close> of RE2, and \<open>C+(?:\.C+)*\<close> for a class \<open>C\<close>: the loop is greedy, and what follows it in
  both expressions can start neither with a byte of the class nor with a dot before one, so the
  longest match is the one taken.
\<close>

definition reSpace :: "char \<Rightarrow> bool" where
  "reSpace c \<longleftrightarrow> byte c \<in> {9, 10, 12, 13, 32}"

definition identByte :: "char \<Rightarrow> bool" where
  "identByte c \<longleftrightarrow> digit c \<or> (65 \<le> byte c \<and> byte c \<le> 90) \<or> (97 \<le> byte c \<and> byte c \<le> 122) \<or> c = CHR ''-''"

definition startsIn :: "(char \<Rightarrow> bool) \<Rightarrow> string \<Rightarrow> bool" where
  "startsIn P s = (case s of [] \<Rightarrow> False | c # _ \<Rightarrow> P c)"

fun dotted :: "(char \<Rightarrow> bool) \<Rightarrow> string \<Rightarrow> string \<times> string" where
  "dotted P [] = ([], [])"
| "dotted P (c # s) =
     (if P c \<or> (c = CHR ''.'' \<and> startsIn P s)
      then (case dotted P s of (u, r) \<Rightarrow> (c # u, r)) else ([], c # s))"

text \<open>\<open>versionMatchRE\<close>: the submatches, the numbers and the rest, which \<open>.\<close> keeps free of newlines.\<close>

definition versionMatch :: "string \<Rightarrow> (string \<times> string) option" where
  "versionMatch str =
     (let s0 = dropWhile reSpace str;
          s = (if startsIn ((=) CHR ''v'') s0 then tl s0 else s0)
      in if \<not> startsIn digit s then None
         else let (numbers, extra) = dotted digit s
              in if CHR 10 \<in> set extra then None else Some (numbers, extra))"

text \<open>\<open>extraMatchRE\<close>: an optional group after a marker, twice, then white space to the end.\<close>

definition optGroup :: "char \<Rightarrow> string \<Rightarrow> string \<times> string" where
  "optGroup m s = (if startsIn ((=) m) s \<and> startsIn identByte (tl s) then dotted identByte (tl s) else ([], s))"

definition extraMatch :: "string \<Rightarrow> (string \<times> string) option" where
  "extraMatch extra =
     (let (pre, s1) = optGroup (CHR ''-'') extra;
          (meta, s2) = optGroup (CHR ''+'') s1
      in if list_all reSpace s2 then Some (pre, meta) else None)"

definition zeroPrefixed :: "string \<Rightarrow> bool" where
  "zeroPrefixed part \<longleftrightarrow> hasPrefix part ''0'' \<and> part \<noteq> ''0''"

text \<open>The loop over the components; the flag is \<open>i == 0 || semver\<close>.\<close>

fun parseComponents :: "string \<Rightarrow> bool \<Rightarrow> bool \<Rightarrow> string list \<Rightarrow> (version_error, 64 word list) go" where
  "parseComponents str sem strict [] = Ok []"
| "parseComponents str sem strict (part # parts) =
     (if strict \<and> zeroPrefixed part then Err (ZeroPrefixed part str)
      else case parseUint part of
          None \<Rightarrow> Err (NonNumeric part str)
        | Some num \<Rightarrow> go_bind (parseComponents str sem sem parts) (\<lambda>ws. Ok (of_nat num # ws)))"

fun checkPreRelease :: "string \<Rightarrow> string list \<Rightarrow> (version_error, unit) go" where
  "checkPreRelease str [] = Ok ()"
| "checkPreRelease str (part # parts) =
     (if parseUint part \<noteq> None \<and> zeroPrefixed part then Err (ZeroPrefixed part str)
      else checkPreRelease str parts)"

definition parse :: "string \<Rightarrow> bool \<Rightarrow> (version_error, Version) go" where
  "parse str sem = (case versionMatch str of
       None \<Rightarrow> Err (CouldNotParse str)
     | Some (numbers, extra) \<Rightarrow>
         let parts = splitOn (CHR ''.'') numbers
         in if (sem \<and> length parts \<noteq> 3) \<or> (\<not> sem \<and> length parts < 2) then Err (IllegalVersion str)
            else go_bind (parseComponents str sem True parts) (\<lambda>ws.
              let v = \<lparr>components = ws, semver = sem, preRelease = [], buildMetadata = []\<rparr>
              in if sem \<and> extra \<noteq> [] then
                   (case extraMatch extra of
                      None \<Rightarrow> Err (BadExtra extra str)
                    | Some (pre, meta) \<Rightarrow>
                        go_bind (checkPreRelease str (splitOn (CHR ''.'') pre)) (\<lambda>_.
                          Ok (v\<lparr>preRelease := pre, buildMetadata := meta\<rparr>)))
                 else Ok v))"

definition ParseGeneric :: "string \<Rightarrow> (version_error, Version) go" where
  "ParseGeneric str = parse str False"

definition ParseSemantic :: "string \<Rightarrow> (version_error, Version) go" where
  "ParseSemantic str = parse str True"

definition mustParse :: "(version_error, Version) go \<Rightarrow> (version_error, Version) go" where
  "mustParse r = (case r of Err _ \<Rightarrow> Panic | _ \<Rightarrow> r)"

definition MustParseGeneric :: "string \<Rightarrow> (version_error, Version) go" where
  "MustParseGeneric str = mustParse (ParseGeneric str)"

definition MustParseSemantic :: "string \<Rightarrow> (version_error, Version) go" where
  "MustParseSemantic str = mustParse (ParseSemantic str)"

section \<open>Accessors and copies\<close>

definition MajorMinor :: "64 word \<Rightarrow> 64 word \<Rightarrow> Version" where
  "MajorMinor major minor = \<lparr>components = [major, minor], semver = False, preRelease = [], buildMetadata = []\<rparr>"

text \<open>\<open>components[i]\<close> panics out of range.\<close>

definition Major :: "Version \<Rightarrow> 64 word option" where
  "Major v = (if 0 < length (components v) then Some (components v ! 0) else None)"

definition Minor :: "Version \<Rightarrow> 64 word option" where
  "Minor v = (if 1 < length (components v) then Some (components v ! 1) else None)"

definition Patch :: "Version \<Rightarrow> 64 word" where
  "Patch v = (if length (components v) < 3 then 0 else components v ! 2)"

definition WithMajor :: "Version \<Rightarrow> 64 word \<Rightarrow> Version option" where
  "WithMajor v major = (case Minor v of None \<Rightarrow> None | Some minor \<Rightarrow>
     Some (v\<lparr>components := [major, minor, Patch v]\<rparr>))"

definition WithMinor :: "Version \<Rightarrow> 64 word \<Rightarrow> Version option" where
  "WithMinor v minor = (case Major v of None \<Rightarrow> None | Some major \<Rightarrow>
     Some (v\<lparr>components := [major, minor, Patch v]\<rparr>))"

definition WithPatch :: "Version \<Rightarrow> 64 word \<Rightarrow> Version option" where
  "WithPatch v patch = (case (Major v, Minor v) of (Some major, Some minor) \<Rightarrow>
     Some (v\<lparr>components := [major, minor, patch]\<rparr>) | _ \<Rightarrow> None)"

definition WithPreRelease :: "Version \<Rightarrow> string \<Rightarrow> Version option" where
  "WithPreRelease v pre = (case (Major v, Minor v) of (Some major, Some minor) \<Rightarrow>
     Some (v\<lparr>components := [major, minor, Patch v], preRelease := pre\<rparr>) | _ \<Rightarrow> None)"

definition WithBuildMetadata :: "Version \<Rightarrow> string \<Rightarrow> Version option" where
  "WithBuildMetadata v meta = (case (Major v, Minor v) of (Some major, Some minor) \<Rightarrow>
     Some (v\<lparr>components := [major, minor, Patch v], buildMetadata := meta\<rparr>) | _ \<Rightarrow> None)"

section \<open>Printing\<close>

definition numbersText :: "64 word list \<Rightarrow> string" where
  "numbersText ws = joinWith ''.'' (map (\<lambda>w. dec (unat w)) ws)"

definition VString :: "Version option \<Rightarrow> string" where
  "VString mv = (case mv of None \<Rightarrow> ''<nil>'' | Some v \<Rightarrow>
     numbersText (components v)
     @ (if preRelease v \<noteq> [] then CHR ''-'' # preRelease v else [])
     @ (if buildMetadata v \<noteq> [] then CHR ''+'' # buildMetadata v else []))"

section \<open>Comparison\<close>

text \<open>Go's \<open><\<close> on strings is bytewise and lexicographic.\<close>

fun strLess :: "string \<Rightarrow> string \<Rightarrow> bool" where
  "strLess s [] = False"
| "strLess [] (d # t) = True"
| "strLess (c # s) (d # t) = (byte c < byte d \<or> (c = d \<and> strLess s t))"

definition onlyZeros :: "64 word list \<Rightarrow> bool" where
  "onlyZeros ws = list_all (\<lambda>w. w = 0) ws"

text \<open>The loop over the common positions: \<open>None\<close> when it runs to its end.\<close>

fun compareComponents :: "64 word list \<Rightarrow> 64 word list \<Rightarrow> int option" where
  "compareComponents (a # v) (b # u) =
     (if b < a then Some 1 else if a < b then Some (-1) else compareComponents v u)"
| "compareComponents _ _ = None"

fun comparePreRelease :: "string list \<Rightarrow> string list \<Rightarrow> int option" where
  "comparePreRelease (a # v) (b # u) = (case (parseUint a, parseUint b) of
       (Some m, Some n) \<Rightarrow>
         if n < m then Some 1 else if m < n then Some (-1) else comparePreRelease v u
     | _ \<Rightarrow> if strLess b a then Some 1 else if strLess a b then Some (-1) else comparePreRelease v u)"
| "comparePreRelease _ _ = None"

definition comparePR :: "string list \<Rightarrow> string list \<Rightarrow> int" where
  "comparePR vPR oPR = (case comparePreRelease vPR oPR of
       Some r \<Rightarrow> r
     | None \<Rightarrow> if length oPR < length vPR then 1 else if length vPR < length oPR then -1 else 0)"

definition compareInternal :: "Version \<Rightarrow> Version \<Rightarrow> int" where
  "compareInternal v other =
     (let vLen = length (components v); oLen = length (components other) in
      case compareComponents (components v) (components other) of
        Some r \<Rightarrow> r
      | None \<Rightarrow>
          if oLen < vLen \<and> \<not> onlyZeros (drop oLen (components v)) then 1
          else if vLen < oLen \<and> \<not> onlyZeros (drop vLen (components other)) then -1
          else if \<not> semver v \<or> \<not> semver other then 0
          else if preRelease v = [] \<and> preRelease other \<noteq> [] then 1
          else if preRelease v \<noteq> [] \<and> preRelease other = [] then -1
          else if preRelease v = preRelease other then 0
          else comparePR (splitOn (CHR ''.'') (preRelease v)) (splitOn (CHR ''.'') (preRelease other)))"

definition AtLeast :: "Version \<Rightarrow> Version \<Rightarrow> bool" where
  "AtLeast v least = (compareInternal v least \<noteq> -1)"

definition LessThan :: "Version \<Rightarrow> Version \<Rightarrow> bool" where
  "LessThan v other = (compareInternal v other = -1)"

definition Compare :: "Version \<Rightarrow> string \<Rightarrow> (version_error, int) go" where
  "Compare v other = go_bind (parse other (semver v)) (\<lambda>ov. Ok (compareInternal v ov))"

section \<open>The highest supported version\<close>

text \<open>The loop over the entries from the last one, with \<open>highestSupportedVersion\<close> and \<open>theErr\<close>.\<close>

fun highestLoop :: "string list \<Rightarrow> Version option \<Rightarrow> version_error option
    \<Rightarrow> (version_error, Version option \<times> version_error option) go" where
  "highestLoop [] highest theErr = Ok (highest, theErr)"
| "highestLoop (s # ss) highest theErr = (case ParseGeneric s of
       Panic \<Rightarrow> Panic
     | Err e \<Rightarrow> highestLoop ss highest (Some e)
     | Ok cur \<Rightarrow> (case Major cur of
           None \<Rightarrow> Panic
         | Some major \<Rightarrow>
             if 1 < major then highestLoop ss highest theErr
             else (case highest of
                 None \<Rightarrow> highestLoop ss (Some cur) theErr
               | Some h \<Rightarrow> highestLoop ss (Some (if LessThan h cur then cur else h)) theErr)))"

definition HighestSupportedVersion :: "string list \<Rightarrow> (version_error, Version) go" where
  "HighestSupportedVersion versions =
     (if versions = [] then Err EmptyVersions
      else go_bind (highestLoop (rev versions) None None) (\<lambda>(highest, theErr).
        case highest of
          None \<Rightarrow> Err (NoHighest versions theErr)
        | Some h \<Rightarrow> (case Major h of
              None \<Rightarrow> Panic
            | Some major \<Rightarrow> if major \<noteq> 1 then Err (NotV1 (VString (Some h))) else Ok h)))"

section \<open>Printing and parsing\<close>

lemma startsIn_simps [simp]:
  "\<not> startsIn P []" "startsIn P (c # s) \<longleftrightarrow> P c"
  by (simp_all add: startsIn_def)

lemma startsIn_append [simp]: "startsIn P (s @ t) \<longleftrightarrow> (if s = [] then startsIn P t else startsIn P s)"
  by (cases s) simp_all

lemma dotted_append: "dotted P s = (u, r) \<Longrightarrow> s = u @ r"
  by (induction s arbitrary: u r) (auto split: if_splits prod.splits)

lemma dotted_startsIn: "dotted P s = (u, r) \<Longrightarrow> startsIn P s \<Longrightarrow> u \<noteq> [] \<and> startsIn P u"
  by (cases s) (auto split: prod.splits)

lemma dotted_bytes: "dotted P s = (u, r) \<Longrightarrow> c \<in> set u \<Longrightarrow> P c \<or> c = CHR ''.''"
  by (induction s arbitrary: u r) (auto split: if_splits prod.splits)

definition stops :: "(char \<Rightarrow> bool) \<Rightarrow> string \<Rightarrow> bool" where
  "stops P r \<longleftrightarrow> \<not> startsIn P r \<and> \<not> startsIn ((=) (CHR ''.'')) r"

lemma dotted_stops [simp]: "stops P r \<Longrightarrow> dotted P r = ([], r)"
  by (cases r) (auto simp: stops_def)

lemma dotted_replace: "dotted P s = (u, r) \<Longrightarrow> stops P r' \<Longrightarrow> dotted P (u @ r') = (u, r')"
  by (induction s arbitrary: u r)
     (auto split: if_splits prod.splits dest: dotted_startsIn)

lemma dotted_run: "list_all P w \<Longrightarrow> dotted P (w @ s) = (case dotted P s of (u, r) \<Rightarrow> (w @ u, r))"
  by (induction w) (auto split: prod.splits)

lemma dec_digits: "list_all digit (dec n)"
  using all_digits_dec [of n] by (simp add: all_digits_def)

lemma startsIn_dec [simp]: "startsIn digit (dec n)"
  using dec_digits [of n] dec_ne [of n] by (cases "dec n") auto

lemma digit_dot [simp]: "\<not> digit (CHR ''.'')" "\<not> identByte (CHR ''.'')"
  by (simp_all add: digit_def identByte_def)

lemma dec_no_dot: "CHR ''.'' \<notin> set (dec n)"
  using dec_digits [of n] digit_dot(1) by (auto simp: list_all_iff)

lemma numbersText_simps:
  "numbersText [w] = dec (unat w)"
  "ws \<noteq> [] \<Longrightarrow> numbersText (w # ws) = dec (unat w) @ CHR ''.'' # numbersText ws"
  by (simp_all add: numbersText_def joinWith_Cons)

lemma numbersText_starts: "ws \<noteq> [] \<Longrightarrow> numbersText ws \<noteq> [] \<and> startsIn digit (numbersText ws)"
  by (cases ws; cases "tl ws") (auto simp: numbersText_simps)

lemma dotted_numbersText:
  "ws \<noteq> [] \<Longrightarrow> stops digit r \<Longrightarrow> dotted digit (numbersText ws @ r) = (numbersText ws, r)"
proof (induction ws)
  case (Cons w ws)
  show ?case
  proof (cases "ws = []")
    case True
    with Cons.prems show ?thesis by (simp add: numbersText_simps dotted_run dec_digits)
  next
    case False
    with Cons numbersText_starts [of ws] show ?thesis
      by (simp add: numbersText_simps dotted_run dec_digits)
  qed
qed simp

lemma splitOn_numbersText:
  "ws \<noteq> [] \<Longrightarrow> splitOn (CHR ''.'') (numbersText ws) = map (\<lambda>w. dec (unat w)) ws"
  unfolding numbersText_def by (rule splitOn_joinWith) (auto simp: dec_no_dot)

lemma dec_zero: "startsIn ((=) (CHR ''0'')) (dec n) \<Longrightarrow> n = 0"
proof (induction n rule: dec.induct)
  case (1 n)
  show ?case
  proof (cases "n < 10")
    case True
    then have "CHR ''0'' = char_of (48 + n)" using 1(2) by (subst (asm) dec.simps) simp
    then have "byte (CHR ''0'') = byte (char_of (48 + n))" by (rule arg_cong)
    with True show ?thesis by simp
  next
    case False
    then have "startsIn ((=) (CHR ''0'')) (dec (n div 10))" using 1(2) by (subst (asm) dec.simps) simp
    with 1 False show ?thesis by simp
  qed
qed

lemma dec_0: "dec 0 = ''0''"
  by code_simp

lemma zeroPrefixed_dec [simp]: "\<not> zeroPrefixed (dec n)"
proof
  assume z: "zeroPrefixed (dec n)"
  then obtain t where t: "dec n = CHR ''0'' # t" by (auto simp: zeroPrefixed_def hasPrefix_iff)
  then have "n = 0" by (intro dec_zero) simp
  then show False using z by (simp add: zeroPrefixed_def dec_0)
qed

lemma unat_64: "unat (w :: 64 word) < 2 ^ 64"
  using unsigned_less [of w] by simp

lemma parseComponents_dec:
  "parseComponents str sem b (map (\<lambda>w. dec (unat w)) ws) = Ok ws"
  by (induction ws arbitrary: b) (simp_all add: parseUint_dec [OF unat_64])

lemma parseComponents_length: "parseComponents str sem b parts = Ok ws \<Longrightarrow> length ws = length parts"
  by (induction parts arbitrary: b ws) (auto simp: go_bind_conv split: if_splits option.splits)

lemma checkPreRelease_any: "checkPreRelease str parts = Ok () \<Longrightarrow> checkPreRelease str' parts = Ok ()"
  by (induction parts) (auto split: if_splits)

text \<open>The texts the optional groups accept: empty, or identifiers separated by dots.\<close>

definition dottedIdents :: "string \<Rightarrow> bool" where
  "dottedIdents s \<longleftrightarrow> s = [] \<or> startsIn identByte s \<and> dotted identByte s = (s, [])"

lemma optGroup_idents: "optGroup m s = (g, r) \<Longrightarrow> dottedIdents g"
  using dotted_replace [of identByte "tl s" g r "[]"] dotted_startsIn [of identByte "tl s" g r]
  by (auto simp: optGroup_def dottedIdents_def stops_def split: if_splits)

lemma optGroup_text:
  assumes "dottedIdents g" "stops identByte r" "\<not> startsIn ((=) m) r"
  shows "optGroup m ((if g \<noteq> [] then m # g else []) @ r) = (g, r)"
  using assms dotted_replace [of identByte g g "[]" r] by (auto simp: optGroup_def dottedIdents_def)

definition extraText :: "string \<Rightarrow> string \<Rightarrow> string" where
  "extraText pre meta = (if pre \<noteq> [] then CHR ''-'' # pre else []) @ (if meta \<noteq> [] then CHR ''+'' # meta else [])"

lemma VString_parts: "VString (Some v) = numbersText (components v) @ extraText (preRelease v) (buildMetadata v)"
  by (simp add: VString_def extraText_def)

lemma identByte_plus [simp]: "\<not> identByte (CHR ''+'')"
  by (simp add: identByte_def digit_def)

lemma extraMatch_text:
  assumes "dottedIdents pre" "dottedIdents meta"
  shows "extraMatch (extraText pre meta) = Some (pre, meta)"
proof -
  have "optGroup (CHR ''-'') (extraText pre meta) = (pre, if meta \<noteq> [] then CHR ''+'' # meta else [])"
    unfolding extraText_def by (rule optGroup_text) (auto simp: assms stops_def)
  moreover have "optGroup (CHR ''+'') ((if meta \<noteq> [] then CHR ''+'' # meta else []) @ []) = (meta, [])"
    by (rule optGroup_text) (auto simp: assms stops_def)
  ultimately show ?thesis by (simp add: extraMatch_def)
qed

lemma dottedIdents_bytes: "dottedIdents s \<Longrightarrow> c \<in> set s \<Longrightarrow> identByte c \<or> c = CHR ''.''"
  by (auto simp: dottedIdents_def dest: dotted_bytes)

lemma extraText_no_newline: "dottedIdents pre \<Longrightarrow> dottedIdents meta \<Longrightarrow> CHR 10 \<notin> set (extraText pre meta)"
  by (auto simp: extraText_def identByte_def digit_def dest: dottedIdents_bytes)

lemma versionMatch_text:
  assumes "ws \<noteq> []" "stops digit e" "CHR 10 \<notin> set e"
  shows "versionMatch (numbersText ws @ e) = Some (numbersText ws, e)"
proof -
  obtain c s where c: "numbersText ws = c # s" "digit c"
    using numbersText_starts [OF assms(1)] by (cases "numbersText ws") auto
  then have "\<not> reSpace c" "c \<noteq> CHR ''v''" by (auto simp: digit_def reSpace_def)
  with c assms dotted_numbersText [OF assms(1,2)] show ?thesis by (simp add: versionMatch_def)
qed

text \<open>The versions the parser can return.\<close>

definition wellFormed :: "Version \<Rightarrow> bool" where
  "wellFormed v \<longleftrightarrow>
     (if semver v
      then length (components v) = 3 \<and> dottedIdents (preRelease v) \<and> dottedIdents (buildMetadata v)
           \<and> checkPreRelease [] (splitOn (CHR ''.'') (preRelease v)) = Ok ()
      else 2 \<le> length (components v) \<and> preRelease v = [] \<and> buildMetadata v = [])"

lemma extraMatch_idents: "extraMatch e = Some (pre, meta) \<Longrightarrow> dottedIdents pre \<and> dottedIdents meta"
  by (auto simp: extraMatch_def dest: optGroup_idents split: prod.splits if_splits)

lemma dottedIdents_Nil [simp]: "dottedIdents []"
  by (simp add: dottedIdents_def)

lemma checkPreRelease_empty: "checkPreRelease str [[]] = Ok ()"
  by (simp add: parseUint_def all_digits_def)

lemma parse_ok:
  assumes "parse str sem = Ok v"
  obtains parts where "parseComponents str sem True parts = Ok (components v)"
    "if sem then length parts = 3 else 2 \<le> length parts" "semver v = sem"
    "preRelease v = [] \<and> buildMetadata v = []
     \<or> sem \<and> (\<exists>e. extraMatch e = Some (preRelease v, buildMetadata v))
        \<and> checkPreRelease str (splitOn (CHR ''.'') (preRelease v)) = Ok ()"
proof -
  from assms obtain numbers e ws where
    m: "versionMatch str = Some (numbers, e)" and
    c: "parseComponents str sem True (splitOn (CHR ''.'') numbers) = Ok ws" and
    l: "if sem then length (splitOn (CHR ''.'') numbers) = 3 else 2 \<le> length (splitOn (CHR ''.'') numbers)"
    by (auto simp: parse_def Let_def go_bind_conv split: option.splits if_splits)
  have v: "components v = ws \<and> semver v = sem \<and> (preRelease v = [] \<and> buildMetadata v = []
     \<or> sem \<and> (\<exists>e. extraMatch e = Some (preRelease v, buildMetadata v))
        \<and> checkPreRelease str (splitOn (CHR ''.'') (preRelease v)) = Ok ())"
    using assms m c by (auto simp: parse_def Let_def go_bind_conv split: option.splits if_splits)
  show ?thesis by (rule that) (use c l v in auto)
qed

lemma parse_wellFormed:
  assumes "parse str sem = Ok v"
  shows "wellFormed v \<and> semver v = sem"
proof -
  obtain parts where p: "parseComponents str sem True parts = Ok (components v)"
    "if sem then length parts = 3 else 2 \<le> length parts" "semver v = sem"
    "preRelease v = [] \<and> buildMetadata v = []
     \<or> sem \<and> (\<exists>e. extraMatch e = Some (preRelease v, buildMetadata v))
        \<and> checkPreRelease str (splitOn (CHR ''.'') (preRelease v)) = Ok ()"
    using parse_ok [OF assms] .
  from p(4) show ?thesis
  proof
    assume "preRelease v = [] \<and> buildMetadata v = []"
    with p(2,3) parseComponents_length [OF p(1)] show ?thesis
      by (simp add: wellFormed_def checkPreRelease_empty del: checkPreRelease.simps split: if_splits)
  next
    assume "sem \<and> (\<exists>e. extraMatch e = Some (preRelease v, buildMetadata v))
        \<and> checkPreRelease str (splitOn (CHR ''.'') (preRelease v)) = Ok ()"
    then show ?thesis
      using p(2,3) parseComponents_length [OF p(1)] extraMatch_idents checkPreRelease_any
      by (auto simp: wellFormed_def)
  qed
qed

lemma wellFormed_parse:
  assumes "wellFormed v"
  shows "parse (VString (Some v)) (semver v) = Ok v"
proof -
  let ?e = "extraText (preRelease v) (buildMetadata v)"
  have ids: "dottedIdents (preRelease v)" "dottedIdents (buildMetadata v)" and ws: "components v \<noteq> []"
    using assms by (auto simp: wellFormed_def split: if_splits)
  have stop: "stops digit ?e"
    by (auto simp: extraText_def stops_def digit_def)
  note m = versionMatch_text [OF ws stop extraText_no_newline [OF ids]]
  show ?thesis
  proof (cases "semver v")
    case True
    then have "length (components v) = 3"
      "checkPreRelease (VString (Some v)) (splitOn (CHR ''.'') (preRelease v)) = Ok ()"
      using assms by (auto simp: wellFormed_def intro: checkPreRelease_any)
    moreover have "?e = [] \<Longrightarrow> preRelease v = [] \<and> buildMetadata v = []"
      by (simp add: extraText_def split: if_splits)
    ultimately show ?thesis
      using True m ws extraMatch_text [OF ids]
      by (auto simp: parse_def VString_parts splitOn_numbersText parseComponents_dec Let_def)
  next
    case False
    with assms m ws show ?thesis
      by (simp add: parse_def VString_parts splitOn_numbersText parseComponents_dec wellFormed_def Let_def)
  qed
qed

lemmas with_defs = WithMajor_def WithMinor_def WithPatch_def

lemma with_wellFormed:
  assumes "wellFormed v"
    and "WithMajor v n = Some w \<or> WithMinor v n = Some w \<or> WithPatch v n = Some w"
  shows "wellFormed w \<and> semver w = semver v"
  using assms by (auto simp: wellFormed_def with_defs split: option.splits)

text \<open>
  C23: Printing and parsing are inverse on everything the parser returns. A string parses to \<open>v\<close>
  only when \<open>v\<close> is well-formed (three components and identifiers separated by dots for a semantic
  version, at least two components and nothing else for a generic one), and then the text that
  \<open>String\<close> prints parses, in the same mode, to \<open>v\<close> again. The copies made by \<open>WithMajor\<close>,
  \<open>WithMinor\<close> and \<open>WithPatch\<close> do not panic on such a version and round-trip too.
\<close>

theorem version_round_trip:
  assumes "parse str sem = Ok v"
  shows "wellFormed v \<and> parse (VString (Some v)) sem = Ok v
    \<and> (\<exists>w. WithMajor v n = Some w \<and> parse (VString (Some w)) sem = Ok w)
    \<and> (\<exists>w. WithMinor v n = Some w \<and> parse (VString (Some w)) sem = Ok w)
    \<and> (\<exists>w. WithPatch v n = Some w \<and> parse (VString (Some w)) sem = Ok w)"
proof -
  from parse_wellFormed [OF assms] have wf: "wellFormed v" and sem: "semver v = sem" by auto
  have again: "wellFormed w \<and> semver w = semver v \<Longrightarrow> parse (VString (Some w)) sem = Ok w" for w
    using wellFormed_parse [of w] sem by simp
  have "Major v \<noteq> None" "Minor v \<noteq> None"
    using wf by (auto simp: wellFormed_def Major_def Minor_def split: if_splits)
  then obtain a b c where w: "WithMajor v n = Some a" "WithMinor v n = Some b" "WithPatch v n = Some c"
    by (auto simp: with_defs)
  with with_wellFormed [OF wf] have "parse (VString (Some a)) sem = Ok a"
    "parse (VString (Some b)) sem = Ok b" "parse (VString (Some c)) sem = Ok c"
    by (meson again)+
  with w wf again [of v] show ?thesis by simp
qed

theorem version_round_trip_witness:
  "parse '' v1.20.3-alpha.1-2+exp.00 '' True
     = Ok \<lparr>components = [1, 20, 3], semver = True, preRelease = ''alpha.1-2'', buildMetadata = ''exp.00''\<rparr>
   \<and> parse (VString (Some \<lparr>components = [1, 20, 3], semver = True, preRelease = ''alpha.1-2'',
         buildMetadata = ''exp.00''\<rparr>)) True
     = Ok \<lparr>components = [1, 20, 3], semver = True, preRelease = ''alpha.1-2'', buildMetadata = ''exp.00''\<rparr>"
proof -
  have p: "parse '' v1.20.3-alpha.1-2+exp.00 '' True
     = Ok \<lparr>components = [1, 20, 3], semver = True, preRelease = ''alpha.1-2'', buildMetadata = ''exp.00''\<rparr>"
    by code_simp
  from version_round_trip [OF p] p show ?thesis by blast
qed

section \<open>Comparisons\<close>

text \<open>
  What the callers of a comparison rely on, on the values of a carrier: swapping the arguments
  negates the result and \<open>at most\<close> is transitive.
\<close>

locale three_way =
  fixes ok :: "'a \<Rightarrow> bool" and cmp :: "'a \<Rightarrow> 'a \<Rightarrow> int"
  assumes flip: "ok a \<Longrightarrow> ok b \<Longrightarrow> cmp b a = - cmp a b"
    and trans_le: "ok a \<Longrightarrow> ok b \<Longrightarrow> ok c \<Longrightarrow> cmp a b \<le> 0 \<Longrightarrow> cmp b c \<le> 0 \<Longrightarrow> cmp a c \<le> 0"
begin

lemma refl: "ok a \<Longrightarrow> cmp a a = 0"
  using flip [of a a] by simp

lemma total: "ok a \<Longrightarrow> ok b \<Longrightarrow> cmp a b \<le> 0 \<or> cmp b a \<le> 0"
  using flip [of a b] by linarith

lemma trans_less: "ok a \<Longrightarrow> ok b \<Longrightarrow> ok c \<Longrightarrow> cmp a b \<le> 0 \<Longrightarrow> cmp b c < 0 \<Longrightarrow> cmp a c < 0"
  using trans_le [of c a b] flip [of a c] flip [of b c] flip [of a b] by linarith

lemma less_trans: "ok a \<Longrightarrow> ok b \<Longrightarrow> ok c \<Longrightarrow> cmp a b < 0 \<Longrightarrow> cmp b c \<le> 0 \<Longrightarrow> cmp a c < 0"
  using trans_le [of b c a] flip [of a c] flip [of b c] flip [of a b] by linarith

lemma no_cycle: "ok a \<Longrightarrow> ok b \<Longrightarrow> ok c \<Longrightarrow> cmp a b < 0 \<Longrightarrow> cmp b c < 0 \<Longrightarrow> \<not> cmp c a < 0"
  using less_trans [of a b c] flip [of a c] by linarith

text \<open>Keeping the larger of two values while running through a list ends in a maximum.\<close>

definition larger :: "'a \<Rightarrow> 'a \<Rightarrow> 'a" where
  "larger h x = (if cmp h x < 0 then x else h)"

lemma foldl_larger:
  "ok h \<Longrightarrow> list_all ok xs
   \<Longrightarrow> foldl larger h xs \<in> insert h (set xs) \<and> (\<forall>x \<in> insert h (set xs). cmp x (foldl larger h xs) \<le> 0)"
proof (induction xs arbitrary: h)
  case (Cons x xs)
  let ?h = "larger h x" and ?m = "foldl larger (larger h x) xs"
  have ok: "ok h" "ok x" "list_all ok xs" "ok ?h"
    using Cons.prems by (auto simp: larger_def)
  have m: "?m \<in> insert ?h (set xs)" "\<forall>y \<in> insert ?h (set xs). cmp y ?m \<le> 0"
    using Cons.IH [OF ok(4,3)] by auto
  then have okm: "ok ?m" using ok by (auto simp: list_all_iff)
  have hx: "cmp h ?h \<le> 0" "cmp x ?h \<le> 0"
    using refl [OF ok(1)] refl [OF ok(2)] flip [OF ok(1,2)] by (auto simp: larger_def)
  have "cmp ?h ?m \<le> 0" using m(2) by simp
  then have "cmp h ?m \<le> 0" "cmp x ?m \<le> 0"
    using trans_le [OF ok(1,4) okm hx(1)] trans_le [OF ok(2,4) okm hx(2)] by auto
  moreover have "?m \<in> insert h (set (x # xs))"
    using m(1) by (auto simp: larger_def split: if_splits)
  ultimately show ?case using m(2) by simp
qed (simp add: refl)

end

text \<open>Comparisons by a key, by two criteria, and of lists.\<close>

lemma three_way_key: "three_way ok cmp \<Longrightarrow> three_way (\<lambda>x. ok (f x)) (\<lambda>x y. cmp (f x) (f y))"
  unfolding three_way_def by blast

lemma three_way_weaken: "three_way ok cmp \<Longrightarrow> (\<And>x. ok' x \<Longrightarrow> ok x) \<Longrightarrow> three_way ok' cmp"
  unfolding three_way_def by blast

definition thenBy :: "('a \<Rightarrow> 'a \<Rightarrow> int) \<Rightarrow> ('a \<Rightarrow> 'a \<Rightarrow> int) \<Rightarrow> 'a \<Rightarrow> 'a \<Rightarrow> int" where
  "thenBy c d x y = (if c x y \<noteq> 0 then c x y else d x y)"

lemma three_way_thenBy:
  assumes c: "three_way ok c" and d: "three_way ok d"
  shows "three_way ok (thenBy c d)"
proof
  fix x y z assume ok: "ok x" "ok y" "ok z"
  note f = three_way.flip [OF c ok(1,2)] three_way.flip [OF d ok(1,2)]
  show "thenBy c d y x = - thenBy c d x y" using f by (simp add: thenBy_def)
  assume le: "thenBy c d x y \<le> 0" "thenBy c d y z \<le> 0"
  have "c x y \<le> 0" "c y z \<le> 0" using le by (auto simp: thenBy_def split: if_splits)
  moreover have "d x z \<le> 0" if "c x y = 0" "c y z = 0"
    using le that three_way.trans_le [OF d ok] by (simp add: thenBy_def)
  ultimately show "thenBy c d x z \<le> 0"
    using three_way.trans_le [OF c ok] three_way.less_trans [OF c ok] three_way.trans_less [OF c ok]
    by (auto simp: thenBy_def) (metis less_le)
qed

definition ordCmp :: "'a::linorder \<Rightarrow> 'a \<Rightarrow> int" where
  "ordCmp x y = (if y < x then 1 else if x < y then -1 else 0)"

lemma three_way_ordCmp: "three_way (\<lambda>_. True) ordCmp"
  by unfold_locales (auto simp: ordCmp_def split: if_splits)

fun lexCmp :: "('a \<Rightarrow> 'a \<Rightarrow> int) \<Rightarrow> 'a list \<Rightarrow> 'a list \<Rightarrow> int" where
  "lexCmp c [] [] = 0"
| "lexCmp c [] (y # ys) = -1"
| "lexCmp c (x # xs) [] = 1"
| "lexCmp c (x # xs) (y # ys) = (if c x y \<noteq> 0 then c x y else lexCmp c xs ys)"

lemma three_way_lexCmp:
  assumes c: "three_way ok c"
  shows "three_way (list_all ok) (lexCmp c)"
proof
  show "lexCmp c ys xs = - lexCmp c xs ys" if "list_all ok xs" "list_all ok ys" for xs ys
    using that
  proof (induction xs ys rule: list_induct2')
    case (4 x xs y ys)
    with three_way.flip [OF c, of x y] show ?case by auto
  qed auto
next
  fix xs ys zs
  assume "list_all ok xs" "list_all ok ys" "list_all ok zs" "lexCmp c xs ys \<le> 0" "lexCmp c ys zs \<le> 0"
  then show "lexCmp c xs zs \<le> 0"
  proof (induction xs ys arbitrary: zs rule: list_induct2')
    case (3 y ys)
    then show ?case by (cases zs) auto
  next
    case (4 x xs y ys)
    then obtain z zs' where z: "zs = z # zs'" by (cases zs) auto
    with 4 have ok: "ok x" "ok y" "ok z" and le: "c x y \<le> 0" "c y z \<le> 0"
      by (auto split: if_splits)
    have "lexCmp c xs zs' \<le> 0" if "c x y = 0" "c y z = 0"
      using 4 z that by simp
    then show ?case
      using z le three_way.trans_le [OF c ok] three_way.less_trans [OF c ok] three_way.trans_less [OF c ok]
      by (auto simp: order_le_less)
  qed auto
qed

text \<open>
  The loop of \<open>compareInternal\<close> over the components, with its test of the remaining ones, compares
  the components as if the shorter list were extended with zeros.
\<close>

fun padCmp :: "64 word list \<Rightarrow> 64 word list \<Rightarrow> int" where
  "padCmp [] [] = 0"
| "padCmp (x # xs) [] = (if x \<noteq> 0 then 1 else padCmp xs [])"
| "padCmp [] (y # ys) = (if y \<noteq> 0 then -1 else padCmp [] ys)"
| "padCmp (x # xs) (y # ys) = (if ordCmp x y \<noteq> 0 then ordCmp x y else padCmp xs ys)"

lemma padCmp_zeros:
  "padCmp xs [] = (if onlyZeros xs then 0 else 1)" "padCmp [] xs = (if onlyZeros xs then 0 else -1)"
  by (induction xs) (simp_all add: onlyZeros_def)

lemma compareComponents_pad:
  "(case compareComponents xs ys of Some r \<Rightarrow> r
    | None \<Rightarrow> if length ys < length xs \<and> \<not> onlyZeros (drop (length ys) xs) then 1
              else if length xs < length ys \<and> \<not> onlyZeros (drop (length xs) ys) then -1 else d)
   = (if padCmp xs ys \<noteq> 0 then padCmp xs ys else d)"
proof (induction xs ys rule: list_induct2')
  case (2 x xs)
  then show ?case by (simp only: padCmp_zeros) (simp add: onlyZeros_def)
next
  case (3 y ys)
  then show ?case by (simp only: padCmp_zeros) (simp add: onlyZeros_def)
next
  case (4 x xs y ys)
  then show ?case by (cases x y rule: linorder_cases; cases "compareComponents xs ys")
     (auto simp: ordCmp_def split: if_splits)
qed simp

lemma padCmp_lexCmp: "length xs = length ys \<Longrightarrow> padCmp xs ys = lexCmp ordCmp xs ys"
  by (induction xs ys rule: list_induct2) auto

lemma padCmp_flip: "padCmp ys xs = - padCmp xs ys"
  by (induction xs ys rule: padCmp.induct) (auto simp: ordCmp_def)

lemma padCmp_trans: "padCmp xs ys \<le> 0 \<Longrightarrow> padCmp ys zs \<le> 0 \<Longrightarrow> padCmp xs zs \<le> 0"
proof (induction xs ys arbitrary: zs rule: padCmp.induct)
  case (4 x xs y ys)
  then show ?case by (cases zs) (auto simp: ordCmp_def word_gt_0 split: if_splits)
next
  case (3 y ys)
  then show ?case by (cases zs) (auto simp: ordCmp_def word_gt_0 split: if_splits)
next
  case (2 x xs)
  then show ?case by (cases zs) (auto simp: ordCmp_def word_gt_0 split: if_splits)
qed

lemma three_way_padCmp: "three_way (\<lambda>_. True) padCmp"
  using padCmp_flip padCmp_trans by unfold_locales blast+

text \<open>The comparison of pre-releases is lexicographic in the comparison of two identifiers.\<close>

definition strCmp :: "string \<Rightarrow> string \<Rightarrow> int" where
  "strCmp s t = (if strLess t s then 1 else if strLess s t then -1 else 0)"

lemma strCmp_lexCmp: "strCmp s t = lexCmp (\<lambda>c d. ordCmp (byte c) (byte d)) s t"
proof (induction s t rule: list_induct2')
  case (4 c s d t)
  then show ?case by (cases "byte c" "byte d" rule: linorder_cases) (auto simp: strCmp_def ordCmp_def)
qed (simp_all add: strCmp_def)

lemma three_way_strCmp: "three_way (\<lambda>_. True) strCmp"
proof -
  have "three_way (\<lambda>_. True) (lexCmp (\<lambda>c d. ordCmp (byte c) (byte d)))"
    by (rule three_way_weaken [OF three_way_lexCmp [OF three_way_key [OF three_way_ordCmp]]])
       (simp add: list_all_iff)
  then show ?thesis by (simp add: strCmp_lexCmp [abs_def])
qed

definition identCmp :: "string \<Rightarrow> string \<Rightarrow> int" where
  "identCmp a b = (case (parseUint a, parseUint b) of
       (Some m, Some n) \<Rightarrow> ordCmp m n | _ \<Rightarrow> strCmp a b)"

lemma comparePreRelease_step:
  "comparePreRelease (a # vs) (b # us)
   = (if identCmp a b \<noteq> 0 then Some (identCmp a b) else comparePreRelease vs us)"
  by (simp add: identCmp_def ordCmp_def strCmp_def split: option.splits)

lemma comparePR_step:
  "comparePR (a # vs) (b # us) = (if identCmp a b \<noteq> 0 then identCmp a b else comparePR vs us)"
  unfolding comparePR_def comparePreRelease_step by (simp split: option.split)

lemma comparePR_lexCmp: "comparePR vs us = lexCmp identCmp vs us"
proof (induction vs us rule: list_induct2')
  case (4 a vs b us)
  then show ?case by (simp add: comparePR_step)
qed (simp_all add: comparePR_def)

section \<open>Precedence of semantic versions\<close>

text \<open>
  The precedence that the Semantic Versioning specification defines: the components numerically; a
  version with a pre-release below the one without; then the identifiers from the left, numbers
  by value, other identifiers as ASCII strings, numbers below other identifiers, and fewer
  identifiers below more.
\<close>

definition identPrec :: "string \<Rightarrow> string \<Rightarrow> int" where
  "identPrec a b =
     (if all_digits a \<and> all_digits b then ordCmp (digits_val a) (digits_val b)
      else if all_digits a then -1
      else if all_digits b then 1
      else strCmp a b)"

definition precedence :: "Version \<Rightarrow> Version \<Rightarrow> int" where
  "precedence v u =
     thenBy (\<lambda>v u. lexCmp ordCmp (components v) (components u))
       (thenBy (\<lambda>v u. ordCmp (of_bool (preRelease v = []) :: nat) (of_bool (preRelease u = [])))
         (\<lambda>v u. lexCmp identPrec (splitOn (CHR ''.'') (preRelease v)) (splitOn (CHR ''.'') (preRelease u)))) v u"

lemma three_way_identPrec: "three_way (\<lambda>_. True) identPrec"
proof -
  let ?n = "\<lambda>a. of_bool (\<not> all_digits a) :: nat"
  let ?v = "\<lambda>a. if all_digits a then digits_val a else 0"
  let ?t = "\<lambda>a. if all_digits a then [] else a"
  have eq: "identPrec = thenBy (\<lambda>a b. ordCmp (?n a) (?n b))
    (thenBy (\<lambda>a b. ordCmp (?v a) (?v b)) (\<lambda>a b. strCmp (?t a) (?t b)))"
    by (intro ext) (simp add: identPrec_def thenBy_def ordCmp_def strCmp_def)
  show ?thesis unfolding eq
    by (intro three_way_thenBy three_way_key [OF three_way_ordCmp] three_way_key [OF three_way_strCmp])
qed

lemma three_way_precedence: "three_way (\<lambda>_. True) precedence"
proof -
  have lex: "three_way (\<lambda>_. True) (\<lambda>v u. lexCmp c (f v) (f u))" if "three_way (\<lambda>_. True) c" for c f
    by (rule three_way_weaken [OF three_way_key [OF three_way_lexCmp [OF that]]]) (simp add: list_all_iff)
  show ?thesis
    unfolding precedence_def [abs_def]
    by (intro three_way_thenBy lex three_way_ordCmp three_way_identPrec
        three_way_key [OF three_way_ordCmp])
qed

lemma compareInternal_pad:
  "compareInternal v u =
     (if padCmp (components v) (components u) \<noteq> 0 then padCmp (components v) (components u)
      else if \<not> semver v \<or> \<not> semver u then 0
      else if preRelease v = [] \<and> preRelease u \<noteq> [] then 1
      else if preRelease v \<noteq> [] \<and> preRelease u = [] then -1
      else if preRelease v = preRelease u then 0
      else lexCmp identCmp (splitOn (CHR ''.'') (preRelease v)) (splitOn (CHR ''.'') (preRelease u)))"
  unfolding compareInternal_def Let_def compareComponents_pad comparePR_lexCmp ..

lemma lexCmp_range: "(\<And>x y. c x y \<in> {-1, 0, 1}) \<Longrightarrow> lexCmp c xs ys \<in> {-1, 0, 1}"
  by (induction xs ys rule: list_induct2') auto

lemma compareInternal_range: "compareInternal v u \<in> {-1, 0, 1}"
proof -
  have "identCmp x y \<in> {-1, 0, 1}" for x y
    by (auto simp: identCmp_def ordCmp_def strCmp_def split: option.splits)
  then have lex: "lexCmp identCmp (splitOn (CHR ''.'') (preRelease v)) (splitOn (CHR ''.'') (preRelease u))
      \<in> {-1, 0, 1}" by (rule lexCmp_range)
  have pad: "padCmp xs ys \<in> {-1, 0, 1}" for xs ys
    by (induction xs ys rule: padCmp.induct) (auto simp: ordCmp_def)
  from lex pad [of "components v" "components u"] show ?thesis unfolding compareInternal_pad by (simp only: split: if_split) simp
qed

lemma LessThan_iff: "LessThan v u \<longleftrightarrow> compareInternal v u < 0"
  and AtLeast_iff: "AtLeast v u \<longleftrightarrow> 0 \<le> compareInternal v u"
  using compareInternal_range [of v u] by (auto simp: LessThan_def AtLeast_def)

text \<open>Generic versions, compared by their components alone.\<close>

lemma compareInternal_generic: "\<not> semver v \<Longrightarrow> compareInternal v u = padCmp (components v) (components u)"
  by (simp add: compareInternal_pad)

interpretation generic: three_way "\<lambda>v. \<not> semver v" compareInternal
proof
  fix a b c :: Version assume ok: "\<not> semver a" "\<not> semver b" "\<not> semver c"
  show "compareInternal b a = - compareInternal a b"
    unfolding compareInternal_generic [OF ok(1)] compareInternal_generic [OF ok(2)] by (rule padCmp_flip)
  show "compareInternal a b \<le> 0 \<Longrightarrow> compareInternal b c \<le> 0 \<Longrightarrow> compareInternal a c \<le> 0"
    unfolding compareInternal_generic [OF ok(1)] compareInternal_generic [OF ok(2)] by (rule padCmp_trans)
qed

text \<open>
  The semantic versions on which the code follows the specification: an identifier of the
  pre-release is a number of 64 bits or starts with a letter.
\<close>

definition plainIdent :: "string \<Rightarrow> bool" where
  "plainIdent a \<longleftrightarrow> parseUint a \<noteq> None \<or> startsIn (\<lambda>c. 65 \<le> byte c) a"

definition plainSemver :: "Version \<Rightarrow> bool" where
  "plainSemver v \<longleftrightarrow> semver v \<and> wellFormed v
     \<and> (preRelease v = [] \<or> list_all plainIdent (splitOn (CHR ''.'') (preRelease v)))"

lemma digits_below_letter:
  "all_digits a \<Longrightarrow> startsIn (\<lambda>c. 65 \<le> byte c) b \<Longrightarrow> \<not> all_digits b \<and> strLess a b \<and> \<not> strLess b a"
  by (cases a; cases b) (auto simp: all_digits_def digit_def)

lemma identCmp_plain:
  assumes "plainIdent a" "plainIdent b"
  shows "identCmp a b = identPrec a b"
proof (cases "all_digits a"; cases "all_digits b")
  assume "all_digits a" "all_digits b"
  then show ?thesis
    using assms digits_below_letter by (auto simp: identCmp_def identPrec_def plainIdent_def parseUint_def)
next
  assume "all_digits a" "\<not> all_digits b"
  then show ?thesis
    using assms digits_below_letter [of a b] by (simp add: identCmp_def identPrec_def plainIdent_def parseUint_def strCmp_def)
next
  assume "\<not> all_digits a" "all_digits b"
  then show ?thesis
    using assms digits_below_letter [of b a] by (simp add: identCmp_def identPrec_def plainIdent_def parseUint_def strCmp_def)
next
  assume "\<not> all_digits a" "\<not> all_digits b"
  then show ?thesis by (simp add: identCmp_def identPrec_def parseUint_def)
qed

lemma lexCmp_cong:
  "(\<And>x y. x \<in> set xs \<Longrightarrow> y \<in> set ys \<Longrightarrow> c x y = d x y) \<Longrightarrow> lexCmp c xs ys = lexCmp d xs ys"
  by (induction xs ys rule: list_induct2') auto

lemma compareInternal_plain:
  assumes "plainSemver v" "plainSemver u"
  shows "compareInternal v u = precedence v u"
proof -
  let ?s = "splitOn (CHR ''.'')"
  have len: "length (components v) = length (components u)" and sem: "semver v" "semver u"
    using assms by (auto simp: plainSemver_def wellFormed_def)
  have lex: "lexCmp identCmp (?s (preRelease v)) (?s (preRelease u))
      = lexCmp identPrec (?s (preRelease v)) (?s (preRelease u))" if "preRelease v \<noteq> []" "preRelease u \<noteq> []"
    using assms that by (intro lexCmp_cong identCmp_plain) (auto simp: plainSemver_def list_all_iff)
  have rf: "identPrec a a = 0" "lexCmp identPrec xs xs = 0" for a xs
    by (simp add: three_way.refl [OF three_way_identPrec])
       (induction xs, simp_all add: three_way.refl [OF three_way_identPrec])
  with len sem lex show ?thesis
    by (auto simp: compareInternal_pad precedence_def thenBy_def padCmp_lexCmp ordCmp_def)
qed

interpretation semantic: three_way plainSemver compareInternal
proof
  fix a b c assume ok: "plainSemver a" "plainSemver b" "plainSemver c"
  show "compareInternal b a = - compareInternal a b"
    using three_way.flip [OF three_way_precedence, of a b] ok by (simp add: compareInternal_plain)
  show "compareInternal a b \<le> 0 \<Longrightarrow> compareInternal b c \<le> 0 \<Longrightarrow> compareInternal a c \<le> 0"
    using three_way.trans_le [OF three_way_precedence, of a b c] ok by (simp add: compareInternal_plain)
qed

text \<open>
  C24: On semantic versions whose pre-release identifiers are 64-bit numbers or start with a letter,
  \<open>compareInternal\<close> computes the precedence of the Semantic Versioning specification, swapping the
  arguments negates it, and \<open>AtLeast\<close> is transitive.
\<close>

theorem semver_precedence:
  assumes "plainSemver u" "plainSemver v" "plainSemver w"
  shows "compareInternal u v = precedence u v \<and> compareInternal v u = - compareInternal u v
    \<and> (AtLeast w v \<and> AtLeast v u \<longrightarrow> AtLeast w u) \<and> (LessThan u v \<longleftrightarrow> \<not> AtLeast u v)"
proof -
  note flips = semantic.flip [OF assms(1,2)] semantic.flip [OF assms(2,3)] semantic.flip [OF assms(1,3)]
  have "AtLeast w v \<and> AtLeast v u \<longrightarrow> AtLeast w u"
    using semantic.trans_le [OF assms] unfolding flips AtLeast_iff by linarith
  then show ?thesis
    unfolding flips(1) compareInternal_plain [OF assms(1,2)] by (auto simp: AtLeast_def LessThan_def)
qed

theorem semver_precedence_witness:
  "\<exists>u v w. ParseSemantic ''1.0.0-alpha.2'' = Ok u \<and> ParseSemantic ''1.0.0-alpha.10'' = Ok v
     \<and> ParseSemantic ''1.0.0-alpha.beta'' = Ok w \<and> compareInternal u v = precedence u v
     \<and> LessThan u v \<and> AtLeast w v \<and> AtLeast v u \<and> AtLeast w u"
proof -
  let ?v = "\<lambda>p. \<lparr>components = [1, 0, 0], semver = True, preRelease = p, buildMetadata = []\<rparr>"
  have p: "ParseSemantic ''1.0.0-alpha.2'' = Ok (?v ''alpha.2'')"
    "ParseSemantic ''1.0.0-alpha.10'' = Ok (?v ''alpha.10'')"
    "ParseSemantic ''1.0.0-alpha.beta'' = Ok (?v ''alpha.beta'')"
    by code_simp+
  have ok: "plainSemver (?v ''alpha.2'')" "plainSemver (?v ''alpha.10'')" "plainSemver (?v ''alpha.beta'')"
    by code_simp+
  have c: "LessThan (?v ''alpha.2'') (?v ''alpha.10'') \<and> AtLeast (?v ''alpha.beta'') (?v ''alpha.10'')
    \<and> AtLeast (?v ''alpha.10'') (?v ''alpha.2'')"
    by code_simp
  from semver_precedence [OF ok] p c show ?thesis by blast
qed

text \<open>
  The comparison of semantic versions has a cycle: identifiers of which one is no number are
  compared as strings, so \<open>1.0.0-2\<close>, \<open>1.0.0-10\<close> and \<open>1.0.0-1a\<close> are each less than the next and
  the last is less than the first, where the specification puts it above both.
\<close>

theorem semver_cycle:
  "\<exists>a b c. ParseSemantic ''1.0.0-2'' = Ok a \<and> ParseSemantic ''1.0.0-10'' = Ok b
     \<and> ParseSemantic ''1.0.0-1a'' = Ok c
     \<and> LessThan a b \<and> LessThan b c \<and> LessThan c a \<and> precedence c a = 1 \<and> precedence c b = 1"
proof -
  let ?v = "\<lambda>p. \<lparr>components = [1, 0, 0], semver = True, preRelease = p, buildMetadata = []\<rparr>"
  have "ParseSemantic ''1.0.0-2'' = Ok (?v ''2'')" "ParseSemantic ''1.0.0-10'' = Ok (?v ''10'')"
    "ParseSemantic ''1.0.0-1a'' = Ok (?v ''1a'')"
    by code_simp+
  moreover have "LessThan (?v ''2'') (?v ''10'') \<and> LessThan (?v ''10'') (?v ''1a'')
    \<and> LessThan (?v ''1a'') (?v ''2'') \<and> precedence (?v ''1a'') (?v ''2'') = 1 \<and> precedence (?v ''1a'') (?v ''10'') = 1"
    by code_simp
  ultimately show ?thesis by blast
qed

section \<open>The highest supported version\<close>

text \<open>The entries the loop considers: those that parse with a major number of at most 1.\<close>

fun supported :: "string list \<Rightarrow> Version list" where
  "supported [] = []"
| "supported (s # ss) = (case ParseGeneric s of
       Ok v \<Rightarrow> if (case Major v of None \<Rightarrow> False | Some m \<Rightarrow> m \<le> 1) then v # supported ss else supported ss
     | _ \<Rightarrow> supported ss)"

lemma set_supported:
  "v \<in> set (supported ss) \<longleftrightarrow> (\<exists>s \<in> set ss. ParseGeneric s = Ok v) \<and> (\<exists>m. Major v = Some m \<and> m \<le> 1)"
  by (induction ss) (auto split: go.splits option.splits)

lemma ParseGeneric_ok: "ParseGeneric s = Ok v \<Longrightarrow> \<not> semver v \<and> Major v \<noteq> None"
  using parse_wellFormed [of s False v] by (auto simp: ParseGeneric_def wellFormed_def Major_def)

lemma supported_generic: "list_all (\<lambda>v. \<not> semver v) (supported ss)"
  using ParseGeneric_ok by (auto simp: list_all_iff set_supported)

lemma parseComponents_no_panic: "parseComponents str sem b parts \<noteq> Panic"
  by (induction parts arbitrary: b) (auto simp: go_bind_conv split: option.splits)

lemma checkPreRelease_no_panic: "checkPreRelease str parts \<noteq> Panic"
  by (induction parts) auto

lemma parse_no_panic: "parse str sem \<noteq> Panic"
  using parseComponents_no_panic checkPreRelease_no_panic
  by (auto simp: parse_def Let_def go_bind_conv split: option.splits)

text \<open>The loop keeps the larger version, so it ends in a maximum of the entries it considers.\<close>

fun keep :: "Version option \<Rightarrow> Version \<Rightarrow> Version option" where
  "keep None v = Some v"
| "keep (Some h) v = Some (generic.larger h v)"

lemma highestLoop_foldl: "\<exists>e. highestLoop ss h err = Ok (foldl keep h (supported ss), e)"
proof (induction ss arbitrary: h err)
  case (Cons s ss)
  show ?case
  proof (cases "ParseGeneric s")
    case (Ok v)
    then obtain m where "Major v = Some m" using ParseGeneric_ok by blast
    with Ok Cons show ?thesis
      by (cases h) (auto simp: generic.larger_def LessThan_iff not_less)
  next
    case (Err e)
    with Cons show ?thesis by simp
  next
    case Panic
    then show ?thesis using parse_no_panic by (simp add: ParseGeneric_def)
  qed
qed simp

lemma foldl_keep_Some: "foldl keep (Some h) vs = Some (foldl generic.larger h vs)"
  by (induction vs arbitrary: h) auto

lemma foldl_keep:
  assumes "vs \<noteq> []" "list_all (\<lambda>v. \<not> semver v) vs"
  obtains h where "foldl keep None vs = Some h" "h \<in> set vs" "\<forall>v \<in> set vs. compareInternal v h \<le> 0"
proof -
  obtain x xs where vs: "vs = x # xs" using assms(1) by (cases vs) auto
  show ?thesis
    using generic.foldl_larger [of x xs] assms(2) by (intro that [of "foldl generic.larger x xs"])
      (simp_all add: vs foldl_keep_Some)
qed

lemma supported_rev: "set (supported (rev ss)) = set (supported ss)"
  by (auto simp: set_supported)

text \<open>A maximum above a version 1.x with a major number of at most 1 is a version 1.x.\<close>

lemma major_maximum:
  assumes "\<not> semver v" "Major v = Some 1" "compareInternal v h \<le> 0" "Major h = Some m" "m \<le> 1"
  shows "m = 1"
proof -
  obtain xs ys where "components v = 1 # xs" "components h = m # ys"
    using assms(2,4) by (cases "components v"; cases "components h") (auto simp: Major_def)
  with assms(1,3) have "\<not> m < 1"
    by (auto simp: compareInternal_generic ordCmp_def)
  with assms(5) show ?thesis by (metis antisym_conv2)
qed

text \<open>
  \<open>HighestSupportedVersion\<close> never panics; it succeeds exactly when some entry parses as a version
  1.x, and then returns an entry of major number 1 that is at least every entry which parses with
  a major number of at most 1. Entries that do not parse, and higher major numbers, are skipped.
\<close>

theorem highest_supported:
  "HighestSupportedVersion vs \<noteq> Panic
   \<and> (is_ok (HighestSupportedVersion vs) \<longleftrightarrow> (\<exists>v \<in> set (supported vs). Major v = Some 1))
   \<and> (\<forall>h. HighestSupportedVersion vs = Ok h \<longrightarrow>
        h \<in> set (supported vs) \<and> Major h = Some 1 \<and> (\<forall>v \<in> set (supported vs). AtLeast h v))"
proof (cases "supported (rev vs) = []")
  case True
  obtain e where "highestLoop (rev vs) None None = Ok (None, e)"
    using highestLoop_foldl [of "rev vs" None None] True by auto
  moreover have "set (supported vs) = {}" using True supported_rev [of vs] by simp
  ultimately show ?thesis by (simp add: HighestSupportedVersion_def)
next
  case False
  then obtain h where h: "foldl keep None (supported (rev vs)) = Some h" "h \<in> set (supported vs)"
    "\<forall>v \<in> set (supported vs). compareInternal v h \<le> 0"
    using foldl_keep [OF False supported_generic] unfolding supported_rev by metis
  obtain e where loop: "highestLoop (rev vs) None None = Ok (Some h, e)"
    using highestLoop_foldl [of "rev vs" None None] h(1) by auto
  obtain m where m: "Major h = Some m" "m \<le> 1" using h(2) by (auto simp: set_supported)
  have gen: "\<not> semver v" if "v \<in> set (supported vs)" for v
    using that supported_generic [of vs] by (simp add: list_all_iff)
  have "m = 1" if "v \<in> set (supported vs)" "Major v = Some 1" for v
    using major_maximum [OF gen that(2) _ m] that(1) h(3) by blast
  moreover have "AtLeast h v" if "v \<in> set (supported vs)" for v
    using h(3) that generic.flip [OF gen [OF h(2)] gen [OF that]] by (auto simp: AtLeast_iff)
  moreover have "vs \<noteq> []" using False by auto
  ultimately show ?thesis
    using loop m h(2) by (cases "m = 1") (auto simp: HighestSupportedVersion_def)
qed

theorem highest_supported_witness:
  "HighestSupportedVersion [''v2.0'', ''1.10.3'', ''1.9'', ''latest'']
     = Ok \<lparr>components = [1, 10, 3], semver = False, preRelease = [], buildMetadata = []\<rparr>
   \<and> AtLeast \<lparr>components = [1, 10, 3], semver = False, preRelease = [], buildMetadata = []\<rparr> (MajorMinor 1 9)"
proof -
  have "HighestSupportedVersion [''v2.0'', ''1.10.3'', ''1.9'', ''latest'']
     = Ok \<lparr>components = [1, 10, 3], semver = False, preRelease = [], buildMetadata = []\<rparr>"
    by code_simp
  moreover have "MajorMinor 1 9 \<in> set (supported [''v2.0'', ''1.10.3'', ''1.9'', ''latest''])"
    by code_simp
  ultimately show ?thesis
    using highest_supported [of "[''v2.0'', ''1.10.3'', ''1.9'', ''latest'']"] by blast
qed

end
