(* ===== verification/SymCrypt.thy ===== *)
theory SymCrypt
  imports GoStrings
begin

unbundle bit_operations_syntax

text \<open>
  Symmetric encryption (\<open>pkg/gocrypto/wcipher\<close> and \<open>aes.go\<close>, \<open>des.go\<close>, \<open>option.go\<close> of \<open>pkg/gocrypto\<close>):
  padding, modes of operation, ciphers and the functions on byte slices and hexadecimal texts.
  The modes CBC, OFB and CTR of \<open>crypto/cipher\<close> and the texts of \<open>encoding/hex\<close> are written out; the
  block ciphers of \<open>crypto/aes\<close> and \<open>crypto/des\<close> are values of the interface \<open>cipher.Block\<close>, with what
  their packages promise as the hypothesis \<open>newCipherLaws\<close>. A result \<open>None\<close> is a panic.
\<close>

type_synonym bytes = "8 word list"

section \<open>Padding\<close>

record Padding =
  padFn :: "bytes \<Rightarrow> nat \<Rightarrow> bytes option"
  unpadFn :: "bytes \<Rightarrow> bytes option"

text \<open>\<open>byte(paddingSize)\<close> keeps the low eight bits; a block size of zero divides by zero.\<close>

definition pkcs57Padding :: "bytes \<Rightarrow> nat \<Rightarrow> bytes option" where
  "pkcs57Padding src blockSize =
     (if blockSize = 0 then None
      else let paddingSize = blockSize - length src mod blockSize
           in Some (src @ replicate paddingSize (of_nat paddingSize)))"

definition pkcs57UnPadding :: "bytes \<Rightarrow> bytes option" where
  "pkcs57UnPadding src =
     (if src = [] then None
      else let unPadding = unat (src ! (length src - 1))
           in if length src < unPadding then None else Some (take (length src - unPadding) src))"

definition NewPKCS57Padding :: Padding where
  "NewPKCS57Padding = \<lparr>padFn = pkcs57Padding, unpadFn = pkcs57UnPadding\<rparr>"

section \<open>Block modes\<close>

record Block =
  BlockSize :: nat
  encryptBlock :: "bytes \<Rightarrow> bytes"
  decryptBlock :: "bytes \<Rightarrow> bytes"

text \<open>
  The loop of \<open>ecbEncrypt.CryptBlocks\<close> and \<open>ecbDecrypt.CryptBlocks\<close>: a block is written to the front of
  \<open>dst\<close>, which panics when it is too short, and both slices move on. A block size of zero does not
  reach the loop.
\<close>

function ecbLoop :: "(bytes \<Rightarrow> bytes) \<Rightarrow> nat \<Rightarrow> bytes \<Rightarrow> bytes \<Rightarrow> bytes option" where
  "ecbLoop f bs dst src =
     (if src = [] then Some dst
      else if bs = 0 \<or> length dst < bs then None
      else map_option ((@) (f (take bs src))) (ecbLoop f bs (drop bs dst) (drop bs src)))"
  by pat_completeness auto

termination
  by (relation "measure (\<lambda>(f, bs, dst, src). length src)") auto

declare ecbLoop.simps [simp del]

definition ecbCryptBlocks :: "(bytes \<Rightarrow> bytes) \<Rightarrow> nat \<Rightarrow> bytes \<Rightarrow> bytes \<Rightarrow> bytes option" where
  "ecbCryptBlocks f bs dst src =
     (if bs = 0 \<or> length src mod bs \<noteq> 0 then None else ecbLoop f bs dst src)"

text \<open>
  \<open>CryptBlocks\<close> of the modes that \<open>cipher.NewCBCEncrypter\<close> and \<open>cipher.NewCBCDecrypter\<close> return: they
  keep the last block of the ciphertext as the next initialisation vector.
\<close>

definition xorBytes :: "bytes \<Rightarrow> bytes \<Rightarrow> bytes" where
  "xorBytes xs ys = map2 (XOR) xs ys"

function cbcEncrypt :: "Block \<Rightarrow> bytes \<Rightarrow> bytes \<Rightarrow> bytes \<times> bytes" where
  "cbcEncrypt b iv src =
     (if src = [] \<or> BlockSize b = 0 then (iv, [])
      else let c = encryptBlock b (xorBytes iv (take (BlockSize b) src))
           in map_prod id ((@) c) (cbcEncrypt b c (drop (BlockSize b) src)))"
  by pat_completeness auto

termination
  by (relation "measure (\<lambda>(b, iv, src). length src)") auto

function cbcDecrypt :: "Block \<Rightarrow> bytes \<Rightarrow> bytes \<Rightarrow> bytes \<times> bytes" where
  "cbcDecrypt b iv src =
     (if src = [] \<or> BlockSize b = 0 then (iv, [])
      else let c = take (BlockSize b) src
           in map_prod id ((@) (xorBytes iv (decryptBlock b c))) (cbcDecrypt b c (drop (BlockSize b) src)))"
  by pat_completeness auto

termination
  by (relation "measure (\<lambda>(b, iv, src). length src)") auto

declare cbcEncrypt.simps [simp del] cbcDecrypt.simps [simp del]

datatype blockMode =
    EcbEncrypt Block nat
  | EcbDecrypt Block nat
  | CbcEncrypter Block bytes
  | CbcDecrypter Block bytes

fun modeBlockSize :: "blockMode \<Rightarrow> nat" where
  "modeBlockSize (EcbEncrypt b n) = n"
| "modeBlockSize (EcbDecrypt b n) = n"
| "modeBlockSize (CbcEncrypter b iv) = BlockSize b"
| "modeBlockSize (CbcDecrypter b iv) = BlockSize b"

definition cbcBlocks :: "(bytes \<Rightarrow> blockMode) \<Rightarrow> nat \<Rightarrow> (bytes \<Rightarrow> bytes \<times> bytes) \<Rightarrow> bytes \<Rightarrow> bytes
    \<Rightarrow> (blockMode \<times> bytes) option" where
  "cbcBlocks md bs crypt dst src =
     (if bs = 0 \<or> length src mod bs \<noteq> 0 \<or> length dst < length src then None
      else case crypt src of (iv, out) \<Rightarrow> Some (md iv, out @ drop (length out) dst))"

fun CryptBlocks :: "blockMode \<Rightarrow> bytes \<Rightarrow> bytes \<Rightarrow> (blockMode \<times> bytes) option" where
  "CryptBlocks (EcbEncrypt b n) dst src = map_option (Pair (EcbEncrypt b n)) (ecbCryptBlocks (encryptBlock b) n dst src)"
| "CryptBlocks (EcbDecrypt b n) dst src = map_option (Pair (EcbDecrypt b n)) (ecbCryptBlocks (decryptBlock b) n dst src)"
| "CryptBlocks (CbcEncrypter b iv) dst src = cbcBlocks (CbcEncrypter b) (BlockSize b) (cbcEncrypt b iv) dst src"
| "CryptBlocks (CbcDecrypter b iv) dst src = cbcBlocks (CbcDecrypter b) (BlockSize b) (cbcDecrypt b iv) dst src"

definition NewECBEncrypt :: "Block \<Rightarrow> blockMode" where
  "NewECBEncrypt b = EcbEncrypt b (BlockSize b)"

definition NewECBDecrypt :: "Block \<Rightarrow> blockMode" where
  "NewECBDecrypt b = EcbDecrypt b (BlockSize b)"

section \<open>Streams\<close>

text \<open>
  \<open>cipher.NewOFB\<close> and \<open>cipher.NewCTR\<close>: the block to encrypt next and the bytes of the key stream that
  are left. OFB encrypts its own output again, CTR counts the block up as a big-endian number.
\<close>

datatype streamKind = OFB | CTR

record Stream =
  kind :: streamKind
  streamBlock :: Block
  nextBlock :: bytes
  left :: bytes

fun incBytes :: "bytes \<Rightarrow> bytes" where
  "incBytes [] = []"
| "incBytes (w # ws) = (if list_all (\<lambda>x. x = -1) ws then w + 1 else w) # incBytes ws"

definition refill :: "Stream \<Rightarrow> Stream" where
  "refill s = (let out = encryptBlock (streamBlock s) (nextBlock s)
     in s\<lparr>left := out, nextBlock := (case kind s of OFB \<Rightarrow> out | CTR \<Rightarrow> incBytes (nextBlock s))\<rparr>)"

fun keyByte :: "Stream \<Rightarrow> (8 word \<times> Stream) option" where
  "keyByte s = (let s' = (if left s = [] then refill s else s)
     in case left s' of [] \<Rightarrow> None | k # ks \<Rightarrow> Some (k, s'\<lparr>left := ks\<rparr>))"

declare keyByte.simps [simp del]

fun xorStream :: "Stream \<Rightarrow> bytes \<Rightarrow> (Stream \<times> bytes) option" where
  "xorStream s [] = Some (s, [])"
| "xorStream s (x # xs) = (case keyByte s of
       None \<Rightarrow> None
     | Some (k, s') \<Rightarrow> map_option (map_prod id ((#) (x XOR k))) (xorStream s' xs))"

definition XORKeyStream :: "Stream \<Rightarrow> bytes \<Rightarrow> bytes \<Rightarrow> (Stream \<times> bytes) option" where
  "XORKeyStream s dst src = (if length dst < length src then None
     else map_option (map_prod id (\<lambda>out. out @ drop (length src) dst)) (xorStream s src))"

definition newStream :: "streamKind \<Rightarrow> Block \<Rightarrow> bytes \<Rightarrow> Stream option" where
  "newStream k b iv = (if length iv \<noteq> BlockSize b then None
     else Some \<lparr>kind = k, streamBlock = b, nextBlock = iv, left = []\<rparr>)"

section \<open>Ciphers\<close>

datatype cipher = BlockCipher Padding blockMode blockMode | StreamCipher Stream Stream

definition NewBlockCipher :: "Padding \<Rightarrow> blockMode \<Rightarrow> blockMode \<Rightarrow> cipher" where
  "NewBlockCipher padding encrypt decrypt = BlockCipher padding encrypt decrypt"

definition NewStreamCipher :: "Stream \<Rightarrow> Stream \<Rightarrow> cipher" where
  "NewStreamCipher encrypt decrypt = StreamCipher encrypt decrypt"

text \<open>\<open>Encrypt\<close> and \<open>Decrypt\<close> of both kinds: the cipher with its advanced mode and the result.\<close>

definition blockEncrypt :: "Padding \<Rightarrow> blockMode \<Rightarrow> blockMode \<Rightarrow> bytes \<Rightarrow> (cipher \<times> bytes) option" where
  "blockEncrypt p e d plaintext = (case padFn p plaintext (modeBlockSize e) of
       None \<Rightarrow> None
     | Some padded \<Rightarrow>
         map_option (map_prod (\<lambda>e'. BlockCipher p e' d) id) (CryptBlocks e (replicate (length padded) 0) padded))"

definition blockDecrypt :: "Padding \<Rightarrow> blockMode \<Rightarrow> blockMode \<Rightarrow> bytes \<Rightarrow> (cipher \<times> bytes) option" where
  "blockDecrypt p e d ciphertext =
     (case CryptBlocks d (replicate (length ciphertext) 0) ciphertext of
       None \<Rightarrow> None
     | Some (d', plaintext) \<Rightarrow> map_option (Pair (BlockCipher p e d')) (unpadFn p plaintext))"

definition streamEncrypt :: "Stream \<Rightarrow> Stream \<Rightarrow> bytes \<Rightarrow> (cipher \<times> bytes) option" where
  "streamEncrypt e d plaintext =
     map_option (map_prod (\<lambda>e'. StreamCipher e' d) id) (XORKeyStream e (replicate (length plaintext) 0) plaintext)"

definition streamDecrypt :: "Stream \<Rightarrow> Stream \<Rightarrow> bytes \<Rightarrow> (cipher \<times> bytes) option" where
  "streamDecrypt e d ciphertext =
     map_option (map_prod (StreamCipher e) id) (XORKeyStream d (replicate (length ciphertext) 0) ciphertext)"

fun Encrypt :: "cipher \<Rightarrow> bytes \<Rightarrow> (cipher \<times> bytes) option" where
  "Encrypt (BlockCipher p e d) src = blockEncrypt p e d src"
| "Encrypt (StreamCipher e d) src = streamEncrypt e d src"

fun Decrypt :: "cipher \<Rightarrow> bytes \<Rightarrow> (cipher \<times> bytes) option" where
  "Decrypt (BlockCipher p e d) src = blockDecrypt p e d src"
| "Decrypt (StreamCipher e d) src = streamDecrypt e d src"

section \<open>Modes\<close>

text \<open>
  The values of the interface \<open>CipherMode\<close>. \<open>BaseMode\<close> is the struct \<open>cipherMode\<close> itself, which the
  stream modes embed: their \<open>SetPadding\<close> is its method and returns it. \<open>cfbCipherModel\<close> has no
  \<open>SetPadding\<close> and is no \<open>CipherMode\<close>.
\<close>

datatype cipherMode = BaseMode | EcbMode Padding | CbcMode Padding | OfbMode | CtrMode

fun SetPadding :: "cipherMode \<Rightarrow> Padding \<Rightarrow> cipherMode" where
  "SetPadding BaseMode p = BaseMode"
| "SetPadding (EcbMode q) p = EcbMode p"
| "SetPadding (CbcMode q) p = CbcMode p"
| "SetPadding OfbMode p = BaseMode"
| "SetPadding CtrMode p = BaseMode"

text \<open>\<open>Cipher\<close>: \<open>None\<close> is a panic, \<open>Some None\<close> the nil interface.\<close>

definition ecbCipher :: "Padding \<Rightarrow> Block \<Rightarrow> bytes \<Rightarrow> cipher option option" where
  "ecbCipher p b iv = Some (Some (NewBlockCipher p (NewECBEncrypt b) (NewECBDecrypt b)))"

definition cbcCipher :: "Padding \<Rightarrow> Block \<Rightarrow> bytes \<Rightarrow> cipher option option" where
  "cbcCipher p b iv = (if length iv \<noteq> BlockSize b then None
     else Some (Some (NewBlockCipher p (CbcEncrypter b iv) (CbcDecrypter b iv))))"

definition ofbCipher :: "Block \<Rightarrow> bytes \<Rightarrow> cipher option option" where
  "ofbCipher b iv = (case newStream OFB b iv of None \<Rightarrow> None
     | Some s \<Rightarrow> Some (Some (NewStreamCipher s s)))"

definition ctrCipher :: "Block \<Rightarrow> bytes \<Rightarrow> cipher option option" where
  "ctrCipher b iv = (case newStream CTR b iv of None \<Rightarrow> None
     | Some s \<Rightarrow> Some (Some (NewStreamCipher s s)))"

fun Cipher :: "cipherMode \<Rightarrow> Block \<Rightarrow> bytes \<Rightarrow> cipher option option" where
  "Cipher BaseMode b iv = Some None"
| "Cipher (EcbMode p) b iv = ecbCipher p b iv"
| "Cipher (CbcMode p) b iv = cbcCipher p b iv"
| "Cipher OfbMode b iv = ofbCipher b iv"
| "Cipher CtrMode b iv = ctrCipher b iv"

lemmas cipher_defs [simp] = NewBlockCipher_def NewStreamCipher_def blockEncrypt_def blockDecrypt_def
  streamEncrypt_def streamDecrypt_def ecbCipher_def cbcCipher_def ofbCipher_def ctrCipher_def

definition NewECBMode :: cipherMode where
  "NewECBMode = EcbMode NewPKCS57Padding"

definition NewCBCMode :: cipherMode where
  "NewCBCMode = CbcMode NewPKCS57Padding"

definition NewCFBMode :: cipherMode where
  "NewCFBMode = OfbMode"

definition NewOFBMode :: cipherMode where
  "NewOFBMode = OfbMode"

definition NewCTRMode :: cipherMode where
  "NewCTRMode = CtrMode"

section \<open>Constructors\<close>

datatype crypt_error = KeyError string | UnknownMode string | HexInvalid char | HexLength

type_synonym newCipher = "bytes \<Rightarrow> (crypt_error, Block) go"

text \<open>\<open>key[:block.BlockSize()]\<close> as the initialisation vector; a key is not longer than its capacity.\<close>

definition cipherWith :: "newCipher \<Rightarrow> bytes \<Rightarrow> cipherMode \<Rightarrow> (crypt_error, cipher option) go" where
  "cipherWith newCipher key mode = go_bind (newCipher key) (\<lambda>b.
     if length key < BlockSize b then Panic
     else case Cipher mode b (take (BlockSize b) key) of None \<Rightarrow> Panic | Some c \<Rightarrow> Ok c)"

definition NewAES :: "newCipher \<Rightarrow> bytes \<Rightarrow> (crypt_error, cipher option) go" where
  "NewAES aesNewCipher key = cipherWith aesNewCipher key NewECBMode"

definition NewAESWith :: "newCipher \<Rightarrow> bytes \<Rightarrow> cipherMode \<Rightarrow> (crypt_error, cipher option) go" where
  "NewAESWith aesNewCipher key mode = cipherWith aesNewCipher key mode"

definition NewDES :: "newCipher \<Rightarrow> bytes \<Rightarrow> (crypt_error, cipher option) go" where
  "NewDES desNewCipher key = cipherWith desNewCipher key NewECBMode"

definition NewDESWith :: "newCipher \<Rightarrow> bytes \<Rightarrow> cipherMode \<Rightarrow> (crypt_error, cipher option) go" where
  "NewDESWith desNewCipher key mode = cipherWith desNewCipher key mode"

section \<open>Encryption of byte slices and texts\<close>

text \<open>\<open>[]byte(s)\<close> and \<open>string(b)\<close>.\<close>

definition bytesOf :: "string \<Rightarrow> bytes" where
  "bytesOf s = map (\<lambda>c. of_nat (byte c)) s"

definition stringOf :: "bytes \<Rightarrow> string" where
  "stringOf bs = map (\<lambda>w. char_of (unat w)) bs"

text \<open>\<open>hex.EncodeToString\<close> and \<open>hex.DecodeString\<close>.\<close>

definition hexDigit :: "nat \<Rightarrow> char" where
  "hexDigit n = char_of (if n < 10 then 48 + n else 87 + n)"

definition hexVal :: "char \<Rightarrow> nat option" where
  "hexVal c = (let n = byte c in
     if 48 \<le> n \<and> n \<le> 57 then Some (n - 48)
     else if 97 \<le> n \<and> n \<le> 102 then Some (n - 87)
     else if 65 \<le> n \<and> n \<le> 70 then Some (n - 55) else None)"

definition hexEncode :: "bytes \<Rightarrow> string" where
  "hexEncode bs = concat (map (\<lambda>w. [hexDigit (unat w div 16), hexDigit (unat w mod 16)]) bs)"

fun hexDecode :: "string \<Rightarrow> (crypt_error, bytes) go" where
  "hexDecode [] = Ok []"
| "hexDecode [p] = (case hexVal p of None \<Rightarrow> Err (HexInvalid p) | Some _ \<Rightarrow> Err HexLength)"
| "hexDecode (p # q # s) = (case hexVal p of
       None \<Rightarrow> Err (HexInvalid p)
     | Some a \<Rightarrow> (case hexVal q of
           None \<Rightarrow> Err (HexInvalid q)
         | Some b \<Rightarrow> go_bind (hexDecode s) (\<lambda>bs. Ok (of_nat (16 * a + b) # bs))))"

text \<open>Calling a method of the nil interface panics.\<close>

definition callCipher :: "(cipher \<Rightarrow> bytes \<Rightarrow> (cipher \<times> bytes) option) \<Rightarrow> cipher option \<Rightarrow> bytes
    \<Rightarrow> (crypt_error, bytes) go" where
  "callCipher f c input = (case c of None \<Rightarrow> Panic | Some cip \<Rightarrow>
     (case f cip input of None \<Rightarrow> Panic | Some (_, out) \<Rightarrow> Ok out))"

definition getCipherMode :: "string \<Rightarrow> (crypt_error, cipherMode) go" where
  "getCipherMode mode =
     (if mode = ''ECB'' then Ok NewECBMode
      else if mode = ''CBC'' then Ok NewCBCMode
      else if mode = ''CFB'' then Ok NewCFBMode
      else if mode = ''CTR'' then Ok NewCTRMode
      else Err (UnknownMode mode))"

definition aesEncryptByMode :: "newCipher \<Rightarrow> string \<Rightarrow> bytes \<Rightarrow> bytes \<Rightarrow> (crypt_error, bytes) go" where
  "aesEncryptByMode aesNewCipher mode rawData key =
     go_bind (getCipherMode mode) (\<lambda>m. go_bind (NewAESWith aesNewCipher key m) (\<lambda>cip. callCipher Encrypt cip rawData))"

definition aesDecryptByMode :: "newCipher \<Rightarrow> string \<Rightarrow> bytes \<Rightarrow> bytes \<Rightarrow> (crypt_error, bytes) go" where
  "aesDecryptByMode aesNewCipher mode cipherData key =
     go_bind (getCipherMode mode) (\<lambda>m. go_bind (NewAESWith aesNewCipher key m) (\<lambda>cip. callCipher Decrypt cip cipherData))"

definition desEncryptByMode :: "newCipher \<Rightarrow> string \<Rightarrow> bytes \<Rightarrow> bytes \<Rightarrow> (crypt_error, bytes) go" where
  "desEncryptByMode desNewCipher mode rawData key =
     go_bind (getCipherMode mode) (\<lambda>m. go_bind (NewDESWith desNewCipher key m) (\<lambda>cip. callCipher Encrypt cip rawData))"

definition desDecryptByMode :: "newCipher \<Rightarrow> string \<Rightarrow> bytes \<Rightarrow> bytes \<Rightarrow> (crypt_error, bytes) go" where
  "desDecryptByMode desNewCipher mode cipherData key =
     go_bind (getCipherMode mode) (\<lambda>m. go_bind (NewDESWith desNewCipher key m) (\<lambda>cip. callCipher Decrypt cip cipherData))"

record aesOptions =
  aesKey :: bytes
  aesMode :: string

definition defaultAesOptions :: aesOptions where
  "defaultAesOptions = \<lparr>aesKey = bytesOf ''mKoF_pL,NjI9=I;w'', aesMode = ''ECB''\<rparr>"

datatype AesOption = WithAesKey bytes | WithAesModeCBC | WithAesModeECB | WithAesModeCFB | WithAesModeCTR

fun aesOption :: "AesOption \<Rightarrow> aesOptions \<Rightarrow> aesOptions" where
  "aesOption (WithAesKey key) o1 = o1\<lparr>aesKey := key\<rparr>"
| "aesOption WithAesModeCBC o1 = o1\<lparr>aesMode := ''CBC''\<rparr>"
| "aesOption WithAesModeECB o1 = o1\<lparr>aesMode := ''ECB''\<rparr>"
| "aesOption WithAesModeCFB o1 = o1\<lparr>aesMode := ''CFB''\<rparr>"
| "aesOption WithAesModeCTR o1 = o1\<lparr>aesMode := ''CTR''\<rparr>"

definition aesApply :: "AesOption list \<Rightarrow> aesOptions" where
  "aesApply opts = applyOpts (map aesOption opts) defaultAesOptions"

definition AesEncrypt :: "newCipher \<Rightarrow> bytes \<Rightarrow> AesOption list \<Rightarrow> (crypt_error, bytes) go" where
  "AesEncrypt nc rawData opts = (let o1 = aesApply opts in aesEncryptByMode nc (aesMode o1) rawData (aesKey o1))"

definition AesDecrypt :: "newCipher \<Rightarrow> bytes \<Rightarrow> AesOption list \<Rightarrow> (crypt_error, bytes) go" where
  "AesDecrypt nc cipherData opts = (let o1 = aesApply opts in aesDecryptByMode nc (aesMode o1) cipherData (aesKey o1))"

definition AesEncryptHex :: "newCipher \<Rightarrow> string \<Rightarrow> AesOption list \<Rightarrow> (crypt_error, string) go" where
  "AesEncryptHex nc rawData opts = (let o1 = aesApply opts in
     go_bind (aesEncryptByMode nc (aesMode o1) (bytesOf rawData) (aesKey o1)) (\<lambda>c. Ok (hexEncode c)))"

definition AesDecryptHex :: "newCipher \<Rightarrow> string \<Rightarrow> AesOption list \<Rightarrow> (crypt_error, string) go" where
  "AesDecryptHex nc cipherStr opts = (let o1 = aesApply opts in
     go_bind (hexDecode cipherStr) (\<lambda>c.
       go_bind (aesDecryptByMode nc (aesMode o1) c (aesKey o1)) (\<lambda>r. Ok (stringOf r))))"

record desOptions =
  desKey :: bytes
  desMode :: string

definition defaultDesOptions :: desOptions where
  "defaultDesOptions = \<lparr>desKey = bytesOf ''VgY7*uHb'', desMode = ''ECB''\<rparr>"

datatype DesOption = WithDesKey bytes | WithDesModeCBC | WithDesModeECB | WithDesModeCFB | WithDesModeCTR

fun desOption :: "DesOption \<Rightarrow> desOptions \<Rightarrow> desOptions" where
  "desOption (WithDesKey key) o1 = o1\<lparr>desKey := key\<rparr>"
| "desOption WithDesModeCBC o1 = o1\<lparr>desMode := ''CBC''\<rparr>"
| "desOption WithDesModeECB o1 = o1\<lparr>desMode := ''ECB''\<rparr>"
| "desOption WithDesModeCFB o1 = o1\<lparr>desMode := ''CFB''\<rparr>"
| "desOption WithDesModeCTR o1 = o1\<lparr>desMode := ''CTR''\<rparr>"

definition desApply :: "DesOption list \<Rightarrow> desOptions" where
  "desApply opts = applyOpts (map desOption opts) defaultDesOptions"

definition DesEncrypt :: "newCipher \<Rightarrow> bytes \<Rightarrow> DesOption list \<Rightarrow> (crypt_error, bytes) go" where
  "DesEncrypt nc rawData opts = (let o1 = desApply opts in desEncryptByMode nc (desMode o1) rawData (desKey o1))"

definition DesDecrypt :: "newCipher \<Rightarrow> bytes \<Rightarrow> DesOption list \<Rightarrow> (crypt_error, bytes) go" where
  "DesDecrypt nc cipherData opts = (let o1 = desApply opts in desDecryptByMode nc (desMode o1) cipherData (desKey o1))"

definition DesEncryptHex :: "newCipher \<Rightarrow> string \<Rightarrow> DesOption list \<Rightarrow> (crypt_error, string) go" where
  "DesEncryptHex nc rawData opts = (let o1 = desApply opts in
     go_bind (desEncryptByMode nc (desMode o1) (bytesOf rawData) (desKey o1)) (\<lambda>c. Ok (hexEncode c)))"

definition DesDecryptHex :: "newCipher \<Rightarrow> string \<Rightarrow> DesOption list \<Rightarrow> (crypt_error, string) go" where
  "DesDecryptHex nc cipherStr opts = (let o1 = desApply opts in
     go_bind (hexDecode cipherStr) (\<lambda>c.
       go_bind (desDecryptByMode nc (desMode o1) c (desKey o1)) (\<lambda>r. Ok (stringOf r))))"

section \<open>What the block ciphers promise\<close>

text \<open>
  A block cipher maps blocks to blocks and its decryption inverts its encryption; a constructor
  accepts exactly the keys of certain lengths and returns such a cipher of a fixed block size.
\<close>

definition blockLaws :: "Block \<Rightarrow> bool" where
  "blockLaws b \<longleftrightarrow> 0 < BlockSize b \<and> BlockSize b < 256
     \<and> (\<forall>x. length x = BlockSize b \<longrightarrow> length (encryptBlock b x) = BlockSize b
          \<and> length (decryptBlock b x) = BlockSize b \<and> decryptBlock b (encryptBlock b x) = x)"

definition newCipherLaws :: "newCipher \<Rightarrow> nat set \<Rightarrow> nat \<Rightarrow> bool" where
  "newCipherLaws nc lens bs \<longleftrightarrow>
     (\<forall>key. if length key \<in> lens then \<exists>b. nc key = Ok b \<and> BlockSize b = bs \<and> blockLaws b
            else \<exists>e. nc key = Err e)"

text \<open>A constructor that keeps these laws: every block is combined with the start of the key.\<close>

definition xorNewCipher :: "nat list \<Rightarrow> nat \<Rightarrow> newCipher" where
  "xorNewCipher lens bs key = (if length key \<in> set lens
     then Ok \<lparr>BlockSize = bs, encryptBlock = xorBytes (take bs key), decryptBlock = xorBytes (take bs key)\<rparr>
     else Err (KeyError ''invalid key size''))"

lemma length_xorBytes [simp]: "length (xorBytes xs ys) = min (length xs) (length ys)"
  by (simp add: xorBytes_def)

lemma xorBytes_xorBytes [simp]: "length xs = length ys \<Longrightarrow> xorBytes xs (xorBytes xs ys) = ys"
  by (induction xs ys rule: list_induct2) (simp_all add: xorBytes_def xor.assoc [symmetric])

lemma xorNewCipher_laws:
  assumes "0 < bs" "bs < 256" "\<forall>n \<in> set lens. bs \<le> n"
  shows "newCipherLaws (xorNewCipher lens bs) (set lens) bs"
  using assms by (simp add: newCipherLaws_def xorNewCipher_def blockLaws_def min_absorb2)

section \<open>Round trips\<close>

lemma pkcs57_round_trip:
  assumes "0 < bs" "bs < 256"
  obtains p where "pkcs57Padding src bs = Some p" "pkcs57UnPadding p = Some src" "length p mod bs = 0"
proof -
  define n where "n = bs - length src mod bs"
  have n: "0 < n" "n < 256" using assms by (auto simp: n_def)
  have last: "(src @ replicate n x) ! (length src + n - 1) = x" for x
    using n(1) by (cases n) (simp_all add: nth_append del: replicate.simps)
  have "(length src + n) mod bs = 0"
    unfolding n_def using assms(1)
    by (metis add.commute le_add_diff_inverse2 mod_add_left_eq mod_le_divisor mod_self mod_add_right_eq)
  moreover have "(src @ replicate n (of_nat n)) ! (length src + n - 1) = (of_nat n :: 8 word)"
    by (rule last)
  moreover have "unat (of_nat n :: 8 word) = n" using n(2) by (simp add: unat_of_nat)
  ultimately show ?thesis
    using assms(1) n(1) by (intro that [of "src @ replicate n (of_nat n)"])
      (simp_all add: pkcs57Padding_def pkcs57UnPadding_def Let_def n_def [symmetric])
qed

lemma length_drop_mod: "length src mod bs = 0 \<Longrightarrow> length (drop bs src) mod bs = (0::nat)"
  by (cases "bs \<le> length src") (simp_all add: le_mod_geq [symmetric])

lemma block_le: "src \<noteq> [] \<Longrightarrow> length src mod bs = 0 \<Longrightarrow> bs \<le> length src"
  by (rule ccontr) simp

lemma ecb_inverse:
  assumes "\<And>x. length x = bs \<Longrightarrow> length (f x) = bs \<and> g (f x) = x" and "0 < bs"
  shows "length src mod bs = 0 \<Longrightarrow> length dst = length src \<Longrightarrow>
    \<exists>out. ecbLoop f bs dst src = Some out \<and> length out = length src
      \<and> (\<forall>dst'. length dst' = length src \<longrightarrow> ecbLoop g bs dst' out = Some src)"
proof (induction "length src" arbitrary: src dst rule: less_induct)
  case less
  show ?case
  proof (cases "src = []")
    case True
    with less.prems show ?thesis by (simp add: ecbLoop.simps)
  next
    case False
    note le = block_le [OF False less.prems(1)]
    then have t: "length (take bs src) = bs" by simp
    obtain out where out: "ecbLoop f bs (drop bs dst) (drop bs src) = Some out" "length out = length src - bs"
      "\<And>dst'. length dst' = length src - bs \<Longrightarrow> ecbLoop g bs dst' out = Some (drop bs src)"
      using less.hyps [of "drop bs src" "drop bs dst"] less.prems length_drop_mod [of src bs] False assms(2) by auto
    have "ecbLoop f bs dst src = Some (f (take bs src) @ out)"
      using False le less.prems(2) assms(2) out(1) by (subst ecbLoop.simps) simp
    moreover have "ecbLoop g bs dst' (f (take bs src) @ out) = Some src" if "length dst' = length src" for dst'
      using that le assms(2) out(3) [of "drop bs dst'"] assms(1) [OF t] False
      by (subst ecbLoop.simps) auto
    ultimately show ?thesis using out(2) le assms(1) [OF t] by simp
  qed
qed

lemma cbc_inverse:
  assumes b: "blockLaws b"
  shows "length iv = BlockSize b \<Longrightarrow> length src mod BlockSize b = 0 \<Longrightarrow>
    \<exists>iv' out. cbcEncrypt b iv src = (iv', out) \<and> length out = length src \<and> length iv' = BlockSize b
      \<and> cbcDecrypt b iv out = (iv', src)"
proof (induction "length src" arbitrary: src iv rule: less_induct)
  case less
  show ?case
  proof (cases "src = []")
    case True
    with less.prems show ?thesis by (simp add: cbcEncrypt.simps cbcDecrypt.simps)
  next
    case False
    let ?bs = "BlockSize b" and ?x = "xorBytes iv (take (BlockSize b) src)"
    have bs: "0 < ?bs" using b by (simp add: blockLaws_def)
    have le: "?bs \<le> length src" using block_le [OF False less.prems(2)] .
    then have x: "length ?x = ?bs" using less.prems(1) by simp
    let ?c = "encryptBlock b ?x"
    have c: "length ?c = ?bs" "decryptBlock b ?c = ?x" using b x by (auto simp: blockLaws_def)
    obtain iv' out where out: "cbcEncrypt b ?c (drop ?bs src) = (iv', out)" "length out = length src - ?bs"
      "length iv' = ?bs" "cbcDecrypt b ?c out = (iv', drop ?bs src)"
      using less.hyps [of "drop ?bs src" ?c] c(1) length_drop_mod [OF less.prems(2)] False bs by auto
    have "cbcEncrypt b iv src = (iv', ?c @ out)"
      using False bs out(1) by (subst cbcEncrypt.simps) (simp add: Let_def)
    moreover have "cbcDecrypt b iv (?c @ out) = (iv', src)"
    proof (subst cbcDecrypt.simps)
      have "xorBytes iv ?x = take ?bs src" using le less.prems(1) by simp
      moreover have "?c \<noteq> []" using c(1) bs by auto
      ultimately show "(if ?c @ out = [] \<or> ?bs = 0 then (iv, [])
          else let c = take ?bs (?c @ out)
               in map_prod id ((@) (xorBytes iv (decryptBlock b c))) (cbcDecrypt b c (drop ?bs (?c @ out)))) = (iv', src)"
        using bs c out(4) by (simp add: Let_def)
    qed
    ultimately show ?thesis using out(2,3) c(1) le by simp
  qed
qed

lemma xorStream_inverse:
  "xorStream s xs = Some (s', ys) \<Longrightarrow> length ys = length xs \<and> xorStream s ys = Some (s', xs)"
proof (induction xs arbitrary: s ys)
  case (Cons x xs)
  then obtain k s1 zs where k: "keyByte s = Some (k, s1)" and z: "xorStream s1 xs = Some (s', zs)"
    and ys: "ys = (x XOR k) # zs"
    by (auto split: option.splits)
  have "(x XOR k) XOR k = x" by (simp add: xor.assoc)
  with k ys Cons.IH [OF z] show ?case by simp
qed simp

definition streamOk :: "Stream \<Rightarrow> bool" where
  "streamOk s \<longleftrightarrow> blockLaws (streamBlock s) \<and> length (nextBlock s) = BlockSize (streamBlock s)"

lemma length_incBytes [simp]: "length (incBytes ws) = length ws"
  by (induction ws) auto

lemma keyByte_ok: "streamOk s \<Longrightarrow> \<exists>k s'. keyByte s = Some (k, s') \<and> streamOk s'"
proof -
  assume s: "streamOk s"
  then have b: "length (encryptBlock (streamBlock s) (nextBlock s)) = BlockSize (streamBlock s)"
    "0 < BlockSize (streamBlock s)" by (auto simp: streamOk_def blockLaws_def)
  then have "left (refill s) \<noteq> []" by (auto simp: refill_def Let_def)
  moreover have "streamOk (refill s)"
    using s b(1) by (cases "kind s") (simp_all add: streamOk_def refill_def Let_def)
  moreover have "streamOk (t\<lparr>left := ks\<rparr>) = streamOk t" for t ks
    by (simp add: streamOk_def)
  ultimately show ?thesis
    using s by (cases "left s"; cases "left (refill s)") (simp_all add: keyByte.simps)
qed

lemma xorStream_ok: "streamOk s \<Longrightarrow> \<exists>s' ys. xorStream s xs = Some (s', ys) \<and> streamOk s'"
proof (induction xs arbitrary: s)
  case (Cons x xs)
  then obtain k s1 where "keyByte s = Some (k, s1)" "streamOk s1" using keyByte_ok by blast
  with Cons.IH [of s1] show ?case by auto
qed simp

text \<open>
  The encrypting half of one cipher matches the decrypting half of another: whatever the first
  encrypts the second decrypts, and they match again afterwards.
\<close>

fun matchModes :: "blockMode \<Rightarrow> blockMode \<Rightarrow> bool" where
  "matchModes (EcbEncrypt b n) (EcbDecrypt b' n') \<longleftrightarrow> b' = b \<and> n = BlockSize b \<and> n' = n \<and> blockLaws b"
| "matchModes (CbcEncrypter b iv) (CbcDecrypter b' iv') \<longleftrightarrow>
     b' = b \<and> iv' = iv \<and> length iv = BlockSize b \<and> blockLaws b"
| "matchModes _ _ \<longleftrightarrow> False"

fun matches :: "cipher \<Rightarrow> cipher \<Rightarrow> bool" where
  "matches (BlockCipher p e d) (BlockCipher q e' d') \<longleftrightarrow> p = NewPKCS57Padding \<and> q = NewPKCS57Padding \<and> matchModes e d'"
| "matches (StreamCipher e d) (StreamCipher e' d') \<longleftrightarrow> e = d' \<and> streamOk e"
| "matches _ _ \<longleftrightarrow> False"

lemma matchModes_size: "matchModes e d \<Longrightarrow> 0 < modeBlockSize e \<and> modeBlockSize e < 256"
  by (cases "(e, d)" rule: matchModes.cases) (auto simp: blockLaws_def)

lemma CryptBlocks_inverse:
  assumes "matchModes e d" "length src mod modeBlockSize e = 0" "length dst = length src"
  shows "\<exists>e' out d'. CryptBlocks e dst src = Some (e', out) \<and> length out = length src
    \<and> (\<forall>dst'. length dst' = length src \<longrightarrow> CryptBlocks d dst' out = Some (d', src)) \<and> matchModes e' d'"
  using assms(1)
proof (cases rule: matchModes.cases [of "(e, d)"])
  case (1 b n b' n')
  then have b: "b' = b" "n = BlockSize b" "n' = n" "blockLaws b" using assms(1) by auto
  then have f: "length x = n \<Longrightarrow> length (encryptBlock b x) = n \<and> decryptBlock b (encryptBlock b x) = x" for x
    by (simp add: blockLaws_def)
  have n: "0 < n" using b by (simp add: blockLaws_def)
  obtain out where "ecbLoop (encryptBlock b) n dst src = Some out" "length out = length src"
    "\<forall>dst'. length dst' = length src \<longrightarrow> ecbLoop (decryptBlock b) n dst' out = Some src"
    using ecb_inverse [of n "encryptBlock b" "decryptBlock b" src dst, OF f n] assms(2,3) 1 by auto
  with 1 b n assms show ?thesis
    by (intro exI [of _ e] exI [of _ out] exI [of _ d]) (simp add: ecbCryptBlocks_def)
next
  case (2 b iv b' iv')
  then have b: "b' = b" "iv' = iv" "length iv = BlockSize b" "blockLaws b" using assms(1) by auto
  obtain i out where "cbcEncrypt b iv src = (i, out)" "length out = length src" "length i = BlockSize b"
    "cbcDecrypt b iv out = (i, src)"
    using cbc_inverse [OF b(4,3), of src] assms(2) 2 by auto
  with 2 b assms show ?thesis
    by (intro exI [of _ "CbcEncrypter b i"] exI [of _ out] exI [of _ "CbcDecrypter b i"])
       (simp add: cbcBlocks_def blockLaws_def)
qed auto

lemma matches_step:
  assumes "matches c1 c2"
  shows "\<exists>c1' x c2'. Encrypt c1 m = Some (c1', x) \<and> Decrypt c2 x = Some (c2', m) \<and> matches c1' c2'"
  using assms
proof (cases rule: matches.cases [of "(c1, c2)"])
  case (1 p e d q e' d')
  then have p: "p = NewPKCS57Padding" "q = NewPKCS57Padding" and m: "matchModes e d'" using assms by auto
  obtain s where s: "pkcs57Padding m (modeBlockSize e) = Some s" "pkcs57UnPadding s = Some m"
    "length s mod modeBlockSize e = 0"
    using pkcs57_round_trip [of "modeBlockSize e" m] matchModes_size [OF m] by blast
  from CryptBlocks_inverse [OF m s(3), of "replicate (length s) 0"]
  obtain e1 out d1 where "CryptBlocks e (replicate (length s) 0) s = Some (e1, out)" "length out = length s"
    "CryptBlocks d' (replicate (length out) 0) out = Some (d1, s)" "matchModes e1 d1" by auto
  with s 1 p show ?thesis by (simp add: NewPKCS57Padding_def)
next
  case (2 e d e' d')
  then have e: "e = d'" "streamOk e" using assms by auto
  obtain s ys where s: "xorStream e m = Some (s, ys)" "streamOk s" using xorStream_ok [OF e(2)] by blast
  from xorStream_inverse [OF s(1)] s e 2 show ?thesis by (simp add: XORKeyStream_def)
qed auto

text \<open>A sequence of calls on one cipher.\<close>

fun calls :: "(cipher \<Rightarrow> bytes \<Rightarrow> (cipher \<times> bytes) option) \<Rightarrow> cipher \<Rightarrow> bytes list \<Rightarrow> bytes list option" where
  "calls f c [] = Some []"
| "calls f c (m # ms) = (case f c m of None \<Rightarrow> None | Some (c', x) \<Rightarrow> map_option ((#) x) (calls f c' ms))"

lemma matches_calls: "matches c1 c2 \<Longrightarrow> \<exists>xs. calls Encrypt c1 ms = Some xs \<and> calls Decrypt c2 xs = Some ms"
proof (induction ms arbitrary: c1 c2)
  case (Cons m ms)
  from matches_step [OF Cons.prems, of m] obtain c1' x c2' where
    "Encrypt c1 m = Some (c1', x)" "Decrypt c2 x = Some (c2', m)" "matches c1' c2'" by blast
  with Cons.IH [of c1' c2'] show ?case by auto
qed simp

definition standardModes :: "cipherMode list" where
  "standardModes = [NewECBMode, NewCBCMode, NewCFBMode, NewOFBMode, NewCTRMode]"

lemmas new_modes = NewECBMode_def NewCBCMode_def NewCFBMode_def NewOFBMode_def NewCTRMode_def

lemma standard_matches:
  assumes "mode \<in> set standardModes" "blockLaws b" "length iv = BlockSize b"
  obtains c where "Cipher mode b iv = Some (Some c)" "matches c c"
  using assms
  by (auto simp: standardModes_def new_modes NewECBEncrypt_def NewECBDecrypt_def newStream_def streamOk_def)

lemma hexVal_hexDigit: "n < 16 \<Longrightarrow> hexVal (hexDigit n) = Some n"
  by (auto simp: hexVal_def hexDigit_def Let_def)

lemma unat_8: "unat (w :: 8 word) < 256"
  using unsigned_less [of w] by simp

lemma hexDecode_hexEncode [simp]: "hexDecode (hexEncode bs) = Ok bs"
proof (induction bs)
  case (Cons w bs)
  have "hexEncode (w # bs) = hexDigit (unat w div 16) # hexDigit (unat w mod 16) # hexEncode bs"
    by (simp add: hexEncode_def)
  moreover have "unat w div 16 < 16" using unat_8 [of w] by simp
  moreover have "of_nat (16 * (unat w div 16) + unat w mod 16) = w" by (simp only: mult_div_mod_eq) simp
  ultimately show ?case using Cons by (simp add: hexVal_hexDigit del: of_nat_add of_nat_mult)
qed (simp add: hexEncode_def)

lemma bytesOf_stringOf [simp]: "bytesOf (stringOf bs) = bs"
  by (induction bs) (simp_all add: bytesOf_def stringOf_def unat_8)

definition modeNames :: "string list" where
  "modeNames = [''ECB'', ''CBC'', ''CFB'', ''CTR'']"

lemma modeNames_mem [simp]:
  "''ECB'' \<in> set modeNames" "''CBC'' \<in> set modeNames" "''CFB'' \<in> set modeNames" "''CTR'' \<in> set modeNames"
  by (simp_all add: modeNames_def)

lemma aesMode_name: "aesMode (aesApply opts) \<in> set modeNames"
  unfolding aesApply_def
proof (rule applyOpts_inv)
  fix f and o1 :: aesOptions assume "f \<in> set (map aesOption opts)" "aesMode o1 \<in> set modeNames"
  then obtain x where "f = aesOption x" by auto
  with \<open>aesMode o1 \<in> set modeNames\<close> show "aesMode (f o1) \<in> set modeNames" by (cases x) simp_all
qed (simp add: defaultAesOptions_def)

lemma desMode_name: "desMode (desApply opts) \<in> set modeNames"
  unfolding desApply_def
proof (rule applyOpts_inv)
  fix f and o1 :: desOptions assume "f \<in> set (map desOption opts)" "desMode o1 \<in> set modeNames"
  then obtain x where "f = desOption x" by auto
  with \<open>desMode o1 \<in> set modeNames\<close> show "desMode (f o1) \<in> set modeNames" by (cases x) simp_all
qed (simp add: defaultDesOptions_def)

lemma getCipherMode_ok:
  assumes "mode \<in> set modeNames"
  shows "\<exists>m. getCipherMode mode = Ok m \<and> m \<in> set standardModes"
proof -
  have "getCipherMode ''ECB'' = Ok NewECBMode" "getCipherMode ''CBC'' = Ok NewCBCMode"
    "getCipherMode ''CFB'' = Ok NewCFBMode" "getCipherMode ''CTR'' = Ok NewCTRMode"
    by (simp_all add: getCipherMode_def)
  then have "list_all (\<lambda>mode. \<exists>m. getCipherMode mode = Ok m \<and> m \<in> set standardModes) modeNames"
    by (simp add: standardModes_def modeNames_def)
  with assms show ?thesis by (simp only: list_all_iff)
qed

lemma cipherWith_ok:
  assumes "newCipherLaws nc lens bs" "length key \<in> lens" "\<forall>n \<in> lens. bs \<le> n" "m \<in> set standardModes"
  obtains c where "cipherWith nc key m = Ok (Some c)" "matches c c"
proof -
  obtain b where b: "nc key = Ok b" "BlockSize b = bs" "blockLaws b"
    using assms(1,2) by (auto simp: newCipherLaws_def split: if_splits)
  obtain c where "Cipher m b (take bs key) = Some (Some c)" "matches c c"
    using standard_matches [OF assms(4) b(3), of "take bs key"] assms(2,3) b(2) by auto
  with b assms(2,3) show ?thesis by (intro that [of c]) (auto simp: cipherWith_def)
qed

text \<open>One call of either direction, for the options of AES and of DES.\<close>

lemma byMode_round_trip:
  assumes "newCipherLaws nc lens bs" "length key \<in> lens" "\<forall>n \<in> lens. bs \<le> n"
    and "mode \<in> set modeNames"
  shows "\<exists>c. aesEncryptByMode nc mode raw key = Ok c \<and> aesDecryptByMode nc mode c key = Ok raw"
    and "\<exists>c. desEncryptByMode nc mode raw key = Ok c \<and> desDecryptByMode nc mode c key = Ok raw"
proof -
  obtain m where m: "getCipherMode mode = Ok m" "m \<in> set standardModes"
    using getCipherMode_ok [OF assms(4)] by blast
  obtain c where c: "cipherWith nc key m = Ok (Some c)" "matches c c"
    using cipherWith_ok [OF assms(1-3) m(2)] .
  obtain c1 x c2 where "Encrypt c raw = Some (c1, x)" "Decrypt c x = Some (c2, raw)"
    using matches_step [OF c(2)] by blast
  with m(1) c(1) show "\<exists>c. aesEncryptByMode nc mode raw key = Ok c \<and> aesDecryptByMode nc mode c key = Ok raw"
    "\<exists>c. desEncryptByMode nc mode raw key = Ok c \<and> desDecryptByMode nc mode c key = Ok raw"
    by (simp_all add: aesEncryptByMode_def aesDecryptByMode_def desEncryptByMode_def desDecryptByMode_def
        NewAESWith_def NewDESWith_def callCipher_def)
qed

text \<open>
  C25: Decryption inverts encryption. With a key of a length the block cipher accepts, and under any
  options, AES and DES encryption of any data succeeds, decryption under the same options returns
  the data, and the hexadecimal functions do the same on texts.
\<close>

theorem symmetric_round_trip:
  assumes "newCipherLaws aes {16, 24, 32} 16" "length (aesKey (aesApply aopts)) \<in> {16, 24, 32}"
    and "newCipherLaws des {8} 8" "length (desKey (desApply dopts)) = 8"
  shows "(\<exists>c. AesEncrypt aes raw aopts = Ok c \<and> AesDecrypt aes c aopts = Ok raw
      \<and> AesEncryptHex aes (stringOf raw) aopts = Ok (hexEncode c)
      \<and> AesDecryptHex aes (hexEncode c) aopts = Ok (stringOf raw))
    \<and> (\<exists>c. DesEncrypt des raw dopts = Ok c \<and> DesDecrypt des c dopts = Ok raw
      \<and> DesEncryptHex des (stringOf raw) dopts = Ok (hexEncode c)
      \<and> DesDecryptHex des (hexEncode c) dopts = Ok (stringOf raw))"
proof -
  obtain c where c: "aesEncryptByMode aes (aesMode (aesApply aopts)) raw (aesKey (aesApply aopts)) = Ok c"
    "aesDecryptByMode aes (aesMode (aesApply aopts)) c (aesKey (aesApply aopts)) = Ok raw"
    using byMode_round_trip(1) [OF assms(1,2) _ aesMode_name] by auto
  obtain d where d: "desEncryptByMode des (desMode (desApply dopts)) raw (desKey (desApply dopts)) = Ok d"
    "desDecryptByMode des (desMode (desApply dopts)) d (desKey (desApply dopts)) = Ok raw"
    using byMode_round_trip(2) [OF assms(3) _ _ desMode_name, of "desKey (desApply dopts)"] assms(4) by auto
  show ?thesis
    by (intro conjI exI [of _ c] exI [of _ d])
       (simp_all add: c d AesEncrypt_def AesDecrypt_def AesEncryptHex_def AesDecryptHex_def
         DesEncrypt_def DesDecrypt_def DesEncryptHex_def DesDecryptHex_def Let_def)
qed

theorem symmetric_round_trip_witness:
  "\<exists>c. AesEncrypt (xorNewCipher [16, 24, 32] 16) [1, 2, 3] [WithAesModeCBC] = Ok c
     \<and> AesDecrypt (xorNewCipher [16, 24, 32] 16) c [WithAesModeCBC] = Ok [1, 2, 3]"
proof -
  have a: "newCipherLaws (xorNewCipher [16, 24, 32] 16) {16, 24, 32} 16"
    using xorNewCipher_laws [of 16 "[16, 24, 32]"] by simp
  have d: "newCipherLaws (xorNewCipher [8] 8) {8} 8"
    using xorNewCipher_laws [of 8 "[8]"] by simp
  have k: "length (aesKey (aesApply [WithAesModeCBC])) \<in> {16, 24, 32}" "length (desKey (desApply [])) = 8"
    by (simp_all add: aesApply_def desApply_def defaultAesOptions_def defaultDesOptions_def bytesOf_def)
  from symmetric_round_trip [OF a k(1) d k(2), of "[1, 2, 3]"] show ?thesis by blast
qed

text \<open>
  Ciphers keep state between calls, and a receiver that decrypts in the order of the sender
  reads every message: in each mode that the package offers, any sequence of messages
  encrypted by one cipher is decrypted by a cipher made from the same block cipher and vector.
\<close>

theorem cipher_session:
  assumes "mode \<in> set standardModes" "blockLaws b" "length iv = BlockSize b"
  shows "\<exists>c xs. Cipher mode b iv = Some (Some c) \<and> calls Encrypt c ms = Some xs \<and> calls Decrypt c xs = Some ms"
  using standard_matches [OF assms] matches_calls by metis

theorem cipher_session_witness:
  "\<exists>c xs. Cipher NewCTRMode \<lparr>BlockSize = 2, encryptBlock = xorBytes [7, 9], decryptBlock = xorBytes [7, 9]\<rparr> [0, 255]
       = Some (Some c)
     \<and> calls Encrypt c [[1, 2, 3], [], [4]] = Some xs \<and> calls Decrypt c xs = Some [[1, 2, 3], [], [4]]"
  by (rule cipher_session) (simp_all add: standardModes_def blockLaws_def)

text \<open>Reading the messages in another order does not: the key stream of the second is not that of the first.\<close>

lemma session_order_matters:
  "(case Cipher NewCTRMode \<lparr>BlockSize = 2, encryptBlock = xorBytes [7, 9], decryptBlock = xorBytes [7, 9]\<rparr> [0, 255] of
      Some (Some c) \<Rightarrow> (case calls Encrypt c [[1, 2, 3], [4]] of
          Some [x, y] \<Rightarrow> calls Decrypt c [y, x] \<noteq> Some [[4], [1, 2, 3]] | _ \<Rightarrow> False)
    | _ \<Rightarrow> False)"
  by code_simp

section \<open>Malformed input\<close>

lemma CryptBlocks_partial:
  "length src mod modeBlockSize d \<noteq> 0 \<Longrightarrow> CryptBlocks d dst src = None"
  by (cases d) (auto simp: ecbCryptBlocks_def cbcBlocks_def)

lemma CryptBlocks_Nil: "CryptBlocks d [] [] = Some (d', out) \<Longrightarrow> out = []"
  by (cases d) (auto simp: ecbCryptBlocks_def cbcBlocks_def ecbLoop.simps cbcEncrypt.simps cbcDecrypt.simps split: if_splits)

lemma Decrypt_malformed:
  assumes "length src mod modeBlockSize d \<noteq> 0 \<or> src = []"
  shows "Decrypt (BlockCipher NewPKCS57Padding e d) src = None"
  using assms CryptBlocks_partial [of src d] CryptBlocks_Nil [of d]
  by (auto simp: NewPKCS57Padding_def pkcs57UnPadding_def split: option.splits)

text \<open>
  Malformed ciphertext is not an error value but a panic: under the modes ECB and CBC, AES
  decryption of an empty slice, of an empty hexadecimal text, or of any number of bytes that is
  not a multiple of 16 panics, and no input gives an error once the key is accepted.
\<close>

theorem decrypt_panics:
  assumes "newCipherLaws aes {16, 24, 32} 16" "length (aesKey (aesApply opts)) \<in> {16, 24, 32}"
    and "aesMode (aesApply opts) = ''ECB'' \<or> aesMode (aesApply opts) = ''CBC''"
  shows "(data = [] \<or> length data mod 16 \<noteq> 0 \<longrightarrow> AesDecrypt aes data opts = Panic)
    \<and> AesDecryptHex aes '''' opts = Panic \<and> AesDecrypt aes data opts \<noteq> Err e"
proof -
  obtain b where b: "aes (aesKey (aesApply opts)) = Ok b" "BlockSize b = 16"
    using assms(1,2) by (auto simp: newCipherLaws_def split: if_splits)
  have "\<exists>m ec d. getCipherMode (aesMode (aesApply opts)) = Ok m \<and> modeBlockSize d = 16
      \<and> Cipher m b (take 16 (aesKey (aesApply opts))) = Some (Some (BlockCipher NewPKCS57Padding ec d))"
    using assms(3)
  proof
    assume "aesMode (aesApply opts) = ''ECB''"
    then show ?thesis by (simp add: getCipherMode_def new_modes NewECBDecrypt_def b)
  next
    assume "aesMode (aesApply opts) = ''CBC''"
    then show ?thesis using assms(2) b(2) by (auto simp: getCipherMode_def new_modes)
  qed
  then obtain m ec d where d: "getCipherMode (aesMode (aesApply opts)) = Ok m" "modeBlockSize d = 16"
    "Cipher m b (take 16 (aesKey (aesApply opts))) = Some (Some (BlockCipher NewPKCS57Padding ec d))" by blast
  have call: "AesDecrypt aes x opts = callCipher Decrypt (Some (BlockCipher NewPKCS57Padding ec d)) x" for x
    using d(1,3) b assms(2) by (auto simp: AesDecrypt_def aesDecryptByMode_def NewAESWith_def cipherWith_def Let_def)
  have p: "AesDecrypt aes x opts = Panic" if "x = [] \<or> length x mod 16 \<noteq> 0" for x
    unfolding call callCipher_def using Decrypt_malformed [of x d ec] that d(2) by auto
  moreover have "AesDecryptHex aes '''' opts = Panic"
    using p [of "[]"] by (simp add: AesDecryptHex_def AesDecrypt_def Let_def)
  moreover have "AesDecrypt aes data opts \<noteq> Err e"
    unfolding call callCipher_def by (auto split: option.splits)
  ultimately show ?thesis by blast
qed

theorem decrypt_panics_witness:
  "AesDecrypt (xorNewCipher [16, 24, 32] 16) [1, 2, 3] [] = Panic
   \<and> AesDecryptHex (xorNewCipher [16, 24, 32] 16) '''' [] = Panic"
proof -
  have a: "newCipherLaws (xorNewCipher [16, 24, 32] 16) {16, 24, 32} 16"
    using xorNewCipher_laws [of 16 "[16, 24, 32]"] by simp
  have k: "length (aesKey (aesApply [])) \<in> {16, 24, 32}"
    "aesMode (aesApply []) = ''ECB'' \<or> aesMode (aesApply []) = ''CBC''"
    by (simp_all add: aesApply_def defaultAesOptions_def bytesOf_def)
  from decrypt_panics [OF a k, of "[1, 2, 3]" HexLength] show ?thesis by simp
qed

text \<open>Setting a padding on a stream mode loses the mode: the cipher of the result is nil.\<close>

lemma stream_padding_nil: "mode \<in> {NewCFBMode, NewOFBMode, NewCTRMode} \<Longrightarrow> Cipher (SetPadding mode p) b iv = Some None"
  by (auto simp: new_modes)

end
