(* ===== verification/AuthToken.thy ===== *)
theory AuthToken
  imports GoStrings
begin

text \<open>
  Package \<open>pkg/token\<close> (\<open>token.go\<close>): the second token library of the services, for gin and gRPC requests.

  \<^item> The configuration of the package and its \<open>sync.Once\<close> are the record \<open>tstate\<close>; every function takes the
    configuration it reads. Times are in nanoseconds.
  \<^item> The library \<open>golang-jwt\<close> is the record \<open>jwtLib\<close>: \<open>libParse\<close> is \<open>jwt.Parse\<close> (the clock, the token and the
    key function, which is asked with the name of the signing method and is \<open>None\<close> on an error), \<open>libSign\<close> is
    \<open>SignedString\<close> with HS256. The hypothesis \<open>jwtLibLaws\<close> states what its documentation promises.
  \<^item> A request is a gin context with its path and its Authorization header, or a gRPC context with the
    answer of \<open>auth.AuthFromMD\<close>.
\<close>

section \<open>Configuration\<close>

record Config =
  cfgKey :: string
  identityKey :: string
  expiration :: int
  skipPaths :: "string list"

record tstate =
  config :: Config
  onceDone :: bool

datatype Option =
    WithKey string
  | WithIdentityKey string
  | WithExpiration int
  | WithSkipPaths "string list"
  | WithCommonSkipPaths
  | WithSkipPathsPattern "string list"

definition second_ns :: int where
  "second_ns = 10 ^ 9"

definition initialState :: tstate where
  "initialState = \<lparr>config = \<lparr>cfgKey = [], identityKey = [], expiration = 7200 * second_ns, skipPaths = []\<rparr>, onceDone = False\<rparr>"

definition commonPaths :: "string list" where
  "commonPaths = [''/health'', ''/healthz'', ''/health/*'', ''/ready'', ''/readiness'', ''/live'', ''/liveness'',
     ''/metrics'', ''/prometheus'', ''/status'', ''/ping'', ''/version'', ''/info'', ''/favicon.ico'', ''/robots.txt'']"

fun applyOption :: "Option \<Rightarrow> Config \<Rightarrow> Config" where
  "applyOption (WithKey key) c = (if key \<noteq> [] then c\<lparr>cfgKey := key\<rparr> else c)"
| "applyOption (WithIdentityKey k) c = c\<lparr>identityKey := k\<rparr>"
| "applyOption (WithExpiration e) c = (if 0 < e then c\<lparr>expiration := e\<rparr> else c)"
| "applyOption (WithSkipPaths paths) c = c\<lparr>skipPaths := skipPaths c @ paths\<rparr>"
| "applyOption WithCommonSkipPaths c = c\<lparr>skipPaths := skipPaths c @ commonPaths\<rparr>"
| "applyOption (WithSkipPathsPattern patterns) c = c\<lparr>skipPaths := skipPaths c @ patterns\<rparr>"

definition Init :: "string \<Rightarrow> Option list \<Rightarrow> tstate \<Rightarrow> tstate" where
  "Init key opts s = (if onceDone s then s
     else let c = (if key \<noteq> [] then (config s)\<lparr>cfgKey := key\<rparr> else config s)
          in s\<lparr>config := applyOpts (map applyOption opts) c, onceDone := True\<rparr>)"

definition Reset :: "tstate \<Rightarrow> tstate" where
  "Reset s = \<lparr>config = \<lparr>cfgKey = ''Rtg8BPKNEf2mB4mgvKONGPZZQSaJWNLijxR42qRgq0iBb5'', identityKey = ''identityKey'',
     expiration = 7200 * second_ns, skipPaths = []\<rparr>, onceDone = False\<rparr>"

section \<open>Skipped paths\<close>

text \<open>The loop over the middle parts, on \<open>str[currentPos:]\<close>.\<close>

fun matchMiddle :: "string \<Rightarrow> string list \<Rightarrow> bool" where
  "matchMiddle str [] = True"
| "matchMiddle str (part # parts) =
     (if part = [] then matchMiddle str parts
      else case strIndex str part of
          None \<Rightarrow> False
        | Some i \<Rightarrow> matchMiddle (drop (i + length part) str) parts)"

definition matchWildcard :: "string \<Rightarrow> string \<Rightarrow> bool" where
  "matchWildcard str pattern =
     (let parts = splitOn (CHR ''*'') pattern in
      if length parts = 1 then str = pattern
      else if \<not> hasPrefix str (hd parts) then False
      else if last parts \<noteq> [] \<and> \<not> hasSuffix str (last parts) then False
      else matchMiddle (drop (length (hd parts)) str) (butlast (tl parts)))"

definition matchPath :: "string \<Rightarrow> string \<Rightarrow> bool" where
  "matchPath requestPath pattern =
     (if requestPath = pattern then True
      else if hasSuffix pattern ''/*'' then hasPrefix requestPath (trimSuffix pattern ''/*'')
      else if hasSuffix pattern ''*'' then hasPrefix requestPath (trimSuffix pattern ''*'')
      else if strContains pattern ''*'' then matchWildcard requestPath pattern
      else False)"

definition shouldSkipPath :: "Config \<Rightarrow> string \<Rightarrow> bool" where
  "shouldSkipPath c requestPath = list_ex (matchPath requestPath) (skipPaths c)"

definition IsPathSkipped :: "Config \<Rightarrow> string \<Rightarrow> bool" where
  "IsPathSkipped c path = shouldSkipPath c path"

section \<open>Tokens\<close>

datatype tokErr =
    ErrMissingIdentityKey | ErrInvalidIdentityKey | ErrEmptyToken | ErrEmptyAuthHeader
  | ErrMalformedAuthHeader | ErrInvalidTokenClaims | ErrInvalidKey | ErrSignatureInvalid
  | ErrParse string | ErrSign string | ErrUnauthenticated string

datatype 'u claim = CStr string | CInt int | CFloat rat | COther 'u

type_synonym 'u mapClaims = "string \<rightharpoonup> 'u claim"

text \<open>A parsed token: \<open>Valid\<close>, and its claims when they are \<open>MapClaims\<close>.\<close>

record 'u parsed =
  valid :: bool
  claims :: "'u mapClaims option"

record 'u jwtLib =
  libParse :: "int \<Rightarrow> string \<Rightarrow> (string \<Rightarrow> string option) \<Rightarrow> string + 'u parsed"
  libSign :: "string \<Rightarrow> 'u mapClaims \<Rightarrow> string + string"

definition hmacMethods :: "string list" where
  "hmacMethods = [''HS256'', ''HS384'', ''HS512'']"

text \<open>The key function that all parsing functions pass.\<close>

definition hmacKey :: "string \<Rightarrow> string \<Rightarrow> string option" where
  "hmacKey key method = (if method \<in> set hmacMethods then Some key else None)"

definition ParseWithKey :: "'u jwtLib \<Rightarrow> int \<Rightarrow> string \<Rightarrow> string \<Rightarrow> tokErr + 'u mapClaims" where
  "ParseWithKey lib now tokenString key =
     (if tokenString = [] then Inl ErrEmptyToken
      else if key = [] then Inl ErrInvalidKey
      else case libParse lib now tokenString (hmacKey key) of
          Inl e \<Rightarrow> Inl (ErrParse e)
        | Inr t \<Rightarrow> if \<not> valid t then Inl ErrSignatureInvalid
                  else (case claims t of None \<Rightarrow> Inl ErrInvalidTokenClaims | Some c \<Rightarrow> Inr c))"

definition GetClaims :: "'u jwtLib \<Rightarrow> Config \<Rightarrow> int \<Rightarrow> string \<Rightarrow> tokErr + 'u mapClaims" where
  "GetClaims lib cfg now tokenString =
     (if tokenString = [] then Inl ErrEmptyToken
      else if cfgKey cfg = [] then Inl ErrInvalidKey
      else case libParse lib now tokenString (hmacKey (cfgKey cfg)) of
          Inl e \<Rightarrow> Inl (ErrParse e)
        | Inr t \<Rightarrow> if \<not> valid t then Inl ErrSignatureInvalid
                  else (case claims t of None \<Rightarrow> Inl ErrInvalidTokenClaims | Some c \<Rightarrow> Inr c))"

definition tokenParse :: "'u jwtLib \<Rightarrow> Config \<Rightarrow> int \<Rightarrow> string \<Rightarrow> tokErr + unit" where
  "tokenParse lib cfg now tokenString =
     (if tokenString = [] then Inl ErrEmptyToken
      else if cfgKey cfg = [] then Inl ErrInvalidKey
      else case libParse lib now tokenString (hmacKey (cfgKey cfg)) of
          Inl e \<Rightarrow> Inl (ErrParse e)
        | Inr t \<Rightarrow> if \<not> valid t then Inl ErrSignatureInvalid else Inr ())"

definition extractIdentity :: "Config \<Rightarrow> 'u mapClaims \<Rightarrow> tokErr + string" where
  "extractIdentity cfg c =
     (if identityKey cfg = [] then Inr []
      else case c (identityKey cfg) of
          None \<Rightarrow> Inl ErrMissingIdentityKey
        | Some (CStr identity) \<Rightarrow> if identity = [] then Inl ErrInvalidIdentityKey else Inr identity
        | Some _ \<Rightarrow> Inl ErrInvalidIdentityKey)"

definition ParseIdentity :: "'u jwtLib \<Rightarrow> Config \<Rightarrow> int \<Rightarrow> string \<Rightarrow> string \<Rightarrow> tokErr + string" where
  "ParseIdentity lib cfg now tokenString key =
     (if tokenString = [] then Inl ErrEmptyToken
      else if key = [] then Inl ErrInvalidKey
      else case libParse lib now tokenString (hmacKey key) of
          Inl e \<Rightarrow> Inl (ErrParse e)
        | Inr t \<Rightarrow> if \<not> valid t then Inl ErrSignatureInvalid
                  else (case claims t of None \<Rightarrow> Inl ErrInvalidTokenClaims | Some c \<Rightarrow> extractIdentity cfg c))"

definition unixSec :: "int \<Rightarrow> int" where
  "unixSec t = t div second_ns"

definition timeClaims :: "int \<Rightarrow> int \<Rightarrow> 'u mapClaims" where
  "timeClaims now expireAt = [''nbf'' \<mapsto> CInt (unixSec now), ''iat'' \<mapsto> CInt (unixSec now), ''exp'' \<mapsto> CInt (unixSec expireAt)]"

definition signClaims :: "'u jwtLib \<Rightarrow> Config \<Rightarrow> int \<Rightarrow> 'u mapClaims \<Rightarrow> tokErr + string \<times> int" where
  "signClaims lib cfg expireAt c = (case libSign lib (cfgKey cfg) c of
       Inl e \<Rightarrow> Inl (ErrSign e)
     | Inr s \<Rightarrow> Inr (s, expireAt))"

definition Sign :: "'u jwtLib \<Rightarrow> Config \<Rightarrow> int \<Rightarrow> string \<Rightarrow> tokErr + string \<times> int" where
  "Sign lib cfg now identityValue =
     (if cfgKey cfg = [] then Inl ErrInvalidKey
      else let expireAt = now + expiration cfg;
               c = timeClaims now expireAt;
               c' = (if identityKey cfg \<noteq> [] \<and> identityValue \<noteq> [] then c(identityKey cfg \<mapsto> CStr identityValue) else c)
           in signClaims lib cfg expireAt c')"

definition SignWithClaims :: "'u jwtLib \<Rightarrow> Config \<Rightarrow> int \<Rightarrow> 'u mapClaims \<Rightarrow> tokErr + string \<times> int" where
  "SignWithClaims lib cfg now customClaims =
     (if cfgKey cfg = [] then Inl ErrInvalidKey
      else let expireAt = now + expiration cfg
           in signClaims lib cfg expireAt (timeClaims now expireAt ++ customClaims))"

section \<open>Requests\<close>

text \<open>
  \<open>fmt.Sscanf(header, "Bearer %s", &token)\<close>: the literal, at least one space, then the code points up to
  the next space; a newline among the spaces or the end of the input is an error.
\<close>

definition scanBearer :: "string \<Rightarrow> string option" where
  "scanBearer header =
     (let cs = utf8_chunks (drop 6 header);
          rest = dropWhile (\<lambda>ch. space_chunk ch \<and> ch \<noteq> [CHR 10]) cs
      in if \<not> hasPrefix header ''Bearer'' \<or> cs = [] \<or> \<not> space_chunk (hd cs) then None
         else if rest = [] \<or> hd rest = [CHR 10] then None
         else Some (concat (map rune_str (takeWhile (\<lambda>ch. \<not> space_chunk ch) rest))))"

definition parseAuthorizationHeader :: "string \<Rightarrow> tokErr + string" where
  "parseAuthorizationHeader header = (case scanBearer header of
       None \<Rightarrow> Inl ErrMalformedAuthHeader
     | Some t \<Rightarrow> if t = [] then Inl ErrEmptyToken else Inr t)"

datatype requestCtx = GinContext string string | GrpcContext "string + string"

definition extractTokenFromGin :: "string \<Rightarrow> tokErr + string" where
  "extractTokenFromGin header = (if header = [] then Inl ErrEmptyAuthHeader else parseAuthorizationHeader header)"

definition extractTokenFromGRPC :: "string + string \<Rightarrow> tokErr + string" where
  "extractTokenFromGRPC md = (case md of
       Inl e \<Rightarrow> Inl (ErrUnauthenticated (''invalid auth token: '' @ e))
     | Inr t \<Rightarrow> Inr t)"

fun extractTokenFromRequest :: "requestCtx \<Rightarrow> tokErr + string" where
  "extractTokenFromRequest (GinContext path header) = extractTokenFromGin header"
| "extractTokenFromRequest (GrpcContext md) = extractTokenFromGRPC md"

fun shouldSkipRequestPath :: "Config \<Rightarrow> requestCtx \<Rightarrow> bool" where
  "shouldSkipRequestPath cfg (GinContext path header) = shouldSkipPath cfg path"
| "shouldSkipRequestPath cfg (GrpcContext md) = False"

definition ParseRequestIgnoreSkip :: "'u jwtLib \<Rightarrow> Config \<Rightarrow> int \<Rightarrow> requestCtx \<Rightarrow> tokErr + string" where
  "ParseRequestIgnoreSkip lib cfg now ctx = (case extractTokenFromRequest ctx of
       Inl e \<Rightarrow> Inl e
     | Inr t \<Rightarrow> ParseIdentity lib cfg now t (cfgKey cfg))"

definition ParseRequest :: "'u jwtLib \<Rightarrow> Config \<Rightarrow> int \<Rightarrow> requestCtx \<Rightarrow> tokErr + string" where
  "ParseRequest lib cfg now ctx =
     (if shouldSkipRequestPath cfg ctx then Inr []
      else case extractTokenFromRequest ctx of
          Inl e \<Rightarrow> Inl e
        | Inr t \<Rightarrow> ParseIdentity lib cfg now t (cfgKey cfg))"

section \<open>Path patterns\<close>

text \<open>What a pattern means: a star stands for any text, every other byte for itself.\<close>

fun glob :: "string \<Rightarrow> string \<Rightarrow> bool" where
  "glob [] s = (s = [])"
| "glob (c # p) s =
     (if c = CHR ''*'' then list_ex (\<lambda>k. glob p (drop k s)) [0..<Suc (length s)]
      else s \<noteq> [] \<and> hd s = c \<and> glob p (tl s))"

fun globParts :: "string list \<Rightarrow> string \<Rightarrow> bool" where
  "globParts [] s = False"
| "globParts [p] s = (s = p)"
| "globParts (p # q # ps) s = (\<exists>x y. s = p @ x @ y \<and> globParts (q # ps) y)"

lemma glob_star: "glob (CHR ''*'' # p) s \<longleftrightarrow> (\<exists>x y. s = x @ y \<and> glob p y)"
proof -
  have "glob (CHR ''*'' # p) s \<longleftrightarrow> (\<exists>k \<le> length s. glob p (drop k s))"
    by (auto simp: list_ex_iff less_Suc_eq_le simp del: upt_Suc)
  also have "\<dots> \<longleftrightarrow> (\<exists>x y. s = x @ y \<and> glob p y)"
    by (metis append_eq_conv_conj append_take_drop_id length_append le_add1)
  finally show ?thesis .
qed

lemma globParts_Cons: "globParts ((c # p) # ps) s \<longleftrightarrow> (\<exists>t. s = c # t \<and> globParts (p # ps) t)"
  by (cases ps) auto

lemma glob_parts: "glob p s \<longleftrightarrow> globParts (splitOn (CHR ''*'') p) s"
proof (induction p arbitrary: s)
  case (Cons c p)
  obtain w ws where w: "splitOn (CHR ''*'') p = w # ws" by (cases "splitOn (CHR ''*'') p") auto
  show ?case
  proof (cases "c = CHR ''*''")
    case True
    then show ?thesis using Cons w by (simp add: glob_star del: glob.simps)
  next
    case False
    then show ?thesis using Cons w globParts_Cons by (cases s) auto
  qed
qed simp

lemma matchMiddle_mono: "matchMiddle y ps \<Longrightarrow> matchMiddle (z @ y) ps"
proof (induction ps arbitrary: y z)
  case (Cons q ps)
  show ?case
  proof (cases "q = []")
    case True
    with Cons show ?thesis by simp
  next
    case False
    with Cons.prems obtain i where i: "strIndex y q = Some i" "matchMiddle (drop (i + length q) y) ps"
      by (auto split: option.splits)
    then have "hasPrefix (drop (length z + i) (z @ y)) q" "length z + i \<le> length (z @ y)"
      using strIndex_prefix [of y q i] by auto
    then obtain j where j: "strIndex (z @ y) q = Some j" "j \<le> length z + i"
      using strIndex_le by blast
    have "length z + i - j + (j + length q) = length z + (i + length q)" using j(2) by simp
    then have "drop (length z + i - j) (drop (j + length q) (z @ y)) = drop (i + length q) y"
      by (simp only: drop_drop) simp
    then have "matchMiddle (drop (j + length q) (z @ y)) ps"
      using Cons.IH [OF i(2)] append_take_drop_id by metis
    with j(1) False show ?thesis by simp
  qed
qed simp

lemma globParts_matchMiddle:
  "globParts (p # ps) s \<Longrightarrow> ps \<noteq> [] \<Longrightarrow>
   hasPrefix s p \<and> hasSuffix s (last ps) \<and> matchMiddle (drop (length p) s) (butlast ps)"
proof (induction ps arbitrary: p s)
  case (Cons q ps)
  then obtain x y where s: "s = p @ x @ y" and y: "globParts (q # ps) y" by auto
  show ?case
  proof (cases "ps = []")
    case True
    with s y show ?thesis by (auto simp: hasPrefix_iff hasSuffix_iff)
  next
    case False
    from Cons.IH [OF y False] have ih: "hasPrefix y q" "hasSuffix y (last ps)"
      "matchMiddle (drop (length q) y) (butlast ps)" by auto
    have "hasSuffix s (last ps)" using ih(2) s by (auto simp: hasSuffix_iff)
    moreover have "matchMiddle y (q # butlast ps)"
    proof (cases "q = []")
      case True
      with ih(3) show ?thesis by simp
    next
      case ne: False
      have "hasPrefix (drop 0 y) q" using ih(1) by simp
      then have "strIndex y q = Some 0" using strIndex_le [of 0 y q] by auto
      with ne ih(3) show ?thesis by simp
    qed
    then have "matchMiddle (x @ y) (q # butlast ps)" by (rule matchMiddle_mono)
    ultimately show ?thesis using s False by (auto simp: hasPrefix_iff)
  qed
qed simp

lemma glob_matchWildcard: "glob p s \<Longrightarrow> matchWildcard s p"
proof -
  assume "glob p s"
  obtain w ws where w: "splitOn (CHR ''*'') p = w # ws" by (cases "splitOn (CHR ''*'') p") auto
  show ?thesis
  proof (cases "ws = []")
    case True
    then have "p = w" using w joinWith_splitOn [of "CHR ''*''" p] by simp
    with True \<open>glob p s\<close> w show ?thesis by (simp add: glob_parts matchWildcard_def)
  next
    case False
    with \<open>glob p s\<close> w globParts_matchMiddle [of w ws s] show ?thesis
      by (auto simp: glob_parts matchWildcard_def Let_def)
  qed
qed

lemma matchPath_no_star: "CHR ''*'' \<notin> set p \<Longrightarrow> matchPath path p \<longleftrightarrow> path = p"
  by (auto simp: matchPath_def hasSuffix_iff strContains_iff)

lemma matchPath_slash_star: "matchPath path (p @ ''/*'') \<longleftrightarrow> hasPrefix path p"
proof -
  have "hasSuffix (p @ ''/*'') ''/*''" by (auto simp: hasSuffix_iff)
  moreover have "trimSuffix (p @ ''/*'') ''/*'' = p"
    using calculation by (simp add: trimSuffix_def)
  ultimately show ?thesis by (auto simp: matchPath_def hasPrefix_iff)
qed

lemma glob_matchPath:
  assumes "\<not> hasSuffix p ''*''" "glob p path"
  shows "matchPath path p"
proof (cases "CHR ''*'' \<in> set p")
  case True
  then have "strContains p ''*''" by (auto simp: strContains_iff dest!: split_list)
  moreover have "\<not> hasSuffix p ''/*''" using assms(1) by (auto simp: hasSuffix_iff)
  ultimately show ?thesis using assms glob_matchWildcard by (simp add: matchPath_def)
next
  case False
  then have "splitOn (CHR ''*'') p = [p]" by (rule splitOn_free)
  with assms(2) False show ?thesis by (simp add: glob_parts matchPath_no_star)
qed



text \<open>
  The converse does not hold: the start and the end of a pattern may overlap in the path, and a
  pattern with two stars of which one is last is compared literally.
\<close>

lemma wildcard_overlap: "matchPath ''/ab'' ''/a*ab'' \<and> \<not> glob ''/a*ab'' ''/ab''"
  by code_simp

lemma two_stars_literal: "\<not> matchPath ''/api/v1/open/x'' ''/api/*/open/*'' \<and> glob ''/api/*/open/*'' ''/api/v1/open/x''"
  by code_simp

section \<open>Authentication\<close>


text \<open>
  What the library promises for one key and one set of claims: signing succeeds, and parsing the
  result under the same key while the time claims hold gives a valid token whose string claims
  are the signed ones.
\<close>

definition timely :: "int \<Rightarrow> 'u mapClaims \<Rightarrow> bool" where
  "timely n c \<longleftrightarrow> (case (c ''nbf'', c ''iat'', c ''exp'') of
       (Some (CInt a), Some (CInt b), Some (CInt e)) \<Rightarrow> 0 \<le> a \<and> a \<le> n \<and> 0 \<le> b \<and> b \<le> n \<and> n < e \<and> e \<le> 2 ^ 53
     | _ \<Rightarrow> False)"

definition libRoundTrip :: "'u jwtLib \<Rightarrow> string \<Rightarrow> 'u mapClaims \<Rightarrow> bool" where
  "libRoundTrip lib key c \<longleftrightarrow> (\<exists>s. s \<noteq> [] \<and> libSign lib key c = Inr s
     \<and> (\<forall>now kf. kf ''HS256'' = Some key \<longrightarrow> timely (unixSec now) c \<longrightarrow>
          (\<exists>t c'. libParse lib now s kf = Inr t \<and> valid t \<and> claims t = Some c'
             \<and> (\<forall>k x. c k = Some (CStr x) \<longrightarrow> c' k = Some (CStr x)))))"

definition identityClaims :: "Config \<Rightarrow> int \<Rightarrow> string \<Rightarrow> 'u mapClaims" where
  "identityClaims cfg now identity = (timeClaims now (now + expiration cfg))(identityKey cfg \<mapsto> CStr identity)"

lemma hmacKey_HS256 [simp]: "hmacKey key ''HS256'' = Some key"
  by (simp add: hmacKey_def hmacMethods_def)

text \<open>
  A token signed for a user is read back as that user from the second of its issue until the
  second of its expiry, and the expiry returned is the configured duration after the issue, when
  the claim of the identity is none of the three time claims.
\<close>

theorem sign_parse_identity:
  fixes lib :: "'u jwtLib"
  assumes "cfgKey cfg \<noteq> []" "identity \<noteq> []" "identityKey cfg \<notin> {[], ''nbf'', ''iat'', ''exp''}"
    and "libRoundTrip lib (cfgKey cfg) (identityClaims cfg now identity)"
    and "0 \<le> now" "unixSec now \<le> unixSec later" "unixSec later < unixSec (now + expiration cfg)"
    and "unixSec (now + expiration cfg) \<le> 2 ^ 53"
  shows "\<exists>tok. Sign lib cfg now identity = Inr (tok, now + expiration cfg)
    \<and> ParseIdentity lib cfg later tok (cfgKey cfg) = Inr identity"
proof -
  let ?c = "identityClaims cfg now identity :: 'u mapClaims"
  have "0 \<le> unixSec now" using assms(5) by (simp add: unixSec_def second_ns_def pos_imp_zdiv_nonneg_iff)
  moreover have i: "identityKey cfg \<noteq> ''nbf''" "identityKey cfg \<noteq> ''iat''" "identityKey cfg \<noteq> ''exp''"
    using assms(3) by simp_all
  have "?c ''nbf'' = Some (CInt (unixSec now))" "?c ''iat'' = Some (CInt (unixSec now))"
    "?c ''exp'' = Some (CInt (unixSec (now + expiration cfg)))"
    by (simp_all add: identityClaims_def timeClaims_def i i [symmetric])
  ultimately have t: "timely (unixSec later) ?c"
    using assms(6-8) by (simp add: timely_def)
  obtain s where s: "s \<noteq> []" "libSign lib (cfgKey cfg) ?c = Inr s"
    and p: "\<exists>t c'. libParse lib later s (hmacKey (cfgKey cfg)) = Inr t \<and> valid t \<and> claims t = Some c'
             \<and> (\<forall>k x. ?c k = Some (CStr x) \<longrightarrow> c' k = Some (CStr x))"
    using assms(4) t unfolding libRoundTrip_def by (metis hmacKey_HS256)
  have "?c (identityKey cfg) = Some (CStr identity)" by (simp add: identityClaims_def)
  with p obtain u c' where u: "libParse lib later s (hmacKey (cfgKey cfg)) = Inr u" "valid u" "claims u = Some c'"
    "c' (identityKey cfg) = Some (CStr identity)" by blast
  have "ParseIdentity lib cfg later s (cfgKey cfg) = Inr identity"
    using assms(1-3) s(1) u by (simp add: ParseIdentity_def extractIdentity_def)
  moreover have "Sign lib cfg now identity = Inr (s, now + expiration cfg)"
    using assms(1-3) s(2) by (simp add: Sign_def signClaims_def identityClaims_def)
  ultimately show ?thesis by blast
qed

definition demoConfig :: Config where
  "demoConfig = \<lparr>cfgKey = ''secret'', identityKey = ''sub'', expiration = 60 * second_ns, skipPaths = []\<rparr>"

definition demoLib :: "unit jwtLib" where
  "demoLib = \<lparr>libParse = (\<lambda>now s kf. if kf ''HS256'' = Some ''secret'' then Inr \<lparr>valid = True, claims = Some (identityClaims demoConfig 0 ''alice'')\<rparr>
       else Inl ''signature is invalid''), libSign = (\<lambda>key c. Inr ''token'')\<rparr>"

theorem sign_parse_identity_witness:
  "\<exists>tok. Sign demoLib demoConfig 0 ''alice'' = Inr (tok, expiration demoConfig)
    \<and> ParseIdentity demoLib demoConfig (59 * second_ns) tok ''secret'' = Inr ''alice''"
proof -
  have law: "libRoundTrip demoLib (cfgKey demoConfig) (identityClaims demoConfig 0 ''alice'')"
    by (simp add: libRoundTrip_def demoLib_def demoConfig_def)
  have "\<exists>tok. Sign demoLib demoConfig 0 ''alice'' = Inr (tok, 0 + expiration demoConfig)
    \<and> ParseIdentity demoLib demoConfig (59 * second_ns) tok (cfgKey demoConfig) = Inr ''alice''"
    by (rule sign_parse_identity [OF _ _ _ law]) (simp_all add: demoConfig_def unixSec_def second_ns_def)
  then show ?thesis by (simp add: demoConfig_def)
qed


text \<open>
  \<open>SignWithClaims\<close> reports the configured expiry also when the claims carry another one.
\<close>

lemma custom_exp_reported:
  assumes "cfgKey cfg \<noteq> []" "c ''exp'' = Some v" "libSign lib (cfgKey cfg) (timeClaims now (now + expiration cfg) ++ c) = Inr s"
  shows "SignWithClaims lib cfg now c = Inr (s, now + expiration cfg)
    \<and> (timeClaims now (now + expiration cfg) ++ c) ''exp'' = Some v"
  using assms by (simp add: SignWithClaims_def signClaims_def)

end
