(* ===== verification/WhereOpts.thy ===== *)
theory WhereOpts
  imports Prelude
begin

text \<open>
  Package \<open>pkg/store/where\<close> (\<open>where.go\<close>): the query options of the generated stores. Keys, values and
  clauses are of any type; \<open>db.Statement.BuildCondition\<close> of gorm is the parameter \<open>build\<close>, and what
  \<open>Where\<close> hands to gorm is the record \<open>gormCall\<close>. The filter map is an option, \<open>None\<close> for the nil map;
  a result \<open>None\<close> is a panic. The registered tenant of the package is an argument.
\<close>

section \<open>Options\<close>

definition defaultLimit :: int where
  "defaultLimit = -1"

record ('k, 'c) Tenant =
  tnKey :: 'k
  ValueFunc :: "('c \<Rightarrow> 'k) option"

record ('q, 'a) Query =
  query :: 'q
  qArgs :: "'a list"

record ('k, 'cl, 'q, 'a) Options =
  whOffset :: int
  whLimit :: int
  Filters :: "('k \<rightharpoonup> 'k) option"
  Clauses :: "'cl list"
  Queries :: "('q, 'a) Query list"

datatype ('k, 'cl, 'q, 'a) WhereOption =
    WithOffset int
  | WithLimit int
  | WithPage int int
  | WithFilter "('k \<rightharpoonup> 'k) option"
  | WithClauses "'cl list"
  | WithQuery 'q "'a list"

fun whereOption :: "('k, 'cl, 'q, 'a) WhereOption \<Rightarrow> ('k, 'cl, 'q, 'a) Options \<Rightarrow> ('k, 'cl, 'q, 'a) Options" where
  "whereOption (WithOffset n) w = w\<lparr>whOffset := if n < 0 then 0 else n\<rparr>"
| "whereOption (WithLimit n) w = w\<lparr>whLimit := if n \<le> 0 then defaultLimit else n\<rparr>"
| "whereOption (WithPage pg psz) w =
     (let pg' = if pg = 0 then 1 else pg; psz' = if psz = 0 then defaultLimit else psz
      in w\<lparr>whOffset := i64 (i64 (pg' - 1) * psz'), whLimit := psz'\<rparr>)"
| "whereOption (WithFilter filt) w = w\<lparr>Filters := filt\<rparr>"
| "whereOption (WithClauses conds) w = w\<lparr>Clauses := Clauses w @ conds\<rparr>"
| "whereOption (WithQuery q as) w = w\<lparr>Queries := Queries w @ [\<lparr>query = q, qArgs = as\<rparr>]\<rparr>"

definition emptyWhere :: "('k, 'cl, 'q, 'a) Options" where
  "emptyWhere = \<lparr>whOffset = 0, whLimit = defaultLimit, Filters = Some Map.empty, Clauses = [], Queries = []\<rparr>"

definition NewWhere :: "('k, 'cl, 'q, 'a) WhereOption list \<Rightarrow> ('k, 'cl, 'q, 'a) Options" where
  "NewWhere opts = applyOpts (map whereOption opts) emptyWhere"

section \<open>Methods\<close>

definition whrO :: "int \<Rightarrow> ('k, 'cl, 'q, 'a) Options \<Rightarrow> ('k, 'cl, 'q, 'a) Options" where
  "whrO n w = w\<lparr>whOffset := if n < 0 then 0 else n\<rparr>"

definition whrL :: "int \<Rightarrow> ('k, 'cl, 'q, 'a) Options \<Rightarrow> ('k, 'cl, 'q, 'a) Options" where
  "whrL n w = w\<lparr>whLimit := if n \<le> 0 then defaultLimit else n\<rparr>"

definition whrP :: "int \<Rightarrow> int \<Rightarrow> ('k, 'cl, 'q, 'a) Options \<Rightarrow> ('k, 'cl, 'q, 'a) Options" where
  "whrP pg psz w =
     (let pg' = if pg < 1 then 1 else pg; psz' = if psz \<le> 0 then defaultLimit else psz
      in w\<lparr>whOffset := i64 ((pg' - 1) * psz'), whLimit := psz'\<rparr>)"

definition whrC :: "'cl list \<Rightarrow> ('k, 'cl, 'q, 'a) Options \<Rightarrow> ('k, 'cl, 'q, 'a) Options" where
  "whrC conds w = w\<lparr>Clauses := Clauses w @ conds\<rparr>"

definition whrQ :: "'q \<Rightarrow> 'a list \<Rightarrow> ('k, 'cl, 'q, 'a) Options \<Rightarrow> ('k, 'cl, 'q, 'a) Options" where
  "whrQ q as w = w\<lparr>Queries := Queries w @ [\<lparr>query = q, qArgs = as\<rparr>]\<rparr>"

text \<open>The loop over the pairs; an assignment to an entry of the nil map panics.\<close>

fun setFilters :: "'k list \<Rightarrow> ('k \<rightharpoonup> 'k) option \<Rightarrow> ('k \<rightharpoonup> 'k) option option" where
  "setFilters (k # v # kvs) m = (case m of None \<Rightarrow> None | Some f \<Rightarrow> setFilters kvs (Some (f(k \<mapsto> v))))"
| "setFilters _ m = Some m"

definition whrF :: "'k list \<Rightarrow> ('k, 'cl, 'q, 'a) Options \<Rightarrow> ('k, 'cl, 'q, 'a) Options option" where
  "whrF kvs w = (if length kvs mod 2 \<noteq> 0 then Some w
     else map_option (\<lambda>m. w\<lparr>Filters := m\<rparr>) (setFilters kvs (Filters w)))"

text \<open>\<open>nokey\<close> is the empty string among the keys.\<close>

definition whrT :: "'k \<Rightarrow> ('k, 'c) Tenant \<Rightarrow> 'c \<Rightarrow> ('k, 'cl, 'q, 'a) Options \<Rightarrow> ('k, 'cl, 'q, 'a) Options option" where
  "whrT nokey tn ctx w = (case ValueFunc tn of
       Some f \<Rightarrow> if tnKey tn \<noteq> nokey then whrF [tnKey tn, f ctx] w else Some w
     | None \<Rightarrow> Some w)"

record ('k, 'cl) gormCall =
  gWhere :: "('k \<rightharpoonup> 'k) option"
  gClauses :: "'cl list"
  gOffset :: int
  gLimit :: int

definition whrWhere :: "(('q, 'a) Query \<Rightarrow> 'cl list) \<Rightarrow> ('k, 'cl, 'q, 'a) Options
    \<Rightarrow> ('k, 'cl, 'q, 'a) Options \<times> ('k, 'cl) gormCall" where
  "whrWhere build w =
     (let w' = w\<lparr>Clauses := Clauses w @ concat (map build (Queries w))\<rparr>
      in (w', \<lparr>gWhere = Filters w', gClauses = Clauses w', gOffset = whOffset w', gLimit = whLimit w'\<rparr>))"

section \<open>Functions of the package\<close>

definition newO :: "int \<Rightarrow> ('k, 'cl, 'q, 'a) Options" where
  "newO n = whrO n (NewWhere [])"

definition newL :: "int \<Rightarrow> ('k, 'cl, 'q, 'a) Options" where
  "newL n = whrL n (NewWhere [])"

definition newP :: "int \<Rightarrow> int \<Rightarrow> ('k, 'cl, 'q, 'a) Options" where
  "newP pg psz = whrP pg psz (NewWhere [])"

definition newC :: "'cl list \<Rightarrow> ('k, 'cl, 'q, 'a) Options" where
  "newC conds = whrC conds (NewWhere [])"

definition newF :: "'k list \<Rightarrow> ('k, 'cl, 'q, 'a) Options option" where
  "newF kvs = whrF kvs (NewWhere [])"

text \<open>The call of a nil function panics.\<close>

definition newT :: "('k, 'c) Tenant \<Rightarrow> 'c \<Rightarrow> ('k, 'cl, 'q, 'a) Options option" where
  "newT tn ctx = (case ValueFunc tn of None \<Rightarrow> None | Some f \<Rightarrow> whrF [tnKey tn, f ctx] (NewWhere []))"

definition RegisterTenant :: "'k \<Rightarrow> ('c \<Rightarrow> 'k) option \<Rightarrow> ('k, 'c) Tenant" where
  "RegisterTenant key f = \<lparr>tnKey = key, ValueFunc = f\<rparr>"

section \<open>Chains of calls\<close>

datatype ('k, 'cl, 'q, 'a) step =
  StepO int | StepL int | StepP int int | StepC "'cl list" | StepQ 'q "'a list" | StepF "'k list"

fun runStep :: "('k, 'cl, 'q, 'a) step \<Rightarrow> ('k, 'cl, 'q, 'a) Options \<Rightarrow> ('k, 'cl, 'q, 'a) Options option" where
  "runStep (StepO n) w = Some (whrO n w)"
| "runStep (StepL n) w = Some (whrL n w)"
| "runStep (StepP pg psz) w = Some (whrP pg psz w)"
| "runStep (StepC conds) w = Some (whrC conds w)"
| "runStep (StepQ q as) w = Some (whrQ q as w)"
| "runStep (StepF kvs) w = whrF kvs w"

fun runSteps :: "('k, 'cl, 'q, 'a) step list \<Rightarrow> ('k, 'cl, 'q, 'a) Options \<Rightarrow> ('k, 'cl, 'q, 'a) Options option" where
  "runSteps [] w = Some w"
| "runSteps (s # ss) w = (case runStep s w of None \<Rightarrow> None | Some w' \<Rightarrow> runSteps ss w')"

lemma setFilters_last:
  "setFilters kvs (Some f) = Some (Some g) \<Longrightarrow> k \<notin> set kvs \<Longrightarrow> g k = f k"
  by (induction kvs "Some f" arbitrary: f rule: setFilters.induct) auto

lemma setFilters_Some: "\<exists>g. setFilters kvs (Some f) = Some (Some g)"
  by (induction kvs "Some f" arbitrary: f rule: setFilters.induct) auto

definition setsKey :: "'k \<Rightarrow> ('k, 'cl, 'q, 'a) step \<Rightarrow> bool" where
  "setsKey k s = (case s of StepF kvs \<Rightarrow> k \<in> set kvs | _ \<Rightarrow> False)"

lemma runStep_filters:
  assumes "Filters w = Some f" "f k = Some v" "\<not> setsKey k s"
  shows "\<exists>w' f'. runStep s w = Some w' \<and> Filters w' = Some f' \<and> f' k = Some v"
proof (cases s)
  case (StepF kvs)
  obtain g where g: "setFilters kvs (Some f) = Some (Some g)" using setFilters_Some by blast
  with StepF assms setFilters_last [OF g] show ?thesis by (simp add: whrF_def setsKey_def)
qed (use assms in \<open>simp_all add: whrO_def whrL_def whrP_def whrC_def whrQ_def Let_def\<close>)

lemma runSteps_filters:
  assumes "Filters w = Some f" "f k = Some v" "list_all (\<lambda>s. \<not> setsKey k s) ss"
  shows "\<exists>w' f'. runSteps ss w = Some w' \<and> Filters w' = Some f' \<and> f' k = Some v"
  using assms
proof (induction ss arbitrary: w f)
  case (Cons s ss)
  then obtain w1 f1 where "runStep s w = Some w1" "Filters w1 = Some f1" "f1 k = Some v"
    using runStep_filters [of w f k v s] by auto
  with Cons show ?case by auto
qed simp

text \<open>
  Tenants stay separate: with a tenant registered under a non-empty key, a chain that starts with
  the tenant and whose later filters do not name its key runs without a panic, and every query it
  leads to carries the filter for the tenant of the request. Running the query twice adds the
  conditions of its queries a second time.
\<close>

theorem where_tenant_filter:
  assumes "key \<noteq> nokey" "list_all (\<lambda>s. \<not> setsKey key s) ss"
  shows "\<exists>w w' g. whrT nokey (RegisterTenant key (Some f)) ctx (NewWhere []) = Some w \<and> runSteps ss w = Some w'
    \<and> gWhere (snd (whrWhere build w')) = Some g \<and> g key = Some (f ctx)
    \<and> gClauses (snd (whrWhere build (fst (whrWhere build w')))) =
        Clauses w' @ concat (map build (Queries w')) @ concat (map build (Queries w'))"
proof -
  let ?w = "(NewWhere [])\<lparr>Filters := Some [key \<mapsto> f ctx]\<rparr>"
  have w: "whrT nokey (RegisterTenant key (Some f)) ctx (NewWhere []) = Some ?w"
    using assms(1) by (simp add: whrT_def RegisterTenant_def whrF_def NewWhere_def emptyWhere_def)
  obtain w' g where "runSteps ss ?w = Some w'" "Filters w' = Some g" "g key = Some (f ctx)"
    using runSteps_filters [of ?w "[key \<mapsto> f ctx]" key "f ctx" ss] assms(2) by auto
  with w show ?thesis by (auto simp: whrWhere_def Let_def)
qed

theorem where_tenant_filter_witness:
  "\<exists>w w' g. whrT '''' (RegisterTenant ''tenant_id'' (Some (\<lambda>ctx :: unit. ''acme''))) () (NewWhere []) = Some w
    \<and> runSteps [StepF [''status'', ''open''], StepP 2 10, StepC [1 :: nat]] w = Some w'
    \<and> gWhere (snd (whrWhere (\<lambda>q :: (string, nat) Query. [length (qArgs q)]) w')) = Some g \<and> g ''tenant_id'' = Some ''acme''"
proof -
  have a: "''tenant_id'' \<noteq> ''''" by simp
  have b: "list_all (\<lambda>s. \<not> setsKey ''tenant_id'' s)
    [StepF [''status'', ''open''], StepP 2 10, StepC [1 :: nat] :: (string, nat, string, nat) step]"
    by (simp add: setsKey_def)
  from where_tenant_filter [OF a b, of "\<lambda>_. ''acme''" "()" "\<lambda>q. [length (qArgs q)]"] show ?thesis by blast
qed

text \<open>Pages: limits are positive or absent; offsets are exact while they fit 64 bits.\<close>

lemma whrP_page:
  assumes "0 < pg" "0 < psz" "(pg - 1) * psz < 2 ^ 63"
  shows "whOffset (whrP pg psz w) = (pg - 1) * psz \<and> whLimit (whrP pg psz w) = psz"
proof -
  have "0 \<le> (pg - 1) * psz" using assms(1,2) by (intro mult_nonneg_nonneg) auto
  then have "i64 ((pg - 1) * psz) = (pg - 1) * psz" using assms(3) by (intro i64_id) linarith+
  with assms(1,2) show ?thesis by (simp add: whrP_def)
qed

lemma whrP_no_limit: "psz \<le> 0 \<Longrightarrow> 1 \<le> pg \<Longrightarrow> pg < 2 ^ 62 \<Longrightarrow> whLimit (whrP pg psz w) = -1 \<and> whOffset (whrP pg psz w) = 1 - pg"
  by (simp add: whrP_def defaultLimit_def i64_id)

text \<open>Without a registered tenant the method adds no filter and the function of the package panics.\<close>

lemma tenant_unregistered: "whrT nokey (RegisterTenant key None) ctx w = Some w \<and> newT (RegisterTenant key None) ctx = None"
  by (simp add: whrT_def newT_def RegisterTenant_def)

end
