(* ===== verification/Replacer.thy ===== *)
theory Replacer
  imports GoStrings "HOL-Library.AList" "HOL-Library.Multiset"
begin

text \<open>
  The text replacer that writes the generated projects (\<open>pkg/replacer/replacer.go\<close>) and the directory listings it
  uses (\<open>pkg/gofile/filePath.go\<close>).

  \<^item> A directory is a tree of entries in the order \<open>os.ReadDir\<close> returns them; a directory that cannot be
    read has no list.
  \<^item> The file system is the record \<open>fsys\<close>; the operating system (separator of the build, failures and what
    a failing write leaves, the current directory, the clock, the order in which the n-th loop visits a Go map) is the record \<open>osEnv\<close>.
  \<^item> \<open>text/template\<close> is the parameter \<open>render\<close>. Volume names of Windows paths are left out of \<open>filepath.Split\<close>.
\<close>

section \<open>Directories\<close>

datatype entry = FileEntry string | DirEntry string "entry list option"

definition pathDelimiter :: "bool \<Rightarrow> string" where
  "pathDelimiter win = (if win then [CHR 0x5C] else ''/'')"

definition isSep :: "bool \<Rightarrow> char \<Rightarrow> bool" where
  "isSep win c \<longleftrightarrow> c = CHR ''/'' \<or> (win \<and> c = CHR 0x5C)"

definition splitPath :: "bool \<Rightarrow> string \<Rightarrow> string \<times> string" where
  "splitPath win p =
     (let file = rev (takeWhile (\<lambda>c. \<not> isSep win c) (rev p)) in (take (length p - length file) p, file))"

definition GetFilename :: "bool \<Rightarrow> string \<Rightarrow> string" where
  "GetFilename win p = snd (splitPath win p)"

text \<open>The walks: the files found so far, and whether a directory could not be read.\<close>

fun walkEntry :: "bool \<Rightarrow> string \<Rightarrow> entry \<Rightarrow> string list \<times> bool"
and walkDir :: "bool \<Rightarrow> string \<Rightarrow> entry list \<Rightarrow> string list \<times> bool" where
  "walkEntry win dirPath (FileEntry n) = ([dirPath @ pathDelimiter win @ n], True)"
| "walkEntry win dirPath (DirEntry n None) = ([], False)"
| "walkEntry win dirPath (DirEntry n (Some es)) = walkDir win (dirPath @ pathDelimiter win @ n) es"
| "walkDir win dirPath [] = ([], True)"
| "walkDir win dirPath (e # es) = (case walkEntry win dirPath e of
       (fs, False) \<Rightarrow> (fs, False)
     | (fs, True) \<Rightarrow> (case walkDir win dirPath es of (gs, ok) \<Rightarrow> (fs @ gs, ok)))"

fun walkEntryWithFilter :: "(string \<Rightarrow> bool) \<Rightarrow> bool \<Rightarrow> string \<Rightarrow> entry \<Rightarrow> string list \<times> bool"
and walkDirWithFilter :: "(string \<Rightarrow> bool) \<Rightarrow> bool \<Rightarrow> string \<Rightarrow> entry list \<Rightarrow> string list \<times> bool" where
  "walkEntryWithFilter P win dirPath (FileEntry n) =
     (let deepFile = dirPath @ pathDelimiter win @ n in (if P deepFile then [deepFile] else [], True))"
| "walkEntryWithFilter P win dirPath (DirEntry n None) = ([], False)"
| "walkEntryWithFilter P win dirPath (DirEntry n (Some es)) = walkDirWithFilter P win (dirPath @ pathDelimiter win @ n) es"
| "walkDirWithFilter P win dirPath [] = ([], True)"
| "walkDirWithFilter P win dirPath (e # es) = (case walkEntryWithFilter P win dirPath e of
       (fs, False) \<Rightarrow> (fs, False)
     | (fs, True) \<Rightarrow> (case walkDirWithFilter P win dirPath es of (gs, ok) \<Rightarrow> (fs @ gs, ok)))"

definition matchSuffix :: "string \<Rightarrow> string \<Rightarrow> bool" where
  "matchSuffix suffixName filename = (suffixName \<noteq> [] \<and> length suffixName \<le> length filename
     \<and> drop (length filename - length suffixName) filename = suffixName)"

definition matchPrefix :: "bool \<Rightarrow> string \<Rightarrow> string \<Rightarrow> bool" where
  "matchPrefix win prefixName filePath = (let filename = GetFilename win filePath in
     prefixName \<noteq> [] \<and> length prefixName \<le> length filename \<and> take (length prefixName) filename = prefixName)"

definition matchContain :: "bool \<Rightarrow> string \<Rightarrow> string \<Rightarrow> bool" where
  "matchContain win containName filePath = (containName \<noteq> [] \<and> strContains (GetFilename win filePath) containName)"

datatype listFilter = NoFilter | PrefixFilter string | SuffixFilter string | ContainFilter string

text \<open>
  \<open>ListFiles\<close> on the entries of the directory, \<open>None\<close> when it cannot be read: the files and whether
  there was no error. \<open>absFn\<close> is \<open>filepath.Abs\<close> and \<open>noAbsolutePath\<close> the option that leaves it out.
\<close>

definition ListFiles :: "(string \<Rightarrow> string option) \<Rightarrow> bool \<Rightarrow> string \<Rightarrow> entry list option \<Rightarrow> bool \<Rightarrow> listFilter \<Rightarrow> string list \<times> bool" where
  "ListFiles absFn win dirPath0 dir noAbsolutePath filt =
     (case (if noAbsolutePath then Some dirPath0 else absFn dirPath0) of None \<Rightarrow> ([], False) | Some dirPath \<Rightarrow>
      (case dir of None \<Rightarrow> ([], False) | Some es \<Rightarrow>
       (case filt of
          PrefixFilter n \<Rightarrow> walkDirWithFilter (matchPrefix win n) win dirPath es
        | SuffixFilter n \<Rightarrow> walkDirWithFilter (matchSuffix n) win dirPath es
        | ContainFilter n \<Rightarrow> walkDirWithFilter (matchContain win n) win dirPath es
        | NoFilter \<Rightarrow> walkDir win dirPath es)))"

text \<open>The walk over an embedded directory: slashes, and failures below the root are skipped.\<close>

fun embedEntry :: "string \<Rightarrow> entry \<Rightarrow> string list"
and embedDir :: "string \<Rightarrow> entry list \<Rightarrow> string list" where
  "embedEntry dirPath (FileEntry n) = [dirPath @ ''/'' @ n]"
| "embedEntry dirPath (DirEntry n None) = []"
| "embedEntry dirPath (DirEntry n (Some es)) = embedDir (dirPath @ ''/'' @ n) es"
| "embedDir dirPath [] = []"
| "embedDir dirPath (e # es) = embedEntry dirPath e @ embedDir dirPath es"

definition listFiles :: "string \<Rightarrow> entry list option \<Rightarrow> string list \<times> bool" where
  "listFiles path dir = (case dir of None \<Rightarrow> ([], False) | Some es \<Rightarrow> (embedDir path es, True))"

section \<open>The replacer\<close>

record Field =
  Old :: string
  New :: string
  IsCaseSensitive :: bool

record replacerInfo =
  rPath :: string
  rEmbed :: "string \<rightharpoonup> string"
  isActual :: bool
  rFiles :: "string list"
  ignoreFiles :: "string list"
  ignoreDirs :: "string list"
  replacementFields :: "Field list"
  outPath :: string

record fsys =
  fsFiles :: "string \<rightharpoonup> string"
  fsDirs :: "string \<Rightarrow> bool"

record osEnv =
  win :: bool
  statFails :: "string \<Rightarrow> bool"
  mkdirFails :: "string \<Rightarrow> bool"
  writeFails :: "string \<Rightarrow> bool"
  absPath :: "string \<Rightarrow> string option"
  getwd :: "string option"
  runPath :: string
  clock :: string
  writeLeft :: "string \<Rightarrow> string option"
  visit :: "nat \<Rightarrow> (string \<times> string) list \<Rightarrow> (string \<times> string) list"

datatype replErr =
    ReadFailed string
  | ManyFiles nat string
  | ExistingFiles "string list"
  | ForbiddenFile string string nat
  | WriteFailed string
  | PathFailed
  | ListFailed
  | TemplateFailed string

definition IsExists :: "osEnv \<Rightarrow> fsys \<Rightarrow> string \<Rightarrow> bool" where
  "IsExists env fs f \<longleftrightarrow> fsFiles fs f \<noteq> None \<or> fsDirs fs f \<or> statFails env f"

definition newReplacer :: "osEnv \<Rightarrow> string \<Rightarrow> entry list option \<Rightarrow> replErr + replacerInfo" where
  "newReplacer env path dir = (case absPath env path of None \<Rightarrow> Inl PathFailed | Some p \<Rightarrow>
     (case ListFiles (absPath env) (win env) p dir False NoFilter of
        (files, False) \<Rightarrow> Inl ListFailed
      | (files, True) \<Rightarrow> Inr \<lparr>rPath = p, rEmbed = Map.empty, isActual = True, rFiles = files, ignoreFiles = [],
          ignoreDirs = [], replacementFields = [], outPath = []\<rparr>))"

definition newFS :: "string \<Rightarrow> entry list option \<Rightarrow> (string \<rightharpoonup> string) \<Rightarrow> replErr + replacerInfo" where
  "newFS path dir efs = (case listFiles path dir of
        (files, False) \<Rightarrow> Inl ListFailed
      | (files, True) \<Rightarrow> Inr \<lparr>rPath = path, rEmbed = efs, isActual = False, rFiles = files, ignoreFiles = [],
          ignoreDirs = [], replacementFields = [], outPath = []\<rparr>)"

definition isFirstAlphabet :: "string \<Rightarrow> bool" where
  "isFirstAlphabet s = (case s of [] \<Rightarrow> False | c # _ \<Rightarrow>
     (65 \<le> byte c \<and> byte c \<le> 90) \<or> (97 \<le> byte c \<and> byte c \<le> 122))"

fun splitField :: "Field \<Rightarrow> Field list" where
  "splitField f =
     (if IsCaseSensitive f \<and> isFirstAlphabet (Old f) then
        if New f = [] then []
        else [\<lparr>Old = toUpper (take 1 (Old f)) @ drop 1 (Old f), New = toUpper (take 1 (New f)) @ drop 1 (New f), IsCaseSensitive = False\<rparr>,
              \<lparr>Old = toLower (take 1 (Old f)) @ drop 1 (Old f), New = toLower (take 1 (New f)) @ drop 1 (New f), IsCaseSensitive = False\<rparr>]
      else [f])"

definition SetReplacementFields :: "Field list \<Rightarrow> replacerInfo \<Rightarrow> replacerInfo" where
  "SetReplacementFields fields1 r = r\<lparr>replacementFields := concat (map splitField fields1)\<rparr>"

definition convertPathDelimiter :: "osEnv \<Rightarrow> replacerInfo \<Rightarrow> string \<Rightarrow> string" where
  "convertPathDelimiter env r p = (if isActual r \<and> win env then goReplaceAll p ''/'' [CHR 0x5C] else p)"

definition convertPathsDelimiter :: "osEnv \<Rightarrow> replacerInfo \<Rightarrow> string list \<Rightarrow> string list" where
  "convertPathsDelimiter env r ps = map (convertPathDelimiter env r) ps"

definition isSubPath :: "bool \<Rightarrow> string \<Rightarrow> string \<Rightarrow> bool" where
  "isSubPath w filePath subPath = strContains (fst (splitPath w filePath)) subPath"

definition isMatchFile :: "bool \<Rightarrow> string \<Rightarrow> string \<Rightarrow> bool" where
  "isMatchFile w filePath sf =
     (let (dir1, file1) = splitPath w filePath; (dir2, file2) = splitPath w sf;
          conv = (\<lambda>d. if w then goReplaceAll d ''/'' [CHR 0x5C] else goReplaceAll d [CHR 0x5C] ''/'')
      in file1 = file2 \<and> hasSuffix (conv dir1) (conv dir2))"

text \<open>\<open>SetSubDirsAndFiles\<close>: the map of files already taken makes the inner loops stop at the first match.\<close>

fun pickFiles :: "(string \<Rightarrow> bool) \<Rightarrow> string list \<Rightarrow> string list \<Rightarrow> string list" where
  "pickFiles P seen [] = []"
| "pickFiles P seen (f # fs) = (if P f \<and> f \<notin> set seen then f # pickFiles P (f # seen) fs else pickFiles P seen fs)"

definition SetSubDirsAndFiles :: "osEnv \<Rightarrow> string list \<Rightarrow> string list \<Rightarrow> replacerInfo \<Rightarrow> replacerInfo" where
  "SetSubDirsAndFiles env subDirs subFiles r =
     (let ds = convertPathsDelimiter env r subDirs; sfs = convertPathsDelimiter env r subFiles;
          picked = pickFiles (\<lambda>f. list_ex (isSubPath (win env) f) ds \<or> list_ex (isMatchFile (win env) f) sfs) [] (rFiles r)
      in if picked = [] then r else r\<lparr>rFiles := picked\<rparr>)"

definition SetIgnoreSubFiles :: "string list \<Rightarrow> replacerInfo \<Rightarrow> replacerInfo" where
  "SetIgnoreSubFiles names r = r\<lparr>ignoreFiles := ignoreFiles r @ names\<rparr>"

definition SetIgnoreSubDirs :: "osEnv \<Rightarrow> string list \<Rightarrow> replacerInfo \<Rightarrow> replacerInfo" where
  "SetIgnoreSubDirs env dirs r = r\<lparr>ignoreDirs := ignoreDirs r @ convertPathsDelimiter env r dirs\<rparr>"

definition SetOutputDir :: "osEnv \<Rightarrow> string \<Rightarrow> string list \<Rightarrow> replacerInfo \<Rightarrow> replErr + replacerInfo" where
  "SetOutputDir env p names r =
     (if p \<noteq> [] then (case absPath env p of None \<Rightarrow> Inl PathFailed | Some a \<Rightarrow> Inr (r\<lparr>outPath := a\<rparr>))
      else case getwd env of
          None \<Rightarrow> Inl PathFailed
        | Some pwd \<Rightarrow> Inr (r\<lparr>outPath := pwd @ pathDelimiter (win env) @ joinWith ''_'' names @ ''_'' @ clock env\<rparr>))"

section \<open>Reading and saving\<close>

definition readSource :: "fsys \<Rightarrow> replacerInfo \<Rightarrow> string \<Rightarrow> string option" where
  "readSource fs r file = (if isActual r then fsFiles fs file else rEmbed r file)"

definition ReadFile :: "osEnv \<Rightarrow> fsys \<Rightarrow> replacerInfo \<Rightarrow> string \<Rightarrow> replErr + string" where
  "ReadFile env fs r filename =
     (let name = convertPathDelimiter env r filename;
          found = filter (\<lambda>file. strContains file name \<and> GetFilename (win env) file = GetFilename (win env) name) (rFiles r)
      in case found of
           [file] \<Rightarrow> (case readSource fs r file of None \<Rightarrow> Inl (ReadFailed file) | Some d \<Rightarrow> Inr d)
         | _ \<Rightarrow> Inl (ManyFiles (length found) name))"

definition isIgnoreFile :: "osEnv \<Rightarrow> replacerInfo \<Rightarrow> string \<Rightarrow> bool" where
  "isIgnoreFile env r file = list_ex (isMatchFile (win env) file) (ignoreFiles r)"

definition isInIgnoreDir :: "osEnv \<Rightarrow> replacerInfo \<Rightarrow> string \<Rightarrow> bool" where
  "isInIgnoreDir env r file = list_ex (strContains (fst (splitPath (win env) file))) (ignoreDirs r)"

definition isForbiddenFile :: "osEnv \<Rightarrow> string \<Rightarrow> string \<Rightarrow> bool" where
  "isForbiddenFile env file path =
     (if win env then strContains (goReplaceAll file ''/'' [CHR 0x5C]) (goReplaceAll path ''/'' [CHR 0x5C])
      else strContains file path)"

definition getNewFilePath :: "osEnv \<Rightarrow> replacerInfo \<Rightarrow> string \<Rightarrow> string" where
  "getNewFilePath env r file =
     (let p = outPath r @ replaceFirst file (rPath r) [] in if win env then goReplaceAll p ''/'' [CHR 0x5C] else p)"

definition getNewFilePath2 :: "osEnv \<Rightarrow> replacerInfo \<Rightarrow> string \<Rightarrow> string \<Rightarrow> string" where
  "getNewFilePath2 env r file refDir =
     (if refDir = [] then getNewFilePath env r file
      else let p = outPath r @ pathDelimiter (win env) @ refDir @ pathDelimiter (win env) @ replaceFirst file (rPath r) []
           in if win env then goReplaceAll p ''/'' [CHR 0x5C] else p)"

definition replaceText :: "Field list \<Rightarrow> string \<Rightarrow> string" where
  "replaceText fields1 text1 = foldl (\<lambda>d f. goReplaceAll d (Old f) (New f)) text1 fields1"

text \<open>The loop over the directory and the name of the new file.\<close>

definition renameStep :: "string \<times> string \<Rightarrow> Field \<Rightarrow> string \<times> string" where
  "renameStep dn f = (case dn of (dir, name) \<Rightarrow>
     (if strContains dir (Old f) then goReplaceAll dir (Old f) (New f) else dir,
      if strContains name (Old f) then goReplaceAll name (Old f) (New f) else name))"

definition targetPath :: "osEnv \<Rightarrow> replacerInfo \<Rightarrow> string \<Rightarrow> string" where
  "targetPath env r file =
     (case foldl renameStep (splitPath (win env) (getNewFilePath env r file)) (replacementFields r) of (dir, name) \<Rightarrow> dir @ name)"

text \<open>The first loop of \<open>SaveFiles\<close>: the existing targets and the contents to write.\<close>

fun collectFiles :: "osEnv \<Rightarrow> fsys \<Rightarrow> replacerInfo \<Rightarrow> string list \<Rightarrow> string list \<Rightarrow> (string \<times> string) list
    \<Rightarrow> replErr + string list \<times> (string \<times> string) list" where
  "collectFiles env fs r [] exist w = Inr (exist, w)"
| "collectFiles env fs r (file # files) exist w =
     (if isInIgnoreDir env r file \<or> isIgnoreFile env r file then collectFiles env fs r files exist w
      else case readSource fs r file of
          None \<Rightarrow> Inl (ReadFailed file)
        | Some data \<Rightarrow>
            let p = targetPath env r file
            in collectFiles env fs r files (if IsExists env fs p then exist @ [p] else exist)
                 (AList.update p (replaceText (replacementFields r) data) w))"

text \<open>All directories above a path that ends in a separator.\<close>

definition parentDirs :: "bool \<Rightarrow> string \<Rightarrow> string list" where
  "parentDirs w d = map (\<lambda>n. take n d) (filter (\<lambda>n. isSep w (d ! n)) [0..<length d])"

definition saveToNewFile :: "osEnv \<Rightarrow> string \<Rightarrow> string \<Rightarrow> fsys \<Rightarrow> replErr option \<times> fsys" where
  "saveToNewFile env p data fs =
     (let dir = fst (splitPath (win env) p) in
      if mkdirFails env dir then (Some (WriteFailed p), fs)
      else let fs1 = fs\<lparr>fsDirs := (\<lambda>d. fsDirs fs d \<or> d \<in> set (parentDirs (win env) dir))\<rparr>
           in if writeFails env p then (Some (WriteFailed p), fs1\<lparr>fsFiles := (fsFiles fs1)(p := writeLeft env p)\<rparr>)
              else (None, fs1\<lparr>fsFiles := (fsFiles fs1)(p \<mapsto> data)\<rparr>))"

fun saveAll :: "osEnv \<Rightarrow> (string \<times> string) list \<Rightarrow> fsys \<Rightarrow> replErr option \<times> fsys" where
  "saveAll env [] fs = (None, fs)"
| "saveAll env ((p, d) # w) fs = (case saveToNewFile env p d fs of
       (Some e, fs') \<Rightarrow> (Some e, fs')
     | (None, fs') \<Rightarrow> saveAll env w fs')"

text \<open>\<open>SaveFiles\<close>: the error, the replacer with its output directory set, and the file system.\<close>

definition withOutPath :: "osEnv \<Rightarrow> replacerInfo \<Rightarrow> replacerInfo" where
  "withOutPath env r =
     (if outPath r = [] then r\<lparr>outPath := runPath env @ pathDelimiter (win env) @ ''generate_'' @ clock env\<rparr> else r)"

definition SaveFiles :: "osEnv \<Rightarrow> replacerInfo \<Rightarrow> fsys \<Rightarrow> replErr option \<times> replacerInfo \<times> fsys" where
  "SaveFiles env r0 fs =
     (let r = withOutPath env r0
      in case collectFiles env fs r (rFiles r) [] [] of
           Inl e \<Rightarrow> (Some e, r, fs)
         | Inr (exist, w) \<Rightarrow>
             if exist \<noteq> [] then (Some (ExistingFiles exist), r, fs)
             else (case filter (\<lambda>(p, d). isForbiddenFile env p (rPath r)) (visit env 0 w) of
                 (p, d) # _ \<Rightarrow> (Some (ForbiddenFile p (rPath r) (length d)), r, fs)
               | [] \<Rightarrow> (case saveAll env (visit env 1 w) fs of (e, fs') \<Rightarrow> (e, r, fs'))))"

text \<open>Templates: \<open>render name text\<close> is parsing and execution, \<open>None\<close> when one of them fails.\<close>

definition replaceTemplateData :: "(string \<Rightarrow> string \<Rightarrow> string option) \<Rightarrow> fsys \<Rightarrow> string \<Rightarrow> replErr + string" where
  "replaceTemplateData render fs file = (case fsFiles fs file of
       None \<Rightarrow> Inl (ReadFailed file)
     | Some data \<Rightarrow> if \<not> strContains data ''{{'' then Inr data
         else (case render file data of None \<Rightarrow> Inl (TemplateFailed file) | Some t \<Rightarrow> Inr t))"

definition replaceTemplateFilePath :: "(string \<Rightarrow> string \<Rightarrow> string option) \<Rightarrow> string \<Rightarrow> replErr + string" where
  "replaceTemplateFilePath render file =
     (if \<not> strContains file ''{{'' then Inr file
      else case render (''file: '' @ file) file of None \<Rightarrow> Inl (TemplateFailed file) | Some t \<Rightarrow> Inr t)"

definition trimExt :: "string \<Rightarrow> string" where
  "trimExt file = trimSuffix (trimSuffix (trimSuffix file ''.tmpl'') ''.tpl'') ''.template''"

fun collectTemplates :: "(string \<Rightarrow> string \<Rightarrow> string option) \<Rightarrow> osEnv \<Rightarrow> fsys \<Rightarrow> replacerInfo \<Rightarrow> string \<Rightarrow> string list
    \<Rightarrow> (string \<times> string) list \<Rightarrow> replErr + (string \<times> string) list" where
  "collectTemplates render env fs r refDir [] w = Inr w"
| "collectTemplates render env fs r refDir (file # files) w = (case replaceTemplateData render fs file of
       Inl e \<Rightarrow> Inl e
     | Inr data \<Rightarrow>
         let p = trimExt (getNewFilePath2 env r file refDir)
         in if IsExists env fs p then Inl (ExistingFiles [p])
            else case replaceTemplateFilePath render p of
                Inl e \<Rightarrow> Inl e
              | Inr p' \<Rightarrow> collectTemplates render env fs r refDir files (AList.update p' data w))"

definition SaveTemplateFiles :: "(string \<Rightarrow> string \<Rightarrow> string option) \<Rightarrow> osEnv \<Rightarrow> replacerInfo \<Rightarrow> string list \<Rightarrow> fsys
    \<Rightarrow> replErr option \<times> fsys" where
  "SaveTemplateFiles render env r parentDir fs =
     (let refDir = joinWith (pathDelimiter (win env)) parentDir
      in case collectTemplates render env fs r refDir (rFiles r) [] of
           Inl e \<Rightarrow> (Some e, fs)
         | Inr w \<Rightarrow> saveAll env (visit env 0 w) fs)"

section \<open>Listings\<close>

lemma walk_filter:
  "walkEntryWithFilter P w d e = (case walkEntry w d e of (fs, ok) \<Rightarrow> (filter P fs, ok))"
  "walkDirWithFilter P w d es = (case walkDir w d es of (fs, ok) \<Rightarrow> (filter P fs, ok))"
  by (induction w d e and w d es rule: walkEntry_walkDir.induct)
     (auto simp: Let_def split: prod.splits bool.splits)

lemma walk_embed:
  "walkEntry False d e = (fs, True) \<Longrightarrow> embedEntry d e = fs"
  "walkDir False d es = (fs, True) \<Longrightarrow> embedDir d es = fs"
proof -
  have "(w = False \<longrightarrow> (\<forall>fs. walkEntry w d e = (fs, True) \<longrightarrow> embedEntry d e = fs))"
    "(w = False \<longrightarrow> (\<forall>fs. walkDir w d es = (fs, True) \<longrightarrow> embedDir d es = fs))" for w
    by (induction w d e and w d es rule: walkEntry_walkDir.induct)
       (auto simp: pathDelimiter_def split: prod.splits bool.splits)
  then show "walkEntry False d e = (fs, True) \<Longrightarrow> embedEntry d e = fs"
    "walkDir False d es = (fs, True) \<Longrightarrow> embedDir d es = fs" by blast+
qed

section \<open>Saving\<close>

definition visitsAll :: "osEnv \<Rightarrow> bool" where
  "visitsAll env \<longleftrightarrow> (\<forall>n w. mset (visit env n w) = mset w)"

lemma visitsAll_set: "visitsAll env \<Longrightarrow> set (visit env n w) = set w"
  by (metis visitsAll_def set_mset_mset)

lemma saveToNewFile_files:
  assumes "saveToNewFile env p d fs = (e, fs')"
  shows "(e = None \<longrightarrow> fsFiles fs' = (fsFiles fs)(p \<mapsto> d)) \<and> (\<forall>q. q \<noteq> p \<longrightarrow> fsFiles fs' q = fsFiles fs q)"
  using assms by (auto simp: saveToNewFile_def Let_def split: if_splits)

text \<open>Only the listed paths change.\<close>

lemma saveAll_other: "saveAll env w fs = (e, fs') \<Longrightarrow> p \<notin> fst ` set w \<Longrightarrow> fsFiles fs' p = fsFiles fs p"
proof (induction env w fs arbitrary: e fs' rule: saveAll.induct)
  case (2 env q d w fs)
  obtain e1 fs1 where s: "saveToNewFile env q d fs = (e1, fs1)" by fastforce
  with saveToNewFile_files [OF s] 2 show ?case by (cases e1) (auto split: if_splits)
qed simp

lemma saveAll_all:
  "saveAll env w fs = (None, fs') \<Longrightarrow> distinct (map fst w) \<Longrightarrow> (p, d) \<in> set w \<Longrightarrow> fsFiles fs' p = Some d"
proof (induction env w fs arbitrary: fs' rule: saveAll.induct)
  case (2 env q c w fs)
  then obtain fs1 where s: "saveToNewFile env q c fs = (None, fs1)" and r: "saveAll env w fs1 = (None, fs')"
    by (auto split: prod.splits option.splits)
  show ?case
  proof (cases "(p, d) \<in> set w")
    case True
    with 2 s r show ?thesis by auto
  next
    case False
    with 2 have "p = q" "d = c" "q \<notin> fst ` set w" by auto
    with saveAll_other [OF r] saveToNewFile_files [OF s] show ?thesis by simp
  qed
qed simp

text \<open>The files that are not ignored, their targets and contents.\<close>

definition selected :: "osEnv \<Rightarrow> replacerInfo \<Rightarrow> string list" where
  "selected env r = filter (\<lambda>f. \<not> (isInIgnoreDir env r f \<or> isIgnoreFile env r f)) (rFiles r)"

definition newContent :: "fsys \<Rightarrow> replacerInfo \<Rightarrow> string \<Rightarrow> string" where
  "newContent fs r f = replaceText (replacementFields r) (the (readSource fs r f))"

definition writes :: "osEnv \<Rightarrow> fsys \<Rightarrow> replacerInfo \<Rightarrow> string list \<Rightarrow> (string \<times> string) list \<Rightarrow> (string \<times> string) list" where
  "writes env fs r fl w = foldl (\<lambda>w f. AList.update (targetPath env r f) (newContent fs r f) w) w fl"

lemma writes_Cons: "writes env fs r (f # fl) w = writes env fs r fl (AList.update (targetPath env r f) (newContent fs r f) w)"
  by (simp add: writes_def)

lemma collectFiles_Inr:
  "collectFiles env fs r fl exist w = Inr (exist', w') \<Longrightarrow>
   (let sel = filter (\<lambda>f. \<not> (isInIgnoreDir env r f \<or> isIgnoreFile env r f)) fl in
    exist' = exist @ filter (IsExists env fs) (map (targetPath env r) sel) \<and> w' = writes env fs r sel w
    \<and> (\<forall>f \<in> set sel. readSource fs r f \<noteq> None))"
proof (induction fl arbitrary: exist w)
  case (Cons f fl)
  show ?case
  proof (cases "isInIgnoreDir env r f \<or> isIgnoreFile env r f")
    case True
    with Cons.prems have "collectFiles env fs r fl exist w = Inr (exist', w')" by simp
    from Cons.IH [OF this] True show ?thesis by (auto simp: Let_def)
  next
    case False
    with Cons.prems obtain d where d: "readSource fs r f = Some d"
      and c: "collectFiles env fs r fl (if IsExists env fs (targetPath env r f) then exist @ [targetPath env r f] else exist)
        (AList.update (targetPath env r f) (replaceText (replacementFields r) d) w) = Inr (exist', w')"
      by (auto simp: Let_def split: option.splits)
    from Cons.IH [OF c] False d show ?thesis by (auto simp: Let_def writes_Cons newContent_def)
  qed
qed (simp add: writes_def)

lemma keys_writes: "fst ` set (writes env fs r fl w) \<subseteq> fst ` set w \<union> targetPath env r ` set fl"
proof (induction fl arbitrary: w)
  case (Cons f fl)
  note Cons.IH [of "AList.update (targetPath env r f) (newContent fs r f) w", unfolded dom_update]
  then show ?case by (simp only: writes_Cons list.set image_insert) blast
qed (simp add: writes_def)

lemma distinct_writes: "distinct (map fst w) \<Longrightarrow> distinct (map fst (writes env fs r fl w))"
  by (induction fl arbitrary: w) (simp_all add: writes_Cons distinct_update, simp add: writes_def)

lemma map_of_writes:
  "inj_on (targetPath env r) (set fl) \<Longrightarrow> f \<in> set fl \<Longrightarrow> map_of (writes env fs r fl w) (targetPath env r f) = Some (newContent fs r f)"
proof (induction fl arbitrary: w)
  case (Cons g fl)
  have other: "map_of (writes env fs r l v) p = map_of v p" if "p \<notin> targetPath env r ` set l" for l v p
    using that by (induction l arbitrary: v) (auto simp: writes_Cons update_conv', simp add: writes_def)
  show ?case
  proof (cases "f \<in> set fl")
    case True
    with Cons show ?thesis by (simp add: writes_Cons)
  next
    case False
    then have "f = g" "targetPath env r g \<notin> targetPath env r ` set fl"
      using Cons.prems by (auto simp: inj_on_def)
    with other show ?thesis by (simp add: writes_Cons update_conv')
  qed
qed simp

lemma saveAll_error: "saveAll env w fs = (e, fs') \<Longrightarrow> e = None \<or> (\<exists>p. e = Some (WriteFailed p))"
proof (induction env w fs rule: saveAll.induct)
  case (2 env p d w fs)
  obtain e1 fs1 where s: "saveToNewFile env p d fs = (e1, fs1)" by fastforce
  then have "e1 = None \<or> e1 = Some (WriteFailed p)"
    by (auto simp: saveToNewFile_def Let_def split: if_splits)
  with 2 s show ?case by auto
qed simp

text \<open>Either nothing was written, or the writing of the collected contents was started.\<close>

lemma SaveFiles_outcome:
  assumes "SaveFiles env r fs = (e, r', fs')"
  shows "r' = withOutPath env r \<and> (e \<noteq> None \<and> fs' = fs
    \<or> (\<exists>w. collectFiles env fs r' (rFiles r') [] [] = Inr ([], w)
         \<and> (\<forall>(p, d) \<in> set (visit env 0 w). \<not> isForbiddenFile env p (rPath r'))
         \<and> saveAll env (visit env 1 w) fs = (e, fs')))"
proof (cases "collectFiles env fs (withOutPath env r) (rFiles (withOutPath env r)) [] []")
  case (Inl err)
  with assms show ?thesis by (auto simp: SaveFiles_def Let_def)
next
  case (Inr ew)
  obtain exist w where ew: "ew = (exist, w)" by fastforce
  let ?r = "withOutPath env r"
  let ?forb = "filter (\<lambda>(p, d). isForbiddenFile env p (rPath ?r)) (visit env 0 w)"
  show ?thesis
  proof (cases "exist = []")
    case False
    with assms Inr ew show ?thesis by (auto simp: SaveFiles_def Let_def)
  next
    case True
    note ex = True
    show ?thesis
    proof (cases ?forb)
      case Nil
      then have "\<forall>(p, d) \<in> set (visit env 0 w). \<not> isForbiddenFile env p (rPath ?r)"
        by (auto simp: filter_empty_conv)
      moreover from Nil assms Inr ew ex have "r' = ?r" "saveAll env (visit env 1 w) fs = (e, fs')"
        by (auto simp: SaveFiles_def Let_def split: prod.splits)
      ultimately show ?thesis using Inr ew ex by auto
    next
      case (Cons pd l)
      with assms Inr ew ex show ?thesis by (cases pd) (auto simp: SaveFiles_def Let_def)
    qed
  qed
qed

lemma collected_fresh:
  assumes "collectFiles env fs r (rFiles r) [] [] = Inr ([], w)" "p \<in> fst ` set w"
  shows "\<not> IsExists env fs p"
proof -
  from collectFiles_Inr [OF assms(1)] have "filter (IsExists env fs) (map (targetPath env r) (selected env r)) = []"
    and w: "w = writes env fs r (selected env r) []"
    by (simp_all add: Let_def selected_def)
  then have "\<forall>f \<in> set (selected env r). \<not> IsExists env fs (targetPath env r f)"
    by (simp add: filter_empty_conv)
  with assms(2) w keys_writes [of env fs r "selected env r" "[]"] show ?thesis by auto
qed

text \<open>A file that \<open>SaveFiles\<close> changes did not exist, and is not below the directory of the templates.\<close>

lemma SaveFiles_changes:
  assumes "visitsAll env" "SaveFiles env r fs = (e, r', fs')" "fsFiles fs' p \<noteq> fsFiles fs p"
  shows "fsFiles fs p = None \<and> \<not> isForbiddenFile env p (rPath r)"
  using SaveFiles_outcome [OF assms(2)]
proof (elim conjE disjE exE)
  fix w assume r': "r' = withOutPath env r"
    and c: "collectFiles env fs r' (rFiles r') [] [] = Inr ([], w)"
    and f: "\<forall>(p, d) \<in> set (visit env 0 w). \<not> isForbiddenFile env p (rPath r')"
    and s: "saveAll env (visit env 1 w) fs = (e, fs')"
  from assms(3) saveAll_other [OF s] have p: "p \<in> fst ` set w"
    by (metis assms(1) visitsAll_set)
  moreover have "rPath r' = rPath r" by (simp add: r' withOutPath_def)
  moreover have "set (visit env 0 w) = set w" using assms(1) by (rule visitsAll_set)
  ultimately show ?thesis using f collected_fresh [OF c p] by (auto simp: IsExists_def)
qed (use assms(3) in simp)

text \<open>The file system is unchanged by an error other than a failed write.\<close>

lemma SaveFiles_error:
  assumes "SaveFiles env r fs = (e, r', fs')" "e \<noteq> None" "\<forall>p. e \<noteq> Some (WriteFailed p)"
  shows "fs' = fs"
  using SaveFiles_outcome [OF assms(1)] saveAll_error assms(2,3) by blast

text \<open>
  Saving never damages what is there. Whatever \<open>SaveFiles\<close> returns, every file that existed keeps
  its content, and no file changes below the directory of the templates; when it fails before it
  starts to write, the file system is unchanged.
\<close>

theorem save_keeps_files:
  assumes "visitsAll env" "SaveFiles env r fs = (e, r', fs')"
  shows "(\<forall>p d. fsFiles fs p = Some d \<longrightarrow> fsFiles fs' p = Some d)
    \<and> (\<forall>p. fsFiles fs' p \<noteq> fsFiles fs p \<longrightarrow> \<not> isForbiddenFile env p (rPath r))
    \<and> (e \<noteq> None \<and> (\<forall>p. e \<noteq> Some (WriteFailed p)) \<longrightarrow> fs' = fs)"
  by (metis SaveFiles_changes [OF assms] SaveFiles_error [OF assms(2)] option.distinct(1))

text \<open>
  C28: When \<open>SaveFiles\<close> succeeds, every template file that is not ignored has been written, with all
  replacements applied to its text, to its renamed path, provided no two of them are renamed to the
  same path; if two are, one of them is lost without an error.
\<close>

theorem save_writes_all:
  assumes "visitsAll env" "SaveFiles env r fs = (None, r', fs')" "inj_on (targetPath env r') (set (selected env r'))"
  shows "\<forall>f \<in> set (selected env r'). readSource fs r' f \<noteq> None
    \<and> fsFiles fs' (targetPath env r' f) = Some (replaceText (replacementFields r') (the (readSource fs r' f)))"
proof
  fix f assume f: "f \<in> set (selected env r')"
  from SaveFiles_outcome [OF assms(2)] obtain w where
    c: "collectFiles env fs r' (rFiles r') [] [] = Inr ([], w)" and s: "saveAll env (visit env 1 w) fs = (None, fs')"
    by auto
  from collectFiles_Inr [OF c] have w: "w = writes env fs r' (selected env r') []"
    and rd: "\<forall>f \<in> set (selected env r'). readSource fs r' f \<noteq> None"
    by (simp_all add: Let_def selected_def)
  have m: "mset (visit env 1 w) = mset w" using assms(1) by (simp add: visitsAll_def)
  have "distinct (map fst w)" unfolding w by (rule distinct_writes) simp
  then have "distinct (map fst (visit env 1 w))"
    using m by (metis distinct_map mset_eq_imp_distinct_iff mset_map)
  moreover have "(targetPath env r' f, newContent fs r' f) \<in> set (visit env 1 w)"
    using map_of_writes [OF assms(3) f, of fs "[]"] map_of_SomeD visitsAll_set [OF assms(1)] w by metis
  ultimately have "fsFiles fs' (targetPath env r' f) = Some (newContent fs r' f)"
    using saveAll_all [OF s] by blast
  with rd f show "readSource fs r' f \<noteq> None
    \<and> fsFiles fs' (targetPath env r' f) = Some (replaceText (replacementFields r') (the (readSource fs r' f)))"
    by (simp add: newContent_def)
qed

text \<open>A run: one template of a Go package is copied to \<open>/out\<close> with its package renamed, another is ignored.\<close>

definition runEnv :: osEnv where
  "runEnv = \<lparr>win = False, statFails = (\<lambda>_. False), mkdirFails = (\<lambda>_. False), writeFails = (\<lambda>_. False),
     absPath = Some, getwd = Some ''/'', runPath = ''/'', clock = ''120000'', writeLeft = (\<lambda>_. None), visit = (\<lambda>n w. w)\<rparr>"

definition runInfo :: replacerInfo where
  "runInfo = \<lparr>rPath = ''/t'', rEmbed = Map.empty, isActual = True, rFiles = [''/t/user.go'', ''/t/doc/x.md''],
     ignoreFiles = [], ignoreDirs = [''/doc''], replacementFields = [\<lparr>Old = ''user'', New = ''order'', IsCaseSensitive = False\<rparr>],
     outPath = ''/out''\<rparr>"

definition runFs :: fsys where
  "runFs = \<lparr>fsFiles = map_of [(''/t/user.go'', ''package user''), (''/t/doc/x.md'', ''text'')], fsDirs = (\<lambda>d. d = ''/t'')\<rparr>"

lemma runEnv_visits: "visitsAll runEnv"
  by (simp add: visitsAll_def runEnv_def)

lemma runInfo_selected: "selected runEnv runInfo = [''/t/user.go'']"
  by code_simp

lemma runInfo_target: "targetPath runEnv runInfo ''/t/user.go'' = ''/out/order.go''"
  by code_simp

lemma run_saves: "SaveFiles runEnv runInfo runFs = (None, runInfo, snd (snd (SaveFiles runEnv runInfo runFs)))"
proof -
  obtain e r fs where s: "SaveFiles runEnv runInfo runFs = (e, r, fs)" by (cases "SaveFiles runEnv runInfo runFs") auto
  have "fst (SaveFiles runEnv runInfo runFs) = None" by code_simp
  moreover have "withOutPath runEnv runInfo = runInfo" by (simp add: withOutPath_def runInfo_def)
  ultimately show ?thesis using s SaveFiles_outcome [OF s] by simp
qed

theorem save_keeps_files_witness:
  "fst (SaveFiles runEnv runInfo runFs) = None \<and> fsFiles (snd (snd (SaveFiles runEnv runInfo runFs))) ''/t/user.go'' = Some ''package user''"
proof -
  have "fsFiles runFs ''/t/user.go'' = Some ''package user''" by code_simp
  moreover have "fst (SaveFiles runEnv runInfo runFs) = None" by code_simp
  ultimately show ?thesis using save_keeps_files [OF runEnv_visits run_saves] by blast
qed

theorem save_writes_all_witness:
  "fst (SaveFiles runEnv runInfo runFs) = None \<and> fsFiles (snd (snd (SaveFiles runEnv runInfo runFs))) ''/out/order.go'' = Some ''package order''"
proof -
  have t: "replaceText (replacementFields runInfo) (the (readSource runFs runInfo ''/t/user.go'')) = ''package order''"
    by code_simp
  have "inj_on (targetPath runEnv runInfo) (set (selected runEnv runInfo))"
    unfolding runInfo_selected by (simp add: inj_on_def)
  from save_writes_all [OF runEnv_visits run_saves this, unfolded runInfo_selected] have
    "fsFiles (snd (snd (SaveFiles runEnv runInfo runFs))) (targetPath runEnv runInfo ''/t/user.go'') = Some (replaceText (replacementFields runInfo) (the (readSource runFs runInfo ''/t/user.go'')))"
    by (simp only: list.set ball_simps)
  then have "fsFiles (snd (snd (SaveFiles runEnv runInfo runFs))) ''/out/order.go'' = Some ''package order''"
    by (simp only: t runInfo_target)
  moreover have "fst (SaveFiles runEnv runInfo runFs) = None" by code_simp
  ultimately show ?thesis by blast
qed

text \<open>Rendering a path happens after the existence check, so a template of which the path is rendered overwrites an existing file.\<close>

lemma template_overwrites:
  "let env = runEnv; fs = \<lparr>fsFiles = map_of [(''/t/{{.X}}'', ''new''), (''/out/a'', ''old'')], fsDirs = (\<lambda>d. False)\<rparr>;
       res = SaveTemplateFiles (\<lambda>name t. Some ''/out/a'') env (runInfo\<lparr>rFiles := [''/t/{{.X}}'']\<rparr>) [] fs
   in fst res = None \<and> fsFiles (snd res) ''/out/a'' = Some ''new''"
  by code_simp

end
