(* ===== verification/GoAst.thy ===== *)
theory GoAst
  imports GoStrings "HOL-Library.AList"
begin

text \<open>
  Reading Go files (\<open>pkg/goast/ast.go\<close>, \<open>pkg/goast/filter.go\<close>): the blocks of a file, the groups of its
  declarations, and the functions that are still to be written.

  \<^item> The syntax tree is the data of \<open>go/ast\<close> that the code looks at, with positions as offsets in the text
    that was parsed. A declaration comes with the declarations nested in it (in function bodies), in
    the order in which \<open>ast.Inspect\<close> meets them. \<open>go/parser\<close> is the parameter \<open>parseFile\<close> (\<open>None\<close> is an error);
    line directives are left out. \<open>go/printer\<close> is the parameter \<open>print\<close>.
  \<^item> A comment group is \<open>None\<close> (nil) or a list that is not empty.
\<close>

section \<open>Syntax trees\<close>

record comment =
  cmText :: string
  cmPos :: nat
  cmEnd :: nat

type_synonym commentGroup = "comment list option"

record node =
  nDoc :: commentGroup
  nPos :: nat
  nEnd :: nat

datatype expr =
    Ident string
  | StarExpr expr
  | ArrayTypeExpr expr
  | StructTypeExpr "astField list"
  | SelectorExpr expr string
  | MapTypeExpr expr expr
  | InterfaceTypeExpr "astField list"
  | ChanTypeExpr expr
  | FuncTypeExpr
  | BasicLit string
  | OtherExpr string
and astField = AstField "string list" expr node

datatype spec =
    ImportSpec "string option" string node
  | ValueSpec "string list" "expr list" node
  | TypeSpec string expr node

datatype tok = TokIMPORT | TokCONST | TokTYPE | TokVAR

record genDecl =
  gTok :: tok
  gDoc :: commentGroup
  gTokPos :: nat
  gRparen :: "nat option"
  gSpecs :: "spec list"

text \<open>A call in a function body: the called identifier, and the value of the first argument if it is a string literal.\<close>

record callExpr =
  callFun :: "string option"
  callArg :: "string option"

record funcDecl =
  fnName :: string
  fnRecv :: "expr list"
  fnDoc :: commentGroup
  fnFunc :: nat
  fnRbrace :: "nat option"
  fnCalls :: "callExpr list"

datatype decl = FuncDecl funcDecl | GenDecl genDecl

datatype declTree = DeclTree decl "declTree list"

record astFile =
  afDoc :: commentGroup
  afPackage :: nat
  afName :: string
  afDecls :: "declTree list"
  afComments :: "comment list list"

fun inspect :: "declTree \<Rightarrow> decl list" where
  "inspect (DeclTree d ts) = d # concat (map inspect ts)"

fun topDecl :: "declTree \<Rightarrow> decl" where
  "topDecl (DeclTree d ts) = d"

section \<open>Blocks of a file\<close>

definition PackageType :: string where "PackageType = ''package''"

definition ImportType :: string where "ImportType = ''import''"

definition ConstType :: string where "ConstType = ''const''"

definition VarType :: string where "VarType = ''var''"

definition FuncType :: string where "FuncType = ''func''"

definition TypeType :: string where "TypeType = ''type''"

definition StructType :: string where "StructType = ''struct''"

definition InterfaceType :: string where "InterfaceType = ''interface''"

lemmas block_types = PackageType_def ImportType_def ConstType_def VarType_def FuncType_def TypeType_def

record AstInfo =
  aType :: string
  aNames :: "string list"
  aComment :: string
  aBody :: string

definition GetName :: "AstInfo \<Rightarrow> string" where
  "GetName a = joinWith '','' (aNames a)"

datatype astErr = ParseError | ReadError | Duplication string string | NoFunction | PrintError

fun tokString :: "tok \<Rightarrow> string" where
  "tokString TokIMPORT = ''import''"
| "tokString TokCONST = ''const''"
| "tokString TokTYPE = ''type''"
| "tokString TokVAR = ''var''"

definition newline :: string where "newline = [CHR 0x0A]"

definition slice :: "string \<Rightarrow> nat \<Rightarrow> nat \<Rightarrow> string" where
  "slice s a b = take (b - a) (drop a s)"

definition getPackageCode :: "astFile \<Rightarrow> string \<Rightarrow> (astErr, string list \<times> string \<times> string) go" where
  "getPackageCode f src =
     (let comment = (case afDoc f of None \<Rightarrow> [] | Some cs \<Rightarrow> joinWith newline (map cmText cs));
          start = afPackage f; end = start + length (''package '' @ afName f)
      in if end \<le> length src then Ok ([afName f], comment, slice src start end) else Panic)"

definition getCodeFromPos :: "nat \<Rightarrow> nat \<Rightarrow> string \<Rightarrow> string" where
  "getCodeFromPos start end src = (if end > length src \<or> start \<ge> end then [] else slice src start end)"

definition docText :: "commentGroup \<Rightarrow> string" where
  "docText doc = (case doc of None \<Rightarrow> [] | Some cs \<Rightarrow> joinWith newline (map (\<lambda>c. trimSpace (cmText c)) cs))"

definition getFuncDeclCode :: "funcDecl \<Rightarrow> string \<Rightarrow> (astErr, string \<times> string \<times> string) go" where
  "getFuncDeclCode fn src =
     (let receiverName = (case fnRecv fn of
            StarExpr (Ident n) # _ \<Rightarrow> n
          | Ident n # _ \<Rightarrow> n
          | _ \<Rightarrow> [])
      in case fnRbrace fn of
           None \<Rightarrow> Panic
         | Some b \<Rightarrow> Ok (receiverName, docText (fnDoc fn), getCodeFromPos (fnFunc fn) (b + 1) src))"

fun specNode :: "spec \<Rightarrow> node" where
  "specNode (ImportSpec a p n) = n"
| "specNode (ValueSpec ns vs n) = n"
| "specNode (TypeSpec t e n) = n"

text \<open>The first name of a specification; the parser gives every value specification a name.\<close>

fun specName :: "spec \<Rightarrow> string" where
  "specName (ImportSpec a p n) = p"
| "specName (ValueSpec ns vs n) = (case ns of [] \<Rightarrow> [] | x # _ \<Rightarrow> x)"
| "specName (TypeSpec t e n) = t"

definition getGenName :: "genDecl \<Rightarrow> string list" where
  "getGenName gen = map specName (gSpecs gen)"

definition getGenDeclCode :: "genDecl \<Rightarrow> string \<Rightarrow> string list \<times> string \<times> string" where
  "getGenDeclCode gen src =
     (let start = gTokPos gen;
          end = (case gRparen gen of
              Some p \<Rightarrow> p + 1
            | None \<Rightarrow> if gSpecs gen \<noteq> [] then nEnd (specNode (last (gSpecs gen))) else start + length (tokString (gTok gen)))
      in (getGenName gen, docText (gDoc gen), getCodeFromPos start end src))"

text \<open>The visitor of \<open>ast.Inspect\<close> at a declaration.\<close>

definition declInfo :: "string \<Rightarrow> decl \<Rightarrow> (astErr, AstInfo) go" where
  "declInfo src d = (case d of
       FuncDecl fn \<Rightarrow> go_bind (getFuncDeclCode fn src) (\<lambda>(receiverName, comment, body).
         Ok \<lparr>aType = FuncType, aNames = fnName fn # (if receiverName = [] then [] else [receiverName]),
             aComment = comment, aBody = body\<rparr>)
     | GenDecl gen \<Rightarrow> (case getGenDeclCode gen src of (names, comment, body) \<Rightarrow>
         Ok \<lparr>aType = tokString (gTok gen), aNames = names, aComment = comment, aBody = body\<rparr>))"

fun declInfos :: "string \<Rightarrow> decl list \<Rightarrow> (astErr, AstInfo list) go" where
  "declInfos src [] = Ok []"
| "declInfos src (d # ds) =
     go_bind (declInfo src d) (\<lambda>i. go_bind (declInfos src ds) (\<lambda>is. Ok (i # is)))"

definition ParseGoCode :: "(string \<Rightarrow> astFile option) \<Rightarrow> string \<Rightarrow> (astErr, AstInfo list) go" where
  "ParseGoCode parseFile src = (case parseFile src of None \<Rightarrow> Err ParseError | Some f \<Rightarrow>
     go_bind (getPackageCode f src) (\<lambda>(names, comment, body).
     go_bind (declInfos src (concat (map inspect (afDecls f)))) (\<lambda>is.
       Ok (\<lparr>aType = PackageType, aNames = names, aComment = comment, aBody = body\<rparr> # is))))"

definition ParseFile :: "(string \<Rightarrow> astFile option) \<Rightarrow> (string \<rightharpoonup> string) \<Rightarrow> string \<Rightarrow> (astErr, AstInfo list) go" where
  "ParseFile parseFile files path = (case files path of None \<Rightarrow> Err ReadError | Some data \<Rightarrow> ParseGoCode parseFile data)"

section \<open>Groups of declarations\<close>

definition adaptPackage :: "string \<Rightarrow> string" where
  "adaptPackage src =
     (if length src > 50 \<and> strContains (take 50 src) ''package '' then src
      else if strContains src (newline @ ''package '') then src
      else ''package parse'' @ newline @ newline @ src)"

text \<open>\<open>parseBody\<close>: the text of which the positions are, the tree, and the text the contents are cut from. They differ when the second attempt succeeds.\<close>

definition parseBody :: "(string \<Rightarrow> astFile option) \<Rightarrow> string \<Rightarrow> (astErr, string \<times> astFile \<times> string) go" where
  "parseBody parseFile body =
     (let src = adaptPackage body in
      case parseFile src of
        Some f \<Rightarrow> Ok (src, f, src)
      | None \<Rightarrow> (let again = ''package parse'' @ newline @ newline @ src in
          case parseFile again of Some f \<Rightarrow> Ok (again, f, src) | None \<Rightarrow> Err ParseError))"

definition lineAt :: "string \<Rightarrow> nat \<Rightarrow> nat" where
  "lineAt parsed off = Suc (length (filter (\<lambda>c. c = CHR 0x0A) (take off parsed)))"

definition getSrcContent :: "string list \<Rightarrow> nat \<Rightarrow> nat \<Rightarrow> string" where
  "getSrcContent srcLines start end =
     (let l = length srcLines in
      if start < 1 \<or> start > l \<or> end < 1 \<or> end > l then []
      else if start = end then srcLines ! (start - 1)
      else joinWith newline (take (end - (start - 1)) (drop (start - 1) srcLines)))"

definition content :: "string \<Rightarrow> string list \<Rightarrow> nat \<Rightarrow> nat \<Rightarrow> string" where
  "content parsed srcLines p e = getSrcContent srcLines (lineAt parsed p) (lineAt parsed e)"

definition docContent :: "string \<Rightarrow> string list \<Rightarrow> commentGroup \<Rightarrow> string" where
  "docContent parsed srcLines doc = (case doc of
       Some (c # cs) \<Rightarrow> content parsed srcLines (cmPos c) (cmEnd (last (c # cs)))
     | _ \<Rightarrow> [])"

definition nodeCode :: "string \<Rightarrow> string list \<Rightarrow> node \<Rightarrow> string" where
  "nodeCode parsed srcLines n = content parsed srcLines (nPos n) (nEnd n)"

text \<open>The comment of a specification, or the one of the declaration if it has only this specification.\<close>

definition specComment :: "string \<Rightarrow> string list \<Rightarrow> genDecl \<Rightarrow> node \<Rightarrow> string" where
  "specComment parsed srcLines gen n =
     (let singleComment = docContent parsed srcLines (gDoc gen); comment = docContent parsed srcLines (nDoc n)
      in if length (gSpecs gen) = 1 \<and> singleComment \<noteq> [] \<and> comment = [] then singleComment else comment)"

definition genDecls :: "tok \<Rightarrow> astFile \<Rightarrow> genDecl list" where
  "genDecls t f = concat (map (\<lambda>d. case topDecl d of GenDecl g \<Rightarrow> if gTok g = t then [g] else [] | FuncDecl _ \<Rightarrow> []) (afDecls f))"

record ImportInfo =
  iiPath :: string
  iiAlias :: string
  iiComment :: string
  iiBody :: string

definition importInfo :: "string \<Rightarrow> string list \<Rightarrow> spec \<Rightarrow> ImportInfo list" where
  "importInfo parsed srcLines s = (case s of
       ImportSpec alias path n \<Rightarrow> [\<lparr>iiPath = trimByte (CHR 0x22) path, iiAlias = (case alias of None \<Rightarrow> [] | Some a \<Rightarrow> a),
         iiComment = docContent parsed srcLines (nDoc n), iiBody = nodeCode parsed srcLines n\<rparr>]
     | _ \<Rightarrow> [])"

definition ParseImportGroup :: "(string \<Rightarrow> astFile option) \<Rightarrow> string \<Rightarrow> (astErr, ImportInfo list) go" where
  "ParseImportGroup parseFile body = go_bind (parseBody parseFile body) (\<lambda>(parsed, f, src).
     Ok (concat (map (\<lambda>g. concat (map (importInfo parsed (splitOn (CHR 0x0A) src)) (gSpecs g))) (genDecls TokIMPORT f))))"

text \<open>Constants and variables are read in the same way.\<close>

record ConstInfo =
  ciName :: string
  ciValue :: string
  ciComment :: string
  ciBody :: string

type_synonym VarInfo = ConstInfo

definition litValue :: "expr list \<Rightarrow> nat \<Rightarrow> string" where
  "litValue vs i = (if i < length vs then (case vs ! i of BasicLit v \<Rightarrow> v | _ \<Rightarrow> []) else [])"

definition valueInfos :: "string \<Rightarrow> string list \<Rightarrow> genDecl \<Rightarrow> spec \<Rightarrow> ConstInfo list" where
  "valueInfos parsed srcLines gen s = (case s of
       ValueSpec names vals n \<Rightarrow> map (\<lambda>i. \<lparr>ciName = names ! i, ciValue = litValue vals i,
         ciComment = specComment parsed srcLines gen n, ciBody = nodeCode parsed srcLines n\<rparr>) [0..<length names]
     | _ \<Rightarrow> [])"

definition parseValueGroup :: "tok \<Rightarrow> (string \<Rightarrow> astFile option) \<Rightarrow> string \<Rightarrow> (astErr, ConstInfo list) go" where
  "parseValueGroup t parseFile body = go_bind (parseBody parseFile body) (\<lambda>(parsed, f, src).
     Ok (concat (map (\<lambda>g. concat (map (valueInfos parsed (splitOn (CHR 0x0A) src) g) (gSpecs g))) (genDecls t f))))"

definition ParseConstGroup :: "(string \<Rightarrow> astFile option) \<Rightarrow> string \<Rightarrow> (astErr, ConstInfo list) go" where
  "ParseConstGroup = parseValueGroup TokCONST"

definition ParseVarGroup :: "(string \<Rightarrow> astFile option) \<Rightarrow> string \<Rightarrow> (astErr, VarInfo list) go" where
  "ParseVarGroup = parseValueGroup TokVAR"

record TypeInfo =
  tiType :: string
  tiName :: string
  tiComment :: string
  tiBody :: string
  tiIsIdent :: bool

fun typeDef :: "expr \<Rightarrow> string" where
  "typeDef (StructTypeExpr fs) = StructType"
| "typeDef (InterfaceTypeExpr fs) = InterfaceType"
| "typeDef FuncTypeExpr = FuncType"
| "typeDef (MapTypeExpr k v) = ''map''"
| "typeDef (ArrayTypeExpr e) = ''array''"
| "typeDef (ChanTypeExpr e) = ''chan''"
| "typeDef (Ident n) = n"
| "typeDef (StarExpr e) = ''*ast.StarExpr''"
| "typeDef (SelectorExpr e n) = ''*ast.SelectorExpr''"
| "typeDef (BasicLit v) = ''*ast.BasicLit''"
| "typeDef (OtherExpr t) = t"

definition typeInfo :: "string \<Rightarrow> string list \<Rightarrow> genDecl \<Rightarrow> spec \<Rightarrow> TypeInfo list" where
  "typeInfo parsed srcLines gen s = (case s of
       TypeSpec name t n \<Rightarrow> [\<lparr>tiType = typeDef t, tiName = name, tiComment = specComment parsed srcLines gen n,
         tiBody = nodeCode parsed srcLines n, tiIsIdent = (case t of Ident _ \<Rightarrow> True | _ \<Rightarrow> False)\<rparr>]
     | _ \<Rightarrow> [])"

definition ParseTypeGroup :: "(string \<Rightarrow> astFile option) \<Rightarrow> string \<Rightarrow> (astErr, TypeInfo list) go" where
  "ParseTypeGroup parseFile body = go_bind (parseBody parseFile body) (\<lambda>(parsed, f, src).
     Ok (concat (map (\<lambda>g. concat (map (typeInfo parsed (splitOn (CHR 0x0A) src) g) (gSpecs g))) (genDecls TokTYPE f))))"

record MethodInfo =
  miName :: string
  miComment :: string
  miBody :: string
  miReceiver :: string
  miIsIdent :: bool

record InterfaceInfo =
  ifName :: string
  ifComment :: string
  ifMethods :: "MethodInfo list"

text \<open>The methods of an interface; \<open>isIdent\<close> stays set after the first embedded interface.\<close>

fun interfaceMethods :: "string \<Rightarrow> string list \<Rightarrow> string \<Rightarrow> bool \<Rightarrow> astField list \<Rightarrow> MethodInfo list" where
  "interfaceMethods parsed srcLines name isIdent [] = []"
| "interfaceMethods parsed srcLines name isIdent (AstField names t n # fs) =
     (let add = (\<lambda>m ident. \<lparr>miName = m, miComment = docContent parsed srcLines (nDoc n),
                   miBody = nodeCode parsed srcLines n, miReceiver = name, miIsIdent = ident\<rparr>)
      in case t of
           FuncTypeExpr \<Rightarrow> add (case names of [] \<Rightarrow> [] | x # _ \<Rightarrow> x) isIdent # interfaceMethods parsed srcLines name isIdent fs
         | Ident e \<Rightarrow> add e True # interfaceMethods parsed srcLines name True fs
         | _ \<Rightarrow> interfaceMethods parsed srcLines name isIdent fs)"

text \<open>The list of methods is kept from one interface of a declaration to the next.\<close>

fun interfaceSpecs :: "string \<Rightarrow> string list \<Rightarrow> genDecl \<Rightarrow> MethodInfo list \<Rightarrow> spec list \<Rightarrow> InterfaceInfo list" where
  "interfaceSpecs parsed srcLines gen ms [] = []"
| "interfaceSpecs parsed srcLines gen ms (s # ss) = (case s of
       TypeSpec name (InterfaceTypeExpr fs) n \<Rightarrow>
         let ms' = ms @ interfaceMethods parsed srcLines name False fs
         in \<lparr>ifName = name, ifComment = specComment parsed srcLines gen n, ifMethods = ms'\<rparr> # interfaceSpecs parsed srcLines gen ms' ss
     | _ \<Rightarrow> interfaceSpecs parsed srcLines gen ms ss)"

definition ParseInterface :: "(string \<Rightarrow> astFile option) \<Rightarrow> string \<Rightarrow> (astErr, InterfaceInfo list) go" where
  "ParseInterface parseFile body = go_bind (parseBody parseFile body) (\<lambda>(parsed, f, src).
     Ok (concat (map (\<lambda>g. interfaceSpecs parsed (splitOn (CHR 0x0A) src) g [] (gSpecs g)) (genDecls TokTYPE f))))"

text \<open>A Go map is an association list in the order of its insertions.\<close>

definition isMethod :: "AstInfo \<Rightarrow> bool" where
  "isMethod i \<longleftrightarrow> aType i = FuncType \<and> length (aNames i) = 2"

fun ParseStructMethods :: "AstInfo list \<Rightarrow> (string \<times> MethodInfo list) list \<Rightarrow> (string \<times> MethodInfo list) list" where
  "ParseStructMethods [] m = m"
| "ParseStructMethods (i # is) m =
     (if isMethod i
      then let structName = aNames i ! 1;
               methodAst = \<lparr>miName = aNames i ! 0, miComment = aComment i, miBody = aBody i, miReceiver = structName, miIsIdent = False\<rparr>
           in ParseStructMethods is (AList.update structName ((case map_of m structName of None \<Rightarrow> [] | Some ms \<Rightarrow> ms) @ [methodAst]) m)
      else ParseStructMethods is m)"

record StructFieldInfo =
  sfName :: string
  sfType :: string
  sfComment :: string
  sfBody :: string

record StructInfo =
  siName :: string
  siComment :: string
  siFields :: "StructFieldInfo list"

fun getTypeString :: "expr \<Rightarrow> string" where
  "getTypeString (Ident n) = n"
| "getTypeString (ArrayTypeExpr e) = ''[]'' @ getTypeString e"
| "getTypeString (StructTypeExpr fs) = ''struct''"
| "getTypeString (SelectorExpr e n) = getTypeString e @ ''.'' @ n"
| "getTypeString (StarExpr e) = ''*'' @ getTypeString e"
| "getTypeString (MapTypeExpr k v) = ''map['' @ getTypeString k @ '']'' @ getTypeString v"
| "getTypeString (InterfaceTypeExpr fs) = ''interface{}''"
| "getTypeString (ChanTypeExpr e) = ''chan '' @ getTypeString e"
| "getTypeString e = ''unknown''"

definition fieldInfo :: "string \<Rightarrow> string list \<Rightarrow> astField \<Rightarrow> StructFieldInfo" where
  "fieldInfo parsed srcLines fd = (case fd of AstField names t n \<Rightarrow>
     \<lparr>sfName = (case names of x # _ \<Rightarrow> x | [] \<Rightarrow> (case t of Ident x \<Rightarrow> x | StarExpr (Ident x) \<Rightarrow> ''*'' @ x | _ \<Rightarrow> [])),
      sfType = getTypeString t, sfComment = docContent parsed srcLines (nDoc n), sfBody = nodeCode parsed srcLines n\<rparr>)"

fun structSpecs :: "string \<Rightarrow> string list \<Rightarrow> genDecl \<Rightarrow> spec list \<Rightarrow> (string \<times> StructInfo) list \<Rightarrow> (string \<times> StructInfo) list" where
  "structSpecs parsed srcLines gen [] m = m"
| "structSpecs parsed srcLines gen (s # ss) m = (case s of
       TypeSpec name (StructTypeExpr fs) n \<Rightarrow> structSpecs parsed srcLines gen ss
         (AList.update name \<lparr>siName = name, siComment = specComment parsed srcLines gen n, siFields = map (fieldInfo parsed srcLines) fs\<rparr> m)
     | _ \<Rightarrow> structSpecs parsed srcLines gen ss m)"

definition ParseStruct :: "(string \<Rightarrow> astFile option) \<Rightarrow> string \<Rightarrow> (astErr, (string \<times> StructInfo) list) go" where
  "ParseStruct parseFile body = go_bind (parseBody parseFile body) (\<lambda>(parsed, f, src).
     Ok (foldl (\<lambda>m g. structSpecs parsed (splitOn (CHR 0x0A) src) g (gSpecs g) m) [] (genDecls TokTYPE f)))"

section \<open>Functions to be written\<close>

record FuncInfo =
  fiName :: string
  fiComment :: string

definition wsByte :: "char \<Rightarrow> bool" where
  "wsByte c \<longleftrightarrow> byte c \<in> {9, 10, 12, 13, 32}"

text \<open>The two regular expressions of \<open>ExtractComment\<close>, replaced by nothing.\<close>

function stripLineMarks :: "bool \<Rightarrow> string \<Rightarrow> string" where
  "stripLineMarks bol [] = []"
| "stripLineMarks bol (c # s) =
     (if bol \<and> hasPrefix (c # s) ''//'' then
        (case drop 1 s of
           [] \<Rightarrow> []
         | d # r \<Rightarrow> if wsByte d then stripLineMarks (d = CHR 0x0A) r else stripLineMarks False (d # r))
      else c # stripLineMarks (c = CHR 0x0A) s)"
  by pat_completeness auto

termination
proof (relation "measure (\<lambda>(bol, s). length s)")
  fix bol c s d r assume "drop 1 s = d # (r :: string)"
  then have "length (drop 1 s) = Suc (length r)" by simp
  then show "((d = CHR 0x0A, r), bol, c # s) \<in> measure (\<lambda>(bol, s). length s)"
    "((False, d # r), bol, c # s) \<in> measure (\<lambda>(bol, s). length s)" by simp_all
qed simp_all

fun stripBlockMarks :: "string \<Rightarrow> string" where
  "stripBlockMarks (a # b # s) =
     (if [a, b] = ''/*'' \<or> [a, b] = ''*/'' then stripBlockMarks s else a # stripBlockMarks (b # s))"
| "stripBlockMarks s = s"

definition ExtractComment :: "FuncInfo \<Rightarrow> string" where
  "ExtractComment f =
     (if fiComment f = [] then []
      else let comment = stripBlockMarks (stripLineMarks True (fiComment f));
               commentStr = trimSpace (joinWith newline (map trimSpace (splitOn (CHR 0x0A) comment)))
           in trimSpace (if hasPrefix commentStr (fiName f) then drop (length (fiName f)) commentStr else commentStr))"

definition containsPanicCall :: "funcDecl \<Rightarrow> string list \<Rightarrow> bool" where
  "containsPanicCall fn customFlag = list_ex (\<lambda>ce. callFun ce = Some ''panic'' \<and> (case callArg ce of
       None \<Rightarrow> False
     | Some s \<Rightarrow> hasPrefix s ''implement me'' \<or> list_ex (strContains s) customFlag)) (fnCalls fn)"

record filterState =
  removeIntervals :: "(nat \<times> nat) list"
  panicFuncInfos :: "FuncInfo list"
  isMatch :: bool
  keptDecls :: "declTree list"

definition filterDecl :: "string list \<Rightarrow> filterState \<Rightarrow> declTree \<Rightarrow> filterState" where
  "filterDecl customFlag st d = (case topDecl d of
       GenDecl g \<Rightarrow> st\<lparr>keptDecls := keptDecls st @ [d]\<rparr>
     | FuncDecl fn \<Rightarrow>
         (if hasPrefix (fnName fn) ''New'' then st\<lparr>keptDecls := keptDecls st @ [d]\<rparr>
          else case fnRbrace fn of
              None \<Rightarrow> st\<lparr>keptDecls := keptDecls st @ [d]\<rparr>
            | Some b \<Rightarrow>
                (if containsPanicCall fn customFlag then
                   let commentText = docText (fnDoc fn);
                       st1 = st\<lparr>panicFuncInfos := panicFuncInfos st @ [\<lparr>fiName = fnName fn, fiComment = commentText\<rparr>]\<rparr>
                   in if commentText \<noteq> [] then st1\<lparr>keptDecls := keptDecls st @ [d], isMatch := True\<rparr> else st1
                 else let start = (case fnDoc fn of Some (c # _) \<Rightarrow> cmPos c | _ \<Rightarrow> fnFunc fn)
                      in st\<lparr>removeIntervals := removeIntervals st @ [(start, b + 1)]\<rparr>)))"

definition commentKept :: "(nat \<times> nat) list \<Rightarrow> comment list \<Rightarrow> bool" where
  "commentKept rem cg = list_all (\<lambda>(start, end). \<not> (start \<le> cmPos (hd cg) \<and> cmEnd (last cg) \<le> end)) rem"

definition FilterFuncCode :: "(string \<Rightarrow> astFile option) \<Rightarrow> (astFile \<Rightarrow> string option) \<Rightarrow> string \<Rightarrow> string list
    \<Rightarrow> (astErr, string \<times> FuncInfo list) go" where
  "FilterFuncCode parseFile print src customFlag = (case parseFile src of None \<Rightarrow> Err ParseError | Some f \<Rightarrow>
     let st = foldl (filterDecl customFlag) \<lparr>removeIntervals = [], panicFuncInfos = [], isMatch = False, keptDecls = []\<rparr> (afDecls f)
     in if \<not> isMatch st then Err NoFunction
        else case print (f\<lparr>afDecls := keptDecls st, afComments := filter (commentKept (removeIntervals st)) (afComments f)\<rparr>) of
            None \<Rightarrow> Err PrintError
          | Some out \<Rightarrow> Ok (out, panicFuncInfos st))"

definition FilterFuncCodeByFile :: "(string \<Rightarrow> astFile option) \<Rightarrow> (astFile \<Rightarrow> string option) \<Rightarrow> (string \<rightharpoonup> string) \<Rightarrow> string \<Rightarrow> string list
    \<Rightarrow> (astErr, string \<times> FuncInfo list) go" where
  "FilterFuncCodeByFile parseFile print files path customFlag = (case files path of
       None \<Rightarrow> Err ReadError | Some data \<Rightarrow> FilterFuncCode parseFile print data customFlag)"

section \<open>Positions\<close>

text \<open>When the second attempt of \<open>parseBody\<close> succeeds, the lines of all nodes are two lines below those the contents are cut from.\<close>

lemma second_attempt_shifts: "lineAt (''package parse'' @ newline @ newline @ src) (15 + off) = lineAt src off + 2"
proof -
  let ?p = "''package parse'' @ newline @ newline"
  have "take (15 + off) (?p @ src) = ?p @ take off src" by (simp add: newline_def take_Cons')
  then show ?thesis by (simp add: lineAt_def newline_def)
qed

section \<open>Which functions are kept\<close>

text \<open>Functions that may be removed, those still to be written, and those removed with their comments.\<close>

definition candidate :: "declTree \<Rightarrow> bool" where
  "candidate d = (case topDecl d of GenDecl g \<Rightarrow> False | FuncDecl fn \<Rightarrow> \<not> hasPrefix (fnName fn) ''New'' \<and> fnRbrace fn \<noteq> None)"

definition marked :: "string list \<Rightarrow> declTree \<Rightarrow> bool" where
  "marked flags d = (candidate d \<and> (case topDecl d of GenDecl g \<Rightarrow> False | FuncDecl fn \<Rightarrow> containsPanicCall fn flags))"

definition described :: "declTree \<Rightarrow> bool" where
  "described d = (case topDecl d of GenDecl g \<Rightarrow> False | FuncDecl fn \<Rightarrow> docText (fnDoc fn) \<noteq> [])"

definition extent :: "declTree \<Rightarrow> nat \<times> nat" where
  "extent d = (case topDecl d of GenDecl g \<Rightarrow> (0, 0) | FuncDecl fn \<Rightarrow>
     (case fnDoc fn of Some (c # _) \<Rightarrow> cmPos c | _ \<Rightarrow> fnFunc fn, case fnRbrace fn of None \<Rightarrow> 0 | Some b \<Rightarrow> b + 1))"

definition describe :: "declTree \<Rightarrow> FuncInfo" where
  "describe d = (case topDecl d of GenDecl g \<Rightarrow> \<lparr>fiName = [], fiComment = []\<rparr>
     | FuncDecl fn \<Rightarrow> \<lparr>fiName = fnName fn, fiComment = docText (fnDoc fn)\<rparr>)"

definition keptDecl :: "string list \<Rightarrow> declTree \<Rightarrow> bool" where
  "keptDecl flags d = (if candidate d then marked flags d \<and> described d else True)"

lemma filterDecl_step:
  "filterDecl flags st d = st
     \<lparr>removeIntervals := removeIntervals st @ (if candidate d \<and> \<not> marked flags d then [extent d] else []),
      panicFuncInfos := panicFuncInfos st @ (if marked flags d then [describe d] else []),
      isMatch := isMatch st \<or> marked flags d \<and> described d,
      keptDecls := keptDecls st @ (if keptDecl flags d then [d] else [])\<rparr>"
  by (cases st; cases "topDecl d")
     (auto simp: filterDecl_def candidate_def marked_def described_def extent_def describe_def keptDecl_def Let_def split: option.splits list.splits)

lemma filterDecl_loop:
  "foldl (filterDecl flags) st ds = st
     \<lparr>removeIntervals := removeIntervals st @ map extent (filter (\<lambda>d. candidate d \<and> \<not> marked flags d) ds),
      panicFuncInfos := panicFuncInfos st @ map describe (filter (marked flags) ds),
      isMatch := isMatch st \<or> list_ex (\<lambda>d. marked flags d \<and> described d) ds,
      keptDecls := keptDecls st @ filter (keptDecl flags) ds\<rparr>"
  by (induction ds arbitrary: st) (simp_all add: filterDecl_step)

text \<open>
  What filtering keeps. Without a function that is marked as not implemented and has a comment it
  fails; otherwise the printed file has, in order, the declarations that are not functions, the
  constructors, the functions without a body and the marked functions with a comment, and the
  functions reported are exactly the marked ones. The comments removed are those in the extent of an
  unmarked function: the comments in the body of a marked function without comment stay, although
  the function goes.
\<close>

theorem filter_functions:
  "FilterFuncCode parseFile print src flags = (case parseFile src of
       None \<Rightarrow> Err ParseError
     | Some f \<Rightarrow>
         if \<not> list_ex (\<lambda>d. marked flags d \<and> described d) (afDecls f) then Err NoFunction
         else case print (f\<lparr>afDecls := filter (keptDecl flags) (afDecls f),
             afComments := filter (commentKept (map extent (filter (\<lambda>d. candidate d \<and> \<not> marked flags d) (afDecls f)))) (afComments f)\<rparr>) of
             None \<Rightarrow> Err PrintError
           | Some out \<Rightarrow> Ok (out, map describe (filter (marked flags) (afDecls f))))"
  by (simp add: FilterFuncCode_def filterDecl_loop Let_def split: option.splits)

end
