(* ===== verification/GoMerge.thy ===== *)
theory GoMerge
  imports GoAst
begin

text \<open>
  Merging generated Go code into the code of a project (\<open>pkg/goast/merge.go\<close>): imports, constants,
  variables, methods of interfaces, fields of structs, methods of structs, and what is new at the end.

  \<open>go/parser\<close> is the parameter \<open>parseFile\<close> of \<open>GoAst\<close>, \<open>format.Source\<close> the parameter \<open>fmt\<close> (\<open>None\<close> is an error), and
  \<open>ord\<close> gives the order in which a loop visits the keys of a Go map; its first argument names the loop.
\<close>

section \<open>The data\<close>

record CodeAst =
  caFilePath :: string
  caCode :: string
  caInfos :: "AstInfo list"
  packageInfo :: "AstInfo option"
  importInfos :: "AstInfo list"
  constInfos :: "AstInfo list"
  varInfos :: "AstInfo list"
  typeInfos :: "AstInfo list"
  funcInfos :: "AstInfo list"
  nonExistedConstCode :: "string list"
  nonExistedVarCode :: "string list"
  nonExistedTypeInfoMap :: "(string \<times> TypeInfo) list"
  mergedStructMethods :: "string list"
  ignoreFuncNames :: "string list"
  changeCodeFlag :: bool
  isCoverSameFunc :: bool

datatype CodeAstOption = WithCoverSameFunc | WithIgnoreMergeFunc "string list"

fun codeAstOption :: "CodeAstOption \<Rightarrow> CodeAst \<Rightarrow> CodeAst" where
  "codeAstOption WithCoverSameFunc a = a\<lparr>isCoverSameFunc := True\<rparr>"
| "codeAstOption (WithIgnoreMergeFunc names) a = a\<lparr>ignoreFuncNames := ignoreFuncNames a @ names\<rparr>"

definition defaultClientOptions :: CodeAst where
  "defaultClientOptions = \<lparr>caFilePath = [], caCode = [], caInfos = [], packageInfo = None, importInfos = [],
     constInfos = [], varInfos = [], typeInfos = [], funcInfos = [], nonExistedConstCode = [], nonExistedVarCode = [],
     nonExistedTypeInfoMap = [], mergedStructMethods = [], ignoreFuncNames = [], changeCodeFlag = False, isCoverSameFunc = False\<rparr>"

definition applyCodeAst :: "CodeAstOption list \<Rightarrow> CodeAst \<Rightarrow> CodeAst" where
  "applyCodeAst opts a = applyOpts (map codeAstOption opts) a"

fun setSlice :: "CodeAst \<Rightarrow> AstInfo \<Rightarrow> CodeAst" where
  "setSlice a i =
     (if aType i = PackageType then a\<lparr>packageInfo := Some i\<rparr>
      else if aType i = ImportType then a\<lparr>importInfos := importInfos a @ [i]\<rparr>
      else if aType i = ConstType then a\<lparr>constInfos := constInfos a @ [i]\<rparr>
      else if aType i = VarType then a\<lparr>varInfos := varInfos a @ [i]\<rparr>
      else if aType i = TypeType then a\<lparr>typeInfos := typeInfos a @ [i]\<rparr>
      else if aType i = FuncType then a\<lparr>funcInfos := funcInfos a @ [i]\<rparr>
      else a)"

definition setSlices :: "CodeAst \<Rightarrow> CodeAst" where
  "setSlices a = foldl setSlice a (caInfos a)"

definition NewCodeAstFromData :: "(string \<Rightarrow> astFile option) \<Rightarrow> string \<Rightarrow> CodeAstOption list \<Rightarrow> (astErr, CodeAst) go" where
  "NewCodeAstFromData parseFile data opts =
     (let o1 = applyCodeAst opts defaultClientOptions in
      go_bind (ParseGoCode parseFile data) (\<lambda>infos.
        Ok (setSlices (defaultClientOptions\<lparr>caCode := data, caInfos := infos,
          isCoverSameFunc := isCoverSameFunc o1, ignoreFuncNames := ignoreFuncNames o1\<rparr>))))"

definition NewCodeAst :: "(string \<Rightarrow> astFile option) \<Rightarrow> (string \<rightharpoonup> string) \<Rightarrow> string \<Rightarrow> CodeAstOption list \<Rightarrow> (astErr, CodeAst) go" where
  "NewCodeAst parseFile files filePath opts =
     (let o1 = applyCodeAst opts defaultClientOptions in
      case files filePath of None \<Rightarrow> Err ReadError | Some data \<Rightarrow>
      go_bind (ParseGoCode parseFile data) (\<lambda>infos.
        Ok (setSlices (defaultClientOptions\<lparr>caFilePath := filePath, caCode := data, caInfos := infos,
          isCoverSameFunc := isCoverSameFunc o1, ignoreFuncNames := ignoreFuncNames o1\<rparr>))))"

section \<open>Groups of declarations\<close>

definition withComment :: "string \<Rightarrow> string \<Rightarrow> string" where
  "withComment comment body = (if comment = [] then body else comment @ newline @ body)"

definition blocksText :: "AstInfo list \<Rightarrow> string" where
  "blocksText is = concat (map (\<lambda>i. withComment (aComment i) (aBody i) @ newline) is)"

definition parseImportCode :: "(string \<Rightarrow> astFile option) \<Rightarrow> CodeAst \<Rightarrow> (astErr, ImportInfo list) go" where
  "parseImportCode parseFile a = ParseImportGroup parseFile (blocksText (importInfos a))"

definition parseConstCode :: "(string \<Rightarrow> astFile option) \<Rightarrow> CodeAst \<Rightarrow> (astErr, ConstInfo list) go" where
  "parseConstCode parseFile a = ParseConstGroup parseFile (blocksText (constInfos a))"

definition parseVarCode :: "(string \<Rightarrow> astFile option) \<Rightarrow> CodeAst \<Rightarrow> (astErr, VarInfo list) go" where
  "parseVarCode parseFile a = ParseVarGroup parseFile (blocksText (varInfos a))"

definition groupTypes :: "TypeInfo list \<Rightarrow> (string \<times> TypeInfo list) list" where
  "groupTypes infos = foldl (\<lambda>m i. if tiName i = [] then m
     else AList.update (tiName i) ((case map_of m (tiName i) of None \<Rightarrow> [] | Some is \<Rightarrow> is) @ [i]) m) [] infos"

definition parseTypeCode :: "(string \<Rightarrow> astFile option) \<Rightarrow> CodeAst \<Rightarrow> (astErr, (string \<times> TypeInfo list) list) go" where
  "parseTypeCode parseFile a = go_bind (ParseTypeGroup parseFile (blocksText (typeInfos a))) (\<lambda>infos. Ok (groupTypes infos))"

definition trimBody :: "string \<Rightarrow> string \<Rightarrow> string" where
  "trimBody body codeType =
     (let b = trimSpace body; p = codeType @ '' '' in if hasPrefix b p then drop (length p) b else b)"

definition tab :: string where "tab = [CHR 0x09]"

section \<open>Imports, constants and variables\<close>

definition importLine :: "ImportInfo \<Rightarrow> string" where
  "importLine i = withComment (iiComment i) (tab @ trimBody (iiBody i) ImportType) @ newline"

definition insertAfterPackage :: "string \<Rightarrow> CodeAst \<Rightarrow> string" where
  "insertAfterPackage dstStr a = (let srcStr = (case packageInfo a of None \<Rightarrow> [] | Some i \<Rightarrow> aBody i)
     in replaceFirst (caCode a) srcStr (srcStr @ newline @ newline @ dstStr))"

definition mergeImportCode :: "(string \<Rightarrow> astFile option) \<Rightarrow> CodeAst \<Rightarrow> CodeAst \<Rightarrow> (astErr, CodeAst) go" where
  "mergeImportCode parseFile genAst a =
     (if importInfos genAst = [] then Ok a
      else case packageInfo a of None \<Rightarrow> Panic | Some pkg \<Rightarrow>
      (if importInfos a = [] then
         (let dstStr = concat (map (\<lambda>i. aBody i @ newline) (filter (\<lambda>i. aType i = ImportType) (caInfos genAst)))
          in if strCount (caCode a) (aBody pkg) > 1 then Err (Duplication ''mergeImportCode'' (aBody pkg))
             else Ok (a\<lparr>caCode := insertAfterPackage dstStr a, changeCodeFlag := True\<rparr>))
       else
         go_bind (parseImportCode parseFile a) (\<lambda>srcImports.
         go_bind (parseImportCode parseFile genAst) (\<lambda>genImports.
           let fresh = filter (\<lambda>i. iiPath i \<notin> set (map iiPath srcImports)) genImports
           in if fresh = [] then Ok a
              else let dstStr = ''import ('' @ newline @ concat (map importLine (srcImports @ fresh)) @ '')'';
                       a1 = a\<lparr>caCode := insertAfterPackage dstStr a, changeCodeFlag := True\<rparr>
                   in Ok (a1\<lparr>caCode := foldl (\<lambda>code i. replaceFirst code (aBody i) []) (caCode a1) (importInfos a)\<rparr>)))))"

definition valueLine :: "string \<Rightarrow> ConstInfo \<Rightarrow> string" where
  "valueLine codeType i =
     (if ciComment i = [] then [] else (if hasPrefix (ciComment i) tab then ciComment i else tab @ ciComment i) @ newline)
      @ tab @ trimBody (ciBody i) codeType @ newline"

definition valueGroup :: "string \<Rightarrow> ConstInfo list \<Rightarrow> string" where
  "valueGroup codeType infos = codeType @ '' ('' @ newline @ concat (map (valueLine codeType) infos) @ '')'' @ newline"

definition compareConstCode :: "(string \<Rightarrow> astFile option) \<Rightarrow> CodeAst \<Rightarrow> CodeAst \<Rightarrow> (astErr, CodeAst) go" where
  "compareConstCode parseFile genAst a =
     (if constInfos genAst = [] then Ok a
      else if constInfos a = [] then
        Ok (a\<lparr>nonExistedConstCode := nonExistedConstCode a @ [blocksText (filter (\<lambda>i. aType i = ConstType) (caInfos genAst))]\<rparr>)
      else
        go_bind (parseConstCode parseFile a) (\<lambda>srcConsts.
        go_bind (parseConstCode parseFile genAst) (\<lambda>genConsts.
          let fresh = filter (\<lambda>i. ciName i \<notin> set (map ciName srcConsts)) genConsts
          in if fresh = [] then Ok a
             else Ok (a\<lparr>nonExistedConstCode := nonExistedConstCode a @ [valueGroup ConstType fresh]\<rparr>))))"

definition compareVarCode :: "(string \<Rightarrow> astFile option) \<Rightarrow> CodeAst \<Rightarrow> CodeAst \<Rightarrow> (astErr, CodeAst) go" where
  "compareVarCode parseFile genAst a =
     (if varInfos genAst = [] then Ok a
      else if varInfos a = [] then
        Ok (a\<lparr>nonExistedVarCode := nonExistedVarCode a @ [blocksText (filter (\<lambda>i. aType i = VarType) (caInfos genAst))]\<rparr>)
      else
        go_bind (parseVarCode parseFile a) (\<lambda>srcVars.
        go_bind (parseVarCode parseFile genAst) (\<lambda>genVars.
          let fresh = filter (\<lambda>i. ciName i \<notin> set (map ciName srcVars)
                 \<or> ciName i = ''_'' \<and> \<not> strContains (caCode a) (trimSpace (ciBody i))) genVars
          in if fresh = [] then Ok a
             else Ok (a\<lparr>nonExistedVarCode := nonExistedVarCode a @ [valueGroup VarType fresh]\<rparr>))))"

section \<open>Types\<close>

text \<open>The end of \<open>mergeInterfaceMethodCode\<close> and of \<open>mergeStructFieldsCode\<close>: new items go behind the last one.\<close>

definition extendType :: "string \<Rightarrow> string \<Rightarrow> string \<Rightarrow> string list \<Rightarrow> string list \<Rightarrow> CodeAst \<Rightarrow> (astErr, CodeAst) go" where
  "extendType marker head srcStr oldItems newItems a =
     (if newItems = [] then Ok a
      else if strCount (caCode a) srcStr > 1 then Err (Duplication marker srcStr)
      else let dstStr = (if oldItems = [] then head @ newline @ joinWith newline newItems @ newline @ ''}''
             else replaceFirst srcStr (last oldItems) (last oldItems @ newline @ joinWith newline newItems))
           in Ok (a\<lparr>caCode := replaceFirst (caCode a) srcStr dstStr, changeCodeFlag := True\<rparr>))"

definition mergeInterfaceMethodCode :: "(string \<Rightarrow> astFile option) \<Rightarrow> TypeInfo \<Rightarrow> TypeInfo \<Rightarrow> CodeAst \<Rightarrow> (astErr, CodeAst) go" where
  "mergeInterfaceMethodCode parseFile srcTypeInfo genTypeInfo a =
     go_bind (ParseInterface parseFile (tiBody srcTypeInfo)) (\<lambda>srcIs.
     go_bind (ParseInterface parseFile (tiBody genTypeInfo)) (\<lambda>genIs.
       case (srcIs, genIs) of
         ([si], [gi]) \<Rightarrow>
           extendType ''mergeInterfaceMethodCode'' (''type '' @ ifName si @ '' interface {'') (tiBody srcTypeInfo)
             (map miBody (ifMethods si))
             (map (\<lambda>m. withComment (miComment m) (miBody m)) (filter (\<lambda>m. miName m \<notin> set (map miName (ifMethods si))) (ifMethods gi))) a
       | _ \<Rightarrow> Ok a))"

fun structLoop :: "string \<Rightarrow> (string \<times> StructInfo) list \<Rightarrow> (string \<times> StructInfo) list \<Rightarrow> string list \<Rightarrow> CodeAst \<Rightarrow> (astErr, CodeAst) go" where
  "structLoop srcStr srcStructs genStructs [] a = Ok a"
| "structLoop srcStr srcStructs genStructs (name # names) a = (case (map_of srcStructs name, map_of genStructs name) of
       (Some ss, Some gs) \<Rightarrow>
         go_bind (extendType ''mergeStructFieldsCode'' (''type '' @ siName ss @ '' struct {'') srcStr (map sfBody (siFields ss))
           (map (\<lambda>fd. withComment (sfComment fd) (sfBody fd)) (filter (\<lambda>fd. sfName fd \<notin> set (map sfName (siFields ss))) (siFields gs))) a)
           (structLoop srcStr srcStructs genStructs names)
     | _ \<Rightarrow> structLoop srcStr srcStructs genStructs names a)"

definition mergeStructFieldsCode :: "(string \<Rightarrow> astFile option) \<Rightarrow> (string \<Rightarrow> string list \<Rightarrow> string list) \<Rightarrow> TypeInfo \<Rightarrow> TypeInfo \<Rightarrow> CodeAst \<Rightarrow> (astErr, CodeAst) go" where
  "mergeStructFieldsCode parseFile ord srcTypeInfo genTypeInfo a =
     go_bind (ParseStruct parseFile (tiBody srcTypeInfo)) (\<lambda>srcStructs.
     go_bind (ParseStruct parseFile (tiBody genTypeInfo)) (\<lambda>genStructs.
       structLoop (tiBody srcTypeInfo) srcStructs genStructs (ord (''struct '' @ tiName genTypeInfo) (map fst genStructs)) a))"

text \<open>The types of one name: \<open>srcTypeInfoMap\<close> has the last type of each name.\<close>

fun typesOfName :: "(string \<Rightarrow> astFile option) \<Rightarrow> (string \<Rightarrow> string list \<Rightarrow> string list) \<Rightarrow> TypeInfo list \<Rightarrow> TypeInfo list \<Rightarrow> CodeAst \<Rightarrow> (astErr, CodeAst) go" where
  "typesOfName parseFile ord srcTypes [] a = Ok a"
| "typesOfName parseFile ord srcTypes (g # gs) a =
     go_bind (case map_of (rev (map (\<lambda>t. (tiName t, t)) srcTypes)) (tiName g) of
         None \<Rightarrow> Ok a
       | Some s \<Rightarrow> if tiType g = InterfaceType then mergeInterfaceMethodCode parseFile s g a
           else if tiType g = StructType then mergeStructFieldsCode parseFile ord s g a
           else Ok a)
       (typesOfName parseFile ord srcTypes gs)"

fun typeLoop :: "(string \<Rightarrow> astFile option) \<Rightarrow> (string \<Rightarrow> string list \<Rightarrow> string list) \<Rightarrow> (string \<times> TypeInfo list) list \<Rightarrow> (string \<times> TypeInfo list) list
    \<Rightarrow> string list \<Rightarrow> (string \<times> TypeInfo) list \<Rightarrow> CodeAst \<Rightarrow> (astErr, CodeAst) go" where
  "typeLoop parseFile ord srcMap genMap [] fresh a = Ok (a\<lparr>nonExistedTypeInfoMap := fresh\<rparr>)"
| "typeLoop parseFile ord srcMap genMap (name # names) fresh a =
     (let genTypes = (case map_of genMap name of None \<Rightarrow> [] | Some gs \<Rightarrow> gs);
          srcNames = map tiName (concat (map snd srcMap));
          fresh1 = foldl (\<lambda>m i. if tiName i \<in> set srcNames then m else AList.update (tiName i) i m) fresh genTypes
      in case map_of srcMap name of
           None \<Rightarrow> typeLoop parseFile ord srcMap genMap names fresh1 a
         | Some srcTypes \<Rightarrow> go_bind (typesOfName parseFile ord srcTypes genTypes a) (typeLoop parseFile ord srcMap genMap names fresh1))"

definition mergeExistedTypeCode :: "(string \<Rightarrow> astFile option) \<Rightarrow> (string \<Rightarrow> string list \<Rightarrow> string list) \<Rightarrow> CodeAst \<Rightarrow> CodeAst \<Rightarrow> (astErr, CodeAst) go" where
  "mergeExistedTypeCode parseFile ord genAst a =
     go_bind (parseTypeCode parseFile a) (\<lambda>srcMap.
     go_bind (parseTypeCode parseFile genAst) (\<lambda>genMap.
       typeLoop parseFile ord srcMap genMap (ord ''types'' (map fst genMap)) [] a))"

section \<open>Functions\<close>

fun methodLoop :: "(string \<times> MethodInfo list) list \<Rightarrow> (string \<times> MethodInfo list) list \<Rightarrow> string list \<Rightarrow> CodeAst \<Rightarrow> (astErr, CodeAst) go" where
  "methodLoop srcMap genMap [] a = Ok a"
| "methodLoop srcMap genMap (structName # names) a = (case (map_of srcMap structName, map_of genMap structName) of
       (Some srcMethods, Some genMethods) \<Rightarrow>
         (let fresh = map (\<lambda>m. miComment m @ newline @ miBody m) (filter (\<lambda>m. miName m \<notin> set (map miName srcMethods)) genMethods);
              srcStr = (if srcMethods = [] then [] else miBody (last srcMethods))
          in if fresh = [] then methodLoop srcMap genMap names a
             else if strCount (caCode a) srcStr > 1 then Err (Duplication ''mergeStructMethodsCode'' srcStr)
             else methodLoop srcMap genMap names
               (a\<lparr>caCode := replaceFirst (caCode a) srcStr (srcStr @ newline @ newline @ joinWith (newline @ newline) fresh),
                  changeCodeFlag := True, mergedStructMethods := structName # mergedStructMethods a\<rparr>))
     | _ \<Rightarrow> methodLoop srcMap genMap names a)"

definition mergeStructMethodsCode :: "(string \<Rightarrow> string list \<Rightarrow> string list) \<Rightarrow> CodeAst \<Rightarrow> CodeAst \<Rightarrow> (astErr, CodeAst) go" where
  "mergeStructMethodsCode ord genAst a =
     (let srcMap = ParseStructMethods (caInfos a) []; genMap = ParseStructMethods (caInfos genAst) []
      in methodLoop srcMap genMap (ord ''methods'' (map fst genMap)) a)"

definition coverFunc :: "(string \<times> AstInfo) list \<Rightarrow> CodeAst \<Rightarrow> AstInfo \<Rightarrow> CodeAst" where
  "coverFunc srcFuncs a g =
     (let genFuncName = GetName g;
          ignoreFuncName = (if length (aNames g) = 2 then aNames g ! 0 else genFuncName)
      in if genFuncName = ''init'' \<or> genFuncName = ''_'' then a
         else if ignoreFuncName \<in> set (ignoreFuncNames a) then a
         else case map_of srcFuncs genFuncName of
             None \<Rightarrow> a
           | Some s \<Rightarrow>
               let dstStr = (if aComment s = [] \<and> aComment g \<noteq> [] then aComment g @ newline @ aBody g else aBody g)
               in a\<lparr>caCode := replaceFirst (caCode a) (aBody s) dstStr, changeCodeFlag := True\<rparr>)"

definition coverFuncCode :: "CodeAst \<Rightarrow> CodeAst \<Rightarrow> CodeAst" where
  "coverFuncCode genAst a = foldl (coverFunc (rev (map (\<lambda>i. (GetName i, i)) (funcInfos a)))) a (funcInfos genAst)"

text \<open>What \<open>appendNonExistedCode\<close> appends for a block of the generated code, looking at the code \<open>code\<close>.\<close>

definition appendCode :: "CodeAst \<Rightarrow> string \<Rightarrow> AstInfo \<Rightarrow> string list" where
  "appendCode a code g =
     (if aType g \<in> {PackageType, ImportType, ConstType, VarType} then []
      else if isMethod g \<and> aNames g ! 1 \<in> set (mergedStructMethods a) then []
      else let name = GetName g; whole = [aComment g @ newline @ aBody g] in
        if name \<notin> set (map GetName (caInfos a)) then
          (let types = concat (map (\<lambda>n. case map_of (nonExistedTypeInfoMap a) n of
                 None \<Rightarrow> [] | Some i \<Rightarrow> [withComment (tiComment i) (tiBody i)]) (aNames g))
           in if aType g = TypeType \<and> length (aNames g) > 1 \<and> types \<noteq> []
              then [''type ('' @ newline @ joinWith newline types @ newline @ '')''] else whole)
        else if (name = ''_'' \<or> aType g = FuncType \<and> name = ''init'') \<and> \<not> strContains code (aBody g) then whole
        else [])"

definition addCodes :: "string list \<Rightarrow> CodeAst \<Rightarrow> CodeAst" where
  "addCodes codes a = (if codes = [] then a else a\<lparr>caCode := caCode a @ newline @ joinWith newline codes, changeCodeFlag := True\<rparr>)"

definition appendNonExistedCode :: "AstInfo list \<Rightarrow> CodeAst \<Rightarrow> CodeAst" where
  "appendNonExistedCode genAsts a =
     (let a2 = addCodes (nonExistedVarCode a) (addCodes (nonExistedConstCode a) a);
          appendCodes = concat (map (appendCode a2 (caCode a2)) genAsts)
      in if appendCodes = [] then a2
         else a2\<lparr>caCode := caCode a2 @ joinWith (newline @ newline) appendCodes @ newline, changeCodeFlag := True\<rparr>)"

section \<open>The merge\<close>

text \<open>Everything before the formatting.\<close>

definition mergeRaw :: "(string \<Rightarrow> astFile option) \<Rightarrow> (string \<Rightarrow> string list \<Rightarrow> string list) \<Rightarrow> CodeAst \<Rightarrow> CodeAst \<Rightarrow> (astErr, CodeAst) go" where
  "mergeRaw parseFile ord srcAst genAst =
     go_bind (mergeImportCode parseFile genAst srcAst) (\<lambda>a1.
     go_bind (compareConstCode parseFile genAst a1) (\<lambda>a2.
     go_bind (compareVarCode parseFile genAst a2) (\<lambda>a3.
     go_bind (mergeExistedTypeCode parseFile ord genAst a3) (\<lambda>a4.
     go_bind (mergeStructMethodsCode ord genAst a4) (\<lambda>a5.
       let a6 = (if isCoverSameFunc a5 then coverFuncCode genAst a5 else a5)
       in Ok (appendNonExistedCode (caInfos genAst) a6))))))"

definition mergeCode :: "(string \<Rightarrow> astFile option) \<Rightarrow> (string \<Rightarrow> string option) \<Rightarrow> (string \<Rightarrow> string list \<Rightarrow> string list)
    \<Rightarrow> CodeAst \<Rightarrow> CodeAst \<Rightarrow> (astErr, CodeAst) go" where
  "mergeCode parseFile fmt ord srcAst genAst = go_bind (mergeRaw parseFile ord srcAst genAst) (\<lambda>a.
     Ok (if changeCodeFlag a then (case fmt (caCode a) of Some data \<Rightarrow> a\<lparr>caCode := data\<rparr> | None \<Rightarrow> a) else a))"

definition MergeGoFile :: "(string \<Rightarrow> astFile option) \<Rightarrow> (string \<Rightarrow> string option) \<Rightarrow> (string \<Rightarrow> string list \<Rightarrow> string list)
    \<Rightarrow> (string \<rightharpoonup> string) \<Rightarrow> string \<Rightarrow> string \<Rightarrow> CodeAstOption list \<Rightarrow> (astErr, CodeAst) go" where
  "MergeGoFile parseFile fmt ord files srcFile genFile opts =
     go_bind (NewCodeAst parseFile files srcFile opts) (\<lambda>srcAst.
     go_bind (NewCodeAst parseFile files genFile []) (\<lambda>genAst. mergeCode parseFile fmt ord srcAst genAst))"

definition MergeGoCode :: "(string \<Rightarrow> astFile option) \<Rightarrow> (string \<Rightarrow> string option) \<Rightarrow> (string \<Rightarrow> string list \<Rightarrow> string list)
    \<Rightarrow> string \<Rightarrow> string \<Rightarrow> CodeAstOption list \<Rightarrow> (astErr, CodeAst) go" where
  "MergeGoCode parseFile fmt ord srcCode genCode opts =
     go_bind (NewCodeAstFromData parseFile srcCode opts) (\<lambda>srcAst.
     go_bind (NewCodeAstFromData parseFile genCode opts) (\<lambda>genAst. mergeCode parseFile fmt ord srcAst genAst))"

section \<open>Nothing is removed\<close>

lemma subseq_replaceFirst: "subseq old new \<Longrightarrow> subseq s (replaceFirst s old new)"
proof (cases "strContains s old")
  case True
  assume "subseq old new"
  moreover from replaceFirst_split [OF True] obtain a b where
    "s = a @ old @ b" "replaceFirst s old new = a @ new @ b" by blast
  ultimately show ?thesis by (simp add: list_emb_append_mono)
qed (simp add: replaceFirst_absent)

lemma subseq_extend [simp]: "subseq xs (xs @ ys)"
  using list_emb_append_mono [of "(=)" xs xs "[]" ys] by simp

text \<open>A step that only inserts, marks what it changes and keeps the parsed blocks.\<close>

definition grows :: "CodeAst \<Rightarrow> CodeAst \<Rightarrow> bool" where
  "grows a b \<longleftrightarrow> subseq (caCode a) (caCode b) \<and> (changeCodeFlag a \<longrightarrow> changeCodeFlag b)
     \<and> (\<not> changeCodeFlag b \<longrightarrow> caCode b = caCode a)
     \<and> typeInfos b = typeInfos a \<and> caInfos b = caInfos a \<and> isCoverSameFunc b = isCoverSameFunc a"

lemma grows_refl [simp]: "grows a a"
  by (simp add: grows_def)

lemma grows_trans: "grows a b \<Longrightarrow> grows b c \<Longrightarrow> grows a c"
  using subseq_order.order_trans unfolding grows_def by metis

lemma grows_code: "subseq (caCode a) c \<Longrightarrow> grows a (a\<lparr>caCode := c, changeCodeFlag := True\<rparr>)"
  by (simp add: grows_def)

lemma grows_same:
  "caCode b = caCode a \<Longrightarrow> changeCodeFlag b = changeCodeFlag a \<Longrightarrow> typeInfos b = typeInfos a \<Longrightarrow> caInfos b = caInfos a
    \<Longrightarrow> isCoverSameFunc b = isCoverSameFunc a \<Longrightarrow> grows a b"
  by (simp add: grows_def)

lemma grows_import:
  assumes "mergeImportCode pf g a = Ok b"
    and "importInfos g = [] \<or> importInfos a = [] \<or> (\<forall>si gi. parseImportCode pf a = Ok si \<longrightarrow> parseImportCode pf g = Ok gi
      \<longrightarrow> iiPath ` set gi \<subseteq> iiPath ` set si)"
  shows "grows a b"
proof -
  have ins: "subseq (caCode a) (insertAfterPackage d a)" for d
    unfolding insertAfterPackage_def Let_def by (rule subseq_replaceFirst) simp
  show ?thesis
  proof (cases "importInfos g = [] \<or> importInfos a = []")
    case True
    with assms(1) show ?thesis
      by (cases "importInfos g = []") (auto simp: mergeImportCode_def Let_def split: if_splits option.splits intro: grows_code [OF ins])
  next
    case False
    with assms(1) obtain si gi where p: "parseImportCode pf a = Ok si" "parseImportCode pf g = Ok gi"
      by (auto simp: mergeImportCode_def go_bind_eq_Ok split: option.splits)
    with False assms(2) have "filter (\<lambda>i. iiPath i \<notin> set (map iiPath si)) gi = []"
      by (auto simp: filter_empty_conv)
    with False assms(1) p have "b = a" by (simp add: mergeImportCode_def split: option.splits)
    then show ?thesis by simp
  qed
qed

lemma const_cases:
  assumes c: "compareConstCode pf g a = Ok b"
  shows "b = a \<or> (\<exists>c. b = a\<lparr>nonExistedConstCode := c\<rparr>)"
proof (cases "constInfos g = [] \<or> constInfos a = []")
  case True
  with c show ?thesis by (cases "constInfos g = []") (simp_all add: compareConstCode_def, metis)
next
  case False
  with c show ?thesis by (simp add: compareConstCode_def Let_def go_bind_eq_Ok split: if_split_asm) metis
qed

lemma grows_consts: "compareConstCode pf g a = Ok b \<Longrightarrow> grows a b"
  by (drule const_cases) (elim disjE exE; simp add: grows_same)

lemma var_cases:
  assumes c: "compareVarCode pf g a = Ok b"
  shows "b = a \<or> (\<exists>c. b = a\<lparr>nonExistedVarCode := c\<rparr>)"
proof (cases "varInfos g = [] \<or> varInfos a = []")
  case True
  with c show ?thesis by (cases "varInfos g = []") (simp_all add: compareVarCode_def, metis)
next
  case False
  with c show ?thesis by (simp add: compareVarCode_def Let_def go_bind_eq_Ok split: if_split_asm) metis
qed

lemma grows_vars: "compareVarCode pf g a = Ok b \<Longrightarrow> grows a b"
  by (drule var_cases) (elim disjE exE; simp add: grows_same)

lemma grows_extendType:
  assumes "extendType mk hd1 s old new a = Ok b" "old \<noteq> []"
  shows "grows a b"
proof -
  have "subseq s (replaceFirst s (last old) (last old @ newline @ joinWith newline new))"
    by (rule subseq_replaceFirst) simp
  from grows_code [OF subseq_replaceFirst [OF this]] assms show ?thesis
    by (auto simp: extendType_def Let_def split: if_splits)
qed

lemma map_of_rev_in: "map_of (rev (map (\<lambda>t. (f t, t)) ts)) n = Some t \<Longrightarrow> t \<in> set ts"
  by (drule map_of_SomeD) auto

lemma map_of_groupTypes:
  "map_of (groupTypes infos) n = (if n = [] \<or> filter (\<lambda>i. tiName i = n) infos = [] then None else Some (filter (\<lambda>i. tiName i = n) infos))"
proof (induction infos rule: rev_induct)
  case Nil
  show ?case by (simp add: groupTypes_def)
next
  case (snoc i infos)
  have "groupTypes (infos @ [i]) = (if tiName i = [] then groupTypes infos
     else AList.update (tiName i) ((case map_of (groupTypes infos) (tiName i) of None \<Rightarrow> [] | Some is \<Rightarrow> is) @ [i]) (groupTypes infos))"
    by (simp add: groupTypes_def)
  with snoc show ?case by (auto simp: update_conv')
qed

text \<open>
  What holds of every change of the types of the source: a reflexive and transitive relation between
  the states that every extension of a type with acceptable old items respects. A type of the
  source is acceptable when its methods or fields are.
\<close>

definition okType :: "(string list \<Rightarrow> bool) \<Rightarrow> (string \<Rightarrow> astFile option) \<Rightarrow> TypeInfo \<Rightarrow> bool" where
  "okType okItems pf t \<longleftrightarrow> (\<forall>si. ParseInterface pf (tiBody t) = Ok [si] \<longrightarrow> okItems (map miBody (ifMethods si)))
     \<and> (\<forall>m n ss. ParseStruct pf (tiBody t) = Ok m \<longrightarrow> map_of m n = Some ss \<longrightarrow> okItems (map sfBody (siFields ss)))"

locale type_changes =
  fixes R :: "CodeAst \<Rightarrow> CodeAst \<Rightarrow> bool" and okItems :: "string list \<Rightarrow> bool"
  assumes refl: "R a a"
    and trans: "R a b \<Longrightarrow> R b c \<Longrightarrow> R a c"
    and extend: "extendType mk h s old new a = Ok b \<Longrightarrow> okItems old \<Longrightarrow> R a b"
    and remember: "R a (a\<lparr>nonExistedTypeInfoMap := m\<rparr>)"
begin

lemma interface_R: "mergeInterfaceMethodCode pf s g a = Ok b \<Longrightarrow> okType okItems pf s \<Longrightarrow> R a b"
proof -
  assume m: "mergeInterfaceMethodCode pf s g a = Ok b" and n: "okType okItems pf s"
  then obtain si gi where si: "ParseInterface pf (tiBody s) = Ok si" and gi: "ParseInterface pf (tiBody g) = Ok gi"
    by (auto simp: mergeInterfaceMethodCode_def go_bind_eq_Ok)
  show "R a b"
  proof (cases "\<exists>x y. si = [x] \<and> gi = [y]")
    case True
    then obtain x y where xy: "si = [x]" "gi = [y]" by blast
    with n si have "okItems (map miBody (ifMethods x))" by (simp add: okType_def)
    with m si gi xy show ?thesis by (auto simp: mergeInterfaceMethodCode_def intro: extend)
  next
    case False
    then have "b = a" using m si gi by (auto simp: mergeInterfaceMethodCode_def split: list.splits)
    then show ?thesis by (simp add: refl)
  qed
qed

lemma structLoop_R:
  "structLoop s srcS genS names a = Ok b \<Longrightarrow> (\<forall>n ss. map_of srcS n = Some ss \<longrightarrow> okItems (map sfBody (siFields ss))) \<Longrightarrow> R a b"
proof (induction names arbitrary: a)
  case (Cons n names)
  show ?case
  proof (cases "map_of srcS n = None \<or> map_of genS n = None")
    case True
    with Cons show ?thesis by (auto split: option.splits)
  next
    case False
    then obtain ss gs where l: "map_of srcS n = Some ss" "map_of genS n = Some gs" by auto
    with Cons.prems obtain c where "structLoop s srcS genS names c = Ok b"
      and e: "\<exists>mk hd1 new. extendType mk hd1 s (map sfBody (siFields ss)) new a = Ok c"
      by (auto simp: go_bind_eq_Ok)
    with Cons have "R c b" by blast
    moreover from e l Cons.prems(2) have "R a c" by (auto intro: extend)
    ultimately show ?thesis by (rule trans [rotated])
  qed
qed (simp add: refl)

lemma struct_R: "mergeStructFieldsCode pf ord s g a = Ok b \<Longrightarrow> okType okItems pf s \<Longrightarrow> R a b"
  by (auto simp: mergeStructFieldsCode_def go_bind_eq_Ok okType_def elim!: structLoop_R)

lemma typesOfName_R:
  "typesOfName pf ord ss gs a = Ok b \<Longrightarrow> (\<forall>t\<in>set ss. okType okItems pf t) \<Longrightarrow> R a b"
proof (induction gs arbitrary: a)
  case (Cons g gs)
  let ?l = "map_of (rev (map (\<lambda>t. (tiName t, t)) ss)) (tiName g)"
  from Cons.prems obtain c where c: "(case ?l of None \<Rightarrow> Ok a
       | Some s \<Rightarrow> if tiType g = InterfaceType then mergeInterfaceMethodCode pf s g a
           else if tiType g = StructType then mergeStructFieldsCode pf ord s g a else Ok a) = Ok c"
    and r: "typesOfName pf ord ss gs c = Ok b" by (auto simp: go_bind_eq_Ok)
  have "R a c"
  proof (cases ?l)
    case (Some s)
    then have "okType okItems pf s" using map_of_rev_in [of tiName ss "tiName g" s] Cons.prems(2) by simp
    with c Some show ?thesis by (auto split: if_splits intro: interface_R struct_R refl)
  qed (use c refl in simp)
  moreover have "R c b" using Cons r by blast
  ultimately show ?case by (rule trans)
qed (simp add: refl)

lemma typeLoop_R:
  "typeLoop pf ord sm gm names fresh a = Ok b \<Longrightarrow> (\<forall>n ts t. map_of sm n = Some ts \<longrightarrow> t \<in> set ts \<longrightarrow> okType okItems pf t) \<Longrightarrow> R a b"
proof (induction names arbitrary: a fresh)
  case Nil
  then show ?case using remember by auto
next
  case (Cons n names)
  show ?case
  proof (cases "map_of sm n")
    case None
    with Cons show ?thesis by (auto simp: Let_def)
  next
    case (Some ts)
    with Cons.prems(1) obtain c gt fr where "typesOfName pf ord ts gt a = Ok c" and l: "typeLoop pf ord sm gm names fr c = Ok b"
      by (auto simp: Let_def go_bind_eq_Ok)
    with Some Cons.prems(2) have "R a c" by (auto intro: typesOfName_R)
    moreover have "R c b" using Cons.IH [OF l Cons.prems(2)] .
    ultimately show ?thesis by (rule trans)
  qed
qed

lemma existedTypes_R:
  assumes "mergeExistedTypeCode pf ord g a = Ok b"
    and "\<forall>infos. ParseTypeGroup pf (blocksText (typeInfos a)) = Ok infos \<longrightarrow> (\<forall>t\<in>set infos. okType okItems pf t)"
  shows "R a b"
proof -
  from assms(1) obtain infos gm where p: "ParseTypeGroup pf (blocksText (typeInfos a)) = Ok infos"
    and l: "typeLoop pf ord (groupTypes infos) gm (ord ''types'' (map fst gm)) [] a = Ok b"
    by (auto simp: mergeExistedTypeCode_def parseTypeCode_def go_bind_eq_Ok)
  show ?thesis by (rule typeLoop_R [OF l]) (use p assms(2) in \<open>auto simp: map_of_groupTypes split: if_splits\<close>)
qed

end

interpretation gr: type_changes grows "\<lambda>items. items \<noteq> []"
  by unfold_locales (auto intro: grows_trans grows_extendType simp: grows_same)

definition notEmpty :: "(string \<Rightarrow> astFile option) \<Rightarrow> TypeInfo \<Rightarrow> bool" where
  "notEmpty pf t \<longleftrightarrow> (\<forall>si. ParseInterface pf (tiBody t) = Ok [si] \<longrightarrow> ifMethods si \<noteq> [])
     \<and> (\<forall>m n ss. ParseStruct pf (tiBody t) = Ok m \<longrightarrow> map_of m n = Some ss \<longrightarrow> siFields ss \<noteq> [])"

lemma okType_notEmpty: "okType (\<lambda>items. items \<noteq> []) pf t \<longleftrightarrow> notEmpty pf t"
  by (simp add: okType_def notEmpty_def)

lemmas grows_types = gr.existedTypes_R [unfolded okType_notEmpty]

text \<open>What no step before the methods changes.\<close>

definition keeps :: "CodeAst \<Rightarrow> CodeAst \<Rightarrow> bool" where
  "keeps a b \<longleftrightarrow> caInfos b = caInfos a \<and> isCoverSameFunc b = isCoverSameFunc a \<and> mergedStructMethods b = mergedStructMethods a
     \<and> nonExistedVarCode b = nonExistedVarCode a \<and> varInfos b = varInfos a"

interpretation kp: type_changes keeps "\<lambda>_. True"
  by unfold_locales (auto simp: keeps_def extendType_def Let_def split: if_splits)

lemma keeps_types: "mergeExistedTypeCode pf ord g a = Ok b \<Longrightarrow> keeps a b"
  by (rule kp.existedTypes_R) (simp_all add: okType_def)

lemma grows_methodLoop: "methodLoop sm gm names a = Ok b \<Longrightarrow> grows a b"
proof (induction names arbitrary: a)
  case (Cons n names)
  show ?case
  proof (cases "map_of sm n = None \<or> map_of gm n = None")
    case True
    with Cons show ?thesis by (auto split: option.splits)
  next
    case False
    then obtain ss gs where l: "map_of sm n = Some ss" "map_of gm n = Some gs" by auto
    let ?s = "if ss = [] then [] else miBody (last ss)"
    have st: "grows a (a\<lparr>caCode := replaceFirst (caCode a) ?s (?s @ t), changeCodeFlag := True, mergedStructMethods := ms\<rparr>)" for t ms
      using subseq_replaceFirst [of ?s "?s @ t" "caCode a"] by (simp add: grows_def)
    from Cons.prems l have "methodLoop sm gm names a = Ok b
        \<or> (\<exists>t ms. methodLoop sm gm names (a\<lparr>caCode := replaceFirst (caCode a) ?s (?s @ t), changeCodeFlag := True, mergedStructMethods := ms\<rparr>) = Ok b)"
      by (simp add: Let_def split: if_splits) blast+
    with Cons.IH st show ?thesis by (blast intro: grows_trans)
  qed
qed simp

lemma grows_addCodes: "grows a (addCodes codes a)"
  by (simp add: addCodes_def grows_code)

lemma grows_append: "grows a (appendNonExistedCode gs a)"
proof -
  let ?a2 = "addCodes (nonExistedVarCode a) (addCodes (nonExistedConstCode a) a)"
  have "grows a ?a2" by (rule grows_trans [OF grows_addCodes grows_addCodes])
  moreover have "grows ?a2 (appendNonExistedCode gs a)"
    by (simp add: appendNonExistedCode_def Let_def grows_code)
  ultimately show ?thesis by (rule grows_trans)
qed

section \<open>A parsed file\<close>

lemma isCover_options: "isCoverSameFunc (applyCodeAst opts a) \<longleftrightarrow> isCoverSameFunc a \<or> WithCoverSameFunc \<in> set opts"
proof (induction opts arbitrary: a)
  case (Cons x opts)
  then show ?case by (cases x) (auto simp: applyCodeAst_def)
qed (simp add: applyCodeAst_def)

lemma foldl_setSlice:
  "caCode (foldl setSlice a is) = caCode a \<and> caInfos (foldl setSlice a is) = caInfos a
    \<and> nonExistedConstCode (foldl setSlice a is) = nonExistedConstCode a \<and> nonExistedVarCode (foldl setSlice a is) = nonExistedVarCode a
    \<and> nonExistedTypeInfoMap (foldl setSlice a is) = nonExistedTypeInfoMap a \<and> mergedStructMethods (foldl setSlice a is) = mergedStructMethods a
    \<and> changeCodeFlag (foldl setSlice a is) = changeCodeFlag a \<and> isCoverSameFunc (foldl setSlice a is) = isCoverSameFunc a"
  by (induction "is" arbitrary: a) simp_all

lemma newCode_fields:
  assumes "NewCodeAstFromData pf src opts = Ok a"
  shows "caCode a = src" "ParseGoCode pf src = Ok (caInfos a)" "nonExistedConstCode a = []" "nonExistedVarCode a = []"
    "nonExistedTypeInfoMap a = []" "mergedStructMethods a = []" "\<not> changeCodeFlag a"
    "isCoverSameFunc a \<longleftrightarrow> WithCoverSameFunc \<in> set opts"
  using assms
  by (auto simp: NewCodeAstFromData_def Let_def go_bind_eq_Ok setSlices_def foldl_setSlice isCover_options)
     (simp_all add: defaultClientOptions_def)

text \<open>A merge ends with the formatting of the code before it.\<close>

lemma mergeCode_raw:
  assumes "mergeCode pf fmt ord a g = Ok r"
  obtains b where "mergeRaw pf ord a g = Ok b" "changeCodeFlag r = changeCodeFlag b" "caCode r = caCode b \<or> fmt (caCode b) = Some (caCode r)"
    "\<not> changeCodeFlag b \<longrightarrow> r = b"
proof -
  from assms obtain b where b: "mergeRaw pf ord a g = Ok b"
    and r: "r = (if changeCodeFlag b then (case fmt (caCode b) of Some data \<Rightarrow> b\<lparr>caCode := data\<rparr> | None \<Rightarrow> b) else b)"
    by (auto simp: mergeCode_def go_bind_eq_Ok)
  show ?thesis by (rule that [OF b]) (auto simp: r split: option.splits)
qed

lemma grows_mergeRaw:
  assumes m: "mergeRaw pf ord a g = Ok b" and c: "\<not> isCoverSameFunc a"
    and i: "importInfos g = [] \<or> importInfos a = [] \<or> (\<forall>si gi. parseImportCode pf a = Ok si \<longrightarrow> parseImportCode pf g = Ok gi
      \<longrightarrow> iiPath ` set gi \<subseteq> iiPath ` set si)"
    and t: "\<forall>infos. ParseTypeGroup pf (blocksText (typeInfos a)) = Ok infos \<longrightarrow> (\<forall>t\<in>set infos. notEmpty pf t)"
  shows "grows a b"
proof -
  from m obtain a1 a2 a3 a4 a5 where s: "mergeImportCode pf g a = Ok a1" "compareConstCode pf g a1 = Ok a2"
      "compareVarCode pf g a2 = Ok a3" "mergeExistedTypeCode pf ord g a3 = Ok a4" "mergeStructMethodsCode ord g a4 = Ok a5"
    and b: "b = appendNonExistedCode (caInfos g) (if isCoverSameFunc a5 then coverFuncCode g a5 else a5)"
    by (auto simp: mergeRaw_def go_bind_eq_Ok Let_def)
  have "grows a a3"
    by (rule grows_trans [OF grows_import [OF s(1) i] grows_trans [OF grows_consts [OF s(2)] grows_vars [OF s(3)]]])
  moreover from this have "typeInfos a3 = typeInfos a" by (simp add: grows_def)
  then have "grows a3 a4" using grows_types [OF s(4)] t by simp
  moreover have "grows a4 a5" using s(5) by (auto simp: mergeStructMethodsCode_def Let_def intro: grows_methodLoop)
  ultimately have g5: "grows a a5" by (blast intro: grows_trans)
  with c have "b = appendNonExistedCode (caInfos g) a5" by (simp add: b grows_def)
  with g5 show ?thesis using grows_append grows_trans by blast
qed

text \<open>
  C29: Merging generated code only inserts. When functions of the same name are not replaced, the
  generated code imports nothing new (or the source has no imports), and no struct or interface of the
  source is empty, every byte of the source is in the merged code, in order, before that is formatted;
  and when nothing is marked as changed the code is the source. Adding an import moves the import
  declarations, and a new field replaces the text of an empty struct, so both are excluded.
\<close>

theorem merge_only_inserts:
  assumes a: "NewCodeAstFromData pf src opts = Ok a" and g: "NewCodeAstFromData pf gen opts = Ok g"
    and m: "MergeGoCode pf fmt ord src gen opts = Ok r" and c: "WithCoverSameFunc \<notin> set opts"
    and i: "importInfos g = [] \<or> importInfos a = [] \<or> (\<forall>si gi. parseImportCode pf a = Ok si \<longrightarrow> parseImportCode pf g = Ok gi
      \<longrightarrow> iiPath ` set gi \<subseteq> iiPath ` set si)"
    and t: "\<forall>infos. ParseTypeGroup pf (blocksText (typeInfos a)) = Ok infos \<longrightarrow> (\<forall>t\<in>set infos. notEmpty pf t)"
  shows "\<exists>raw. subseq src raw \<and> (caCode r = raw \<or> fmt raw = Some (caCode r)) \<and> (\<not> changeCodeFlag r \<longrightarrow> caCode r = src)"
proof -
  from m a g have "mergeCode pf fmt ord a g = Ok r" by (simp add: MergeGoCode_def)
  then obtain b where b: "mergeRaw pf ord a g = Ok b" "changeCodeFlag r = changeCodeFlag b"
      "caCode r = caCode b \<or> fmt (caCode b) = Some (caCode r)" "\<not> changeCodeFlag b \<longrightarrow> r = b"
    by (rule mergeCode_raw)
  from grows_mergeRaw [OF b(1) _ i t] newCode_fields [OF a] c have "grows a b" by simp
  with b newCode_fields(1) [OF a] show ?thesis by (intro exI [of _ "caCode b"]) (auto simp: grows_def)
qed

section \<open>Merging a file into itself\<close>

lemma slice_contained: "strContains src (slice src x y)"
proof -
  have "src = take x src @ slice src x y @ drop (y - x) (drop x src)"
    unfolding slice_def by (simp only: append_take_drop_id)
  then show ?thesis unfolding strContains_iff by blast
qed

lemma getCodeFromPos_contained: "strContains src (getCodeFromPos x y src)"
proof -
  have "strContains src []" unfolding strContains_iff by (metis append_Nil)
  then show ?thesis by (simp add: getCodeFromPos_def slice_contained)
qed

lemma declInfo_contained: "declInfo src d = Ok i \<Longrightarrow> strContains src (aBody i)"
  by (cases d) (auto simp: declInfo_def getFuncDeclCode_def getGenDeclCode_def go_bind_eq_Ok Let_def
    getCodeFromPos_contained split: option.splits)

lemma declInfos_contained: "declInfos src ds = Ok is \<Longrightarrow> i \<in> set is \<Longrightarrow> strContains src (aBody i)"
  by (induction ds arbitrary: "is") (auto simp: go_bind_eq_Ok declInfo_contained)

lemma ParseGoCode_contained:
  assumes "ParseGoCode pf src = Ok is" "i \<in> set is"
  shows "strContains src (aBody i)"
proof -
  from assms(1) obtain f names comment body rest where
    p: "getPackageCode f src = Ok (names, comment, body)" and d: "declInfos src (concat (map inspect (afDecls f))) = Ok rest"
    and l: "is = \<lparr>aType = PackageType, aNames = names, aComment = comment, aBody = body\<rparr> # rest"
    by (auto simp: ParseGoCode_def go_bind_eq_Ok split: option.splits)
  from p have "strContains src body" by (auto simp: getPackageCode_def Let_def slice_contained split: if_splits)
  with assms(2) l declInfos_contained [OF d] show ?thesis by auto
qed

lemma extendType_nothing: "extendType mk h s old [] a = Ok a"
  by (simp add: extendType_def)

lemma structLoop_self: "structLoop s ss ss names a = Ok a"
  by (induction names) (auto simp: extendType_nothing filter_empty_conv split: option.splits)

lemma mergeInterface_self: "mergeInterfaceMethodCode pf t t a = Ok b \<Longrightarrow> b = a"
proof -
  assume m: "mergeInterfaceMethodCode pf t t a = Ok b"
  then obtain si where si: "ParseInterface pf (tiBody t) = Ok si"
    by (auto simp: mergeInterfaceMethodCode_def go_bind_eq_Ok)
  consider x where "si = [x]" | "\<forall>x. si \<noteq> [x]" by blast
  then show "b = a"
  proof cases
    case 1
    then have "filter (\<lambda>m. miName m \<notin> set (map miName (ifMethods x))) (ifMethods x) = []" by (simp add: filter_empty_conv)
    with m si 1 show ?thesis by (simp add: mergeInterfaceMethodCode_def extendType_nothing)
  next
    case 2
    with m si show ?thesis by (cases si) (auto simp: mergeInterfaceMethodCode_def split: list.splits)
  qed
qed

lemma mergeStruct_self: "mergeStructFieldsCode pf ord t t a = Ok b \<Longrightarrow> b = a"
  by (auto simp: mergeStructFieldsCode_def go_bind_eq_Ok structLoop_self)

lemma distinct_filter_single:
  assumes "distinct (map f xs)" "x \<in> set xs"
  shows "filter (\<lambda>y. f y = f x) xs = [x]"
  using assms
proof (induction xs)
  case (Cons y ys)
  show ?case
  proof (cases "x = y")
    case True
    with Cons.prems have "filter (\<lambda>z. f z = f x) ys = []" by (auto simp: filter_empty_conv rev_image_eqI)
    with True show ?thesis by simp
  next
    case False
    with Cons show ?thesis by (auto simp: rev_image_eqI)
  qed
qed simp

lemma groupTypes_self:
  assumes "distinct (map tiName infos)" "map_of (groupTypes infos) n = Some ts"
  shows "\<exists>t\<in>set infos. ts = [t]"
proof -
  from assms(2) have ts: "ts = filter (\<lambda>i. tiName i = n) infos" "ts \<noteq> []" by (auto simp: map_of_groupTypes split: if_splits)
  then obtain t where t: "t \<in> set infos" "tiName t = n" by (auto simp: filter_empty_conv)
  with distinct_filter_single [OF assms(1) t(1)] ts show ?thesis by auto
qed

lemma typeLoop_self:
  assumes d: "distinct (map tiName infos)"
  shows "typeLoop pf ord (groupTypes infos) (groupTypes infos) names [] a = Ok b \<Longrightarrow> b = a\<lparr>nonExistedTypeInfoMap := []\<rparr>"
proof (induction names arbitrary: a)
  case (Cons n names)
  let ?m = "groupTypes infos"
  show ?case
  proof (cases "map_of ?m n")
    case None
    with Cons show ?thesis by (simp add: Let_def)
  next
    case (Some ts)
    with groupTypes_self [OF d] obtain t where t: "t \<in> set infos" "ts = [t]" by blast
    have "tiName t \<in> set (map tiName (concat (map snd ?m)))"
      using map_of_SomeD [OF Some] t by force
    then have "foldl (\<lambda>m i. if tiName i \<in> set (map tiName (concat (map snd ?m))) then m else AList.update (tiName i) i m) [] ts = []"
      using t by simp
    with Cons.prems Some t(2) obtain c where c: "typesOfName pf ord ts ts a = Ok c" and r: "typeLoop pf ord ?m ?m names [] c = Ok b"
      by (auto simp: Let_def go_bind_eq_Ok)
    from c t(2) have "c = a"
      by (auto simp: go_bind_eq_Ok split: if_splits dest: mergeInterface_self mergeStruct_self)
    with Cons.IH [OF r] show ?thesis by simp
  qed
qed simp

lemma methodLoop_self: "methodLoop sm sm names a = Ok a"
  by (induction names) (auto simp: Let_def filter_empty_conv split: option.splits)

lemma import_self:
  assumes "mergeImportCode pf a a = Ok b"
  shows "b = a"
proof (cases "importInfos a = []")
  case True
  with assms show ?thesis by (simp add: mergeImportCode_def)
next
  case False
  with assms obtain si where p: "parseImportCode pf a = Ok si"
    by (auto simp: mergeImportCode_def go_bind_eq_Ok split: option.splits)
  have "filter (\<lambda>i. iiPath i \<notin> set (map iiPath si)) si = []" by (simp add: filter_empty_conv)
  with False assms p show ?thesis by (simp add: mergeImportCode_def split: option.splits)
qed

lemma const_self:
  assumes "compareConstCode pf a a = Ok b"
  shows "b = a"
proof (cases "constInfos a = []")
  case True
  with assms show ?thesis by (simp add: compareConstCode_def)
next
  case False
  with assms obtain si where p: "parseConstCode pf a = Ok si" by (auto simp: compareConstCode_def go_bind_eq_Ok)
  have "filter (\<lambda>i. ciName i \<notin> set (map ciName si)) si = []" by (simp add: filter_empty_conv)
  with False assms p show ?thesis by (simp add: compareConstCode_def)
qed

lemma var_self:
  assumes "compareVarCode pf a a = Ok b" "\<forall>vs. parseVarCode pf a = Ok vs \<longrightarrow> ''_'' \<notin> ciName ` set vs"
  shows "b = a"
proof (cases "varInfos a = []")
  case True
  with assms show ?thesis by (simp add: compareVarCode_def)
next
  case False
  with assms(1) obtain vs where p: "parseVarCode pf a = Ok vs" by (auto simp: compareVarCode_def go_bind_eq_Ok)
  with assms(2) have "ciName i \<noteq> ''_''" if "i \<in> set vs" for i using that by (metis image_eqI)
  then have "filter (\<lambda>i. ciName i \<notin> set (map ciName vs) \<or> ciName i = ''_'' \<and> \<not> strContains (caCode a) (trimSpace (ciBody i))) vs = []"
    by (auto simp: filter_empty_conv)
  with False assms(1) p show ?thesis by (simp add: compareVarCode_def Let_def)
qed

lemma append_self:
  assumes "nonExistedConstCode a = []" "nonExistedVarCode a = []" "\<forall>i\<in>set (caInfos a). strContains (caCode a) (aBody i)"
  shows "appendNonExistedCode (caInfos a) a = a"
proof -
  have "appendCode a (caCode a) i = []" if "i \<in> set (caInfos a)" for i
    using that assms(3) by (simp add: appendCode_def Let_def)
  then show ?thesis using assms(1,2) by (simp add: appendNonExistedCode_def addCodes_def Let_def)
qed

text \<open>
  Merging a file into itself changes nothing: the code is the source, not even formatted anew.
  The types of the file (its local types included) have different names, and it has no blank
  variable, whose text is searched for in the source as lines of its declarations.
\<close>

theorem merge_self:
  assumes a: "NewCodeAstFromData pf src opts = Ok a" and m: "MergeGoCode pf fmt ord src src opts = Ok r"
    and c: "WithCoverSameFunc \<notin> set opts"
    and t: "\<forall>infos. ParseTypeGroup pf (blocksText (typeInfos a)) = Ok infos \<longrightarrow> distinct (map tiName infos)"
    and v: "\<forall>vs. parseVarCode pf a = Ok vs \<longrightarrow> ''_'' \<notin> ciName ` set vs"
  shows "caCode r = src \<and> \<not> changeCodeFlag r"
proof -
  note f = newCode_fields [OF a]
  from m a have "mergeCode pf fmt ord a a = Ok r" by (simp add: MergeGoCode_def)
  then obtain b where b: "mergeRaw pf ord a a = Ok b" "changeCodeFlag r = changeCodeFlag b" "\<not> changeCodeFlag b \<longrightarrow> r = b"
    by (rule mergeCode_raw)
  from b(1) obtain a1 a2 a3 a4 a5 where s: "mergeImportCode pf a a = Ok a1" "compareConstCode pf a a1 = Ok a2"
      "compareVarCode pf a a2 = Ok a3" "mergeExistedTypeCode pf ord a a3 = Ok a4" "mergeStructMethodsCode ord a a4 = Ok a5"
    and e: "b = appendNonExistedCode (caInfos a) (if isCoverSameFunc a5 then coverFuncCode a a5 else a5)"
    by (auto simp: mergeRaw_def go_bind_eq_Ok Let_def)
  have "a3 = a" using import_self [OF s(1)] const_self var_self [OF _ v] s(2,3) by blast
  with s(4) obtain infos where p: "ParseTypeGroup pf (blocksText (typeInfos a)) = Ok infos"
    and l: "typeLoop pf ord (groupTypes infos) (groupTypes infos) (ord ''types'' (map fst (groupTypes infos))) [] a = Ok a4"
    by (auto simp: mergeExistedTypeCode_def parseTypeCode_def go_bind_eq_Ok)
  have "a4 = a" using typeLoop_self [OF _ l] t p f(5) by simp
  with s(5) have "a5 = a" by (simp add: mergeStructMethodsCode_def Let_def methodLoop_self)
  with f c e have "b = appendNonExistedCode (caInfos a) a" by simp
  with append_self [of a] f ParseGoCode_contained [OF f(2)] have "b = a" by simp
  with b f show ?thesis by simp
qed

section \<open>What is appended\<close>

lemma strContains_join: "x \<in> set xs \<Longrightarrow> strContains (joinWith sep xs) x"
proof (induction xs)
  case (Cons y ys)
  have mono: "strContains (p @ s @ q) x" if "strContains s x" for p s q
    using that unfolding strContains_iff by (metis append.assoc)
  show ?case
  proof (cases "ys = []")
    case True
    with Cons.prems mono [of x "[]" "[]"] show ?thesis by (simp add: strContains_iff) (metis append_Nil append_Nil2)
  next
    case False
    then have j: "joinWith sep (y # ys) = y @ sep @ joinWith sep ys" by (rule joinWith_Cons)
    show ?thesis
    proof (cases "x = y")
      case True
      with j show ?thesis unfolding strContains_iff by (metis append_Nil)
    next
      case False
      with Cons have "strContains (joinWith sep ys) x" by simp
      from mono [OF this, of "y @ sep" "[]"] j show ?thesis by simp
    qed
  qed
qed simp

lemma strContains_mono: "strContains s x \<Longrightarrow> strContains (p @ s @ q) x"
  unfolding strContains_iff by (metis append.assoc)

lemma strContains_trans: "strContains s x \<Longrightarrow> strContains x y \<Longrightarrow> strContains s y"
  unfolding strContains_iff by (metis append.assoc)

lemma fst_ParseStructMethods:
  "fst ` set (ParseStructMethods is m) = fst ` set m \<union> (\<lambda>i. aNames i ! 1) ` set (filter isMethod is)"
proof (induction "is" arbitrary: m)
  case (Cons i l)
  show ?case
  proof (cases "isMethod i")
    case True
    then obtain v where "ParseStructMethods (i # l) m = ParseStructMethods l (AList.update (aNames i ! 1) v m)"
      unfolding ParseStructMethods.simps Let_def by metis
    then show ?thesis using True Cons.IH [of "AList.update (aNames i ! 1) v m", unfolded dom_update] by auto
  next
    case False
    with Cons.IH show ?thesis by simp
  qed
qed simp

lemma methodLoop_vars: "methodLoop sm gm names a = Ok b \<Longrightarrow> nonExistedVarCode b = nonExistedVarCode a"
proof (induction names arbitrary: a)
  case (Cons n names)
  then show ?case by (auto simp: Let_def split: option.splits if_split_asm)
qed simp

lemma methodLoop_merged:
  "methodLoop sm gm names a = Ok b \<Longrightarrow> set (mergedStructMethods b) \<subseteq> set (mergedStructMethods a) \<union> fst ` set sm"
proof (induction names arbitrary: a)
  case (Cons n names)
  show ?case
  proof (cases "map_of sm n = None \<or> map_of gm n = None")
    case True
    with Cons show ?thesis by (auto split: option.splits)
  next
    case False
    then obtain ss gs where l: "map_of sm n = Some ss" "map_of gm n = Some gs" by auto
    from Cons.prems l have "methodLoop sm gm names a = Ok b
        \<or> (\<exists>c. methodLoop sm gm names (a\<lparr>caCode := c, changeCodeFlag := True, mergedStructMethods := n # mergedStructMethods a\<rparr>) = Ok b)"
      by (simp add: Let_def split: if_splits) blast+
    then show ?thesis
    proof (elim disjE exE)
      assume "methodLoop sm gm names a = Ok b"
      then show ?thesis by (rule Cons.IH)
    next
      fix c assume "methodLoop sm gm names (a\<lparr>caCode := c, changeCodeFlag := True, mergedStructMethods := n # mergedStructMethods a\<rparr>) = Ok b"
      from Cons.IH [OF this] map_of_SomeD [OF l(1)] show ?thesis by force
    qed
  qed
qed simp

lemma keeps_import:
  assumes "mergeImportCode pf g a = Ok b"
  shows "keeps a b"
proof (cases "importInfos g = [] \<or> importInfos a = []")
  case True
  with assms show ?thesis
    by (cases "importInfos g = []") (auto simp: mergeImportCode_def Let_def keeps_def split: if_splits option.splits)
next
  case False
  with assms obtain si gi where p: "parseImportCode pf a = Ok si" "parseImportCode pf g = Ok gi"
    by (auto simp: mergeImportCode_def go_bind_eq_Ok split: option.splits)
  show ?thesis
  proof (cases "filter (\<lambda>i. iiPath i \<notin> set (map iiPath si)) gi = []")
    case True
    with False assms p show ?thesis by (simp add: mergeImportCode_def kp.refl split: option.splits)
  next
    case fresh: False
    with False assms p show ?thesis by (auto simp: mergeImportCode_def Let_def keeps_def split: option.splits)
  qed
qed

lemma keeps_consts: "compareConstCode pf g a = Ok b \<Longrightarrow> keeps a b"
  using const_cases [of pf g a b] by (auto simp: keeps_def)

lemma vars_frame:
  "compareVarCode pf g a = Ok b \<Longrightarrow> caInfos b = caInfos a \<and> isCoverSameFunc b = isCoverSameFunc a \<and> mergedStructMethods b = mergedStructMethods a"
  using var_cases [of pf g a b] by auto

text \<open>A merge that does not replace functions, down to its last step.\<close>

lemma mergeRaw_last:
  assumes m: "mergeRaw pf ord a g = Ok b" and c: "\<not> isCoverSameFunc a" and e: "mergedStructMethods a = []"
  obtains a2 a3 a5 where "keeps a a2" "compareVarCode pf g a2 = Ok a3" "nonExistedVarCode a5 = nonExistedVarCode a3"
    "caInfos a5 = caInfos a" "b = appendNonExistedCode (caInfos g) a5"
    "\<forall>n\<in>set (mergedStructMethods a5). \<exists>j\<in>set (caInfos a). isMethod j \<and> n = aNames j ! 1"
proof -
  from m obtain a1 a2 a3 a4 a5 where s: "mergeImportCode pf g a = Ok a1" "compareConstCode pf g a1 = Ok a2"
      "compareVarCode pf g a2 = Ok a3" "mergeExistedTypeCode pf ord g a3 = Ok a4" "mergeStructMethodsCode ord g a4 = Ok a5"
    and b: "b = appendNonExistedCode (caInfos g) (if isCoverSameFunc a5 then coverFuncCode g a5 else a5)"
    by (auto simp: mergeRaw_def go_bind_eq_Ok Let_def)
  have k2: "keeps a a2" using kp.trans [OF keeps_import [OF s(1)] keeps_consts [OF s(2)]] .
  note k3 = vars_frame [OF s(3)] and k4 = keeps_types [OF s(4)]
  have l: "methodLoop (ParseStructMethods (caInfos a4) []) (ParseStructMethods (caInfos g) [])
      (ord ''methods'' (map fst (ParseStructMethods (caInfos g) []))) a4 = Ok a5"
    using s(5) by (simp add: mergeStructMethodsCode_def Let_def)
  have k5: "caInfos a5 = caInfos a4" "isCoverSameFunc a5 = isCoverSameFunc a4"
    using grows_methodLoop [OF l] by (simp_all add: grows_def)
  have infos: "caInfos a4 = caInfos a" using k2 k3 k4 by (simp add: keeps_def)
  have "set (mergedStructMethods a5) \<subseteq> (\<lambda>i. aNames i ! 1) ` set (filter isMethod (caInfos a))"
    using methodLoop_merged [OF l] k2 k3 k4 e by (simp add: keeps_def fst_ParseStructMethods)
  then have "\<forall>n\<in>set (mergedStructMethods a5). \<exists>j\<in>set (caInfos a). isMethod j \<and> n = aNames j ! 1" by auto
  moreover have "nonExistedVarCode a5 = nonExistedVarCode a3"
    using methodLoop_vars [OF l] k4 by (simp add: keeps_def)
  moreover have "b = appendNonExistedCode (caInfos g) a5" using b k2 k3 k4 k5 c by (simp add: keeps_def)
  ultimately show ?thesis using that [OF k2 s(3)] k5 infos by simp
qed

lemma append_code: "\<exists>tl. caCode (appendNonExistedCode gs a) = caCode (addCodes (nonExistedVarCode a) (addCodes (nonExistedConstCode a) a)) @ tl"
  by (simp add: appendNonExistedCode_def Let_def)

lemma appended_code:
  assumes "i \<in> set gs" "x \<in> set (appendCode a2 (caCode a2) i)" "a2 = addCodes (nonExistedVarCode a) (addCodes (nonExistedConstCode a) a)"
  shows "strContains (caCode (appendNonExistedCode gs a)) x"
proof -
  let ?codes = "concat (map (appendCode a2 (caCode a2)) gs)"
  have x: "x \<in> set ?codes" using assms(1,2) by auto
  then have "caCode (appendNonExistedCode gs a) = caCode a2 @ joinWith (newline @ newline) ?codes @ newline"
    by (auto simp: appendNonExistedCode_def Let_def assms(3))
  with strContains_mono [OF strContains_join [OF x]] show ?thesis by simp
qed

text \<open>
  What is new arrives. A generated function, or a type declared alone, of which the name is not
  in the source is in the merged code with its comment and its whole body; for a method this is
  stated when the source has no method of that receiver (otherwise it goes behind the last of them).
\<close>

theorem merge_appends_new:
  assumes a: "NewCodeAstFromData pf src opts = Ok a" and g: "NewCodeAstFromData pf gen opts = Ok g"
    and m: "MergeGoCode pf fmt ord src gen opts = Ok r" and c: "WithCoverSameFunc \<notin> set opts"
    and i: "i \<in> set (caInfos g)" "aType i = FuncType \<or> aType i = TypeType \<and> length (aNames i) = 1"
      "isMethod i \<longrightarrow> (\<forall>j\<in>set (caInfos a). isMethod j \<longrightarrow> aNames j ! 1 \<noteq> aNames i ! 1)"
      "GetName i \<notin> GetName ` set (caInfos a)"
  shows "\<exists>raw. strContains raw (aComment i @ newline @ aBody i) \<and> (caCode r = raw \<or> fmt raw = Some (caCode r))"
proof -
  from m a g have "mergeCode pf fmt ord a g = Ok r" by (simp add: MergeGoCode_def)
  then obtain b where b: "mergeRaw pf ord a g = Ok b" "caCode r = caCode b \<or> fmt (caCode b) = Some (caCode r)"
    by (rule mergeCode_raw)
  from c have nc: "\<not> isCoverSameFunc a" by (simp add: newCode_fields(8) [OF a])
  obtain a5 where l: "b = appendNonExistedCode (caInfos g) a5" "caInfos a5 = caInfos a"
      "\<forall>n\<in>set (mergedStructMethods a5). \<exists>j\<in>set (caInfos a). isMethod j \<and> n = aNames j ! 1"
    by (rule mergeRaw_last [OF b(1) nc newCode_fields(6) [OF a]])
  define a2 where "a2 = addCodes (nonExistedVarCode a5) (addCodes (nonExistedConstCode a5) a5)"
  have f: "caInfos a2 = caInfos a" "mergedStructMethods a2 = mergedStructMethods a5"
    using l(2) by (simp_all add: a2_def addCodes_def)
  have "\<not> (isMethod i \<and> aNames i ! 1 \<in> set (mergedStructMethods a2))"
  proof (intro notI, elim conjE)
    assume i1: "isMethod i" and "aNames i ! 1 \<in> set (mergedStructMethods a2)"
    then obtain j where "j \<in> set (caInfos a)" "isMethod j" "aNames i ! 1 = aNames j ! 1" using l(3) f(2) by auto
    with i(3) i1 show False by metis
  qed
  moreover from i(2) have "aType i \<notin> {PackageType, ImportType, ConstType, VarType}"
    by (elim disjE conjE) (simp_all add: block_types)
  moreover from i(2) have "\<not> (aType i = TypeType \<and> length (aNames i) > 1)"
    by (elim disjE conjE) (simp_all add: block_types)
  ultimately have "appendCode a2 (caCode a2) i = [aComment i @ newline @ aBody i]"
    using i(4) f(1) unfolding appendCode_def Let_def by (auto simp del: append.simps)
  with appended_code [OF i(1) _ a2_def] l(1) b(2) show ?thesis by auto
qed

text \<open>
  The variables of a generated file are those of its function bodies too: merged into a file without
  variables they are appended to it as a group of the package.
\<close>

lemma inspect_nested: "d \<in> set (concat (map inspect ts)) \<Longrightarrow> DeclTree e ts \<in> set ds \<Longrightarrow> d \<in> set (concat (map inspect ds))"
proof -
  assume "d \<in> set (concat (map inspect ts))" "DeclTree e ts \<in> set ds"
  then have "d \<in> set (inspect (DeclTree e ts))" by simp
  with \<open>DeclTree e ts \<in> set ds\<close> show ?thesis by (auto simp del: inspect.simps)
qed

lemma declInfos_mem: "declInfos src ds = Ok is \<Longrightarrow> d \<in> set ds \<Longrightarrow> \<exists>i\<in>set is. declInfo src d = Ok i"
  by (induction ds arbitrary: "is") (auto simp: go_bind_eq_Ok)

lemma varInfos_mem: "varInfos (foldl setSlice a is) = varInfos a @ filter (\<lambda>i. aType i = VarType) is"
  by (induction "is" arbitrary: a) (auto simp: block_types)

text \<open>
  C30: Local variables escape. When the source declares no variables, the variables that generated
  functions declare in their bodies are appended to the merged code as declarations of the package, in
  front of the new functions: the block of every one of them is in the appended group.
\<close>

theorem local_variables_escape:
  assumes a: "NewCodeAstFromData pf src opts = Ok a" and g: "NewCodeAstFromData pf gen opts = Ok g"
    and m: "MergeGoCode pf fmt ord src gen opts = Ok r" and c: "WithCoverSameFunc \<notin> set opts" and v: "varInfos a = []"
    and f: "pf gen = Some f" "DeclTree (FuncDecl fn) ts \<in> set (afDecls f)" "GenDecl d \<in> set (concat (map inspect ts))" "gTok d = TokVAR"
  shows "\<exists>raw base vars tl. raw = base @ newline @ blocksText vars @ tl \<and> (caCode r = raw \<or> fmt raw = Some (caCode r))
    \<and> (\<exists>i\<in>set vars. aBody i = snd (snd (getGenDeclCode d gen)))"
proof -
  from m a g have "mergeCode pf fmt ord a g = Ok r" by (simp add: MergeGoCode_def)
  then obtain b where b: "mergeRaw pf ord a g = Ok b" "caCode r = caCode b \<or> fmt (caCode b) = Some (caCode r)"
    by (rule mergeCode_raw)
  from c have nc: "\<not> isCoverSameFunc a" by (simp add: newCode_fields(8) [OF a])
  obtain a2 a3 a5 where l: "keeps a a2" "compareVarCode pf g a2 = Ok a3" "nonExistedVarCode a5 = nonExistedVarCode a3"
      "b = appendNonExistedCode (caInfos g) a5"
    by (rule mergeRaw_last [OF b(1) nc newCode_fields(6) [OF a]])
  let ?vars = "filter (\<lambda>i. aType i = VarType) (caInfos g)"
  obtain rest where infos: "declInfos gen (concat (map inspect (afDecls f))) = Ok rest" "set rest \<subseteq> set (caInfos g)"
    using newCode_fields(2) [OF g] f(1) by (clarsimp simp: ParseGoCode_def go_bind_eq_Ok) (metis set_subset_Cons)
  from declInfos_mem [OF infos(1) inspect_nested [OF f(3,2)]] obtain i where i: "i \<in> set rest" "declInfo gen (GenDecl d) = Ok i" by blast
  then have body: "aBody i = snd (snd (getGenDeclCode d gen))" and "aType i = VarType"
    using f(4) by (auto simp: declInfo_def VarType_def split: prod.splits)
  then have im: "i \<in> set ?vars" using i(1) infos(2) by auto
  have "varInfos g = ?vars"
    using g by (auto simp: NewCodeAstFromData_def Let_def go_bind_eq_Ok setSlices_def varInfos_mem foldl_setSlice) (simp add: defaultClientOptions_def)
  moreover have "varInfos a2 = []" "nonExistedVarCode a2 = []" using l(1) v newCode_fields(4) [OF a] by (simp_all add: keeps_def)
  ultimately have "nonExistedVarCode a5 = [blocksText ?vars]"
    using l(2,3) im by (auto simp: compareVarCode_def filter_empty_conv split: if_splits)
  then have "caCode (addCodes (nonExistedVarCode a5) (addCodes (nonExistedConstCode a5) a5)) =
      caCode (addCodes (nonExistedConstCode a5) a5) @ newline @ blocksText ?vars"
    by (simp add: addCodes_def [of "[_]"])
  then have "\<exists>base tl. caCode b = base @ newline @ blocksText ?vars @ tl"
    using append_code [of "caInfos g" a5] unfolding l(4) by (metis append.assoc)
  with b(2) body im show ?thesis by blast
qed

section \<open>An example\<close>

text \<open>A file with one function, and a generated file with another one that declares a variable.\<close>

definition demoSrc :: string where
  "demoSrc = ''package a'' @ newline @ newline @ ''func F() {}'' @ newline"

definition demoGen :: string where
  "demoGen = ''package a'' @ newline @ newline @ ''func G() { var x int }'' @ newline"

definition demoFunc :: "string \<Rightarrow> nat \<Rightarrow> funcDecl" where
  "demoFunc name rbrace = \<lparr>fnName = name, fnRecv = [], fnDoc = None, fnFunc = 11, fnRbrace = Some rbrace, fnCalls = []\<rparr>"

definition demoVar :: genDecl where
  "demoVar = \<lparr>gTok = TokVAR, gDoc = None, gTokPos = 22, gRparen = None,
     gSpecs = [ValueSpec [''x''] [] \<lparr>nDoc = None, nPos = 26, nEnd = 31\<rparr>]\<rparr>"

definition demoFile :: "declTree list \<Rightarrow> astFile" where
  "demoFile ds = \<lparr>afDoc = None, afPackage = 0, afName = ''a'', afDecls = ds, afComments = []\<rparr>"

definition demoParse :: "string \<Rightarrow> astFile option" where
  "demoParse t =
     (if t = demoSrc then Some (demoFile [DeclTree (FuncDecl (demoFunc ''F'' 21)) []])
      else if t = demoGen then Some (demoFile [DeclTree (FuncDecl (demoFunc ''G'' 32)) [DeclTree (GenDecl demoVar) []]])
      else if t = ''package parse'' @ newline @ newline then Some (demoFile [])
      else None)"

definition demoOrd :: "string \<Rightarrow> string list \<Rightarrow> string list" where "demoOrd loop ks = ks"

definition demoFmt :: "string \<Rightarrow> string option" where "demoFmt code = None"

definition okOf :: "(astErr, CodeAst) go \<Rightarrow> CodeAst" where
  "okOf m = (case m of Ok a \<Rightarrow> a | _ \<Rightarrow> defaultClientOptions)"

definition demoA :: CodeAst where "demoA = okOf (NewCodeAstFromData demoParse demoSrc [])"

definition demoG :: CodeAst where "demoG = okOf (NewCodeAstFromData demoParse demoGen [])"

definition demoR :: CodeAst where "demoR = okOf (MergeGoCode demoParse demoFmt demoOrd demoSrc demoGen [])"

lemma okOf_Ok: "is_ok m \<Longrightarrow> m = Ok (okOf m)"
  by (cases m) (simp_all add: okOf_def)

lemma demo_runs:
  "NewCodeAstFromData demoParse demoSrc [] = Ok demoA" "NewCodeAstFromData demoParse demoGen [] = Ok demoG"
  "MergeGoCode demoParse demoFmt demoOrd demoSrc demoGen [] = Ok demoR"
  "MergeGoCode demoParse demoFmt demoOrd demoSrc demoSrc [] = Ok (okOf (MergeGoCode demoParse demoFmt demoOrd demoSrc demoSrc []))"
  unfolding demoA_def demoG_def demoR_def by (rule okOf_Ok, code_simp)+

lemma demo_slices: "importInfos demoA = []" "typeInfos demoA = []" "varInfos demoA = []"
  by code_simp+

lemma demo_groups: "ParseTypeGroup demoParse (blocksText []) = Ok []" "ParseVarGroup demoParse (blocksText []) = Ok []"
  by code_simp+

theorem merge_only_inserts_witness: "subseq demoSrc (caCode demoR) \<and> caCode demoR \<noteq> demoSrc"
proof -
  have "caCode demoR \<noteq> demoSrc" by code_simp
  with merge_only_inserts [OF demo_runs(1-3)] demo_slices demo_groups show ?thesis by (auto simp: demoFmt_def)
qed

theorem merge_self_witness: "caCode (okOf (MergeGoCode demoParse demoFmt demoOrd demoSrc demoSrc [])) = demoSrc"
  using merge_self [OF demo_runs(1) demo_runs(4)] demo_slices demo_groups by (simp add: parseVarCode_def)

theorem merge_appends_new_witness: "strContains (caCode demoR) (newline @ ''func G() { var x int }'')"
proof -
  let ?i = "\<lparr>aType = FuncType, aNames = [''G''], aComment = [], aBody = ''func G() { var x int }''\<rparr>"
  have "?i \<in> set (caInfos demoG)" by code_simp
  moreover have "GetName ?i \<notin> GetName ` set (caInfos demoA)" by code_simp
  ultimately show ?thesis using merge_appends_new [OF demo_runs(1-3), of ?i] by (auto simp: demoFmt_def isMethod_def)
qed

theorem local_variables_escape_witness:
  "\<exists>base vars tl. caCode demoR = base @ newline @ blocksText vars @ tl \<and> (\<exists>i\<in>set vars. aBody i = ''var x int'')"
proof -
  have p: "demoParse demoGen = Some (demoFile [DeclTree (FuncDecl (demoFunc ''G'' 32)) [DeclTree (GenDecl demoVar) []]])" by code_simp
  have "snd (snd (getGenDeclCode demoVar demoGen)) = ''var x int''" by code_simp
  with local_variables_escape [OF demo_runs(1-3) _ demo_slices(3) p, of "demoFunc ''G'' 32" "[DeclTree (GenDecl demoVar) []]" demoVar]
  show ?thesis by (auto simp: demoFmt_def demoFile_def demoVar_def)
qed

end
