(* ===== verification/ErrCode.thy ===== *)
theory ErrCode
  imports GoStrings "HOL-Library.AList"
begin

text \<open>
  Error codes of HTTP and gRPC services and their translation into responses (\<open>pkg/errcode\<close>).

  \<^item> The package-level maps of registered codes are the record \<open>registry\<close>; \<open>None\<close> is the panic on a code that
    exists already.
  \<^item> An error is a text or a gRPC status (\<open>google.golang.org/grpc/status\<close>); \<open>None\<close> is nil. The names of the
    gRPC codes are the parameter \<open>codeName\<close>. Codes are unbounded integers; those of the package fit 32 bits.
  \<^item> A response is what is handed to \<open>gin.Context.JSON\<close>; its data is the empty struct.
\<close>

section \<open>HTTP errors\<close>

record Error =
  eCode :: int
  eMsg :: string
  eDetails :: "string list"
  needHTTPCode :: bool

record registry =
  errCodes :: "(int \<times> Error) list"
  httpErrCodes :: "(int \<times> string) list"
  grpcErrCodes :: "(int \<times> string) list"
  statusCodes :: "(int \<times> string) list"

definition emptyRegistry :: registry where
  "emptyRegistry = \<lparr>errCodes = [], httpErrCodes = [], grpcErrCodes = [], statusCodes = []\<rparr>"

definition ToHTTPCodeLabel :: string where "ToHTTPCodeLabel = ''[standard http code]''"

definition NewError :: "int \<Rightarrow> string \<Rightarrow> string list \<Rightarrow> registry \<Rightarrow> (Error \<times> registry) option" where
  "NewError code msg details reg = (case map_of (errCodes reg) code of
       Some v \<Rightarrow> None
     | None \<Rightarrow> (let e = \<lparr>eCode = code, eMsg = msg, eDetails = details, needHTTPCode = False\<rparr>
         in Some (e, reg\<lparr>httpErrCodes := AList.update code msg (httpErrCodes reg), errCodes := AList.update code e (errCodes reg)\<rparr>)))"

definition systemError :: "int \<Rightarrow> string \<Rightarrow> Error" where
  "systemError code msg = \<lparr>eCode = code, eMsg = msg, eDetails = [], needHTTPCode = False\<rparr>"

text \<open>The errors of the system level.\<close>

definition Success :: Error where "Success = systemError 0 ''ok''"

definition InvalidParams :: Error where "InvalidParams = systemError 100001 ''Invalid Parameter''"

definition Unauthorized :: Error where "Unauthorized = systemError 100002 ''Unauthorized''"

definition InternalServerError :: Error where "InternalServerError = systemError 100003 ''Internal Server Error''"

definition NotFound :: Error where "NotFound = systemError 100004 ''Not Found''"

definition Timeout :: Error where "Timeout = systemError 100006 ''Request Timeout''"

definition TooManyRequests :: Error where "TooManyRequests = systemError 100007 ''Too Many Requests''"

definition Forbidden :: Error where "Forbidden = systemError 100008 ''Forbidden''"

definition LimitExceed :: Error where "LimitExceed = systemError 100009 ''Limit Exceed''"

definition DeadlineExceeded :: Error where "DeadlineExceeded = systemError 100010 ''Deadline Exceeded''"

definition AccessDenied :: Error where "AccessDenied = systemError 100011 ''Access Denied''"

definition MethodNotAllowed :: Error where "MethodNotAllowed = systemError 100012 ''Method Not Allowed''"

definition ServiceUnavailable :: Error where "ServiceUnavailable = systemError 100013 ''Service Unavailable''"

definition Canceled :: Error where "Canceled = systemError 100014 ''Canceled''"

definition Unknown :: Error where "Unknown = systemError 100015 ''Unknown''"

definition PermissionDenied :: Error where "PermissionDenied = systemError 100016 ''Permission Denied''"

definition ResourceExhausted :: Error where "ResourceExhausted = systemError 100017 ''Resource Exhausted''"

definition FailedPrecondition :: Error where "FailedPrecondition = systemError 100018 ''Failed Precondition''"

definition Aborted :: Error where "Aborted = systemError 100019 ''Aborted''"

definition OutOfRange :: Error where "OutOfRange = systemError 100020 ''Out Of Range''"

definition Unimplemented :: Error where "Unimplemented = systemError 100021 ''Unimplemented''"

definition DataLoss :: Error where "DataLoss = systemError 100022 ''Data Loss''"

definition StatusBadGateway :: Error where "StatusBadGateway = systemError 100023 ''Bad Gateway''"

definition AlreadyExists :: Error where "AlreadyExists = systemError 100005 ''Already Exists''"

definition Conflict :: Error where "Conflict = systemError 100409 ''Conflict''"

definition TooEarly :: Error where "TooEarly = systemError 100425 ''Too Early''"

definition systemErrors :: "Error list" where
  "systemErrors = [Success, InvalidParams, Unauthorized, InternalServerError, NotFound, Timeout, TooManyRequests, Forbidden, LimitExceed, DeadlineExceeded, AccessDenied, MethodNotAllowed, ServiceUnavailable, Canceled, Unknown, PermissionDenied, ResourceExhausted, FailedPrecondition, Aborted, OutOfRange, Unimplemented, DataLoss, StatusBadGateway, AlreadyExists, Conflict, TooEarly]"

datatype goError = TextError string | StatusError int string

definition joined :: "string list \<Rightarrow> string" where "joined xs = joinWith '', '' xs"

definition ErrText :: "Error \<Rightarrow> string list \<Rightarrow> string" where
  "ErrText e msg =
     (let message = (if msg = [] then eMsg e else joined msg);
          base = ''code = '' @ decInt (eCode e) @ '', msg = '' @ message
      in if eDetails e = [] then base else base @ '', details = ['' @ joinWith '' '' (eDetails e) @ '']'')"

definition ErrToHTTPText :: "Error \<Rightarrow> string list \<Rightarrow> string" where
  "ErrToHTTPText e msg =
     (let message = (if msg = [] then eMsg e else joined msg);
          base = ''code = '' @ decInt (eCode e) @ '', msg = '' @ message
      in (if eDetails e = [] then base else base @ '', details = '' @ joined (eDetails e)) @ ToHTTPCodeLabel)"

definition httpErr :: "Error \<Rightarrow> string list \<Rightarrow> goError" where "httpErr e msg = TextError (ErrText e msg)"

definition httpErrToHTTP :: "Error \<Rightarrow> string list \<Rightarrow> goError" where "httpErrToHTTP e msg = TextError (ErrToHTTPText e msg)"

definition WithDetails :: "string list \<Rightarrow> Error \<Rightarrow> Error" where
  "WithDetails details e = systemError (eCode e) (eMsg e @ '', '' @ joined details)"

definition RewriteMsg :: "string \<Rightarrow> Error \<Rightarrow> Error" where
  "RewriteMsg msg e = systemError (eCode e) msg"

definition WithOutMsgI18n :: "(int \<rightharpoonup> string \<rightharpoonup> string) \<Rightarrow> string \<Rightarrow> Error \<Rightarrow> Error" where
  "WithOutMsgI18n langMsg lang e = (case langMsg (eCode e) of
       Some i18n \<Rightarrow> (case i18n lang of Some msg \<Rightarrow> systemError (eCode e) msg | None \<Rightarrow> systemError (eCode e) (eMsg e))
     | None \<Rightarrow> systemError (eCode e) (eMsg e))"

definition ToHTTPCode :: "Error \<Rightarrow> int" where
  "ToHTTPCode e =
     (let c = eCode e in
      if c = eCode Success then 200
      else if c = eCode InternalServerError then 500
      else if c = eCode InvalidParams then 400
      else if c = eCode Unauthorized \<or> c = eCode PermissionDenied then 401
      else if c = eCode TooManyRequests \<or> c = eCode LimitExceed then 429
      else if c = eCode Forbidden \<or> c = eCode AccessDenied then 403
      else if c = eCode NotFound then 404
      else if c = eCode Conflict \<or> c = eCode AlreadyExists then 409
      else if c = eCode TooEarly then 425
      else if c = eCode Timeout \<or> c = eCode DeadlineExceeded then 408
      else if c = eCode MethodNotAllowed then 405
      else if c = eCode ServiceUnavailable then 503
      else if c = eCode Unimplemented then 501
      else if c = eCode StatusBadGateway then 502
      else 500)"

fun errorText :: "(int \<Rightarrow> string) \<Rightarrow> goError \<Rightarrow> string" where
  "errorText codeName (TextError t) = t"
| "errorText codeName (StatusError c m) = ''rpc error: code = '' @ codeName c @ '' desc = '' @ m"

definition unknownError :: Error where "unknownError = systemError (-1) ''unknown error''"

definition ParseError :: "(int \<Rightarrow> string) \<Rightarrow> registry \<Rightarrow> goError option \<Rightarrow> Error" where
  "ParseError codeName reg err = (case err of None \<Rightarrow> Success | Some er \<Rightarrow>
     (let text1 = errorText codeName er; splits = splitStr text1 '', msg = '';
          codeStr = goReplaceAll (splits ! 0) ''code = '' []
      in case atoi codeStr of None \<Rightarrow> unknownError | Some code \<Rightarrow>
         (case map_of (errCodes reg) code of None \<Rightarrow> unknownError | Some e \<Rightarrow>
            if length splits > 1
            then \<lparr>eCode = code, eMsg = splits ! 1, eDetails = [], needHTTPCode = strContains text1 ToHTTPCodeLabel\<rparr>
            else e)))"

definition GetErrorCode :: "(int \<Rightarrow> string) \<Rightarrow> registry \<Rightarrow> goError option \<Rightarrow> int" where
  "GetErrorCode codeName reg err = (let e = ParseError codeName reg err in if needHTTPCode e then ToHTTPCode e else eCode e)"

definition IsError :: "(int \<Rightarrow> string) \<Rightarrow> registry \<Rightarrow> goError option \<Rightarrow> Error \<Rightarrow> bool" where
  "IsError codeName reg err e \<longleftrightarrow> GetErrorCode codeName reg err = eCode e"

definition HCode :: "int \<Rightarrow> int option" where
  "HCode num = (if num > 999 \<or> num < 1 then None else Some (200000 + num * 100))"

definition getErrorInfo :: "(int \<times> string) list \<Rightarrow> (int \<times> string) list" where
  "getErrorInfo codeInfo = map (\<lambda>k. (k, the (map_of codeInfo k))) (sort (map fst codeInfo))"

definition ListHTTPErrCodes :: "registry \<Rightarrow> (int \<times> string) list" where
  "ListHTTPErrCodes reg = getErrorInfo (httpErrCodes reg)"

section \<open>gRPC statuses\<close>

record RPCStatus =
  stCode :: int
  stMessage :: string

definition NewRPCStatus :: "int \<Rightarrow> string \<Rightarrow> registry \<Rightarrow> (RPCStatus \<times> registry) option" where
  "NewRPCStatus code msg reg = (case map_of (statusCodes reg) code of
       Some v \<Rightarrow> None
     | None \<Rightarrow> Some (\<lparr>stCode = code, stMessage = msg\<rparr>,
         reg\<lparr>grpcErrCodes := AList.update code msg (grpcErrCodes reg), statusCodes := AList.update code msg (statusCodes reg)\<rparr>))"

text \<open>The statuses of the system level.\<close>

definition StatusSuccess :: RPCStatus where "StatusSuccess = \<lparr>stCode = 0, stMessage = ''ok''\<rparr>"

definition StatusCanceled :: RPCStatus where "StatusCanceled = \<lparr>stCode = 300001, stMessage = ''Canceled''\<rparr>"

definition StatusUnknown :: RPCStatus where "StatusUnknown = \<lparr>stCode = 300002, stMessage = ''Unknown''\<rparr>"

definition StatusInvalidParams :: RPCStatus where "StatusInvalidParams = \<lparr>stCode = 300003, stMessage = ''Invalid Parameter''\<rparr>"

definition StatusDeadlineExceeded :: RPCStatus where "StatusDeadlineExceeded = \<lparr>stCode = 300004, stMessage = ''Deadline Exceeded''\<rparr>"

definition StatusNotFound :: RPCStatus where "StatusNotFound = \<lparr>stCode = 300005, stMessage = ''Not Found''\<rparr>"

definition StatusAlreadyExists :: RPCStatus where "StatusAlreadyExists = \<lparr>stCode = 300006, stMessage = ''Already Exists''\<rparr>"

definition StatusPermissionDenied :: RPCStatus where "StatusPermissionDenied = \<lparr>stCode = 300007, stMessage = ''Permission Denied''\<rparr>"

definition StatusResourceExhausted :: RPCStatus where "StatusResourceExhausted = \<lparr>stCode = 300008, stMessage = ''Resource Exhausted''\<rparr>"

definition StatusFailedPrecondition :: RPCStatus where "StatusFailedPrecondition = \<lparr>stCode = 300009, stMessage = ''Failed Precondition''\<rparr>"

definition StatusAborted :: RPCStatus where "StatusAborted = \<lparr>stCode = 300010, stMessage = ''Aborted''\<rparr>"

definition StatusOutOfRange :: RPCStatus where "StatusOutOfRange = \<lparr>stCode = 300011, stMessage = ''Out Of Range''\<rparr>"

definition StatusUnimplemented :: RPCStatus where "StatusUnimplemented = \<lparr>stCode = 300012, stMessage = ''Unimplemented''\<rparr>"

definition StatusInternalServerError :: RPCStatus where "StatusInternalServerError = \<lparr>stCode = 300013, stMessage = ''Internal Server Error''\<rparr>"

definition StatusServiceUnavailable :: RPCStatus where "StatusServiceUnavailable = \<lparr>stCode = 300014, stMessage = ''Service Unavailable''\<rparr>"

definition StatusDataLoss :: RPCStatus where "StatusDataLoss = \<lparr>stCode = 300015, stMessage = ''Data Loss''\<rparr>"

definition StatusUnauthorized :: RPCStatus where "StatusUnauthorized = \<lparr>stCode = 300016, stMessage = ''Unauthorized''\<rparr>"

definition StatusTimeout :: RPCStatus where "StatusTimeout = \<lparr>stCode = 300017, stMessage = ''Request Timeout''\<rparr>"

definition StatusTooManyRequests :: RPCStatus where "StatusTooManyRequests = \<lparr>stCode = 300018, stMessage = ''Too Many Requests''\<rparr>"

definition StatusForbidden :: RPCStatus where "StatusForbidden = \<lparr>stCode = 300019, stMessage = ''Forbidden''\<rparr>"

definition StatusLimitExceed :: RPCStatus where "StatusLimitExceed = \<lparr>stCode = 300020, stMessage = ''Limit Exceed''\<rparr>"

definition StatusMethodNotAllowed :: RPCStatus where "StatusMethodNotAllowed = \<lparr>stCode = 300021, stMessage = ''Method Not Allowed''\<rparr>"

definition StatusAccessDenied :: RPCStatus where "StatusAccessDenied = \<lparr>stCode = 300022, stMessage = ''Access Denied''\<rparr>"

definition StatusConflict :: RPCStatus where "StatusConflict = \<lparr>stCode = 300023, stMessage = ''Conflict''\<rparr>"

definition systemStatuses :: "RPCStatus list" where
  "systemStatuses = [StatusSuccess, StatusCanceled, StatusUnknown, StatusInvalidParams, StatusDeadlineExceeded, StatusNotFound, StatusAlreadyExists, StatusPermissionDenied, StatusResourceExhausted, StatusFailedPrecondition, StatusAborted, StatusOutOfRange, StatusUnimplemented, StatusInternalServerError, StatusServiceUnavailable, StatusDataLoss, StatusUnauthorized, StatusTimeout, StatusTooManyRequests, StatusForbidden, StatusLimitExceed, StatusMethodNotAllowed, StatusAccessDenied, StatusConflict]"

definition RCode :: "int \<Rightarrow> int option" where
  "RCode num = (if num > 999 \<or> num < 1 then None else Some (400000 + num * 100))"

text \<open>\<open>status.New(code, msg).Err()\<close> and \<open>status.Errorf\<close>: the code 0 is no error.\<close>

definition statusErr :: "int \<Rightarrow> string \<Rightarrow> goError option" where
  "statusErr code msg = (if code = 0 then None else Some (StatusError code msg))"

definition rpcErr :: "RPCStatus \<Rightarrow> string list \<Rightarrow> goError option" where
  "rpcErr s desc = statusErr (stCode s) (if desc = [] then stMessage s else joined desc)"

definition rpcErrToHTTP :: "RPCStatus \<Rightarrow> string list \<Rightarrow> goError option" where
  "rpcErrToHTTP s desc = statusErr (stCode s) ((if desc = [] then stMessage s else joined desc) @ ToHTTPCodeLabel)"

definition toRPCErr :: "(int \<Rightarrow> string) \<Rightarrow> int \<Rightarrow> string list \<Rightarrow> goError option" where
  "toRPCErr codeName code descs = statusErr code (if descs = [] then codeName code else joined descs)"

definition ToRPCErr :: "(int \<Rightarrow> string) \<Rightarrow> RPCStatus \<Rightarrow> string list \<Rightarrow> goError option" where
  "ToRPCErr codeName s desc =
     (let c = stCode s; to = (\<lambda>code. toRPCErr codeName code desc) in
      if c = stCode StatusInvalidParams then to 3
      else if c = stCode StatusInternalServerError then to 13
      else if c = stCode StatusCanceled then to 1
      else if c = stCode StatusUnknown then to 2
      else if c = stCode StatusDeadlineExceeded then to 4
      else if c = stCode StatusNotFound then to 5
      else if c = stCode StatusAlreadyExists \<or> c = stCode StatusConflict then to 6
      else if c = stCode StatusPermissionDenied then to 7
      else if c = stCode StatusResourceExhausted then to 8
      else if c = stCode StatusFailedPrecondition then to 9
      else if c = stCode StatusAborted then to 10
      else if c = stCode StatusOutOfRange then to 11
      else if c = stCode StatusUnimplemented then to 12
      else if c = stCode StatusServiceUnavailable then to 14
      else if c = stCode StatusDataLoss then to 15
      else if c = stCode StatusUnauthorized then to 16
      else if c = stCode StatusAccessDenied then to 7
      else if c = stCode StatusLimitExceed then to 8
      else if c = stCode StatusMethodNotAllowed then to 12
      else statusErr c (stMessage s))"

definition ToRPCCode :: "RPCStatus \<Rightarrow> int" where
  "ToRPCCode s =
     (let c = stCode s in
      if c = stCode StatusInvalidParams then 3
      else if c = stCode StatusInternalServerError then 13
      else if c = stCode StatusUnimplemented then 12
      else if c = stCode StatusPermissionDenied then 7
      else if c = stCode StatusCanceled then 1
      else if c = stCode StatusUnknown then 2
      else if c = stCode StatusDeadlineExceeded then 4
      else if c = stCode StatusNotFound then 5
      else if c = stCode StatusAlreadyExists \<or> c = stCode StatusConflict then 6
      else if c = stCode StatusResourceExhausted then 8
      else if c = stCode StatusFailedPrecondition then 9
      else if c = stCode StatusAborted then 10
      else if c = stCode StatusOutOfRange then 11
      else if c = stCode StatusServiceUnavailable then 14
      else if c = stCode StatusDataLoss then 15
      else if c = stCode StatusUnauthorized then 16
      else if c = stCode StatusAccessDenied then 7
      else if c = stCode StatusLimitExceed then 8
      else if c = stCode StatusMethodNotAllowed then 12
      else c)"

definition convertToHTTPCode :: "int \<Rightarrow> int" where
  "convertToHTTPCode c =
     (if c = stCode StatusSuccess then 200
      else if c = 3 \<or> c = stCode StatusInvalidParams then 400
      else if c = 13 \<or> c = stCode StatusInternalServerError then 500
      else if c = 12 \<or> c = stCode StatusUnimplemented then 501
      else if c = 5 \<or> c = stCode StatusNotFound then 404
      else if c = stCode StatusForbidden \<or> c = stCode StatusAccessDenied then 403
      else if c = stCode StatusTimeout then 408
      else if c = stCode StatusTooManyRequests \<or> c = stCode StatusLimitExceed then 429
      else if c = 9 \<or> c = stCode StatusFailedPrecondition then 412
      else if c = 14 \<or> c = stCode StatusServiceUnavailable then 503
      else if c = 16 \<or> c = stCode StatusUnauthorized then 401
      else if c = 7 \<or> c = stCode StatusPermissionDenied then 401
      else if c = stCode StatusLimitExceed then 429
      else if c = stCode StatusMethodNotAllowed then 405
      else if c = stCode StatusConflict then 409
      else 500)"

text \<open>\<open>status.FromError\<close>: nil gives a nil status, of which the code is 0 and the message empty; any other error that is no status has the code \<open>Unknown\<close>.\<close>

definition fromError :: "goError option \<Rightarrow> int \<times> string" where
  "fromError err = (case err of None \<Rightarrow> (0, []) | Some (StatusError c m) \<Rightarrow> (c, m) | Some (TextError t) \<Rightarrow> (2, t))"

definition GetStatusCode :: "goError option \<Rightarrow> int" where
  "GetStatusCode err = fst (fromError err)"

definition IsStatus :: "goError option \<Rightarrow> RPCStatus \<Rightarrow> bool" where
  "IsStatus err e \<longleftrightarrow> GetStatusCode err = stCode e"

definition ListGRPCErrCodes :: "registry \<Rightarrow> (int \<times> string) list" where
  "ListGRPCErrCodes reg = getErrorInfo (grpcErrCodes reg)"

definition ToHTTPErr :: "RPCStatus \<Rightarrow> Error" where
  "ToHTTPErr st =
     (let c = stCode st in
      if c = stCode StatusSuccess \<or> c = 0 then Success
      else if c = stCode StatusInvalidParams \<or> c = 3 then InvalidParams
      else if c = stCode StatusInternalServerError \<or> c = 13 then InternalServerError
      else if c = stCode StatusUnimplemented \<or> c = 12 then Unimplemented
      else if c = stCode StatusPermissionDenied \<or> c = 7 then PermissionDenied
      else if c = stCode StatusCanceled \<or> c = 1 then Canceled
      else if c = stCode StatusUnknown \<or> c = 2 then Unknown
      else if c = stCode StatusDeadlineExceeded \<or> c = 4 then DeadlineExceeded
      else if c = stCode StatusNotFound \<or> c = 5 then NotFound
      else if c = stCode StatusAlreadyExists \<or> c = 6 \<or> c = stCode StatusConflict then Conflict
      else if c = stCode StatusResourceExhausted \<or> c = 8 then ResourceExhausted
      else if c = stCode StatusFailedPrecondition \<or> c = 9 then FailedPrecondition
      else if c = stCode StatusAborted \<or> c = 10 then Aborted
      else if c = stCode StatusOutOfRange \<or> c = 11 then OutOfRange
      else if c = stCode StatusServiceUnavailable \<or> c = 14 then ServiceUnavailable
      else if c = stCode StatusDataLoss \<or> c = 15 then DataLoss
      else if c = stCode StatusUnauthorized \<or> c = 16 then Unauthorized
      else if c = stCode StatusAccessDenied then AccessDenied
      else if c = stCode StatusLimitExceed then LimitExceed
      else if c = stCode StatusMethodNotAllowed then MethodNotAllowed
      else systemError c (stMessage st))"

section \<open>Responses\<close>

record reply =
  httpStatus :: int
  bodyCode :: int
  bodyMsg :: string

record defaultResponse =
  isFromRPC :: bool
  httpErrors :: "int \<rightharpoonup> Error"
  rpcStatus :: "int \<rightharpoonup> RPCStatus"

text \<open>\<open>http.StatusText\<close> of the status codes that occur.\<close>

definition StatusText :: "int \<Rightarrow> string" where
  "StatusText c = (case map_of [(200, ''OK''), (400, ''Bad Request''), (401, ''Unauthorized''), (403, ''Forbidden''), (404, ''Not Found''),
       (405, ''Method Not Allowed''), (408, ''Request Timeout''), (409, ''Conflict''), (412, ''Precondition Failed''), (425, ''Too Early''),
       (429, ''Too Many Requests''), (500, ''Internal Server Error''), (501, ''Not Implemented''), (502, ''Bad Gateway''),
       (503, ''Service Unavailable'')] c of None \<Rightarrow> [] | Some t \<Rightarrow> t)"

definition NewResponser :: "bool \<Rightarrow> Error option list \<Rightarrow> RPCStatus option list \<Rightarrow> defaultResponse" where
  "NewResponser fromRPC hErrors statuses =
     \<lparr>isFromRPC = fromRPC,
      httpErrors = foldl (\<lambda>m h. case h of None \<Rightarrow> m | Some e \<Rightarrow> m(eCode e \<mapsto> e)) Map.empty hErrors,
      rpcStatus = foldl (\<lambda>m s. case s of None \<Rightarrow> m | Some st \<Rightarrow> m(ToRPCCode st \<mapsto> st, stCode st \<mapsto> st)) Map.empty statuses\<rparr>"

definition respond :: "int \<Rightarrow> int \<Rightarrow> string \<Rightarrow> reply" where
  "respond status code msg = \<lparr>httpStatus = status, bodyCode = code, bodyMsg = msg\<rparr>"

definition respSuccess :: reply where "respSuccess = respond 200 0 ''ok''"

definition ParamError :: reply where "ParamError = respond 200 (eCode InvalidParams) (eMsg InvalidParams)"

definition parseCodeAndMsg :: "string \<Rightarrow> int \<times> string" where
  "parseCodeAndMsg errStr =
     (if errStr = [] then (-1, errStr)
      else let ss = splitStr errStr ''desc = ''; cm = splitStr (last ss) ''msg = ''
           in if length cm = 2
              then let codeStr = goReplaceAll (goReplaceAll (cm ! 0) ''code = '' []) '', '' []
                   in (case atoi codeStr of None \<Rightarrow> 0 | Some c \<Rightarrow> c, cm ! 1)
              else (-1, errStr))"

text \<open>The answer for a code the user has listed: the standard code and its text.\<close>

definition standardReply :: "int \<Rightarrow> reply" where
  "standardReply httpCode = respond httpCode httpCode (if StatusText httpCode = [] then ''unknown error'' else StatusText httpCode)"

definition handleRPCError :: "(int \<Rightarrow> string) \<Rightarrow> defaultResponse \<Rightarrow> goError option \<Rightarrow> reply \<times> bool" where
  "handleRPCError codeName resp err =
     (let (c, m) = fromError err in
      if c = 2 then
        (let (code, msg) = parseCodeAndMsg (errorText codeName (StatusError c m))
         in (if code = -1 then respond 200 (-1) ''unknown error'' else respond 200 code msg, False))
      else if c = 13 \<or> c = stCode StatusInternalServerError then (respond 500 500 (StatusText 500), True)
      else if c = 14 \<or> c = stCode StatusServiceUnavailable then (respond 503 503 (StatusText 503), True)
      else if strContains m ToHTTPCodeLabel then (respond (convertToHTTPCode c) c (goReplaceAll m ToHTTPCodeLabel []), True)
      else case rpcStatus resp c of
          Some v \<Rightarrow> (standardReply (ToHTTPCode (ToHTTPErr v)), True)
        | None \<Rightarrow> (respond 200 c m, False))"

definition handleHTTPError :: "(int \<Rightarrow> string) \<Rightarrow> registry \<Rightarrow> defaultResponse \<Rightarrow> goError option \<Rightarrow> reply \<times> bool" where
  "handleHTTPError codeName reg resp err =
     (let e = ParseError codeName reg err in
      if eCode e = eCode InternalServerError \<or> eCode e = 500 then (respond 500 500 (StatusText 500), True)
      else if eCode e = eCode ServiceUnavailable \<or> eCode e = 503 then (respond 503 503 (StatusText 503), True)
      else if needHTTPCode e then (respond (ToHTTPCode e) (eCode e) (goReplaceAll (eMsg e) ToHTTPCodeLabel []), True)
      else case httpErrors resp (eCode e) of
          Some v \<Rightarrow> (standardReply (ToHTTPCode v), True)
        | None \<Rightarrow> (respond 200 (eCode e) (eMsg e), False))"

definition respError :: "(int \<Rightarrow> string) \<Rightarrow> registry \<Rightarrow> defaultResponse \<Rightarrow> goError option \<Rightarrow> reply \<times> bool" where
  "respError codeName reg resp err =
     (if isFromRPC resp then handleRPCError codeName resp err else handleHTTPError codeName reg resp err)"

lemmas system_errors = Success_def InvalidParams_def Unauthorized_def InternalServerError_def NotFound_def Timeout_def TooManyRequests_def Forbidden_def LimitExceed_def DeadlineExceeded_def AccessDenied_def MethodNotAllowed_def ServiceUnavailable_def Canceled_def Unknown_def PermissionDenied_def ResourceExhausted_def FailedPrecondition_def Aborted_def OutOfRange_def Unimplemented_def DataLoss_def StatusBadGateway_def AlreadyExists_def Conflict_def TooEarly_def systemError_def

lemmas system_statuses = StatusSuccess_def StatusCanceled_def StatusUnknown_def StatusInvalidParams_def StatusDeadlineExceeded_def StatusNotFound_def StatusAlreadyExists_def StatusPermissionDenied_def StatusResourceExhausted_def StatusFailedPrecondition_def StatusAborted_def StatusOutOfRange_def StatusUnimplemented_def StatusInternalServerError_def StatusServiceUnavailable_def StatusDataLoss_def StatusUnauthorized_def StatusTimeout_def StatusTooManyRequests_def StatusForbidden_def StatusLimitExceed_def StatusMethodNotAllowed_def StatusAccessDenied_def StatusConflict_def

section \<open>Registered codes\<close>

text \<open>Registrations in order, \<open>None\<close> after a panic.\<close>

datatype registration = RegError int string "string list" | RegStatus int string

fun register :: "registration list \<Rightarrow> registry \<Rightarrow> registry option" where
  "register [] reg = Some reg"
| "register (RegError c m d # rs) reg = (case NewError c m d reg of None \<Rightarrow> None | Some (e, reg') \<Rightarrow> register rs reg')"
| "register (RegStatus c m # rs) reg = (case NewRPCStatus c m reg of None \<Rightarrow> None | Some (s, reg') \<Rightarrow> register rs reg')"

definition registryInv :: "registry \<Rightarrow> bool" where
  "registryInv reg \<longleftrightarrow> distinct (map fst (errCodes reg)) \<and> distinct (map fst (statusCodes reg))
     \<and> httpErrCodes reg = map (\<lambda>(c, e). (c, eMsg e)) (errCodes reg) \<and> grpcErrCodes reg = statusCodes reg
     \<and> (\<forall>(c, e) \<in> set (errCodes reg). eCode e = c)"

lemma update_fresh: "map_of l k = None \<Longrightarrow> AList.update k v l = l @ [(k, v)]"
  by (induction l) (auto split: if_splits)

lemma NewError_inv:
  assumes "registryInv reg" "NewError c m d reg = Some (e, reg')"
  shows "registryInv reg' \<and> map_of (errCodes reg') c = Some e \<and> eMsg e = m
    \<and> (\<forall>k v. map_of (errCodes reg) k = Some v \<longrightarrow> map_of (errCodes reg') k = Some v)"
proof -
  from assms(2) have n: "map_of (errCodes reg) c = None" and e: "e = \<lparr>eCode = c, eMsg = m, eDetails = d, needHTTPCode = False\<rparr>"
    and r: "reg' = reg\<lparr>httpErrCodes := AList.update c m (httpErrCodes reg), errCodes := AList.update c e (errCodes reg)\<rparr>"
    by (auto simp: NewError_def Let_def split: option.splits)
  from n have nc: "c \<notin> fst ` set (errCodes reg)" by (simp add: map_of_eq_None_iff)
  have "map_of (httpErrCodes reg) c = None"
    using assms(1) nc by (auto simp: registryInv_def map_of_eq_None_iff image_iff)
  with assms(1) n nc show ?thesis
    by (auto simp: r registryInv_def update_fresh e distinct_map map_add_def split: option.splits)
qed

lemma NewRPCStatus_inv:
  assumes "registryInv reg" "NewRPCStatus c m reg = Some (s, reg')"
  shows "registryInv reg' \<and> errCodes reg' = errCodes reg"
proof -
  from assms(2) have n: "map_of (statusCodes reg) c = None"
    and r: "reg' = reg\<lparr>grpcErrCodes := AList.update c m (grpcErrCodes reg), statusCodes := AList.update c m (statusCodes reg)\<rparr>"
    by (auto simp: NewRPCStatus_def split: option.splits)
  from n have nc: "c \<notin> fst ` set (statusCodes reg)" by (simp add: map_of_eq_None_iff)
  with assms(1) n show ?thesis by (auto simp: r registryInv_def update_fresh)
qed

lemma register_inv:
  "registryInv reg \<Longrightarrow> register rs reg = Some reg' \<Longrightarrow> registryInv reg'
    \<and> (\<forall>k v. map_of (errCodes reg) k = Some v \<longrightarrow> map_of (errCodes reg') k = Some v)"
proof (induction rs reg rule: register.induct)
  case (2 c m d rs reg)
  then obtain e r1 where n: "NewError c m d reg = Some (e, r1)" and r: "register rs r1 = Some reg'"
    by (auto split: option.splits)
  from NewError_inv [OF 2(2) n] 2(1) [OF n _ _ r] show ?case by auto
next
  case (3 c m rs reg)
  then obtain s r1 where n: "NewRPCStatus c m reg = Some (s, r1)" and r: "register rs r1 = Some reg'"
    by (auto split: option.splits)
  from NewRPCStatus_inv [OF 3(2) n] 3(1) [OF n _ _ r] show ?case by auto
qed simp

section \<open>Errors as texts\<close>

lemma strContains_skip: "sub \<noteq> [] \<Longrightarrow> hd sub \<notin> set p \<Longrightarrow> strContains (p @ s) sub \<longleftrightarrow> strContains s sub"
proof (induction p)
  case (Cons c p)
  then have "\<not> hasPrefix ((c # p) @ s) sub" by (cases sub) (auto simp: hasPrefix_iff)
  with Cons show ?case by simp
qed simp

lemma replaceAll_skip: "old \<noteq> [] \<Longrightarrow> hd old \<notin> set p \<Longrightarrow> replaceAll old new (p @ s) = p @ replaceAll old new s"
proof (induction p)
  case (Cons c p)
  then have "\<not> hasPrefix ((c # p) @ s) old" by (cases old) (auto simp: hasPrefix_iff)
  with Cons show ?case by simp
qed simp

lemma decInt_free: "\<not> digit c \<Longrightarrow> c \<noteq> CHR ''-'' \<Longrightarrow> c \<notin> set (decInt i)"
  using decInt_chars by blast

text \<open>A text that starts like the text of an error is parsed as its code and its message.\<close>

lemma ParseError_text:
  assumes "in64 c" "map_of (errCodes reg) c = Some v" "\<not> strContains m '', msg = ''"
  shows "ParseError codeName reg (Some (TextError (''code = '' @ decInt c @ '', msg = '' @ m))) =
    \<lparr>eCode = c, eMsg = m, eDetails = [], needHTTPCode = strContains m ToHTTPCodeLabel\<rparr>"
proof -
  let ?p = "''code = '' @ decInt c" and ?t = "''code = '' @ decInt c @ '', msg = '' @ m"
  have dig: "CHR '','' \<notin> set (decInt c)" "CHR ''['' \<notin> set (decInt c)" "CHR ''c'' \<notin> set (decInt c)"
    by (rule decInt_free; simp add: digit_def)+
  have "splitStr (?p @ '', msg = '' @ m) '', msg = '' = ?p # splitStr m '', msg = ''"
    by (rule splitStr_sep) (use dig in simp_all)
  then have sp: "splitStr ?t '', msg = '' = [?p, m]" using splitStr_absent [OF assms(3)] by simp
  have "\<not> strContains (decInt c) ''code = ''" using strContains_hd [of "decInt c" "''code = ''"] dig(3) by auto
  then have "goReplaceAll ?p ''code = '' [] = decInt c"
    by (simp only: goReplaceAll_def) (simp add: replaceAll_prefix [of "''code = ''", simplified] replaceAll_absent)
  moreover have "strContains ((?p @ '', msg = '') @ m) ToHTTPCodeLabel = strContains m ToHTTPCodeLabel"
    by (rule strContains_skip) (use dig in \<open>simp_all add: ToHTTPCodeLabel_def\<close>)
  ultimately show ?thesis using atoi_decInt [OF assms(1)] assms(2)
    unfolding ParseError_def errorText.simps Let_def sp option.case
    by simp
qed

text \<open>
  C31: Parsing inverts printing. For an error without details of which the code is registered, and a
  message that does not contain the separator, the text made by \<open>Err\<close> is parsed to its code and
  message, and the text made by \<open>ErrToHTTP\<close> to its code and the message with the label; the error code of
  the first is the code, of the second the HTTP code of the error.
\<close>

theorem error_round_trip:
  assumes "in64 (eCode e)" "map_of (errCodes reg) (eCode e) = Some v" "eDetails e = []"
    and m: "m = (if msg = [] then eMsg e else joined msg)" "\<not> strContains (m @ ToHTTPCodeLabel) '', msg = ''"
  shows "ParseError codeName reg (Some (httpErr e msg)) =
      \<lparr>eCode = eCode e, eMsg = m, eDetails = [], needHTTPCode = strContains m ToHTTPCodeLabel\<rparr>
    \<and> ParseError codeName reg (Some (httpErrToHTTP e msg)) =
      \<lparr>eCode = eCode e, eMsg = m @ ToHTTPCodeLabel, eDetails = [], needHTTPCode = True\<rparr>
    \<and> GetErrorCode codeName reg (Some (httpErrToHTTP e msg)) = ToHTTPCode e
    \<and> (\<not> strContains m ToHTTPCodeLabel \<longrightarrow> GetErrorCode codeName reg (Some (httpErr e msg)) = eCode e)"
proof -
  have "\<not> strContains m '', msg = ''" using m(2) by (metis append_Nil strContains_iff append.assoc)
  note p = ParseError_text [OF assms(1,2) this, of codeName] ParseError_text [OF assms(1,2) m(2), of codeName]
  have l: "strContains (m @ ToHTTPCodeLabel) ToHTTPCodeLabel" unfolding strContains_iff by (metis append_Nil2)
  have "httpErr e msg = TextError (''code = '' @ decInt (eCode e) @ '', msg = '' @ m)"
    "httpErrToHTTP e msg = TextError (''code = '' @ decInt (eCode e) @ '', msg = '' @ m @ ToHTTPCodeLabel)"
    using assms(3) m(1) by (simp_all add: httpErr_def httpErrToHTTP_def ErrText_def ErrToHTTPText_def Let_def)
  with p l show ?thesis by (simp add: GetErrorCode_def Let_def ToHTTPCode_def)
qed

text \<open>
  C32: An error handed out with \<open>ErrToHTTP\<close> is answered with the HTTP status of its code and a body with
  the code and the message without the label, except that the internal error and the unavailable
  service are answered with the standard code and text in the body too.
\<close>

theorem http_error_response:
  assumes "in64 (eCode e)" "map_of (errCodes reg) (eCode e) = Some v" "eDetails e = []" "\<not> isFromRPC resp"
    and m: "m = (if msg = [] then eMsg e else joined msg)" "\<not> strContains (m @ ToHTTPCodeLabel) '', msg = ''" "CHR ''['' \<notin> set m"
  shows "respError codeName reg resp (Some (httpErrToHTTP e msg)) =
    (if eCode e \<in> {100003, 500} then respond 500 500 ''Internal Server Error''
     else if eCode e \<in> {100013, 503} then respond 503 503 ''Service Unavailable''
     else respond (ToHTTPCode e) (eCode e) m, True)"
proof -
  have l: "strContains (m @ ToHTTPCodeLabel) ToHTTPCodeLabel" unfolding strContains_iff by (metis append_Nil2)
  have "httpErrToHTTP e msg = TextError (''code = '' @ decInt (eCode e) @ '', msg = '' @ m @ ToHTTPCodeLabel)"
    using assms(3) m(1) by (simp add: httpErrToHTTP_def ErrToHTTPText_def Let_def)
  with ParseError_text [OF assms(1,2) m(2), of codeName] l
  have p: "ParseError codeName reg (Some (httpErrToHTTP e msg)) =
      \<lparr>eCode = eCode e, eMsg = m @ ToHTTPCodeLabel, eDetails = [], needHTTPCode = True\<rparr>" by simp
  have "replaceAll ToHTTPCodeLabel [] (m @ ToHTTPCodeLabel) = m @ replaceAll ToHTTPCodeLabel [] ToHTTPCodeLabel"
    by (rule replaceAll_skip) (use m(3) in \<open>simp_all add: ToHTTPCodeLabel_def\<close>)
  moreover have "replaceAll ToHTTPCodeLabel [] ToHTTPCodeLabel = []" by code_simp
  ultimately have "goReplaceAll (m @ ToHTTPCodeLabel) ToHTTPCodeLabel [] = m"
    by (simp add: goReplaceAll_def ToHTTPCodeLabel_def)
  moreover have "StatusText 500 = ''Internal Server Error''" "StatusText 503 = ''Service Unavailable''" by code_simp+
  ultimately show ?thesis
    using assms(4) by (simp add: respError_def handleHTTPError_def Let_def p ToHTTPCode_def InternalServerError_def ServiceUnavailable_def systemError_def)
qed

text \<open>
  The two translations of a status into a gRPC code agree: the error of \<open>ToRPCErr\<close> has the code
  \<open>ToRPCCode\<close>. The two translations into an HTTP code do not: among the statuses of the system level and
  the codes of gRPC, the label and the list of the responder give different answers exactly for the
  six statuses and three codes named here.
\<close>

theorem rpc_http_codes:
  "GetStatusCode (ToRPCErr codeName s desc) = ToRPCCode s
    \<and> filter (\<lambda>s. convertToHTTPCode (stCode s) \<noteq> ToHTTPCode (ToHTTPErr s)) systemStatuses =
      [StatusDeadlineExceeded, StatusAlreadyExists, StatusFailedPrecondition, StatusTimeout, StatusTooManyRequests, StatusForbidden]
    \<and> filter (\<lambda>c. convertToHTTPCode c \<noteq> ToHTTPCode (ToHTTPErr \<lparr>stCode = c, stMessage = m\<rparr>)) [0..16] = [4, 6, 9]"
proof (intro conjI)
  have "GetStatusCode (statusErr c t) = c" for c t
    by (simp add: GetStatusCode_def statusErr_def fromError_def)
  then show "GetStatusCode (ToRPCErr codeName s desc) = ToRPCCode s"
    by (simp add: ToRPCErr_def ToRPCCode_def toRPCErr_def Let_def system_statuses)
  show "filter (\<lambda>s. convertToHTTPCode (stCode s) \<noteq> ToHTTPCode (ToHTTPErr s)) systemStatuses =
      [StatusDeadlineExceeded, StatusAlreadyExists, StatusFailedPrecondition, StatusTimeout, StatusTooManyRequests, StatusForbidden]"
    by code_simp
  have "[0..16] = [0, 1, 2, 3, 4, 5, 6, 7, 8, 9, 10, 11, 12, 13, 14, 15, 16 :: int]" by code_simp
  then show "filter (\<lambda>c. convertToHTTPCode c \<noteq> ToHTTPCode (ToHTTPErr \<lparr>stCode = c, stMessage = m\<rparr>)) [0..16] = [4, 6, 9]"
    by (simp add: convertToHTTPCode_def ToHTTPCode_def ToHTTPErr_def system_statuses system_errors)
qed

text \<open>The codes of the system level are registered without a panic.\<close>

definition systemRegistrations :: "registration list" where
  "systemRegistrations = map (\<lambda>e. RegError (eCode e) (eMsg e) []) systemErrors @ map (\<lambda>s. RegStatus (stCode s) (stMessage s)) systemStatuses"

definition systemRegistry :: registry where
  "systemRegistry = the (register systemRegistrations emptyRegistry)"

lemma systemRegistry: "register systemRegistrations emptyRegistry = Some systemRegistry"
proof -
  have "register systemRegistrations emptyRegistry \<noteq> None" by code_simp
  then show ?thesis by (auto simp: systemRegistry_def)
qed

text \<open>An error of a gRPC call that is no status, with a text in which no number stands before the message, is answered with the code of success.\<close>

lemma unknown_error_succeeds:
  "handleRPCError (\<lambda>c. ''Unknown'') (NewResponser True [] []) (Some (TextError ''lookup failed, msg = timeout'')) = (respond 200 0 ''timeout'', False)"
proof -
  let ?t = "''rpc error: code = Unknown desc = lookup failed, msg = timeout''"
  have s: "splitStr ?t ''desc = '' = [''rpc error: code = Unknown '', ''lookup failed, msg = timeout'']"
    "splitStr ''lookup failed, msg = timeout'' ''msg = '' = [''lookup failed, '', ''timeout'']"
    "goReplaceAll (goReplaceAll ''lookup failed, '' ''code = '' []) '', '' [] = ''lookup failed''" by code_simp+
  have "atoi ''lookup failed'' = None" by (simp add: atoi_def all_digits_def digit_def)
  with s have "parseCodeAndMsg ?t = (0, ''timeout'')" by (simp add: parseCodeAndMsg_def)
  then show ?thesis by (simp add: handleRPCError_def fromError_def)
qed

theorem error_round_trip_witness:
  "ParseError (\<lambda>c. []) systemRegistry (Some (httpErrToHTTP NotFound [''no order''])) =
     \<lparr>eCode = 100004, eMsg = ''no order[standard http code]'', eDetails = [], needHTTPCode = True\<rparr>
   \<and> GetErrorCode (\<lambda>c. []) systemRegistry (Some (httpErrToHTTP NotFound [''no order''])) = 404"
proof -
  have r: "map_of (errCodes systemRegistry) (eCode NotFound) = Some NotFound" by code_simp
  have c: "\<not> strContains (''no order'' @ ToHTTPCodeLabel) '', msg = ''" by code_simp
  have h: "ToHTTPCode NotFound = 404" by code_simp
  show ?thesis
    using error_round_trip [OF _ r, of "''no order''" "[''no order'']" "\<lambda>c. []"] c h
    by (simp add: NotFound_def systemError_def joined_def in64_def ToHTTPCodeLabel_def)
qed

theorem http_error_response_witness:
  "respError (\<lambda>c. []) systemRegistry (NewResponser False [] []) (Some (httpErrToHTTP NotFound [''no order''])) = (respond 404 100004 ''no order'', True)"
proof -
  have r: "map_of (errCodes systemRegistry) (eCode NotFound) = Some NotFound" by code_simp
  have c: "\<not> strContains (''no order'' @ ToHTTPCodeLabel) '', msg = ''" by code_simp
  have h: "ToHTTPCode NotFound = 404" by code_simp
  show ?thesis
    using http_error_response [OF _ r, of "NewResponser False [] []" "''no order''" "[''no order'']" "\<lambda>c. []"] c h
    by (simp add: NotFound_def systemError_def joined_def in64_def NewResponser_def)
qed

end
