(* ===== verification/ProtoParse.thy ===== *)
theory ProtoParse
  imports GoStrings "HOL-Library.AList"
begin

text \<open>
  The descriptions of services that the protoc plugins hand to their templates
  (\<open>internal/parse\<close> of \<open>cmd/protoc-gen-go-gin\<close> and \<open>cmd/protoc-gen-go-rpc-tmpl\<close>, \<open>internal/parser\<close> of
  \<open>cmd/protoc-gen-json-field\<close>).

  \<^item> Descriptors are the data of \<open>protogen\<close> that the code reads; import paths are quoted, and the names of
    services and methods are not empty. The HTTP rule is the extension \<open>google.api.http\<close>.
  \<^item> The package variable \<open>methodSets\<close> is a counter that is passed along; \<open>None\<close> is a panic.
  \<^item> Functions that the three plugins have as identical copies are defined once. Go maps are association
    lists, and \<open>ord\<close> gives the order in which their values are visited.
\<close>

section \<open>Descriptors\<close>

datatype kind = BoolKind | EnumKind | Int32Kind | Sint32Kind | Uint32Kind | Int64Kind | Sint64Kind | Uint64Kind
  | Sfixed32Kind | Fixed32Kind | FloatKind | Sfixed64Kind | Fixed64Kind | DoubleKind | StringKind | BytesKind | MessageKind | GroupKind

fun kindString :: "kind \<Rightarrow> string" where
  "kindString BoolKind = ''bool''"
| "kindString EnumKind = ''enum''"
| "kindString Int32Kind = ''int32''"
| "kindString Sint32Kind = ''sint32''"
| "kindString Uint32Kind = ''uint32''"
| "kindString Int64Kind = ''int64''"
| "kindString Sint64Kind = ''sint64''"
| "kindString Uint64Kind = ''uint64''"
| "kindString Sfixed32Kind = ''sfixed32''"
| "kindString Fixed32Kind = ''fixed32''"
| "kindString FloatKind = ''float''"
| "kindString Sfixed64Kind = ''sfixed64''"
| "kindString Fixed64Kind = ''fixed64''"
| "kindString DoubleKind = ''double''"
| "kindString StringKind = ''string''"
| "kindString BytesKind = ''bytes''"
| "kindString MessageKind = ''message''"
| "kindString GroupKind = ''group''"

record goIdent =
  GoName :: string
  GoImportPath :: string

record commentSet =
  Leading :: string
  Trailing :: string

record fieldDesc =
  fdName :: string
  fdKind :: kind
  fdRepeated :: bool
  fdIsMap :: bool
  fdMapKey :: kind
  fdMapValue :: kind
  fdComments :: commentSet

datatype message = Message goIdent "pfield list"
and pfield = PField fieldDesc "message option"

fun msgIdent :: "message \<Rightarrow> goIdent" where "msgIdent (Message i fs) = i"

fun msgFields :: "message \<Rightarrow> pfield list" where "msgFields (Message i fs) = fs"

datatype httpPattern = NoPattern | PatGet string | PatPut string | PatPost string | PatDelete string | PatPatch string
  | PatCustom string string

datatype httpRule = HttpRule string httpPattern "httpRule list"

record pmethod =
  mGoName :: string
  mInput :: message
  mOutput :: message
  mStreamingClient :: bool
  mStreamingServer :: bool
  mLeading :: string
  mRule :: "httpRule option"

record pservice =
  sGoName :: string
  sMethods :: "pmethod list"

record pfile =
  pfPrefix :: string
  pfImportPath :: string
  pfServices :: "pservice list"

section \<open>Names\<close>

definition removeMiddleLine :: "string \<Rightarrow> string" where
  "removeMiddleLine str = replaceByte (CHR ''-'') [] str"

definition isVersionNum :: "string \<Rightarrow> bool" where
  "isVersionNum pkgName \<longleftrightarrow> hasPrefix pkgName ''v'' \<and> all_digits (drop 1 pkgName)"

definition upperFirst :: "string \<Rightarrow> string" where
  "upperFirst s = toUpper (take 1 s) @ drop 1 s"

definition lowerFirst :: "string \<Rightarrow> string" where
  "lowerFirst s = toLower (take 1 s) @ drop 1 s"

definition convertToPkgName :: "string \<Rightarrow> string option" where
  "convertToPkgName importPath0 =
     (let importPath = replaceByte (CHR 0x22) [] importPath0;
          ss = splitOn (CHR ''/'') importPath; l = length ss
      in if l > 1 then
           (let pkgName = toLower (ss ! (l - 1)) in
            if isVersionNum pkgName \<or> pkgName = ''pb'' \<or> length pkgName < 2
            then (if pkgName = [] then None else Some (removeMiddleLine (ss ! (l - 2)) @ upperFirst pkgName))
            else Some (removeMiddleLine (ss ! (l - 1))))
         else Some [])"

definition getCutServiceName :: "string \<Rightarrow> string" where
  "getCutServiceName name =
     (if length name < length ''Service'' then name
      else let l = length name - length ''Service''
           in if drop l name = ''Service'' then (if take l name = [] then name else take l name) else name)"

definition getMethodComment :: "pmethod \<Rightarrow> string" where
  "getMethodComment m =
     (let symbol = ''// ''; commentPrefix = symbol @ mGoName m @ '' ''; comment0 = mLeading m
      in if hasPrefix comment0 symbol then
           (let comment = (if last comment0 = CHR 0x0A then butlast comment0 else comment0)
            in if length comment \<ge> 3 then
                 (if length (drop 3 comment) > length (mGoName m)
                     \<and> toLower (take (length (mGoName m) + 1) (drop 3 comment)) = toLower (mGoName m @ '' '')
                  then commentPrefix @ drop (3 + length (mGoName m) + 1) comment
                  else commentPrefix @ drop 3 comment)
               else commentPrefix @ ''......'')
         else commentPrefix @ ''......'')"

definition getFieldCommentStr :: "string \<Rightarrow> string" where
  "getFieldCommentStr comment = (if length comment > 2 \<and> last comment = CHR 0x0A then butlast comment else comment)"

definition getFieldComment :: "commentSet \<Rightarrow> string" where
  "getFieldComment cs =
     (let comment1 = getFieldCommentStr (Leading cs); comment2 = getFieldCommentStr (Trailing cs)
      in if comment1 = [] then comment2 else comment1 @ '' '' @ comment2)"

definition getInvokeType :: "bool \<Rightarrow> bool \<Rightarrow> nat" where
  "getInvokeType isStreamingClient isStreamingServer =
     (if isStreamingClient then (if isStreamingServer then 3 else 1) else if isStreamingServer then 2 else 0)"

section \<open>HTTP rules\<close>

type_synonym counter = "string \<Rightarrow> nat"

record RPCMethod =
  rpcName :: string
  rpcNum :: nat
  rpcRequest :: string
  rpcReply :: string
  rpcInvokeType :: nat
  rpcPath :: string
  rpcMethod :: string
  rpcBody :: string
  rpcResponseBody :: string
  rpcCustomKind :: string
  rpcSelector :: string
  IsPassGinContext :: bool
  IsIgnoreShouldBind :: bool
  RequestImportPkgName :: string
  ReplyImportPkgName :: string
  ProtoSelfPkgPath :: string
  ImportPkgPaths :: "string list"

definition HandlerName :: "RPCMethod \<Rightarrow> string" where
  "HandlerName m = rpcName m @ ''_'' @ dec (rpcNum m)"

definition braced :: "string \<Rightarrow> bool" where
  "braced p \<longleftrightarrow> p \<noteq> [] \<and> hd p = CHR ''{'' \<and> last p = CHR ''}''"

definition HasPathParams :: "RPCMethod \<Rightarrow> bool" where
  "HasPathParams m = list_ex (\<lambda>p. p \<noteq> [] \<and> (braced p \<or> hd p = CHR '':'')) (splitOn (CHR ''/'') (rpcPath m))"

fun indexOf :: "char \<Rightarrow> string \<Rightarrow> nat option" where
  "indexOf c [] = None"
| "indexOf c (d # s) = (if d = c then Some 0 else map_option Suc (indexOf c s))"

definition lastIndexOf :: "char \<Rightarrow> string \<Rightarrow> nat option" where
  "lastIndexOf c s = map_option (\<lambda>i. length s - 1 - i) (indexOf c (rev s))"

definition parseVariable :: "string \<Rightarrow> (string \<times> bool \<times> bool) option" where
  "parseVariable str0 =
     (let str = replaceByte (CHR '' '') [] str0 in
      case (indexOf (CHR ''['') str, lastIndexOf (CHR '']'') str) of
        (Some startIdx, Some endIdx) \<Rightarrow>
          (if startIdx + 1 > endIdx then None
           else let ss = splitOn (CHR '','') (take (endIdx - (startIdx + 1)) (drop (startIdx + 1) str))
                in Some (take startIdx str, list_ex (\<lambda>s. s = ''ctx'' \<or> s = ''no_bind'') ss, list_ex (\<lambda>s. s = ''no_bind'') ss))
      | _ \<Rightarrow> Some (str, False, False))"

definition kindMethod :: "string \<Rightarrow> string" where
  "kindMethod k =
     (if k = ''get'' then ''GET'' else if k = ''post'' then ''POST'' else if k = ''put'' then ''PUT''
      else if k = ''delete'' then ''DELETE'' else if k = ''patch'' then ''PATCH'' else if k = ''options'' then ''OPTIONS''
      else if k = ''head'' then ''HEAD'' else if k = ''trace'' then ''TRACE'' else if k = ''connect'' then ''CONNECT'' else ''POST'')"

definition checkCustomKind :: "RPCMethod \<Rightarrow> RPCMethod option" where
  "checkCustomKind m =
     (if rpcCustomKind m = [] then Some m
      else case parseVariable (rpcCustomKind m) of None \<Rightarrow> None
        | Some (k, ctx, nobind) \<Rightarrow> Some (m\<lparr>IsPassGinContext := ctx, IsIgnoreShouldBind := nobind, rpcMethod := kindMethod k\<rparr>))"

definition checkSelector :: "RPCMethod \<Rightarrow> RPCMethod option" where
  "checkSelector m = (case parseVariable (rpcSelector m) of None \<Rightarrow> None
     | Some (k, ctx, nobind) \<Rightarrow> Some (m\<lparr>IsPassGinContext := ctx, IsIgnoreShouldBind := nobind\<rparr>))"

definition pathParam :: "string \<Rightarrow> string" where
  "pathParam p = (if braced p then CHR '':'' # butlast (tl p) else p)"

definition InitPathParams :: "RPCMethod \<Rightarrow> RPCMethod" where
  "InitPathParams m = m\<lparr>rpcPath := joinWith ''/'' (map pathParam (splitOn (CHR ''/'') (rpcPath m)))\<rparr>"

text \<open>The import of a message: the qualifier, \<open>None\<close> after a panic, and the path if it is not the own one.\<close>

definition importOf :: "string \<Rightarrow> string \<Rightarrow> (string \<times> string list) option" where
  "importOf path self =
     (if path = self then Some ([], []) else case convertToPkgName path of None \<Rightarrow> None | Some n \<Rightarrow> Some (n @ ''.'', [path]))"

definition buildMethodDesc :: "pmethod \<Rightarrow> string \<Rightarrow> string \<Rightarrow> string \<Rightarrow> string \<Rightarrow> string \<Rightarrow> counter \<Rightarrow> (RPCMethod \<times> counter) option" where
  "buildMethodDesc m httpMethod path customKind selector protoSelfPkgPath methodSets =
     (case (importOf (GoImportPath (msgIdent (mInput m))) protoSelfPkgPath, importOf (GoImportPath (msgIdent (mOutput m))) protoSelfPkgPath) of
        (Some (req, ps), Some (rep, qs)) \<Rightarrow>
          (let md = \<lparr>rpcName = mGoName m, rpcNum = methodSets (mGoName m), rpcRequest = GoName (msgIdent (mInput m)),
                rpcReply = GoName (msgIdent (mOutput m)), rpcInvokeType = getInvokeType (mStreamingClient m) (mStreamingServer m),
                rpcPath = path, rpcMethod = httpMethod, rpcBody = [], rpcResponseBody = [], rpcCustomKind = customKind, rpcSelector = selector,
                IsPassGinContext = False, IsIgnoreShouldBind = False, RequestImportPkgName = req, ReplyImportPkgName = rep,
                ProtoSelfPkgPath = protoSelfPkgPath, ImportPkgPaths = remdups (ps @ qs)\<rparr>
           in Option.bind (checkCustomKind md) (\<lambda>md1. Option.bind (checkSelector md1) (\<lambda>md2.
                Some (InitPathParams md2, methodSets(mGoName m := methodSets (mGoName m) + 1)))))
      | _ \<Rightarrow> None)"

fun patternParts :: "httpPattern \<Rightarrow> string \<times> string \<times> string" where
  "patternParts NoPattern = ([], [], [])"
| "patternParts (PatGet p) = (p, ''GET'', [])"
| "patternParts (PatPut p) = (p, ''PUT'', [])"
| "patternParts (PatPost p) = (p, ''POST'', [])"
| "patternParts (PatDelete p) = (p, ''DELETE'', [])"
| "patternParts (PatPatch p) = (p, ''PATCH'', [])"
| "patternParts (PatCustom k p) = (p, ''POST'', toLower k)"

definition buildHTTPRule :: "pmethod \<Rightarrow> httpRule \<Rightarrow> string \<Rightarrow> counter \<Rightarrow> (RPCMethod \<times> counter) option" where
  "buildHTTPRule m rule protoSelfPkgPath methodSets = (case rule of HttpRule selector pattern binds \<Rightarrow>
     (case patternParts pattern of (path, method, customKind) \<Rightarrow>
        buildMethodDesc m method path customKind selector protoSelfPkgPath methodSets))"

fun buildRules :: "pmethod \<Rightarrow> httpRule list \<Rightarrow> string \<Rightarrow> counter \<Rightarrow> (RPCMethod list \<times> counter) option" where
  "buildRules m [] self cnt = Some ([], cnt)"
| "buildRules m (r # rs) self cnt = Option.bind (buildHTTPRule m r self cnt) (\<lambda>(md, cnt1).
     Option.bind (buildRules m rs self cnt1) (\<lambda>(mds, cnt2). Some (md # mds, cnt2)))"

definition GetMethods :: "pmethod \<Rightarrow> string \<Rightarrow> counter \<Rightarrow> (RPCMethod list \<times> counter) option" where
  "GetMethods m self cnt = (case mRule m of
       None \<Rightarrow> Some ([], cnt)
     | Some rule \<Rightarrow> (case rule of HttpRule sel pat binds \<Rightarrow> buildRules m (binds @ [rule]) self cnt))"

section \<open>Services of the router\<close>

record HTTPPbService =
  hsName :: string
  hsLowerName :: string
  hsMethods :: "RPCMethod list"
  hsUniqueMethods :: "RPCMethod list"
  hsImportPkgMap :: "(string \<times> string) list"

fun uniqueFrom :: "string list \<Rightarrow> RPCMethod list \<Rightarrow> RPCMethod list" where
  "uniqueFrom seen [] = []"
| "uniqueFrom seen (m # ms) = (if rpcName m \<in> set seen then uniqueFrom seen ms else m # uniqueFrom (rpcName m # seen) ms)"

definition removeDuplicates :: "RPCMethod list \<Rightarrow> RPCMethod list" where
  "removeDuplicates methods = uniqueFrom [] methods"

fun addImports :: "string list \<Rightarrow> (string \<times> string) list \<Rightarrow> (string \<times> string) list option" where
  "addImports [] pkgMap = Some pkgMap"
| "addImports (p # ps) pkgMap = Option.bind (convertToPkgName p) (\<lambda>n. addImports ps (AList.update n (n @ '' '' @ p) pkgMap))"

fun httpMethods :: "(string list \<Rightarrow> string list) \<Rightarrow> string \<Rightarrow> pmethod list \<Rightarrow> (string \<times> string) list \<Rightarrow> counter
    \<Rightarrow> (RPCMethod list \<times> (string \<times> string) list \<times> counter) option" where
  "httpMethods ord self [] pkgMap cnt = Some ([], pkgMap, cnt)"
| "httpMethods ord self (m # ms) pkgMap cnt = Option.bind (GetMethods m self cnt) (\<lambda>(mds, cnt1).
     Option.bind (addImports (concat (map (\<lambda>d. ord (ImportPkgPaths d)) mds)) pkgMap) (\<lambda>pkgMap1.
     Option.bind (httpMethods ord self ms pkgMap1 cnt1) (\<lambda>(rest, pkgMap2, cnt2). Some (mds @ rest, pkgMap2, cnt2))))"

fun httpServices :: "(string list \<Rightarrow> string list) \<Rightarrow> string \<Rightarrow> pservice list \<Rightarrow> counter \<Rightarrow> (HTTPPbService list \<times> counter) option" where
  "httpServices ord self [] cnt = Some ([], cnt)"
| "httpServices ord self (s # ss) cnt = Option.bind (httpMethods ord self (sMethods s) [] cnt) (\<lambda>(methods, pkgMap, cnt1).
     Option.bind (httpServices ord self ss cnt1) (\<lambda>(rest, cnt2).
       Some (\<lparr>hsName = sGoName s, hsLowerName = lowerFirst (sGoName s), hsMethods = methods,
              hsUniqueMethods = removeDuplicates methods, hsImportPkgMap = pkgMap\<rparr> # rest, cnt2)))"

definition ParseHTTPPbServices :: "(string list \<Rightarrow> string list) \<Rightarrow> pfile \<Rightarrow> counter \<Rightarrow> (HTTPPbService list \<times> counter) option" where
  "ParseHTTPPbServices ord file cnt = httpServices ord (pfImportPath file) (pfServices file) cnt"

definition mergeMaps :: "(string \<times> string) list list \<Rightarrow> (string \<times> string) list" where
  "mergeMaps maps = foldl (\<lambda>m kv. AList.update (fst kv) (snd kv) m) [] (concat maps)"

definition MergeImportPkgPath :: "(string list \<Rightarrow> string list) \<Rightarrow> HTTPPbService list \<Rightarrow> string" where
  "MergeImportPkgPath ord services = joinWith [CHR 0x0A, CHR 0x09] (ord (map snd (mergeMaps (map hsImportPkgMap services))))"

section \<open>Services of the handlers\<close>

record ginField =
  gfName :: string
  gfType :: string
  gfComment :: string

definition ginZero :: "string \<Rightarrow> string" where
  "ginZero t =
     (if t = ''string'' then [CHR 0x22, CHR 0x22]
      else if t \<in> set [''int32'', ''int64'', ''uint32'', ''uint64'', ''sint32'', ''sint64'', ''fixed32'', ''fixed64'', ''sfixed32'', ''sfixed64''] then ''0''
      else if t = ''bool'' then ''false''
      else if t \<in> set [''float'', ''double''] then ''0.0''
      else ''nil'')"

definition getFields :: "message \<Rightarrow> ginField list" where
  "getFields m = map (\<lambda>f. case f of PField d sub \<Rightarrow>
     \<lparr>gfName = fdName d, gfType = (if fdRepeated d then ''[]'' @ kindString (fdKind d) else kindString (fdKind d)),
      gfComment = getFieldComment (fdComments d)\<rparr>) (msgFields m)"

record 'f ServiceMethod =
  smMethodName :: string
  smRequest :: string
  smReply :: string
  smRequestFields :: "'f list"
  smReplyFields :: "'f list"
  smComment :: string
  smInvokeType :: nat
  smServiceName :: string
  smLowerServiceName :: string
  smLowerCutServiceName :: string
  smPath :: string
  smMethod :: string
  smBody :: string
  smIsPassGinContext :: bool
  smIsIgnoreShouldBind :: bool
  smRequestImportPkgName :: string
  smReplyImportPkgName :: string
  smProtoPkgName :: string

record 'f PbService =
  pbName :: string
  pbLowerName :: string
  pbMethods :: "'f ServiceMethod list"
  pbCutServiceName :: string
  pbLowerCutServiceName :: string
  pbImportPkgMap :: "(string \<times> string) list"
  pbProtoFileDir :: string
  pbProtoPkgName :: string
  pbModuleName :: string

definition addImport :: "string \<Rightarrow> string \<Rightarrow> (string \<times> string) list \<Rightarrow> (string \<times> string) list" where
  "addImport name path m = (if name = [] then m else AList.update name (name @ '' '' @ path) m)"

text \<open>The loop of \<open>parsePbService\<close>; \<open>fieldsOf\<close> reads the fields of a message and may add to the imports of fields.\<close>

fun serviceMethods :: "(message \<Rightarrow> (string \<times> string) list \<Rightarrow> ('f list \<times> (string \<times> string) list) option) \<Rightarrow> string \<Rightarrow> string \<Rightarrow> pmethod list
    \<Rightarrow> (string \<times> string) list \<Rightarrow> (string \<times> string) list \<Rightarrow> counter \<Rightarrow> ('f ServiceMethod list \<times> (string \<times> string) list \<times> (string \<times> string) list \<times> counter) option" where
  "serviceMethods fieldsOf goName protoPkgName [] pkgMap fieldMap cnt = Some ([], pkgMap, fieldMap, cnt)"
| "serviceMethods fieldsOf goName protoPkgName (m # ms) pkgMap fieldMap cnt =
     Option.bind (case mRule m of None \<Rightarrow> Some (None, cnt) | Some rule \<Rightarrow> map_option (\<lambda>(md, c). (Some md, c)) (buildHTTPRule m rule protoPkgName cnt)) (\<lambda>(rpc, cnt1).
     Option.bind (convertToPkgName (GoImportPath (msgIdent (mInput m)))) (\<lambda>req.
     Option.bind (convertToPkgName (GoImportPath (msgIdent (mOutput m)))) (\<lambda>rep.
     Option.bind (fieldsOf (mInput m) fieldMap) (\<lambda>(reqFields, fieldMap1).
     Option.bind (fieldsOf (mOutput m) fieldMap1) (\<lambda>(repFields, fieldMap2).
       let pkgMap1 = addImport rep (GoImportPath (msgIdent (mOutput m))) (addImport req (GoImportPath (msgIdent (mInput m))) pkgMap);
           of_rpc = (\<lambda>sel. case rpc of None \<Rightarrow> [] | Some md \<Rightarrow> sel md);
           flag = (\<lambda>sel. case rpc of None \<Rightarrow> False | Some md \<Rightarrow> sel md)
       in Option.bind (serviceMethods fieldsOf goName protoPkgName ms pkgMap1 fieldMap2 cnt1) (\<lambda>(rest, pkgMap2, fieldMap3, cnt2).
            Some (\<lparr>smMethodName = mGoName m, smRequest = GoName (msgIdent (mInput m)), smReply = GoName (msgIdent (mOutput m)),
              smRequestFields = reqFields, smReplyFields = repFields, smComment = getMethodComment m,
              smInvokeType = getInvokeType (mStreamingClient m) (mStreamingServer m), smServiceName = goName,
              smLowerServiceName = lowerFirst goName, smLowerCutServiceName = lowerFirst (getCutServiceName goName),
              smPath = of_rpc rpcPath, smMethod = of_rpc rpcMethod, smBody = of_rpc rpcBody,
              smIsPassGinContext = flag IsPassGinContext, smIsIgnoreShouldBind = flag IsIgnoreShouldBind,
              smRequestImportPkgName = req, smReplyImportPkgName = rep, smProtoPkgName = protoPkgName\<rparr> # rest, pkgMap2, fieldMap3, cnt2)))))))"

definition pbServiceOf :: "pservice \<Rightarrow> string \<Rightarrow> string \<Rightarrow> string \<Rightarrow> 'f ServiceMethod list \<Rightarrow> (string \<times> string) list \<Rightarrow> 'f PbService" where
  "pbServiceOf s protoFileDir protoPkgName moduleName methods pkgMap =
     \<lparr>pbName = sGoName s, pbLowerName = lowerFirst (sGoName s), pbMethods = methods, pbCutServiceName = getCutServiceName (sGoName s),
      pbLowerCutServiceName = lowerFirst (getCutServiceName (sGoName s)), pbImportPkgMap = pkgMap, pbProtoFileDir = protoFileDir,
      pbProtoPkgName = protoPkgName, pbModuleName = moduleName\<rparr>"

definition parsePbService :: "pservice \<Rightarrow> string \<Rightarrow> string \<Rightarrow> counter \<Rightarrow> (ginField PbService \<times> counter) option" where
  "parsePbService s protoFileDir moduleName cnt =
     Option.bind (convertToPkgName protoFileDir) (\<lambda>protoPkgName.
     Option.bind (serviceMethods (\<lambda>m fm. Some (getFields m, fm)) (sGoName s) protoPkgName (sMethods s) [] [] cnt) (\<lambda>(methods, pkgMap, fm, cnt1).
       Some (pbServiceOf s protoFileDir protoPkgName moduleName methods pkgMap, cnt1)))"

definition getProtoFileDir :: "string \<Rightarrow> string" where
  "getProtoFileDir protoPath = (let ss = splitOn (CHR ''/'') protoPath in if length ss > 1 then joinWith ''/'' (butlast ss) else [])"

fun parseServices :: "(pservice \<Rightarrow> counter \<Rightarrow> ('s \<times> counter) option) \<Rightarrow> pservice list \<Rightarrow> counter \<Rightarrow> ('s list \<times> counter) option" where
  "parseServices parse1 [] cnt = Some ([], cnt)"
| "parseServices parse1 (s # ss) cnt = Option.bind (parse1 s cnt) (\<lambda>(p, cnt1).
     Option.bind (parseServices parse1 ss cnt1) (\<lambda>(ps, cnt2). Some (p # ps, cnt2)))"

definition GetServices :: "pfile \<Rightarrow> string \<Rightarrow> counter \<Rightarrow> (ginField PbService list \<times> counter) option" where
  "GetServices file moduleName cnt =
     parseServices (\<lambda>s. parsePbService s (getProtoFileDir (pfPrefix file)) moduleName) (pfServices file) cnt"

text \<open>The directory and module of the last service that imports something.\<close>

definition lastImporting :: "'f PbService list \<Rightarrow> string \<times> string" where
  "lastImporting services = (case filter (\<lambda>s. pbImportPkgMap s \<noteq> []) services of
       [] \<Rightarrow> ([], []) | l \<Rightarrow> (pbProtoFileDir (last l), pbModuleName (last l)))"

definition selfImport :: "string \<Rightarrow> string \<Rightarrow> string \<Rightarrow> string" where
  "selfImport pkgName moduleName protoFileDir = pkgName @ '' '' @ [CHR 0x22] @ moduleName @ ''/'' @ protoFileDir @ [CHR 0x22]"

definition GetImportPkg :: "(string list \<Rightarrow> string list) \<Rightarrow> 'f PbService list \<Rightarrow> string option" where
  "GetImportPkg ord services =
     (let pkgMap = mergeMaps (map pbImportPkgMap services); (dir, moduleName) = lastImporting services
      in Option.bind (convertToPkgName dir) (\<lambda>pkgName.
           let pkgMap1 = (if map_of pkgMap pkgName = None then pkgMap else AList.update pkgName (selfImport pkgName moduleName dir) pkgMap)
           in Some (joinWith [CHR 0x0A, CHR 0x09] (ord (map snd pkgMap1)))))"

definition GetSourceImportPkg :: "'f PbService list \<Rightarrow> string option" where
  "GetSourceImportPkg services = (let (dir, moduleName) = lastImporting services
     in map_option (\<lambda>pkgName. selfImport pkgName moduleName dir) (convertToPkgName dir))"

section \<open>The plugin for JSON fields\<close>

record jsonField =
  jfName :: string
  jfGoType :: string
  jfGoTypeCrossPkg :: string
  jfComment :: string
  jfFieldType :: string
  jfIsList :: bool
  jfIsMap :: bool
  jfImportPkgName :: string
  jfImportPkgPath :: string

record fieldPkgInfo =
  fpFieldType :: string
  fpImportPkgPath :: string
  fpImportPkgName :: string
  fpGoType :: string
  fpGoTypeCrossPkg :: string

definition newFieldPkgInfo :: "goIdent \<Rightarrow> (string \<times> string) list \<Rightarrow> (fieldPkgInfo \<times> (string \<times> string) list) option" where
  "newFieldPkgInfo ident importPkgMap = Option.bind (convertToPkgName (GoImportPath ident)) (\<lambda>name.
     Some (\<lparr>fpFieldType = GoName ident, fpImportPkgPath = GoImportPath ident, fpImportPkgName = name, fpGoType = ''*'' @ GoName ident,
            fpGoTypeCrossPkg = ''*'' @ name @ ''.'' @ GoName ident\<rparr>, addImport name (GoImportPath ident) importPkgMap))"

fun toGoType :: "kind \<Rightarrow> string" where
  "toGoType BoolKind = ''bool''"
| "toGoType EnumKind = ''int32''"
| "toGoType Int32Kind = ''int32''"
| "toGoType Sint32Kind = ''int32''"
| "toGoType Uint32Kind = ''uint32''"
| "toGoType Int64Kind = ''int64''"
| "toGoType Sint64Kind = ''int64''"
| "toGoType Uint64Kind = ''uint64''"
| "toGoType Sfixed32Kind = ''int32''"
| "toGoType Fixed32Kind = ''uint32''"
| "toGoType FloatKind = ''float32''"
| "toGoType Sfixed64Kind = ''int64''"
| "toGoType Fixed64Kind = ''uint64''"
| "toGoType DoubleKind = ''float64''"
| "toGoType StringKind = ''string''"
| "toGoType BytesKind = ''[]byte''"
| "toGoType k = ''unsported('' @ kindString k @ '')''"

text \<open>The loop over the fields of a map entry: the last one with a message decides.\<close>

fun mapEntry :: "string \<Rightarrow> pfield list \<Rightarrow> fieldPkgInfo option \<Rightarrow> (string \<times> string) list \<Rightarrow> (fieldPkgInfo option \<times> (string \<times> string) list) option" where
  "mapEntry keyType [] found imps = Some (found, imps)"
| "mapEntry keyType (PField d sub # fs) found imps = (case sub of
       None \<Rightarrow> mapEntry keyType fs found imps
     | Some msg \<Rightarrow> Option.bind (newFieldPkgInfo (msgIdent msg) imps) (\<lambda>(fpi, imps1). mapEntry keyType fs (Some fpi) imps1))"

definition jsonFieldOf :: "pfield \<Rightarrow> (string \<times> string) list \<Rightarrow> (jsonField \<times> (string \<times> string) list) option" where
  "jsonFieldOf f imps = (case f of PField d sub \<Rightarrow>
     (let isMap = fdIsMap d; isList = (fdRepeated d \<and> \<not> isMap);
          mk = (\<lambda>goType cross fieldType pkgName pkgPath. \<lparr>jfName = fdName d, jfGoType = goType, jfGoTypeCrossPkg = cross,
             jfComment = getFieldComment (fdComments d), jfFieldType = fieldType, jfIsList = isList, jfIsMap = isMap,
             jfImportPkgName = pkgName, jfImportPkgPath = pkgPath\<rparr>);
          list_of = (\<lambda>t. if isList then ''[]'' @ t else t);
          key = ''map['' @ toGoType (fdMapKey d) @ '']''
      in case sub of
           None \<Rightarrow> Some (mk (list_of (toGoType (fdKind d))) (list_of (toGoType (fdKind d))) (kindString (fdKind d)) [] [], imps)
         | Some msg \<Rightarrow> Option.bind (newFieldPkgInfo (msgIdent msg) imps) (\<lambda>(fpi, imps1).
             if isMap then
               (if fdMapValue d = MessageKind then
                  Option.bind (mapEntry key (msgFields msg) None imps1) (\<lambda>(found, imps2). Some (case found of
                      None \<Rightarrow> mk [] [] [] [] []
                    | Some fp \<Rightarrow> mk (key @ fpGoType fp) (key @ fpGoTypeCrossPkg fp) (fpFieldType fp) (fpImportPkgName fp) (fpImportPkgPath fp), imps2))
                else Some (mk (key @ toGoType (fdMapValue d)) (key @ toGoType (fdMapValue d)) [] [] [], imps1))
             else Some (mk (list_of (fpGoType fpi)) (list_of (fpGoTypeCrossPkg fpi)) (fpFieldType fpi) (fpImportPkgName fpi) (fpImportPkgPath fpi), imps1))))"

fun jsonFields :: "pfield list \<Rightarrow> (string \<times> string) list \<Rightarrow> (jsonField list \<times> (string \<times> string) list) option" where
  "jsonFields [] imps = Some ([], imps)"
| "jsonFields (f # fs) imps = Option.bind (jsonFieldOf f imps) (\<lambda>(j, imps1). Option.bind (jsonFields fs imps1) (\<lambda>(js, imps2). Some (j # js, imps2)))"

definition jsonGetFields :: "message \<Rightarrow> (string \<times> string) list \<Rightarrow> (jsonField list \<times> (string \<times> string) list) option" where
  "jsonGetFields m imps = jsonFields (msgFields m) imps"

definition jsonParsePbService :: "pservice \<Rightarrow> string \<Rightarrow> counter \<Rightarrow> ((jsonField PbService \<times> (string \<times> string) list) \<times> counter) option" where
  "jsonParsePbService s protoFileDir cnt =
     Option.bind (convertToPkgName protoFileDir) (\<lambda>protoPkgName.
     Option.bind (serviceMethods jsonGetFields (sGoName s) protoPkgName (sMethods s) [] [] cnt) (\<lambda>(methods, pkgMap, fieldMap, cnt1).
       Some ((pbServiceOf s protoFileDir protoPkgName [] methods pkgMap, fieldMap), cnt1)))"

definition GetProtoFileDir :: "string \<Rightarrow> string" where
  "GetProtoFileDir protoPath = (let ss = splitOn (CHR ''/'') protoPath in if length ss > 1 then joinWith ''/'' (butlast ss) else protoPath)"

definition jsonGetServices :: "pfile \<Rightarrow> counter \<Rightarrow> ((jsonField PbService \<times> (string \<times> string) list) list \<times> counter) option" where
  "jsonGetServices file cnt =
     parseServices (\<lambda>s. jsonParsePbService s (GetProtoFileDir (pfPrefix file))) (pfServices file) cnt"

section \<open>The plugin for service templates\<close>

record rpcServiceMethod =
  rmMethodName :: string
  rmRequest :: string
  rmRequestFields :: "ginField list"
  rmReply :: string
  rmReplyFields :: "ginField list"
  rmComment :: string
  rmInvokeType :: nat
  rmServiceName :: string
  rmLowerServiceName :: string
  rmRequestImportPkgName :: string
  rmReplyImportPkgName :: string
  rmProtoPkgName :: string

record rpcPbService =
  rsName :: string
  rsLowerName :: string
  rsProtoName :: string
  rsMethods :: "rpcServiceMethod list"
  rsImportPkgMap :: "(string \<times> string) list"
  rsProtoFileDir :: string
  rsProtoPkgName :: string
  rsModuleName :: string

fun rpcMethods :: "string \<Rightarrow> string \<Rightarrow> pmethod list \<Rightarrow> (string \<times> string) list \<Rightarrow> (rpcServiceMethod list \<times> (string \<times> string) list) option" where
  "rpcMethods goName protoPkgName [] pkgMap = Some ([], pkgMap)"
| "rpcMethods goName protoPkgName (m # ms) pkgMap =
     Option.bind (convertToPkgName (GoImportPath (msgIdent (mInput m)))) (\<lambda>req.
     Option.bind (convertToPkgName (GoImportPath (msgIdent (mOutput m)))) (\<lambda>rep.
     Option.bind (rpcMethods goName protoPkgName ms
         (addImport rep (GoImportPath (msgIdent (mOutput m))) (addImport req (GoImportPath (msgIdent (mInput m))) pkgMap))) (\<lambda>(rest, pkgMap1).
       Some (\<lparr>rmMethodName = mGoName m, rmRequest = GoName (msgIdent (mInput m)), rmRequestFields = getFields (mInput m),
         rmReply = GoName (msgIdent (mOutput m)), rmReplyFields = getFields (mOutput m), rmComment = getMethodComment m,
         rmInvokeType = getInvokeType (mStreamingClient m) (mStreamingServer m), rmServiceName = goName,
         rmLowerServiceName = lowerFirst goName, rmRequestImportPkgName = req, rmReplyImportPkgName = rep,
         rmProtoPkgName = protoPkgName\<rparr> # rest, pkgMap1))))"

definition rpcParsePbService :: "pservice \<Rightarrow> string \<Rightarrow> string \<Rightarrow> rpcPbService option" where
  "rpcParsePbService s protoFileDir moduleName = Option.bind (convertToPkgName protoFileDir) (\<lambda>protoPkgName.
     Option.bind (rpcMethods (sGoName s) protoPkgName (sMethods s) []) (\<lambda>(methods, pkgMap).
       Some \<lparr>rsName = sGoName s, rsLowerName = lowerFirst (sGoName s), rsProtoName = [], rsMethods = methods, rsImportPkgMap = pkgMap,
         rsProtoFileDir = protoFileDir, rsProtoPkgName = protoPkgName, rsModuleName = moduleName\<rparr>))"

definition getProtoFilename :: "bool \<Rightarrow> string \<Rightarrow> string" where
  "getProtoFilename windows filenamePrefix =
     (let p1 = goReplaceAll filenamePrefix ''.proto'' [];
          p2 = goReplaceAll p1 (if windows then [CHR 0x5C] else ''/'') ''/''
      in last (splitOn (CHR ''/'') p2) @ ''.proto'')"

definition rpcGetServices :: "bool \<Rightarrow> pfile \<Rightarrow> string \<Rightarrow> rpcPbService list option" where
  "rpcGetServices windows file moduleName = those (map (\<lambda>s. map_option (\<lambda>ps. ps\<lparr>rsProtoName := getProtoFilename windows (pfPrefix file)\<rparr>)
     (rpcParsePbService s (getProtoFileDir (pfPrefix file)) moduleName)) (pfServices file))"

definition rpcLastImporting :: "rpcPbService list \<Rightarrow> string \<times> string" where
  "rpcLastImporting services = (case filter (\<lambda>s. rsImportPkgMap s \<noteq> []) services of
       [] \<Rightarrow> ([], []) | l \<Rightarrow> (rsProtoFileDir (last l), rsModuleName (last l)))"

definition rpcGetImportPkg :: "(string list \<Rightarrow> string list) \<Rightarrow> rpcPbService list \<Rightarrow> string option" where
  "rpcGetImportPkg ord services =
     (let pkgMap = mergeMaps (map rsImportPkgMap services); (dir, moduleName) = rpcLastImporting services
      in Option.bind (convertToPkgName dir) (\<lambda>pkgName.
           let pkgMap1 = (if map_of pkgMap pkgName = None then AList.update pkgName (selfImport pkgName moduleName dir) pkgMap else pkgMap)
           in Some (joinWith [CHR 0x0A, CHR 0x09] (ord (map snd pkgMap1)))))"

definition rpcGetSourceImportPkg :: "rpcPbService list \<Rightarrow> string option" where
  "rpcGetSourceImportPkg services =
     (let pkgMap = mergeMaps (map rsImportPkgMap services); (dir, moduleName) = rpcLastImporting services
      in Option.bind (convertToPkgName dir) (\<lambda>pkgName. Some (case map_of pkgMap pkgName of
             Some v \<Rightarrow> v | None \<Rightarrow> selfImport pkgName moduleName dir)))"

section \<open>Handlers\<close>

text \<open>The files of a run share the counter.\<close>

fun parseFiles :: "(string list \<Rightarrow> string list) \<Rightarrow> pfile list \<Rightarrow> counter \<Rightarrow> (HTTPPbService list \<times> counter) option" where
  "parseFiles ord [] cnt = Some ([], cnt)"
| "parseFiles ord (f # fs) cnt = Option.bind (ParseHTTPPbServices ord f cnt) (\<lambda>(ss, cnt1).
     Option.bind (parseFiles ord fs cnt1) (\<lambda>(rest, cnt2). Some (ss @ rest, cnt2)))"

definition handlerKey :: "RPCMethod \<Rightarrow> string \<times> nat" where
  "handlerKey m = (rpcName m, rpcNum m)"

text \<open>Methods with different keys, numbered between two states of the counter.\<close>

definition numbered :: "counter \<Rightarrow> RPCMethod list \<Rightarrow> counter \<Rightarrow> bool" where
  "numbered c ms d \<longleftrightarrow> distinct (map handlerKey ms) \<and> (\<forall>n. c n \<le> d n) \<and> (\<forall>m\<in>set ms. c (rpcName m) \<le> rpcNum m \<and> rpcNum m < d (rpcName m))"

lemma numbered_Nil [simp]: "numbered c [] c"
  by (simp add: numbered_def)

lemma numbered_append: "numbered c xs d \<Longrightarrow> numbered d ys e \<Longrightarrow> numbered c (xs @ ys) e"
proof -
  assume x: "numbered c xs d" and y: "numbered d ys e"
  have "handlerKey m \<noteq> handlerKey n" if "m \<in> set xs" "n \<in> set ys" for m n
    using that x y unfolding numbered_def handlerKey_def by force
  then have "handlerKey ` set xs \<inter> handlerKey ` set ys = {}" by blast
  then have "distinct (map handlerKey (xs @ ys))" using x y unfolding numbered_def by simp
  moreover have "c n \<le> d n" "d n \<le> e n" for n using x y unfolding numbered_def by auto
  then have "c n \<le> e n" "k < d n \<Longrightarrow> k < e n" "d n \<le> k \<Longrightarrow> c n \<le> k" for k n
    by (meson le_trans less_le_trans)+
  ultimately show "numbered c (xs @ ys) e" using x y unfolding numbered_def by (simp add: ball_Un)
qed

lemma built_fields:
  assumes "buildMethodDesc m meth path kind sel self c = Some (md, d)"
  shows "rpcName md = mGoName m" "rpcNum md = c (mGoName m)" "d = c(mGoName m := c (mGoName m) + 1)"
    "rpcPath md = joinWith ''/'' (map pathParam (splitOn (CHR ''/'') path))"
    "\<exists>k. parseVariable sel = Some (k, IsPassGinContext md, IsIgnoreShouldBind md)"
    "if kind = [] then rpcMethod md = meth else \<exists>k f. parseVariable kind = Some (k, f) \<and> rpcMethod md = kindMethod k"
  using assms
  by (auto simp: buildMethodDesc_def Let_def bind_eq_Some_conv checkCustomKind_def checkSelector_def InitPathParams_def
    split: option.splits prod.splits if_splits)

lemma numbered_rule: "buildHTTPRule m r self c = Some (md, d) \<Longrightarrow> numbered c [md] d"
proof -
  assume "buildHTTPRule m r self c = Some (md, d)"
  then obtain meth path kind sel where b: "buildMethodDesc m meth path kind sel self c = Some (md, d)"
    by (auto simp: buildHTTPRule_def split: httpRule.splits prod.splits)
  from built_fields(1-3) [OF b] show "numbered c [md] d" by (simp add: numbered_def)
qed

lemma numbered_rules: "buildRules m rs self c = Some (mds, d) \<Longrightarrow> numbered c mds d"
proof (induction rs arbitrary: c mds)
  case (Cons r rs)
  then obtain md c1 rest where "buildHTTPRule m r self c = Some (md, c1)" "buildRules m rs self c1 = Some (rest, d)" "mds = [md] @ rest"
    by (auto simp: bind_eq_Some_conv)
  then show ?case using Cons.IH numbered_rule numbered_append by metis
qed simp

lemma numbered_methods: "httpMethods ord self ms pm c = Some (mds, pm', d) \<Longrightarrow> numbered c mds d"
proof (induction ms arbitrary: c pm mds)
  case (Cons m ms)
  then obtain x c1 pm1 rest where "GetMethods m self c = Some (x, c1)" "httpMethods ord self ms pm1 c1 = Some (rest, pm', d)" "mds = x @ rest"
    by (auto simp: bind_eq_Some_conv)
  moreover from this have "numbered c x c1" by (auto simp: GetMethods_def numbered_rules split: option.splits httpRule.splits)
  ultimately show ?case using Cons.IH numbered_append by metis
qed simp

lemma numbered_services: "httpServices ord self ss c = Some (hs, d) \<Longrightarrow> numbered c (concat (map hsMethods hs)) d"
proof (induction ss arbitrary: c hs)
  case (Cons s ss)
  then obtain ms pm c1 h rest where "httpMethods ord self (sMethods s) [] c = Some (ms, pm, c1)" "httpServices ord self ss c1 = Some (rest, d)"
    "hs = h # rest" "hsMethods h = ms" by (auto simp: bind_eq_Some_conv)
  then show ?case using Cons.IH numbered_methods numbered_append by fastforce
qed simp

lemma numbered_files: "parseFiles ord fs c = Some (hs, d) \<Longrightarrow> numbered c (concat (map hsMethods hs)) d"
proof (induction fs arbitrary: c hs)
  case (Cons f fs)
  then obtain ss c1 rest where "httpServices ord (pfImportPath f) (pfServices f) c = Some (ss, c1)" "parseFiles ord fs c1 = Some (rest, d)"
    "hs = ss @ rest" by (auto simp: bind_eq_Some_conv ParseHTTPPbServices_def)
  then show ?case using Cons.IH numbered_services numbered_append by fastforce
qed simp

lemma HandlerName_inj: "HandlerName a = HandlerName b \<longleftrightarrow> handlerKey a = handlerKey b"
proof
  assume e: "HandlerName a = HandlerName b"
  have free: "CHR ''_'' \<notin> set (dec n)" for n using dec_all_digit [of "CHR ''_''" n] by (auto simp: digit_def)
  have num: "takeWhile (\<lambda>c. c \<noteq> CHR ''_'') (rev (HandlerName m)) = rev (dec (rpcNum m))" for m
    using free [of "rpcNum m"] by (subst HandlerName_def) (simp, subst takeWhile_append2, auto)
  from num [of a] num [of b] e have "rpcNum a = rpcNum b" by (metis dec_inject rev_rev_ident)
  with e show "handlerKey a = handlerKey b" by (simp add: HandlerName_def handlerKey_def)
qed (simp add: HandlerName_def handlerKey_def)

lemma uniqueFrom_names:
  "distinct (map rpcName (uniqueFrom seen ms)) \<and> rpcName ` set (uniqueFrom seen ms) = rpcName ` set ms - set seen \<and> subseq (uniqueFrom seen ms) ms"
proof (induction ms arbitrary: seen)
  case (Cons m ms)
  from Cons [of seen] Cons [of "rpcName m # seen"] show ?case by auto
qed simp

text \<open>Every service of a parsed file lists each of its method names once.\<close>

lemma unique_methods: "httpServices ord self ss c = Some (hs, d) \<Longrightarrow> h \<in> set hs \<Longrightarrow> hsUniqueMethods h = removeDuplicates (hsMethods h)"
  by (induction ss arbitrary: c hs) (auto simp: bind_eq_Some_conv)

lemma unique_methods_files: "parseFiles ord fs c = Some (hs, d) \<Longrightarrow> h \<in> set hs \<Longrightarrow> hsUniqueMethods h = removeDuplicates (hsMethods h)"
  by (induction fs arbitrary: c hs) (auto simp: bind_eq_Some_conv ParseHTTPPbServices_def unique_methods)

text \<open>
  C33: Handlers do not clash. In a run over any files, the names of the handlers generated for all HTTP
  rules of all services are different, although one method has a handler for each of its rules; and
  the interface of every service has each of its method names exactly once.
\<close>

theorem handler_names_unique:
  assumes "parseFiles ord files cnt = Some (services, cnt')"
  shows "distinct (map HandlerName (concat (map hsMethods services)))
    \<and> (\<forall>s\<in>set services. distinct (map rpcName (hsUniqueMethods s)) \<and> rpcName ` set (hsUniqueMethods s) = rpcName ` set (hsMethods s))"
proof -
  have "distinct (map handlerKey (concat (map hsMethods services)))"
    using numbered_files [OF assms] by (simp add: numbered_def)
  then have "distinct (map HandlerName (concat (map hsMethods services)))"
    by (auto simp: distinct_map inj_on_def HandlerName_inj)
  then show ?thesis
    using unique_methods_files [OF assms] uniqueFrom_names [of "[]"] by (auto simp: removeDuplicates_def)
qed

lemma pathParam_plain: "\<not> braced (pathParam p)"
  by (auto simp: pathParam_def braced_def)

lemma pathParam_idem [simp]: "pathParam (pathParam p) = pathParam p"
  using pathParam_plain [of p] by (simp add: pathParam_def [of "pathParam p"])

lemma pathParam_no_slash: "CHR ''/'' \<notin> set p \<Longrightarrow> CHR ''/'' \<notin> set (pathParam p)"
  by (cases p) (auto simp: pathParam_def dest: in_set_butlastD)

lemma path_segments: "splitOn (CHR ''/'') (joinWith ''/'' (map pathParam (splitOn (CHR ''/'') path))) = map pathParam (splitOn (CHR ''/'') path)"
  by (rule splitOn_joinWith) (use pathParam_no_slash splitOn_no_sep in fastforce)+

lemma pathParam_kept: "pathParam p \<noteq> [] \<and> (braced (pathParam p) \<or> hd (pathParam p) = CHR '':'') \<longleftrightarrow> p \<noteq> [] \<and> (braced p \<or> hd p = CHR '':'')"
  by (cases "braced p") (auto simp: pathParam_def braced_def)

text \<open>
  C34: What the handler of an HTTP rule is built from. Its verb is that of the pattern, or the one named
  by the kind of a custom pattern up to its options; its path is the path of the pattern with every
  segment in braces turned into a gin parameter, so that no segment in braces is left and
  converting again changes nothing; and the two flags are those of the selector alone, whatever
  options the custom kind has.
\<close>

theorem http_rule_method:
  assumes b: "buildHTTPRule m (HttpRule sel pat binds) self c = Some (md, d)" and p: "patternParts pat = (path, verb, kind)"
  shows "(if kind = [] then rpcMethod md = verb else \<exists>k f. parseVariable kind = Some (k, f) \<and> rpcMethod md = kindMethod k)
    \<and> splitOn (CHR ''/'') (rpcPath md) = map pathParam (splitOn (CHR ''/'') path)
    \<and> list_all (\<lambda>seg. \<not> braced seg) (splitOn (CHR ''/'') (rpcPath md)) \<and> InitPathParams md = md
    \<and> HasPathParams md = list_ex (\<lambda>seg. seg \<noteq> [] \<and> (braced seg \<or> hd seg = CHR '':'')) (splitOn (CHR ''/'') path)
    \<and> (\<exists>k. parseVariable sel = Some (k, IsPassGinContext md, IsIgnoreShouldBind md))"
proof -
  from b p have "buildMethodDesc m verb path kind sel self c = Some (md, d)" by (simp add: buildHTTPRule_def)
  note f = built_fields(4-6) [OF this]
  have s: "splitOn (CHR ''/'') (rpcPath md) = map pathParam (splitOn (CHR ''/'') path)"
    unfolding f(1) by (rule path_segments)
  have plain: "list_all (\<lambda>seg. \<not> braced seg) (splitOn (CHR ''/'') (rpcPath md))"
    unfolding s by (simp add: list_all_iff pathParam_plain)
  have "joinWith ''/'' (map pathParam (splitOn (CHR ''/'') (rpcPath md))) = rpcPath md"
    unfolding s by (simp add: f(1) comp_def)
  then have "InitPathParams md = md" by (simp add: InitPathParams_def)
  moreover have "HasPathParams md = list_ex (\<lambda>seg. seg \<noteq> [] \<and> (braced seg \<or> hd seg = CHR '':'')) (splitOn (CHR ''/'') path)"
    unfolding HasPathParams_def s by (simp add: list_ex_iff pathParam_kept del: splitOn.simps)
  ultimately show ?thesis using s plain f(2,3) by blast
qed

text \<open>Different packages get one name, and a path that ends in a slash panics.\<close>

lemma package_names_clash: "convertToPkgName ''a/user/v1'' = Some ''userV1'' \<and> convertToPkgName ''b/user/v1'' = Some ''userV1''"
  by code_simp

lemma package_name_panic: "convertToPkgName ''api/'' = None"
  by code_simp

text \<open>An enumeration has the zero value nil.\<close>

lemma enum_zero: "ginZero (kindString EnumKind) = ''nil'' \<and> toGoType EnumKind = ''int32''"
  by code_simp

section \<open>An example\<close>

definition demoMsg :: "string \<Rightarrow> message" where
  "demoMsg n = Message \<lparr>GoName = n, GoImportPath = [CHR 0x22] @ ''shop/api/user/v1'' @ [CHR 0x22]\<rparr> []"

definition demoRule :: httpRule where
  "demoRule = HttpRule ''[ctx]'' (PatCustom ''HEAD[no_bind]'' ''/api/v1/user/{id}'') []"

definition demoMethod :: pmethod where
  "demoMethod = \<lparr>mGoName = ''Get'', mInput = demoMsg ''Req'', mOutput = demoMsg ''Reply'', mStreamingClient = False, mStreamingServer = False,
     mLeading = [], mRule = Some (HttpRule [] (PatGet ''/api/v1/user/{id}'') [demoRule])\<rparr>"

definition demoProto :: pfile where
  "demoProto = \<lparr>pfPrefix = ''api/user/v1/user'', pfImportPath = [CHR 0x22] @ ''shop/api/user/v1'' @ [CHR 0x22],
     pfServices = [\<lparr>sGoName = ''User'', sMethods = [demoMethod]\<rparr>]\<rparr>"

definition demoServices :: "HTTPPbService list" where
  "demoServices = fst (the (parseFiles id [demoProto] (\<lambda>_. 0)))"

theorem handler_names_unique_witness:
  "map HandlerName (concat (map hsMethods demoServices)) = [''Get_0'', ''Get_1''] \<and> distinct (map HandlerName (concat (map hsMethods demoServices)))"
proof -
  have "parseFiles id [demoProto] (\<lambda>_. 0) \<noteq> None" by code_simp
  then obtain r where r: "parseFiles id [demoProto] (\<lambda>_. 0) = Some r" by blast
  then have "parseFiles id [demoProto] (\<lambda>_. 0) = Some (demoServices, snd r)" by (simp add: demoServices_def)
  from handler_names_unique [OF this] have "distinct (map HandlerName (concat (map hsMethods demoServices)))" by blast
  moreover have "map HandlerName (concat (map hsMethods demoServices)) = [''Get_0'', ''Get_1'']" by code_simp
  ultimately show ?thesis by blast
qed

definition demoBuilt :: RPCMethod where
  "demoBuilt = fst (the (buildHTTPRule demoMethod demoRule (pfImportPath demoProto) (\<lambda>_. 0)))"

theorem http_rule_method_witness:
  "rpcMethod demoBuilt = ''HEAD'' \<and> rpcPath demoBuilt = ''/api/v1/user/:id'' \<and> InitPathParams demoBuilt = demoBuilt
    \<and> IsPassGinContext demoBuilt \<and> \<not> IsIgnoreShouldBind demoBuilt"
proof -
  have "buildHTTPRule demoMethod demoRule (pfImportPath demoProto) (\<lambda>_. 0) \<noteq> None" by code_simp
  then obtain r where r: "buildHTTPRule demoMethod demoRule (pfImportPath demoProto) (\<lambda>_. 0) = Some r" by blast
  then have b: "buildHTTPRule demoMethod (HttpRule ''[ctx]'' (PatCustom ''HEAD[no_bind]'' ''/api/v1/user/{id}'') []) (pfImportPath demoProto) (\<lambda>_. 0)
      = Some (demoBuilt, snd r)" by (simp add: demoBuilt_def demoRule_def)
  have p: "patternParts (PatCustom ''HEAD[no_bind]'' ''/api/v1/user/{id}'') = (''/api/v1/user/{id}'', ''POST'', ''head[no_bind]'')" by code_simp
  from http_rule_method [OF b p] have "InitPathParams demoBuilt = demoBuilt" by blast
  moreover have "rpcMethod demoBuilt = ''HEAD''" "rpcPath demoBuilt = ''/api/v1/user/:id''" "IsPassGinContext demoBuilt" "\<not> IsIgnoreShouldBind demoBuilt"
    by code_simp+
  ultimately show ?thesis by blast
qed

end
