(* ===== verification/GenText.thy ===== *)
theory GenText
  imports GoStrings
begin

text \<open>
  The texts that the code generation commands put at the marks of the template files
  (\<open>cmd/milady/commands/generate/template.go\<close>), and the names and marks of \<open>common.go\<close>:
  one constant for each constant of the source, as the list
  of its lines.
\<close>

abbreviation bsl :: string where "bsl \<equiv> [CHR 0x5C]"

abbreviation tab :: string where "tab \<equiv> [CHR 0x09]"

abbreviation bq :: string where "bq \<equiv> [CHR 0x60]"

definition textLines :: "string list \<Rightarrow> string" where
  "textLines ls = joinWith [CHR 0x0A] ls"

section \<open>Texts: template.go\<close>

definition dockerFileHTTPCode :: string where
  \<open>dockerFileHTTPCode = textLines
    [''# add curl, used for http service checking, can be installed without it if deployed in k8s'',
     ''RUN apk add curl'',
     [],
     ''COPY configs/ /app/configs/'',
     ''COPY serverNameExample /app/serverNameExample'',
     ''RUN chmod +x /app/serverNameExample'',
     [],
     ''# http port'',
     ''EXPOSE 8080'']\<close>

definition dockerFileGrpcCode :: string where
  \<open>dockerFileGrpcCode = textLines
    [''# add grpc_health_probe for health check of grpc services'',
     ''COPY grpc_health_probe /bin/grpc_health_probe'',
     ''RUN chmod +x /bin/grpc_health_probe'',
     [],
     ''COPY configs/ /app/configs/'',
     ''COPY serverNameExample /app/serverNameExample'',
     ''RUN chmod +x /app/serverNameExample'',
     [],
     ''# grpc and http port'',
     ''EXPOSE 8282 8283'']\<close>

definition dockerFileBuildHTTPCode :: string where
  \<open>dockerFileBuildHTTPCode = textLines
    [''# compressing binary files'',
     ''#cd /'',
     ''#upx -9 serverNameExample'',
     [],
     [],
     ''# building images with binary'',
     ''FROM alpine:latest'',
     ''MAINTAINER zhufuyi "g.zhufuyi@gmail.com"'',
     [],
     ''# set the time zone to Shanghai'',
     ''RUN apk add tzdata  '' @ bsl,
     ''    && cp /usr/share/zoneinfo/Asia/Shanghai /etc/localtime '' @ bsl,
     ''    && echo "Asia/Shanghai" > /etc/timezone '' @ bsl,
     ''    && apk del tzdata'',
     [],
     ''# add curl, used for http service checking, can be installed without it if deployed in k8s'',
     ''RUN apk add curl'',
     [],
     ''COPY --from=build /serverNameExample /app/serverNameExample'',
     ''COPY --from=build /go/src/serverNameExample/configs/serverNameExample.yml /app/configs/serverNameExample.yml'',
     [],
     ''# http port'',
     ''EXPOSE 8080'']\<close>

definition dockerFileBuildGrpcCode :: string where
  \<open>dockerFileBuildGrpcCode = textLines
    [''# install grpc-health-probe, for health check of grpc service'',
     ''RUN go install github.com/grpc-ecosystem/grpc-health-probe@v0.4.12'',
     ''RUN cd $GOPATH/pkg/mod/github.com/grpc-ecosystem/grpc-health-probe@v0.4.12 '' @ bsl,
     ''    && go mod download '' @ bsl,
     ''    && CGO_ENABLED=0 GOOS=linux GOARCH=amd64 go build -ldflags "all=-s -w" -o /grpc_health_probe'',
     [],
     ''# compressing binary files'',
     ''#cd /'',
     ''#upx -9 serverNameExample'',
     ''#upx -9 grpc_health_probe'',
     [],
     [],
     ''# building images with binary'',
     ''FROM alpine:latest'',
     ''MAINTAINER zhufuyi "g.zhufuyi@gmail.com"'',
     [],
     ''# set the time zone to Shanghai'',
     ''RUN apk add tzdata  '' @ bsl,
     ''    && cp /usr/share/zoneinfo/Asia/Shanghai /etc/localtime '' @ bsl,
     ''    && echo "Asia/Shanghai" > /etc/timezone '' @ bsl,
     ''    && apk del tzdata'',
     [],
     ''# add grpc_health_probe for health check of grpc services'',
     ''COPY --from=build /grpc_health_probe /bin/grpc_health_probe'',
     ''COPY --from=build /serverNameExample /app/serverNameExample'',
     ''COPY --from=build /go/src/serverNameExample/configs/serverNameExample.yml /app/configs/serverNameExample.yml'',
     [],
     ''# grpc and http port'',
     ''EXPOSE 8282 8283'']\<close>

definition imageBuildFileHTTPCode :: string where
  \<open>imageBuildFileHTTPCode = textLines
    [''# compressing binary file'',
     ''#cd ${DOCKERFILE_PATH}'',
     ''#upx -9 ${serverName}'',
     ''#cd -'',
     [],
     ''echo "docker build -f ${DOCKERFILE} -t ${IMAGE_NAME_TAG} ${DOCKERFILE_PATH}"'',
     ''docker build -f ${DOCKERFILE} -t ${IMAGE_NAME_TAG} ${DOCKERFILE_PATH}'']\<close>

definition imageBuildFileGrpcCode :: string where
  \<open>imageBuildFileGrpcCode = textLines
    [''# install grpc-health-probe, for health check of grpc service'',
     ''rootDockerFilePath=$(pwd)/${DOCKERFILE_PATH}'',
     ''go install github.com/grpc-ecosystem/grpc-health-probe@v0.4.12'',
     ''cd $GOPATH/pkg/mod/github.com/grpc-ecosystem/grpc-health-probe@v0.4.12 '' @ bsl,
     ''    && go mod download '' @ bsl,
     ''    && CGO_ENABLED=0 GOOS=linux GOARCH=amd64 go build -ldflags "all=-s -w" -o "${rootDockerFilePath}/grpc_health_probe"'',
     ''cd -'',
     [],
     ''# compressing binary file'',
     ''#cd ${DOCKERFILE_PATH}'',
     ''#upx -9 ${serverName}'',
     ''#upx -9 grpc_health_probe'',
     ''#cd -'',
     [],
     ''echo "docker build -f ${DOCKERFILE} -t ${IMAGE_NAME_TAG} ${DOCKERFILE_PATH}"'',
     ''docker build -f ${DOCKERFILE} -t ${IMAGE_NAME_TAG} ${DOCKERFILE_PATH}'',
     [],
     ''if [ -f "${DOCKERFILE_PATH}/grpc_health_probe" ]; then'',
     ''    rm -f ${DOCKERFILE_PATH}/grpc_health_probe'',
     ''fi'']\<close>

definition imageBuildLocalFileHTTPCode :: string where
  \<open>imageBuildLocalFileHTTPCode = textLines
    [''# compressing binary file'',
     ''#cd ${DOCKERFILE_PATH}'',
     ''#upx -9 ${serverName}'',
     ''#cd -'',
     [],
     ''mkdir -p ${DOCKERFILE_PATH}/configs && cp -f configs/${serverName}.yml ${DOCKERFILE_PATH}/configs/'',
     ''echo "docker build -f ${DOCKERFILE} -t ${IMAGE_NAME}:latest ${DOCKERFILE_PATH}"'',
     ''docker build -f ${DOCKERFILE} -t ${IMAGE_NAME}:latest ${DOCKERFILE_PATH}'']\<close>

definition imageBuildLocalFileGrpcCode :: string where
  \<open>imageBuildLocalFileGrpcCode = textLines
    [''# install grpc-health-probe, for health check of grpc service'',
     ''rootDockerFilePath=$(pwd)/${DOCKERFILE_PATH}'',
     ''go install github.com/grpc-ecosystem/grpc-health-probe@v0.4.12'',
     ''cd $GOPATH/pkg/mod/github.com/grpc-ecosystem/grpc-health-probe@v0.4.12 '' @ bsl,
     ''    && go mod download '' @ bsl,
     ''    && CGO_ENABLED=0 GOOS=linux GOARCH=amd64 go build -ldflags "all=-s -w" -o "${rootDockerFilePath}/grpc_health_probe"'',
     ''cd -'',
     [],
     ''# compressing binary file'',
     ''#cd ${DOCKERFILE_PATH}'',
     ''#upx -9 ${serverName}'',
     ''#upx -9 grpc_health_probe'',
     ''#cd -'',
     [],
     ''mkdir -p ${DOCKERFILE_PATH}/configs && cp -f configs/${serverName}.yml ${DOCKERFILE_PATH}/configs/'',
     ''echo "docker build -f ${DOCKERFILE} -t ${IMAGE_NAME}:latest ${DOCKERFILE_PATH}"'',
     ''docker build -f ${DOCKERFILE} -t ${IMAGE_NAME}:latest ${DOCKERFILE_PATH}'',
     [],
     ''if [ -f "${DOCKERFILE_PATH}/grpc_health_probe" ]; then'',
     ''    rm -f ${DOCKERFILE_PATH}/grpc_health_probe'',
     ''fi'']\<close>

definition dockerComposeFileHTTPCode :: string where
  \<open>dockerComposeFileHTTPCode = textLines
    [''    ports:'',
     ''      - "8080:8080"   # http port'',
     ''    healthcheck:'',
     ''      test: ["CMD", "curl", "-f", "http://localhost:8080/health"]   # http health check, note: mirror must contain curl command'']\<close>

definition dockerComposeFileGrpcCode :: string where
  \<open>dockerComposeFileGrpcCode = textLines
    [[],
     ''    ports:'',
     ''      - "8282:8282"   # grpc port'',
     ''      - "8283:8283"   # grpc metrics or pprof port'',
     ''    healthcheck:'',
     ''      test: ["CMD", "grpc_health_probe", "-addr=localhost:8282"]    # grpc health check, note: the image must contain the grpc_health_probe command'']\<close>

definition k8sDeploymentFileHTTPCode :: string where
  \<open>k8sDeploymentFileHTTPCode = textLines
    [[],
     ''          ports:'',
     ''            - name: http-port'',
     ''              containerPort: 8080'',
     ''          readinessProbe:'',
     ''            httpGet:'',
     ''              port: http-port'',
     ''              path: /health'',
     ''            initialDelaySeconds: 10'',
     ''            timeoutSeconds: 2'',
     ''            periodSeconds: 10'',
     ''            successThreshold: 1'',
     ''            failureThreshold: 3'',
     ''          livenessProbe:'',
     ''            httpGet:'',
     ''              port: http-port'',
     ''              path: /health'']\<close>

definition k8sDeploymentFileGrpcCode :: string where
  \<open>k8sDeploymentFileGrpcCode = textLines
    [[],
     ''          ports:'',
     ''            - name: grpc-port'',
     ''              containerPort: 8282'',
     ''            - name: metrics-port'',
     ''              containerPort: 8283'',
     ''          readinessProbe:'',
     ''            exec:'',
     ''              command: ["/bin/grpc_health_probe", "-addr=:8282"]'',
     ''            initialDelaySeconds: 10'',
     ''            timeoutSeconds: 2'',
     ''            periodSeconds: 10'',
     ''            successThreshold: 1'',
     ''            failureThreshold: 3'',
     ''          livenessProbe:'',
     ''            exec:'',
     ''              command: ["/bin/grpc_health_probe", "-addr=:8282"]'']\<close>

definition k8sServiceFileHTTPCode :: string where
  \<open>k8sServiceFileHTTPCode = textLines
    [''  ports:'',
     ''    - name: server-name-example-svc-http-port'',
     ''      port: 8080'',
     ''      targetPort: 8080'']\<close>

definition k8sServiceFileGrpcCode :: string where
  \<open>k8sServiceFileGrpcCode = textLines
    [''  ports:'',
     ''    - name: server-name-example-svc-grpc-port'',
     ''      port: 8282'',
     ''      targetPort: 8282'',
     ''    - name: server-name-example-svc-grpc-metrics-port'',
     ''      port: 8283'',
     ''      targetPort: 8283'']\<close>

definition configFileCode :: string where
  \<open>configFileCode = textLines
    [''Code generated by https://github.com/go-dev-frame/sponge; DO NOT EDIT. '',
     [],
     ''package config'',
     [],
     ''import ('',
     tab @ ''"github.com/go-dev-frame/sponge/pkg/conf"'',
     '')'',
     [],
     ''var config *Config'',
     [],
     ''func Init(configFile string, fs ...func()) error {'',
     tab @ ''config = &Config{}'',
     tab @ ''return conf.Parse(configFile, config, fs...)'',
     ''}'',
     [],
     ''func Show(hiddenFields ...string) string {'',
     tab @ ''return conf.Show(config, hiddenFields...)'',
     ''}'',
     [],
     ''func Get() *Config {'',
     tab @ ''if config == nil {'',
     tab @ tab @ ''panic("config is nil, please call config.Init() first")'',
     tab @ ''}'',
     tab @ ''return config'',
     ''}'',
     [],
     ''func Set(conf *Config) {'',
     tab @ ''config = conf'',
     ''}'',
     []]\<close>

definition configFileCcCode :: string where
  \<open>configFileCcCode = textLines
    [''// Code generated by https://github.com/go-dev-frame/sponge'',
     [],
     ''package config'',
     [],
     ''import ('',
     tab @ ''"github.com/go-dev-frame/sponge/pkg/conf"'',
     '')'',
     [],
     ''func NewCenter(configFile string) (*Center, error) {'',
     tab @ ''nacosConf := &Center{}'',
     tab @ ''err := conf.Parse(configFile, nacosConf)'',
     tab @ ''return nacosConf, err'',
     ''}'',
     []]\<close>

definition protoShellGRPCMark :: string where
  \<open>protoShellGRPCMark = textLines
    [[],
     ''  # generate files *_grpc_pb.go'',
     ''  protoc --proto_path=. --proto_path=./third_party '' @ bsl,
     ''    --go-grpc_out=. --go-grpc_opt=paths=source_relative '' @ bsl,
     ''    $allProtoFiles'',
     [],
     ''  checkResult $?'']\<close>

definition protoShellServiceTmplCode :: string where
  \<open>protoShellServiceTmplCode = textLines
    [[],
     ''  moduleName=$(cat docs/gen.info | head -1 | cut -d , -f 1)'',
     ''  serverName=$(cat docs/gen.info | head -1 | cut -d , -f 2)'',
     ''  suitedMonoRepo=$(cat docs/gen.info | head -1 | cut -d , -f 3)'',
     [],
     ''  protoc --proto_path=. --proto_path=./third_party '' @ bsl,
     ''    --go-rpc-tmpl_out=. --go-rpc-tmpl_opt=paths=source_relative '' @ bsl,
     ''    --go-rpc-tmpl_opt=moduleName=${moduleName} --go-rpc-tmpl_opt=serverName=${serverName} --go-rpc-tmpl_opt=suitedMonoRepo=${suitedMonoRepo} '' @ bsl,
     ''    $specifiedProtoFiles'',
     [],
     ''  checkResult $?'',
     [],
     ''  sponge merge rpc-pb'',
     ''  checkResult $?'',
     [],
     ''  tipMsg="${highBright}Tip:${markEnd} execute the command ${colorCyan}make run${markEnd} and then test grpc api in the file ${colorCyan}internal/service/xxx_client_test.go${markEnd}."'',
     []]\<close>

definition protoShellHandlerCode :: string where
  \<open>protoShellHandlerCode = textLines
    [[],
     ''  # generate the swagger document and merge all files into docs/apis.swagger.json'',
     ''  protoc --proto_path=. --proto_path=./third_party '' @ bsl,
     ''    --openapiv2_out=. --openapiv2_opt=logtostderr=true --openapiv2_opt=allow_merge=true --openapiv2_opt=merge_file_name=docs/apis.json '' @ bsl,
     ''    $specifiedProtoFiles'',
     [],
     ''  checkResult $?'',
     [],
     ''  # handle apis.swagger.json'',
     ''  sponge web swagger --enable-standardize-response --enable-to-openapi3 --enable-integer-to-string --file=docs/apis.swagger.json > /dev/null'',
     [],
     ''  moduleName=$(cat docs/gen.info | head -1 | cut -d , -f 1)'',
     ''  serverName=$(cat docs/gen.info | head -1 | cut -d , -f 2)'',
     ''  suitedMonoRepo=$(cat docs/gen.info | head -1 | cut -d , -f 3)'',
     [],
     ''  protoc --proto_path=. --proto_path=./third_party '' @ bsl,
     ''    --go-gin_out=. --go-gin_opt=paths=source_relative --go-gin_opt=plugin=handler '' @ bsl,
     ''    --go-gin_opt=moduleName=${moduleName} --go-gin_opt=serverName=${serverName} --go-gin_opt=suitedMonoRepo=${suitedMonoRepo} '' @ bsl,
     ''    $specifiedProtoFiles'',
     [],
     ''  checkResult $?'',
     [],
     ''  sponge merge http-pb'',
     ''  checkResult $?'',
     [],
     ''  tipMsg="${highBright}Tip:${markEnd} execute the command ${colorCyan}make run${markEnd} and then visit ${colorCyan}http://localhost:8080/apis/swagger/index.html${markEnd} in your browser. "'',
     []]\<close>

definition protoShellServiceCode :: string where
  \<open>protoShellServiceCode = textLines
    [[],
     ''  # Generate the swagger document and merge all files into docs/apis.swagger.json'',
     ''  protoc --proto_path=. --proto_path=./third_party '' @ bsl,
     ''    --openapiv2_out=. --openapiv2_opt=logtostderr=true --openapiv2_opt=allow_merge=true --openapiv2_opt=merge_file_name=docs/apis.json '' @ bsl,
     ''    $specifiedProtoFiles'',
     [],
     ''  checkResult $?'',
     [],
     ''  # handle apis.swagger.json'',
     ''  sponge web swagger --enable-standardize-response --enable-to-openapi3 --enable-integer-to-string --file=docs/apis.swagger.json > /dev/null'',
     [],
     ''  moduleName=$(cat docs/gen.info | head -1 | cut -d , -f 1)'',
     ''  serverName=$(cat docs/gen.info | head -1 | cut -d , -f 2)'',
     ''  suitedMonoRepo=$(cat docs/gen.info | head -1 | cut -d , -f 3)'',
     [],
     ''  protoc --proto_path=. --proto_path=./third_party '' @ bsl,
     ''    --go-gin_out=. --go-gin_opt=paths=source_relative --go-gin_opt=plugin=service '' @ bsl,
     ''    --go-gin_opt=moduleName=${moduleName} --go-gin_opt=serverName=${serverName} --go-gin_opt=suitedMonoRepo=${suitedMonoRepo} '' @ bsl,
     ''    $specifiedProtoFiles'',
     [],
     ''  checkResult $?'',
     [],
     ''  sponge merge rpc-gw-pb'',
     ''  checkResult $?'',
     [],
     ''  tipMsg="${highBright}Tip:${markEnd} execute the command ${colorCyan}make run${markEnd} and then visit ${colorCyan}http://localhost:8080/apis/swagger/index.html${markEnd} in your browser."'',
     []]\<close>

definition protoShellServiceAndHandlerCode :: string where
  \<open>protoShellServiceAndHandlerCode = textLines
    [[],
     ''  # generate the swagger document and merge all files into docs/apis.swagger.json'',
     ''  protoc --proto_path=. --proto_path=./third_party '' @ bsl,
     ''    --openapiv2_out=. --openapiv2_opt=logtostderr=true --openapiv2_opt=allow_merge=true --openapiv2_opt=merge_file_name=docs/apis.json '' @ bsl,
     ''    $specifiedProtoFiles'',
     [],
     ''  checkResult $?'',
     [],
     ''  # handle apis.swagger.json'',
     ''  sponge web swagger --enable-standardize-response --enable-to-openapi3 --enable-integer-to-string --file=docs/apis.swagger.json > /dev/null'',
     [],
     ''  moduleName=$(cat docs/gen.info | head -1 | cut -d , -f 1)'',
     ''  serverName=$(cat docs/gen.info | head -1 | cut -d , -f 2)'',
     ''  suitedMonoRepo=$(cat docs/gen.info | head -1 | cut -d , -f 3)'',
     [],
     ''  protoc --proto_path=. --proto_path=./third_party '' @ bsl,
     ''    --go-rpc-tmpl_out=. --go-rpc-tmpl_opt=paths=source_relative '' @ bsl,
     ''    --go-rpc-tmpl_opt=moduleName=${moduleName} --go-rpc-tmpl_opt=serverName=${serverName} --go-rpc-tmpl_opt=suitedMonoRepo=${suitedMonoRepo} '' @ bsl,
     ''    $specifiedProtoFiles'',
     [],
     ''  checkResult $?'',
     [],
     ''  sponge merge rpc-pb'',
     ''  checkResult $?'',
     [],
     ''  protoc --proto_path=. --proto_path=./third_party '' @ bsl,
     ''    --go-gin_out=. --go-gin_opt=paths=source_relative --go-gin_opt=plugin=mix '' @ bsl,
     ''    --go-gin_opt=moduleName=${moduleName} --go-gin_opt=serverName=${serverName} --go-gin_opt=suitedMonoRepo=${suitedMonoRepo} '' @ bsl,
     ''    $specifiedProtoFiles'',
     [],
     ''  checkResult $?'',
     [],
     ''  sponge merge http-pb'',
     ''  checkResult $?'',
     [],
     ''  tipMsg="${highBright}Tip:${markEnd} execute the command ${colorCyan}make run${markEnd} and then'' @ bsl @ ''n      1. test http api in your browser ${colorCyan}http://localhost:8080/apis/swagger/index.html${markEnd}'' @ bsl @ ''n      2. test grpc api in the file ${colorCyan}internal/service/xxx_client_test.go${markEnd}"'',
     []]\<close>

definition httpServerConfigCode :: string where
  \<open>httpServerConfigCode = textLines
    [''# http server settings'',
     ''http:'',
     ''  port: 8080                # listen port'',
     ''  timeout: 0                # request timeout, unit(second), if 0 means not set, if greater than 0 means set timeout, if enableHTTPProfile is true, it needs to set 0 or greater than 60s'']\<close>

definition rpcServerConfigCode :: string where
  \<open>rpcServerConfigCode = textLines
    [''# grpc server settings'',
     ''grpc:'',
     ''  port: 8282                # listen port'',
     ''  httpPort: 8283            # profile and metrics ports'',
     ''  enableToken: false        # whether to enable server-side token authentication, default appID=grpc, appKey=123456'',
     ''  # serverSecure parameter setting'',
     ''  # if type="", it means no secure connection, no need to fill in any parameters'',
     ''  # if type="one-way", it means server-side certification, only the fields 'certFile' and 'keyFile' should be filled in'',
     ''  # if type="two-way", it means both client and server side certification, fill in all fields'',
     ''  serverSecure:'',
     ''    type: ""                # secures type, "", "one-way", "two-way"'',
     ''    caFile: ""              # ca certificate file, valid only in "two-way", absolute path'',
     ''    certFile: ""            # server side cert file, absolute path'',
     ''    keyFile: ""             # server side key file, absolute path'',
     [],
     [],
     ''# grpc client-side settings, support for setting up multiple grpc clients.'',
     ''grpcClient:'',
     ''  - name: "your_grpc_service_name"    # grpc service name, used for service discovery'',
     ''    host: "127.0.0.1"            # grpc service address, used for direct connection'',
     ''    port: 8282                   # grpc service port'',
     ''    timeout: 0                   # request timeout, unit(second), if 0 means not set, if greater than 0 means set timeout, valid only for unary grpc type'',
     ''    registryDiscoveryType: ""    # registration and discovery types: consul, etcd, nacos, if empty, connecting to server using host and port'',
     ''    # clientSecure parameter setting'',
     ''    # if type="", it means no secure connection, no need to fill in any parameters'',
     ''    # if type="one-way", it means server-side certification, only the fields 'serverName' and 'certFile' should be filled in'',
     ''    # if type="two-way", it means both client and server side certification, fill in all fields'',
     ''    clientSecure:'',
     ''      type: ""              # secures type, "", "one-way", "two-way"'',
     ''      serverName: ""        # server name, e.g. *.foo.com'',
     ''      caFile: ""            # client side ca file, valid only in "two-way", absolute path'',
     ''      certFile: ""          # client side cert file, absolute path, if secureType="one-way", fill in server side cert file here'',
     ''      keyFile: ""           # client side key file, valid only in "two-way", absolute path'',
     ''    clientToken:'',
     ''      enable: false         # whether to enable token authentication'',
     ''      appID: ""             # app id'',
     ''      appKey: ""            # app key'']\<close>

definition rpcGwServerConfigCode :: string where
  \<open>rpcGwServerConfigCode = textLines
    [''# http server settings'',
     ''http:'',
     ''  port: 8080                # listen port'',
     ''  timeout: 0                 # request timeout, unit(second), if 0 means not set, if greater than 0 means set timeout, if enableHTTPProfile is true, it needs to set 0 or greater than 60s'',
     [],
     [],
     ''# grpc client-side settings, support for setting up multiple grpc clients.'',
     ''grpcClient:'',
     ''  - name: "your_grpc_service_name"    # grpc service name, used for service discovery'',
     ''    host: "127.0.0.1"            # grpc service address, used for direct connection'',
     ''    port: 8282                   # grpc service port'',
     ''    timeout: 0                   # request timeout, unit(second), if 0 means not set, if greater than 0 means set timeout, valid only for unary grpc type'',
     ''    registryDiscoveryType: ""    # registration and discovery types: consul, etcd, nacos, if empty, connecting to server using host and port'',
     ''    # clientSecure parameter setting'',
     ''    # if type="", it means no secure connection, no need to fill in any parameters'',
     ''    # if type="one-way", it means server-side certification, only the fields 'serverName' and 'certFile' should be filled in'',
     ''    # if type="two-way", it means both client and server side certification, fill in all fields'',
     ''    clientSecure:'',
     ''      type: ""              # secures type, "", "one-way", "two-way"'',
     ''      serverName: ""        # server name, e.g. *.foo.com'',
     ''      caFile: ""            # client side ca file, valid only in "two-way", absolute path'',
     ''      certFile: ""          # client side cert file, absolute path, if secureType="one-way", fill in server side cert file here'',
     ''      keyFile: ""           # client side key file, valid only in "two-way", absolute path'',
     ''    clientToken:'',
     ''      enable: false         # whether to enable token authentication'',
     ''      appID: ""             # app id'',
     ''      appKey: ""            # app key'']\<close>

definition grpcAndHTTPServerConfigCode :: string where
  \<open>grpcAndHTTPServerConfigCode = textLines
    [''# http server settings'',
     ''http:'',
     ''  port: 8080                # listen port'',
     ''  timeout: 0                # request timeout, unit(second), if 0 means not set, if greater than 0 means set timeout, if enableHTTPProfile is true, it needs to set 0 or greater than 60s'',
     [],
     [],
     ''# grpc server settings'',
     ''grpc:'',
     ''  port: 8282                # listen port'',
     ''  httpPort: 8283            # profile and metrics ports'',
     ''  enableToken: false        # whether to enable server-side token authentication, default appID=grpc, appKey=123456'',
     ''  # serverSecure parameter setting'',
     ''  # if type="", it means no secure connection, no need to fill in any parameters'',
     ''  # if type="one-way", it means server-side certification, only the fields 'certFile' and 'keyFile' should be filled in'',
     ''  # if type="two-way", it means both client and server side certification, fill in all fields'',
     ''  serverSecure:'',
     ''    type: ""                # secures type, "", "one-way", "two-way"'',
     ''    caFile: ""              # ca certificate file, valid only in "two-way", absolute path'',
     ''    certFile: ""            # server side cert file, absolute path'',
     ''    keyFile: ""             # server side key file, absolute path'',
     [],
     [],
     ''# grpc client-side settings, support for setting up multiple grpc clients.'',
     ''grpcClient:'',
     ''  - name: "your_grpc_service_name"    # grpc service name, used for service discovery'',
     ''    host: "127.0.0.1"            # grpc service address, used for direct connection'',
     ''    port: 8282                   # grpc service port'',
     ''    timeout: 0                   # request timeout, unit(second), if 0 means not set, if greater than 0 means set timeout, valid only for unary grpc type'',
     ''    registryDiscoveryType: ""    # registration and discovery types: consul, etcd, nacos, if empty, connecting to server using host and port'',
     ''    # clientSecure parameter setting'',
     ''    # if type="", it means no secure connection, no need to fill in any parameters'',
     ''    # if type="one-way", it means server-side certification, only the fields 'serverName' and 'certFile' should be filled in'',
     ''    # if type="two-way", it means both client and server side certification, fill in all fields'',
     ''    clientSecure:'',
     ''      type: ""              # secures type, "", "one-way", "two-way"'',
     ''      serverName: ""        # server name, e.g. *.foo.com'',
     ''      caFile: ""            # client side ca file, valid only in "two-way", absolute path'',
     ''      certFile: ""          # client side cert file, absolute path, if secureType="one-way", fill in server side cert file here'',
     ''      keyFile: ""           # client side key file, valid only in "two-way", absolute path'',
     ''    clientToken:'',
     ''      enable: false         # whether to enable token authentication'',
     ''      appID: ""             # app id'',
     ''      appKey: ""            # app key'']\<close>

definition mysqlConfigCode :: string where
  \<open>mysqlConfigCode = textLines
    [''# database setting'',
     ''database:'',
     ''  driver: "mysql"           # database driver'',
     ''  # mysql settings'',
     ''  mysql:'',
     ''    # dsn format,  <username>:<password>@(<hostname>:<port>)/<db>?[k=v& ......]'',
     ''    dsn: "root:123456@(192.168.3.37:3306)/account?parseTime=true&loc=Local&charset=utf8,utf8mb4"'',
     ''    enableLog: true         # whether to turn on printing of all logs'',
     ''    maxIdleConns: 10        # set the maximum number of connections in the idle connection pool'',
     ''    maxOpenConns: 100       # set the maximum number of open database connections'',
     ''    connMaxLifetime: 30     # sets the maximum time for which the connection can be reused, in minutes'',
     ''    #slavesDsn:             # sets slaves mysql dsn, array type'',
     ''    #  - "your slave dsn 1"'',
     ''    #  - "your slave dsn 2"'',
     ''    #mastersDsn:            # sets masters mysql dsn, array type, non-required field, if there is only one master, there is no need to set the mastersDsn field, the default dsn field is mysql master.'',
     ''    #  - "your master dsn'']\<close>

definition postgresqlConfigCode :: string where
  \<open>postgresqlConfigCode = textLines
    [''database:'',
     ''  driver: "postgresql"      # database driver'',
     ''  # postgresql settings'',
     ''  postgresql:'',
     ''    # dsn format,  <username>:<password>@<hostname>:<port>/<db>?[k=v& ......]'',
     ''    dsn: "root:123456@192.168.3.37:5432/account?sslmode=disable"'',
     ''    enableLog: true         # whether to turn on printing of all logs'',
     ''    maxIdleConns: 10        # set the maximum number of connections in the idle connection pool'',
     ''    maxOpenConns: 100       # set the maximum number of open database connections'',
     ''    connMaxLifetime: 30     # sets the maximum time for which the connection can be reused, in minutes'']\<close>

definition sqliteConfigCode :: string where
  \<open>sqliteConfigCode = textLines
    [''database:'',
     ''  driver: "sqlite"      # database driver'',
     ''  # sqlite settings'',
     ''  sqlite:'',
     ''    dbFile: "test/sql/sqlite/sponge.db"'',
     ''    enableLog: true         # whether to turn on printing of all logs'',
     ''    maxIdleConns: 10        # set the maximum number of connections in the idle connection pool'',
     ''    maxOpenConns: 100       # set the maximum number of open database connections'',
     ''    connMaxLifetime: 30     # sets the maximum time for which the connection can be reused, in minutes'']\<close>

definition mongodbConfigCode :: string where
  \<open>mongodbConfigCode = textLines
    [''database:'',
     ''  driver: "mongodb"      # database driver'',
     ''  # mongodb settings'',
     ''  mongodb:'',
     ''    # dsn format,  [scheme://]<username>:<password>@<hostname1>:<port1>[,<hostname2>:<port2>,......]/<db>?[k=v& ......]'',
     ''    # default scheme is mongodb://, scheme can be omitted, if you want to use ssl, you can use mongodb+srv:// scheme, the scheme must be filled in '',
     ''    # parameter k=v see https://www.mongodb.com/docs/drivers/go/current/fundamentals/connections/connection-guide/#connection-options'',
     ''    dsn: "root:123456@192.168.3.37:27017/account?connectTimeoutMS=15000&socketTimeoutMS=30000&maxPoolSize=100&minPoolSize=1&maxConnIdleTimeMS=300000"'']\<close>

definition undeterminedDatabaseConfigCode :: string where
  \<open>undeterminedDatabaseConfigCode = textLines
    [''# set database configuration. reference-db-config-url'',
     ''database:'',
     ''  driver: "mysql"           # database driver'',
     ''  # mysql settings'',
     ''  mysql:'',
     ''    # dsn format,  <username>:<password>@(<hostname>:<port>)/<db>?[k=v& ......]'',
     ''    dsn: "root:123456@(192.168.3.37:3306)/account?parseTime=true&loc=Local&charset=utf8,utf8mb4"'',
     ''    enableLog: true         # whether to turn on printing of all logs'',
     ''    maxIdleConns: 10        # set the maximum number of connections in the idle connection pool'',
     ''    maxOpenConns: 100       # set the maximum number of open database connections'',
     ''    connMaxLifetime: 30     # sets the maximum time for which the connection can be reused, in minutes'',
     []]\<close>

definition modelInitDBFileMysqlCode :: string where
  \<open>modelInitDBFileMysqlCode = textLines
    [''// InitDB connect database'',
     ''func InitDB() {'',
     tab @ ''dbDriver := config.Get().Database.Driver'',
     tab @ ''switch strings.ToLower(dbDriver) {'',
     tab @ ''case sgorm.DBDriverMysql, sgorm.DBDriverTidb:'',
     tab @ tab @ ''gdb = InitMysql()'',
     tab @ ''default:'',
     tab @ tab @ ''panic("InitDB error, please modify the correct 'database' configuration at yaml file. " +'',
     tab @ tab @ tab @ ''"Refer to https://github.com/go-dev-frame/sponge/blob/main/configs/serverNameExample.yml#L85")'',
     tab @ ''}'',
     ''}'']\<close>

definition modelInitDBFilePostgresqlCode :: string where
  \<open>modelInitDBFilePostgresqlCode = textLines
    [''// InitDB connect database'',
     ''func InitDB() {'',
     tab @ ''dbDriver := config.Get().Database.Driver'',
     tab @ ''switch strings.ToLower(dbDriver) {'',
     tab @ ''case sgorm.DBDriverPostgresql:'',
     tab @ tab @ ''gdb = InitPostgresql()'',
     tab @ ''default:'',
     tab @ tab @ ''panic("InitDB error, please modify the correct 'database' configuration at yaml file. " +'',
     tab @ tab @ tab @ ''"Refer to https://github.com/go-dev-frame/sponge/blob/main/configs/serverNameExample.yml#L85")'',
     tab @ ''}'',
     ''}'']\<close>

definition modelInitDBFileSqliteCode :: string where
  \<open>modelInitDBFileSqliteCode = textLines
    [''// InitDB connect database'',
     ''func InitDB() {'',
     tab @ ''dbDriver := config.Get().Database.Driver'',
     tab @ ''switch strings.ToLower(dbDriver) {'',
     tab @ ''case sgorm.DBDriverSqlite:'',
     tab @ tab @ ''gdb = InitSqlite()'',
     tab @ ''default:'',
     tab @ tab @ ''panic("InitDB error, please modify the correct 'database' configuration at yaml file. " +'',
     tab @ tab @ tab @ ''"Refer to https://github.com/go-dev-frame/sponge/blob/main/configs/serverNameExample.yml#L85")'',
     tab @ ''}'',
     ''}'']\<close>

definition embedTimeCode :: string where
  \<open>embedTimeCode = textLines
    [''value.CreatedAt = record.CreatedAt.Format(time.RFC3339)'',
     tab @ ''value.UpdatedAt = record.UpdatedAt.Format(time.RFC3339)'']\<close>

section \<open>Names, files and marks: common.go\<close>

definition defaultGoModVersion :: string where "defaultGoModVersion = ''go 1.25.1''"

definition codeNameHTTP :: string where "codeNameHTTP = ''http''"

definition codeNameGRPC :: string where "codeNameGRPC = ''grpc''"

definition codeNameHandler :: string where "codeNameHandler = ''handler''"

definition codeNameService :: string where "codeNameService = ''service''"

definition codeNameServiceHTTP :: string where "codeNameServiceHTTP = ''service-handler''"

definition codeNameHandlerPb :: string where "codeNameHandlerPb = ''handler-pb''"

definition codeNameDao :: string where "codeNameDao = ''dao''"

definition codeNameStore :: string where "codeNameStore = ''store''"

definition codeNameProtobuf :: string where "codeNameProtobuf = ''protobuf''"

definition codeNameModel :: string where "codeNameModel = ''model''"

definition codeNameGRPCConn :: string where "codeNameGRPCConn = ''grpc-conn''"

definition codeNameCache :: string where "codeNameCache = ''cache''"

definition codeNameHTTPPb :: string where "codeNameHTTPPb = ''http-pb''"

definition codeNameGRPCPb :: string where "codeNameGRPCPb = ''grpc-pb''"

definition codeNameGRPCGW :: string where "codeNameGRPCGW = ''grpc-gw-pb''"

definition codeNameGRPCHTTP :: string where "codeNameGRPCHTTP = ''grpc-http''"

definition codeNameGRPCHTTPPb :: string where "codeNameGRPCHTTPPb = ''grpc-http-pb''"

definition wellPrefix :: string where "wellPrefix = ''## ''"

definition mgoSuffix :: string where "mgoSuffix = ''.mgo''"

definition pkgPathSuffix :: string where "pkgPathSuffix = ''/pkg''"

definition expSuffix :: string where "expSuffix = ''.exp''"

definition tplSuffix :: string where "tplSuffix = ''.tpl''"

definition apiDocsSuffix :: string where "apiDocsSuffix = '' api docs''"

definition undeterminedDBDriver :: string where "undeterminedDBDriver = ''undetermined''"

definition modelFile :: string where "modelFile = ''model/userExample.go''"

definition modelFileMark :: string where "modelFileMark = ''// todo generate model code to here''"

definition databaseInitDBFile :: string where "databaseInitDBFile = ''database/init.go''"

definition databaseInitDBFileMark :: string where "databaseInitDBFileMark = ''// todo generate initialisation database code here''"

definition showDbNameMark :: string where "showDbNameMark = ''// todo show db driver name here''"

definition cacheFile :: string where "cacheFile = ''cache/cacheNameExample.go''"

definition daoFile :: string where "daoFile = ''dao/userExample.go''"

definition daoMgoFile :: string where "daoMgoFile = ''dao/userExample.go.mgo''"

definition daoFileMark :: string where "daoFileMark = ''// todo generate the update fields code to here''"

definition daoTestFile :: string where "daoTestFile = ''dao/userExample_test.go''"

definition typesFile :: string where "typesFile = ''types/userExample_types.go''"

definition typesMgoFile :: string where "typesMgoFile = ''types/userExample_types.go.mgo''"

definition handlerFileMark :: string where "handlerFileMark = ''// todo generate the request and response struct to here''"

definition handlerTestFile :: string where "handlerTestFile = ''handler/userExample_test.go''"

definition handlerPbFile :: string where "handlerPbFile = ''handler/userExample_logic.go''"

definition handlerPbTestFile :: string where "handlerPbTestFile = ''handler/userExample_logic_test.go''"

definition handlerLogicFile :: string where "handlerLogicFile = ''handler/userExample_logic.go''"

definition serviceLogicFile :: string where "serviceLogicFile = ''service/userExample.go''"

definition embedTimeMark :: string where "embedTimeMark = ''// todo generate the conversion createdAt and updatedAt code here''"

definition httpFile :: string where "httpFile = ''server/http.go''"

definition protoTplFile :: string where "protoTplFile = ''v1/userExample.proto''"

definition protoFileMark :: string where "protoFileMark = ''// todo generate the protobuf code here''"

definition serviceTestFile :: string where "serviceTestFile = ''service/userExample_test.go''"

definition serviceClientFile :: string where "serviceClientFile = ''service/userExample_client_test.go''"

definition serviceClientMgoFile :: string where "serviceClientMgoFile = ''service/userExample_client_test.go.mgo''"

definition serviceFile :: string where "serviceFile = ''service/userExample.go''"

definition serviceFileMark :: string where "serviceFileMark = ''// todo generate the service struct code here''"

definition dockerFile :: string where "dockerFile = ''scripts/build/Dockerfile''"

definition dockerFileMark :: string where "dockerFileMark = ''# todo generate dockerfile code for http or grpc here''"

definition dockerFileBuild :: string where "dockerFileBuild = ''scripts/build/Dockerfile_build''"

definition dockerFileBuildMark :: string where "dockerFileBuildMark = ''# todo generate dockerfile_build code for http or grpc here''"

definition imageBuildFile :: string where "imageBuildFile = ''scripts/image-build.sh''"

definition imageBuildFileMark :: string where "imageBuildFileMark = ''# todo generate image-build code for http or grpc here''"

definition imageBuildLocalFile :: string where "imageBuildLocalFile = ''scripts/image-build-local.sh''"

definition imageBuildLocalFileMark :: string where "imageBuildLocalFileMark = ''# todo generate image-build-local code for http or grpc here''"

definition dockerComposeFile :: string where "dockerComposeFile = ''deployments/docker-compose/docker-compose.yml''"

definition dockerComposeFileMark :: string where "dockerComposeFileMark = ''# todo generate docker-compose.yml code for http or grpc here''"

definition k8sDeploymentFile :: string where "k8sDeploymentFile = ''deployments/kubernetes/serverNameExample-deployment.yml''"

definition k8sDeploymentFileMark :: string where "k8sDeploymentFileMark = ''# todo generate k8s-deployment.yml code for http or grpc here''"

definition k8sServiceFile :: string where "k8sServiceFile = ''deployments/kubernetes/serverNameExample-svc.yml''"

definition k8sServiceFileMark :: string where "k8sServiceFileMark = ''# todo generate k8s-svc.yml code for http or grpc here''"

definition protoShellFile :: string where "protoShellFile = ''scripts/protoc.sh''"

definition protoShellFileGRPCMark :: string where "protoShellFileGRPCMark = ''# todo generate grpc files here''"

definition protoShellFileMark :: string where "protoShellFileMark = ''# todo generate api template code command here''"

definition appConfigFile :: string where "appConfigFile = ''configs/serverNameExample.yml''"

definition appConfigFileMark :: string where "appConfigFileMark = ''# todo generate http or rpc server configuration here''"

definition appConfigFileMark2 :: string where "appConfigFileMark2 = ''# todo generate the database configuration here''"

definition appConfigFileMark3 :: string where "appConfigFileMark3 = ''# todo generate the registry and discovery configuration here''"

definition expectedSQLForDeletion :: string where "expectedSQLForDeletion = ''expectedSQLForDeletion := '' @ [CHR 0x22] @ ''UPDATE .*'' @ [CHR 0x22]"

definition spongeTemplateVersionMark :: string where "spongeTemplateVersionMark = ''// todo generate the local sponge template code version here''"

definition configmapFileMark :: string where "configmapFileMark = ''# todo generate server configuration code here''"

definition readmeFile :: string where "readmeFile = ''sponge/README.md''"

definition makeFile :: string where "makeFile = ''sponge/Makefile''"

definition gitIgnoreFile :: string where "gitIgnoreFile = ''sponge/.gitignore''"

definition startMarkStr :: string where "startMarkStr = ''// delete the templates code start''"

definition endMarkStr :: string where "endMarkStr = ''// delete the templates code end''"

definition selfPackageName :: string where "selfPackageName = ''github.com/go-dev-frame/sponge''"

definition dupCodeMark :: string where "dupCodeMark = ''--dir=internal/ecode''"

definition monoRepoAPIPath :: string where
  \<open>monoRepoAPIPath = textLines
    [''bash scripts/patch-mono.sh'',
     ''cd ..'',
     [],
     ''protoBasePath="api"'']\<close>

definition monoRepoHTTPPatch :: string where
  \<open>monoRepoHTTPPatch = textLines
    [''bash scripts/patch-mono.sh'',
     [],
     ''HOST_ADDR=$1'']\<close>

definition typePbShellCode :: string where
  \<open>typePbShellCode = textLines
    [[],
     ''    if [ ! -d "../api/types" ]; then'',
     ''        sponge patch gen-types-pb --out=./'',
     ''        checkResult $?'',
     ''        mv -f api/types ../api'',
     ''        rmdir api'',
     ''    fi'']\<close>

end
