(* ===== verification/GenCommon.thy ===== *)
theory GenCommon
  imports GenText Replacer Sql2Code
begin

text \<open>
  What the code generation commands share: \<open>cmd/milady/commands/generate/common.go\<close> and \<open>init.go\<close>, and the
  searches of \<open>pkg/gofile/fileContent.go\<close>.

  \<^item> The record \<open>genWorld\<close> is what one run of a generator meets: the operating system and the files below the
    template directory, and what it calls and does not own (\<open>xstrings\<close>, \<open>encoding/json\<close>, \<open>text/template\<close>, \<open>net/url\<close>,
    \<open>math/rand\<close>, \<open>path.Match\<close>, the \<open>go\<close> command, the order in which a range visits a map, and what \<open>sql2code\<close> is given).
  \<^item> Results are values of type \<open>go\<close>, with the panics of slice expressions; the file system is passed along.
  \<^item> Messages printed to the terminal are left out.
\<close>

section \<open>Environment and errors\<close>

record genWorld =
  gwOs :: osEnv
  gwHome :: "string option"
  gwTree :: "entry list option"
  gwReadTree :: "fsys \<Rightarrow> string \<Rightarrow> entry list option"
  gwKept :: "string \<Rightarrow> bool"
  gwKebab :: "string \<Rightarrow> string"
  gwRand :: nat
  gwRand2 :: nat
  gwMatch :: "string \<Rightarrow> string \<Rightarrow> bool"
  gwGoVersion :: "string option"
  gwVisit :: "nat \<Rightarrow> (string \<times> string list) list \<Rightarrow> (string \<times> string list) list"
  gwDecode :: "string \<Rightarrow> crudInfo option"
  gwRender :: "string \<Rightarrow> string \<Rightarrow> crudInfo \<Rightarrow> string + string"
  gwParseURL :: "string \<Rightarrow> (string \<times> (string \<Rightarrow> string)) option"
  gwQueryGet :: "string \<Rightarrow> string \<Rightarrow> string"
  gwGenv :: genv
  gwWorld :: world

datatype genErr =
    ReplacerNil
  | UnsupportedDriver string
  | SaveError replErr
  | SqlError string
  | ServerTest string string
  | MissingFlag string
  | TemplateError string
  | EmptyCrudInfo
  | CrudInfoError
  | FileExists string
  | SaveFailed string
  | OpenFailed string
  | LineTooLong
  | NotInitialized
  | NotProto string
  | NoService

type_synonym selection = "(string \<times> string list) list"

definition fld :: "string \<Rightarrow> string \<Rightarrow> Field" where
  "fld old new = \<lparr>Old = old, New = new, IsCaseSensitive = False\<rparr>"

definition fldCS :: "string \<Rightarrow> string \<Rightarrow> Field" where
  "fldCS old new = \<lparr>Old = old, New = new, IsCaseSensitive = True\<rparr>"

text \<open>A sequence of \<open>fields = append(fields, part...)\<close>; the first part that does not return a list ends it.\<close>

fun goConcat :: "(genErr, 'a list) go list \<Rightarrow> (genErr, 'a list) go" where
  "goConcat [] = Ok []"
| "goConcat (p # ps) = go_bind p (\<lambda>xs. go_bind (goConcat ps) (\<lambda>ys. Ok (xs @ ys)))"

section \<open>Marks: gofile/fileContent.go\<close>

text \<open>\<open>bytes.Index\<close>, with its -1.\<close>

definition bytesIndex :: "string \<Rightarrow> string \<Rightarrow> int" where
  "bytesIndex data sub = (case strIndex data sub of None \<Rightarrow> -1 | Some i \<Rightarrow> int i)"

text \<open>The slice expression \<open>data[i:j]\<close>.\<close>

definition goSlice :: "'a list \<Rightarrow> int \<Rightarrow> int \<Rightarrow> ('e, 'a list) go" where
  "goSlice data i j =
     (if 0 \<le> i \<and> i \<le> j \<and> j \<le> int (length data) then Ok (take (nat (j - i)) (drop (nat i) data)) else Panic)"

definition findSubByte2 :: "string \<Rightarrow> string \<Rightarrow> string \<Rightarrow> ('e, string \<times> int) go" where
  "findSubByte2 data start stop =
     (let startIndex = bytesIndex data start; endIndex = bytesIndex data stop in
      if startIndex \<ge> endIndex then Ok ([], 0)
      else let e = (if int (length data) \<ge> endIndex + int (length stop) then endIndex + int (length stop) else endIndex)
           in go_bind (goSlice data startIndex e) (\<lambda>sub. Ok (sub, e)))"

definition FindSubBytes :: "string \<Rightarrow> string \<Rightarrow> string \<Rightarrow> ('e, string) go" where
  "FindSubBytes data start stop =
     (let startIndex = bytesIndex data start; endIndex = bytesIndex data stop in
      if startIndex \<ge> endIndex then Ok []
      else let e = (if int (length data) \<ge> endIndex + int (length stop) then endIndex + int (length stop) else endIndex)
           in goSlice data startIndex e)"

lemma findSubByte2_index:
  assumes "findSubByte2 data start stop = Ok (sub, e)" "sub \<noteq> []"
  shows "0 < e \<and> e \<le> int (length data)"
  using assms by (auto simp: findSubByte2_def goSlice_def Let_def go_bind_eq_Ok split: if_splits)

function FindAllSubBytes :: "string \<Rightarrow> string \<Rightarrow> string \<Rightarrow> ('e, string list) go" where
  "FindAllSubBytes data start stop =
     (case findSubByte2 data start stop of
        Ok (sub, e) \<Rightarrow>
          (if sub = [] then Ok []
           else go_bind (FindAllSubBytes (drop (nat e) data) start stop) (\<lambda>rest. Ok (sub # rest)))
      | Err e \<Rightarrow> Err e
      | Panic \<Rightarrow> Panic)"
  by pat_completeness auto

termination
  by (relation "measure (\<lambda>(data, _, _). length data)") (auto dest: findSubByte2_index)

definition FindSubBytesNotIn :: "string \<Rightarrow> string \<Rightarrow> string \<Rightarrow> ('e, string) go" where
  "FindSubBytesNotIn data start stop =
     (let startIndex = bytesIndex data start; endIndex = bytesIndex data stop in
      if startIndex + int (length start) \<ge> endIndex then Ok []
      else goSlice data (startIndex + int (length start)) endIndex)"

declare FindAllSubBytes.simps [simp del]

section \<open>Names and identifier types\<close>

definition symbolConvert :: "string \<Rightarrow> string list \<Rightarrow> string" where
  "symbolConvert str additionalChar =
     replaceFirst str ''//'' ''#'' @ (case additionalChar of [] \<Rightarrow> [] | c # _ \<Rightarrow> c)"

definition startMark :: string where "startMark = startMarkStr"

definition endMark :: string where "endMark = endMarkStr"

definition wellStartMark :: string where "wellStartMark = symbolConvert startMarkStr []"

definition wellEndMark :: string where "wellEndMark = symbolConvert endMarkStr []"

definition CurrentDbDriver :: "string \<Rightarrow> string" where
  "CurrentDbDriver driver = ''// db driver is '' @ driver"

definition convertServerName :: "string \<Rightarrow> string" where
  "convertServerName serverName = goReplaceAll serverName ''-'' ''_''"

text \<open>The names are set whether or not there is an error; the second suffix overwrites the error of the first.\<close>

definition convertProjectAndServerName :: "genWorld \<Rightarrow> string \<Rightarrow> string \<Rightarrow> string \<times> string \<times> genErr option" where
  "convertProjectAndServerName w projectName serverName =
     (gwKebab w projectName, goReplaceAll serverName ''-'' ''_'',
      if hasSuffix serverName ''_test'' then Some (ServerTest serverName ''_test'')
      else if hasSuffix serverName ''-test'' then Some (ServerTest serverName ''-test'') else None)"

text \<open>The three functions that set the type of the identifier differ in the marks and the new declaration.\<close>

definition setIDType :: "string \<Rightarrow> string \<Rightarrow> string \<Rightarrow> string \<Rightarrow> string \<Rightarrow> ('e, string) go" where
  "setIDType subStart subEnd decl note1 handlerCodes =
     go_bind (FindSubBytesNotIn handlerCodes subStart subEnd) (\<lambda>sub.
     if sub = [] then Ok handlerCodes
     else Ok (goReplaceAll handlerCodes (subStart @ sub @ subEnd) (subStart @ NL @ tab @ decl @ subEnd @ note1 @ NL)))"

definition idTypeFixToUint64 :: "string \<Rightarrow> ('e, string) go" where
  "idTypeFixToUint64 = setIDType ''ByIDRequest struct {''
     (bq @ ''json:'' @ dquote @ ''id'' @ dquote @ '' binding:'' @ dquote @ dquote @ bq) ''ID uint64 '' '' // uint64 id''"

definition idTypeToUint64 :: "string \<Rightarrow> ('e, string) go" where
  "idTypeToUint64 = setIDType ''ObjDetail struct {'' (bq @ ''json:'' @ dquote @ ''id'' @ dquote @ bq)
     ''ID uint64 '' '' // convert to uint64 id''"

definition idTypeToStr :: "string \<Rightarrow> ('e, string) go" where
  "idTypeToStr = setIDType ''ObjDetail struct {'' (bq @ ''json:'' @ dquote @ ''id'' @ dquote @ bq)
     ''ID string '' '' // convert to string id''"

definition adjustmentOfIDType :: "string \<Rightarrow> string \<Rightarrow> bool \<Rightarrow> ('e, string) go" where
  "adjustmentOfIDType handlerCodes driver isCommon =
     (if driver = DBDriverMongodb then idTypeToStr handlerCodes
      else if isCommon then Ok handlerCodes
      else go_bind (idTypeFixToUint64 handlerCodes) idTypeToUint64)"

section \<open>Replacement fields from template files\<close>

definition deleteFieldsMark :: "genWorld \<Rightarrow> fsys \<Rightarrow> replacerInfo \<Rightarrow> string \<Rightarrow> string \<Rightarrow> string \<Rightarrow> (genErr, Field list) go" where
  "deleteFieldsMark w fs r filename start stop =
     (case ReadFile (gwOs w) fs r filename of
        Inl _ \<Rightarrow> Ok []
      | Inr data \<Rightarrow> go_bind (FindSubBytes data start stop) (\<lambda>sub. Ok (if sub = [] then [] else [fld sub []])))"

definition deleteAllFieldsMark :: "genWorld \<Rightarrow> fsys \<Rightarrow> replacerInfo \<Rightarrow> string \<Rightarrow> string \<Rightarrow> string \<Rightarrow> (genErr, Field list) go" where
  "deleteAllFieldsMark w fs r filename start stop =
     (case ReadFile (gwOs w) fs r filename of
        Inl _ \<Rightarrow> Ok []
      | Inr data \<Rightarrow> go_bind (FindAllSubBytes data start stop) (\<lambda>subs. Ok (map (\<lambda>s. fld s []) subs)))"

definition DeleteCodeMark :: "genWorld \<Rightarrow> fsys \<Rightarrow> replacerInfo \<Rightarrow> string \<Rightarrow> string \<Rightarrow> string \<Rightarrow> (genErr, Field list) go" where
  "DeleteCodeMark w fs r filename start stop = deleteFieldsMark w fs r filename start stop"

definition replaceFileContentMark :: "genWorld \<Rightarrow> fsys \<Rightarrow> replacerInfo \<Rightarrow> string \<Rightarrow> string \<Rightarrow> Field list" where
  "replaceFileContentMark w fs r filename newContent1 =
     (case ReadFile (gwOs w) fs r filename of Inl _ \<Rightarrow> [] | Inr data \<Rightarrow> [fld data newContent1])"

definition parseImageRepoAddr :: "string \<Rightarrow> string \<times> string" where
  "parseImageRepoAddr addr =
     (let splits = splitOn (CHR ''/'') addr in
      if length splits = 1 then (''https://index.docker.io/v1'', addr)
      else (joinWith ''/'' (butlast splits), last splits))"

section \<open>Files of a generated project\<close>

text \<open>\<open>os.MkdirAll\<close> with its error dropped, and \<open>os.WriteFile\<close>.\<close>

definition mkdirAll :: "osEnv \<Rightarrow> string \<Rightarrow> fsys \<Rightarrow> fsys" where
  "mkdirAll env dir fs =
     (if mkdirFails env dir then fs
      else fs\<lparr>fsDirs := (\<lambda>d. fsDirs fs d \<or> d \<in> set (parentDirs (win env) (dir @ pathDelimiter (win env))))\<rparr>)"

definition writeFile :: "osEnv \<Rightarrow> string \<Rightarrow> string \<Rightarrow> fsys \<Rightarrow> genErr option \<times> fsys" where
  "writeFile env p data fs =
     (if writeFails env p then (Some (SaveFailed p), fs\<lparr>fsFiles := (fsFiles fs)(p := writeLeft env p)\<rparr>)
      else (None, fs\<lparr>fsFiles := (fsFiles fs)(p \<mapsto> data)\<rparr>))"

definition genInfoFile :: "string \<Rightarrow> string" where
  "genInfoFile dir = dir @ ''/docs/gen.info''"

definition saveGenInfo :: "genWorld \<Rightarrow> string \<Rightarrow> string \<Rightarrow> bool \<Rightarrow> string \<Rightarrow> fsys \<Rightarrow> genErr option \<times> fsys" where
  "saveGenInfo w moduleName serverName suitedMonoRepo outputDir fs =
     (let genInfo = moduleName @ '','' @ serverName @ '','' @ (if suitedMonoRepo then ''true'' else ''false'')
      in writeFile (gwOs w) (genInfoFile outputDir) genInfo (mkdirAll (gwOs w) (outputDir @ ''/docs'') fs))"

definition saveEmptySwaggerJSON :: "genWorld \<Rightarrow> string \<Rightarrow> fsys \<Rightarrow> genErr option \<times> fsys" where
  "saveEmptySwaggerJSON w outputDir fs =
     writeFile (gwOs w) (outputDir @ ''/docs/apis.swagger.json'')
       (''{'' @ dquote @ ''swagger'' @ dquote @ '':'' @ dquote @ ''2.0'' @ dquote @ '','' @ dquote @ ''info'' @ dquote @ '':{'' @
        dquote @ ''version'' @ dquote @ '':'' @ dquote @ ''version not set'' @ dquote @ ''}}'')
       (mkdirAll (gwOs w) (outputDir @ ''/docs'') fs)"

definition getNamesFromOutDir :: "fsys \<Rightarrow> string \<Rightarrow> string \<times> string \<times> bool" where
  "getNamesFromOutDir fs dir =
     (if dir = [] then ([], [], False)
      else case fsFiles fs (genInfoFile dir) of
          None \<Rightarrow> ([], [], False)
        | Some data \<Rightarrow> (case splitOn (CHR '','') data of
              [m, s] \<Rightarrow> (m, s, False)
            | m # s # t # _ \<Rightarrow> (m, s, t = ''true'')
            | _ \<Rightarrow> ([], [], False)))"

text \<open>A match of the regular expression \<open>start[\w\W]*?stop\<close>: from the first \<open>start\<close> to the first \<open>stop\<close> behind it.\<close>

definition findLazy :: "string \<Rightarrow> string \<Rightarrow> string \<Rightarrow> string" where
  "findLazy data start stop =
     (case strIndex data start of None \<Rightarrow> [] | Some i \<Rightarrow>
        (case strIndex (drop (i + length start) data) stop of None \<Rightarrow> []
         | Some j \<Rightarrow> take (length start + j + length stop) (drop i data)))"

definition newPackage :: "string \<Rightarrow> string" where
  "newPackage serverName = NL @ ''package api.'' @ serverName @ ''.v1;''"

definition newGoPackage :: "string \<Rightarrow> string \<Rightarrow> string" where
  "newGoPackage moduleName serverName =
     ''go_package = '' @ dquote @ moduleName @ ''/api/'' @ serverName @ ''/v1;v1'' @ dquote @ '';'' @ NL"

definition replacePackage :: "string \<Rightarrow> string \<Rightarrow> string \<Rightarrow> string" where
  "replacePackage data0 moduleName serverName =
     (let data = goReplaceAll data0 [CHR 0x0D, CHR 0x0A] NL;
          packageName = findLazy data (NL @ ''package '') '';'';
          goPackageName = findLazy data ''go_package '' ('';'' @ NL);
          data1 = (if packageName \<noteq> [] then replaceFirst data packageName (newPackage serverName) else data)
      in if goPackageName \<noteq> [] then replaceFirst data1 goPackageName (newGoPackage moduleName serverName) else data1)"

fun saveProtobufFiles :: "genWorld \<Rightarrow> string \<Rightarrow> string \<Rightarrow> string \<Rightarrow> string list \<Rightarrow> fsys \<Rightarrow> genErr option \<times> fsys" where
  "saveProtobufFiles w moduleName serverName dir [] fs = (None, fs)"
| "saveProtobufFiles w moduleName serverName dir (pb # pbs) fs =
     (case fsFiles fs pb of
        None \<Rightarrow> saveProtobufFiles w moduleName serverName dir pbs fs
      | Some content \<Rightarrow>
          let file1 = dir @ ''/'' @ GetFilename (win (gwOs w)) pb; fs1 = mkdirAll (gwOs w) dir fs in
          if IsExists (gwOs w) fs1 file1 then (Some (FileExists file1), fs1)
          else (case writeFile (gwOs w) file1 (replacePackage content moduleName serverName) fs1 of
              (Some e, fs2) \<Rightarrow> (Some e, fs2)
            | (None, fs2) \<Rightarrow> saveProtobufFiles w moduleName serverName dir pbs fs2))"

text \<open>The directory that \<open>saveProtobufFiles\<close> writes to; in a mono repository it is beside the one of the server.\<close>

definition protobufDir :: "genWorld \<Rightarrow> string \<Rightarrow> bool \<Rightarrow> string \<Rightarrow> string" where
  "protobufDir w serverName suitedMonoRepo outputDir =
     (if suitedMonoRepo then trimSuffix (trimSuffix outputDir serverName) (pathDelimiter (win (gwOs w))) else outputDir)
     @ ''/api/'' @ serverName @ ''/v1''"

text \<open>\<open>os.RemoveAll\<close>: everything below the directory, except what cannot be removed.\<close>

definition osRemoveAll :: "genWorld \<Rightarrow> string \<Rightarrow> fsys \<Rightarrow> fsys" where
  "osRemoveAll w dir fs =
     (let gone = (\<lambda>p. (p = dir \<or> (\<exists>c \<in> {CHR ''/'', CHR 0x5C}. isSep (win (gwOs w)) c \<and> hasPrefix p (dir @ [c]))) \<and> \<not> gwKept w p)
      in fs\<lparr>fsFiles := (\<lambda>p. if gone p then None else fsFiles fs p), fsDirs := (\<lambda>p. fsDirs fs p \<and> \<not> gone p)\<rparr>)"

definition apiProtos :: "genWorld \<Rightarrow> string \<Rightarrow> fsys \<Rightarrow> string list" where
  "apiProtos w apiDir fs =
     fst (ListFiles (absPath (gwOs w)) (win (gwOs w)) apiDir (gwReadTree w fs apiDir) True (SuffixFilter ''.proto''))"

definition moveProtoFileToAPIDir :: "genWorld \<Rightarrow> string \<Rightarrow> string \<Rightarrow> bool \<Rightarrow> string \<Rightarrow> fsys \<Rightarrow> genErr option \<times> fsys" where
  "moveProtoFileToAPIDir w moduleName serverName suitedMonoRepo outputDir fs =
     (let apiDir = outputDir @ pathDelimiter (win (gwOs w)) @ ''api'' in
      case saveProtobufFiles w moduleName serverName (protobufDir w serverName suitedMonoRepo outputDir) (apiProtos w apiDir fs) fs of
        (Some e, fs1) \<Rightarrow> (Some e, fs1)
      | (None, fs1) \<Rightarrow> (None, osRemoveAll w apiDir fs1))"

text \<open>The regular expression \<open>\nservice (\w+)\<close>.\<close>

definition wordByte :: "char \<Rightarrow> bool" where
  "wordByte c \<longleftrightarrow> digit c \<or> (65 \<le> byte c \<and> byte c \<le> 90) \<or> (97 \<le> byte c \<and> byte c \<le> 122) \<or> c = CHR ''_''"

fun isExistServiceName :: "string \<Rightarrow> bool" where
  "isExistServiceName [] = False"
| "isExistServiceName (c # s) =
     ((hasPrefix (c # s) (NL @ ''service '') \<and>
       (case drop 9 (c # s) of [] \<Rightarrow> False | d # _ \<Rightarrow> wordByte d)) \<or> isExistServiceName s)"

definition isDependImport :: "string \<Rightarrow> string \<Rightarrow> bool" where
  "isDependImport protoData pkgName = strContains protoData pkgName"

section \<open>Texts by database driver\<close>

definition getDBConfigCode :: "string \<Rightarrow> string" where
  "getDBConfigCode driver =
     (let d = toLower driver in
      if d \<in> {DBDriverMysql, DBDriverTidb} then mysqlConfigCode
      else if d = DBDriverPostgresql then postgresqlConfigCode
      else if d = DBDriverSqlite then sqliteConfigCode
      else if d = DBDriverMongodb then mongodbConfigCode
      else if d = undeterminedDBDriver then undeterminedDatabaseConfigCode
      else [])"

definition getInitDBCode :: "string \<Rightarrow> ('e, string) go" where
  "getInitDBCode driver =
     (let d = toLower driver in
      if d \<in> {DBDriverMysql, DBDriverTidb} then Ok modelInitDBFileMysqlCode
      else if d = DBDriverPostgresql then Ok modelInitDBFilePostgresqlCode
      else if d = DBDriverSqlite then Ok modelInitDBFileSqliteCode
      else if d = DBDriverMongodb then Ok []
      else Panic)"

definition GetDBConfigurationCode :: "string \<Rightarrow> string" where
  "GetDBConfigurationCode driver = getDBConfigCode driver"

definition GetInitDataBaseCode :: "string \<Rightarrow> ('e, string) go" where
  "GetInitDataBaseCode driver = getInitDBCode driver"

definition getLocalSpongeTemplateVersion :: "genWorld \<Rightarrow> fsys \<Rightarrow> string" where
  "getLocalSpongeTemplateVersion w fs =
     (case gwHome w of None \<Rightarrow> [] | Some dir \<Rightarrow>
        (case fsFiles fs (dir @ ''/.sponge/.github/version'') of None \<Rightarrow> []
         | Some v \<Rightarrow> if v = [] then [] else ''github.com/go-dev-frame/sponge '' @ v))"

definition getEmbedTimeCode :: "bool \<Rightarrow> string" where
  "getEmbedTimeCode isEmbed = (if isEmbed then embedTimeCode else [])"

definition getExpectedSQLForDeletion :: "bool \<Rightarrow> string" where
  "getExpectedSQLForDeletion isEmbed =
     (if \<not> isEmbed then goReplaceAll expectedSQLForDeletion ''UPDATE'' ''DELETE'' else expectedSQLForDeletion)"

definition getExpectedSQLForDeletionField :: "bool \<Rightarrow> Field list" where
  "getExpectedSQLForDeletionField isEmbed =
     (if getExpectedSQLForDeletion isEmbed \<noteq> expectedSQLForDeletion then
      [fld expectedSQLForDeletion (getExpectedSQLForDeletion isEmbed),
      fld ''expectedArgsForDeletionTime := d.AnyTime'' [],
      fld ''expectedArgsForDeletionTime := h.MockDao.AnyTime'' [],
      fld ''WithArgs(expectedArgsForDeletionTime, testData.ID)'' ''WithArgs(testData.ID)'']
      else [])"

section \<open>Configuration files\<close>

text \<open>\<open>bufio.Scanner\<close> over lines: a line of 64 KB or more is an error, a carriage return at the end is cut.\<close>

definition dropCR :: "string \<Rightarrow> string" where
  "dropCR l = (if l \<noteq> [] \<and> last l = CHR 0x0D then butlast l else l)"

definition scanLines :: "string \<Rightarrow> string list option" where
  "scanLines data =
     (let ls = splitOn (CHR 0x0A) data; raw = (if last ls = [] then butlast ls else ls)
      in if list_ex (\<lambda>l. 65536 \<le> length l) raw then None else Some (map dropCR raw))"

definition convertYamlConfig :: "fsys \<Rightarrow> string \<Rightarrow> (genErr, string) go" where
  "convertYamlConfig fs configFile =
     (case fsFiles fs configFile of
        None \<Rightarrow> Err (OpenFailed configFile)
      | Some data \<Rightarrow> (case scanLines data of
            None \<Rightarrow> Err LineTooLong
          | Some ls \<Rightarrow> Ok (joinWith NL (map (\<lambda>l. ''    '' @ l) ls))))"

definition generateConfigmap :: "genWorld \<Rightarrow> string \<Rightarrow> string \<Rightarrow> fsys \<Rightarrow> (genErr, unit) go \<times> fsys" where
  "generateConfigmap w serverName out fs =
     (let configFile = out @ ''/configs/'' @ serverName @ ''.yml'';
          configmapFile = out @ ''/deployments/kubernetes/'' @ serverName @ ''-configmap.yml''
      in case convertYamlConfig fs configFile of
           Err e \<Rightarrow> (Err e, fs)
         | Panic \<Rightarrow> (Panic, fs)
         | Ok configData \<Rightarrow>
            (case fsFiles fs configmapFile of
               None \<Rightarrow> (Err (OpenFailed configmapFile), fs)
             | Some data \<Rightarrow>
                 (case writeFile (gwOs w) configmapFile (goReplaceAll data configmapFileMark configData) fs of
                    (Some e, fs1) \<Rightarrow> (Err e, fs1)
                  | (None, fs1) \<Rightarrow> (Ok (), fs1))))"

definition sqliteDSNAdaptation :: "genWorld \<Rightarrow> string \<Rightarrow> string \<Rightarrow> string" where
  "sqliteDSNAdaptation w driver dsn =
     (if driver = DBDriverSqlite \<and> win (gwOs w)
      then goReplaceAll (goReplaceAll dsn bsl (bsl @ bsl)) ''/'' (bsl @ bsl) else dsn)"

text \<open>The capacity \<open>len(slice)-1\<close> of the new slice panics on an empty one.\<close>

definition removeElements :: "string list \<Rightarrow> string list \<Rightarrow> ('e, string list) go" where
  "removeElements sl elements =
     (if elements = [] then Ok sl
      else if sl = [] then Panic
      else Ok (filter (\<lambda>s. s \<notin> set elements) sl))"

section \<open>Fields for servers in one repository\<close>

definition adaptDupCode :: "string \<Rightarrow> string \<Rightarrow> string" where
  "adaptDupCode serverType serverName =
     (if serverType = codeNameHTTP then dupCodeMark else ''--dir='' @ serverName @ ''/internal/ecode'')"

definition serverCodeFields :: "string \<Rightarrow> string \<Rightarrow> string \<Rightarrow> Field list" where
  "serverCodeFields serverType moduleName serverName =
     [fld (dquote @ moduleName @ ''/internal/'') (dquote @ moduleName @ ''/'' @ serverName @ ''/internal/''),
      fld ''=$(cat docs/gen.info'' (''=$(cat '' @ serverName @ ''/docs/gen.info''),
      fld dupCodeMark (adaptDupCode serverType serverName),
      fld (dquote @ moduleName @ ''/cmd/'') (dquote @ moduleName @ ''/'' @ serverName @ ''/cmd/''),
      fld (dquote @ moduleName @ ''/configs'') (dquote @ moduleName @ ''/'' @ serverName @ ''/configs''),
      fld (dquote @ moduleName @ ''/docs'') (dquote @ moduleName @ ''/'' @ serverName @ ''/docs''),
      fld (dquote @ moduleName @ ''/api'') (dquote @ moduleName @ ''/'' @ serverName @ ''/api''),
      fld ''merge_file_name=docs/apis.json'' (''merge_file_name='' @ serverName @ ''/docs/apis.json''),
      fld ''--file=docs/apis.swagger.json'' (''--file='' @ serverName @ ''/docs/apis.swagger.json''),
      fld ''sponge merge http-pb'' (''sponge merge http-pb --dir='' @ serverName),
      fld ''sponge merge rpc-pb'' (''sponge merge rpc-pb --dir='' @ serverName),
      fld ''sponge merge rpc-gw-pb'' (''sponge merge rpc-gw-pb --dir='' @ serverName),
      fld ''docs/apis.html'' (serverName @ ''/docs/apis.html''),
      fld ''sponge patch gen-types-pb --out=./'' typePbShellCode,
      fld (''protoBasePath='' @ dquote @ ''api'' @ dquote) monoRepoAPIPath,
      fld ''HOST_ADDR=$1'' monoRepoHTTPPatch,
      fld ''genServerType=$1'' (''genServerType='' @ dquote @ serverType @ dquote),
      fld (''go get '' @ moduleName @ ''@'') (''go get '' @ ''github.com/go-dev-frame/sponge'' @ ''@'')]"

definition SubServerCodeFields :: "string \<Rightarrow> string \<Rightarrow> Field list" where
  "SubServerCodeFields moduleName serverName =
     [fld (dquote @ moduleName @ ''/internal/'') (dquote @ moduleName @ ''/'' @ serverName @ ''/internal/''),
      fld (dquote @ moduleName @ ''/configs'') (dquote @ moduleName @ ''/'' @ serverName @ ''/configs''),
      fld (dquote @ moduleName @ ''/api'') (dquote @ moduleName @ ''/'' @ serverName @ ''/api'')]"

definition changeOutPath :: "genWorld \<Rightarrow> string \<Rightarrow> string \<Rightarrow> string" where
  "changeOutPath w out serverName =
     (if out \<in> {[], ''.'', ''./'', ''.'' @ bsl, serverName, ''./'' @ serverName, ''.'' @ bsl @ serverName} then serverName
      else out @ pathDelimiter (win (gwOs w)) @ serverName)"

section \<open>Selections of template files\<close>

definition getSubFiles :: "(selection \<Rightarrow> selection) \<Rightarrow> selection \<Rightarrow> selection \<Rightarrow> string list" where
  "getSubFiles visit1 selectFiles replaceFiles =
     concat (map (\<lambda>(dir, filenames).
        map (\<lambda>f. dir @ ''/'' @ f) (case map_of replaceFiles dir of Some v \<Rightarrow> v | None \<Rightarrow> filenames)) (visit1 selectFiles))"

definition getTemplateFiles :: "(selection \<Rightarrow> selection) \<Rightarrow> selection \<Rightarrow> string list" where
  "getTemplateFiles visit1 files1 =
     concat (map (\<lambda>(dir, filenames). map (\<lambda>f. dir @ ''/'' @ f) (filter (\<lambda>f. hasSuffix f tplSuffix) filenames)) (visit1 files1))"

definition SetSelectFiles :: "string \<Rightarrow> selection \<Rightarrow> (genErr, selection) go" where
  "SetSelectFiles driver selectFiles =
     (let d = toLower driver; put = (\<lambda>fs. Ok (AList.update ''internal/database'' fs selectFiles)) in
      if d \<in> {DBDriverMysql, DBDriverTidb} then put [''init.go'', ''redis.go'', ''mysql.go'']
      else if d = DBDriverPostgresql then put [''init.go'', ''redis.go'', ''postgresql.go'']
      else if d = DBDriverSqlite then put [''init.go'', ''redis.go'', ''sqlite.go'']
      else if d = DBDriverMongodb then put [''init.go.mgo'', ''redis.go'', ''mongodb.go.mgo'']
      else Err (UnsupportedDriver d))"

definition unmarshalCrudInfo :: "genWorld \<Rightarrow> string \<Rightarrow> genErr + crudInfo" where
  "unmarshalCrudInfo w str =
     (if str = [] then Inl EmptyCrudInfo else case gwDecode w str of None \<Rightarrow> Inl CrudInfoError | Some i \<Rightarrow> Inr i)"

text \<open>The generators drop the error, and go on with a nil pointer.\<close>

definition crudInfoOf :: "genWorld \<Rightarrow> string \<Rightarrow> crudInfo option" where
  "crudInfoOf w str = (case unmarshalCrudInfo w str of Inl _ \<Rightarrow> None | Inr i \<Rightarrow> Some i)"

definition replaceTemplateFileContent :: "genWorld \<Rightarrow> fsys \<Rightarrow> replacerInfo \<Rightarrow> string \<Rightarrow> crudInfo \<Rightarrow> (genErr, Field) go" where
  "replaceTemplateFileContent w fs r file1 info =
     (case ReadFile (gwOs w) fs r file1 of
        Inl e \<Rightarrow> Err (SaveError e)
      | Inr data \<Rightarrow>
          (case gwRender w file1 (goReplaceAll data ''{{{.ColumnNameCamelFCL}}}'' (''{'' @ cColumnNameCamelFCL info @ ''}'')) info of
             Inl e \<Rightarrow> Err (TemplateError e)
           | Inr dst \<Rightarrow>
               let dst1 = (if strContains dst ''utils.'' then dst
                           else goReplaceAll dst (dquote @ ''github.com/go-dev-frame/sponge/pkg/utils'' @ dquote) []);
                   dst2 = (if strContains dst1 ''math.MaxInt32'' then dst1 else goReplaceAll dst1 (dquote @ ''math'' @ dquote) [])
               in Ok (fld data dst2)))"

fun replaceFilesContent :: "genWorld \<Rightarrow> fsys \<Rightarrow> replacerInfo \<Rightarrow> string list \<Rightarrow> crudInfo \<Rightarrow> (genErr, Field list) go" where
  "replaceFilesContent w fs r [] info = Ok []"
| "replaceFilesContent w fs r (f # fl) info =
     go_bind (replaceTemplateFileContent w fs r f info) (\<lambda>x.
     go_bind (replaceFilesContent w fs r fl info) (\<lambda>xs. Ok (if Old x = [] then xs else x # xs)))"

section \<open>Versions, titles and data sources\<close>

record goVer =
  major :: string
  minor :: string
  patch :: string
  goVersion :: string

text \<open>The regular expression \<open>go(\d+)\.(\d+)(\.(\d+))?\<close> at the start of a text, and its leftmost match.\<close>

definition digitsOf :: "string \<Rightarrow> string \<times> string" where
  "digitsOf s = (takeWhile digit s, dropWhile digit s)"

definition versionAt :: "string \<Rightarrow> goVer option" where
  "versionAt s =
     (if \<not> hasPrefix s ''go'' then None
      else case digitsOf (drop 2 s) of (m, rest) \<Rightarrow>
        if m = [] \<or> rest = [] \<or> hd rest \<noteq> CHR ''.'' then None
        else case digitsOf (tl rest) of (n, rest2) \<Rightarrow>
          if n = [] then None
          else let p = (if rest2 \<noteq> [] \<and> hd rest2 = CHR ''.'' then fst (digitsOf (tl rest2)) else [])
               in Some \<lparr>major = m, minor = n, patch = p,
                        goVersion = ''go '' @ m @ ''.'' @ n @ (if p \<noteq> [] then ''.'' @ p else [])\<rparr>)"

fun findVersion :: "string \<Rightarrow> goVer option" where
  "findVersion [] = None"
| "findVersion (c # s) = (case versionAt (c # s) of Some v \<Rightarrow> Some v | None \<Rightarrow> findVersion s)"

text \<open>\<open>utils.StrToInt\<close>: \<open>strconv.Atoi\<close> with its error dropped gives 0 for what is no number and the bound for what is too large.\<close>

definition StrToInt :: "string \<Rightarrow> int" where
  "StrToInt s =
     (let neg = (s \<noteq> [] \<and> hd s = CHR ''-''); ds = (if s \<noteq> [] \<and> hd s \<in> {CHR ''-'', CHR ''+''} then tl s else s)
      in if \<not> all_digits ds then 0
         else if neg then max (- (2 ^ 63)) (- int (digits_val ds)) else min (2 ^ 63 - 1) (int (digits_val ds)))"

definition versionLess :: "goVer \<Rightarrow> goVer \<Rightarrow> bool" where
  "versionLess a b =
     (if major a \<noteq> major b then StrToInt (major a) > StrToInt (major b)
      else if minor a \<noteq> minor b then StrToInt (minor a) > StrToInt (minor b)
      else StrToInt (patch a) > StrToInt (patch b))"

text \<open>\<open>sort.Slice\<close> sorts fewer than twelve elements by insertion: an element moves left while it is smaller.\<close>

fun insertLeft :: "('a \<Rightarrow> 'a \<Rightarrow> bool) \<Rightarrow> 'a \<Rightarrow> 'a list \<Rightarrow> 'a list" where
  "insertLeft lt x [] = [x]"
| "insertLeft lt x (y # ys) = (if lt x y then y # insertLeft lt x ys else x # y # ys)"

definition sortSlice :: "('a \<Rightarrow> 'a \<Rightarrow> bool) \<Rightarrow> 'a list \<Rightarrow> 'a list" where
  "sortSlice lt xs = rev (foldl (\<lambda>sorted x. insertLeft lt x sorted) [] xs)"

definition getLocalGoVersion :: "genWorld \<Rightarrow> string" where
  "getLocalGoVersion w =
     (case gwGoVersion w of
        None \<Rightarrow> defaultGoModVersion
      | Some result \<Rightarrow>
          (case sortSlice versionLess (List.map_filter findVersion [goReplaceAll defaultGoModVersion '' '' [], result]) of
             [] \<Rightarrow> defaultGoModVersion
           | v # _ \<Rightarrow> goVersion v))"

definition cutPath :: "genWorld \<Rightarrow> string \<Rightarrow> string" where
  "cutPath w srcFilePath =
     goReplaceAll (goReplaceAll srcFilePath (case absPath (gwOs w) ''.'' of None \<Rightarrow> [] | Some p \<Rightarrow> p) ''.'') bsl ''/''"

definition wrapPoint :: "string \<Rightarrow> string" where
  "wrapPoint s = bq @ s @ bq"

definition setReadmeTitle :: "string \<Rightarrow> string \<Rightarrow> string \<Rightarrow> bool \<Rightarrow> string" where
  "setReadmeTitle moduleName serverName serverType suitedMonoRepo =
     (let repoType = (if suitedMonoRepo then ''mono-repo'' else if serverType = codeNameHTTP then ''monolith'' else ''multi-repo'')
      in wellPrefix @ serverName @ textLines
         [[], [], ''| Feature             | Value          |'', ''| :----------------: | :-----------: |'',
          ''| Server name      |  '' @ wrapPoint serverName @ ''   |'',
          ''| Server type        |  '' @ wrapPoint serverType @ ''   |'',
          ''| Go module name |  '' @ wrapPoint moduleName @ ''  |'',
          ''| Repository type   |  '' @ wrapPoint repoType @ ''  |'', [], []])"

definition GetGoModFields :: "genWorld \<Rightarrow> fsys \<Rightarrow> string \<Rightarrow> Field list" where
  "GetGoModFields w fs moduleName =
     [fld ''github.com/go-dev-frame/sponge'' moduleName,
      fld defaultGoModVersion (getLocalGoVersion w),
      fld spongeTemplateVersionMark (getLocalSpongeTemplateVersion w fs)]"

text \<open>\<open>utils.DeleteBrackets\<close> (\<open>pkg/utils/dsn.go\<close>), and the address of a PostgreSQL database.\<close>

definition lastStrIndex :: "string \<Rightarrow> string \<Rightarrow> int" where
  "lastStrIndex s sub =
     (case strIndex (rev s) (rev sub) of None \<Rightarrow> -1 | Some i \<Rightarrow> int (length s) - int i - int (length sub))"

definition DeleteBrackets :: "string \<Rightarrow> ('e, string) go" where
  "DeleteBrackets str =
     (let start = bytesIndex str ''@(''; stop = lastStrIndex str '')/'' in
      if start = -1 \<or> stop = -1 then Ok str
      else go_bind (goSlice str (start + 2) stop) (\<lambda>addr.
             Ok (replaceFirst str (''@('' @ addr @ '')/'') (''@'' @ addr @ ''/''))))"

definition adaptPgDsn :: "genWorld \<Rightarrow> string \<Rightarrow> ('e, string) go" where
  "adaptPgDsn w dsn0 =
     go_bind (DeleteBrackets (if strContains dsn0 ''postgres://'' then dsn0 else ''postgres://'' @ dsn0)) (\<lambda>dsn.
     case gwParseURL w dsn of
       None \<Rightarrow> Ok dsn
     | Some (rawQuery, render) \<Rightarrow>
         let q = (if rawQuery = [] then ''sslmode=disable''
                  else if gwQueryGet w rawQuery ''sslmode'' = [] then ''sslmode=disable&'' @ rawQuery else rawQuery)
         in Ok (goReplaceAll (render q) ''postgres://'' []))"

definition getHTTPServiceFields :: "Field list" where
  "getHTTPServiceFields =
     [fld appConfigFileMark3 [],
      fld ''http.go.noregistry'' ''http.go'',
      fld ''http_option.go.noregistry'' ''http_option.go'',
      fld (''registryDiscoveryType: '' @ dquote @ dquote) (''#registryDiscoveryType: '' @ dquote @ dquote)]"

definition getGRPCServiceFields :: "Field list" where
  "getGRPCServiceFields =
     [fld appConfigFileMark3 (''# consul settings'' @ NL @ ''#consul:'' @ NL @ ''#  addr: '' @ dquote @ ''192.168.3.37:8500'' @ dquote @ NL @ NL @ NL @ ''# etcd settings'' @ NL @ ''#etcd:'' @ NL @ ''#  addrs: ['' @ dquote @ ''192.168.3.37:2379'' @ dquote @ '']'' @ NL @ NL @ NL @ ''# nacos settings, used in service registration discovery'' @ NL @ ''#nacosRd:'' @ NL @ ''#  ipAddr: '' @ dquote @ ''192.168.3.37'' @ dquote @ NL @ ''#  port: 8848'' @ NL @ ''#  namespaceID: '' @ dquote @ ''3454d2b5-2455-4d0e-bf6d-e033b086bb4c'' @ dquote @ ''   # namespace id''),
      fld (''registryDiscoveryType: '' @ dquote @ dquote) (''#registryDiscoveryType: '' @ dquote @ dquote)]"

section \<open>The template directory: init.go\<close>

definition getHomeDir :: "genWorld \<Rightarrow> string" where
  "getHomeDir w = (case gwHome w of None \<Rightarrow> [] | Some dir \<Rightarrow> dir)"

definition MiladyDir :: "genWorld \<Rightarrow> string" where
  "MiladyDir w = getHomeDir w @ pathDelimiter (win (gwOs w)) @ ''.milady''"

definition isShowCommand :: "string list \<Rightarrow> bool" where
  "isShowCommand args =
     (if length args = 1 then True
      else if length args = 2 then args ! 1 = ''init'' \<or> args ! 1 = ''-h''
      else if length args > 2 then strContains (concat (take 3 args)) ''init''
      else False)"

text \<open>\<open>replacer.New(MiladyDir)\<close>.\<close>

definition openTemplates :: "genWorld \<Rightarrow> replErr + replacerInfo" where
  "openTemplates w = newReplacer (gwOs w) (MiladyDir w) (gwTree w)"

text \<open>\<open>Init\<close> sets the global replacer, and panics when there is one.\<close>

definition initTemplates :: "genWorld \<Rightarrow> string list \<Rightarrow> fsys \<Rightarrow> replacerInfo option \<Rightarrow> (genErr, replacerInfo option) go" where
  "initTemplates w args fs replacer1 =
     (if \<not> IsExists (gwOs w) fs (MiladyDir w) then (if isShowCommand args then Ok replacer1 else Err NotInitialized)
      else if replacer1 \<noteq> None then Panic
      else case openTemplates w of Inl e \<Rightarrow> Err (SaveError e) | Inr r \<Rightarrow> Ok (Some r))"

section \<open>Generators\<close>

text \<open>
  The structs of the generators that work on a table. \<open>handlerGenerator\<close> and \<open>serviceGenerator\<close> have the same
  fields, and so have \<open>httpGenerator\<close> and \<open>rpcGenerator\<close>, with three more; \<open>daoGenerator\<close> and \<open>storeGenerator\<close>
  have a flag more and do not use \<open>commonStyle\<close>.
\<close>

record handlerGenerator =
  moduleName :: string
  dbDriver :: string
  codes :: "(string \<times> string) list"
  gOutPath :: string
  serverName :: string
  isEmbed :: bool
  isExtendedAPI :: bool
  suitedMonoRepo :: bool
  gFields :: "Field list"
  commonStyle :: bool

record httpGenerator = handlerGenerator +
  projectName :: string
  repoAddr :: string
  dbDSN :: string

record daoGenerator = handlerGenerator +
  isIncludeInitDB :: bool

text \<open>A key that the map does not have gives the empty text.\<close>

definition codeIn :: "(string \<times> string) list \<Rightarrow> string \<Rightarrow> string" where
  "codeIn cs k = (case map_of cs k of None \<Rightarrow> [] | Some c \<Rightarrow> c)"

definition codeOf :: "'a handlerGenerator_scheme \<Rightarrow> string \<Rightarrow> string" where
  "codeOf g k = codeIn (codes g) k"

text \<open>
  The last steps of every \<open>generateCode\<close>: the replacer is told what to copy, where to, and the fields, and saves the
  files. The fields read the replacer after its files have been chosen; they do not depend on the output directory.
\<close>

definition runReplacer :: "genWorld \<Rightarrow> string list \<Rightarrow> string list \<Rightarrow> string list \<Rightarrow> string list \<Rightarrow> string \<Rightarrow> string list \<Rightarrow>
    (replacerInfo \<Rightarrow> (genErr, Field list) go) \<Rightarrow> replacerInfo \<Rightarrow> fsys \<Rightarrow> (genErr, replacerInfo) go \<times> fsys" where
  "runReplacer w subDirs subFiles ignDirs ignFiles out names addFields r fs =
     (let env = gwOs w;
          r1 = SetIgnoreSubFiles ignFiles (SetIgnoreSubDirs env ignDirs (SetSubDirsAndFiles env subDirs subFiles r));
          r2 = (case SetOutputDir env out names r1 of Inl _ \<Rightarrow> r1 | Inr r' \<Rightarrow> r')
      in case addFields r2 of
           Err e \<Rightarrow> (Err e, fs)
         | Panic \<Rightarrow> (Panic, fs)
         | Ok fields1 \<Rightarrow> (case SaveFiles env (SetReplacementFields fields1 r2) fs of
               (Some e, r', fs') \<Rightarrow> (Err (SaveError e), fs')
             | (None, r', fs') \<Rightarrow> (Ok r', fs')))"

text \<open>What a generator does with the replacer: the changed generator, the chosen files, and the directories to copy.\<close>

record plan =
  pSubDirs :: "string list"
  pSubFiles :: "string list"
  pSelect :: selection
  pReplace :: selection

definition planFiles :: "genWorld \<Rightarrow> plan \<Rightarrow> string list" where
  "planFiles w p = pSubFiles p @ getSubFiles (gwVisit w 1) (pSelect p) (pReplace p)"

text \<open>
  The \<open>model\<close>, \<open>protobuf\<close>, \<open>cache\<close>, \<open>rpc-conn\<close> and \<open>cm\<close> commands share the global replacer \<open>Replacers[TplNameMilady]\<close>: its
  choice of files stays for the next run.
\<close>

definition useGlobal :: "genWorld \<Rightarrow> string list \<Rightarrow> string list \<Rightarrow> string list \<Rightarrow> string \<Rightarrow> string \<Rightarrow>
    (replacerInfo \<Rightarrow> (genErr, Field list) go) \<Rightarrow> replacerInfo option \<Rightarrow> fsys \<Rightarrow> (genErr, string \<times> replacerInfo option) go \<times> fsys" where
  "useGlobal w subDirs subFiles ignFiles out name addFields replacer1 fs =
     (case replacer1 of
        None \<Rightarrow> (Err ReplacerNil, fs)
      | Some r \<Rightarrow> (case runReplacer w subDirs subFiles [] ignFiles out [name] addFields r fs of
            (Ok r', fs') \<Rightarrow> (Ok (outPath r', Some r'), fs')
          | (Err e, fs') \<Rightarrow> (Err e, fs')
          | (Panic, fs') \<Rightarrow> (Panic, fs')))"

text \<open>A generated project: its directory, or the error.\<close>

definition outDirOf :: "(genErr, replacerInfo) go \<times> fsys \<Rightarrow> (genErr, string) go \<times> fsys" where
  "outDirOf res = (case res of (Ok r, fs) \<Rightarrow> (Ok (outPath r), fs) | (Err e, fs) \<Rightarrow> (Err e, fs) | (Panic, fs) \<Rightarrow> (Panic, fs))"

section \<open>What a run keeps\<close>

definition keepsFiles :: "fsys \<Rightarrow> fsys \<Rightarrow> bool" where
  "keepsFiles fs fs' \<longleftrightarrow> (\<forall>p d. fsFiles fs p = Some d \<longrightarrow> fsFiles fs' p = Some d)"

lemma keepsFiles_refl [simp]: "keepsFiles fs fs"
  by (simp add: keepsFiles_def)

lemma keepsFiles_trans: "keepsFiles fs fs1 \<Longrightarrow> keepsFiles fs1 fs2 \<Longrightarrow> keepsFiles fs fs2"
  by (simp add: keepsFiles_def)

lemma SaveFiles_keeps: "visitsAll env \<Longrightarrow> SaveFiles env r fs = (e, r', fs') \<Longrightarrow> keepsFiles fs fs'"
  unfolding keepsFiles_def by (metis SaveFiles_changes option.distinct(1))

lemma runReplacer_keeps:
  assumes "visitsAll (gwOs w)" "runReplacer w ds fls igd igf out ns addF r fs = (res, fs')"
  shows "keepsFiles fs fs'"
  using assms(2) SaveFiles_keeps [OF assms(1)]
  by (auto simp: runReplacer_def Let_def split: go.splits prod.splits option.splits)

lemma outDirOf_keeps: "outDirOf (res, fs') = (res', fs'') \<Longrightarrow> keepsFiles fs fs' \<Longrightarrow> keepsFiles fs fs''"
  by (auto simp: outDirOf_def split: go.splits)

lemma useGlobal_keeps:
  assumes "visitsAll (gwOs w)" "useGlobal w ds fls igf out n addF r fs = (res, fs')"
  shows "keepsFiles fs fs'"
  using assms(2) runReplacer_keeps [OF assms(1)]
  by (auto simp: useGlobal_def split: go.splits prod.splits option.splits)

section \<open>Project information\<close>

lemma mkdirAll_files [simp]: "fsFiles (mkdirAll env d fs) = fsFiles fs"
  by (simp add: mkdirAll_def)

text \<open>
  The names of a project survive: what a server generator saves in \<open>docs/gen.info\<close> is what the commands that add
  code to the project read from its directory, as long as no name has a comma.
\<close>

theorem gen_info_round_trip:
  assumes "dir \<noteq> []" "saveGenInfo w m s mr dir fs = (None, fs')" "CHR '','' \<notin> set m" "CHR '','' \<notin> set s"
  shows "getNamesFromOutDir fs' dir = (m, s, mr)"
proof -
  let ?b = "if mr then ''true'' else ''false''"
  from assms(2) have f: "fsFiles fs' (genInfoFile dir) = Some (m @ CHR '','' # s @ CHR '','' # ?b)"
    by (auto simp: saveGenInfo_def writeFile_def Let_def split: if_splits)
  have "splitOn (CHR '','') (m @ CHR '','' # s @ CHR '','' # ?b) = [m, s, ?b]"
    using assms(3,4) by (simp add: splitOn_append_sep splitOn_free)
  with f assms(1) show ?thesis by (simp add: getNamesFromOutDir_def)
qed

section \<open>Package names of protocol files\<close>

lemma findLazy_first:
  assumes "startsNone a start" "start \<noteq> []" "startsNone t stop" "stop \<noteq> []"
  shows "findLazy (a @ start @ t @ stop @ b) start stop = start @ t @ stop"
proof -
  from assms have "strIndex (a @ start @ t @ stop @ b) start = Some (length a)"
    "strIndex (t @ stop @ b) stop = Some (length t)"
    by (simp_all add: strIndex_first)
  then show ?thesis by (simp add: findLazy_def)
qed

text \<open>
  Moving a protocol file into a project replaces its package and its Go package, and nothing else: the first
  \<open>package\<close> line up to its semicolon, and the first \<open>go_package\<close> option up to the first semicolon at the end of a line.
\<close>

theorem replace_package:
  assumes data: "data = pre @ NL @ ''package '' @ pk @ '';'' @ mid @ ''go_package '' @ gp @ '';'' @ NL @ post"
    and nl: "\<not> strContains data [CHR 0x0D, CHR 0x0A]"
    and pk: "startsNone pre (NL @ ''package '')" "CHR '';'' \<notin> set pk"
    and gp: "startsNone (pre @ NL @ ''package '' @ pk @ '';'' @ mid) ''go_package ''" "startsNone gp ('';'' @ NL)"
      "startsNone (pre @ newPackage s @ mid) ''go_package ''"
  shows "replacePackage data m s = pre @ newPackage s @ mid @ newGoPackage m s @ post"
proof -
  let ?P = "(NL @ ''package '') @ pk @ '';''" and ?G = "''go_package '' @ gp @ '';'' @ NL"
  have "startsNone pk '';''" using pk(2) by (auto simp: startsNone_def strContains_iff)
  from findLazy_first [OF pk(1) _ this, of "mid @ ?G @ post"]
  have P: "findLazy data (NL @ ''package '') '';'' = ?P" by (simp add: data)
  from findLazy_first [OF gp(1) _ gp(2), of post]
  have G: "findLazy data ''go_package '' ('';'' @ NL) = ?G" by (simp add: data)
  from replaceFirst_first [OF pk(1), of "pk @ '';''" "mid @ ?G @ post"]
  have one: "replaceFirst data ?P (newPackage s) = pre @ newPackage s @ mid @ ?G @ post" by (simp add: data)
  from replaceFirst_first [OF gp(3), of "gp @ '';'' @ NL" post]
  have two: "replaceFirst (pre @ newPackage s @ mid @ ?G @ post) ?G (newGoPackage m s) = pre @ newPackage s @ mid @ newGoPackage m s @ post"
    by simp
  have "goReplaceAll data [CHR 0x0D, CHR 0x0A] NL = data" using nl by (simp add: goReplaceAll_def replaceAll_absent)
  with P G one two show ?thesis by (simp add: replacePackage_def Let_def del: replaceFirst.simps)
qed

text \<open>
  A comment behind the option moves its end to the next line that ends in a semicolon: the import between the two
  is deleted.
\<close>

lemma go_package_comment_swallows:
  "replacePackage
     (''x'' @ NL @ ''package a;'' @ NL @ ''option go_package = b; // c'' @ NL @ ''import d;'' @ NL @ ''e'') ''m'' ''s''
   = ''x'' @ newPackage ''s'' @ NL @ ''option '' @ newGoPackage ''m'' ''s'' @ ''e''"
  by code_simp

section \<open>Marked blocks\<close>

lemma bytesIndex_absent: "\<not> strContains data q \<Longrightarrow> bytesIndex data q = -1"
  by (simp add: bytesIndex_def strIndex_None [symmetric])

lemma bytesIndex_nonneg: "strContains data q \<Longrightarrow> 0 \<le> bytesIndex data q"
  using strIndex_None [of data q] by (cases "strIndex data q") (auto simp: bytesIndex_def)

lemma bytesIndex_bound:
  assumes "strContains data q"
  shows "bytesIndex data q + int (length q) \<le> int (length data)"
proof -
  obtain i where i: "strIndex data q = Some i" using assms strIndex_None by fastforce
  from strIndex_prefix [OF i] obtain t where "drop i data = q @ t" "i \<le> length data" by (auto simp: hasPrefix_iff)
  then have "length q \<le> length (drop i data)" by simp
  with \<open>i \<le> length data\<close> i show ?thesis by (simp add: bytesIndex_def)
qed

lemma bytesIndex_first: "startsNone a q \<Longrightarrow> q \<noteq> [] \<Longrightarrow> bytesIndex (a @ q @ b) q = int (length a)"
  by (simp add: bytesIndex_def strIndex_first)

lemma findSubByte2_block:
  assumes "startsNone a start" "start \<noteq> []" "startsNone (a @ start @ m) stop" "stop \<noteq> []"
  shows "findSubByte2 (a @ start @ m @ stop @ b) start stop
    = Ok (start @ m @ stop, int (length (a @ start @ m @ stop)))"
proof -
  let ?d = "a @ start @ m @ stop @ b"
  from bytesIndex_first [OF assms(1,2)] have s: "bytesIndex ?d start = int (length a)" by simp
  from bytesIndex_first [OF assms(3,4)] have e: "bytesIndex ?d stop = int (length (a @ start @ m))" by simp
  have "\<not> int (length start) + int (length m) \<le> 0" using assms(2) by (cases start) auto
  then show ?thesis using s e by (simp add: findSubByte2_def goSlice_def Let_def nat_add_distrib)
qed

lemma FindSubBytes_panic:
  "FindSubBytes data start stop = Panic \<longleftrightarrow> strContains data stop \<and> \<not> strContains data start"
proof -
  let ?s = "bytesIndex data start" and ?e = "bytesIndex data stop"
  consider "\<not> strContains data stop" | "strContains data stop" "\<not> strContains data start"
    | "strContains data stop" "strContains data start" by blast
  then show ?thesis
  proof cases
    case 1
    have "-1 \<le> ?s" using bytesIndex_nonneg bytesIndex_absent by (metis neg_le_0_iff_le order_refl order_trans zero_le_one)
    with 1 show ?thesis by (simp add: FindSubBytes_def bytesIndex_absent)
  next
    case 2
    with bytesIndex_nonneg [OF 2(1)] show ?thesis
      by (simp add: FindSubBytes_def bytesIndex_absent goSlice_def Let_def)
  next
    case 3
    with bytesIndex_nonneg [OF 3(2)] bytesIndex_bound [OF 3(1)] show ?thesis
      by (auto simp: FindSubBytes_def goSlice_def Let_def)
  qed
qed

text \<open>
  C39: A template file is cut between its marks: the field deletes the first marked block with its marks, a file
  without the end mark gives none, and a file with an end mark and no start mark stops the program with a panic.
\<close>

theorem marked_block:
  assumes "ReadFile (gwOs w) fs r f = Inr data" "start \<noteq> []" "stop \<noteq> []"
  shows "(deleteFieldsMark w fs r f start stop = Panic \<longleftrightarrow> strContains data stop \<and> \<not> strContains data start)
    \<and> (\<not> strContains data stop \<longrightarrow> deleteFieldsMark w fs r f start stop = Ok [])
    \<and> (\<forall>a m b. data = a @ start @ m @ stop @ b \<and> startsNone a start \<and> startsNone (a @ start @ m) stop
         \<longrightarrow> deleteFieldsMark w fs r f start stop = Ok [fld (start @ m @ stop) []])"
proof (intro conjI impI allI)
  show "deleteFieldsMark w fs r f start stop = Panic \<longleftrightarrow> strContains data stop \<and> \<not> strContains data start"
    using assms by (simp add: deleteFieldsMark_def go_bind_eq_Panic FindSubBytes_panic)
  show "deleteFieldsMark w fs r f start stop = Ok []" if "\<not> strContains data stop"
  proof -
    have "-1 \<le> bytesIndex data start" by (simp add: bytesIndex_def split: option.splits)
    with that assms show ?thesis by (simp add: deleteFieldsMark_def FindSubBytes_def bytesIndex_absent)
  qed
next
  fix a m b assume d: "data = a @ start @ m @ stop @ b \<and> startsNone a start \<and> startsNone (a @ start @ m) stop"
  have "(FindSubBytes data start stop :: (genErr, string) go) = go_bind (findSubByte2 data start stop) (\<lambda>(sub, e). Ok sub)"
    by (auto simp: FindSubBytes_def findSubByte2_def Let_def goSlice_def)
  with d assms show "deleteFieldsMark w fs r f start stop = Ok [fld (start @ m @ stop) []]"
    by (simp add: deleteFieldsMark_def findSubByte2_block)
qed

text \<open>All blocks of a file, each with the text before it.\<close>

fun markedText :: "string \<Rightarrow> string \<Rightarrow> (string \<times> string) list \<Rightarrow> string \<Rightarrow> string" where
  "markedText start stop [] rest = rest"
| "markedText start stop ((a, m) # bs) rest = a @ start @ m @ stop @ markedText start stop bs rest"

lemma find_all_blocks:
  assumes "\<forall>(a, m) \<in> set bs. startsNone a start \<and> startsNone (a @ start @ m) stop" "start \<noteq> []" "stop \<noteq> []"
    and "\<not> strContains rest stop"
  shows "(FindAllSubBytes (markedText start stop bs rest) start stop :: ('e, string list) go)
    = Ok (map (\<lambda>(a, m). start @ m @ stop) bs)"
  using assms(1)
proof (induction bs)
  case Nil
  have "-1 \<le> bytesIndex rest start" by (simp add: bytesIndex_def split: option.splits)
  with assms(4) show ?case by (subst FindAllSubBytes.simps) (simp add: findSubByte2_def bytesIndex_absent)
next
  case (Cons am bs)
  obtain a m where am: "am = (a, m)" by fastforce
  with Cons.prems have c: "startsNone a start" "startsNone (a @ start @ m) stop" by auto
  let ?rest = "markedText start stop bs rest"
  from Cons am have IH: "(FindAllSubBytes ?rest start stop :: ('e, string list) go) = Ok (map (\<lambda>(a, m). start @ m @ stop) bs)" by simp
  have "drop (nat (int (length (a @ start @ m @ stop)))) (a @ start @ m @ stop @ ?rest) = ?rest"
    by (metis append.assoc append_eq_conv_conj nat_int)
  with IH am assms(2) show ?case
    by (subst FindAllSubBytes.simps) (simp add: findSubByte2_block [OF c(1) assms(2) c(2) assms(3), of ?rest])
qed

section \<open>The version of go.mod\<close>

lemma digitsOf_dec: "\<not> digit c \<Longrightarrow> digitsOf (dec n @ c # s) = (dec n, c # s)"
  using dec_all_digit by (auto simp: digitsOf_def takeWhile_append2 dropWhile_append2)

lemma StrToInt_dec: "n < 2 ^ 63 \<Longrightarrow> StrToInt (dec n) = int n"
proof -
  assume n: "n < 2 ^ 63"
  have "digit (hd (dec n))" using dec_all_digit [of "hd (dec n)" n] by simp
  then have "hd (dec n) \<noteq> CHR ''-''" "hd (dec n) \<noteq> CHR ''+''" by (auto simp: digit_def)
  with n show ?thesis by (simp add: StrToInt_def Let_def)
qed

lemma goVersion_text:
  "findVersion (''go version go'' @ dec M @ ''.'' @ dec m @ ''.'' @ dec p @ '' '' @ rest)
   = Some \<lparr>major = dec M, minor = dec m, patch = dec p, goVersion = ''go '' @ dec M @ ''.'' @ dec m @ ''.'' @ dec p\<rparr>"
proof -
  have nd: "\<not> digit CHR ''.''" "\<not> digit CHR '' ''" "\<not> digit CHR ''v''" by (simp_all add: digit_def)
  have "versionAt (''go'' @ dec M @ ''.'' @ dec m @ ''.'' @ dec p @ '' '' @ rest)
     = Some \<lparr>major = dec M, minor = dec m, patch = dec p, goVersion = ''go '' @ dec M @ ''.'' @ dec m @ ''.'' @ dec p\<rparr>"
    using nd by (simp add: versionAt_def hasPrefix_def digitsOf_dec Let_def)
  then show ?thesis using nd by (simp add: versionAt_def hasPrefix_def digitsOf_def)
qed

lemma default_version:
  "findVersion (goReplaceAll defaultGoModVersion '' '' [])
   = Some \<lparr>major = dec 1, minor = dec 25, patch = dec 1, goVersion = ''go 1.25.1''\<rparr>"
  by code_simp

text \<open>
  The Go version of a generated \<open>go.mod\<close> is the greater of the one of the templates and the one of the
  installed toolchain, component by component.
\<close>

theorem go_mod_version:
  assumes "gwGoVersion w = Some (''go version go'' @ dec M @ ''.'' @ dec m @ ''.'' @ dec p @ '' '' @ rest)"
    "M < 2 ^ 63" "m < 2 ^ 63" "p < 2 ^ 63"
  shows "getLocalGoVersion w =
    (if 1 < M \<or> M = 1 \<and> (25 < m \<or> m = 25 \<and> 1 < p) then ''go '' @ dec M @ ''.'' @ dec m @ ''.'' @ dec p else ''go 1.25.1'')"
proof -
  let ?v = "\<lparr>major = dec M, minor = dec m, patch = dec p, goVersion = ''go '' @ dec M @ ''.'' @ dec m @ ''.'' @ dec p\<rparr>"
  let ?d = "\<lparr>major = dec 1, minor = dec 25, patch = dec 1, goVersion = ''go 1.25.1''\<rparr>"
  have lt: "versionLess ?v ?d \<longleftrightarrow> 1 < M \<or> M = 1 \<and> (25 < m \<or> m = 25 \<and> 1 < p)"
    using assms(2-4) by (auto simp: versionLess_def StrToInt_dec simp del: dec.simps)
  have "sortSlice versionLess [?d, ?v] = (if versionLess ?v ?d then [?v, ?d] else [?d, ?v])"
    by (simp add: sortSlice_def)
  moreover obtain out where "gwGoVersion w = Some out" "findVersion out = Some ?v" using assms(1) goVersion_text by blast
  ultimately show ?thesis using lt
    by (auto simp add: getLocalGoVersion_def default_version List.map_filter_simps simp del: dec.simps)
qed

section \<open>Moving protocol files\<close>

lemma writeFile_keeps: "fsFiles fs p = None \<Longrightarrow> writeFile env p data fs = (e, fs') \<Longrightarrow> keepsFiles fs fs'"
  by (auto simp: writeFile_def keepsFiles_def split: if_splits)

lemma mkdirAll_keeps [simp]: "keepsFiles (mkdirAll env d fs) fs' = keepsFiles fs fs'"
  by (simp add: keepsFiles_def)

lemma keeps_mkdirAll [simp]: "keepsFiles fs' (mkdirAll env d fs) = keepsFiles fs' fs"
  by (simp add: keepsFiles_def)

lemma saveProtobufFiles_moves:
  assumes "saveProtobufFiles w m s dir pbs fs = (e, fs')"
  shows "keepsFiles fs fs' \<and> (e = None \<longrightarrow> (\<forall>pb \<in> set pbs. \<forall>c. fsFiles fs pb = Some c \<longrightarrow>
     fsFiles fs' (dir @ ''/'' @ GetFilename (win (gwOs w)) pb) = Some (replacePackage c m s)))"
  using assms
proof (induction pbs arbitrary: fs)
  case (Cons pb pbs)
  let ?file = "dir @ ''/'' @ GetFilename (win (gwOs w)) pb" and ?fs = "mkdirAll (gwOs w) dir fs"
  consider "fsFiles fs pb = None" | c where "fsFiles fs pb = Some c" "IsExists (gwOs w) ?fs ?file"
    | c where "fsFiles fs pb = Some c" "\<not> IsExists (gwOs w) ?fs ?file" by (cases "fsFiles fs pb") auto
  then show ?case
  proof cases
    case 3
    then have new: "fsFiles ?fs ?file = None" by (simp add: IsExists_def)
    obtain e1 fs2 where w: "writeFile (gwOs w) ?file (replacePackage c m s) ?fs = (e1, fs2)" by fastforce
    have k: "keepsFiles fs fs2" using writeFile_keeps [OF new w] by simp
    show ?thesis
    proof (cases e1)
      case (Some x)
      with 3 w Cons.prems k show ?thesis by (auto simp: Let_def)
    next
      case None
      with w have "fsFiles fs2 ?file = Some (replacePackage c m s)" by (auto simp: writeFile_def split: if_splits)
      moreover from None w 3 Cons.prems have "saveProtobufFiles w m s dir pbs fs2 = (e, fs')" by (simp add: Let_def)
      note Cons.IH [OF this]
      ultimately show ?thesis using k 3(1) unfolding keepsFiles_def by (metis option.sel set_ConsD)
    qed
  qed (use Cons in \<open>auto simp: Let_def\<close>)
qed simp

definition below :: "string \<Rightarrow> string \<Rightarrow> bool" where
  "below dir p \<longleftrightarrow> p = dir \<or> hasPrefix p (dir @ ''/'')"

lemma osRemoveAll_files:
  "\<not> win (gwOs w) \<Longrightarrow> fsFiles (osRemoveAll w dir fs) p = (if below dir p \<and> \<not> gwKept w p then None else fsFiles fs p)"
  by (auto simp: osRemoveAll_def below_def isSep_def Let_def)

lemma protobufDir_shared:
  "\<not> win (gwOs w) \<Longrightarrow> s \<noteq> [] \<Longrightarrow> protobufDir w s True (base @ ''/'' @ s) = base @ ''/api/'' @ s @ ''/v1''"
  by (simp add: protobufDir_def trimSuffix_def hasSuffix_def pathDelimiter_def)

lemma shared_below:
  assumes "CHR ''/'' \<notin> set s"
  shows "below (base @ ''/'' @ s @ ''/api'') (base @ ''/api/'' @ s @ ''/v1/'' @ name) \<longleftrightarrow> s = ''api''"
proof
  assume "below (base @ ''/'' @ s @ ''/api'') (base @ ''/api/'' @ s @ ''/v1/'' @ name)"
  then obtain t where t: "''api'' @ CHR ''/'' # s @ ''/v1/'' @ name = s @ CHR ''/'' # ''api'' @ t"
    by (auto simp: below_def hasPrefix_iff)
  then have "takeWhile (\<lambda>c. c \<noteq> CHR ''/'') (''api'' @ CHR ''/'' # s @ ''/v1/'' @ name) = takeWhile (\<lambda>c. c \<noteq> CHR ''/'') (s @ CHR ''/'' # ''api'' @ t)"
    by simp
  with assms show "s = ''api''" by (simp add: takeWhile_append)
qed (simp add: below_def hasPrefix_iff)

text \<open>
  C37: In a mono repository the protocol files of a server move to the directory that the servers share. When the
  move fails, nothing is lost; when it succeeds, every file is there with its packages replaced, and no file outside
  the old directory has changed. A server with the name \<open>api\<close> loses them: there the shared directory is below the old
  one, which is removed at the end.
\<close>

theorem protos_moved:
  assumes os: "\<not> win (gwOs w)" "\<forall>p. \<not> gwKept w p"
    and s: "s \<noteq> []" "CHR ''/'' \<notin> set s"
    and move: "moveProtoFileToAPIDir w m s True (base @ ''/'' @ s) fs = (e, fs')"
    and pb: "pb \<in> set (apiProtos w (base @ ''/'' @ s @ ''/api'') fs)" "fsFiles fs pb = Some c"
    and other: "fsFiles fs p = Some d" "e = None \<Longrightarrow> \<not> below (base @ ''/'' @ s @ ''/api'') p"
  shows "fsFiles fs' p = Some d \<and>
    (case e of
       Some _ \<Rightarrow> fsFiles fs' pb = Some c
     | None \<Rightarrow> fsFiles fs' (base @ ''/api/'' @ s @ ''/v1/'' @ GetFilename (win (gwOs w)) pb)
                 = (if s = ''api'' then None else Some (replacePackage c m s)))"
proof -
  let ?api = "base @ ''/'' @ s @ ''/api''"
  have "\<exists>fs1. saveProtobufFiles w m s (base @ ''/api/'' @ s @ ''/v1'') (apiProtos w ?api fs) fs = (e, fs1)
      \<and> fs' = (if e = None then osRemoveAll w ?api fs1 else fs1)"
    using move os(1) s(1)
    by (auto simp: moveProtoFileToAPIDir_def protobufDir_shared [simplified] pathDelimiter_def Let_def split: option.splits prod.splits)
  then obtain fs1 where sv: "saveProtobufFiles w m s (base @ ''/api/'' @ s @ ''/v1'') (apiProtos w ?api fs) fs = (e, fs1)"
    and fs': "fs' = (if e = None then osRemoveAll w ?api fs1 else fs1)" by blast
  note moved = saveProtobufFiles_moves [OF sv]
  show ?thesis
  proof (cases e)
    case None
    let ?new = "base @ ''/api/'' @ s @ ''/v1/'' @ GetFilename (win (gwOs w)) pb"
    from moved None pb have "fsFiles fs1 ?new = Some (replacePackage c m s)" by simp
    moreover have "fsFiles fs' q = (if below ?api q then None else fsFiles fs1 q)" for q
      using None os by (simp add: fs' osRemoveAll_files)
    ultimately have "fsFiles fs' ?new = (if s = ''api'' then None else Some (replacePackage c m s))" "fsFiles fs' p = fsFiles fs1 p"
      using shared_below [OF s(2)] other(2) [OF None] by presburger+
    with None moved other(1) show ?thesis by (simp add: keepsFiles_def)
  next
    case (Some x)
    with fs' moved other pb show ?thesis by (simp add: keepsFiles_def)
  qed
qed

section \<open>Runs\<close>

text \<open>A world for concrete runs: nothing fails, and the map orders are the ones of the lists.\<close>

definition demoWorld :: genWorld where
  "demoWorld = \<lparr>gwOs = runEnv, gwHome = Some ''/h'', gwTree = Some [], gwReadTree = (\<lambda>_ _. None), gwKept = (\<lambda>_. False),
     gwKebab = id, gwRand = 4, gwRand2 = 7, gwMatch = (\<lambda>p n. p = ''*'' \<or> p = n), gwGoVersion = Some (''go version go'' @ dec 1 @ ''.'' @ dec 26 @ ''.'' @ dec 0 @ '' '' @ ''linux/amd64''),
     gwVisit = (\<lambda>_ x. x), gwDecode = (\<lambda>_. None), gwRender = (\<lambda>_ t _. Inr t), gwParseURL = (\<lambda>_. None), gwQueryGet = (\<lambda>_ _. []),
     gwGenv = demoGenv, gwWorld = \<lparr>wIsExists = (\<lambda>_. True), wReadFile = (\<lambda>_. Inl []), wTableInfo = (\<lambda>_ _ _. Inr (''t'', None)),
     wParse = (\<lambda>_ _ _. Inr [])\<rparr>\<rparr>"

theorem gen_info_round_trip_witness:
  "getNamesFromOutDir (snd (saveGenInfo demoWorld ''m'' ''s'' True ''/o'' runFs)) ''/o'' = (''m'', ''s'', True)"
proof (rule gen_info_round_trip)
  show "saveGenInfo demoWorld ''m'' ''s'' True ''/o'' runFs = (None, snd (saveGenInfo demoWorld ''m'' ''s'' True ''/o'' runFs))"
    by (simp add: saveGenInfo_def writeFile_def demoWorld_def runEnv_def Let_def)
qed simp_all

theorem replace_package_witness:
  "replacePackage (''s'' @ NL @ ''package a;'' @ NL @ ''option go_package = b;'' @ NL @ ''m'') ''mod'' ''srv''
   = ''s'' @ newPackage ''srv'' @ (NL @ ''option '') @ newGoPackage ''mod'' ''srv'' @ ''m''"
  by (rule replace_package [of _ "''s''" "''a''" "NL @ ''option ''" "''= b''" "''m''"]) code_simp+

definition markedFs :: fsys where
  "markedFs = \<lparr>fsFiles = [''/t/user.go'' \<mapsto> ''a<b>c''], fsDirs = (\<lambda>_. False)\<rparr>"

theorem marked_block_witness:
  "deleteFieldsMark demoWorld markedFs runInfo ''user.go'' ''<'' ''>'' = Ok [fld ''<b>'' []]"
proof -
  have "ReadFile (gwOs demoWorld) markedFs runInfo ''user.go'' = Inr ''a<b>c''" by code_simp
  from marked_block [OF this, of "''<''" "''>''"] have
    "startsNone ''a'' ''<'' \<and> startsNone ''a<b'' ''>'' \<longrightarrow>
       deleteFieldsMark demoWorld markedFs runInfo ''user.go'' ''<'' ''>'' = Ok [fld ''<b>'' []]"
    by (metis append_Cons append_Nil not_Cons_self2)
  moreover have "startsNone ''a'' ''<''" "startsNone ''a<b'' ''>''" by code_simp+
  ultimately show ?thesis by simp
qed

theorem go_mod_version_witness:
  "getLocalGoVersion demoWorld = ''go '' @ dec 1 @ ''.'' @ dec 26 @ ''.'' @ dec 0"
  using go_mod_version [of demoWorld 1 26 0 "''linux/amd64''"] by (simp add: demoWorld_def del: dec.simps)

definition protoFs :: fsys where
  "protoFs = \<lparr>fsFiles = [''/p/u/api/a.proto'' \<mapsto> ''m'', ''/p/go.mod'' \<mapsto> ''x''], fsDirs = (\<lambda>_. False)\<rparr>"

definition protoWorld :: genWorld where
  "protoWorld = demoWorld\<lparr>gwReadTree := (\<lambda>_ _. Some [FileEntry ''a.proto''])\<rparr>"

lemma protoWorld_moves: "fst (moveProtoFileToAPIDir protoWorld ''m'' ''u'' True ''/p/u'' protoFs) = None"
  by code_simp

theorem protos_moved_witness:
  "let fs' = snd (moveProtoFileToAPIDir protoWorld ''m'' ''u'' True ''/p/u'' protoFs)
   in fsFiles fs' ''/p/go.mod'' = Some ''x'' \<and> fsFiles fs' ''/p/api/u/v1/a.proto'' = Some (replacePackage ''m'' ''m'' ''u'')"
proof -
  let ?r = "moveProtoFileToAPIDir protoWorld ''m'' ''u'' True (''/p'' @ ''/'' @ ''u'') protoFs"
  have os: "\<not> win (gwOs protoWorld)" "\<forall>p. \<not> gwKept protoWorld p" by (simp_all add: protoWorld_def demoWorld_def runEnv_def)
  have r: "?r = (None, snd ?r)" using protoWorld_moves by (simp add: prod_eq_iff)
  have a: "''/p/u/api/a.proto'' \<in> set (apiProtos protoWorld (''/p'' @ ''/'' @ ''u'' @ ''/api'') protoFs)" by code_simp
  have f: "fsFiles protoFs ''/p/u/api/a.proto'' = Some ''m''" "fsFiles protoFs ''/p/go.mod'' = Some ''x''" by code_simp+
  have b: "\<not> below (''/p'' @ ''/'' @ ''u'' @ ''/api'') ''/p/go.mod''" by code_simp
  have "GetFilename (win (gwOs protoWorld)) ''/p/u/api/a.proto'' = ''a.proto''" by code_simp
  with protos_moved [OF os _ _ r a f(1,2) b] show ?thesis by simp
qed

end
