(* ===== verification/GenTable.thy ===== *)
theory GenTable
  imports GenCommon
begin

text \<open>
  The generators that add the code of a table to a project: \<open>dao.go\<close>, \<open>handler.go\<close>, \<open>service.go\<close>, \<open>store.go\<close>,
  \<open>model.go\<close> and \<open>protobuf.go\<close> of \<open>cmd/milady/commands/generate\<close>, with the commands that run them over a list of tables.

  The choice of template files and fields before the replacer runs is a \<open>plan\<close>; a definition named after a
  function of the source with \<open>Files\<close> at the end is the map of files that function returns.
\<close>

section \<open>Drivers\<close>

definition sqlDatabase :: "string \<Rightarrow> bool" where
  "sqlDatabase driver \<longleftrightarrow> toLower driver \<in> {DBDriverMysql, DBDriverPostgresql, DBDriverTidb, DBDriverSqlite}"

section \<open>dao.go\<close>

definition daoSelect :: selection where
  "daoSelect =
     [(''internal/cache'', [''userExample.go'', ''userExample_test.go'']),
      (''internal/dao'', [''userExample.go'', ''userExample_test.go'']),
      (''internal/model'', [''userExample.go''])]"

definition daoCommonSelect :: "bool \<Rightarrow> selection" where
  "daoCommonSelect ext =
     (let sel =
     [(''internal/cache'', [''userExample.go.tpl'']),
      (''internal/dao'', [''userExample.go.tpl'']),
      (''internal/apiserver/model'', [''userExample.go''])]
      in if ext then AList.update ''internal/dao'' [''userExample.go.exp.tpl''] sel else sel)"

definition daoExtendedAPIFiles :: selection where
  "daoExtendedAPIFiles =
     [(''internal/dao'', [''userExample.go.exp'', ''userExample_test.go.exp''])]"

definition daoExtendedAPI :: "genWorld \<Rightarrow> fsys \<Rightarrow> replacerInfo \<Rightarrow> (genErr, selection \<times> Field list) go" where
  "daoExtendedAPI w fs r = go_bind (goConcat
     [deleteFieldsMark w fs r (daoFile @ expSuffix) startMark endMark,
      deleteFieldsMark w fs r (daoTestFile @ expSuffix) startMark endMark,
      Ok [fld ''userExample.go.exp'' ''userExample.go'',
       fld ''userExample_test.go.exp'' ''userExample_test.go'']]) (\<lambda>fl. Ok (daoExtendedAPIFiles, fl))"

definition daoMongoDBExtendedAPIFiles :: selection where
  "daoMongoDBExtendedAPIFiles =
     [(''internal/cache'', [''userExample.go.mgo'']),
      (''internal/dao'', [''userExample.go.mgo.exp''])]"

definition daoMongoDBExtendedAPI :: "genWorld \<Rightarrow> fsys \<Rightarrow> replacerInfo \<Rightarrow> (genErr, selection \<times> Field list) go" where
  "daoMongoDBExtendedAPI w fs r = go_bind (goConcat
     [deleteFieldsMark w fs r (daoMgoFile @ expSuffix) startMark endMark,
      Ok [fld ''userExample.go.mgo.exp'' ''userExample.go'',
       fld ''userExample.go.mgo'' ''userExample.go'']]) (\<lambda>fl. Ok (daoMongoDBExtendedAPIFiles, fl))"

definition commonDaoFields :: "genWorld \<Rightarrow> fsys \<Rightarrow> replacerInfo \<Rightarrow> (genErr, Field list) go" where
  "commonDaoFields w fs r = goConcat
     [deleteFieldsMark w fs r (daoFile @ tplSuffix) startMark endMark,
      deleteFieldsMark w fs r (daoTestFile @ tplSuffix) startMark endMark,
      Ok [fld ''userExample.go.tpl'' ''userExample.go'']]"

definition commonDaoExtendedFields :: "genWorld \<Rightarrow> fsys \<Rightarrow> replacerInfo \<Rightarrow> (genErr, Field list) go" where
  "commonDaoExtendedFields w fs r = goConcat
     [deleteFieldsMark w fs r (daoFile @ expSuffix @ tplSuffix) startMark endMark,
      deleteFieldsMark w fs r (daoTestFile @ expSuffix @ tplSuffix) startMark endMark,
      Ok [fld ''userExample.go.tpl'' ''userExample.go'',
       fld ''userExample.go.exp.tpl'' ''userExample.go'']]"

definition daoMongoFiles :: selection where
  "daoMongoFiles =
     [(''internal/cache'', [''userExample.go.mgo'']),
      (''internal/dao'', [''userExample.go.mgo''])]"

definition daoPlan :: "genWorld \<Rightarrow> fsys \<Rightarrow> replacerInfo \<Rightarrow> 'a handlerGenerator_scheme \<Rightarrow> (genErr, plan \<times> 'a handlerGenerator_scheme) go" where
  "daoPlan w fs r g =
     (let info = crudInfoOf w (codeOf g ''crud_info''); common = CheckCommonType info; ext = isExtendedAPI g in
      go_bind
        (if common then
           go_bind (if ext then commonDaoExtendedFields w fs r else commonDaoFields w fs r) (\<lambda>fl.
           go_bind (replaceFilesContent w fs r (getTemplateFiles (gwVisit w 0) (daoCommonSelect ext)) (the info)) (\<lambda>content.
           Ok (content @ fl, daoCommonSelect ext)))
         else Ok ([], daoSelect)) (\<lambda>(extra, selectFiles).
      let g1 = g\<lparr>commonStyle := commonStyle g \<or> common, gFields := gFields g @ extra\<rparr>;
          result = (\<lambda>fl rep. Ok (\<lparr>pSubDirs = [], pSubFiles = [], pSelect = selectFiles, pReplace = rep\<rparr>,
                                 g1\<lparr>gFields := gFields g1 @ fl\<rparr>)) in
      if sqlDatabase (dbDriver g) then
        go_bind (if ext \<and> \<not> common then daoExtendedAPI w fs r else Ok ([], [])) (\<lambda>(rep, fl).
          result (getExpectedSQLForDeletionField (isEmbed g) @ fl) rep)
      else if toLower (dbDriver g) = DBDriverMongodb then
        go_bind (if ext then daoMongoDBExtendedAPI w fs r else Ok (daoMongoFiles, [])) (\<lambda>(rep, fl). result fl rep)
      else Err (UnsupportedDriver (dbDriver g))))"

definition daoAddFields :: "genWorld \<Rightarrow> fsys \<Rightarrow> 'a handlerGenerator_scheme \<Rightarrow> replacerInfo \<Rightarrow> (genErr, Field list) go" where
  "daoAddFields w fs g r = goConcat
     [Ok (gFields g),
      deleteFieldsMark w fs r modelFile startMark endMark,
      deleteFieldsMark w fs r daoFile startMark endMark,
      deleteFieldsMark w fs r daoMgoFile startMark endMark,
      deleteFieldsMark w fs r daoTestFile startMark endMark,
      Ok [fld modelFileMark (codeOf g ''model''),
       fld daoFileMark (codeOf g ''dao''),
       fld (selfPackageName @ ''/'' @ rPath r) (moduleName g),
       fld ''github.com/moweilong/milady'' (moduleName g),
       fld (moduleName g @ pkgPathSuffix) ''github.com/moweilong/milady/pkg'',
       fld ''init.go.mgo'' ''init.go'',
       fld ''userExample.go.mgo'' ''userExample.go'',
       fldCS ''UserExample'' (codeOf g ''__table_name__'')],
      Ok (if suitedMonoRepo g then SubServerCodeFields (moduleName g) (serverName g) else [])]"

definition daoGenerate :: "genWorld \<Rightarrow> 'a handlerGenerator_scheme \<Rightarrow> fsys \<Rightarrow> (genErr, string) go \<times> fsys" where
  "daoGenerate w g fs =
     (case openTemplates w of
        Inl _ \<Rightarrow> (Err ReplacerNil, fs)
      | Inr r \<Rightarrow> (case daoPlan w fs r g of
            Err e \<Rightarrow> (Err e, fs)
          | Panic \<Rightarrow> (Panic, fs)
          | Ok (p, g1) \<Rightarrow> outDirOf (runReplacer w (pSubDirs p) (planFiles w p) [] [] (gOutPath g) [codeNameDao] (daoAddFields w fs g1) r fs)))"

section \<open>handler.go\<close>

definition handlerSelect :: selection where
  "handlerSelect =
     [(''internal/cache'', [''userExample.go'', ''userExample_test.go'']),
      (''internal/dao'', [''userExample.go'', ''userExample_test.go'']),
      (''internal/ecode'', [''userExample_http.go'']),
      (''internal/handler'', [''userExample.go'', ''userExample_test.go'']),
      (''internal/model'', [''userExample.go'']),
      (''internal/routers'', [''userExample.go'']),
      (''internal/types'', [''userExample_types.go''])]"

definition handlerCommonSelect :: "bool \<Rightarrow> selection" where
  "handlerCommonSelect ext =
     (let sel =
     [(''internal/cache'', [''userExample.go.tpl'']),
      (''internal/dao'', [''userExample.go.tpl'']),
      (''internal/ecode'', [''userExample_http.go.tpl'']),
      (''internal/handler'', [''userExample.go.tpl'']),
      (''internal/model'', [''userExample.go'']),
      (''internal/routers'', [''userExample.go.tpl'']),
      (''internal/types'', [''userExample_types.go.tpl''])]
      in if ext then AList.update ''internal/types'' [''userExample_types.go.exp.tpl''] (AList.update ''internal/routers'' [''userExample.go.exp.tpl''] (AList.update ''internal/handler'' [''userExample.go.exp.tpl''] (AList.update ''internal/ecode'' [''userExample_http.go.exp.tpl''] (AList.update ''internal/dao'' [''userExample.go.exp.tpl''] sel)))) else sel)"

definition handlerExtendedAPIFiles :: "string \<Rightarrow> selection" where
  "handlerExtendedAPIFiles codeName = (let rep =
     [(''internal/dao'', [''userExample.go.exp'', ''userExample_test.go.exp'']),
      (''internal/ecode'', [''systemCode_http.go'', ''userExample_http.go.exp'']),
      (''internal/handler'', [''userExample.go.exp'', ''userExample_test.go.exp'']),
      (''internal/routers'', [''routers.go'', ''userExample.go.exp'']),
      (''internal/types'', [''swagger_types.go'', ''userExample_types.go.exp''])]
      in if codeName = codeNameHandler then AList.update ''internal/types'' [''userExample_types.go.exp''] (AList.update ''internal/routers'' [''userExample.go.exp''] (AList.update ''internal/ecode'' [''userExample_http.go.exp''] rep)) else rep)"

definition handlerExtendedAPI :: "genWorld \<Rightarrow> fsys \<Rightarrow> replacerInfo \<Rightarrow> string \<Rightarrow> (genErr, selection \<times> Field list) go" where
  "handlerExtendedAPI w fs r codeName = go_bind (goConcat
     [deleteFieldsMark w fs r (daoFile @ expSuffix) startMark endMark,
      deleteFieldsMark w fs r (daoTestFile @ expSuffix) startMark endMark,
      deleteFieldsMark w fs r (typesFile @ expSuffix) startMark endMark,
      deleteFieldsMark w fs r (handlerTestFile @ expSuffix) startMark endMark,
      Ok [fld ''userExample_types.go.exp'' ''userExample_types.go'',
       fld ''userExample_http.go.exp'' ''userExample_http.go'',
       fld ''userExample.go.exp'' ''userExample.go'',
       fld ''userExample_test.go.exp'' ''userExample_test.go'']]) (\<lambda>fl. Ok (handlerExtendedAPIFiles codeName, fl))"

definition handlerMongoDBExtendedAPIFiles :: "string \<Rightarrow> selection" where
  "handlerMongoDBExtendedAPIFiles codeName = (let rep =
     [(''internal/cache'', [''userExample.go.mgo'']),
      (''internal/dao'', [''userExample.go.mgo.exp'']),
      (''internal/ecode'', [''systemCode_http.go'', ''userExample_http.go.exp'']),
      (''internal/handler'', [''userExample.go.mgo.exp'']),
      (''internal/routers'', [''routers.go'', ''userExample.go.exp'']),
      (''internal/types'', [''swagger_types.go'', ''userExample_types.go.mgo.exp''])]
      in if codeName = codeNameHandler then AList.update ''internal/types'' [''userExample_types.go.mgo.exp''] (AList.update ''internal/routers'' [''userExample.go.exp''] (AList.update ''internal/ecode'' [''userExample_http.go.exp''] rep)) else rep)"

definition handlerMongoDBExtendedAPI :: "genWorld \<Rightarrow> fsys \<Rightarrow> replacerInfo \<Rightarrow> string \<Rightarrow> (genErr, selection \<times> Field list) go" where
  "handlerMongoDBExtendedAPI w fs r codeName = go_bind (goConcat
     [deleteFieldsMark w fs r (daoMgoFile @ expSuffix) startMark endMark,
      deleteFieldsMark w fs r (typesMgoFile @ expSuffix) startMark endMark,
      Ok [fld ''userExample_http.go.exp'' ''userExample_http.go'',
       fld ''userExample_types.go.mgo.exp'' ''userExample_types.go'',
       fld ''userExample.go.mgo.exp'' ''userExample.go'',
       fld ''userExample.go.exp'' ''userExample.go'']]) (\<lambda>fl. Ok (handlerMongoDBExtendedAPIFiles codeName, fl))"

definition commonHandlerFields :: "genWorld \<Rightarrow> fsys \<Rightarrow> replacerInfo \<Rightarrow> (genErr, Field list) go" where
  "commonHandlerFields w fs r = goConcat
     [deleteFieldsMark w fs r (daoFile @ tplSuffix) startMark endMark,
      deleteFieldsMark w fs r (daoTestFile @ tplSuffix) startMark endMark,
      deleteFieldsMark w fs r (typesFile @ tplSuffix) startMark endMark,
      Ok [fld ''userExample_http.go.tpl'' ''userExample_http.go'',
       fld ''userExample_types.go.tpl'' ''userExample_types.go'',
       fld ''userExample.go.tpl'' ''userExample.go'']]"

definition commonHandlerExtendedFields :: "genWorld \<Rightarrow> fsys \<Rightarrow> replacerInfo \<Rightarrow> (genErr, Field list) go" where
  "commonHandlerExtendedFields w fs r = goConcat
     [deleteFieldsMark w fs r (daoFile @ expSuffix @ tplSuffix) startMark endMark,
      deleteFieldsMark w fs r (daoTestFile @ expSuffix @ tplSuffix) startMark endMark,
      deleteFieldsMark w fs r (typesFile @ expSuffix @ tplSuffix) startMark endMark,
      Ok [fld ''userExample_http.go.exp.tpl'' ''userExample_http.go'',
       fld ''userExample_types.go.exp.tpl'' ''userExample_types.go'',
       fld ''userExample.go.tpl'' ''userExample.go'',
       fld ''userExample.go.exp.tpl'' ''userExample.go'']]"

definition handlerMongoFiles :: selection where
  "handlerMongoFiles =
     [(''internal/cache'', [''userExample.go.mgo'']),
      (''internal/dao'', [''userExample.go.mgo'']),
      (''internal/handler'', [''userExample.go.mgo'']),
      (''internal/types'', [''userExample_types.go.mgo''])]"

definition handlerPlan :: "genWorld \<Rightarrow> fsys \<Rightarrow> replacerInfo \<Rightarrow> 'a handlerGenerator_scheme \<Rightarrow> (genErr, plan \<times> 'a handlerGenerator_scheme) go" where
  "handlerPlan w fs r g =
     (let info = crudInfoOf w (codeOf g ''crud_info''); common = CheckCommonType info; ext = isExtendedAPI g in
      go_bind
        (if common then
           go_bind (if ext then commonHandlerExtendedFields w fs r else commonHandlerFields w fs r) (\<lambda>fl.
           go_bind (replaceFilesContent w fs r (getTemplateFiles (gwVisit w 0) (handlerCommonSelect ext)) (the info)) (\<lambda>content.
           Ok (content @ fl, handlerCommonSelect ext)))
         else Ok ([], handlerSelect)) (\<lambda>(extra, selectFiles).
      let g1 = g\<lparr>commonStyle := commonStyle g \<or> common, gFields := gFields g @ extra\<rparr>;
          result = (\<lambda>fl rep. Ok (\<lparr>pSubDirs = [], pSubFiles = [], pSelect = selectFiles, pReplace = rep\<rparr>,
                                 g1\<lparr>gFields := gFields g1 @ fl\<rparr>)) in
      if sqlDatabase (dbDriver g) then
        go_bind (if ext \<and> \<not> common then handlerExtendedAPI w fs r codeNameHandler else Ok ([], [])) (\<lambda>(rep, fl).
          result (getExpectedSQLForDeletionField (isEmbed g) @ fl) rep)
      else if toLower (dbDriver g) = DBDriverMongodb then
        go_bind (if ext then handlerMongoDBExtendedAPI w fs r codeNameHandler else Ok (handlerMongoFiles, [])) (\<lambda>(rep, fl). result fl rep)
      else Err (UnsupportedDriver (dbDriver g))))"

definition handlerAddFields :: "genWorld \<Rightarrow> fsys \<Rightarrow> 'a handlerGenerator_scheme \<Rightarrow> replacerInfo \<Rightarrow> (genErr, Field list) go" where
  "handlerAddFields w fs g r = goConcat
     [Ok (gFields g),
      deleteFieldsMark w fs r modelFile startMark endMark,
      deleteFieldsMark w fs r daoFile startMark endMark,
      deleteFieldsMark w fs r daoMgoFile startMark endMark,
      deleteFieldsMark w fs r daoTestFile startMark endMark,
      deleteFieldsMark w fs r typesFile startMark endMark,
      deleteFieldsMark w fs r typesMgoFile startMark endMark,
      deleteFieldsMark w fs r handlerTestFile startMark endMark,
      Ok [fld modelFileMark (codeOf g ''model''),
       fld daoFileMark (codeOf g ''dao'')],
      go_bind (adjustmentOfIDType (codeOf g ''handler'') (dbDriver g) (commonStyle g)) (\<lambda>c. Ok [fld (handlerFileMark) c]),
      Ok [fld (selfPackageName @ ''/'' @ rPath r) (moduleName g),
       fld ''github.com/go-dev-frame/sponge'' (moduleName g),
       fld ''userExampleNO       = 1'' (''userExampleNO = '' @ dec (gwRand w + 1)),
       fld (moduleName g @ pkgPathSuffix) ''github.com/go-dev-frame/sponge/pkg'',
       fld ''userExample_types.go.mgo'' ''userExample_types.go'',
       fld showDbNameMark (CurrentDbDriver (dbDriver g)),
       fld ''userExample.go.mgo'' ''userExample.go'',
       fldCS ''UserExample'' (codeOf g ''__table_name__'')],
      Ok (if suitedMonoRepo g then SubServerCodeFields (moduleName g) (serverName g) else [])]"

definition handlerGenerate :: "genWorld \<Rightarrow> 'a handlerGenerator_scheme \<Rightarrow> fsys \<Rightarrow> (genErr, string) go \<times> fsys" where
  "handlerGenerate w g fs =
     (case openTemplates w of
        Inl _ \<Rightarrow> (Err ReplacerNil, fs)
      | Inr r \<Rightarrow> (case handlerPlan w fs r g of
            Err e \<Rightarrow> (Err e, fs)
          | Panic \<Rightarrow> (Panic, fs)
          | Ok (p, g1) \<Rightarrow> outDirOf (runReplacer w (pSubDirs p) (planFiles w p) [] [] (gOutPath g) [codeNameHandler] (handlerAddFields w fs g1) r fs)))"

section \<open>service.go\<close>

definition serviceSelect :: selection where
  "serviceSelect =
     [(''api/serverNameExample/v1'', [''userExample.proto'']),
      (''internal/cache'', [''userExample.go'', ''userExample_test.go'']),
      (''internal/dao'', [''userExample.go'', ''userExample_test.go'']),
      (''internal/ecode'', [''userExample_rpc.go'']),
      (''internal/model'', [''userExample.go'']),
      (''internal/service'', [''userExample.go'', ''userExample_client_test.go''])]"

definition serviceCommonSelect :: "bool \<Rightarrow> selection" where
  "serviceCommonSelect ext =
     (let sel =
     [(''api/serverNameExample/v1'', [''userExample.proto'']),
      (''internal/cache'', [''userExample.go.tpl'']),
      (''internal/dao'', [''userExample.go.tpl'']),
      (''internal/ecode'', [''userExample_rpc.go.tpl'']),
      (''internal/model'', [''userExample.go'']),
      (''internal/service'', [''userExample.go.tpl''])]
      in if ext then AList.update ''internal/service'' [''userExample.go.exp.tpl''] (AList.update ''internal/ecode'' [''userExample_rpc.go.exp.tpl''] (AList.update ''internal/dao'' [''userExample.go.exp.tpl''] sel)) else sel)"

definition serviceExtendedAPIFiles :: "string \<Rightarrow> selection" where
  "serviceExtendedAPIFiles codeName = (let rep =
     [(''internal/dao'', [''userExample.go.exp'', ''userExample_test.go.exp'']),
      (''internal/ecode'', [''systemCode_rpc.go'', ''userExample_rpc.go.exp'']),
      (''internal/service'', [''service.go'', ''service_test.go'', ''userExample.go.exp'', ''userExample_client_test.go.exp''])]
      in if codeName = codeNameService then AList.update ''internal/service'' [''userExample.go.exp'', ''userExample_client_test.go.exp''] (AList.update ''internal/ecode'' [''userExample_rpc.go.exp''] rep) else rep)"

definition serviceExtendedAPI :: "genWorld \<Rightarrow> fsys \<Rightarrow> replacerInfo \<Rightarrow> string \<Rightarrow> (genErr, selection \<times> Field list) go" where
  "serviceExtendedAPI w fs r codeName = go_bind (goConcat
     [deleteFieldsMark w fs r (daoFile @ expSuffix) startMark endMark,
      deleteFieldsMark w fs r (daoTestFile @ expSuffix) startMark endMark,
      deleteFieldsMark w fs r (serviceLogicFile @ expSuffix) startMark endMark,
      deleteFieldsMark w fs r (serviceClientFile @ expSuffix) startMark endMark,
      Ok [fld ''userExample_rpc.go.exp'' ''userExample_rpc.go'',
       fld ''userExample.go.exp'' ''userExample.go'',
       fld ''userExample_test.go.exp'' ''userExample_test.go'',
       fld ''userExample_client_test.go.exp'' ''userExample_client_test.go'']]) (\<lambda>fl. Ok (serviceExtendedAPIFiles codeName, fl))"

definition serviceMongoDBExtendedAPIFiles :: "string \<Rightarrow> selection" where
  "serviceMongoDBExtendedAPIFiles codeName = (let rep =
     [(''internal/cache'', [''userExample.go.mgo'']),
      (''internal/dao'', [''userExample.go.mgo.exp'']),
      (''internal/ecode'', [''systemCode_rpc.go'', ''userExample_rpc.go.exp'']),
      (''internal/service'', [''service.go'', ''service_test.go'', ''userExample.go.mgo.exp'', ''userExample_client_test.go.mgo.exp''])]
      in if codeName = codeNameService then AList.update ''internal/service'' [''userExample.go.mgo.exp'', ''userExample_client_test.go.mgo.exp''] (AList.update ''internal/ecode'' [''userExample_rpc.go.exp''] rep) else rep)"

definition serviceMongoDBExtendedAPI :: "genWorld \<Rightarrow> fsys \<Rightarrow> replacerInfo \<Rightarrow> string \<Rightarrow> (genErr, selection \<times> Field list) go" where
  "serviceMongoDBExtendedAPI w fs r codeName = go_bind (goConcat
     [deleteFieldsMark w fs r (daoMgoFile @ expSuffix) startMark endMark,
      deleteFieldsMark w fs r (serviceLogicFile @ ''.mgo.exp'') startMark endMark,
      deleteFieldsMark w fs r (serviceClientMgoFile @ expSuffix) startMark endMark,
      Ok [fld ''userExample_rpc.go.exp'' ''userExample_rpc.go'',
       fld ''userExample.go.mgo.exp'' ''userExample.go'',
       fld ''userExample_client_test.go.mgo.exp'' ''userExample_client_test.go'']]) (\<lambda>fl. Ok (serviceMongoDBExtendedAPIFiles codeName, fl))"

definition commonServiceFields :: "genWorld \<Rightarrow> fsys \<Rightarrow> replacerInfo \<Rightarrow> (genErr, Field list) go" where
  "commonServiceFields w fs r = goConcat
     [deleteFieldsMark w fs r (daoFile @ tplSuffix) startMark endMark,
      deleteFieldsMark w fs r (daoTestFile @ tplSuffix) startMark endMark,
      deleteFieldsMark w fs r (serviceFile @ tplSuffix) startMark endMark,
      Ok [fld ''userExample_rpc.go.tpl'' ''userExample_rpc.go'',
       fld ''userExample.go.tpl'' ''userExample.go'']]"

definition commonServiceExtendedFields :: "genWorld \<Rightarrow> fsys \<Rightarrow> replacerInfo \<Rightarrow> (genErr, Field list) go" where
  "commonServiceExtendedFields w fs r = goConcat
     [deleteFieldsMark w fs r (daoFile @ expSuffix @ tplSuffix) startMark endMark,
      deleteFieldsMark w fs r (daoTestFile @ expSuffix @ tplSuffix) startMark endMark,
      deleteFieldsMark w fs r (serviceFile @ expSuffix @ tplSuffix) startMark endMark,
      Ok [fld ''userExample_rpc.go.exp.tpl'' ''userExample_rpc.go'',
       fld ''userExample.go.tpl'' ''userExample.go'',
       fld ''userExample.go.exp.tpl'' ''userExample.go'']]"

definition serviceMongoFiles :: selection where
  "serviceMongoFiles =
     [(''internal/cache'', [''userExample.go.mgo'']),
      (''internal/dao'', [''userExample.go.mgo'']),
      (''internal/service'', [''userExample.go.mgo'', ''userExample_client_test.go.mgo''])]"

definition servicePlan :: "genWorld \<Rightarrow> fsys \<Rightarrow> replacerInfo \<Rightarrow> 'a handlerGenerator_scheme \<Rightarrow> (genErr, plan \<times> 'a handlerGenerator_scheme) go" where
  "servicePlan w fs r g =
     (let info = crudInfoOf w (codeOf g ''crud_info''); common = CheckCommonType info; ext = isExtendedAPI g in
      go_bind
        (if common then
           go_bind (if ext then commonServiceExtendedFields w fs r else commonServiceFields w fs r) (\<lambda>fl.
           go_bind (replaceFilesContent w fs r (getTemplateFiles (gwVisit w 0) (serviceCommonSelect ext)) (the info)) (\<lambda>content.
           Ok (content @ fl, serviceCommonSelect ext)))
         else Ok ([], serviceSelect)) (\<lambda>(extra, selectFiles).
      let g1 = g\<lparr>commonStyle := commonStyle g \<or> common, gFields := gFields g @ extra\<rparr>;
          result = (\<lambda>fl rep. Ok (\<lparr>pSubDirs = [], pSubFiles = [], pSelect = selectFiles, pReplace = rep\<rparr>,
                                 g1\<lparr>gFields := gFields g1 @ fl\<rparr>)) in
      if sqlDatabase (dbDriver g) then
        go_bind (if ext \<and> \<not> common then serviceExtendedAPI w fs r codeNameService else Ok ([], [])) (\<lambda>(rep, fl).
          result (getExpectedSQLForDeletionField (isEmbed g) @ fl) rep)
      else if toLower (dbDriver g) = DBDriverMongodb then
        go_bind (if ext then serviceMongoDBExtendedAPI w fs r codeNameService else go_bind (deleteFieldsMark w fs r (serviceLogicFile @ mgoSuffix) startMark endMark) (\<lambda>fl. Ok (serviceMongoFiles, fl))) (\<lambda>(rep, fl). result fl rep)
      else Err (UnsupportedDriver (dbDriver g))))"

definition serviceAddFields :: "genWorld \<Rightarrow> fsys \<Rightarrow> 'a handlerGenerator_scheme \<Rightarrow> replacerInfo \<Rightarrow> (genErr, Field list) go" where
  "serviceAddFields w fs g r = goConcat
     [Ok (gFields g),
      deleteFieldsMark w fs r modelFile startMark endMark,
      deleteFieldsMark w fs r daoFile startMark endMark,
      deleteFieldsMark w fs r daoMgoFile startMark endMark,
      deleteFieldsMark w fs r daoTestFile startMark endMark,
      deleteFieldsMark w fs r serviceLogicFile startMark endMark,
      deleteFieldsMark w fs r protoTplFile startMark endMark,
      deleteFieldsMark w fs r serviceClientFile startMark endMark,
      deleteFieldsMark w fs r serviceClientMgoFile startMark endMark,
      deleteFieldsMark w fs r serviceTestFile startMark endMark,
      Ok [fld modelFileMark (codeOf g ''model''),
       fld daoFileMark (codeOf g ''dao''),
       fld embedTimeMark (getEmbedTimeCode (isEmbed g)),
       fld protoFileMark (codeOf g ''proto'')],
      go_bind (adjustmentOfIDType (codeOf g ''service'') (dbDriver g) (commonStyle g)) (\<lambda>c. Ok [fld (serviceFileMark) c]),
      Ok [fld (selfPackageName @ ''/'' @ rPath r) (moduleName g),
       fld ''github.com/go-dev-frame/sponge'' (moduleName g),
       fld (joinWith (pathDelimiter (win (gwOs w))) [''api'', ''serverNameExample'', ''v1'']) (joinWith (pathDelimiter (win (gwOs w))) [''api'', serverName g, ''v1'']),
       fld ''api/serverNameExample/v1'' (''api/'' @ serverName g @ ''/v1''),
       fld ''api.serverNameExample.v1'' (''api.'' @ serverName g @ ''.v1''),
       fld ''_userExampleNO       = 2'' (''_userExampleNO       = '' @ dec (gwRand w + 1)),
       fld (moduleName g @ pkgPathSuffix) ''github.com/go-dev-frame/sponge/pkg'',
       fld ''serverNameExample'' (serverName g),
       fld showDbNameMark (CurrentDbDriver (dbDriver g)),
       fld ''userExample_client_test.go.mgo'' ''userExample_client_test.go'',
       fld ''userExample.go.mgo'' ''userExample.go'',
       fldCS ''UserExample'' (codeOf g ''__table_name__'')],
      Ok (if suitedMonoRepo g then SubServerCodeFields (moduleName g) (serverName g) else [])]"

text \<open>In a mono repository the protocol files are moved to the directory that all servers share.\<close>

definition moveProtos :: "genWorld \<Rightarrow> 'a handlerGenerator_scheme \<Rightarrow> (genErr, string) go \<times> fsys \<Rightarrow> (genErr, string) go \<times> fsys" where
  "moveProtos w g res =
     (case res of
        (Ok out, fs) \<Rightarrow>
          (if suitedMonoRepo g then
             (case moveProtoFileToAPIDir w (moduleName g) (serverName g) True out fs of
                (Some e, fs1) \<Rightarrow> (Err e, fs1)
              | (None, fs1) \<Rightarrow> (Ok out, fs1))
           else (Ok out, fs))
      | r \<Rightarrow> r)"

definition serviceGenerate :: "genWorld \<Rightarrow> 'a handlerGenerator_scheme \<Rightarrow> fsys \<Rightarrow> (genErr, string) go \<times> fsys" where
  "serviceGenerate w g0 fs =
     (let g = (if serverName g0 = [] then g0\<lparr>serverName := moduleName g0\<rparr> else g0) in
      case openTemplates w of
        Inl _ \<Rightarrow> (Err ReplacerNil, fs)
      | Inr r \<Rightarrow> (case servicePlan w fs r g of
            Err e \<Rightarrow> (Err e, fs)
          | Panic \<Rightarrow> (Panic, fs)
          | Ok (p, g1) \<Rightarrow> moveProtos w g1 (outDirOf
              (runReplacer w (pSubDirs p) (planFiles w p) [] [] (gOutPath g) [codeNameService] (serviceAddFields w fs g1) r fs))))"

section \<open>store.go\<close>

definition storeSelect :: selection where
  "storeSelect =
     [(''internal/apiserver/store'', [''store.go'', ''userExample.go'']),
      (''internal/model'', [''userExample.go''])]"

definition storeCommonSelect :: selection where
  "storeCommonSelect =
     [(''internal/cache'', [''userExample.go.tpl'']),
      (''internal/dao'', [''userExample.go.tpl'']),
      (''internal/model'', [''userExample.go''])]"

definition storeExtendedAPIFiles :: selection where
  "storeExtendedAPIFiles =
     [(''internal/dao'', [''userExample.go.exp'', ''userExample_test.go.exp''])]"

definition storeExtendedAPI :: "genWorld \<Rightarrow> fsys \<Rightarrow> replacerInfo \<Rightarrow> (genErr, selection \<times> Field list) go" where
  "storeExtendedAPI w fs r = go_bind (goConcat
     [deleteFieldsMark w fs r (daoFile @ expSuffix) startMark endMark,
      deleteFieldsMark w fs r (daoTestFile @ expSuffix) startMark endMark,
      Ok [fld ''userExample.go.exp'' ''userExample.go'',
       fld ''userExample_test.go.exp'' ''userExample_test.go'']]) (\<lambda>fl. Ok (storeExtendedAPIFiles, fl))"

definition commonStoreFields :: "genWorld \<Rightarrow> fsys \<Rightarrow> replacerInfo \<Rightarrow> (genErr, Field list) go" where
  "commonStoreFields w fs r = goConcat
     [deleteFieldsMark w fs r (daoFile @ tplSuffix) startMark endMark,
      deleteFieldsMark w fs r (daoTestFile @ tplSuffix) startMark endMark,
      Ok [fld ''userExample.go.tpl'' ''userExample.go'']]"

definition storeMongoFiles :: selection where
  "storeMongoFiles =
     [(''internal/cache'', [''userExample.go.mgo'']),
      (''internal/dao'', [''userExample.go.mgo''])]"

definition storePlan :: "genWorld \<Rightarrow> fsys \<Rightarrow> replacerInfo \<Rightarrow> 'a handlerGenerator_scheme \<Rightarrow> (genErr, plan \<times> 'a handlerGenerator_scheme) go" where
  "storePlan w fs r g =
     (let info = crudInfoOf w (codeOf g ''crud_info''); common = CheckCommonType info; ext = isExtendedAPI g in
      go_bind
        (if common then
           go_bind (commonStoreFields w fs r) (\<lambda>fl.
           go_bind (replaceFilesContent w fs r (getTemplateFiles (gwVisit w 0) (storeCommonSelect)) (the info)) (\<lambda>content.
           Ok (content @ fl, storeCommonSelect)))
         else Ok ([], storeSelect)) (\<lambda>(extra, selectFiles).
      let g1 = g\<lparr>commonStyle := commonStyle g \<or> common, gFields := gFields g @ extra\<rparr>;
          result = (\<lambda>fl rep. Ok (\<lparr>pSubDirs = [], pSubFiles = [], pSelect = selectFiles, pReplace = rep\<rparr>,
                                 g1\<lparr>gFields := gFields g1 @ fl\<rparr>)) in
      if sqlDatabase (dbDriver g) then
        go_bind (Ok ([], [])) (\<lambda>(rep, fl).
          result (getExpectedSQLForDeletionField (isEmbed g) @ fl) rep)
      else if toLower (dbDriver g) = DBDriverMongodb then
        go_bind (if ext then daoMongoDBExtendedAPI w fs r else Ok (storeMongoFiles, [])) (\<lambda>(rep, fl). result fl rep)
      else Err (UnsupportedDriver (dbDriver g))))"

definition storeAddFields :: "genWorld \<Rightarrow> fsys \<Rightarrow> 'a handlerGenerator_scheme \<Rightarrow> replacerInfo \<Rightarrow> (genErr, Field list) go" where
  "storeAddFields w fs g r = goConcat
     [Ok (gFields g),
      deleteFieldsMark w fs r modelFile startMark endMark,
      deleteFieldsMark w fs r daoFile startMark endMark,
      deleteFieldsMark w fs r daoMgoFile startMark endMark,
      deleteFieldsMark w fs r daoTestFile startMark endMark,
      Ok [fld modelFileMark (codeOf g ''model''),
       fld daoFileMark (codeOf g ''dao''),
       fld (selfPackageName @ ''/'' @ rPath r) (moduleName g),
       fld ''github.com/moweilong/milady'' (moduleName g),
       fld (moduleName g @ pkgPathSuffix) ''github.com/moweilong/milady/pkg'',
       fld ''init.go.mgo'' ''init.go'',
       fld ''userExample.go.mgo'' ''userExample.go'',
       fldCS ''UserExample'' (codeOf g ''__table_name__'')],
      Ok (if suitedMonoRepo g then SubServerCodeFields (moduleName g) (serverName g) else [])]"

definition storeGenerate :: "genWorld \<Rightarrow> 'a handlerGenerator_scheme \<Rightarrow> fsys \<Rightarrow> (genErr, string) go \<times> fsys" where
  "storeGenerate w g fs =
     (case openTemplates w of
        Inl _ \<Rightarrow> (Err ReplacerNil, fs)
      | Inr r \<Rightarrow> (case storePlan w fs r g of
            Err e \<Rightarrow> (Err e, fs)
          | Panic \<Rightarrow> (Panic, fs)
          | Ok (p, g1) \<Rightarrow> outDirOf (runReplacer w (pSubDirs p) (planFiles w p) [] [] (gOutPath g) [codeNameStore] (storeAddFields w fs g1) r fs)))"

section \<open>model.go and protobuf.go\<close>

record modelGenerator =
  mCodes :: "(string \<times> string) list"
  mOutPath :: string

definition modelAddFields :: "genWorld \<Rightarrow> fsys \<Rightarrow> modelGenerator \<Rightarrow> replacerInfo \<Rightarrow> (genErr, Field list) go" where
  "modelAddFields w fs g r = goConcat
     [deleteFieldsMark w fs r modelFile startMark endMark,
      Ok [fld modelFileMark (codeIn (mCodes g) ''model''), fldCS ''UserExample'' (codeIn (mCodes g) ''__table_name__'')]]"

definition modelGenerate :: "genWorld \<Rightarrow> modelGenerator \<Rightarrow> replacerInfo option \<Rightarrow> fsys \<Rightarrow> (genErr, string \<times> replacerInfo option) go \<times> fsys" where
  "modelGenerate w g replacer1 fs =
     useGlobal w [] [''internal/model/userExample.go''] [] (mOutPath g) codeNameModel (modelAddFields w fs g) replacer1 fs"

record protobufGenerator = modelGenerator +
  pbModuleName :: string
  pbServerName :: string

definition protobufAddFields :: "genWorld \<Rightarrow> fsys \<Rightarrow> protobufGenerator \<Rightarrow> replacerInfo \<Rightarrow> (genErr, Field list) go" where
  "protobufAddFields w fs g r = goConcat
     [deleteFieldsMark w fs r protoTplFile startMark endMark,
      Ok [fld protoFileMark (codeIn (mCodes g) ''proto''),
       fld ''github.com/go-dev-frame/sponge'' (pbModuleName g),
       fld (joinWith (pathDelimiter (win (gwOs w))) [''api'', ''serverNameExample'', ''v1'']) (joinWith (pathDelimiter (win (gwOs w))) [''api'', pbServerName g, ''v1'']),
       fld ''api/serverNameExample/v1'' (''api/'' @ pbServerName g @ ''/v1''),
       fld ''api.serverNameExample.v1'' (''api.'' @ pbServerName g @ ''.v1''),
       fld ''serverNameExample'' (pbServerName g),
       fldCS ''UserExample'' (codeIn (mCodes g) ''__table_name__'')]]"

definition protobufGenerate :: "genWorld \<Rightarrow> protobufGenerator \<Rightarrow> replacerInfo option \<Rightarrow> fsys \<Rightarrow> (genErr, string \<times> replacerInfo option) go \<times> fsys" where
  "protobufGenerate w g0 replacer1 fs =
     (let g = (if pbServerName g0 = [] then g0\<lparr>pbServerName := pbModuleName g0\<rparr> else g0)
      in useGlobal w [] [''api/serverNameExample/v1/userExample.proto''] [] (mOutPath g) codeNameProtobuf (protobufAddFields w fs g) replacer1 fs)"

section \<open>The commands\<close>

record tableFlags =
  fModule :: string
  fServer :: string
  fMono :: bool
  fOut :: string
  fTables :: string
  fInclude :: bool
  fArgs :: genArgs

text \<open>
  The names of the project: from the file \<open>docs/gen.info\<close> of the output directory, or else from the flags. In
  a mono repository the output directory is changed to the one of the server.
\<close>

definition projectNames :: "genWorld \<Rightarrow> string \<Rightarrow> string \<Rightarrow> bool \<Rightarrow> string \<Rightarrow> fsys \<Rightarrow> (genErr, string \<times> string \<times> bool \<times> string) go" where
  "projectNames w md srv mr out fs =
     (case getNamesFromOutDir fs out of (mdName, srvName, smr) \<Rightarrow>
      if mdName = [] \<and> md = [] then Err (MissingFlag ''module-name'')
      else (case (if mdName \<noteq> [] then (mdName, srvName, smr) else (md, srv, mr)) of (m, s, mono1) \<Rightarrow>
        if \<not> mono1 then Ok (m, s, False, out)
        else if s = [] then Err (MissingFlag ''server-name'')
        else Ok (m, convertServerName s, True, changeOutPath w out (convertServerName s))))"

definition serviceNames :: "genWorld \<Rightarrow> string \<Rightarrow> string \<Rightarrow> bool \<Rightarrow> string \<Rightarrow> fsys \<Rightarrow> (genErr, string \<times> string \<times> bool \<times> string) go" where
  "serviceNames w md srv mr out fs =
     (case getNamesFromOutDir fs out of (mdName, srvName, smr) \<Rightarrow>
      if mdName = [] \<and> md = [] then Err (MissingFlag ''module-name'')
      else if srvName = [] \<and> srv = [] then Err (MissingFlag ''server-name'')
      else (let m = (if mdName \<noteq> [] then mdName else md); mono1 = (if mdName \<noteq> [] then smr else mr);
                s = convertServerName (if srvName \<noteq> [] then srvName else srv)
            in Ok (m, s, mono1, if mono1 then changeOutPath w out s else out)))"

text \<open>What \<open>sql2code.Generate\<close> leaves in the arguments it is given a pointer to.\<close>

definition argsAfter :: "world \<Rightarrow> genArgs \<Rightarrow> genArgs" where
  "argsAfter wd a =
     (case argsCheckValid (wIsExists wd) a of
        Inl _ \<Rightarrow> a
      | Inr a1 \<Rightarrow> (case getSQL (wReadFile wd) (wTableInfo wd) a1 of
            Inl _ \<Rightarrow> a1
          | Inr (sql, fieldTypes) \<Rightarrow> if fieldTypes \<noteq> None then a1\<lparr>aFieldTypes := fieldTypes\<rparr> else a1))"

text \<open>
  The loop over the names of the tables: each table goes through \<open>sql2code\<close> and a generator, which is given the
  output directory of the one before. \<open>argsOf\<close> sets the table in the arguments; with
  \<open>tableArgs\<close> it also clears the flag \<open>embed\<close> for MongoDB.
\<close>

definition tableArgs :: "genArgs \<Rightarrow> string \<Rightarrow> genArgs" where
  "tableArgs a t = (if aDBDriver a = DBDriverMongodb then a\<lparr>aIsEmbed := False, aDBTable := t\<rparr> else a\<lparr>aDBTable := t\<rparr>)"

type_synonym 's tableGen =
  "genWorld \<Rightarrow> nat \<Rightarrow> genArgs \<Rightarrow> (string \<times> string) list \<Rightarrow> 's \<Rightarrow> string \<Rightarrow> fsys \<Rightarrow> (genErr, string \<times> 's) go \<times> fsys"

fun tableLoop :: "(nat \<Rightarrow> genWorld) \<Rightarrow> (genArgs \<Rightarrow> string \<Rightarrow> genArgs) \<Rightarrow> 's tableGen \<Rightarrow> nat \<Rightarrow> genArgs \<Rightarrow> 's \<Rightarrow> string list \<Rightarrow> string \<Rightarrow> fsys \<Rightarrow> (genErr, string) go \<times> fsys" where
  "tableLoop ws argsOf gen n a s [] out fs = (Ok out, fs)"
| "tableLoop ws argsOf gen n a s (t # ts) out fs =
     (if t = [] then tableLoop ws argsOf gen (Suc n) a s ts out fs
      else case Generate (gwGenv (ws n)) (gwWorld (ws n)) (argsOf a t) of
          Err e \<Rightarrow> (Err (SqlError e), fs)
        | Panic \<Rightarrow> (Panic, fs)
        | Ok cs \<Rightarrow>
            let a1 = argsAfter (gwWorld (ws n)) (argsOf a t) in
            (case gen (ws n) n a1 cs s out fs of
               (Ok (out1, s1), fs1) \<Rightarrow> tableLoop ws argsOf gen (Suc n) a1 s1 ts out1 fs1
             | (Err e, fs1) \<Rightarrow> (Err e, fs1)
             | (Panic, fs1) \<Rightarrow> (Panic, fs1)))"

definition newGenerator :: "string \<Rightarrow> string \<Rightarrow> bool \<Rightarrow> genArgs \<Rightarrow> (string \<times> string) list \<Rightarrow> string \<Rightarrow> handlerGenerator" where
  "newGenerator m s mr a cs out =
     \<lparr>moduleName = m, dbDriver = aDBDriver a, codes = cs, gOutPath = out, serverName = s, isEmbed = aIsEmbed a,
      isExtendedAPI = aIsExtendedAPI a, suitedMonoRepo = mr, gFields = [], commonStyle = False\<rparr>"

text \<open>A generator that opens the templates itself has no state between two tables.\<close>

definition stateless :: "(genErr, string) go \<times> fsys \<Rightarrow> (genErr, string \<times> unit) go \<times> fsys" where
  "stateless res = (case res of (Ok out, fs) \<Rightarrow> (Ok (out, ()), fs) | (Err e, fs) \<Rightarrow> (Err e, fs) | (Panic, fs) \<Rightarrow> (Panic, fs))"

definition withInit :: "bool \<Rightarrow> handlerGenerator \<Rightarrow> daoGenerator" where
  "withInit b g = handlerGenerator.extend g (daoGenerator.fields b)"

definition daoTable :: "string \<Rightarrow> string \<Rightarrow> bool \<Rightarrow> bool \<Rightarrow> unit tableGen" where
  "daoTable m s mr incl w n a cs st out fs = stateless (daoGenerate w (withInit (n = 0 \<and> incl) (newGenerator m s mr a cs out)) fs)"

definition storeTable :: "string \<Rightarrow> string \<Rightarrow> bool \<Rightarrow> bool \<Rightarrow> unit tableGen" where
  "storeTable m s mr incl w n a cs st out fs = stateless (storeGenerate w (withInit (n = 0 \<and> incl) (newGenerator m s mr a cs out)) fs)"

definition handlerTable :: "string \<Rightarrow> string \<Rightarrow> bool \<Rightarrow> unit tableGen" where
  "handlerTable m s mr w n a cs st out fs = stateless (handlerGenerate w (newGenerator m s mr a cs out) fs)"

definition serviceTable :: "string \<Rightarrow> string \<Rightarrow> bool \<Rightarrow> unit tableGen" where
  "serviceTable m s mr w n a cs st out fs = stateless (serviceGenerate w (newGenerator m s mr a cs out) fs)"

definition modelTable :: "replacerInfo option tableGen" where
  "modelTable w n a cs st out fs = modelGenerate w \<lparr>mCodes = cs, mOutPath = out\<rparr> st fs"

definition protobufTable :: "string \<Rightarrow> string \<Rightarrow> replacerInfo option tableGen" where
  "protobufTable m s w n a cs st out fs =
     protobufGenerate w \<lparr>mCodes = cs, mOutPath = out, pbModuleName = m, pbServerName = s\<rparr> st fs"

definition tableCommand :: "(nat \<Rightarrow> genWorld) \<Rightarrow> (genErr, string \<times> string \<times> bool \<times> string) go \<Rightarrow>
    (string \<Rightarrow> string \<Rightarrow> bool \<Rightarrow> 's tableGen) \<Rightarrow> tableFlags \<Rightarrow> 's \<Rightarrow> fsys \<Rightarrow> (genErr, string) go \<times> fsys" where
  "tableCommand ws names1 gen f s fs =
     (case names1 of
        Err e \<Rightarrow> (Err e, fs)
      | Panic \<Rightarrow> (Panic, fs)
      | Ok (m, srv, mr, out) \<Rightarrow> tableLoop ws tableArgs (gen m srv mr) 0 (fArgs f) s (splitOn (CHR '','') (fTables f)) out fs)"

definition DaoCommand :: "(nat \<Rightarrow> genWorld) \<Rightarrow> tableFlags \<Rightarrow> fsys \<Rightarrow> (genErr, string) go \<times> fsys" where
  "DaoCommand ws f fs =
     tableCommand ws (projectNames (ws 0) (fModule f) (fServer f) (fMono f) (fOut f) fs) (\<lambda>m s mr. daoTable m s mr (fInclude f)) f () fs"

definition StoreCommand :: "(nat \<Rightarrow> genWorld) \<Rightarrow> tableFlags \<Rightarrow> fsys \<Rightarrow> (genErr, string) go \<times> fsys" where
  "StoreCommand ws f fs =
     tableCommand ws (projectNames (ws 0) (fModule f) (fServer f) (fMono f) (fOut f) fs) (\<lambda>m s mr. storeTable m s mr (fInclude f)) f () fs"

definition HandlerCommand :: "(nat \<Rightarrow> genWorld) \<Rightarrow> tableFlags \<Rightarrow> fsys \<Rightarrow> (genErr, string) go \<times> fsys" where
  "HandlerCommand ws f fs =
     tableCommand ws (projectNames (ws 0) (fModule f) (fServer f) (fMono f) (fOut f) fs) handlerTable f () fs"

definition ServiceCommand :: "(nat \<Rightarrow> genWorld) \<Rightarrow> tableFlags \<Rightarrow> fsys \<Rightarrow> (genErr, string) go \<times> fsys" where
  "ServiceCommand ws f fs =
     tableCommand ws (serviceNames (ws 0) (fModule f) (fServer f) (fMono f) (fOut f) fs) serviceTable f () fs"

definition ModelCommand :: "(nat \<Rightarrow> genWorld) \<Rightarrow> tableFlags \<Rightarrow> replacerInfo option \<Rightarrow> fsys \<Rightarrow> (genErr, string) go \<times> fsys" where
  "ModelCommand ws f replacer1 fs = tableCommand ws (Ok ([], [], False, fOut f)) (\<lambda>_ _ _. modelTable) f replacer1 fs"

text \<open>The flag for mono repositories is not one of \<open>protobuf\<close>: the names are taken, and the directory is kept.\<close>

definition ProtobufCommand :: "(nat \<Rightarrow> genWorld) \<Rightarrow> tableFlags \<Rightarrow> replacerInfo option \<Rightarrow> fsys \<Rightarrow> (genErr, string) go \<times> fsys" where
  "ProtobufCommand ws f replacer1 fs =
     tableCommand ws (go_bind (serviceNames (ws 0) (fModule f) (fServer f) False (fOut f) fs) (\<lambda>(m, s, _, _). Ok (m, s, False, fOut f)))
       (\<lambda>m s _. protobufTable m s) f replacer1 fs"

section \<open>Existing files\<close>

text \<open>Generators of one table: from the choice of files to the saved project.\<close>

lemma generate_keeps:
  assumes "visitsAll (gwOs w)"
    and "(case openTemplates w of
        Inl _ \<Rightarrow> (Err ReplacerNil, fs)
      | Inr r \<Rightarrow> (case P r of
            Err e \<Rightarrow> (Err e, fs)
          | Panic \<Rightarrow> (Panic, fs)
          | Ok (p, g1) \<Rightarrow> outDirOf (runReplacer w (pSubDirs p) (planFiles w p) igd igf out ns (addF g1) r fs))) = (res, fs')"
  shows "keepsFiles fs fs'"
  using assms(2) outDirOf_keeps runReplacer_keeps [OF assms(1)]
  by (auto split: sum.splits go.splits) (metis old.prod.exhaust)

lemma stateless_keeps:
  "stateless x = (res, fs') \<Longrightarrow> (\<And>res. x = (res, fs') \<Longrightarrow> keepsFiles fs fs') \<Longrightarrow> keepsFiles fs fs'"
  by (auto simp: stateless_def split: go.splits prod.splits)

text \<open>What the loop over the tables asks of a generator, and what it then gives a command.\<close>

locale table_generator =
  fixes gen :: "'s tableGen"
  assumes gen_keeps: "visitsAll (gwOs w) \<Longrightarrow> gen w n a cs s out fs = (res, fs') \<Longrightarrow> keepsFiles fs fs'"
begin

lemma loop_keeps:
  assumes "\<forall>n. visitsAll (gwOs (ws n))"
  shows "tableLoop ws argsOf gen n a s ts out fs = (res, fs') \<Longrightarrow> keepsFiles fs fs'"
proof (induction ts arbitrary: n a s out fs)
  case (Cons t ts)
  from assms have w: "visitsAll (gwOs (ws n))" ..
  let ?a = "argsAfter (gwWorld (ws n)) (argsOf a t)"
  from Cons.prems Cons.IH consider "keepsFiles fs fs'"
    | cs r fs1 where "gen (ws n) n ?a cs s out fs = (r, fs1)" "keepsFiles fs1 fs'"
    by (auto simp: Let_def split: if_splits go.splits prod.splits)
  then show ?case
  proof cases
    case 2
    with gen_keeps [OF w] keepsFiles_trans show ?thesis by blast
  qed
qed simp

end

lemma tableCommand_keeps:
  assumes "\<And>m srv mr. table_generator (gen m srv mr)" "\<forall>n. visitsAll (gwOs (ws n))"
    and "tableCommand ws names1 gen f s fs = (res, fs')"
  shows "keepsFiles fs fs'"
  using assms(3) table_generator.loop_keeps [OF assms(1,2)] by (auto simp: tableCommand_def split: go.splits)

lemma daoGenerate_keeps: "visitsAll (gwOs w) \<Longrightarrow> daoGenerate w g fs = (res, fs') \<Longrightarrow> keepsFiles fs fs'"
  unfolding daoGenerate_def by (rule generate_keeps)

lemma storeGenerate_keeps: "visitsAll (gwOs w) \<Longrightarrow> storeGenerate w g fs = (res, fs') \<Longrightarrow> keepsFiles fs fs'"
  unfolding storeGenerate_def by (rule generate_keeps)

lemma handlerGenerate_keeps: "visitsAll (gwOs w) \<Longrightarrow> handlerGenerate w g fs = (res, fs') \<Longrightarrow> keepsFiles fs fs'"
  unfolding handlerGenerate_def by (rule generate_keeps)

interpretation daoTables: table_generator "daoTable m srv mr incl" for m srv mr incl
  by unfold_locales (auto simp: daoTable_def elim: stateless_keeps daoGenerate_keeps)

interpretation storeTables: table_generator "storeTable m srv mr incl" for m srv mr incl
  by unfold_locales (auto simp: storeTable_def elim: stateless_keeps storeGenerate_keeps)

interpretation handlerTables: table_generator "handlerTable m srv mr" for m srv mr
  by unfold_locales (auto simp: handlerTable_def elim: stateless_keeps handlerGenerate_keeps)

interpretation modelTables: table_generator modelTable
  using useGlobal_keeps by unfold_locales (auto simp: modelTable_def modelGenerate_def)

interpretation protobufTables: table_generator "protobufTable m srv" for m srv
  using useGlobal_keeps by unfold_locales (auto simp: protobufTable_def protobufGenerate_def Let_def)

text \<open>
  C35: Adding the code of tables to a project never damages it: whatever the tables, the database and the state of the
  directory, and also when the command stops with an error half way, every file that was there has its content
  afterwards.
\<close>

theorem table_commands_keep_files:
  assumes "\<forall>n. visitsAll (gwOs (ws n))" "fsFiles fs p = Some d"
    and "(res, fs') \<in> {DaoCommand ws f fs, StoreCommand ws f fs, HandlerCommand ws f fs, ModelCommand ws f replacer1 fs, ProtobufCommand ws f replacer1 fs}"
  shows "fsFiles fs' p = Some d"
proof -
  note keeps = tableCommand_keeps [OF _ assms(1)]
  from assms(3) have "keepsFiles fs fs'"
    by (auto simp: DaoCommand_def StoreCommand_def HandlerCommand_def ModelCommand_def ProtobufCommand_def
        daoTables.table_generator_axioms storeTables.table_generator_axioms handlerTables.table_generator_axioms
        modelTables.table_generator_axioms protobufTables.table_generator_axioms dest!: keeps [rotated, OF sym])
  with assms(2) show ?thesis by (simp add: keepsFiles_def)
qed

text \<open>Flags and arguments for concrete runs.\<close>

definition demoArgs :: genArgs where
  "demoArgs = \<lparr>aSQL = [], aDDLFile = [], aDBDriver = DBDriverMysql, aDBDsn = ''u:p@(h)/d'', aDBTable = [], aFieldTypes = None,
     aPackage = ''model'', aGormType = True, aJSONTag = True, aJSONNamedType = 1, aIsEmbed = True, aIsWebProto = False, aCodeType = [],
     aForceTableName = False, aCharset = [], aCollation = [], aTablePrefix = [], aColumnPrefix = [], aNoNullType = False,
     aNullStyle = [], aIsExtendedAPI = False, aIsCustomTemplate = False\<rparr>"

definition demoFlags :: tableFlags where
  "demoFlags = \<lparr>fModule = ''m'', fServer = ''u'', fMono = False, fOut = ''/o'', fTables = ''a,b'', fInclude = True, fArgs = demoArgs\<rparr>"

theorem table_commands_keep_files_witness:
  "fsFiles (snd (HandlerCommand (\<lambda>_. demoWorld) demoFlags markedFs)) ''/t/user.go'' = Some ''a<b>c''"
proof -
  let ?r = "HandlerCommand (\<lambda>_. demoWorld) demoFlags markedFs"
  have "\<forall>n. visitsAll (gwOs ((\<lambda>_. demoWorld) n))" by (simp add: demoWorld_def runEnv_visits)
  moreover have "fsFiles markedFs ''/t/user.go'' = Some ''a<b>c''" by (simp add: markedFs_def)
  ultimately show ?thesis by (rule table_commands_keep_files [where res = "fst ?r" and f = demoFlags and ?replacer1.0 = None]) simp
qed

end
