(* ===== verification/GenServer.thy ===== *)
theory GenServer
  imports GenTable
begin

text \<open>
  The generators of a whole server: \<open>http.go\<close> and \<open>rpc.go\<close> of \<open>cmd/milady/commands/generate\<close>, and their commands, which make
  the server for the first table and add the code of the others with the generators of \<open>GenTable\<close>.
\<close>

text \<open>The file \<open>docs/gen.info\<close> is written at the end, its error dropped.\<close>

definition withGenInfo :: "genWorld \<Rightarrow> 'a handlerGenerator_scheme \<Rightarrow> (genErr, string) go \<times> fsys \<Rightarrow> (genErr, string) go \<times> fsys" where
  "withGenInfo w g res =
     (case res of
        (Ok out, fs) \<Rightarrow> (Ok out, snd (saveGenInfo w (moduleName g) (serverName g) (suitedMonoRepo g) out fs))
      | r \<Rightarrow> r)"

section \<open>http.go\<close>

definition httpSubDirs :: "string list" where
  "httpSubDirs = [''cmd/serverNameExample_httpExample'', ''sponge/configs'', ''sponge/deployments'', ''sponge/scripts'']"

definition httpSubFiles :: "string list" where
  "httpSubFiles = [''sponge/.gitignore'', ''sponge/.golangci.yml'', ''sponge/go.mod'', ''sponge/go.sum'', ''sponge/Jenkinsfile'', ''sponge/Makefile-for-http'', ''sponge/README.md'']"

definition httpSelect :: selection where
  "httpSelect =
     [(''docs'', [''docs.go'']),
      (''internal/cache'', [''userExample.go'', ''userExample_test.go'']),
      (''internal/config'', [''serverNameExample.go'']),
      (''internal/dao'', [''userExample.go'', ''userExample_test.go'']),
      (''internal/database'', [''init.go'']),
      (''internal/ecode'', [''systemCode_http.go'', ''userExample_http.go'']),
      (''internal/handler'', [''userExample.go'', ''userExample_test.go'']),
      (''internal/model'', [''userExample.go'']),
      (''internal/routers'', [''routers.go'', ''userExample.go'']),
      (''internal/server'', [''http.go.noregistry'', ''http_option.go.noregistry'']),
      (''internal/types'', [''swagger_types.go'', ''userExample_types.go''])]"

definition httpCommonSelect :: "bool \<Rightarrow> selection \<Rightarrow> selection" where
  "httpCommonSelect ext sel =
     (let base = AList.update ''internal/types'' [''swagger_types.go'', ''userExample_types.go.tpl'']
       (AList.update ''internal/routers'' [''routers.go'', ''userExample.go.tpl'']
       (AList.update ''internal/handler'' [''userExample.go.tpl'']
       (AList.update ''internal/ecode'' [''systemCode_http.go'', ''userExample_http.go.tpl'']
       (AList.update ''internal/dao'' [''userExample.go.tpl'']
       (AList.update ''internal/cache'' [''userExample.go.tpl''] sel)))))
      in if ext then AList.update ''internal/types'' [''swagger_types.go'', ''userExample_types.go.exp.tpl'']
       (AList.update ''internal/routers'' [''routers.go'', ''userExample.go.exp.tpl'']
       (AList.update ''internal/handler'' [''userExample.go.exp.tpl'']
       (AList.update ''internal/ecode'' [''systemCode_http.go'', ''userExample_http.go.exp.tpl'']
       (AList.update ''internal/dao'' [''userExample.go.exp.tpl''] base)))) else base)"

definition httpMongoFiles :: selection where
  "httpMongoFiles =
     [(''internal/cache'', [''userExample.go.mgo'']),
      (''internal/dao'', [''userExample.go.mgo'']),
      (''internal/handler'', [''userExample.go.mgo'']),
      (''internal/types'', [''swagger_types.go'', ''userExample_types.go.mgo''])]"

definition commonHTTPFields :: "genWorld \<Rightarrow> fsys \<Rightarrow> replacerInfo \<Rightarrow> (genErr, Field list) go" where
  "commonHTTPFields w fs r = commonHandlerFields w fs r"

definition commonHTTPExtendedFields :: "genWorld \<Rightarrow> fsys \<Rightarrow> replacerInfo \<Rightarrow> (genErr, Field list) go" where
  "commonHTTPExtendedFields w fs r = commonHandlerExtendedFields w fs r"

definition httpPlan :: "genWorld \<Rightarrow> fsys \<Rightarrow> replacerInfo \<Rightarrow> 'a handlerGenerator_scheme \<Rightarrow> (genErr, plan \<times> 'a handlerGenerator_scheme) go" where
  "httpPlan w fs r g =
     (let info = crudInfoOf w (codeOf g ''crud_info''); common = CheckCommonType info; ext = isExtendedAPI g in
      go_bind (if suitedMonoRepo g then removeElements httpSubFiles [''sponge/go.mod'', ''sponge/go.sum''] else Ok httpSubFiles) (\<lambda>subFiles.
      go_bind (SetSelectFiles (dbDriver g) httpSelect) (\<lambda>sel.
      go_bind
        (if common then
           go_bind (if ext then commonHTTPExtendedFields w fs r else commonHTTPFields w fs r) (\<lambda>fl.
           go_bind (replaceFilesContent w fs r (getTemplateFiles (gwVisit w 0) (httpCommonSelect ext sel)) (the info)) (\<lambda>content.
           Ok (content @ fl, httpCommonSelect ext sel)))
         else Ok ([], sel)) (\<lambda>(extra, selected).
      let subDirs = httpSubDirs; selectFiles = selected;
          g1 = g\<lparr>commonStyle := commonStyle g \<or> common, gFields := gFields g @ extra\<rparr>;
          result = (\<lambda>fl rep. Ok (\<lparr>pSubDirs = subDirs, pSubFiles = subFiles, pSelect = selectFiles, pReplace = rep\<rparr>,
                                 g1\<lparr>gFields := gFields g1 @ fl\<rparr>)) in
      if sqlDatabase (dbDriver g) then
        go_bind (if ext \<and> \<not> common then handlerExtendedAPI w fs r codeNameHTTP else Ok ([], [])) (\<lambda>(rep, fl).
          result (getExpectedSQLForDeletionField (isEmbed g) @ fl) rep)
      else if toLower (dbDriver g) = DBDriverMongodb then
        go_bind (if ext then handlerMongoDBExtendedAPI w fs r codeNameHTTP else Ok (httpMongoFiles, [])) (\<lambda>(rep, fl). result fl rep)
      else Err (UnsupportedDriver (dbDriver g))))))"

definition httpAddFields :: "genWorld \<Rightarrow> fsys \<Rightarrow> httpGenerator \<Rightarrow> replacerInfo \<Rightarrow> (genErr, Field list) go" where
  "httpAddFields w fs g r = (let repoHost = fst (parseImageRepoAddr (repoAddr g)) in goConcat
     [Ok (gFields g),
      deleteFieldsMark w fs r modelFile startMark endMark,
      deleteFieldsMark w fs r databaseInitDBFile startMark endMark,
      deleteFieldsMark w fs r daoFile startMark endMark,
      deleteFieldsMark w fs r daoMgoFile startMark endMark,
      deleteFieldsMark w fs r daoTestFile startMark endMark,
      deleteFieldsMark w fs r typesFile startMark endMark,
      deleteFieldsMark w fs r typesMgoFile startMark endMark,
      deleteFieldsMark w fs r handlerTestFile startMark endMark,
      deleteFieldsMark w fs r httpFile startMark endMark,
      deleteFieldsMark w fs r (httpFile @ ''.noregistry'') startMark endMark,
      deleteFieldsMark w fs r dockerFile wellStartMark wellEndMark,
      deleteFieldsMark w fs r dockerFileBuild wellStartMark wellEndMark,
      deleteFieldsMark w fs r dockerComposeFile wellStartMark wellEndMark,
      deleteFieldsMark w fs r k8sDeploymentFile wellStartMark wellEndMark,
      deleteFieldsMark w fs r k8sServiceFile wellStartMark wellEndMark,
      deleteFieldsMark w fs r imageBuildFile wellStartMark wellEndMark,
      deleteFieldsMark w fs r imageBuildLocalFile wellStartMark wellEndMark,
      deleteFieldsMark w fs r gitIgnoreFile wellStartMark wellEndMark,
      deleteAllFieldsMark w fs r protoShellFile wellStartMark wellEndMark,
      deleteAllFieldsMark w fs r appConfigFile wellStartMark wellEndMark,
      Ok (replaceFileContentMark w fs r readmeFile (setReadmeTitle (moduleName g) (serverName g) codeNameHTTP (suitedMonoRepo g))),
      Ok [fld appConfigFileMark httpServerConfigCode,
       fld appConfigFileMark2 (getDBConfigCode (dbDriver g)),
       fld modelFileMark (codeOf g ''model'')],
      go_bind (getInitDBCode (dbDriver g)) (\<lambda>c. Ok [fld (databaseInitDBFileMark) c]),
      Ok [fld daoFileMark (codeOf g ''dao'')],
      go_bind (adjustmentOfIDType (codeOf g ''handler'') (dbDriver g) (commonStyle g)) (\<lambda>c. Ok [fld (handlerFileMark) c]),
      Ok [fld dockerFileMark dockerFileHTTPCode,
       fld dockerFileBuildMark dockerFileBuildHTTPCode,
       fld imageBuildFileMark imageBuildFileHTTPCode,
       fld imageBuildLocalFileMark imageBuildLocalFileHTTPCode,
       fld dockerComposeFileMark dockerComposeFileHTTPCode,
       fld k8sDeploymentFileMark k8sDeploymentFileHTTPCode,
       fld k8sServiceFileMark k8sServiceFileHTTPCode,
       fld (selfPackageName @ ''/'' @ rPath r) (moduleName g),
       fld protoShellFileGRPCMark [],
       fld protoShellFileMark [],
       fld ''github.com/go-dev-frame/sponge'' (moduleName g),
       fld (moduleName g @ pkgPathSuffix) ''github.com/go-dev-frame/sponge/pkg'',
       fld spongeTemplateVersionMark (getLocalSpongeTemplateVersion w fs),
       fld ''sponge api docs'' (serverName g @ apiDocsSuffix),
       fld defaultGoModVersion (getLocalGoVersion w),
       fld ''userExampleNO       = 1'' (''userExampleNO = '' @ dec (gwRand w + 1)),
       fld ''serverNameExample'' (serverName g),
       fld ''server-name-example'' (gwKebab w (serverName g)),
       fld ''project-name-example'' (projectName g),
       fld ''projectNameExample'' (projectName g),
       fld ''repo-addr-example'' (repoAddr g),
       fld ''image-repo-host'' repoHost,
       fld ''_httpExample'' [],
       fld ''_mixExample'' [],
       fld ''_pbExample'' [],
       fld ''root:123456@(192.168.3.37:3306)/account'' (dbDSN g),
       fld ''root:123456@192.168.3.37:27017/account'' (dbDSN g)],
      go_bind (adaptPgDsn w (dbDSN g)) (\<lambda>c. Ok [fld (''root:123456@192.168.3.37:5432/account?sslmode=disable'') c]),
      Ok [fld ''test/sql/sqlite/sponge.db'' (sqliteDSNAdaptation w (dbDriver g) (dbDSN g)),
       fld showDbNameMark (CurrentDbDriver (dbDriver g)),
       fld ''Makefile-for-http'' ''Makefile'',
       fld ''init.go.mgo'' ''init.go'',
       fld ''mongodb.go.mgo'' ''mongodb.go'',
       fld ''userExample_types.go.mgo'' ''userExample_types.go'',
       fld ''userExample.go.mgo'' ''userExample.go'',
       fldCS ''UserExample'' (codeOf g ''__table_name__'')],
      Ok getHTTPServiceFields,
      Ok (if suitedMonoRepo g then serverCodeFields codeNameHTTP (moduleName g) (serverName g) else [])])"

definition httpGenerate :: "genWorld \<Rightarrow> httpGenerator \<Rightarrow> fsys \<Rightarrow> (genErr, string) go \<times> fsys" where
  "httpGenerate w g fs =
     (case openTemplates w of
        Inl _ \<Rightarrow> (Err ReplacerNil, fs)
      | Inr r \<Rightarrow> (case httpPlan w fs r g of
            Err e \<Rightarrow> (Err e, fs)
          | Panic \<Rightarrow> (Panic, fs)
          | Ok (p, g1) \<Rightarrow> withGenInfo w g1 (outDirOf
              (runReplacer w (pSubDirs p) (planFiles w p) [''cmd/sponge'']
                 [''scripts/image-rpc-test.sh'', ''scripts/patch.sh'', ''scripts/protoc.sh'', ''scripts/proto-doc.sh'', ''configs/serverNameExample_cc.yml'']
                 (gOutPath g) [serverName g @ ''_'' @ codeNameHTTP] (httpAddFields w fs g1) r fs))))"

section \<open>rpc.go\<close>

definition rpcSubDirs :: "string list" where
  "rpcSubDirs = [''cmd/serverNameExample_grpcExample'', ''sponge/configs'', ''sponge/deployments'', ''sponge/scripts'', ''sponge/third_party'']"

definition rpcSubFiles :: "string list" where
  "rpcSubFiles = [''sponge/.gitignore'', ''sponge/.golangci.yml'', ''sponge/go.mod'', ''sponge/go.sum'', ''sponge/Jenkinsfile'', ''sponge/Makefile'', ''sponge/README.md'']"

definition rpcSelect :: selection where
  "rpcSelect =
     [(''api/serverNameExample/v1'', [''userExample.proto'']),
      (''api/types'', [''types.proto'']),
      (''internal/cache'', [''userExample.go'', ''userExample_test.go'']),
      (''internal/config'', [''serverNameExample.go'']),
      (''internal/dao'', [''userExample.go'', ''userExample_test.go'']),
      (''internal/database'', [''init.go'']),
      (''internal/ecode'', [''systemCode_rpc.go'', ''userExample_rpc.go'']),
      (''internal/model'', [''userExample.go'']),
      (''internal/server'', [''grpc.go'', ''grpc_option.go'']),
      (''internal/service'', [''service.go'', ''service_test.go'', ''userExample.go'', ''userExample_client_test.go''])]"

definition rpcCommonSelect :: "bool \<Rightarrow> selection \<Rightarrow> selection" where
  "rpcCommonSelect ext sel =
     (let base = AList.update ''internal/service'' [''service.go'', ''service_test.go'', ''userExample.go.tpl'']
       (AList.update ''internal/ecode'' [''systemCode_rpc.go'', ''userExample_rpc.go.tpl'']
       (AList.update ''internal/dao'' [''userExample.go.tpl'']
       (AList.update ''internal/cache'' [''userExample.go.tpl''] sel)))
      in if ext then AList.update ''internal/service'' [''service.go'', ''service_test.go'', ''userExample.go.exp.tpl'']
       (AList.update ''internal/ecode'' [''systemCode_rpc.go'', ''userExample_rpc.go.exp.tpl'']
       (AList.update ''internal/dao'' [''userExample.go.exp.tpl''] base)) else base)"

definition rpcMongoFiles :: selection where
  "rpcMongoFiles =
     [(''internal/cache'', [''userExample.go.mgo'']),
      (''internal/dao'', [''userExample.go.mgo'']),
      (''internal/service'', [''service.go'', ''service_test.go'', ''userExample.go.mgo'', ''userExample_client_test.go.mgo''])]"

definition commonGRPCFields :: "genWorld \<Rightarrow> fsys \<Rightarrow> replacerInfo \<Rightarrow> (genErr, Field list) go" where
  "commonGRPCFields w fs r = commonServiceFields w fs r"

definition commonGRPCExtendedFields :: "genWorld \<Rightarrow> fsys \<Rightarrow> replacerInfo \<Rightarrow> (genErr, Field list) go" where
  "commonGRPCExtendedFields w fs r = commonServiceExtendedFields w fs r"

definition rpcPlan :: "genWorld \<Rightarrow> fsys \<Rightarrow> replacerInfo \<Rightarrow> 'a handlerGenerator_scheme \<Rightarrow> (genErr, plan \<times> 'a handlerGenerator_scheme) go" where
  "rpcPlan w fs r g =
     (let info = crudInfoOf w (codeOf g ''crud_info''); common = CheckCommonType info; ext = isExtendedAPI g in
      go_bind (SetSelectFiles (dbDriver g) rpcSelect) (\<lambda>sel.
      go_bind
        (if common then
           go_bind (if ext then commonGRPCExtendedFields w fs r else commonGRPCFields w fs r) (\<lambda>fl.
           go_bind (replaceFilesContent w fs r (getTemplateFiles (gwVisit w 0) (rpcCommonSelect ext sel)) (the info)) (\<lambda>content.
           Ok (content @ fl, rpcCommonSelect ext sel)))
         else Ok ([], sel)) (\<lambda>(extra, selected).
      go_bind (if suitedMonoRepo g then removeElements rpcSubDirs [''sponge/third_party''] else Ok rpcSubDirs) (\<lambda>subDirs.
      go_bind (if suitedMonoRepo g then removeElements rpcSubFiles [''sponge/go.mod'', ''sponge/go.sum''] else Ok rpcSubFiles) (\<lambda>subFiles.
      let selectFiles = (if suitedMonoRepo g then AList.delete ''api/types'' selected else selected);
          g1 = g\<lparr>commonStyle := commonStyle g \<or> common, gFields := gFields g @ extra\<rparr>;
          result = (\<lambda>fl rep. Ok (\<lparr>pSubDirs = subDirs, pSubFiles = subFiles, pSelect = selectFiles, pReplace = rep\<rparr>,
                                 g1\<lparr>gFields := gFields g1 @ fl\<rparr>)) in
      if sqlDatabase (dbDriver g) then
        go_bind (if ext then serviceExtendedAPI w fs r codeNameGRPC else Ok ([], [])) (\<lambda>(rep, fl).
          result (getExpectedSQLForDeletionField (isEmbed g) @ fl) rep)
      else if toLower (dbDriver g) = DBDriverMongodb then
        go_bind (if ext then serviceMongoDBExtendedAPI w fs r codeNameHTTP else go_bind (deleteFieldsMark w fs r (serviceLogicFile @ mgoSuffix) startMark endMark) (\<lambda>fl. Ok (rpcMongoFiles, fl))) (\<lambda>(rep, fl). result fl rep)
      else Err (UnsupportedDriver (dbDriver g)))))))"

definition rpcAddFields :: "genWorld \<Rightarrow> fsys \<Rightarrow> httpGenerator \<Rightarrow> replacerInfo \<Rightarrow> (genErr, Field list) go" where
  "rpcAddFields w fs g r = (let repoHost = fst (parseImageRepoAddr (repoAddr g)) in goConcat
     [Ok (gFields g),
      deleteFieldsMark w fs r modelFile startMark endMark,
      deleteFieldsMark w fs r databaseInitDBFile startMark endMark,
      deleteFieldsMark w fs r daoFile startMark endMark,
      deleteFieldsMark w fs r daoMgoFile startMark endMark,
      deleteFieldsMark w fs r daoTestFile startMark endMark,
      deleteFieldsMark w fs r protoTplFile startMark endMark,
      deleteFieldsMark w fs r serviceLogicFile startMark endMark,
      deleteFieldsMark w fs r serviceClientFile startMark endMark,
      deleteFieldsMark w fs r serviceClientMgoFile startMark endMark,
      deleteFieldsMark w fs r serviceTestFile startMark endMark,
      deleteFieldsMark w fs r dockerFile wellStartMark wellEndMark,
      deleteFieldsMark w fs r dockerFileBuild wellStartMark wellEndMark,
      deleteFieldsMark w fs r dockerComposeFile wellStartMark wellEndMark,
      deleteFieldsMark w fs r k8sDeploymentFile wellStartMark wellEndMark,
      deleteFieldsMark w fs r k8sServiceFile wellStartMark wellEndMark,
      deleteFieldsMark w fs r imageBuildFile wellStartMark wellEndMark,
      deleteFieldsMark w fs r imageBuildLocalFile wellStartMark wellEndMark,
      deleteAllFieldsMark w fs r makeFile wellStartMark wellEndMark,
      deleteFieldsMark w fs r gitIgnoreFile wellStartMark wellEndMark,
      deleteAllFieldsMark w fs r protoShellFile wellStartMark wellEndMark,
      deleteAllFieldsMark w fs r appConfigFile wellStartMark wellEndMark,
      Ok (replaceFileContentMark w fs r readmeFile (setReadmeTitle (moduleName g) (serverName g) codeNameGRPC (suitedMonoRepo g))),
      Ok [fld appConfigFileMark rpcServerConfigCode,
       fld appConfigFileMark2 (getDBConfigCode (dbDriver g)),
       fld modelFileMark (codeOf g ''model'')],
      go_bind (getInitDBCode (dbDriver g)) (\<lambda>c. Ok [fld (databaseInitDBFileMark) c]),
      Ok [fld daoFileMark (codeOf g ''dao''),
       fld embedTimeMark (getEmbedTimeCode (isEmbed g)),
       fld protoFileMark (codeOf g ''proto''),
       fld protoShellFileGRPCMark protoShellGRPCMark,
       fld protoShellFileMark protoShellServiceTmplCode],
      go_bind (adjustmentOfIDType (codeOf g ''service'') (dbDriver g) (commonStyle g)) (\<lambda>c. Ok [fld (serviceFileMark) c]),
      Ok [fld dockerFileMark dockerFileGrpcCode,
       fld dockerFileBuildMark dockerFileBuildGrpcCode,
       fld imageBuildFileMark imageBuildFileGrpcCode,
       fld imageBuildLocalFileMark imageBuildLocalFileGrpcCode,
       fld dockerComposeFileMark dockerComposeFileGrpcCode,
       fld k8sDeploymentFileMark k8sDeploymentFileGrpcCode,
       fld k8sServiceFileMark k8sServiceFileGrpcCode,
       fld (selfPackageName @ ''/'' @ rPath r) (moduleName g),
       fld (joinWith (pathDelimiter (win (gwOs w))) [''api'', ''userExample'', ''v1'']) (joinWith (pathDelimiter (win (gwOs w))) [''api'', serverName g, ''v1'']),
       fld ''github.com/go-dev-frame/sponge'' (moduleName g),
       fld (moduleName g @ pkgPathSuffix) ''github.com/go-dev-frame/sponge/pkg'',
       fld spongeTemplateVersionMark (getLocalSpongeTemplateVersion w fs),
       fld ''api/userExample/v1'' (''api/'' @ serverName g @ ''/v1''),
       fld ''api.userExample.v1'' (''api.'' @ serverName g @ ''.v1''),
       fld ''sponge api docs'' (serverName g @ apiDocsSuffix),
       fld defaultGoModVersion (getLocalGoVersion w),
       fld ''_userExampleNO       = 2'' (''_userExampleNO       = '' @ dec (gwRand w + 1)),
       fld ''serverNameExample'' (serverName g),
       fld ''server-name-example'' (gwKebab w (serverName g)),
       fld ''project-name-example'' (projectName g),
       fld ''projectNameExample'' (projectName g),
       fld ''repo-addr-example'' (repoAddr g),
       fld ''image-repo-host'' repoHost,
       fld ''_grpcExample'' [],
       fld ''_mixExample'' [],
       fld ''root:123456@(192.168.3.37:3306)/account'' (dbDSN g),
       fld ''root:123456@192.168.3.37:27017/account'' (dbDSN g)],
      go_bind (adaptPgDsn w (dbDSN g)) (\<lambda>c. Ok [fld (''root:123456@192.168.3.37:5432/account?sslmode=disable'') c]),
      Ok [fld ''test/sql/sqlite/sponge.db'' (sqliteDSNAdaptation w (dbDriver g) (dbDSN g)),
       fld showDbNameMark (CurrentDbDriver (dbDriver g)),
       fld ''init.go.mgo'' ''init.go'',
       fld ''mongodb.go.mgo'' ''mongodb.go'',
       fld ''userExample_client_test.go.mgo'' ''userExample_client_test.go'',
       fld ''userExample.go.mgo'' ''userExample.go'',
       fldCS ''UserExample'' (codeOf g ''__table_name__'')],
      Ok getGRPCServiceFields,
      Ok (if suitedMonoRepo g then serverCodeFields codeNameGRPC (moduleName g) (serverName g) else [])])"

definition rpcGenerate :: "genWorld \<Rightarrow> httpGenerator \<Rightarrow> fsys \<Rightarrow> (genErr, string) go \<times> fsys" where
  "rpcGenerate w g fs =
     (case openTemplates w of
        Inl _ \<Rightarrow> (Err ReplacerNil, fs)
      | Inr r \<Rightarrow> (case rpcPlan w fs r g of
            Err e \<Rightarrow> (Err e, fs)
          | Panic \<Rightarrow> (Panic, fs)
          | Ok (p, g1) \<Rightarrow> withGenInfo w g1 (moveProtos w g1 (outDirOf
              (runReplacer w (pSubDirs p) (planFiles w p) [''cmd/sponge'']
                 [''scripts/swag-docs.sh'', ''configs/serverNameExample_cc.yml'']
                 (gOutPath g) [serverName g @ ''_'' @ codeNameGRPC] (rpcAddFields w fs g1) r fs)))))"

section \<open>The commands\<close>

record serverFlags = tableFlags +
  fProject :: string
  fRepo :: string

definition newServer :: "serverFlags \<Rightarrow> string \<Rightarrow> string \<Rightarrow> genArgs \<Rightarrow> (string \<times> string) list \<Rightarrow> string \<Rightarrow> httpGenerator" where
  "newServer f pn sn a cs out =
     handlerGenerator.extend (newGenerator (fModule f) sn (fMono f) a cs out) (httpGenerator.fields pn (fRepo f) (aDBDsn a))"

text \<open>
  The first table makes the server and the others are added to it; \<open>server\<close> and \<open>table\<close> are the generators of the
  command. The configuration of the server is copied into its Kubernetes map at the end, with its errors dropped.
\<close>

definition serverCommand :: "(nat \<Rightarrow> genWorld) \<Rightarrow> (genWorld \<Rightarrow> httpGenerator \<Rightarrow> fsys \<Rightarrow> (genErr, string) go \<times> fsys) \<Rightarrow>
    (string \<Rightarrow> string \<Rightarrow> bool \<Rightarrow> unit tableGen) \<Rightarrow> serverFlags \<Rightarrow> fsys \<Rightarrow> (genErr, string) go \<times> fsys" where
  "serverCommand ws server table f fs =
     (let w = ws 0; tableNames = splitOn (CHR '','') (fTables f) in
      case convertProjectAndServerName w (fProject f) (fServer f) of
        (pn, sn, Some e) \<Rightarrow> (Err e, fs)
      | (pn, sn, None) \<Rightarrow>
          let out = (if fMono f then changeOutPath w (fOut f) sn else fOut f); a = tableArgs (fArgs f) (hd tableNames) in
          (case Generate (gwGenv w) (gwWorld w) a of
             Err e \<Rightarrow> (Err (SqlError e), fs)
           | Panic \<Rightarrow> (Panic, fs)
           | Ok cs \<Rightarrow>
               let a1 = argsAfter (gwWorld w) a in
               (case server w (newServer f pn sn a1 cs out) fs of
                  (Ok out1, fs1) \<Rightarrow>
                    (case tableLoop ws tableArgs (table (fModule f) sn (fMono f)) 1 a1 () (tl tableNames) out1 fs1 of
                       (Ok out2, fs2) \<Rightarrow> (Ok out2, snd (generateConfigmap (ws (length tableNames)) sn out2 fs2))
                     | r \<Rightarrow> r)
                | r \<Rightarrow> r)))"

definition HTTPCommand :: "(nat \<Rightarrow> genWorld) \<Rightarrow> serverFlags \<Rightarrow> fsys \<Rightarrow> (genErr, string) go \<times> fsys" where
  "HTTPCommand ws f fs = serverCommand ws httpGenerate handlerTable f fs"

definition RPCCommand :: "(nat \<Rightarrow> genWorld) \<Rightarrow> serverFlags \<Rightarrow> fsys \<Rightarrow> (genErr, string) go \<times> fsys" where
  "RPCCommand ws f fs = serverCommand ws rpcGenerate serviceTable f fs"

section \<open>Unsupported databases\<close>

lemma plan_unsupported:
  assumes "\<not> sqlDatabase (dbDriver g)" "toLower (dbDriver g) \<noteq> DBDriverMongodb"
  shows "daoPlan w fs r g \<noteq> Ok x" "storePlan w fs r g \<noteq> Ok x" "handlerPlan w fs r g \<noteq> Ok x"
    "servicePlan w fs r g \<noteq> Ok x" "httpPlan w fs r g \<noteq> Ok x" "rpcPlan w fs r g \<noteq> Ok x"
  using assms
  by (auto simp: daoPlan_def storePlan_def handlerPlan_def servicePlan_def httpPlan_def rpcPlan_def Let_def go_bind_eq_Ok split: prod.splits)

text \<open>
  A database that the templates do not support writes nothing: every generator stops before the first file.
\<close>

theorem unsupported_driver:
  fixes g :: httpGenerator
  assumes "\<not> sqlDatabase (dbDriver g)" "toLower (dbDriver g) \<noteq> DBDriverMongodb"
    and "(res, fs') \<in> {daoGenerate w g fs, storeGenerate w g fs, handlerGenerate w g fs, serviceGenerate w g fs, httpGenerate w g fs, rpcGenerate w g fs}"
  shows "fs' = fs \<and> res \<noteq> Ok out"
proof -
  have "\<not> sqlDatabase (dbDriver (g\<lparr>serverName := n\<rparr>)) \<and> toLower (dbDriver (g\<lparr>serverName := n\<rparr>)) \<noteq> DBDriverMongodb" for n
    using assms(1,2) by simp
  note no = plan_unsupported [OF assms(1,2)] plan_unsupported(4) [OF conjunct1 [OF this] conjunct2 [OF this]]
  from assms(3) show ?thesis
    unfolding daoGenerate_def storeGenerate_def handlerGenerate_def serviceGenerate_def httpGenerate_def rpcGenerate_def Let_def
    by (auto simp: no split: sum.splits go.splits if_splits)
qed

section \<open>The files of a table\<close>

text \<open>The files that a plan takes from a template directory, and those among them that are copied for each table.\<close>

definition chosenFiles :: "plan \<Rightarrow> string \<Rightarrow> string list" where
  "chosenFiles p dir =
     (case map_of (pSelect p) dir of None \<Rightarrow> []
      | Some fl \<Rightarrow> (case map_of (pReplace p) dir of Some v \<Rightarrow> v | None \<Rightarrow> fl))"

definition tableFiles :: "plan \<Rightarrow> string \<Rightarrow> string list" where
  "tableFiles p dir = filter (\<lambda>f. hasPrefix f ''userExample'') (chosenFiles p dir)"

definition commonOf :: "genWorld \<Rightarrow> 'a handlerGenerator_scheme \<Rightarrow> bool" where
  "commonOf w g = CheckCommonType (crudInfoOf w (codeOf g ''crud_info''))"

definition planOf :: "selection \<Rightarrow> selection \<Rightarrow> plan" where
  "planOf sel rep = \<lparr>pSubDirs = [], pSubFiles = [], pSelect = sel, pReplace = rep\<rparr>"

lemma tail_choice:
  assumes "go_bind A (\<lambda>(extra, sel).
      if sql then go_bind B (\<lambda>(rep, fl). Ok (\<lparr>pSubDirs = D, pSubFiles = F, pSelect = S sel, pReplace = rep\<rparr>, K1 extra fl))
      else if mg then go_bind C (\<lambda>(rep, fl). Ok (\<lparr>pSubDirs = D, pSubFiles = F, pSelect = S sel, pReplace = rep\<rparr>, K2 extra fl))
      else Err e) = Ok (p, g')"
    and "\<And>x s. A = Ok (x, s) \<Longrightarrow> s = s0" "\<And>rep fl. B = Ok (rep, fl) \<Longrightarrow> rep = b" "\<And>rep fl. C = Ok (rep, fl) \<Longrightarrow> rep = c"
  shows "pSelect p = S s0 \<and> pReplace p = (if sql then b else c)"
  using assms by (auto simp: go_bind_eq_Ok split: if_splits prod.splits)

lemma Ok_choice: "(if b then go_bind M (\<lambda>fl. go_bind (N fl) (\<lambda>c. Ok (c @ fl, s1))) else Ok ([], s2)) = Ok (x, s)
    \<Longrightarrow> s = (if b then s1 else s2)"
  by (auto simp: go_bind_eq_Ok split: if_splits)

lemma go_file:
  "handlerExtendedAPI w fs r n = Ok (rep, fl) \<Longrightarrow> rep = handlerExtendedAPIFiles n"
  "handlerMongoDBExtendedAPI w fs r n = Ok (rep, fl) \<Longrightarrow> rep = handlerMongoDBExtendedAPIFiles n"
  "serviceExtendedAPI w fs r n = Ok (rep, fl) \<Longrightarrow> rep = serviceExtendedAPIFiles n"
  "serviceMongoDBExtendedAPI w fs r n = Ok (rep, fl) \<Longrightarrow> rep = serviceMongoDBExtendedAPIFiles n"
  by (simp_all only: handlerExtendedAPI_def handlerMongoDBExtendedAPI_def serviceExtendedAPI_def serviceMongoDBExtendedAPI_def go_bind_eq_Ok)
    auto

lemma handlerPlan_choice:
  assumes "handlerPlan w fs r g = Ok (p, g1)"
  shows "pSelect p = (if commonOf w g then handlerCommonSelect (isExtendedAPI g) else handlerSelect)
    \<and> pReplace p = (if sqlDatabase (dbDriver g) then (if isExtendedAPI g \<and> \<not> commonOf w g then handlerExtendedAPIFiles codeNameHandler else [])
        else if isExtendedAPI g then handlerMongoDBExtendedAPIFiles codeNameHandler else handlerMongoFiles)"
  by (rule tail_choice [where S = "\<lambda>x. x", OF assms [unfolded handlerPlan_def Let_def, folded commonOf_def]], erule Ok_choice)
    (auto simp: go_bind_eq_Ok dest: go_file split: if_splits)

lemma servicePlan_choice:
  assumes "servicePlan w fs r g = Ok (p, g1)"
  shows "pSelect p = (if commonOf w g then serviceCommonSelect (isExtendedAPI g) else serviceSelect)
    \<and> pReplace p = (if sqlDatabase (dbDriver g) then (if isExtendedAPI g \<and> \<not> commonOf w g then serviceExtendedAPIFiles codeNameService else [])
        else if isExtendedAPI g then serviceMongoDBExtendedAPIFiles codeNameService else serviceMongoFiles)"
  by (rule tail_choice [where S = "\<lambda>x. x", OF assms [unfolded servicePlan_def Let_def, folded commonOf_def]], erule Ok_choice)
    (auto simp: go_bind_eq_Ok dest: go_file split: if_splits)

lemma SetSelectFiles_other:
  "SetSelectFiles d sel = Ok sel' \<Longrightarrow> \<exists>v. sel' = AList.update ''internal/database'' v sel"
  by (auto simp: SetSelectFiles_def Let_def split: if_splits)

lemma go_bindE: "go_bind m f = Ok y \<Longrightarrow> (\<And>x. m = Ok x \<Longrightarrow> f x = Ok y \<Longrightarrow> thesis) \<Longrightarrow> thesis"
  by (auto simp: go_bind_eq_Ok)

lemma httpPlan_choice:
  assumes "httpPlan w fs r g = Ok (p, g1)"
  shows "\<exists>v. pSelect p = (let sel = AList.update ''internal/database'' v httpSelect in if commonOf w g then httpCommonSelect (isExtendedAPI g) sel else sel)
    \<and> pReplace p = (if sqlDatabase (dbDriver g) then (if isExtendedAPI g \<and> \<not> commonOf w g then handlerExtendedAPIFiles codeNameHTTP else [])
        else if isExtendedAPI g then handlerMongoDBExtendedAPIFiles codeNameHTTP else httpMongoFiles)"
proof (rule go_bindE [OF assms [unfolded httpPlan_def Let_def, folded commonOf_def]], erule go_bindE, goal_cases)
  case (1 subFiles sel)
  from SetSelectFiles_other [OF 1(2)] obtain v where sel: "sel = AList.update ''internal/database'' v httpSelect" ..
  show ?case unfolding Let_def sel [symmetric]
    by (intro exI [of _ v], fold sel, rule tail_choice [where S = "\<lambda>x. x", OF 1(3)], erule Ok_choice)
      (auto simp: go_bind_eq_Ok dest: go_file split: if_splits)
qed

lemma rpc_tail_choice:
  assumes "go_bind A (\<lambda>(extra, sel). go_bind M1 (\<lambda>D. go_bind M2 (\<lambda>F.
      if sql then go_bind B (\<lambda>(rep, fl). Ok (\<lparr>pSubDirs = D, pSubFiles = F, pSelect = S sel, pReplace = rep\<rparr>, K1 extra fl))
      else if mg then go_bind C (\<lambda>(rep, fl). Ok (\<lparr>pSubDirs = D, pSubFiles = F, pSelect = S sel, pReplace = rep\<rparr>, K2 extra fl))
      else Err e))) = Ok (p, g')"
    and "\<And>x s. A = Ok (x, s) \<Longrightarrow> s = s0" "\<And>rep fl. B = Ok (rep, fl) \<Longrightarrow> rep = b" "\<And>rep fl. C = Ok (rep, fl) \<Longrightarrow> rep = c"
  shows "pSelect p = S s0 \<and> pReplace p = (if sql then b else c)"
  using assms by (auto simp: go_bind_eq_Ok split: if_splits prod.splits)

lemma rpcPlan_choice:
  assumes "rpcPlan w fs r g = Ok (p, g1)"
  shows "\<exists>v. pSelect p = (let sel = AList.update ''internal/database'' v rpcSelect; sel1 = (if commonOf w g then rpcCommonSelect (isExtendedAPI g) sel else sel)
            in if suitedMonoRepo g then AList.delete ''api/types'' sel1 else sel1)
    \<and> pReplace p = (if sqlDatabase (dbDriver g) then (if isExtendedAPI g then serviceExtendedAPIFiles codeNameGRPC else [])
        else if isExtendedAPI g then serviceMongoDBExtendedAPIFiles codeNameHTTP else rpcMongoFiles)"
proof (rule go_bindE [OF assms [unfolded rpcPlan_def Let_def, folded commonOf_def]], goal_cases)
  case (1 sel)
  from SetSelectFiles_other [OF 1(1)] obtain v where sel: "sel = AList.update ''internal/database'' v rpcSelect" ..
  show ?case unfolding Let_def sel [symmetric]
    by (intro exI [of _ v], fold sel, rule rpc_tail_choice [where S = "\<lambda>x. if suitedMonoRepo g then AList.delete ''api/types'' x else x", OF 1(2)], erule Ok_choice)
      (auto simp: go_bind_eq_Ok dest: go_file split: if_splits)
qed

text \<open>The choices by the kind of primary key, the extended interface and the kind of database, and their comparison by evaluation.\<close>

definition httpChoice :: "bool \<Rightarrow> bool \<Rightarrow> bool \<Rightarrow> string list \<Rightarrow> plan" where
  "httpChoice common ext sql v = (let sel = AList.update ''internal/database'' v httpSelect in
     planOf (if common then httpCommonSelect ext sel else sel)
       (if sql then (if ext \<and> \<not> common then handlerExtendedAPIFiles codeNameHTTP else [])
        else if ext then handlerMongoDBExtendedAPIFiles codeNameHTTP else httpMongoFiles))"

definition handlerChoice :: "bool \<Rightarrow> bool \<Rightarrow> bool \<Rightarrow> plan" where
  "handlerChoice common ext sql =
     planOf (if common then handlerCommonSelect ext else handlerSelect)
       (if sql then (if ext \<and> \<not> common then handlerExtendedAPIFiles codeNameHandler else [])
        else if ext then handlerMongoDBExtendedAPIFiles codeNameHandler else handlerMongoFiles)"

definition rpcChoice :: "bool \<Rightarrow> bool \<Rightarrow> bool \<Rightarrow> bool \<Rightarrow> string list \<Rightarrow> plan" where
  "rpcChoice mr common ext sql v =
     (let sel = AList.update ''internal/database'' v rpcSelect; sel1 = (if common then rpcCommonSelect ext sel else sel) in
      planOf (if mr then AList.delete ''api/types'' sel1 else sel1)
       (if sql then (if ext then serviceExtendedAPIFiles codeNameGRPC else [])
        else if ext then serviceMongoDBExtendedAPIFiles codeNameHTTP else rpcMongoFiles))"

definition serviceChoice :: "bool \<Rightarrow> bool \<Rightarrow> bool \<Rightarrow> plan" where
  "serviceChoice common ext sql =
     planOf (if common then serviceCommonSelect ext else serviceSelect)
       (if sql then (if ext \<and> \<not> common then serviceExtendedAPIFiles codeNameService else [])
        else if ext then serviceMongoDBExtendedAPIFiles codeNameService else serviceMongoFiles)"

lemma tableFiles_map:
  "map_of (pSelect p) dir = map_of (pSelect q) dir \<Longrightarrow> pReplace p = pReplace q \<Longrightarrow> tableFiles p dir = tableFiles q dir"
  by (simp add: tableFiles_def chosenFiles_def split: option.splits)

lemma httpChoice_database:
  "dir \<noteq> ''internal/database'' \<Longrightarrow> tableFiles (httpChoice c e q v) dir = tableFiles (httpChoice c e q []) dir"
  by (rule tableFiles_map) (simp_all add: httpChoice_def planOf_def httpCommonSelect_def Let_def update_conv')

lemma rpcChoice_database:
  "dir \<noteq> ''internal/database'' \<Longrightarrow> tableFiles (rpcChoice mr c e q v) dir = tableFiles (rpcChoice mr c e q []) dir"
  by (rule tableFiles_map) (simp_all add: rpcChoice_def planOf_def rpcCommonSelect_def Let_def update_conv' delete_conv' restrict_map_def)

definition httpTableDirs :: "string list" where
  "httpTableDirs = [''internal/cache'', ''internal/dao'', ''internal/ecode'', ''internal/handler'', ''internal/model'', ''internal/routers'', ''internal/types'']"

definition rpcTableDirs :: "string list" where
  "rpcTableDirs = [''api/serverNameExample/v1'', ''internal/cache'', ''internal/dao'', ''internal/ecode'', ''internal/model'', ''internal/service'']"

lemma http_choices:
  "list_all (\<lambda>(c, e, q). list_all (\<lambda>dir. tableFiles (httpChoice c e q []) dir = tableFiles (handlerChoice c e q) dir) httpTableDirs)
     (List.product [True, False] (List.product [True, False] [True, False]))"
  by code_simp

lemma rpc_choices:
  "list_all (\<lambda>(mr, c, e, q). list_all (\<lambda>dir. tableFiles (rpcChoice mr c e q []) dir = tableFiles (serviceChoice c e q) dir) rpcTableDirs
       \<longleftrightarrow> \<not> (c \<and> e \<and> q))
     (List.product [True, False] (List.product [True, False] (List.product [True, False] [True, False])))"
  by code_simp

lemma http_choice: "dir \<in> set httpTableDirs \<Longrightarrow> tableFiles (httpChoice c e q []) dir = tableFiles (handlerChoice c e q) dir"
  using http_choices by (cases c; cases e; cases q) (simp_all add: list_all_iff)

lemma rpc_choice:
  "list_all (\<lambda>dir. tableFiles (rpcChoice mr c e q []) dir = tableFiles (serviceChoice c e q) dir) rpcTableDirs \<longleftrightarrow> \<not> (c \<and> e \<and> q)"
  using rpc_choices by (cases mr; cases c; cases e; cases q) simp_all

lemma handler_files: "handlerPlan w fs r g = Ok (p, g1) \<Longrightarrow>
    tableFiles p dir = tableFiles (handlerChoice (commonOf w g) (isExtendedAPI g) (sqlDatabase (dbDriver g))) dir"
  by (drule handlerPlan_choice, rule tableFiles_map) (simp_all add: handlerChoice_def planOf_def)

lemma service_files: "servicePlan w fs r g = Ok (p, g1) \<Longrightarrow>
    tableFiles p dir = tableFiles (serviceChoice (commonOf w g) (isExtendedAPI g) (sqlDatabase (dbDriver g))) dir"
  by (drule servicePlan_choice, rule tableFiles_map) (simp_all add: serviceChoice_def planOf_def)

lemma http_files:
  assumes "httpPlan w fs r g = Ok (p, g1)" "dir \<noteq> ''internal/database''"
  shows "tableFiles p dir = tableFiles (httpChoice (commonOf w g) (isExtendedAPI g) (sqlDatabase (dbDriver g)) []) dir"
proof -
  from httpPlan_choice [OF assms(1)] obtain v where
    "pSelect p = pSelect (httpChoice (commonOf w g) (isExtendedAPI g) (sqlDatabase (dbDriver g)) v)" "pReplace p = pReplace (httpChoice (commonOf w g) (isExtendedAPI g) (sqlDatabase (dbDriver g)) v)"
    by (auto simp: httpChoice_def planOf_def Let_def)
  then have "tableFiles p dir = tableFiles (httpChoice (commonOf w g) (isExtendedAPI g) (sqlDatabase (dbDriver g)) v) dir"
    by (intro tableFiles_map) simp_all
  with httpChoice_database [OF assms(2)] show ?thesis by simp
qed

lemma rpc_files:
  assumes "rpcPlan w fs r g = Ok (p, g1)" "dir \<noteq> ''internal/database''"
  shows "tableFiles p dir = tableFiles (rpcChoice (suitedMonoRepo g) (commonOf w g) (isExtendedAPI g) (sqlDatabase (dbDriver g)) []) dir"
proof -
  from rpcPlan_choice [OF assms(1)] obtain v where
    "pSelect p = pSelect (rpcChoice (suitedMonoRepo g) (commonOf w g) (isExtendedAPI g) (sqlDatabase (dbDriver g)) v)" "pReplace p = pReplace (rpcChoice (suitedMonoRepo g) (commonOf w g) (isExtendedAPI g) (sqlDatabase (dbDriver g)) v)"
    by (auto simp: rpcChoice_def planOf_def Let_def)
  then have "tableFiles p dir = tableFiles (rpcChoice (suitedMonoRepo g) (commonOf w g) (isExtendedAPI g) (sqlDatabase (dbDriver g)) v) dir"
    by (intro tableFiles_map) simp_all
  with rpcChoice_database [OF assms(2)] show ?thesis by simp
qed

text \<open>
  Every table of an HTTP server gets the same kind of code: for the same kind of database, of primary key and of
  interface, the generator of the server takes for its first table the same template files of every directory as the
  handler generator that adds the other tables.
\<close>

theorem http_tables_alike:
  assumes "httpPlan w fs r g = Ok (p, g1)" "handlerPlan w' fs' r' g' = Ok (q, g2)"
    and "sqlDatabase (dbDriver g) = sqlDatabase (dbDriver g')" "isExtendedAPI g = isExtendedAPI g'" "commonOf w g = commonOf w' g'"
    and "dir \<in> set httpTableDirs"
  shows "tableFiles p dir = tableFiles q dir"
proof -
  have "dir \<noteq> ''internal/database''" using assms(6) by (auto simp: httpTableDirs_def)
  from http_files [OF assms(1) this] handler_files [OF assms(2)] assms(3-6) show ?thesis
    by (simp add: http_choice)
qed

text \<open>
  C38: For an RPC server the same holds except in one case: a table with a primary key of its own and the extended
  interface, over SQL. There the first table gets the files for a numeric identifier, and the tables that the service
  generator adds do not.
\<close>

theorem rpc_tables_alike:
  assumes "rpcPlan w fs r g = Ok (p, g1)" "servicePlan w' fs' r' g' = Ok (q, g2)"
    and "sqlDatabase (dbDriver g) = sqlDatabase (dbDriver g')" "isExtendedAPI g = isExtendedAPI g'" "commonOf w g = commonOf w' g'"
  shows "(\<forall>dir \<in> set rpcTableDirs. tableFiles p dir = tableFiles q dir) \<longleftrightarrow> \<not> (sqlDatabase (dbDriver g) \<and> isExtendedAPI g \<and> commonOf w g)"
proof -
  have "''internal/database'' \<notin> set rpcTableDirs" by (simp add: rpcTableDirs_def)
  then have "(\<forall>dir \<in> set rpcTableDirs. tableFiles p dir = tableFiles q dir) \<longleftrightarrow>
    list_all (\<lambda>dir. tableFiles (rpcChoice (suitedMonoRepo g) (commonOf w g) (isExtendedAPI g) (sqlDatabase (dbDriver g)) []) dir
      = tableFiles (serviceChoice (commonOf w g) (isExtendedAPI g) (sqlDatabase (dbDriver g))) dir) rpcTableDirs"
    using rpc_files [OF assms(1)] service_files [OF assms(2)] assms(3-5) by (auto simp: list_all_iff) metis+
  then show ?thesis by (auto simp: rpc_choice)
qed

section \<open>Existing files of a server\<close>

text \<open>Two files of a server are written again by every run: \<open>docs/gen.info\<close> and the Kubernetes map of its configuration.\<close>

definition rewritten :: "string \<Rightarrow> bool" where
  "rewritten p \<longleftrightarrow> hasSuffix p ''/docs/gen.info'' \<or> hasSuffix p ''-configmap.yml''"

lemma rewritten_suffix: "rewritten (a @ ''/docs/gen.info'')" "rewritten (a @ ''-configmap.yml'')"
  by (simp_all add: rewritten_def hasSuffix_def)

definition keepsOthers :: "fsys \<Rightarrow> fsys \<Rightarrow> bool" where
  "keepsOthers fs fs' \<longleftrightarrow> (\<forall>p d. fsFiles fs p = Some d \<and> \<not> rewritten p \<longrightarrow> fsFiles fs' p = Some d)"

lemma keepsOthers_keeps: "keepsFiles fs fs' \<Longrightarrow> keepsOthers fs fs'"
  by (simp add: keepsFiles_def keepsOthers_def)

lemma keepsOthers_trans [trans]: "keepsOthers fs fs1 \<Longrightarrow> keepsOthers fs1 fs2 \<Longrightarrow> keepsOthers fs fs2"
  by (simp add: keepsOthers_def)

lemma writeFile_rewritten: "rewritten p \<Longrightarrow> writeFile env p data fs = (e, fs') \<Longrightarrow> keepsOthers fs fs'"
  by (auto simp: writeFile_def keepsOthers_def split: if_splits)

lemma saveGenInfo_keeps: "keepsOthers fs (snd (saveGenInfo w m s mr out fs))"
proof -
  have "rewritten (genInfoFile out)" by (simp add: genInfoFile_def rewritten_suffix)
  from writeFile_rewritten [OF this prod.collapse [symmetric]] show ?thesis
    by (auto simp: saveGenInfo_def Let_def keepsOthers_def)
qed

lemma generateConfigmap_keeps: "keepsOthers fs (snd (generateConfigmap w s out fs))"
proof -
  have "rewritten (out @ ''/deployments/kubernetes/'' @ s @ ''-configmap.yml'')"
    using rewritten_suffix [of "out @ ''/deployments/kubernetes/'' @ s"] by simp
  note wr = writeFile_rewritten [OF this]
  show ?thesis by (auto simp: generateConfigmap_def Let_def keepsOthers_def [of fs fs] split: go.splits option.splits prod.splits intro: wr)
qed

lemma withGenInfo_keeps: "withGenInfo w g (r, fs1) = (res, fs') \<Longrightarrow> keepsOthers fs fs1 \<Longrightarrow> keepsOthers fs fs'"
  using saveGenInfo_keeps keepsOthers_trans by (fastforce simp: withGenInfo_def split: go.splits)

locale server_generator =
  fixes server :: "genWorld \<Rightarrow> httpGenerator \<Rightarrow> fsys \<Rightarrow> (genErr, string) go \<times> fsys"
    and table :: "string \<Rightarrow> string \<Rightarrow> bool \<Rightarrow> unit tableGen"
    and mr :: bool
  assumes server_keeps: "visitsAll (gwOs w) \<Longrightarrow> suitedMonoRepo g = mr \<Longrightarrow> server w g fs = (res, fs') \<Longrightarrow> keepsOthers fs fs'"
    and table_keeps: "table_generator (table m s mr)"
begin

lemma rest_keeps:
  assumes "\<forall>n. visitsAll (gwOs (ws n))" "fMono f = mr"
    and "(case tableLoop ws tableArgs (table m s (fMono f)) n a () ts out fs of
            (Ok out2, fs2) \<Rightarrow> (Ok out2, snd (generateConfigmap w s out2 fs2))
          | r \<Rightarrow> r) = (res, fs')"
  shows "keepsOthers fs fs'"
proof -
  obtain r fs2 where loop: "tableLoop ws tableArgs (table m s (fMono f)) n a () ts out fs = (r, fs2)" by fastforce
  have "keepsOthers fs fs2"
    using keepsOthers_keeps table_generator.loop_keeps [OF table_keeps assms(1)] loop assms(2) by blast
  with loop assms(3) generateConfigmap_keeps keepsOthers_trans show ?thesis by (fastforce split: go.splits)
qed

lemma command_keeps:
  assumes "\<forall>n. visitsAll (gwOs (ws n))" "fMono f = mr" "serverCommand ws server table f fs = (res, fs')"
  shows "keepsOthers fs fs'"
proof -
  have refl: "keepsOthers fs fs" by (simp add: keepsOthers_def)
  have "suitedMonoRepo (newServer f pn sn a cs out) = mr" for pn sn a cs out
    using assms(2) by (simp add: newServer_def newGenerator_def handlerGenerator.defs)
  note sv = server_keeps [OF spec [OF assms(1), of 0] this]
  obtain pn sn e where names: "convertProjectAndServerName (ws 0) (fProject f) (fServer f) = (pn, sn, e)"
    using prod_cases3 by blast
  let ?out = "if fMono f then changeOutPath (ws 0) (fOut f) sn else fOut f"
  let ?a = "tableArgs (fArgs f) (hd (splitOn (CHR '','') (fTables f)))"
  let ?a1 = "argsAfter (gwWorld (ws 0)) ?a"
  note command = assms(3) [unfolded serverCommand_def Let_def names, simplified]
  show ?thesis
  proof (cases "e = None \<and> (\<exists>cs. Generate (gwGenv (ws 0)) (gwWorld (ws 0)) ?a = Ok cs)")
    case False
    with command refl show ?thesis by (auto split: option.splits go.splits)
  next
    case True
    then obtain cs where cs: "Generate (gwGenv (ws 0)) (gwWorld (ws 0)) ?a = Ok cs" by blast
    obtain r fs1 where server: "server (ws 0) (newServer f pn sn ?a1 cs ?out) fs = (r, fs1)" by fastforce
    from sv [OF server] have one: "keepsOthers fs fs1" .
    show ?thesis
    proof (cases r)
      case (Ok out1)
      with command True cs server rest_keeps [OF assms(1,2)] have "keepsOthers fs1 fs'" by simp
      with one show ?thesis by (rule keepsOthers_trans)
    qed (use command True cs server one in simp_all)
  qed
qed

end

lemma project_keeps:
  assumes "visitsAll (gwOs w)"
  shows "keepsFiles fs (snd (outDirOf (runReplacer w ds fls igd igf out ns addF r fs)))"
  using runReplacer_keeps [OF assms] outDirOf_keeps by (metis prod.collapse)

lemma server_cases:
  assumes "(case openTemplates w of
        Inl _ \<Rightarrow> (Err ReplacerNil, fs)
      | Inr r \<Rightarrow> (case P r of Err e \<Rightarrow> (Err e, fs) | Panic \<Rightarrow> (Panic, fs) | Ok (p, g1) \<Rightarrow> K r p g1)) = (res, fs')"
    and "\<And>r p g1. P r = Ok (p, g1) \<Longrightarrow> K r p g1 = (res, fs') \<Longrightarrow> Q fs'" "Q fs"
  shows "Q fs'"
  using assms by (auto split: sum.splits go.splits)

lemma genInfo_keeps: "withGenInfo w g x = (res, fs') \<Longrightarrow> keepsFiles fs (snd x) \<Longrightarrow> keepsOthers fs fs'"
  using withGenInfo_keeps [of w g "fst x" "snd x"] keepsOthers_keeps by simp

lemma keepsOthers_refl: "keepsOthers fs fs"
  by (simp add: keepsOthers_def)

lemma httpGenerate_keeps:
  assumes "visitsAll (gwOs w)" "httpGenerate w g fs = (res, fs')"
  shows "keepsOthers fs fs'"
proof (rule server_cases [where Q = "keepsOthers fs", OF assms(2) [unfolded httpGenerate_def] _ keepsOthers_refl], goal_cases)
  case (1 r p g1)
  from 1(2) show ?case by (rule genInfo_keeps) (rule project_keeps [OF assms(1)])
qed

interpretation httpServer: server_generator httpGenerate handlerTable mr for mr
  by unfold_locales (rule httpGenerate_keeps, assumption+, rule handlerTables.gen_keeps)

lemma tail_generator:
  assumes "go_bind A (\<lambda>(extra, sel).
      if sql then go_bind B (\<lambda>(rep, fl). Ok (P1 sel rep, K1 extra fl))
      else if mg then go_bind C (\<lambda>(rep, fl). Ok (P2 sel rep, K2 extra fl))
      else Err e) = Ok (p, g')"
    and "\<And>x fl. Q (K1 x fl)" "\<And>x fl. Q (K2 x fl)"
  shows "Q g'"
  using assms by (auto simp: go_bind_eq_Ok split: if_splits prod.splits)

lemma rpc_tail_generator:
  assumes "go_bind A (\<lambda>(extra, sel). go_bind M1 (\<lambda>D. go_bind M2 (\<lambda>F.
      if sql then go_bind B (\<lambda>(rep, fl). Ok (P1 D F sel rep, K1 extra fl))
      else if mg then go_bind C (\<lambda>(rep, fl). Ok (P2 D F sel rep, K2 extra fl))
      else Err e))) = Ok (p, g')"
    and "\<And>x fl. Q (K1 x fl)" "\<And>x fl. Q (K2 x fl)"
  shows "Q g'"
  using assms by (auto simp: go_bind_eq_Ok split: if_splits prod.splits)

lemma service_mono_repo: "servicePlan w fs r g = Ok (p, g1) \<Longrightarrow> suitedMonoRepo g1 = suitedMonoRepo g"
  unfolding servicePlan_def Let_def by (erule tail_generator) simp_all

lemma rpc_mono_repo: "rpcPlan w fs r g = Ok (p, g1) \<Longrightarrow> suitedMonoRepo g1 = suitedMonoRepo g"
  unfolding rpcPlan_def Let_def by (erule go_bindE, erule rpc_tail_generator) simp_all

lemma moveProtos_alone: "\<not> suitedMonoRepo g \<Longrightarrow> moveProtos w g x = x"
  by (auto simp: moveProtos_def split: prod.splits go.splits)

lemma rpcGenerate_keeps:
  assumes "visitsAll (gwOs w)" "\<not> suitedMonoRepo g" "rpcGenerate w g fs = (res, fs')"
  shows "keepsOthers fs fs'"
proof (rule server_cases [where Q = "keepsOthers fs", OF assms(3) [unfolded rpcGenerate_def] _ keepsOthers_refl], goal_cases)
  case (1 r p g1)
  from rpc_mono_repo [OF 1(1)] assms(2) have "\<not> suitedMonoRepo g1" by simp
  from 1(2) [unfolded moveProtos_alone [OF this]] show ?case by (rule genInfo_keeps) (rule project_keeps [OF assms(1)])
qed

lemma serviceGenerate_keeps:
  assumes "visitsAll (gwOs w)" "\<not> suitedMonoRepo g" "serviceGenerate w g fs = (res, fs')"
  shows "keepsFiles fs fs'"
proof (rule server_cases [where Q = "keepsFiles fs", OF assms(3) [unfolded serviceGenerate_def Let_def] _ keepsFiles_refl], goal_cases)
  case (1 r p g1)
  from service_mono_repo [OF 1(1)] assms(2) have "\<not> suitedMonoRepo g1" by simp
  from 1(2) [unfolded moveProtos_alone [OF this]] project_keeps [OF assms(1)] show ?case by (metis snd_conv)
qed

interpretation serviceTables: table_generator "serviceTable m srv False" for m srv
  by unfold_locales (auto simp: serviceTable_def newGenerator_def elim!: stateless_keeps serviceGenerate_keeps)

interpretation rpcServer: server_generator rpcGenerate serviceTable False
  by unfold_locales (auto elim: rpcGenerate_keeps serviceTables.gen_keeps)

text \<open>
  C36: Generating a server into a directory that has files leaves them as they are, except for the project
  information and the Kubernetes map, which are written again: for every HTTP server, and for an RPC server outside a
  mono repository, whose protocol files are not moved.
\<close>

theorem server_commands_keep_files:
  assumes "\<forall>n. visitsAll (gwOs (ws n))" "fsFiles fs p = Some d" "\<not> rewritten p"
    and "HTTPCommand ws f fs = (res, fs') \<or> \<not> fMono f \<and> RPCCommand ws f fs = (res, fs')"
  shows "fsFiles fs' p = Some d"
proof -
  from assms(4) httpServer.command_keeps [OF assms(1) refl] rpcServer.command_keeps [OF assms(1)]
  have "keepsOthers fs fs'" unfolding HTTPCommand_def RPCCommand_def by blast
  with assms(2,3) show ?thesis by (simp add: keepsOthers_def)
qed

section \<open>Runs\<close>

definition demoServerFlags :: serverFlags where
  "demoServerFlags = tableFlags.extend demoFlags (serverFlags.fields ''p'' ''docker.io/r'')"

definition demoServer :: "string \<Rightarrow> httpGenerator" where
  "demoServer driver = newServer demoServerFlags ''p'' ''u'' (demoArgs\<lparr>aDBDriver := driver\<rparr>) [] ''/o''"

lemmas demo_simps = demoServer_def newServer_def newGenerator_def handlerGenerator.defs httpGenerator.defs demoArgs_def demoWorld_def
  commonOf_def crudInfoOf_def unmarshalCrudInfo_def codeOf_def codeIn_def CheckCommonType_def

lemma demoServer_fields: "dbDriver (demoServer d) = d" "isExtendedAPI (demoServer d) = False" "commonOf demoWorld (demoServer d) = False"
  by (simp_all add: demo_simps)

lemma demoServer_mysql: "sqlDatabase DBDriverMysql" "SetSelectFiles DBDriverMysql sel = Ok (AList.update ''internal/database'' [''init.go'', ''redis.go'', ''mysql.go''] sel)"
  by code_simp+

theorem unsupported_driver_witness:
  "snd (httpGenerate demoWorld (demoServer ''oracle'') markedFs) = markedFs \<and> fst (httpGenerate demoWorld (demoServer ''oracle'') markedFs) \<noteq> Ok ''/o''"
proof -
  have "\<not> sqlDatabase (dbDriver (demoServer ''oracle''))" "toLower (dbDriver (demoServer ''oracle'')) \<noteq> DBDriverMongodb"
    unfolding demoServer_fields by code_simp+
  then show ?thesis by (rule unsupported_driver [where w = demoWorld]) simp
qed

lemma demo_plans:
  "\<exists>x. httpPlan demoWorld markedFs runInfo (demoServer DBDriverMysql) = Ok x" "\<exists>x. handlerPlan demoWorld markedFs runInfo (demoServer DBDriverMysql) = Ok x"
  "\<exists>x. rpcPlan demoWorld markedFs runInfo (demoServer DBDriverMysql) = Ok x" "\<exists>x. servicePlan demoWorld markedFs runInfo (demoServer DBDriverMysql) = Ok x"
  using demoServer_fields [of DBDriverMysql, unfolded commonOf_def] demoServer_mysql
  by (simp_all add: httpPlan_def handlerPlan_def rpcPlan_def servicePlan_def Let_def removeElements_def httpSubFiles_def rpcSubDirs_def rpcSubFiles_def)

theorem http_tables_alike_witness:
  "\<exists>p q g1 g2. httpPlan demoWorld markedFs runInfo (demoServer DBDriverMysql) = Ok (p, g1)
    \<and> handlerPlan demoWorld markedFs runInfo (demoServer DBDriverMysql) = Ok (q, g2) \<and> tableFiles p ''internal/dao'' = tableFiles q ''internal/dao''"
proof -
  from demo_plans obtain p q g1 g2 where plans: "httpPlan demoWorld markedFs runInfo (demoServer DBDriverMysql) = Ok (p, g1)"
    "handlerPlan demoWorld markedFs runInfo (demoServer DBDriverMysql) = Ok (q, g2)" by (metis old.prod.exhaust)
  moreover from http_tables_alike [OF plans refl refl refl] have "tableFiles p ''internal/dao'' = tableFiles q ''internal/dao''"
    by (simp add: httpTableDirs_def)
  ultimately show ?thesis by blast
qed

theorem rpc_tables_alike_witness:
  "\<exists>p q g1 g2. rpcPlan demoWorld markedFs runInfo (demoServer DBDriverMysql) = Ok (p, g1)
    \<and> servicePlan demoWorld markedFs runInfo (demoServer DBDriverMysql) = Ok (q, g2) \<and> tableFiles p ''internal/dao'' = tableFiles q ''internal/dao''"
proof -
  from demo_plans obtain p q g1 g2 where plans: "rpcPlan demoWorld markedFs runInfo (demoServer DBDriverMysql) = Ok (p, g1)"
    "servicePlan demoWorld markedFs runInfo (demoServer DBDriverMysql) = Ok (q, g2)" by (metis old.prod.exhaust)
  moreover from rpc_tables_alike [OF plans refl refl refl] have "tableFiles p ''internal/dao'' = tableFiles q ''internal/dao''"
    by (simp add: rpcTableDirs_def demoServer_fields)
  ultimately show ?thesis by blast
qed

theorem server_commands_keep_files_witness:
  "fsFiles (snd (HTTPCommand (\<lambda>_. demoWorld) demoServerFlags markedFs)) ''/t/user.go'' = Some ''a<b>c''"
proof -
  have "\<forall>n. visitsAll (gwOs ((\<lambda>_. demoWorld) n))" by (simp add: demoWorld_def runEnv_visits)
  moreover have "fsFiles markedFs ''/t/user.go'' = Some ''a<b>c''" "\<not> rewritten ''/t/user.go''" by (simp add: markedFs_def) code_simp
  ultimately show ?thesis
    by (rule server_commands_keep_files [where res = "fst (HTTPCommand (\<lambda>_. demoWorld) demoServerFlags markedFs)" and f = demoServerFlags]) simp
qed

end
