(* ===== verification/GenPb.thy ===== *)
theory GenPb
  imports GenServer
begin

text \<open>
  The generators that work with protocol files: \<open>handler-pb.go\<close> and \<open>service-handler.go\<close> for tables, \<open>http-pb.go\<close>, \<open>rpc-pb.go\<close>,
  \<open>rpc-gw-pb.go\<close> and \<open>grpc-http-pb.go\<close> for servers from protocol files, \<open>grpc-http.go\<close>, and the small generators of
  \<open>cache.go\<close>, \<open>rpc-conn.go\<close> and \<open>configmap.go\<close> (all in \<open>cmd/milady/commands/generate\<close>), with \<open>gofile.FuzzyMatchFiles\<close>.
\<close>

section \<open>handler-pb.go\<close>

definition handlerPbSelect :: selection where
  "handlerPbSelect =
     [(''api/serverNameExample/v1'', [''userExample.proto'']),
      (''internal/cache'', [''userExample.go'', ''userExample_test.go'']),
      (''internal/dao'', [''userExample.go'', ''userExample_test.go'']),
      (''internal/ecode'', [''userExample_http.go'']),
      (''internal/handler'', [''userExample_logic.go'', ''userExample_logic_test.go'']),
      (''internal/model'', [''userExample.go''])]"

definition handlerPbCommonSelect :: "bool \<Rightarrow> selection" where
  "handlerPbCommonSelect ext =
     (let sel =
     [(''api/serverNameExample/v1'', [''userExample.proto'']),
      (''internal/cache'', [''userExample.go.tpl'']),
      (''internal/dao'', [''userExample.go.tpl'']),
      (''internal/ecode'', [''userExample_http.go.tpl'']),
      (''internal/handler'', [''userExample_logic.go.tpl'']),
      (''internal/model'', [''userExample.go''])]
      in if ext then AList.update ''internal/handler'' [''userExample_logic.go.exp.tpl''] (AList.update ''internal/ecode'' [''userExample_http.go.exp.tpl''] (AList.update ''internal/dao'' [''userExample.go.exp.tpl''] sel)) else sel)"

definition handlerPbExtendedAPIFiles :: selection where
  "handlerPbExtendedAPIFiles =
     [(''internal/dao'', [''userExample.go.exp'', ''userExample_test.go.exp'']),
      (''internal/ecode'', [''userExample_http.go.exp'']),
      (''internal/handler'', [''userExample_logic.go.exp'', ''userExample_logic_test.go.exp''])]"

definition handlerPbExtendedAPI :: "genWorld \<Rightarrow> fsys \<Rightarrow> replacerInfo \<Rightarrow> (genErr, selection \<times> Field list) go" where
  "handlerPbExtendedAPI w fs r = go_bind (goConcat
     [deleteFieldsMark w fs r (daoFile @ expSuffix) startMark endMark,
      deleteFieldsMark w fs r (daoTestFile @ expSuffix) startMark endMark,
      deleteFieldsMark w fs r (handlerLogicFile @ expSuffix) startMark endMark,
      Ok [fld ''userExample_http.go.exp'' ''userExample_http.go'',
       fld ''userExample_logic_test.go.exp'' ''userExample_test.go'',
       fld ''userExample_test.go.exp'' ''userExample_test.go'',
       fld ''userExample_logic.go.exp'' ''userExample.go'',
       fld ''userExample.go.exp'' ''userExample.go'']]) (\<lambda>fl. Ok (handlerPbExtendedAPIFiles, fl))"

definition handlerPbMongoDBExtendedAPIFiles :: selection where
  "handlerPbMongoDBExtendedAPIFiles =
     [(''internal/cache'', [''userExample.go.mgo'']),
      (''internal/dao'', [''userExample.go.mgo.exp'']),
      (''internal/ecode'', [''userExample_http.go.exp'']),
      (''internal/handler'', [''userExample_logic.go.mgo.exp''])]"

definition handlerPbMongoDBExtendedAPI :: "genWorld \<Rightarrow> fsys \<Rightarrow> replacerInfo \<Rightarrow> (genErr, selection \<times> Field list) go" where
  "handlerPbMongoDBExtendedAPI w fs r = go_bind (goConcat
     [deleteFieldsMark w fs r (daoMgoFile @ expSuffix) startMark endMark,
      deleteFieldsMark w fs r (handlerLogicFile @ ''.mgo.exp'') startMark endMark,
      Ok [fld ''userExample_http.go.exp'' ''userExample_http.go'',
       fld ''userExample.go.mgo.exp'' ''userExample.go'',
       fld ''userExample_logic.go.mgo.exp'' ''userExample.go'',
       fld ''userExample.go.mgo'' ''userExample.go'']]) (\<lambda>fl. Ok (handlerPbMongoDBExtendedAPIFiles, fl))"

definition commonHandlerPbFields :: "genWorld \<Rightarrow> fsys \<Rightarrow> replacerInfo \<Rightarrow> (genErr, Field list) go" where
  "commonHandlerPbFields w fs r = goConcat
     [deleteFieldsMark w fs r (daoFile @ tplSuffix) startMark endMark,
      deleteFieldsMark w fs r (handlerPbFile @ tplSuffix) startMark endMark,
      Ok [fld ''userExample_http.go.tpl'' ''userExample_http.go'',
       fld ''userExample_logic.go.tpl'' ''userExample.go'',
       fld ''userExample.go.tpl'' ''userExample.go'']]"

definition commonHandlerPbExtendedFields :: "genWorld \<Rightarrow> fsys \<Rightarrow> replacerInfo \<Rightarrow> (genErr, Field list) go" where
  "commonHandlerPbExtendedFields w fs r = goConcat
     [deleteFieldsMark w fs r (daoFile @ expSuffix @ tplSuffix) startMark endMark,
      deleteFieldsMark w fs r (handlerPbFile @ expSuffix @ tplSuffix) startMark endMark,
      Ok [fld ''userExample_http.go.exp.tpl'' ''userExample_http.go'',
       fld ''userExample_logic.go.exp.tpl'' ''userExample.go'',
       fld ''userExample.go.tpl'' ''userExample.go'',
       fld ''userExample.go.exp.tpl'' ''userExample.go'']]"

definition handlerPbMongoFiles :: selection where
  "handlerPbMongoFiles =
     [(''internal/cache'', [''userExample.go.mgo'']),
      (''internal/dao'', [''userExample.go.mgo'']),
      (''internal/handler'', [''userExample_logic.go.mgo''])]"

definition handlerPbPlan :: "genWorld \<Rightarrow> fsys \<Rightarrow> replacerInfo \<Rightarrow> 'a handlerGenerator_scheme \<Rightarrow> (genErr, plan \<times> 'a handlerGenerator_scheme) go" where
  "handlerPbPlan w fs r g =
     (let info = crudInfoOf w (codeOf g ''crud_info''); common = CheckCommonType info; ext = isExtendedAPI g in
      go_bind
        (if common then
           go_bind (if ext then commonHandlerPbExtendedFields w fs r else commonHandlerPbFields w fs r) (\<lambda>fl.
           go_bind (replaceFilesContent w fs r (getTemplateFiles (gwVisit w 0) (handlerPbCommonSelect ext)) (the info)) (\<lambda>content.
           Ok (content @ fl, handlerPbCommonSelect ext)))
         else Ok ([], handlerPbSelect)) (\<lambda>(extra, selectFiles).
      let g1 = g\<lparr>commonStyle := commonStyle g \<or> common, gFields := gFields g @ extra\<rparr>;
          result = (\<lambda>fl rep. Ok (\<lparr>pSubDirs = [], pSubFiles = [], pSelect = selectFiles, pReplace = rep\<rparr>,
                                 g1\<lparr>gFields := gFields g1 @ fl\<rparr>)) in
      if sqlDatabase (dbDriver g) then
        go_bind (if ext \<and> \<not> common then handlerPbExtendedAPI w fs r else Ok ([], [])) (\<lambda>(rep, fl).
          result (getExpectedSQLForDeletionField (isEmbed g) @ fl) rep)
      else if toLower (dbDriver g) = DBDriverMongodb then
        go_bind (if ext then handlerPbMongoDBExtendedAPI w fs r else go_bind (deleteFieldsMark w fs r (handlerLogicFile @ mgoSuffix) startMark endMark) (\<lambda>fl. Ok (handlerPbMongoFiles, fl))) (\<lambda>(rep, fl). result fl rep)
      else Err (UnsupportedDriver (dbDriver g))))"

definition handlerPbAddFields :: "genWorld \<Rightarrow> fsys \<Rightarrow> 'a handlerGenerator_scheme \<Rightarrow> replacerInfo \<Rightarrow> (genErr, Field list) go" where
  "handlerPbAddFields w fs g r = goConcat
     [Ok (gFields g),
      deleteFieldsMark w fs r modelFile startMark endMark,
      deleteFieldsMark w fs r daoFile startMark endMark,
      deleteFieldsMark w fs r daoMgoFile startMark endMark,
      deleteFieldsMark w fs r daoTestFile startMark endMark,
      deleteFieldsMark w fs r handlerLogicFile startMark endMark,
      deleteFieldsMark w fs r handlerPbTestFile startMark endMark,
      deleteFieldsMark w fs r protoTplFile startMark endMark,
      Ok [fld modelFileMark (codeOf g ''model''),
       fld daoFileMark (codeOf g ''dao''),
       fld embedTimeMark (getEmbedTimeCode (isEmbed g)),
       fld protoFileMark (codeOf g ''proto''),
       fld (selfPackageName @ ''/'' @ rPath r) (moduleName g),
       fld ''github.com/go-dev-frame/sponge'' (moduleName g),
       fld (joinWith (pathDelimiter (win (gwOs w))) [''api'', ''serverNameExample'', ''v1'']) (joinWith (pathDelimiter (win (gwOs w))) [''api'', serverName g, ''v1'']),
       fld ''api/serverNameExample/v1'' (''api/'' @ serverName g @ ''/v1''),
       fld ''api.serverNameExample.v1'' (''api.'' @ serverName g @ ''.v1''),
       fld ''userExampleNO       = 1'' (''userExampleNO = '' @ dec (gwRand w + 1)),
       fld (moduleName g @ pkgPathSuffix) ''github.com/go-dev-frame/sponge/pkg'',
       fld ''userExample_logic.go.mgo'' ''userExample.go'',
       fld ''userExample_logic.go'' ''userExample.go'',
       fld ''userExample_logic_test.go'' ''userExample_test.go'',
       fld ''userExample.go.mgo'' ''userExample.go'',
       fld showDbNameMark (CurrentDbDriver (dbDriver g)),
       fldCS ''UserExamplePb'' ''UserExample'',
       fld ''serverNameExample'' (serverName g),
       fldCS ''UserExample'' (codeOf g ''__table_name__'')],
      Ok (if suitedMonoRepo g then SubServerCodeFields (moduleName g) (serverName g) else [])]"

definition handlerPbGenerate :: "genWorld \<Rightarrow> 'a handlerGenerator_scheme \<Rightarrow> fsys \<Rightarrow> (genErr, string) go \<times> fsys" where
  "handlerPbGenerate w g0 fs =
     (let g = (if serverName g0 = [] then g0\<lparr>serverName := moduleName g0\<rparr> else g0) in
      case openTemplates w of
        Inl _ \<Rightarrow> (Err ReplacerNil, fs)
      | Inr r \<Rightarrow> (case handlerPbPlan w fs r g of
            Err e \<Rightarrow> (Err e, fs)
          | Panic \<Rightarrow> (Panic, fs)
          | Ok (p, g1) \<Rightarrow> moveProtos w g1 (outDirOf
              (runReplacer w (pSubDirs p) (planFiles w p) [] [] (gOutPath g) [codeNameHandlerPb] (handlerPbAddFields w fs g1) r fs))))"

section \<open>service-handler.go\<close>

definition serviceHandlerSelect :: selection where
  "serviceHandlerSelect =
     [(''api/serverNameExample/v1'', [''userExample.proto'']),
      (''internal/cache'', [''userExample.go'', ''userExample_test.go'']),
      (''internal/dao'', [''userExample.go'', ''userExample_test.go'']),
      (''internal/handler'', [''userExample.go.service'']),
      (''internal/model'', [''userExample.go'']),
      (''internal/service'', [''userExample.go'', ''userExample_client_test.go''])]"

definition serviceHandlerCommonSelect :: "bool \<Rightarrow> selection" where
  "serviceHandlerCommonSelect ext =
     (let sel =
     [(''api/serverNameExample/v1'', [''userExample.proto'']),
      (''internal/cache'', [''userExample.go.tpl'']),
      (''internal/dao'', [''userExample.go.tpl'']),
      (''internal/handler'', [''userExample.go.service.tpl'']),
      (''internal/model'', [''userExample.go'']),
      (''internal/service'', [''userExample.go.tpl''])]
      in if ext then AList.update ''internal/service'' [''userExample.go.exp.tpl''] (AList.update ''internal/handler'' [''userExample.go.service.exp.tpl''] (AList.update ''internal/dao'' [''userExample.go.exp.tpl''] sel)) else sel)"

definition serviceHandlerExtendedAPIFiles :: selection where
  "serviceHandlerExtendedAPIFiles =
     [(''internal/dao'', [''userExample.go.exp'', ''userExample_test.go.exp'']),
      (''internal/ecode'', [''userExample_rpc.go.exp'']),
      (''internal/handler'', [''userExample.go.service.exp'']),
      (''internal/service'', [''userExample.go.exp'', ''userExample_client_test.go.exp''])]"

definition serviceHandlerExtendedAPI :: "genWorld \<Rightarrow> fsys \<Rightarrow> replacerInfo \<Rightarrow> (genErr, selection \<times> Field list) go" where
  "serviceHandlerExtendedAPI w fs r = go_bind (goConcat
     [deleteFieldsMark w fs r (daoFile @ expSuffix) startMark endMark,
      deleteFieldsMark w fs r (daoTestFile @ expSuffix) startMark endMark,
      deleteFieldsMark w fs r (serviceLogicFile @ expSuffix) startMark endMark,
      deleteFieldsMark w fs r (serviceClientFile @ expSuffix) startMark endMark,
      Ok [fld ''userExample_rpc.go.exp'' ''userExample_rpc.go'',
       fld ''userExample.go.exp'' ''userExample.go'',
       fld ''userExample_test.go.exp'' ''userExample_test.go'',
       fld ''userExample_client_test.go.exp'' ''userExample_client_test.go'',
       fld ''userExample.go.service.exp'' ''userExample.go'']]) (\<lambda>fl. Ok (serviceHandlerExtendedAPIFiles, fl))"

definition serviceHandlerMongoDBExtendedAPIFiles :: selection where
  "serviceHandlerMongoDBExtendedAPIFiles =
     [(''internal/cache'', [''userExample.go.mgo'']),
      (''internal/dao'', [''userExample.go.mgo.exp'']),
      (''internal/ecode'', [''userExample_rpc.go.exp'']),
      (''internal/handler'', [''userExample.go.service.exp'']),
      (''internal/model'', [''userExample.go'']),
      (''internal/service'', [''userExample.go.mgo.exp'', ''userExample_client_test.go.mgo.exp''])]"

definition serviceHandlerMongoDBExtendedAPI :: "genWorld \<Rightarrow> fsys \<Rightarrow> replacerInfo \<Rightarrow> (genErr, selection \<times> Field list) go" where
  "serviceHandlerMongoDBExtendedAPI w fs r = go_bind (goConcat
     [deleteFieldsMark w fs r (daoMgoFile @ expSuffix) startMark endMark,
      deleteFieldsMark w fs r (serviceLogicFile @ ''.mgo.exp'') startMark endMark,
      deleteFieldsMark w fs r (serviceClientMgoFile @ expSuffix) startMark endMark,
      Ok [fld ''userExample_rpc.go.exp'' ''userExample_rpc.go'',
       fld ''userExample.go.mgo.exp'' ''userExample.go'',
       fld ''userExample_client_test.go.mgo.exp'' ''userExample_client_test.go'',
       fld ''userExample.go.service.exp'' ''userExample.go'']]) (\<lambda>fl. Ok (serviceHandlerMongoDBExtendedAPIFiles, fl))"

definition commonServiceHandlerFields :: "genWorld \<Rightarrow> fsys \<Rightarrow> replacerInfo \<Rightarrow> (genErr, Field list) go" where
  "commonServiceHandlerFields w fs r = goConcat
     [deleteFieldsMark w fs r (daoFile @ tplSuffix) startMark endMark,
      deleteFieldsMark w fs r (daoTestFile @ tplSuffix) startMark endMark,
      deleteFieldsMark w fs r (serviceFile @ tplSuffix) startMark endMark,
      Ok [fld ''userExample.go.service.tpl'' ''userExample.go'',
       fld ''userExample.go.tpl'' ''userExample.go'']]"

definition commonServiceHandlerExtendedFields :: "genWorld \<Rightarrow> fsys \<Rightarrow> replacerInfo \<Rightarrow> (genErr, Field list) go" where
  "commonServiceHandlerExtendedFields w fs r = goConcat
     [deleteFieldsMark w fs r (daoFile @ expSuffix @ tplSuffix) startMark endMark,
      deleteFieldsMark w fs r (daoTestFile @ expSuffix @ tplSuffix) startMark endMark,
      deleteFieldsMark w fs r (serviceFile @ expSuffix @ tplSuffix) startMark endMark,
      Ok [fld ''userExample.go.service.exp.tpl'' ''userExample.go'',
       fld ''userExample.go.tpl'' ''userExample.go'',
       fld ''userExample.go.exp.tpl'' ''userExample.go'']]"

definition serviceHandlerMongoFiles :: selection where
  "serviceHandlerMongoFiles =
     [(''internal/cache'', [''userExample.go.mgo'']),
      (''internal/dao'', [''userExample.go.mgo'']),
      (''internal/service'', [''userExample.go.mgo'', ''userExample_client_test.go.mgo''])]"

definition serviceHandlerPlan :: "genWorld \<Rightarrow> fsys \<Rightarrow> replacerInfo \<Rightarrow> 'a handlerGenerator_scheme \<Rightarrow> (genErr, plan \<times> 'a handlerGenerator_scheme) go" where
  "serviceHandlerPlan w fs r g =
     (let info = crudInfoOf w (codeOf g ''crud_info''); common = CheckCommonType info; ext = isExtendedAPI g in
      go_bind
        (if common then
           go_bind (if ext then commonServiceHandlerExtendedFields w fs r else commonServiceHandlerFields w fs r) (\<lambda>fl.
           go_bind (replaceFilesContent w fs r (getTemplateFiles (gwVisit w 0) (serviceHandlerCommonSelect ext)) (the info)) (\<lambda>content.
           Ok (content @ fl, serviceHandlerCommonSelect ext)))
         else Ok ([], serviceHandlerSelect)) (\<lambda>(extra, selectFiles).
      let g1 = g\<lparr>commonStyle := commonStyle g \<or> common, gFields := gFields g @ extra\<rparr>;
          result = (\<lambda>fl rep. Ok (\<lparr>pSubDirs = [], pSubFiles = [], pSelect = selectFiles, pReplace = rep\<rparr>,
                                 g1\<lparr>gFields := gFields g1 @ fl\<rparr>)) in
      if sqlDatabase (dbDriver g) then
        go_bind (if ext \<and> \<not> common then serviceHandlerExtendedAPI w fs r else Ok ([], [])) (\<lambda>(rep, fl).
          result (getExpectedSQLForDeletionField (isEmbed g) @ fl) rep)
      else if toLower (dbDriver g) = DBDriverMongodb then
        go_bind (if ext then serviceHandlerMongoDBExtendedAPI w fs r else go_bind (deleteFieldsMark w fs r (serviceLogicFile @ mgoSuffix) startMark endMark) (\<lambda>fl. Ok (serviceHandlerMongoFiles, fl))) (\<lambda>(rep, fl). result fl rep)
      else Err (UnsupportedDriver (dbDriver g))))"

definition serviceHandlerAddFields :: "genWorld \<Rightarrow> fsys \<Rightarrow> 'a handlerGenerator_scheme \<Rightarrow> replacerInfo \<Rightarrow> (genErr, Field list) go" where
  "serviceHandlerAddFields w fs g r = goConcat
     [Ok (gFields g),
      deleteFieldsMark w fs r modelFile startMark endMark,
      deleteFieldsMark w fs r daoFile startMark endMark,
      deleteFieldsMark w fs r daoMgoFile startMark endMark,
      deleteFieldsMark w fs r daoTestFile startMark endMark,
      deleteFieldsMark w fs r serviceLogicFile startMark endMark,
      deleteFieldsMark w fs r protoTplFile startMark endMark,
      deleteFieldsMark w fs r serviceClientFile startMark endMark,
      deleteFieldsMark w fs r serviceClientMgoFile startMark endMark,
      deleteFieldsMark w fs r serviceTestFile startMark endMark,
      Ok [fld modelFileMark (codeOf g ''model''),
       fld daoFileMark (codeOf g ''dao''),
       fld embedTimeMark (getEmbedTimeCode (isEmbed g)),
       fld protoFileMark (codeOf g ''proto'')],
      go_bind (adjustmentOfIDType (codeOf g ''service'') (dbDriver g) (commonStyle g)) (\<lambda>c. Ok [fld (serviceFileMark) c]),
      Ok [fld (selfPackageName @ ''/'' @ rPath r) (moduleName g),
       fld ''github.com/go-dev-frame/sponge'' (moduleName g),
       fld (joinWith (pathDelimiter (win (gwOs w))) [''api'', ''serverNameExample'', ''v1'']) (joinWith (pathDelimiter (win (gwOs w))) [''api'', serverName g, ''v1'']),
       fld ''api/serverNameExample/v1'' (''api/'' @ serverName g @ ''/v1''),
       fld ''api.serverNameExample.v1'' (''api.'' @ serverName g @ ''.v1''),
       fld ''userExampleNO       = 1'' (''userExampleNO = '' @ dec (gwRand w + 1)),
       fld ''_userExampleNO       = 2'' (''_userExampleNO       = '' @ dec (gwRand2 w + 1)),
       fld (moduleName g @ pkgPathSuffix) ''github.com/go-dev-frame/sponge/pkg'',
       fld ''serverNameExample'' (serverName g),
       fld showDbNameMark (CurrentDbDriver (dbDriver g)),
       fld ''userExample_client_test.go.mgo'' ''userExample_client_test.go'',
       fld ''userExample_logic.go.mgo'' ''userExample.go'',
       fld ''userExample.go.service'' ''userExample.go'',
       fld ''userExample_logic.go'' ''userExample.go'',
       fld ''userExample.go.mgo'' ''userExample.go'',
       fldCS ''UserExamplePb'' ''UserExample'',
       fldCS ''UserExample'' (codeOf g ''__table_name__'')],
      Ok (if suitedMonoRepo g then SubServerCodeFields (moduleName g) (serverName g) else [])]"

definition serviceHandlerGenerate :: "genWorld \<Rightarrow> 'a handlerGenerator_scheme \<Rightarrow> fsys \<Rightarrow> (genErr, string) go \<times> fsys" where
  "serviceHandlerGenerate w g0 fs =
     (let g = (if serverName g0 = [] then g0\<lparr>serverName := moduleName g0\<rparr> else g0) in
      case openTemplates w of
        Inl _ \<Rightarrow> (Err ReplacerNil, fs)
      | Inr r \<Rightarrow> (case serviceHandlerPlan w fs r g of
            Err e \<Rightarrow> (Err e, fs)
          | Panic \<Rightarrow> (Panic, fs)
          | Ok (p, g1) \<Rightarrow> moveProtos w g1 (outDirOf
              (runReplacer w (pSubDirs p) (planFiles w p) [] [] (gOutPath g) [codeNameServiceHTTP] (serviceHandlerAddFields w fs g1) r fs))))"

section \<open>Protocol files\<close>

text \<open>\<open>filepath.Ext\<close>, and the files that a name with \<open>*\<close> stands for; \<open>path.Match\<close> is \<open>gwMatch\<close>.\<close>

definition pathExt :: "bool \<Rightarrow> string \<Rightarrow> string" where
  "pathExt win1 p =
     (let n = GetFilename win1 p; t = rev (takeWhile (\<lambda>c. c \<noteq> CHR ''.'') (rev n)) in if t = n then [] else CHR ''.'' # t)"

definition FuzzyMatchFiles :: "genWorld \<Rightarrow> fsys \<Rightarrow> string \<Rightarrow> string list" where
  "FuzzyMatchFiles w fs f =
     (let env = gwOs w in
      case splitPath (win env) f of (dir, filenameReg) \<Rightarrow>
        if CHR ''*'' \<notin> set filenameReg then [f]
        else case ListFiles (absPath env) (win env) dir (gwReadTree w fs dir) False NoFilter of
            (lFiles, True) \<Rightarrow> filter (\<lambda>file1. gwMatch w filenameReg (GetFilename (win env) file1)) lFiles
          | (lFiles, False) \<Rightarrow> [])"

fun countProtos :: "fsys \<Rightarrow> string list \<Rightarrow> (genErr, nat \<times> nat) go" where
  "countProtos fs [] = Ok (0, 0)"
| "countProtos fs (f # fl) =
     (case fsFiles fs f of
        None \<Rightarrow> Err (OpenFailed f)
      | Some data \<Rightarrow> go_bind (countProtos fs fl) (\<lambda>(services, types1).
          Ok ((if isExistServiceName data then 1 else 0) + services,
              (if isDependImport data ''api/types/types.proto'' then 1 else 0) + types1)))"

definition parseProtobufFiles :: "genWorld \<Rightarrow> fsys \<Rightarrow> string \<Rightarrow> (genErr, string list \<times> bool) go" where
  "parseProtobufFiles w fs protobufFile1 =
     (if pathExt (win (gwOs w)) protobufFile1 \<noteq> ''.proto'' then Err (NotProto protobufFile1)
      else let files1 = FuzzyMatchFiles w fs protobufFile1 in
        go_bind (countProtos fs files1) (\<lambda>(services, types1).
          if services = 0 then Err NoService else Ok (files1, types1 > 0)))"

fun parseAll :: "genWorld \<Rightarrow> fsys \<Rightarrow> string list \<Rightarrow> (genErr, string list) go" where
  "parseAll w fs [] = Ok []"
| "parseAll w fs (s # ss) =
     go_bind (parseProtobufFiles w fs s) (\<lambda>(files1, _). go_bind (parseAll w fs ss) (\<lambda>rest. Ok (files1 @ rest)))"

definition ParseFuzzyProtobufFiles :: "genWorld \<Rightarrow> fsys \<Rightarrow> string \<Rightarrow> (genErr, string list) go" where
  "ParseFuzzyProtobufFiles w fs protobufFile1 = parseAll w fs (splitOn (CHR '','') protobufFile1)"

section \<open>Servers from protocol files\<close>

text \<open>
  \<open>httpPbGenerator\<close>, \<open>rpcPbGenerator\<close> and \<open>rpcGwPbGenerator\<close> have the same fields. They share the steps around the replacer:
  what may be missing before it runs, the choice of files, and the protocol files and project information after it.
\<close>

record pbGenerator =
  pgModule :: string
  pgServer :: string
  pgProject :: string
  pgProtobufFile :: string
  pgRepo :: string
  pgOut :: string
  pgMono :: bool

definition goThen :: "(genErr, 'a) go \<Rightarrow> fsys \<Rightarrow> ('a \<Rightarrow> (genErr, 'b) go \<times> fsys) \<Rightarrow> (genErr, 'b) go \<times> fsys" where
  "goThen m fs k = (case m of Err e \<Rightarrow> (Err e, fs) | Panic \<Rightarrow> (Panic, fs) | Ok x \<Rightarrow> k x)"

definition pbFiles :: "string list \<Rightarrow> string list \<Rightarrow> bool \<Rightarrow> bool \<Rightarrow> (genErr, string list \<times> string list) go" where
  "pbFiles subDirs subFiles isImportTypes mr =
     (let subFiles1 = (if isImportTypes then subFiles @ [''api/types/types.proto''] else subFiles) in
      if mr then
        go_bind (removeElements subDirs [''sponge/third_party'']) (\<lambda>ds.
        go_bind (removeElements subFiles1 [''sponge/go.mod'', ''sponge/go.sum'', ''api/types/types.proto'']) (\<lambda>fl. Ok (ds, fl)))
      else Ok (subDirs, subFiles1))"

definition savePb :: "genWorld \<Rightarrow> 'a pbGenerator_scheme \<Rightarrow> string list \<Rightarrow> (genErr, replacerInfo) go \<times> fsys \<Rightarrow> (genErr, string) go \<times> fsys" where
  "savePb w g protos res =
     (case res of
        (Ok r, fs) \<Rightarrow>
          (case saveProtobufFiles w (pgModule g) (pgServer g) (protobufDir w (pgServer g) (pgMono g) (outPath r)) protos fs of
             (Some e, fs1) \<Rightarrow> (Err e, fs1)
           | (None, fs1) \<Rightarrow> (Ok (outPath r), snd (saveGenInfo w (pgModule g) (pgServer g) (pgMono g) (outPath r) fs1)))
      | (Err e, fs) \<Rightarrow> (Err e, fs)
      | (Panic, fs) \<Rightarrow> (Panic, fs))"

definition withSwagger :: "genWorld \<Rightarrow> (genErr, string) go \<times> fsys \<Rightarrow> (genErr, string) go \<times> fsys" where
  "withSwagger w res =
     (case res of (Ok out, fs) \<Rightarrow> (Ok out, snd (saveEmptySwaggerJSON w out fs)) | r \<Rightarrow> r)"

section \<open>http-pb.go\<close>

definition httpPbSubDirs :: "string list" where
  "httpPbSubDirs = [''cmd/serverNameExample_httpPbExample'', ''sponge/configs'', ''sponge/deployments'', ''sponge/scripts'', ''sponge/third_party'']"

definition httpPbSubFiles :: "string list" where
  "httpPbSubFiles = [''sponge/.gitignore'', ''sponge/.golangci.yml'', ''sponge/go.mod'', ''sponge/go.sum'', ''sponge/Jenkinsfile'', ''sponge/Makefile'', ''sponge/README.md'']"

definition httpPbSelect :: selection where
  "httpPbSelect =
     [(''docs'', [''apis.go'', ''apis.swagger.json'']),
      (''internal/config'', [''serverNameExample.go'']),
      (''internal/ecode'', [''systemCode_http.go'']),
      (''internal/routers'', [''routers_pbExample.go'']),
      (''internal/server'', [''http.go.noregistry'', ''http_option.go.noregistry''])]"

definition httpPbAddFields :: "genWorld \<Rightarrow> fsys \<Rightarrow> 'a pbGenerator_scheme \<Rightarrow> replacerInfo \<Rightarrow> (genErr, Field list) go" where
  "httpPbAddFields w fs g r = (let repoHost = fst (parseImageRepoAddr (pgRepo g)) in goConcat
     [deleteFieldsMark w fs r httpFile startMark endMark,
      deleteFieldsMark w fs r (httpFile @ ''.noregistry'') startMark endMark,
      deleteFieldsMark w fs r dockerFile wellStartMark wellEndMark,
      deleteFieldsMark w fs r dockerFileBuild wellStartMark wellEndMark,
      deleteFieldsMark w fs r dockerComposeFile wellStartMark wellEndMark,
      deleteFieldsMark w fs r k8sDeploymentFile wellStartMark wellEndMark,
      deleteFieldsMark w fs r k8sServiceFile wellStartMark wellEndMark,
      deleteFieldsMark w fs r imageBuildFile wellStartMark wellEndMark,
      deleteFieldsMark w fs r imageBuildLocalFile wellStartMark wellEndMark,
      deleteAllFieldsMark w fs r makeFile wellStartMark wellEndMark,
      deleteFieldsMark w fs r gitIgnoreFile wellStartMark wellEndMark,
      deleteAllFieldsMark w fs r protoShellFile wellStartMark wellEndMark,
      deleteAllFieldsMark w fs r appConfigFile wellStartMark wellEndMark,
      Ok (replaceFileContentMark w fs r readmeFile (setReadmeTitle (pgModule g) (pgServer g) codeNameHTTPPb (pgMono g))),
      Ok [fld appConfigFileMark httpServerConfigCode,
       fld appConfigFileMark2 (getDBConfigCode undeterminedDBDriver),
       fld dockerFileMark dockerFileHTTPCode,
       fld dockerFileBuildMark dockerFileBuildHTTPCode,
       fld imageBuildFileMark imageBuildFileHTTPCode,
       fld imageBuildLocalFileMark imageBuildLocalFileHTTPCode,
       fld dockerComposeFileMark dockerComposeFileHTTPCode,
       fld k8sDeploymentFileMark k8sDeploymentFileHTTPCode,
       fld k8sServiceFileMark k8sServiceFileHTTPCode,
       fld protoShellFileGRPCMark [],
       fld protoShellFileMark protoShellHandlerCode,
       fld ''github.com/go-dev-frame/sponge'' (pgModule g),
       fld (pgModule g @ pkgPathSuffix) ''github.com/go-dev-frame/sponge/pkg'',
       fld spongeTemplateVersionMark (getLocalSpongeTemplateVersion w fs),
       fld ''sponge api docs'' (pgServer g @ apiDocsSuffix),
       fld defaultGoModVersion (getLocalGoVersion w),
       fld ''serverNameExample'' (pgServer g),
       fld ''server-name-example'' (gwKebab w (pgServer g)),
       fld ''project-name-example'' (pgProject g),
       fld ''projectNameExample'' (pgProject g),
       fld ''repo-addr-example'' (pgRepo g),
       fld ''image-repo-host'' repoHost,
       fld ''_httpPbExample'' [],
       fld ''_pbExample'' [],
       fld ''_mixExample'' []],
      Ok getHTTPServiceFields,
      Ok (if pgMono g then serverCodeFields codeNameHTTPPb (pgModule g) (pgServer g) else [])])"

definition httpPbGenerate :: "genWorld \<Rightarrow> 'a pbGenerator_scheme \<Rightarrow> replacerInfo option \<Rightarrow> fsys \<Rightarrow> (genErr, string) go \<times> fsys" where
  "httpPbGenerate w g replacer1 fs =
     goThen (parseProtobufFiles w fs (pgProtobufFile g)) fs (\<lambda>(protos, isImportTypes).
       case replacer1 of
         None \<Rightarrow> (Err ReplacerNil, fs)
       | Some r \<Rightarrow> goThen (pbFiles httpPbSubDirs httpPbSubFiles isImportTypes (pgMono g)) fs (\<lambda>(subDirs, subFiles).
           withSwagger w (
             savePb w g protos (runReplacer w subDirs (subFiles @ getSubFiles (gwVisit w 1) httpPbSelect []) [''cmd/sponge''] [''configs/serverNameExample_cc.yml'']
               (pgOut g) [pgServer g @ ''_'' @ codeNameHTTPPb] (httpPbAddFields w fs g) r fs))))"

section \<open>rpc-pb.go\<close>

definition rpcPbSubDirs :: "string list" where
  "rpcPbSubDirs = [''cmd/serverNameExample_grpcPbExample'', ''sponge/configs'', ''sponge/deployments'', ''sponge/scripts'', ''sponge/third_party'']"

definition rpcPbSubFiles :: "string list" where
  "rpcPbSubFiles = [''sponge/.gitignore'', ''sponge/.golangci.yml'', ''sponge/go.mod'', ''sponge/go.sum'', ''sponge/Jenkinsfile'', ''sponge/Makefile'', ''sponge/README.md'']"

definition rpcPbSelect :: selection where
  "rpcPbSelect =
     [(''internal/config'', [''serverNameExample.go'']),
      (''internal/ecode'', [''systemCode_rpc.go'']),
      (''internal/server'', [''grpc.go'', ''grpc_option.go'']),
      (''internal/service'', [''service.go'', ''service_test.go''])]"

definition rpcPbAddFields :: "genWorld \<Rightarrow> fsys \<Rightarrow> 'a pbGenerator_scheme \<Rightarrow> replacerInfo \<Rightarrow> (genErr, Field list) go" where
  "rpcPbAddFields w fs g r = (let repoHost = fst (parseImageRepoAddr (pgRepo g)) in goConcat
     [deleteFieldsMark w fs r dockerFile wellStartMark wellEndMark,
      deleteFieldsMark w fs r dockerFileBuild wellStartMark wellEndMark,
      deleteFieldsMark w fs r dockerComposeFile wellStartMark wellEndMark,
      deleteFieldsMark w fs r k8sDeploymentFile wellStartMark wellEndMark,
      deleteFieldsMark w fs r k8sServiceFile wellStartMark wellEndMark,
      deleteFieldsMark w fs r imageBuildFile wellStartMark wellEndMark,
      deleteFieldsMark w fs r imageBuildLocalFile wellStartMark wellEndMark,
      deleteAllFieldsMark w fs r makeFile wellStartMark wellEndMark,
      deleteFieldsMark w fs r gitIgnoreFile wellStartMark wellEndMark,
      deleteAllFieldsMark w fs r protoShellFile wellStartMark wellEndMark,
      deleteAllFieldsMark w fs r appConfigFile wellStartMark wellEndMark,
      Ok (replaceFileContentMark w fs r readmeFile (setReadmeTitle (pgModule g) (pgServer g) codeNameGRPCPb (pgMono g))),
      Ok [fld appConfigFileMark rpcServerConfigCode,
       fld appConfigFileMark2 (getDBConfigCode undeterminedDBDriver),
       fld dockerFileMark dockerFileGrpcCode,
       fld dockerFileBuildMark dockerFileBuildGrpcCode,
       fld imageBuildFileMark imageBuildFileGrpcCode,
       fld imageBuildLocalFileMark imageBuildLocalFileGrpcCode,
       fld dockerComposeFileMark dockerComposeFileGrpcCode,
       fld k8sDeploymentFileMark k8sDeploymentFileGrpcCode,
       fld k8sServiceFileMark k8sServiceFileGrpcCode,
       fld protoShellFileGRPCMark protoShellGRPCMark,
       fld protoShellFileMark protoShellServiceTmplCode,
       fld ''github.com/go-dev-frame/sponge'' (pgModule g),
       fld (pgModule g @ pkgPathSuffix) ''github.com/go-dev-frame/sponge/pkg'',
       fld spongeTemplateVersionMark (getLocalSpongeTemplateVersion w fs),
       fld ''sponge api docs'' (pgServer g @ apiDocsSuffix),
       fld defaultGoModVersion (getLocalGoVersion w),
       fld ''serverNameExample'' (pgServer g),
       fld ''server-name-example'' (gwKebab w (pgServer g)),
       fld ''project-name-example'' (pgProject g),
       fld ''projectNameExample'' (pgProject g),
       fld ''repo-addr-example'' (pgRepo g),
       fld ''image-repo-host'' repoHost,
       fld ''_grpcPbExample'' [],
       fld ''_mixExample'' [],
       fld ''_pbExample'' []],
      Ok getGRPCServiceFields,
      Ok (if pgMono g then serverCodeFields codeNameGRPCPb (pgModule g) (pgServer g) else [])])"

definition rpcPbGenerate :: "genWorld \<Rightarrow> 'a pbGenerator_scheme \<Rightarrow> replacerInfo option \<Rightarrow> fsys \<Rightarrow> (genErr, string) go \<times> fsys" where
  "rpcPbGenerate w g replacer1 fs =
     goThen (parseProtobufFiles w fs (pgProtobufFile g)) fs (\<lambda>(protos, isImportTypes).
       case replacer1 of
         None \<Rightarrow> (Err ReplacerNil, fs)
       | Some r \<Rightarrow> goThen (pbFiles rpcPbSubDirs rpcPbSubFiles isImportTypes (pgMono g)) fs (\<lambda>(subDirs, subFiles).
           savePb w g protos (runReplacer w subDirs (subFiles @ getSubFiles (gwVisit w 1) rpcPbSelect []) [''cmd/sponge''] [''scripts/swag-docs.sh'', ''configs/serverNameExample_cc.yml'']
               (pgOut g) [pgServer g @ ''_'' @ codeNameGRPCPb] (rpcPbAddFields w fs g) r fs)))"

section \<open>rpc-gw-pb.go\<close>

definition rpcGwPbSubDirs :: "string list" where
  "rpcGwPbSubDirs = [''cmd/serverNameExample_grpcGwPbExample'', ''sponge/configs'', ''sponge/deployments'', ''sponge/scripts'', ''sponge/third_party'']"

definition rpcGwPbSubFiles :: "string list" where
  "rpcGwPbSubFiles = [''sponge/.gitignore'', ''sponge/.golangci.yml'', ''sponge/go.mod'', ''sponge/go.sum'', ''sponge/Jenkinsfile'', ''sponge/Makefile'', ''sponge/README.md'']"

definition rpcGwPbSelect :: selection where
  "rpcGwPbSelect =
     [(''docs'', [''apis.go'', ''apis.swagger.json'']),
      (''internal/config'', [''serverNameExample.go'']),
      (''internal/ecode'', [''systemCode_rpc.go'']),
      (''internal/routers'', [''routers_pbExample.go'']),
      (''internal/server'', [''http.go'', ''http_option.go''])]"

definition rpcGwPbAddFields :: "genWorld \<Rightarrow> fsys \<Rightarrow> 'a pbGenerator_scheme \<Rightarrow> replacerInfo \<Rightarrow> (genErr, Field list) go" where
  "rpcGwPbAddFields w fs g r = (let repoHost = fst (parseImageRepoAddr (pgRepo g)) in goConcat
     [deleteFieldsMark w fs r httpFile startMark endMark,
      deleteFieldsMark w fs r dockerFile wellStartMark wellEndMark,
      deleteFieldsMark w fs r dockerFileBuild wellStartMark wellEndMark,
      deleteFieldsMark w fs r dockerComposeFile wellStartMark wellEndMark,
      deleteFieldsMark w fs r k8sDeploymentFile wellStartMark wellEndMark,
      deleteFieldsMark w fs r k8sServiceFile wellStartMark wellEndMark,
      deleteFieldsMark w fs r imageBuildFile wellStartMark wellEndMark,
      deleteFieldsMark w fs r imageBuildLocalFile wellStartMark wellEndMark,
      deleteAllFieldsMark w fs r makeFile wellStartMark wellEndMark,
      deleteFieldsMark w fs r gitIgnoreFile wellStartMark wellEndMark,
      deleteAllFieldsMark w fs r protoShellFile wellStartMark wellEndMark,
      deleteAllFieldsMark w fs r appConfigFile wellStartMark wellEndMark,
      Ok (replaceFileContentMark w fs r readmeFile (setReadmeTitle (pgModule g) (pgServer g) codeNameGRPCGW (pgMono g))),
      Ok [fld appConfigFileMark rpcGwServerConfigCode,
       fld appConfigFileMark2 (getDBConfigCode []),
       fld appConfigFileMark [],
       fld dockerFileMark dockerFileHTTPCode,
       fld dockerFileBuildMark dockerFileBuildHTTPCode,
       fld imageBuildFileMark imageBuildFileHTTPCode,
       fld imageBuildLocalFileMark imageBuildLocalFileHTTPCode,
       fld dockerComposeFileMark dockerComposeFileHTTPCode,
       fld k8sDeploymentFileMark k8sDeploymentFileHTTPCode,
       fld k8sServiceFileMark k8sServiceFileHTTPCode,
       fld protoShellFileGRPCMark protoShellGRPCMark,
       fld protoShellFileMark protoShellServiceCode,
       fld ''github.com/go-dev-frame/sponge'' (pgModule g),
       fld (pgModule g @ pkgPathSuffix) ''github.com/go-dev-frame/sponge/pkg'',
       fld spongeTemplateVersionMark (getLocalSpongeTemplateVersion w fs),
       fld ''sponge api docs'' (pgServer g @ '' api docs''),
       fld defaultGoModVersion (getLocalGoVersion w),
       fldCS ''serverNameExample'' (pgServer g),
       fld ''server-name-example'' (gwKebab w (pgServer g)),
       fld ''project-name-example'' (pgProject g),
       fld ''projectNameExample'' (pgProject g),
       fld ''repo-addr-example'' (pgRepo g),
       fld ''image-repo-host'' repoHost,
       fld ''_grpcGwPbExample'' [],
       fld ''_mixExample'' [],
       fld ''_pbExample'' []],
      Ok getGRPCServiceFields,
      Ok (if pgMono g then serverCodeFields codeNameGRPCGW (pgModule g) (pgServer g) else [])])"

definition rpcGwPbGenerate :: "genWorld \<Rightarrow> 'a pbGenerator_scheme \<Rightarrow> replacerInfo option \<Rightarrow> fsys \<Rightarrow> (genErr, string) go \<times> fsys" where
  "rpcGwPbGenerate w g replacer1 fs =
     goThen (parseProtobufFiles w fs (pgProtobufFile g)) fs (\<lambda>(protos, isImportTypes).
       case replacer1 of
         None \<Rightarrow> (Err ReplacerNil, fs)
       | Some r \<Rightarrow> goThen (pbFiles rpcGwPbSubDirs rpcGwPbSubFiles isImportTypes (pgMono g)) fs (\<lambda>(subDirs, subFiles).
           withSwagger w (
             savePb w g protos (runReplacer w subDirs (subFiles @ getSubFiles (gwVisit w 1) rpcGwPbSelect []) [''cmd/sponge''] [''configs/serverNameExample_cc.yml'']
               (pgOut g) [pgServer g @ ''_'' @ codeNameGRPCGW] (rpcGwPbAddFields w fs g) r fs))))"

section \<open>grpc-http-pb.go and grpc-http.go\<close>

record httpAndGRPCPbGenerator = pbGenerator +
  isHandleProtoFile :: bool
  isAddDBInitCode :: bool
  pgDriver :: string
  extraReplaceFields :: "Field list"

definition grpcHttpSubDirs :: "string list" where
  "grpcHttpSubDirs = [''cmd/serverNameExample_grpcHttpPbExample'', ''sponge/configs'', ''sponge/deployments'', ''sponge/scripts'', ''sponge/third_party'']"

definition grpcHttpSubFiles :: "string list" where
  "grpcHttpSubFiles = [''sponge/.gitignore'', ''sponge/.golangci.yml'', ''sponge/go.mod'', ''sponge/go.sum'', ''sponge/Jenkinsfile'', ''sponge/Makefile'', ''sponge/README.md'']"

definition grpcHttpSelect :: selection where
  "grpcHttpSelect =
     [(''docs'', [''apis.go'', ''apis.swagger.json'']),
      (''internal/config'', [''serverNameExample.go'']),
      (''internal/ecode'', [''systemCode_http.go'', ''systemCode_rpc.go'']),
      (''internal/routers'', [''routers_pbExample.go'']),
      (''internal/server'', [''http.go'', ''http_option.go'', ''grpc.go'', ''grpc_option.go'']),
      (''internal/service'', [''service.go'', ''service_test.go''])]"

text \<open>The global \<open>undeterminedDBDriver\<close> is set to the driver before the configuration is chosen; a process runs one command.\<close>

definition grpcHttpAddFields :: "genWorld \<Rightarrow> fsys \<Rightarrow> httpAndGRPCPbGenerator \<Rightarrow> replacerInfo \<Rightarrow> (genErr, Field list) go" where
  "grpcHttpAddFields w fs g r = (let repoHost = fst (parseImageRepoAddr (pgRepo g)) in goConcat
     [deleteFieldsMark w fs r httpFile startMark endMark,
      deleteFieldsMark w fs r dockerFile wellStartMark wellEndMark,
      deleteFieldsMark w fs r dockerFileBuild wellStartMark wellEndMark,
      deleteFieldsMark w fs r dockerComposeFile wellStartMark wellEndMark,
      deleteFieldsMark w fs r k8sDeploymentFile wellStartMark wellEndMark,
      deleteFieldsMark w fs r k8sServiceFile wellStartMark wellEndMark,
      deleteFieldsMark w fs r imageBuildFile wellStartMark wellEndMark,
      deleteFieldsMark w fs r imageBuildLocalFile wellStartMark wellEndMark,
      deleteAllFieldsMark w fs r makeFile wellStartMark wellEndMark,
      deleteFieldsMark w fs r gitIgnoreFile wellStartMark wellEndMark,
      deleteAllFieldsMark w fs r protoShellFile wellStartMark wellEndMark,
      deleteAllFieldsMark w fs r appConfigFile wellStartMark wellEndMark,
      if isAddDBInitCode g then deleteFieldsMark w fs r databaseInitDBFile startMark endMark else Ok [],
      Ok (replaceFileContentMark w fs r readmeFile (setReadmeTitle (pgModule g) (pgServer g) codeNameGRPCHTTPPb (pgMono g))),
      Ok [fld appConfigFileMark grpcAndHTTPServerConfigCode,
       fld appConfigFileMark2 (getDBConfigCode (if isAddDBInitCode g then pgDriver g else undeterminedDBDriver)),
       fld dockerFileMark dockerFileGrpcCode,
       fld dockerFileBuildMark dockerFileBuildGrpcCode,
       fld imageBuildFileMark imageBuildFileGrpcCode,
       fld imageBuildLocalFileMark imageBuildLocalFileGrpcCode,
       fld dockerComposeFileMark dockerComposeFileGrpcCode,
       fld k8sDeploymentFileMark k8sDeploymentFileGrpcCode,
       fld k8sServiceFileMark k8sServiceFileGrpcCode,
       fld protoShellFileGRPCMark protoShellGRPCMark,
       fld protoShellFileMark protoShellServiceAndHandlerCode,
       fld ''github.com/go-dev-frame/sponge'' (pgModule g),
       fld (pgModule g @ pkgPathSuffix) ''github.com/go-dev-frame/sponge/pkg'',
       fld spongeTemplateVersionMark (getLocalSpongeTemplateVersion w fs),
       fld ''sponge api docs'' (pgServer g @ apiDocsSuffix),
       fld defaultGoModVersion (getLocalGoVersion w),
       fld ''serverNameExample'' (pgServer g),
       fld ''server-name-example'' (gwKebab w (pgServer g)),
       fld ''project-name-example'' (pgProject g),
       fld ''projectNameExample'' (pgProject g),
       fld ''repo-addr-example'' (pgRepo g),
       fld ''image-repo-host'' repoHost,
       fld ''_httpPbExample'' [],
       fld ''_grpcHttpPbExample'' [],
       fld ''_grpcPbExample'' [],
       fld ''_mixExample'' [],
       fld ''_pbExample'' [],
       fld ''prof.Register(r, prof.WithIOWaitTime())'' ''// implemented on port 8283'',
       fld (dquote @ ''github.com/go-dev-frame/sponge/pkg/gin/prof'' @ dquote) [],
       fld ''reference-db-config-url'' ''Reference: https://github.com/go-dev-frame/sponge/blob/main/configs/serverNameExample.yml#L87''],
      Ok (if isAddDBInitCode g then extraReplaceFields g else []),
      Ok getGRPCServiceFields,
      Ok (if pgMono g then serverCodeFields codeNameGRPCHTTPPb (pgModule g) (pgServer g) else [])])"

definition grpcHttpGenerate :: "genWorld \<Rightarrow> httpAndGRPCPbGenerator \<Rightarrow> replacerInfo option \<Rightarrow> fsys \<Rightarrow> (genErr, string) go \<times> fsys" where
  "grpcHttpGenerate w g replacer1 fs =
     goThen (if isHandleProtoFile g then parseProtobufFiles w fs (pgProtobufFile g) else Ok ([], True)) fs (\<lambda>(protos, isImportTypes).
       case replacer1 of
         None \<Rightarrow> (Err ReplacerNil, fs)
       | Some r \<Rightarrow> goThen (if isAddDBInitCode g then SetSelectFiles (pgDriver g) grpcHttpSelect else Ok grpcHttpSelect) fs (\<lambda>selectFiles.
           goThen (pbFiles grpcHttpSubDirs grpcHttpSubFiles isImportTypes (pgMono g)) fs (\<lambda>(subDirs, subFiles).
             savePb w g protos (runReplacer w subDirs (subFiles @ getSubFiles (gwVisit w 1) selectFiles []) [''cmd/sponge''] [''configs/serverNameExample_cc.yml'']
               (pgOut g) [pgServer g @ ''_'' @ (if isAddDBInitCode g then codeNameGRPCHTTP else codeNameGRPCHTTPPb)]
               (grpcHttpAddFields w fs g) r fs))))"

definition extraFields :: "genWorld \<Rightarrow> string \<Rightarrow> string \<Rightarrow> (genErr, Field list) go" where
  "extraFields w dbDriver1 dbDSN1 = goConcat
     [go_bind (getInitDBCode dbDriver1) (\<lambda>c. Ok [fld (databaseInitDBFileMark) c]),
      Ok [fld showDbNameMark (CurrentDbDriver dbDriver1),
       fld ''init.go.mgo'' ''init.go'',
       fld ''mongodb.go.mgo'' ''mongodb.go'',
       fld ''root:123456@(192.168.3.37:3306)/account'' dbDSN1,
       fld ''root:123456@192.168.3.37:27017/account'' dbDSN1],
      go_bind (adaptPgDsn w dbDSN1) (\<lambda>c. Ok [fld (''root:123456@192.168.3.37:5432/account?sslmode=disable'') c]),
      Ok [fld ''test/sql/sqlite/sponge.db'' (sqliteDSNAdaptation w dbDriver1 dbDSN1)]]"

section \<open>cache.go, rpc-conn.go and configmap.go\<close>

record stringCacheGenerator =
  cgModule :: string
  cgCacheName :: string
  cgPrefixKey :: string
  cgKeyName :: string
  cgKeyType :: string
  cgValueName :: string
  cgValueType :: string
  cgOut :: string
  cgServer :: string
  cgMono :: bool

text \<open>The type of the value is indexed at 0: an empty one panics.\<close>

definition cacheAddFields :: "genWorld \<Rightarrow> fsys \<Rightarrow> stringCacheGenerator \<Rightarrow> replacerInfo \<Rightarrow> (genErr, Field list) go" where
  "cacheAddFields w fs g r = goConcat
     [deleteFieldsMark w fs r cacheFile startMark endMark,
      (case cgValueType g of
         [] \<Rightarrow> Panic
       | c # rest \<Rightarrow> Ok (if c = CHR ''*'' then
           [fld ''var valueNameExample valueTypeExample'' (cgValueName g @ '' := &'' @ rest @ ''{}''),
            fld ''&valueNameExample'' (cgValueName g)] else [])),
      Ok [fld ''github.com/moweilong/milady/internal/apiserver/model'' (cgModule g @ ''/internal/apiserver/model''),
       fldCS ''cacheNameExample'' (cgCacheName g),
       fld ''prefixKeyExample:'' (cgPrefixKey g),
       fld ''keyNameExample'' (cgKeyName g),
       fld ''keyTypeExample'' (cgKeyType g),
       fld ''valueNameExample'' (cgValueName g),
       fld ''valueTypeExample'' (cgValueType g)],
      Ok (if cgMono g then SubServerCodeFields (cgModule g) (cgServer g) else [])]"

definition cacheGenerate :: "genWorld \<Rightarrow> stringCacheGenerator \<Rightarrow> replacerInfo option \<Rightarrow> fsys \<Rightarrow> (genErr, string \<times> replacerInfo option) go \<times> fsys" where
  "cacheGenerate w g replacer1 fs =
     useGlobal w [] [''internal/cache/cacheNameExample.go''] [] (cgOut g) codeNameCache (cacheAddFields w fs g) replacer1 fs"

text \<open>The prefix of the keys ends with a colon.\<close>

definition cachePrefix :: "string \<Rightarrow> string \<Rightarrow> string" where
  "cachePrefix cacheName1 prefixKey1 =
     (if prefixKey1 = [] \<or> prefixKey1 = '':'' then cacheName1 @ '':''
      else if last prefixKey1 \<noteq> CHR '':'' then prefixKey1 @ '':'' else prefixKey1)"

record cacheFlags = tableFlags +
  fCacheName :: string
  fPrefixKey :: string
  fKeyName :: string
  fKeyType :: string
  fValueName :: string
  fValueType :: string

definition CacheCommand :: "genWorld \<Rightarrow> cacheFlags \<Rightarrow> replacerInfo option \<Rightarrow> fsys \<Rightarrow> (genErr, string) go \<times> fsys" where
  "CacheCommand w f replacer1 fs =
     goThen (projectNames w (fModule f) (fServer f) (fMono f) (fOut f) fs) fs (\<lambda>(m, s, mr, out).
       let cacheName1 = goReplaceAll (fCacheName f) '':'' [] in
       case cacheGenerate w \<lparr>cgModule = m, cgCacheName = cacheName1, cgPrefixKey = cachePrefix cacheName1 (fPrefixKey f),
           cgKeyName = fKeyName f, cgKeyType = fKeyType f, cgValueName = fValueName f, cgValueType = fValueType f,
           cgOut = out, cgServer = s, cgMono = mr\<rparr> replacer1 fs of
         (Ok (out1, _), fs1) \<Rightarrow> (Ok out1, fs1)
       | (Err e, fs1) \<Rightarrow> (Err e, fs1)
       | (Panic, fs1) \<Rightarrow> (Panic, fs1))"

record grpcConnectionGenerator =
  cnModule :: string
  cnGrpcName :: string
  cnOut :: string
  cnServer :: string
  cnMono :: bool

definition connectionAddFields :: "grpcConnectionGenerator \<Rightarrow> (genErr, Field list) go" where
  "connectionAddFields g = goConcat
     [Ok [fld ''github.com/go-dev-frame/sponge/configs'' (cnModule g @ ''/configs''),
       fld ''github.com/go-dev-frame/sponge/internal/config'' (cnModule g @ ''/internal/config''),
       fldCS ''serverNameExample'' (cnGrpcName g)],
      Ok (if cnMono g then SubServerCodeFields (cnModule g) (cnServer g) else [])]"

definition connectionGenerate :: "genWorld \<Rightarrow> grpcConnectionGenerator \<Rightarrow> replacerInfo option \<Rightarrow> fsys \<Rightarrow> (genErr, string \<times> replacerInfo option) go \<times> fsys" where
  "connectionGenerate w g replacer1 fs =
     useGlobal w [] [''internal/rpcclient/serverNameExample.go''] [] (cnOut g) codeNameGRPCConn (\<lambda>r. connectionAddFields g) replacer1 fs"

fun connectionLoop :: "(nat \<Rightarrow> genWorld) \<Rightarrow> nat \<Rightarrow> string \<Rightarrow> string \<Rightarrow> bool \<Rightarrow> string list \<Rightarrow> string \<Rightarrow> replacerInfo option \<Rightarrow> fsys \<Rightarrow> (genErr, string) go \<times> fsys" where
  "connectionLoop ws n m s mr [] out replacer1 fs = (Ok out, fs)"
| "connectionLoop ws n m s mr (grpcName # names1) out replacer1 fs =
     (if grpcName = [] then connectionLoop ws (Suc n) m s mr names1 out replacer1 fs
      else case connectionGenerate (ws n) \<lparr>cnModule = m, cnGrpcName = grpcName, cnOut = out, cnServer = s, cnMono = mr\<rparr> replacer1 fs of
          (Ok (out1, replacer2), fs1) \<Rightarrow> connectionLoop ws (Suc n) m s mr names1 out1 replacer2 fs1
        | (Err e, fs1) \<Rightarrow> (Err e, fs1)
        | (Panic, fs1) \<Rightarrow> (Panic, fs1))"

definition GRPCConnectionCommand :: "(nat \<Rightarrow> genWorld) \<Rightarrow> 'a tableFlags_scheme \<Rightarrow> string \<Rightarrow> replacerInfo option \<Rightarrow> fsys \<Rightarrow> (genErr, string) go \<times> fsys" where
  "GRPCConnectionCommand ws f grpcServerNames replacer1 fs =
     goThen (projectNames (ws 0) (fModule f) (fServer f) (fMono f) (fOut f) fs) fs (\<lambda>(m, s, mr, out).
       connectionLoop ws 0 m s mr (splitOn (CHR '','') grpcServerNames) out replacer1 fs)"

record copyConfigGenerator =
  ccServer :: string
  ccProject :: string
  ccContent :: string
  ccOut :: string

definition copyConfigAddFields :: "genWorld \<Rightarrow> copyConfigGenerator \<Rightarrow> (genErr, Field list) go" where
  "copyConfigAddFields w g = Ok [fld configmapFileMark (ccContent g),
       fldCS ''serverNameExample'' (ccServer g),
       fld ''server-name-example'' (gwKebab w (ccServer g)),
       fld ''project-name-example'' (ccProject g)]"

definition copyConfigGenerate :: "genWorld \<Rightarrow> copyConfigGenerator \<Rightarrow> replacerInfo option \<Rightarrow> fsys \<Rightarrow> (genErr, string \<times> replacerInfo option) go \<times> fsys" where
  "copyConfigGenerate w g replacer1 fs =
     useGlobal w [''deployments/kubernetes''] [] [''projectNameExample-namespace.yml'', ''README.md'', ''serverNameExample-deployment.yml'', ''serverNameExample-svc.yml''] (ccOut g) ''configmap'' (\<lambda>r. copyConfigAddFields w g) replacer1 fs"

definition ConfigmapCommand :: "genWorld \<Rightarrow> string \<Rightarrow> string \<Rightarrow> string \<Rightarrow> string \<Rightarrow> replacerInfo option \<Rightarrow> fsys \<Rightarrow> (genErr, string) go \<times> fsys" where
  "ConfigmapCommand w serverName1 projectName1 configFile out replacer1 fs =
     goThen (convertYamlConfig fs configFile) fs (\<lambda>content.
       case copyConfigGenerate w \<lparr>ccServer = serverName1, ccProject = projectName1, ccContent = content, ccOut = out\<rparr> replacer1 fs of
         (Ok (out1, _), fs1) \<Rightarrow> (Ok out1, fs1)
       | (Err e, fs1) \<Rightarrow> (Err e, fs1)
       | (Panic, fs1) \<Rightarrow> (Panic, fs1))"

section \<open>The commands for protocol files\<close>

definition handlerPbTable :: "string \<Rightarrow> string \<Rightarrow> bool \<Rightarrow> unit tableGen" where
  "handlerPbTable m s mr w n a cs st out fs = stateless (handlerPbGenerate w (newGenerator m s mr a cs out) fs)"

definition serviceHandlerTable :: "string \<Rightarrow> string \<Rightarrow> bool \<Rightarrow> unit tableGen" where
  "serviceHandlerTable m s mr w n a cs st out fs = stateless (serviceHandlerGenerate w (newGenerator m s mr a cs out) fs)"

definition HandlerPbCommand :: "(nat \<Rightarrow> genWorld) \<Rightarrow> tableFlags \<Rightarrow> fsys \<Rightarrow> (genErr, string) go \<times> fsys" where
  "HandlerPbCommand ws f fs =
     tableCommand ws (serviceNames (ws 0) (fModule f) (fServer f) (fMono f) (fOut f) fs) handlerPbTable f () fs"

definition ServiceAndHandlerCRUDCommand :: "(nat \<Rightarrow> genWorld) \<Rightarrow> tableFlags \<Rightarrow> fsys \<Rightarrow> (genErr, string) go \<times> fsys" where
  "ServiceAndHandlerCRUDCommand ws f fs =
     tableCommand ws (serviceNames (ws 0) (fModule f) (fServer f) (fMono f) (fOut f) fs) serviceHandlerTable f () fs"

text \<open>
  A server from a protocol file: \<open>back1\<close> tells whether the command uses the directory that the generator returns for the
  Kubernetes map; \<open>rpc-pb\<close> and \<open>rpc-gw-pb\<close> use the flag instead.
\<close>

record pbFlags = serverFlags +
  fProtobufFile :: string

definition newPb :: "pbFlags \<Rightarrow> string \<Rightarrow> string \<Rightarrow> string \<Rightarrow> pbGenerator" where
  "newPb f pn sn out =
     \<lparr>pgModule = fModule f, pgServer = sn, pgProject = pn, pgProtobufFile = fProtobufFile f, pgRepo = fRepo f, pgOut = out, pgMono = fMono f\<rparr>"

definition pbCommand :: "bool \<Rightarrow> genWorld \<Rightarrow> (genWorld \<Rightarrow> pbGenerator \<Rightarrow> replacerInfo option \<Rightarrow> fsys \<Rightarrow> (genErr, string) go \<times> fsys) \<Rightarrow>
    pbFlags \<Rightarrow> replacerInfo option \<Rightarrow> fsys \<Rightarrow> (genErr, string) go \<times> fsys" where
  "pbCommand back1 w gen f replacer1 fs =
     (case convertProjectAndServerName w (fProject f) (fServer f) of
        (pn, sn, Some e) \<Rightarrow> (Err e, fs)
      | (pn, sn, None) \<Rightarrow>
          let out = (if fMono f then changeOutPath w (fOut f) sn else fOut f) in
          (case gen w (newPb f pn sn out) replacer1 fs of
             (Ok out1, fs1) \<Rightarrow> (let out2 = (if back1 then out1 else out) in (Ok out2, snd (generateConfigmap w sn out2 fs1)))
           | r \<Rightarrow> r))"

definition HTTPPbCommand :: "genWorld \<Rightarrow> pbFlags \<Rightarrow> replacerInfo option \<Rightarrow> fsys \<Rightarrow> (genErr, string) go \<times> fsys" where
  "HTTPPbCommand w f replacer1 fs = pbCommand True w httpPbGenerate f replacer1 fs"

definition RPCPbCommand :: "genWorld \<Rightarrow> pbFlags \<Rightarrow> replacerInfo option \<Rightarrow> fsys \<Rightarrow> (genErr, string) go \<times> fsys" where
  "RPCPbCommand w f replacer1 fs = pbCommand False w rpcPbGenerate f replacer1 fs"

definition RPCGwPbCommand :: "genWorld \<Rightarrow> pbFlags \<Rightarrow> replacerInfo option \<Rightarrow> fsys \<Rightarrow> (genErr, string) go \<times> fsys" where
  "RPCGwPbCommand w f replacer1 fs = pbCommand False w rpcGwPbGenerate f replacer1 fs"

definition withDatabase :: "bool \<Rightarrow> bool \<Rightarrow> string \<Rightarrow> Field list \<Rightarrow> pbGenerator \<Rightarrow> httpAndGRPCPbGenerator" where
  "withDatabase handle add driver extra g = pbGenerator.extend g (httpAndGRPCPbGenerator.fields handle add driver extra)"

definition GRPCAndHTTPPbCommand :: "genWorld \<Rightarrow> pbFlags \<Rightarrow> replacerInfo option \<Rightarrow> fsys \<Rightarrow> (genErr, string) go \<times> fsys" where
  "GRPCAndHTTPPbCommand w f replacer1 fs =
     pbCommand True w (\<lambda>w g. grpcHttpGenerate w (withDatabase True False [] [] g)) f replacer1 fs"

text \<open>\<open>grpc-http\<close> makes the server first and then adds every table; unlike the others it keeps the flag \<open>embed\<close> for MongoDB.\<close>

definition plainArgs :: "genArgs \<Rightarrow> string \<Rightarrow> genArgs" where
  "plainArgs a t = a\<lparr>aDBTable := t\<rparr>"

definition GRPCAndHTTPCommand :: "(nat \<Rightarrow> genWorld) \<Rightarrow> pbFlags \<Rightarrow> replacerInfo option \<Rightarrow> fsys \<Rightarrow> (genErr, string) go \<times> fsys" where
  "GRPCAndHTTPCommand ws f replacer1 fs =
     (let w = ws 0; a = fArgs f; tableNames = splitOn (CHR '','') (fTables f) in
      case convertProjectAndServerName w (fProject f) (fServer f) of
        (pn, sn, Some e) \<Rightarrow> (Err e, fs)
      | (pn, sn, None) \<Rightarrow>
          let out = (if fMono f then changeOutPath w (fOut f) sn else fOut f) in
          goThen (extraFields w (aDBDriver a) (aDBDsn a)) fs (\<lambda>extra.
          (case grpcHttpGenerate w (withDatabase False True (aDBDriver a) extra ((newPb f pn sn out)\<lparr>pgProtobufFile := []\<rparr>)) replacer1 fs of
             (Ok out1, fs1) \<Rightarrow>
               (case tableLoop ws plainArgs (serviceHandlerTable (fModule f) sn (fMono f)) 1 a () tableNames out1
                       (snd (generateConfigmap w sn out1 fs1)) of
                  (Ok out2, fs2) \<Rightarrow> (Ok out2, snd (generateConfigmap (ws (Suc (length tableNames))) sn out2 fs2))
                | r \<Rightarrow> r)
           | r \<Rightarrow> r)))"

section \<open>Existing files\<close>

lemma handlerPb_mono_repo: "handlerPbPlan w fs r g = Ok (p, g1) \<Longrightarrow> suitedMonoRepo g1 = suitedMonoRepo g"
  unfolding handlerPbPlan_def Let_def by (erule tail_generator) simp_all

lemma serviceHandler_mono_repo: "serviceHandlerPlan w fs r g = Ok (p, g1) \<Longrightarrow> suitedMonoRepo g1 = suitedMonoRepo g"
  unfolding serviceHandlerPlan_def Let_def by (erule tail_generator) simp_all

lemma moved_keeps:
  assumes "visitsAll (gwOs w)" "\<not> suitedMonoRepo g1"
    and "moveProtos w g1 (outDirOf (runReplacer w ds fls igd igf out ns addF r fs)) = (res, fs')"
  shows "keepsFiles fs fs'"
  using assms(3) project_keeps [OF assms(1)] unfolding moveProtos_alone [OF assms(2)] by (metis snd_conv)

lemma handlerPbGenerate_keeps:
  assumes "visitsAll (gwOs w)" "\<not> suitedMonoRepo g" "handlerPbGenerate w g fs = (res, fs')"
  shows "keepsFiles fs fs'"
proof (rule server_cases [where Q = "keepsFiles fs", OF assms(3) [unfolded handlerPbGenerate_def Let_def] _ keepsFiles_refl], goal_cases)
  case (1 r p g1)
  from handlerPb_mono_repo [OF 1(1)] assms(2) have "\<not> suitedMonoRepo g1" by simp
  from moved_keeps [OF assms(1) this 1(2)] show ?case .
qed

lemma serviceHandlerGenerate_keeps:
  assumes "visitsAll (gwOs w)" "\<not> suitedMonoRepo g" "serviceHandlerGenerate w g fs = (res, fs')"
  shows "keepsFiles fs fs'"
proof (rule server_cases [where Q = "keepsFiles fs", OF assms(3) [unfolded serviceHandlerGenerate_def Let_def] _ keepsFiles_refl], goal_cases)
  case (1 r p g1)
  from serviceHandler_mono_repo [OF 1(1)] assms(2) have "\<not> suitedMonoRepo g1" by simp
  from moved_keeps [OF assms(1) this 1(2)] show ?case .
qed

interpretation handlerPbTables: table_generator "handlerPbTable m srv False" for m srv
  by unfold_locales (auto simp: handlerPbTable_def newGenerator_def elim!: stateless_keeps handlerPbGenerate_keeps)

interpretation serviceHandlerTables: table_generator "serviceHandlerTable m srv False" for m srv
  by unfold_locales (auto simp: serviceHandlerTable_def newGenerator_def elim!: stateless_keeps serviceHandlerGenerate_keeps)

text \<open>The small generators.\<close>

lemma goThen_keeps:
  "goThen m fs k = (res, fs') \<Longrightarrow> (\<And>x. m = Ok x \<Longrightarrow> k x = (res, fs') \<Longrightarrow> Q fs') \<Longrightarrow> Q fs \<Longrightarrow> Q fs'"
  by (auto simp: goThen_def split: go.splits)

lemma CacheCommand_keeps:
  assumes "visitsAll (gwOs w)" "CacheCommand w f replacer1 fs = (res, fs')"
  shows "keepsFiles fs fs'"
proof (rule goThen_keeps [where Q = "keepsFiles fs", OF assms(2) [unfolded CacheCommand_def] _ keepsFiles_refl], goal_cases)
  case (1 x)
  with useGlobal_keeps [OF assms(1)] show ?case
    by (auto simp: cacheGenerate_def Let_def split: prod.splits go.splits)
qed

lemma ConfigmapCommand_keeps:
  assumes "visitsAll (gwOs w)" "ConfigmapCommand w s p c out replacer1 fs = (res, fs')"
  shows "keepsFiles fs fs'"
proof (rule goThen_keeps [where Q = "keepsFiles fs", OF assms(2) [unfolded ConfigmapCommand_def] _ keepsFiles_refl], goal_cases)
  case (1 x)
  with useGlobal_keeps [OF assms(1)] show ?case
    by (auto simp: copyConfigGenerate_def split: prod.splits go.splits)
qed

lemma connectionLoop_keeps:
  assumes "\<forall>n. visitsAll (gwOs (ws n))"
  shows "connectionLoop ws n m s mr names1 out replacer1 fs = (res, fs') \<Longrightarrow> keepsFiles fs fs'"
proof (induction names1 arbitrary: n out replacer1 fs)
  case (Cons g names1)
  let ?g = "\<lparr>cnModule = m, cnGrpcName = g, cnOut = out, cnServer = s, cnMono = mr\<rparr>"
  have one: "connectionGenerate (ws n) ?g replacer1 fs = (r, fs1) \<Longrightarrow> keepsFiles fs fs1" for r fs1
    unfolding connectionGenerate_def by (rule useGlobal_keeps [OF spec [OF assms]])
  from Cons.prems Cons.IH one keepsFiles_trans show ?case
    by (fastforce split: if_splits prod.splits go.splits)
qed simp

lemma GRPCConnectionCommand_keeps:
  assumes "\<forall>n. visitsAll (gwOs (ws n))" "GRPCConnectionCommand ws f names1 replacer1 fs = (res, fs')"
  shows "keepsFiles fs fs'"
  by (rule goThen_keeps [where Q = "keepsFiles fs", OF assms(2) [unfolded GRPCConnectionCommand_def] _ keepsFiles_refl])
    (auto split: prod.splits dest: connectionLoop_keeps [OF assms(1)])

text \<open>Servers from protocol files also write their empty API description again.\<close>

definition rewrittenPb :: "string \<Rightarrow> bool" where
  "rewrittenPb p \<longleftrightarrow> rewritten p \<or> hasSuffix p ''/docs/apis.swagger.json''"

definition keepsPb :: "fsys \<Rightarrow> fsys \<Rightarrow> bool" where
  "keepsPb fs fs' \<longleftrightarrow> (\<forall>p d. fsFiles fs p = Some d \<and> \<not> rewrittenPb p \<longrightarrow> fsFiles fs' p = Some d)"

lemma keepsPb_others: "keepsOthers fs fs' \<Longrightarrow> keepsPb fs fs'"
  by (simp add: keepsOthers_def keepsPb_def rewrittenPb_def)

lemma keepsPb_refl: "keepsPb fs fs"
  by (simp add: keepsPb_def)

lemma keepsPb_trans: "keepsPb fs fs1 \<Longrightarrow> keepsPb fs1 fs2 \<Longrightarrow> keepsPb fs fs2"
  by (simp add: keepsPb_def)

lemma saveEmptySwaggerJSON_keeps: "keepsPb fs (snd (saveEmptySwaggerJSON w out fs))"
  by (auto simp: saveEmptySwaggerJSON_def writeFile_def keepsPb_def rewrittenPb_def hasSuffix_def)

lemma withSwagger_keeps: "withSwagger w x = (res, fs') \<Longrightarrow> keepsPb fs (snd x) \<Longrightarrow> keepsPb fs fs'"
  using saveEmptySwaggerJSON_keeps keepsPb_trans
  by (cases x) (fastforce simp: withSwagger_def split: go.splits)

lemma savePb_keeps: "keepsFiles fs (snd x) \<Longrightarrow> keepsPb fs (snd (savePb w g protos x))"
proof -
  assume k: "keepsFiles fs (snd x)"
  obtain r fs1 where x: "x = (r, fs1)" by fastforce
  show ?thesis
  proof (cases r)
    case (Ok r1)
    obtain e fs2 where s: "saveProtobufFiles w (pgModule g) (pgServer g) (protobufDir w (pgServer g) (pgMono g) (outPath r1)) protos fs1 = (e, fs2)"
      by fastforce
    with k x have "keepsFiles fs fs2" using saveProtobufFiles_moves keepsFiles_trans by fastforce
    then have "keepsPb fs fs2" using keepsOthers_keeps keepsPb_others by blast
    with Ok x s saveGenInfo_keeps keepsPb_others keepsPb_trans show ?thesis
      by (fastforce simp: savePb_def split: option.splits)
  qed (use k x keepsOthers_keeps keepsPb_others in \<open>auto simp: savePb_def\<close>)
qed

text \<open>The protocol files of a finished server.\<close>

lemma last_slash:
  assumes "a @ CHR ''/'' # n = b @ CHR ''/'' # n'" "CHR ''/'' \<notin> set n" "CHR ''/'' \<notin> set n'"
  shows "a = b"
proof -
  from assms(1) have "takeWhile (\<lambda>c. c \<noteq> CHR ''/'') (rev (a @ CHR ''/'' # n)) = takeWhile (\<lambda>c. c \<noteq> CHR ''/'') (rev (b @ CHR ''/'' # n'))"
    by simp
  with assms(2,3) have "n = n'" by (auto simp: takeWhile_append split: if_splits)
  with assms(1) show ?thesis by simp
qed

lemma GetFilename_slash: "CHR ''/'' \<notin> set (GetFilename win1 p)"
  by (auto simp: GetFilename_def splitPath_def Let_def isSep_def dest: set_takeWhileD)

lemma proto_no_docs:
  assumes "CHR ''/'' \<notin> set n"
  shows "protobufDir w s mr out @ ''/'' @ GetFilename win1 pb \<noteq> o1 @ ''/docs'' @ CHR ''/'' # n"
proof
  assume e: "protobufDir w s mr out @ ''/'' @ GetFilename win1 pb = o1 @ ''/docs'' @ CHR ''/'' # n"
  have "(protobufDir w s mr out) @ CHR ''/'' # GetFilename win1 pb = (o1 @ ''/docs'') @ CHR ''/'' # n" using e by simp
  from last_slash [OF this GetFilename_slash assms] have "last (protobufDir w s mr out) = last (o1 @ ''/docs'')" by simp
  then show False by (simp add: protobufDir_def)
qed

lemma savePb_protos:
  assumes "savePb w g protos x = (Ok out, fs')" "keepsFiles fs (snd x)" "pb \<in> set protos" "fsFiles fs pb = Some c"
  shows "fsFiles fs' (protobufDir w (pgServer g) (pgMono g) out @ ''/'' @ GetFilename (win (gwOs w)) pb) = Some (replacePackage c (pgModule g) (pgServer g))"
proof -
  from assms(1) obtain r1 fs1 fs2 where x: "x = (Ok r1, fs1)"
    and s: "saveProtobufFiles w (pgModule g) (pgServer g) (protobufDir w (pgServer g) (pgMono g) (outPath r1)) protos fs1 = (None, fs2)"
    and out: "out = outPath r1" and fs': "fs' = snd (saveGenInfo w (pgModule g) (pgServer g) (pgMono g) out fs2)"
    by (auto simp: savePb_def split: prod.splits go.splits option.splits)
  have c: "fsFiles fs1 pb = Some c" using assms(2,4) x by (simp add: keepsFiles_def)
  have "fsFiles fs' q = fsFiles fs2 q" if "q \<noteq> out @ ''/docs'' @ CHR ''/'' # ''gen.info''" for q
    using that by (simp add: fs' saveGenInfo_def writeFile_def genInfoFile_def Let_def)
  moreover have "protobufDir w (pgServer g) (pgMono g) out @ ''/'' @ GetFilename (win (gwOs w)) pb \<noteq> out @ ''/docs'' @ CHR ''/'' # ''gen.info''"
    by (rule proto_no_docs) simp
  ultimately show ?thesis using saveProtobufFiles_moves [OF s] assms(3) c out by simp
qed

lemma withSwagger_protos:
  assumes "withSwagger w x = (Ok out, fs')"
  shows "\<exists>fs1. x = (Ok out, fs1) \<and> fsFiles fs' (protobufDir w s mr o1 @ ''/'' @ GetFilename win1 pb) = fsFiles fs1 (protobufDir w s mr o1 @ ''/'' @ GetFilename win1 pb)"
proof -
  let ?p = "protobufDir w s mr o1 @ ''/'' @ GetFilename win1 pb"
  from assms obtain fs1 where x: "x = (Ok out, fs1)" "fs' = snd (saveEmptySwaggerJSON w out fs1)"
    by (auto simp: withSwagger_def split: prod.splits go.splits)
  have "?p \<noteq> out @ ''/docs'' @ CHR ''/'' # ''apis.swagger.json''" by (rule proto_no_docs) simp
  then have "fsFiles fs' ?p = fsFiles fs1 ?p" by (simp add: x saveEmptySwaggerJSON_def writeFile_def)
  with x show ?thesis by blast
qed

text \<open>What the command for a protocol file asks of a generator.\<close>

locale pb_generator =
  fixes gen :: "genWorld \<Rightarrow> pbGenerator \<Rightarrow> replacerInfo option \<Rightarrow> fsys \<Rightarrow> (genErr, string) go \<times> fsys"
  assumes gen_keeps: "visitsAll (gwOs w) \<Longrightarrow> gen w g replacer1 fs = (res, fs') \<Longrightarrow> keepsPb fs fs'"
    and gen_protos: "visitsAll (gwOs w) \<Longrightarrow> gen w g replacer1 fs = (Ok out, fs') \<Longrightarrow>
      parseProtobufFiles w fs (pgProtobufFile g) = Ok (protos, imp) \<Longrightarrow> pb \<in> set protos \<Longrightarrow> fsFiles fs pb = Some c \<Longrightarrow>
      fsFiles fs' (protobufDir w (pgServer g) (pgMono g) out @ ''/'' @ GetFilename (win (gwOs w)) pb) = Some (replacePackage c (pgModule g) (pgServer g))"
begin

lemma command_keeps:
  assumes "visitsAll (gwOs w)" "pbCommand back1 w gen f replacer1 fs = (res, fs')"
  shows "keepsPb fs fs'"
proof -
  obtain pn sn e where names: "convertProjectAndServerName w (fProject f) (fServer f) = (pn, sn, e)"
    using prod_cases3 by blast
  let ?out = "if fMono f then changeOutPath w (fOut f) sn else fOut f"
  obtain r fs1 where run: "gen w (newPb f pn sn ?out) replacer1 fs = (r, fs1)" by fastforce
  from gen_keeps [OF assms(1) run] generateConfigmap_keeps keepsPb_others keepsPb_trans
  have "keepsPb fs (snd (generateConfigmap w sn out2 fs1))" for out2 by blast
  with assms(2) names run gen_keeps [OF assms(1) run] keepsPb_refl show ?thesis
    by (auto simp: pbCommand_def Let_def split: option.splits go.splits)
qed

end

lemma pb_run:
  assumes "goThen (parseProtobufFiles w fs f) fs (\<lambda>(protos, imp). case replacer1 of
         None \<Rightarrow> (Err ReplacerNil, fs)
       | Some r \<Rightarrow> goThen (S imp) fs (\<lambda>(subDirs, subFiles). K protos r subDirs subFiles)) = (res, fs')"
  obtains "fs' = fs" "\<And>out. res \<noteq> Ok out"
    | protos imp r subDirs subFiles where "parseProtobufFiles w fs f = Ok (protos, imp)" "K protos r subDirs subFiles = (res, fs')"
  using assms by (auto simp: goThen_def split: go.splits option.splits prod.splits)

lemma replacer_keeps: "visitsAll (gwOs w) \<Longrightarrow> keepsFiles fs (snd (runReplacer w ds fls igd igf out ns addF r fs))"
  using runReplacer_keeps by (metis prod.collapse)

lemma pb_keeps:
  assumes "visitsAll (gwOs w)" "goThen (parseProtobufFiles w fs f) fs (\<lambda>(protos, imp). case replacer1 of
         None \<Rightarrow> (Err ReplacerNil, fs)
       | Some r \<Rightarrow> goThen (S imp) fs (\<lambda>(subDirs, subFiles).
           savePb w g protos (runReplacer w subDirs (FL subFiles) igd igf out ns addF r fs))) = (res, fs')"
  shows "keepsPb fs fs'"
  using assms(2) by (rule pb_run) (auto simp: keepsPb_refl, metis savePb_keeps replacer_keeps [OF assms(1)] snd_conv)

lemma pb_keeps_swagger:
  assumes "visitsAll (gwOs w)" "goThen (parseProtobufFiles w fs f) fs (\<lambda>(protos, imp). case replacer1 of
         None \<Rightarrow> (Err ReplacerNil, fs)
       | Some r \<Rightarrow> goThen (S imp) fs (\<lambda>(subDirs, subFiles).
           withSwagger w (savePb w g protos (runReplacer w subDirs (FL subFiles) igd igf out ns addF r fs)))) = (res, fs')"
  shows "keepsPb fs fs'"
  using assms(2)
  by (rule pb_run) (auto simp: keepsPb_refl elim!: withSwagger_keeps intro!: savePb_keeps replacer_keeps assms(1))

lemma pb_protos:
  assumes "visitsAll (gwOs w)" "goThen (parseProtobufFiles w fs f) fs (\<lambda>(protos, imp). case replacer1 of
         None \<Rightarrow> (Err ReplacerNil, fs)
       | Some r \<Rightarrow> goThen (S imp) fs (\<lambda>(subDirs, subFiles).
           savePb w g protos (runReplacer w subDirs (FL subFiles) igd igf out0 ns addF r fs))) = (Ok out, fs')"
    and "parseProtobufFiles w fs f = Ok (protos, imp)" "pb \<in> set protos" "fsFiles fs pb = Some c"
  shows "fsFiles fs' (protobufDir w (pgServer g) (pgMono g) out @ ''/'' @ GetFilename (win (gwOs w)) pb) = Some (replacePackage c (pgModule g) (pgServer g))"
proof -
  note saved = savePb_protos [OF _ replacer_keeps [OF assms(1)] assms(4,5)]
  from assms(2) show ?thesis by (rule pb_run) (use assms(3) saved in \<open>auto\<close>)
qed

lemma pb_protos_swagger:
  assumes "visitsAll (gwOs w)" "goThen (parseProtobufFiles w fs f) fs (\<lambda>(protos, imp). case replacer1 of
         None \<Rightarrow> (Err ReplacerNil, fs)
       | Some r \<Rightarrow> goThen (S imp) fs (\<lambda>(subDirs, subFiles).
           withSwagger w (savePb w g protos (runReplacer w subDirs (FL subFiles) igd igf out0 ns addF r fs)))) = (Ok out, fs')"
    and "parseProtobufFiles w fs f = Ok (protos, imp)" "pb \<in> set protos" "fsFiles fs pb = Some c"
  shows "fsFiles fs' (protobufDir w (pgServer g) (pgMono g) out @ ''/'' @ GetFilename (win (gwOs w)) pb) = Some (replacePackage c (pgModule g) (pgServer g))"
proof -
  note saved = savePb_protos [OF _ replacer_keeps [OF assms(1)] assms(4,5)]
  from assms(2) show ?thesis
  proof (rule pb_run)
    fix protos' imp' r ds fl
    assume "parseProtobufFiles w fs f = Ok (protos', imp')"
      and run: "withSwagger w (savePb w g protos' (runReplacer w ds (FL fl) igd igf out0 ns addF r fs)) = (Ok out, fs')"
    with assms(3) have "protos' = protos" by simp
    with withSwagger_protos [OF run] saved show ?thesis by metis
  qed blast
qed

interpretation httpPbServer: pb_generator httpPbGenerate
  by unfold_locales (unfold httpPbGenerate_def, (erule (1) pb_keeps_swagger), (erule (4) pb_protos_swagger))

interpretation rpcPbServer: pb_generator rpcPbGenerate
  by unfold_locales (unfold rpcPbGenerate_def, (erule (1) pb_keeps), (erule (4) pb_protos))

interpretation rpcGwPbServer: pb_generator rpcGwPbGenerate
  by unfold_locales (unfold rpcGwPbGenerate_def, (erule (1) pb_keeps_swagger), (erule (4) pb_protos_swagger))

lemma withDatabase_fields [simp]:
  "pgModule (withDatabase h a d ex g) = pgModule g" "pgServer (withDatabase h a d ex g) = pgServer g" "pgMono (withDatabase h a d ex g) = pgMono g"
  "pgProtobufFile (withDatabase h a d ex g) = pgProtobufFile g" "isHandleProtoFile (withDatabase h a d ex g) = h"
  "isAddDBInitCode (withDatabase h a d ex g) = a" "pgDriver (withDatabase h a d ex g) = d" "extraReplaceFields (withDatabase h a d ex g) = ex"
  by (simp_all add: withDatabase_def pbGenerator.defs httpAndGRPCPbGenerator.defs)

lemma savePb_withDatabase [simp]: "savePb w (withDatabase h a d ex g) = savePb w g"
  by (intro ext) (simp only: savePb_def withDatabase_fields)

lemma goThen_Ok [simp]: "goThen (Ok x) fs k = k x"
  by (simp add: goThen_def)

interpretation grpcHttpPbServer: pb_generator "\<lambda>w g. grpcHttpGenerate w (withDatabase True False [] [] g)"
  by unfold_locales (unfold grpcHttpGenerate_def withDatabase_fields savePb_withDatabase if_True if_False goThen_Ok,
    (erule (1) pb_keeps), (erule (4) pb_protos))

lemma grpcHttpGenerate_keeps:
  assumes "visitsAll (gwOs w)" "grpcHttpGenerate w (withDatabase False True d ex g) replacer1 fs = (res, fs')"
  shows "keepsPb fs fs'"
proof (cases replacer1)
  case None
  with assms(2) keepsPb_refl show ?thesis by (simp add: grpcHttpGenerate_def)
next
  case (Some r)
  note run = assms(2) [unfolded grpcHttpGenerate_def Some, simplified]
  show ?thesis
  proof (rule goThen_keeps [where Q = "keepsPb fs", OF run _ keepsPb_refl], rule goThen_keeps [where Q = "keepsPb fs", OF _ _ keepsPb_refl], assumption, goal_cases)
    case (1 sel x)
    then show ?case using savePb_keeps [OF replacer_keeps [OF assms(1)]] by (auto split: prod.splits dest!: arg_cong [where f = snd])
  qed
qed

lemma GRPCAndHTTPCommand_keeps:
  assumes "\<forall>n. visitsAll (gwOs (ws n))" "\<not> fMono f" "GRPCAndHTTPCommand ws f replacer1 fs = (res, fs')"
  shows "keepsPb fs fs'"
proof -
  note v = assms(1) [THEN spec]
  have tables: "tableLoop ws plainArgs (serviceHandlerTable m s (fMono f)) n a st ts out fs1 = (r, fs2) \<Longrightarrow> keepsPb fs1 fs2" for m s n a st ts out fs1 r fs2
    using serviceHandlerTables.loop_keeps [OF assms(1)] keepsOthers_keeps keepsPb_others assms(2) by simp
  have cfg: "keepsPb fs1 (snd (generateConfigmap w s out fs1))" for w s out fs1
    using generateConfigmap_keeps keepsPb_others by blast
  obtain pn sn e where names: "convertProjectAndServerName (ws 0) (fProject f) (fServer f) = (pn, sn, e)"
    using prod_cases3 by blast
  show ?thesis
  proof (cases e)
    case (Some x)
    with assms(3) names keepsPb_refl show ?thesis by (simp add: GRPCAndHTTPCommand_def Let_def)
  next
    case None
    let ?ts = "splitOn (CHR '','') (fTables f)" and ?a = "fArgs f"
    let ?g = "\<lambda>extra. withDatabase False True (aDBDriver ?a) extra ((newPb f pn sn (fOut f))\<lparr>pgProtobufFile := []\<rparr>)"
    have run: "goThen (extraFields (ws 0) (aDBDriver ?a) (aDBDsn ?a)) fs (\<lambda>extra.
          (case grpcHttpGenerate (ws 0) (?g extra) replacer1 fs of
             (Ok out1, fs1) \<Rightarrow>
               (case tableLoop ws plainArgs (serviceHandlerTable (fModule f) sn (fMono f)) 1 ?a () ?ts out1 (snd (generateConfigmap (ws 0) sn out1 fs1)) of
                  (Ok out2, fs2) \<Rightarrow> (Ok out2, snd (generateConfigmap (ws (Suc (length ?ts))) sn out2 fs2))
                | r \<Rightarrow> r)
           | r \<Rightarrow> r)) = (res, fs')"
      using assms(2,3) names None by (simp add: GRPCAndHTTPCommand_def Let_def)
    show ?thesis
    proof (rule goThen_keeps [where Q = "keepsPb fs", OF run _ keepsPb_refl], goal_cases)
      case (1 extra)
      obtain r fs1 where server: "grpcHttpGenerate (ws 0) (?g extra) replacer1 fs = (r, fs1)" by fastforce
      note one = grpcHttpGenerate_keeps [OF v server]
      show ?case
      proof (cases r)
        case (Ok out1)
        let ?fs2 = "snd (generateConfigmap (ws 0) sn out1 fs1)"
        obtain r2 fs2 where loop: "tableLoop ws plainArgs (serviceHandlerTable (fModule f) sn (fMono f)) 1 ?a () ?ts out1 ?fs2 = (r2, fs2)" by fastforce
        from one cfg tables [OF loop] keepsPb_trans have two: "keepsPb fs fs2" by blast
        with 1(2) server Ok loop cfg keepsPb_trans show ?thesis by (fastforce split: go.splits)
      qed (use 1(2) server one in auto)
    qed
  qed
qed

text \<open>
  The commands for protocol files leave existing files as they are, except for the project information, the
  Kubernetes map and the API description, which are written again; \<open>cache\<close>, \<open>rpc-conn\<close> and \<open>cm\<close> change none.
\<close>

theorem pb_commands_keep_files:
  assumes "\<forall>n. visitsAll (gwOs (ws n))" "fsFiles fs p = Some d"
    and "(res, fs') \<in> {CacheCommand (ws 0) fc replacer1 fs, GRPCConnectionCommand ws f names1 replacer1 fs, ConfigmapCommand (ws 0) s pn cf out replacer1 fs} \<or>
      \<not> rewrittenPb p \<and> ((res, fs') \<in> {HTTPPbCommand (ws 0) f replacer1 fs, RPCPbCommand (ws 0) f replacer1 fs, RPCGwPbCommand (ws 0) f replacer1 fs,
        GRPCAndHTTPPbCommand (ws 0) f replacer1 fs} \<or> \<not> fMono f \<and> (res, fs') = GRPCAndHTTPCommand ws f replacer1 fs)"
  shows "fsFiles fs' p = Some d"
proof -
  note v = assms(1) [THEN spec]
  from assms(3) consider
      "(res, fs') \<in> {CacheCommand (ws 0) fc replacer1 fs, GRPCConnectionCommand ws f names1 replacer1 fs, ConfigmapCommand (ws 0) s pn cf out replacer1 fs}"
    | "\<not> rewrittenPb p" "(res, fs') \<in> {HTTPPbCommand (ws 0) f replacer1 fs, RPCPbCommand (ws 0) f replacer1 fs, RPCGwPbCommand (ws 0) f replacer1 fs,
        GRPCAndHTTPPbCommand (ws 0) f replacer1 fs}"
    | "\<not> rewrittenPb p" "\<not> fMono f" "GRPCAndHTTPCommand ws f replacer1 fs = (res, fs')" by metis
  then show ?thesis
  proof cases
    case 1
    then have "keepsFiles fs fs'"
      using CacheCommand_keeps [OF v] GRPCConnectionCommand_keeps [OF assms(1)] ConfigmapCommand_keeps [OF v] by (metis insertE singletonD)
    with assms(2) show ?thesis by (simp add: keepsFiles_def)
  next
    case 2
    then have "keepsPb fs fs'"
      unfolding HTTPPbCommand_def RPCPbCommand_def RPCGwPbCommand_def GRPCAndHTTPPbCommand_def
      using httpPbServer.command_keeps [OF v] rpcPbServer.command_keeps [OF v] rpcGwPbServer.command_keeps [OF v] grpcHttpPbServer.command_keeps [OF v]
      by (metis insertE singletonD)
    with assms(2) 2(1) show ?thesis by (simp add: keepsPb_def)
  next
    case 3
    from GRPCAndHTTPCommand_keeps [OF assms(1) 3(2,3)] 3(1) assms(2) show ?thesis by (simp add: keepsPb_def)
  qed
qed

text \<open>
  C40: A server from protocol files has them all: when one of the four generators succeeds, every file that the flag
  stands for is in the project, in the directory of the server, with its packages replaced.
\<close>

theorem pb_server_protos:
  assumes "visitsAll (gwOs w)" "parseProtobufFiles w fs (pgProtobufFile g) = Ok (protos, imp)" "pb \<in> set protos" "fsFiles fs pb = Some c"
    and "(Ok out, fs') \<in> {httpPbGenerate w g replacer1 fs, rpcPbGenerate w g replacer1 fs, rpcGwPbGenerate w g replacer1 fs,
      grpcHttpGenerate w (withDatabase True False [] [] g) replacer1 fs}"
  shows "fsFiles fs' (protobufDir w (pgServer g) (pgMono g) out @ ''/'' @ GetFilename (win (gwOs w)) pb)
    = Some (replacePackage c (pgModule g) (pgServer g))"
  using assms(5) httpPbServer.gen_protos [OF assms(1) _ assms(2-4)] rpcPbServer.gen_protos [OF assms(1) _ assms(2-4)]
    rpcGwPbServer.gen_protos [OF assms(1) _ assms(2-4)] grpcHttpPbServer.gen_protos [OF assms(1) _ assms(2-4)]
  by (metis insertE singletonD)

text \<open>
  A command that keeps the flag for the Kubernetes map looks for the configuration at the root of the file system when
  there is no flag, and leaves the map with its mark.
\<close>

lemma rpc_pb_configmap:
  assumes "fOut f = []" "\<not> fMono f" "convertProjectAndServerName w (fProject f) (fServer f) = (pn, sn, None)"
    and "rpcPbGenerate w (newPb f pn sn []) replacer1 fs = (Ok out, fs1)" "fsFiles fs1 (''/configs/'' @ sn @ ''.yml'') = None"
  shows "RPCPbCommand w f replacer1 fs = (Ok [], fs1)"
  using assms by (simp add: RPCPbCommand_def pbCommand_def generateConfigmap_def convertYamlConfig_def Let_def)

lemma cachePrefix_colon: "last (cachePrefix c p) = CHR '':''"
  by (simp add: cachePrefix_def)

lemma parse_protobuf:
  "parseProtobufFiles w fs f = Ok (protos, imp) \<longleftrightarrow>
     pathExt (win (gwOs w)) f = ''.proto'' \<and> protos = FuzzyMatchFiles w fs f \<and> (\<forall>p \<in> set protos. fsFiles fs p \<noteq> None)
     \<and> (\<exists>p \<in> set protos. isExistServiceName (the (fsFiles fs p)))
     \<and> imp = (\<exists>p \<in> set protos. isDependImport (the (fsFiles fs p)) ''api/types/types.proto'')"
proof -
  have count: "countProtos fs fl = Ok (a, b) \<longleftrightarrow> (\<forall>p \<in> set fl. fsFiles fs p \<noteq> None)
      \<and> a = length (filter (\<lambda>p. isExistServiceName (the (fsFiles fs p))) fl)
      \<and> b = length (filter (\<lambda>p. isDependImport (the (fsFiles fs p)) ''api/types/types.proto'') fl)" for fl a b
    by (induction fl arbitrary: a b) (auto simp: go_bind_eq_Ok split: option.splits)
  have "a = length (filter P xs) \<Longrightarrow> (a = 0) = (\<not> (\<exists>x \<in> set xs. P x))" for a xs and P :: "string \<Rightarrow> bool"
    by (auto simp: filter_empty_conv)
  then show ?thesis
    by (auto simp: parseProtobufFiles_def Let_def go_bind_eq_Ok count filter_empty_conv split: if_splits)
qed

section \<open>Runs\<close>

definition demoPbFlags :: pbFlags where
  "demoPbFlags = serverFlags.extend demoServerFlags (pbFlags.fields ''/t/a.proto'')"

definition noCache :: cacheFlags where
  "noCache = tableFlags.extend demoFlags (cacheFlags.fields ''c'' [] ''id'' ''uint64'' ''v'' ''string'')"

theorem pb_commands_keep_files_witness:
  "fsFiles (snd (HTTPPbCommand demoWorld demoPbFlags None markedFs)) ''/t/user.go'' = Some ''a<b>c''"
proof -
  let ?r = "HTTPPbCommand demoWorld demoPbFlags None markedFs"
  have "\<forall>n. visitsAll (gwOs ((\<lambda>_. demoWorld) n))" by (simp add: demoWorld_def runEnv_visits)
  moreover have "fsFiles markedFs ''/t/user.go'' = Some ''a<b>c''" by (simp add: markedFs_def)
  moreover have "\<not> rewrittenPb ''/t/user.go''" by code_simp
  ultimately show ?thesis
    using pb_commands_keep_files [of "\<lambda>_. demoWorld" markedFs "''/t/user.go''" "''a<b>c''" "fst ?r" "snd ?r" noCache None demoPbFlags "[]" "[]" "[]" "[]" "[]"]
    by simp
qed

definition emptyInfo :: replacerInfo where
  "emptyInfo = runInfo\<lparr>rFiles := []\<rparr>"

definition demoPb :: pbGenerator where
  "demoPb = \<lparr>pgModule = ''m'', pgServer = ''u'', pgProject = ''p'', pgProtobufFile = ''/t/a.proto'', pgRepo = [], pgOut = ''/o'', pgMono = False\<rparr>"

definition demoProto :: string where
  "demoProto = NL @ ''package x;'' @ NL @ ''service S {}''"

definition pbFs :: fsys where
  "pbFs = \<lparr>fsFiles = [''/t/a.proto'' \<mapsto> demoProto], fsDirs = (\<lambda>_. False)\<rparr>"

lemma no_templates:
  assumes "rFiles r = []"
  shows "deleteFieldsMark w fs r f a b = Ok []" "deleteAllFieldsMark w fs r f a b = Ok []"
  using assms by (simp_all add: deleteFieldsMark_def deleteAllFieldsMark_def ReadFile_def Let_def)

lemma rpcPb_fields: "rFiles r = [] \<Longrightarrow> \<exists>fl. rpcPbAddFields w fs g r = Ok fl"
  by (simp add: rpcPbAddFields_def Let_def no_templates)

lemma demo_replacer:
  assumes "\<And>r. rFiles r = [] \<Longrightarrow> \<exists>fl. addF r = Ok fl"
  shows "\<exists>r. runReplacer demoWorld ds fls igd igf ''/o'' ns addF emptyInfo fs = (Ok r, fs) \<and> outPath r = ''/o''"
proof -
  let ?r = "(SetIgnoreSubFiles igf (SetIgnoreSubDirs runEnv igd (SetSubDirsAndFiles runEnv ds fls emptyInfo)))\<lparr>outPath := ''/o''\<rparr>"
  have "rFiles ?r = []" by (simp add: SetIgnoreSubFiles_def SetIgnoreSubDirs_def SetSubDirsAndFiles_def emptyInfo_def Let_def)
  with assms obtain fl where fl: "addF ?r = Ok fl" by blast
  have "SetOutputDir runEnv ''/o'' ns r = Inr (r\<lparr>outPath := ''/o''\<rparr>)" for r by (simp add: SetOutputDir_def runEnv_def)
  moreover have "SaveFiles runEnv (SetReplacementFields fl ?r) fs = (None, SetReplacementFields fl ?r, fs)"
    using \<open>rFiles ?r = []\<close> by (simp add: SaveFiles_def SetReplacementFields_def withOutPath_def Let_def runEnv_def)
  ultimately show ?thesis using fl by (simp add: runReplacer_def Let_def demoWorld_def SetReplacementFields_def)
qed

lemma demo_parse: "parseProtobufFiles demoWorld pbFs ''/t/a.proto'' = Ok ([''/t/a.proto''], False)"
  by code_simp

lemma demo_pb_run: "\<exists>fs'. rpcPbGenerate demoWorld demoPb (Some emptyInfo) pbFs = (Ok ''/o'', fs')"
proof -
  let ?run = "\<lambda>fl. runReplacer demoWorld rpcPbSubDirs fl [''cmd/sponge''] [''scripts/swag-docs.sh'', ''configs/serverNameExample_cc.yml'']
      ''/o'' [''u'' @ ''_'' @ codeNameGRPCPb] (rpcPbAddFields demoWorld pbFs demoPb) emptyInfo pbFs"
  have "\<exists>r. ?run fl = (Ok r, pbFs) \<and> outPath r = ''/o''" for fl
    by (rule demo_replacer) (rule rpcPb_fields)
  then obtain r where run: "?run (rpcPbSubFiles @ getSubFiles (gwVisit demoWorld 1) rpcPbSelect []) = (Ok r, pbFs)" "outPath r = ''/o''" by blast
  have "fst (saveProtobufFiles demoWorld ''m'' ''u'' (protobufDir demoWorld ''u'' False ''/o'') [''/t/a.proto''] pbFs) = None" by code_simp
  then have "\<exists>fs1. saveProtobufFiles demoWorld ''m'' ''u'' (protobufDir demoWorld ''u'' False ''/o'') [''/t/a.proto''] pbFs = (None, fs1)"
    by (metis prod.collapse)
  with run show ?thesis
    by (auto simp: rpcPbGenerate_def demo_parse demoPb_def pbFiles_def savePb_def)
qed

theorem pb_server_protos_witness:
  "\<exists>fs'. rpcPbGenerate demoWorld demoPb (Some emptyInfo) pbFs = (Ok ''/o'', fs') \<and>
     fsFiles fs' ''/o/api/u/v1/a.proto'' = Some (replacePackage demoProto ''m'' ''u'')"
proof -
  from demo_pb_run obtain fs' where run: "rpcPbGenerate demoWorld demoPb (Some emptyInfo) pbFs = (Ok ''/o'', fs')" by blast
  have "visitsAll (gwOs demoWorld)" by (simp add: demoWorld_def runEnv_visits)
  moreover have "parseProtobufFiles demoWorld pbFs (pgProtobufFile demoPb) = Ok ([''/t/a.proto''], False)" by (simp add: demoPb_def demo_parse)
  moreover have "''/t/a.proto'' \<in> set [''/t/a.proto'']" "fsFiles pbFs ''/t/a.proto'' = Some demoProto" by (simp_all add: pbFs_def)
  moreover have "(Ok ''/o'', fs') \<in> {httpPbGenerate demoWorld demoPb (Some emptyInfo) pbFs, rpcPbGenerate demoWorld demoPb (Some emptyInfo) pbFs,
      rpcGwPbGenerate demoWorld demoPb (Some emptyInfo) pbFs, grpcHttpGenerate demoWorld (withDatabase True False [] [] demoPb) (Some emptyInfo) pbFs}"
    using run by simp
  ultimately have "fsFiles fs' (protobufDir demoWorld (pgServer demoPb) (pgMono demoPb) ''/o'' @ ''/'' @ GetFilename (win (gwOs demoWorld)) ''/t/a.proto'')
      = Some (replacePackage demoProto (pgModule demoPb) (pgServer demoPb))"
    by (rule pb_server_protos)
  moreover have "protobufDir demoWorld (pgServer demoPb) (pgMono demoPb) ''/o'' @ ''/'' @ GetFilename (win (gwOs demoWorld)) ''/t/a.proto''
      = ''/o/api/u/v1/a.proto''" by code_simp
  ultimately show ?thesis using run by (simp add: demoPb_def)
qed

end
