(* ===== verification/Spec2Isabelle.thy ===== *)
theory Spec2Isabelle
  imports GormQuery MongoQuery Breaker Bbr TokenStore Jwt SseHub SseClient SqlNames SqlTypes Sql2Code DbSchema
    Versions SymCrypt AuthToken WhereOpts Replacer GoMerge ErrCode ProtoParse GenPb
begin

text \<open>
  A verification library of milady, a generator of Go services and the packages such services run on.

  The program has two halves. The generator (\<open>pkg/sql2code\<close>, called by \<open>cmd/milady\<close>) turns the statement
  \<open>CREATE TABLE\<close> of a table, or the schema of a live database, into model, DAO, handler, service and proto
  code. The run-time packages under \<open>pkg/\<close> are used by the generated services: query conditions, overload
  protection, authentication and server-sent events. The halves meet in the white list of column names that
  the generator writes and the query packages enforce; the property of this theory is about that.

  \<^bold>\<open>Library.\<close>
  \<^item> \<open>Prelude\<close>: outcomes of Go functions (value, error, panic), 64-bit integers with their wrap-around,
    float64 as rationals with a rounding function, functional options.
  \<^item> \<open>GoStrings\<close>: the functions of \<open>strings\<close>, \<open>strconv\<close> and \<open>unicode/utf8\<close> that the code calls, on byte strings.
  \<^item> \<open>QueryValue\<close>: the dynamic values of query conditions.

  \<^bold>\<open>Query conditions.\<close>
  \<^item> \<open>GormQuery\<close> (\<open>pkg/sgorm/query\<close>): \<open>ConvertToGormConditions\<close>, operators, pages and sorting. The SQL text
    depends only on names, operators and logic; placeholders match arguments; the white list is enforced;
    LIKE values, the IN form, page bounds and the panics of \<open>getSort\<close>.
  \<^item> \<open>MongoQuery\<close> (\<open>pkg/mgo/query\<close>): both filter builders, with the in-place changes of the columns. The flat
    builder is equivalent to the condition in which and binds tighter than or; the stack builder accepts
    exactly balanced groups; the conditions it loses.
  \<^item> \<open>WhereOpts\<close> (\<open>pkg/store/where\<close>): the options of the generic store. The filter of the tenant survives the later
    options and reaches the query.

  \<^bold>\<open>Overload protection.\<close>
  \<^item> \<open>RollingWindow\<close> (\<open>pkg/shield/window\<close>): ring of buckets, iterator, rolling policy and counter. The counter
    refines a log of timed values cut to the window (locale \<open>rolling_counter\<close>, interpreted on the code).
  \<^item> \<open>Breaker\<close> (\<open>pkg/shield/circuitbreaker\<close>) and \<open>Bbr\<close> (\<open>pkg/shield/ratelimit\<close>): the two clients of the window.
    Their decisions as functions of the marks of the window, their invariants over all runs, and when the
    limiter rejects.

  \<^bold>\<open>Authentication.\<close>
  \<^item> \<open>TokenStore\<close> (\<open>pkg/jwt/core\<close>, \<open>pkg/jwt/store/memory.go\<close>): the interface of refresh-token stores as the locale
    \<open>token_store\<close>, and the in-memory store, which refines a map for every sequence of operations.
  \<^item> \<open>Jwt\<close> (\<open>pkg/jwt/jwt.go\<close>): initialisation, token lookup, middleware, login, logout and refresh over any such
    store (locale \<open>refresh_store\<close>). What a request needs to pass, what an issued token carries, that a refresh
    token is used once, and the race of overlapping refreshes.
  \<^item> \<open>AuthToken\<close> (\<open>pkg/token\<close>): the package-level configuration, path patterns that skip authentication, signing
    and parsing. What a request needs to get an identity, and which paths a pattern skips.

  \<^bold>\<open>Errors.\<close>
  \<^item> \<open>ErrCode\<close> (\<open>pkg/errcode\<close>): registered error codes, their texts, and their translation into gRPC and HTTP codes and
    into responses. Parsing inverts printing, what a response contains, and where translations differ.

  \<^bold>\<open>Server-sent events.\<close>
  \<^item> \<open>SseHub\<close> (\<open>hub.go\<close>, \<open>server.go\<close>, \<open>safemap.go\<close>, \<open>event.go\<close> of \<open>pkg/sse\<close>): the goroutines of the hub as a step relation
    with an invariant over all interleavings, and two ways in which connections are lost.
  \<^item> \<open>SseClient\<close> (\<open>client.go\<close>): the wire format read back by the client, and the reconnection loop.

  \<^bold>\<open>The generator.\<close>
  \<^item> \<open>SqlNames\<close> (\<open>nameFormat.go\<close>): identifiers and JSON names, and on which of them the random visiting order of
    a Go map shows.
  \<^item> \<open>SqlTypes\<close> (type functions of \<open>parser.go\<close> and \<open>commonParser.go\<close>): the types of a column in SQL, Go and proto
    files; comments stay comments.
  \<^item> \<open>Sql2Code\<close> (\<open>sql2code.go\<close>, \<open>parser.go\<close>, \<open>commonParser.go\<close>, \<open>tableInfo.go\<close>, \<open>option.go\<close>): arguments, options, the data
    of the templates, and the text of every kind of code. Fields correspond to columns; which column
    becomes the key of the generated interface; names agree between the kinds of code.
  \<^item> \<open>DbSchema\<close> (\<open>sqlite.go\<close>, \<open>postgresql.go\<close>, \<open>mongodb.go\<close>): from columns or documents to a \<open>CREATE TABLE\<close> statement.
  \<^item> \<open>Replacer\<close> (\<open>pkg/replacer\<close>, listings of \<open>pkg/gofile\<close>): copies a tree of templates with its texts and paths
    replaced, over a model of the file system. Existing files are kept, and everything selected is written.
  \<^item> \<open>GenText\<close> (\<open>template.go\<close> and the constants of \<open>common.go\<close> in \<open>cmd/milady/commands/generate\<close>): the texts that the
    commands insert, and the marks at which they do.
  \<^item> \<open>GenCommon\<close> (\<open>common.go\<close>, \<open>init.go\<close>, \<open>pkg/gofile/fileContent.go\<close>): what the commands share. Project information is
    read back as it was saved, marked blocks and package names are replaced as meant, the Go version is the
    greater one, and protocol files arrive in the shared directory of a mono repository.
  \<^item> \<open>GenTable\<close> (\<open>dao.go\<close>, \<open>handler.go\<close>, \<open>service.go\<close>, \<open>store.go\<close>, \<open>model.go\<close>, \<open>protobuf.go\<close>): the commands that add the code
    of tables to a project, each a choice of template files, a list of replacement fields and a run of the
    replacer in a loop over tables (locale \<open>table_generator\<close>, interpreted on each). They keep existing files.
  \<^item> \<open>GenServer\<close> (\<open>http.go\<close>, \<open>rpc.go\<close>): the commands that make a server and add its tables (locale \<open>server_generator\<close>,
    interpreted on both). What they write again, and that all tables of a server are made from the same files,
    with one exception.
  \<^item> \<open>GenPb\<close> (\<open>handler-pb.go\<close>, \<open>service-handler.go\<close>, \<open>http-pb.go\<close>, \<open>rpc-pb.go\<close>, \<open>rpc-gw-pb.go\<close>, \<open>grpc-http-pb.go\<close>, \<open>grpc-http.go\<close>,
    \<open>cache.go\<close>, \<open>rpc-conn.go\<close>, \<open>configmap.go\<close>): the commands for protocol files and the small ones (locale \<open>pb_generator\<close>,
    interpreted on the four servers). Every protocol file arrives in the project, and which files are written again.
  \<^item> \<open>GoAst\<close> and \<open>GoMerge\<close> (\<open>pkg/goast\<close>): reading Go files as blocks and groups of declarations, filtering the
    functions to be written, and merging newly generated code into edited code. Merging only inserts
    (locale \<open>type_changes\<close>, interpreted twice on the changes of types), a file merged into itself is
    unchanged, new functions arrive, and local variables escape from function bodies.
  \<^item> \<open>ProtoParse\<close> (\<open>internal/parse\<close> of the protoc plugins under \<open>cmd/\<close>): from descriptors of services to the data of the
    templates for routers, handlers and services. Handler names are different, and what the verb, path and
    flags of a handler are.

  \<^bold>\<open>Utilities.\<close>
  \<^item> \<open>Versions\<close> (\<open>pkg/utils/version\<close>): semantic and generic versions. Printing and parsing are inverse; the
    comparison is the precedence of the specification where identifiers are numbers or start with a
    letter (locale \<open>three_way\<close>, interpreted on both kinds of versions) and has a cycle elsewhere; the highest
    supported version is a maximum.
  \<^item> \<open>SymCrypt\<close> (\<open>pkg/gocrypto/wcipher\<close>, \<open>aes.go\<close>, \<open>des.go\<close>): padding, modes and stateful ciphers. Decryption inverts
    encryption, for single calls and for sessions in order; malformed ciphertext panics.

  \<^bold>\<open>Bounds and fuel.\<close> Loops of the source are structural recursions. Fuel appears twice: \<open>resendLoop\<close> follows
  a store that may answer with pages forever, and \<open>connectLoop\<close> is a loop without a limit; five steps are
  enough for the run that gives up, and that the other run never returns is proved for all fuel. Counters
  of the hub are unbounded naturals; integers that can overflow are kept at 64 bits.

  \<^bold>\<open>Parameters.\<close> Code outside the repository is an argument with named hypotheses: \<open>golang-jwt\<close> (\<open>parse_sound\<close>),
  JSON (\<open>jsonLaws\<close>), rounding (\<open>float64_rounding\<close>), the order of map visits (\<open>mapOrder\<close>), block ciphers
  (\<open>newCipherLaws\<close>, \<open>libRoundTrip\<close> for tokens, \<open>visitsAll\<close> for map visits of the replacer), the SQL parser,
  \<open>text/template\<close>, \<open>go/parser\<close>, \<open>go/printer\<close> and \<open>go/format\<close>, \<open>xstrings\<close>, \<open>inflection\<close>, \<open>net/url\<close>, HTTP, time and random bytes.

  \<^bold>\<open>Not modelled.\<close> Cobra flags, prompts and messages, and the commands of \<open>cmd/\<close> for custom templates,
  configuration structs, API descriptions, plugins and upgrades; the templates of \<open>sql2code\<close>, which are for \<open>text/template\<close>; the clients of
  external systems (Redis, Kafka, RabbitMQ, Consul, etcd, Nacos, databases), the glue to gin, gRPC and
  OpenTelemetry, the reading of CPU statistics, hashes and RSA, option structs and logging. \<open>pkg/jy2struct\<close> merges
  decoded maps and slices in place, and its result depends on their aliasing.
\<close>

section \<open>Generated code and the queries it guards\<close>

text \<open>
  C20: The white list that the generator writes for a relational table has exactly the columns of the
  table, with an embedded model also the four columns of that model; and a query whose names are checked
  against it is converted only when it names columns of that list. Column names that collide with the
  placeholder of the embedded model are excluded.
\<close>
theorem generated_whitelist_guards:
  assumes "makeData g ct opt = Ok (d, imps)" "oDBDriver opt \<noteq> DBDriverMongodb"
    and "\<forall>f\<in>set (dFields d). fName f \<noteq> ''__mysqlModel__'' \<and> fColName f \<noteq> ''__mysqlModel__''"
    and "ConvertToGormConditions P p [WithWhitelistNames (Some (\<lambda>n. n \<in> set (whitelist d imps emb)))] = Ok (str, args)"
  shows "set (whitelist d imps emb) = cdName ` set (ctCols ct) \<union>
      (if emb then {''id'', ''created_at'', ''updated_at'', ''deleted_at''} else {}) \<and>
    (\<forall>c\<in>set (pColumns p). cName c \<in> cdName ` set (ctCols ct) \<or>
       (emb \<and> cName c \<in> {''id'', ''created_at'', ''updated_at'', ''deleted_at''}))"
proof -
  have w: "set (whitelist d imps emb) = cdName ` set (ctCols ct) \<union>
      (if emb then {''id'', ''created_at'', ''updated_at'', ''deleted_at''} else {})"
    using whitelist_columns [OF assms(1-3)] by (cases emb) simp_all
  have "cName c \<in> set (whitelist d imps emb)" if "c \<in> set (pColumns p)" for c
    using convert_names [OF assms(4) _ that] by (simp add: WithWhitelistNames_def)
  then show ?thesis using w by (cases emb) auto
qed

definition ordersQuery :: "unit params" where
  "ordersQuery = \<lparr>pPage = 0, pLimit = 10, pSort = [],
     pColumns = [\<lparr>cName = ''user_id'', cExp = ''gt'', cValue = GInt 7, cLogic = []\<rparr>], pSize = 0\<rparr>"

theorem generated_whitelist_guards_witness:
  "\<exists>d imps. makeData demoGenv ordersTable defaultOptions = Ok (d, imps) \<and>
     set (whitelist d imps False) = {''id'', ''user_id''} \<and> (\<forall>c\<in>set (pColumns ordersQuery). cName c \<in> {''id'', ''user_id''})"
proof -
  obtain d imps where d: "makeData demoGenv ordersTable defaultOptions = Ok (d, imps)"
    using makeData_outcome [of demoGenv ordersTable defaultOptions]
    by (cases "makeData demoGenv ordersTable defaultOptions") (auto simp: ordersTable_def)
  have f: "\<forall>f\<in>set (dFields d). fName f \<noteq> ''__mysqlModel__'' \<and> fColName f \<noteq> ''__mysqlModel__''"
    unfolding demo_fields [OF d] by code_simp
  have m: "oDBDriver defaultOptions \<noteq> DBDriverMongodb" by (simp add: defaultOptions_def)
  have cols: "cdName ` set (ctCols ordersTable) = {''id'', ''user_id''}" by (auto simp: ordersTable_def)
  let ?w = "\<lambda>n. n \<in> set (whitelist d imps False)"
  have w: "?w = (\<lambda>n. n \<in> set [''id'', ''user_id''])"
    using whitelist_columns [OF d m f] cols by auto
  have "ConvertToGormConditions no_parsers ordersQuery [WithWhitelistNames (Some ?w)] = Ok (''user_id > ?'', [GInt 7])"
    unfolding w by code_simp
  from generated_whitelist_guards [OF d m f this] show ?thesis using d cols by auto
qed

end
